(* ===== verification/Prelude.thy ===== *)
theory Prelude
  imports Main "HOL-Library.AList" "HOL-Library.Sublist"
begin

text \<open>
  Shared vocabulary of the development: Go strings and integers as the operator uses them
  (\<open>strings.Split\<close>, \<open>strings.Join\<close>, \<open>strings.CutPrefix\<close>, \<open>strings.Contains\<close>,
  \<open>strconv.Itoa\<close>, \<open>strconv.Atoi\<close>, conversion to \<open>int32\<close>), errors as values, results of
  functions that may panic, and the lemmas on lists and association lists that the
  components share.

  The collection \<open>go_unfold\<close> gathers the equations that turn a handler into its branches;
  \<open>go_splits\<close> bundles the case splits of a call result.
\<close>

named_theorems go_unfold \<open>unfolding equations of handlers\<close>

section \<open>Errors, results, panics\<close>

text \<open>
  An error value: what \<open>apierrors.IsNotFound\<close>, \<open>IsAlreadyExists\<close> and \<open>IsConflict\<close>
  tell apart, and every other error (\<open>errors.New\<close>, \<open>fmt.Errorf\<close>, a failed remote call)
  with its message.
\<close>

datatype go_error = NotFound | AlreadyExists | Conflict | Failure string

text \<open>
  A Go call that may panic (nil dereference, index out of range) gives \<open>Panic\<close>; one that
  returns gives \<open>Ret\<close> of what it returns.
\<close>

datatype 'a go = Panic | Ret 'a

definition returns :: "'a go \<Rightarrow> bool" where
  "returns r \<longleftrightarrow> (case r of Panic \<Rightarrow> False | Ret _ \<Rightarrow> True)"

lemma returns_simps [simp]: "\<not> returns Panic" "returns (Ret x)"
  by (simp_all add: returns_def)

lemma returnsE: "returns r \<Longrightarrow> (\<And>x. r = Ret x \<Longrightarrow> P) \<Longrightarrow> P"
  by (cases r) auto

lemmas go_splits = prod.splits sum.splits option.splits if_splits go.splits

text \<open>\<open>ctrl.Result\<close>: requeue at once, or after a number of seconds (0: not).\<close>

record ctrl_result =
  Requeue :: bool
  RequeueAfter :: nat

definition result_none :: ctrl_result where
  "result_none = \<lparr>Requeue = False, RequeueAfter = 0\<rparr>"

definition result_requeue :: ctrl_result where
  "result_requeue = \<lparr>Requeue = True, RequeueAfter = 0\<rparr>"

definition result_after :: "nat \<Rightarrow> ctrl_result" where
  "result_after n = \<lparr>Requeue = False, RequeueAfter = n\<rparr>"

lemmas result_defs = result_none_def result_requeue_def result_after_def

lemma result_distinct [simp]:
  "result_none \<noteq> result_requeue" "result_requeue \<noteq> result_none"
  "result_after n \<noteq> result_requeue" "result_requeue \<noteq> result_after n"
  "(result_after n = result_none) = (n = 0)" "(result_none = result_after n) = (n = 0)"
  "(result_after n = result_after m) = (n = m)"
  by (auto simp: result_defs)

text \<open>The Go triple \<open>(ctrl.Result, error, bool)\<close> that the step functions return.\<close>

type_synonym step_result = "ctrl_result \<times> go_error option \<times> bool"

section \<open>Strings\<close>

text \<open>\<open>strings.Split(s, sep)\<close> for a separator of one character.\<close>

fun split_on :: "char \<Rightarrow> string \<Rightarrow> string list" where
  "split_on c [] = [[]]"
| "split_on c (x # xs) =
     (if x = c then [] # split_on c xs
      else (case split_on c xs of [] \<Rightarrow> [[x]] | y # ys \<Rightarrow> (x # y) # ys))"

text \<open>\<open>strings.Join(l, sep)\<close>.\<close>

fun join_with :: "char \<Rightarrow> string list \<Rightarrow> string" where
  "join_with c [] = []"
| "join_with c [s] = s"
| "join_with c (s # t # ss) = s @ [c] @ join_with c (t # ss)"

text \<open>\<open>strings.CutPrefix(s, p)\<close>: the rest of the string when it starts with \<open>p\<close>.\<close>

definition cut_prefix :: "string \<Rightarrow> string \<Rightarrow> string option" where
  "cut_prefix s p = (if take (length p) s = p then Some (drop (length p) s) else None)"

definition has_prefix :: "string \<Rightarrow> string \<Rightarrow> bool" where
  "has_prefix s p \<longleftrightarrow> take (length p) s = p"

definition has_suffix :: "string \<Rightarrow> string \<Rightarrow> bool" where
  "has_suffix s p \<longleftrightarrow> length p \<le> length s \<and> drop (length s - length p) s = p"

fun str_contains :: "string \<Rightarrow> string \<Rightarrow> bool" where
  "str_contains [] p = (p = [])"
| "str_contains (x # xs) p = (take (length p) (x # xs) = p \<or> str_contains xs p)"

text \<open>\<open>strings.ToLower\<close> on the ASCII letters.\<close>

definition to_lower_char :: "char \<Rightarrow> char" where
  "to_lower_char c =
     (if 65 \<le> (of_char c :: nat) \<and> (of_char c :: nat) \<le> 90
      then char_of ((of_char c :: nat) + 32) else c)"

definition to_lower :: "string \<Rightarrow> string" where
  "to_lower s = map to_lower_char s"

lemma split_on_not_Nil [simp]: "split_on c s \<noteq> []"
  by (induction s) (auto split: list.splits)

lemma split_on_no_sep: "c \<notin> set s \<Longrightarrow> split_on c s = [s]"
  by (induction s) auto

lemma split_on_append_sep: "c \<notin> set s \<Longrightarrow> split_on c (s @ c # t) = s # split_on c t"
  by (induction s) auto

lemma split_on_append_snoc:
  "c \<notin> set t \<Longrightarrow> split_on c (s @ c # t) = split_on c s @ [t]"
proof (induction s)
  case Nil
  then show ?case by (simp add: split_on_no_sep)
next
  case (Cons x s)
  then show ?case by (auto split: list.splits)
qed

lemma join_Cons: "ss \<noteq> [] \<Longrightarrow> join_with c (s # ss) = s @ c # join_with c ss"
  by (cases ss) auto

lemma join_snoc: "ss \<noteq> [] \<Longrightarrow> join_with c (ss @ [t]) = join_with c ss @ c # t"
proof (induction ss)
  case Nil
  then show ?case by simp
next
  case (Cons s ss)
  then show ?case by (cases "ss = []") (simp_all add: join_Cons)
qed

lemma join_split [simp]: "join_with c (split_on c s) = s"
proof (induction s)
  case Nil
  then show ?case by simp
next
  case (Cons x s)
  show ?case
  proof (cases "x = c")
    case True
    with Cons show ?thesis by (simp add: join_Cons)
  next
    case False
    obtain y ys where yys: "split_on c s = y # ys"
      by (meson neq_Nil_conv split_on_not_Nil)
    with Cons have "join_with c (y # ys) = s" by simp
    then have "join_with c ((x # y) # ys) = x # s" by (cases ys) auto
    with False yys show ?thesis by simp
  qed
qed

lemma cut_prefix_append [simp]: "cut_prefix (p @ s) p = Some s"
  by (simp add: cut_prefix_def)

lemma cut_prefix_SomeD: "cut_prefix s p = Some r \<Longrightarrow> s = p @ r"
  by (auto simp: cut_prefix_def split: if_splits) (metis append_take_drop_id)

section \<open>Integers and their decimal notation\<close>

fun nat_digits :: "nat \<Rightarrow> string" where
  "nat_digits n =
     (if n < 10 then [char_of (n + 48)] else nat_digits (n div 10) @ [char_of (n mod 10 + 48)])"

declare nat_digits.simps [simp del]

text \<open>\<open>strconv.Itoa\<close>, and \<open>fmt.Sprint\<close> of an \<open>int\<close>.\<close>

definition itoa :: "int \<Rightarrow> string" where
  "itoa i = (if i < 0 then CHR ''-'' # nat_digits (nat (- i)) else nat_digits (nat i))"

definition is_digit :: "char \<Rightarrow> bool" where
  "is_digit c \<longleftrightarrow> 48 \<le> (of_char c :: nat) \<and> (of_char c :: nat) \<le> 57"

definition digits_value :: "string \<Rightarrow> nat" where
  "digits_value s = foldl (\<lambda>a c. a * 10 + (of_char c - 48)) 0 s"

text \<open>\<open>strconv.Atoi\<close>: an optional sign, decimal digits, and a value that fits 64 bits.\<close>

definition atoi :: "string \<Rightarrow> int option" where
  "atoi s =
     (let (neg, ds) =
        (case s of
           [] \<Rightarrow> (False, [])
         | c # cs \<Rightarrow> if c = CHR ''-'' then (True, cs) else if c = CHR ''+'' then (False, cs)
                    else (False, s))
      in if ds = [] \<or> \<not> list_all is_digit ds then None
         else let v = (if neg then - int (digits_value ds) else int (digits_value ds))
              in if - (2 ^ 63) \<le> v \<and> v < 2 ^ 63 then Some v else None)"

text \<open>The conversion \<open>int32(n)\<close>.\<close>

definition to_int32 :: "int \<Rightarrow> int" where
  "to_int32 n = (n + 2 ^ 31) mod 2 ^ 32 - 2 ^ 31"

lemma to_int32_id: "- (2 ^ 31) \<le> n \<Longrightarrow> n < 2 ^ 31 \<Longrightarrow> to_int32 n = n"
  by (simp add: to_int32_def)

lemma of_char_digit: "n < 10 \<Longrightarrow> of_char (char_of (n + 48 :: nat)) = n + 48"
  by simp

lemma nat_digits_not_Nil [simp]: "nat_digits n \<noteq> []"
  by (subst nat_digits.simps) simp

lemma nat_digits_is_digit: "list_all is_digit (nat_digits n)"
proof (induction n rule: nat_digits.induct)
  case (1 n)
  have m: "n mod 10 < 10" by simp
  show ?case
  proof (cases "n < 10")
    case True
    then show ?thesis by (subst nat_digits.simps) (simp add: is_digit_def)
  next
    case False
    with "1.IH" have "list_all is_digit (nat_digits (n div 10))" by simp
    moreover have "is_digit (char_of (n mod 10 + 48))"
      using m by (simp add: is_digit_def)
    ultimately show ?thesis using False by (subst nat_digits.simps) simp
  qed
qed

lemma digits_value_snoc: "digits_value (s @ [c]) = digits_value s * 10 + (of_char c - 48)"
  by (simp add: digits_value_def)

lemma digits_value_nat_digits [simp]: "digits_value (nat_digits n) = n"
proof (induction n rule: nat_digits.induct)
  case (1 n)
  show ?case
  proof (cases "n < 10")
    case True
    then show ?thesis by (subst nat_digits.simps) (simp add: digits_value_def)
  next
    case False
    with "1.IH" show ?thesis by (subst nat_digits.simps) (simp add: digits_value_snoc)
  qed
qed

lemma nat_digits_inj: "nat_digits n = nat_digits m \<Longrightarrow> n = m"
  by (metis digits_value_nat_digits)

lemma nat_digits_no_char: "\<not> is_digit c \<Longrightarrow> c \<notin> set (nat_digits n)"
  using nat_digits_is_digit [of n] by (auto simp: list_all_iff)

lemma not_digit_chars [simp]:
  "\<not> is_digit CHR ''-''" "\<not> is_digit CHR ''+''" "\<not> is_digit CHR '',''"
  by (simp_all add: is_digit_def)

lemma nat_digits_hd: "\<exists>c cs. nat_digits n = c # cs \<and> is_digit c"
  using nat_digits_is_digit [of n] nat_digits_not_Nil [of n]
  by (cases "nat_digits n") auto

theorem atoi_itoa:
  assumes "- (2 ^ 63) \<le> i" and "i < 2 ^ 63"
  shows "atoi (itoa i) = Some i"
proof (cases "i < 0")
  case True
  with assms show ?thesis
    by (simp add: itoa_def atoi_def nat_digits_is_digit)
next
  case False
  obtain c cs where c: "nat_digits (nat i) = c # cs" "is_digit c"
    using nat_digits_hd by blast
  then have "c \<noteq> CHR ''-''" "c \<noteq> CHR ''+''" by auto
  moreover have "list_all is_digit (c # cs)" "digits_value (c # cs) = nat i"
    using nat_digits_is_digit [of "nat i"] digits_value_nat_digits [of "nat i"] c by simp_all
  ultimately show ?thesis
    using False assms c by (simp add: itoa_def atoi_def)
qed

lemma itoa_inj: "itoa i = itoa j \<Longrightarrow> i = j"
proof (cases "i < 0"; cases "j < 0")
  assume "itoa i = itoa j" "i < 0" "j < 0"
  then have "nat (- i) = nat (- j)" by (simp add: itoa_def nat_digits_inj)
  with \<open>i < 0\<close> \<open>j < 0\<close> show "i = j" by simp
next
  assume "itoa i = itoa j" "i < 0" "\<not> j < 0"
  then have "CHR ''-'' \<in> set (nat_digits (nat j))"
    by (simp add: itoa_def) (metis list.set_intros(1))
  then show "i = j" using nat_digits_no_char by auto
next
  assume "itoa i = itoa j" "\<not> i < 0" "j < 0"
  then have "CHR ''-'' \<in> set (nat_digits (nat i))"
    by (simp add: itoa_def)
  then show "i = j" using nat_digits_no_char by auto
next
  assume "itoa i = itoa j" "\<not> i < 0" "\<not> j < 0"
  then have "nat i = nat j" by (simp add: itoa_def nat_digits_inj)
  with \<open>\<not> i < 0\<close> \<open>\<not> j < 0\<close> show "i = j" by simp
qed

lemma itoa_nat: "itoa (int n) = nat_digits n"
  by (simp add: itoa_def)

lemma itoa_no_dash: "CHR ''-'' \<notin> set (itoa (int n))"
  by (simp add: itoa_nat nat_digits_no_char)

lemma itoa_0: "itoa 0 = ''0''" and itoa_1: "itoa 1 = ''1''"
  by code_simp+

section \<open>Maps of strings\<close>

text \<open>
  A Go \<open>map[string]string\<close> of labels is an association list. A nil map and an empty map
  are both the empty list: an object decoded from the API server without labels has a nil map.
\<close>

type_synonym labels = "(string \<times> string) list"

definition label_or_empty :: "labels \<Rightarrow> string \<Rightarrow> string" where
  "label_or_empty ls k = (case map_of ls k of None \<Rightarrow> '''' | Some v \<Rightarrow> v)"

text \<open>\<open>client.MatchingLabels\<close>: every pair of the selector is a label of the object.\<close>

definition matches_labels :: "labels \<Rightarrow> labels \<Rightarrow> bool" where
  "matches_labels sel ls \<longleftrightarrow> list_all (\<lambda>(k, v). map_of ls k = Some v) sel"

lemma matches_labels_simps [simp]:
  "matches_labels [] ls"
  "matches_labels ((k, v) # sel) ls \<longleftrightarrow> map_of ls k = Some v \<and> matches_labels sel ls"
  by (simp_all add: matches_labels_def)

text \<open>\<open>os.Getenv\<close>: the empty string for a variable that is not set.\<close>

type_synonym environ = "string \<rightharpoonup> string"

definition getenv :: "environ \<Rightarrow> string \<Rightarrow> string" where
  "getenv E k = (case E k of None \<Rightarrow> '''' | Some v \<Rightarrow> v)"

section \<open>Lists\<close>

lemma find_Some_iff': "find P xs = Some x \<Longrightarrow> x \<in> set xs \<and> P x"
  by (auto simp: find_Some_iff)

lemma find_append: "find P (xs @ ys) = (case find P xs of None \<Rightarrow> find P ys | Some x \<Rightarrow> Some x)"
  by (induction xs) auto

lemma distinct_map_find:
  "distinct (map f xs) \<Longrightarrow> x \<in> set xs \<Longrightarrow> find (\<lambda>y. f y = f x) xs = Some x"
  by (induction xs) (auto simp: image_iff)

lemma map_of_update [simp]:
  "map_of (AList.update k v al) k' = (if k' = k then Some v else map_of al k')"
  by (simp add: update_conv')

lemma map_of_delete [simp]:
  "map_of (AList.delete k al) k' = (if k' = k then None else map_of al k')"
  by (simp add: delete_conv')

section \<open>Transition systems\<close>

inductive reachable :: "('s \<Rightarrow> bool) \<Rightarrow> ('s \<Rightarrow> 's \<Rightarrow> bool) \<Rightarrow> 's \<Rightarrow> bool"
  for init :: "'s \<Rightarrow> bool" and step :: "'s \<Rightarrow> 's \<Rightarrow> bool" where
  start: "init s \<Longrightarrow> reachable init step s"
| step: "reachable init step s \<Longrightarrow> step s s' \<Longrightarrow> reachable init step s'"

text \<open>
  The contract of an invariant: it holds at the start and every step keeps it. A ranked
  system has in addition a rank that no step lowers.
\<close>

locale invariant_system =
  fixes init :: "'s \<Rightarrow> bool" and step :: "'s \<Rightarrow> 's \<Rightarrow> bool" and inv :: "'s \<Rightarrow> bool"
  assumes inv_init: "init s \<Longrightarrow> inv s"
    and inv_step: "inv s \<Longrightarrow> step s s' \<Longrightarrow> inv s'"
begin

lemma reachable_inv: "reachable init step s \<Longrightarrow> inv s"
  by (induction rule: reachable.induct) (blast intro: inv_init inv_step)+

lemma steps_inv: "step\<^sup>*\<^sup>* s s' \<Longrightarrow> inv s \<Longrightarrow> inv s'"
  by (induction rule: rtranclp_induct) (blast intro: inv_step)+

end

locale ranked_system = invariant_system +
  fixes rank :: "'s \<Rightarrow> nat"
  assumes rank_step: "inv s \<Longrightarrow> step s s' \<Longrightarrow> rank s \<le> rank s'"
begin

lemma steps_rank: "step\<^sup>*\<^sup>* s s' \<Longrightarrow> inv s \<Longrightarrow> rank s \<le> rank s'"
proof (induction rule: rtranclp_induct)
  case (step y z)
  then have "inv y" by (blast intro: steps_inv)
  with step show ?case using rank_step [of y z] by auto
qed simp

end

end
