(* ===== verification/ApiTypes.thy ===== *)
theory ApiTypes
  imports Prelude "HOL-Library.Word"
begin

text \<open>
  The data the operator handles. The records \<open>tunnel_status\<close>, \<open>gw_pod_info\<close>,
  \<open>slice_gateway_config\<close> and \<open>slice_gateway\<close> are the Go structs of
  \<open>api/v1beta1/slicegateway_types.go\<close>. The records of Kubernetes objects and of the hub's
  custom resources hold the fields that the modelled code reads or writes.
  A record field carries the name of the Go field, with a short prefix where two structs
  share a field name. A Go \<open>int\<close> or a timestamp is an \<open>int\<close>, a \<open>uint64\<close> a \<open>64 word\<close>.
\<close>

section \<open>Object metadata\<close>

record object_meta =
  om_Name :: string
  om_Namespace :: string
  om_Labels :: labels
  om_Annotations :: labels
  om_Finalizers :: "string list"
  om_DeletionTimestamp :: "int option"
  om_CreationTimestamp :: int
  om_Owner :: "string option"

definition new_meta :: "string \<Rightarrow> string \<Rightarrow> labels \<Rightarrow> object_meta" where
  "new_meta ns n ls =
     \<lparr>om_Name = n, om_Namespace = ns, om_Labels = ls, om_Annotations = [], om_Finalizers = [],
      om_DeletionTimestamp = None, om_CreationTimestamp = 0, om_Owner = None\<rparr>"

lemma new_meta_simps [simp]:
  "om_Name (new_meta ns n ls) = n" "om_Namespace (new_meta ns n ls) = ns"
  "om_Labels (new_meta ns n ls) = ls" "om_Owner (new_meta ns n ls) = None"
  "om_Annotations (new_meta ns n ls) = []" "om_DeletionTimestamp (new_meta ns n ls) = None" "om_Finalizers (new_meta ns n ls) = []"
  by (simp_all add: new_meta_def)

section \<open>The slice gateway custom resource\<close>

record tunnel_status =
  IntfName :: string
  LocalIP :: string
  RemoteIP :: string
  Latency :: "64 word"
  TxRate :: "64 word"
  RxRate :: "64 word"
  PacketLoss :: "64 word"
  ts_Status :: int
  TunnelState :: string

record gw_pod_info =
  PodName :: string
  PodCreationTS :: "int option"
  OriginalPodCreationTS :: "int option"
  PeerPodName :: string
  PodIP :: string
  LocalNsmIP :: string
  TunnelStatus :: tunnel_status
  RouteRemoved :: int
  RemotePort :: int

record slice_gateway_config =
  SliceGatewayID :: string
  SliceGatewayName :: string
  cfg_SliceName :: string
  SliceSiteName :: string
  SliceGatewayType :: string
  SliceGatewaySubnet :: string
  SliceGatewayStatus :: string
  SliceGatewayHostType :: string
  SliceGatewayNodePorts :: "int list"
  SliceGatewayRemoteNodeIPs :: "string list"
  SliceGatewayRemoteNodePorts :: "int list"
  SliceGatewayRemoteSubnet :: string
  SliceGatewayRemoteVpnIP :: string
  SliceGatewayLocalVpnIP :: string
  SliceGatewayRemoteGatewayID :: string
  SliceGatewayRemoteClusterID :: string
  SliceGatewayIntermediateDeployments :: "string list"
  SliceGatewayConnectivityType :: string
  SliceGatewayProtocol :: string
  SliceGatewayServerLBIPs :: "string list"

record slice_gateway =
  gw_meta :: object_meta
  gw_SliceName :: string
  gw_SiteName :: string
  gw_Config :: slice_gateway_config
  gw_ConfigUpdatedOn :: int
  gw_ConnectionContextUpdatedOn :: int
  gw_GatewayPodStatus :: "gw_pod_info list"

abbreviation gw_Name :: "slice_gateway \<Rightarrow> string" where
  "gw_Name g \<equiv> om_Name (gw_meta g)"

abbreviation gw_Namespace :: "slice_gateway \<Rightarrow> string" where
  "gw_Namespace g \<equiv> om_Namespace (gw_meta g)"

section \<open>Pods, deployments, services\<close>

record env_var =
  ev_Name :: string
  ev_Value :: string

record security_context =
  Privileged :: bool
  AllowPrivilegeEscalation :: bool
  AddCapabilities :: "string list"

record volume_mount =
  vm_Name :: string
  MountPath :: string
  SubPath :: string
  ReadOnly :: bool

record container =
  c_Name :: string
  c_Image :: string
  c_ImagePullPolicy :: string
  c_Command :: "string list"
  c_Args :: "string list"
  c_Ports :: "(string \<times> int) list"
  c_Env :: "env_var list"
  c_SecurityContext :: "security_context option"
  c_VolumeMounts :: "volume_mount list"
  c_Limits :: "(string \<times> string) list"
  c_Requests :: "(string \<times> string) list"

definition empty_container :: container where
  "empty_container =
     \<lparr>c_Name = '''', c_Image = '''', c_ImagePullPolicy = '''', c_Command = [], c_Args = [],
      c_Ports = [], c_Env = [], c_SecurityContext = None, c_VolumeMounts = [],
      c_Limits = [], c_Requests = []\<rparr>"

record key_to_path =
  kp_Key :: string
  kp_Path :: string
  kp_Mode :: "int option"

datatype volume_source =
    EmptyDir
  | HostPath string string
  | ConfigMapVolume string
  | SecretVolume string int "key_to_path list"

record volume =
  v_Name :: string
  v_Source :: volume_source

record toleration =
  tol_Key :: string
  tol_Operator :: string
  tol_Effect :: string
  tol_Value :: string

text \<open>A match expression \<open>key operator values\<close> of a node or label selector.\<close>

record requirement =
  rq_Key :: string
  rq_Operator :: string
  rq_Values :: "string list"

record pod_anti_affinity =
  paa_Weight :: int
  paa_TopologyKey :: string
  paa_Expressions :: "requirement list"

record pod_spec =
  ps_ServiceAccountName :: string
  ps_NodeAffinity :: "requirement list"
  ps_PodAntiAffinity :: pod_anti_affinity
  ps_Containers :: "container list"
  ps_Volumes :: "volume list"
  ps_Tolerations :: "toleration list"
  ps_ImagePullSecrets :: "string list"

record deployment =
  d_meta :: object_meta
  d_Replicas :: int
  d_Selector :: labels
  d_TemplateLabels :: labels
  d_TemplateAnnotations :: labels
  d_PodSpec :: pod_spec

abbreviation d_Name :: "deployment \<Rightarrow> string" where
  "d_Name d \<equiv> om_Name (d_meta d)"

record pod =
  p_meta :: object_meta
  p_Phase :: string
  p_PodIP :: string
  p_NodeName :: string
  p_TerminatedExitCodes :: "int option list"
    \<comment> \<open>for each container status, the exit code when it is terminated\<close>

abbreviation p_Name :: "pod \<Rightarrow> string" where
  "p_Name p \<equiv> om_Name (p_meta p)"

record service_port =
  sp_Name :: string
  sp_Port :: int
  sp_Protocol :: string
  sp_TargetPort :: int
  sp_NodePort :: int

record service =
  s_meta :: object_meta
  s_Type :: string
  s_Selector :: labels
  s_ClusterIP :: string
  s_Ports :: "service_port list"
  s_Ingress :: "(string \<times> string) list"

abbreviation s_Name :: "service \<Rightarrow> string" where
  "s_Name s \<equiv> om_Name (s_meta s)"

text \<open>An endpoints object: the IP addresses of each of its subsets.\<close>

record endpoints =
  e_meta :: object_meta
  e_Subsets :: "string list list"

record secret =
  sec_meta :: object_meta
  sec_Data :: "(string \<times> string) list"

record pdb =
  pdb_meta :: object_meta
  pdb_MinAvailable :: int
  pdb_Selector :: labels

text \<open>The addresses of a node by type, and its conditions with their status.\<close>

record node =
  n_meta :: object_meta
  n_ProviderID :: string
  n_Addresses :: "(string \<times> string) list"
  n_Conditions :: "(string \<times> string) list"

record nse =
  nse_meta :: object_meta

record namespace =
  ns_meta :: object_meta

abbreviation ns_Name :: "namespace \<Rightarrow> string" where
  "ns_Name n \<equiv> om_Name (ns_meta n)"

text \<open>
  A network policy: the peers of each of its ingress and of its egress rules. A peer is given by
  selectors, of which only match labels are represented, or by an address block.
\<close>

record netpol_peer =
  peer_PodSelector :: "labels option"
  peer_NamespaceSelector :: "labels option"
  peer_IPBlock :: "string option"

record network_policy =
  np_meta :: object_meta
  np_PodSelector :: labels
  np_PolicyTypes :: "string list"
  np_Ingress :: "netpol_peer list list"
  np_Egress :: "netpol_peer list list"

text \<open>A stateful set or a daemon set.\<close>

record workload =
  wl_meta :: object_meta
  wl_TemplateLabels :: labels
  wl_TemplateAnnotations :: labels

text \<open>An object of which only the metadata is used, and, of a service account, its secrets.\<close>

record any_object =
  ao_meta :: object_meta
  ao_Secrets :: "string list"

text \<open>The objects that removing the operator from a cluster needs.\<close>

record configmap =
  cm_meta :: object_meta
  cm_Data :: labels

record cluster_role =
  cro_meta :: object_meta
  cro_Rules :: "string list"

record cluster_role_binding =
  crb_meta :: object_meta
  crb_RoleName :: string
  crb_SubjectName :: string
  crb_SubjectNamespace :: string

record job =
  job_meta :: object_meta
  job_BackoffLimit :: int
  job_TTLSecondsAfterFinished :: int
  job_TemplateMeta :: object_meta
  job_ServiceAccountName :: string
  job_Containers :: "container list"
  job_Volumes :: "volume list"
  job_RestartPolicy :: string

section \<open>Service exports and imports\<close>

text \<open>A port of a service export or import.\<close>

record export_port =
  xp_Name :: string
  xp_ContainerPort :: int
  xp_Protocol :: string
  xp_ServiceProtocol :: string
  xp_ServicePort :: int

record service_pod =
  spd_Name :: string
  spd_NsmIP :: string
  spd_PodIp :: string
  spd_DNSName :: string

text \<open>The selector is a pointer to a label selector; only its match labels are used.\<close>

record service_export =
  se_meta :: object_meta
  se_Slice :: string
  se_Selector :: "labels option"
  se_Ports :: "export_port list"
  se_Aliases :: "string list"
  se_DNSName :: string
  se_ExportStatus :: string
  se_Pods :: "service_pod list"
  se_LastSync :: int
  se_ExposedPorts :: string
  se_AvailableEndpoints :: int
  se_IngressGwEnabled :: bool
  se_IngressGwPodName :: string
  se_IngressGwPodNsmIP :: string
  se_StatusAliases :: "string list"

record service_endpoint =
  en_Name :: string
  en_IP :: string
  en_Port :: int
  en_ClusterID :: string
  en_DNSName :: string

record service_import =
  si_meta :: object_meta
  si_Slice :: string
  si_DNSName :: string
  si_Ports :: "export_port list"
  si_Aliases :: "string list"
  si_ImportStatus :: string
  si_ExposedPorts :: string
  si_AvailableEndpoints :: int
  si_Endpoints :: "service_endpoint list"

text \<open>
  The istio objects: of a virtual service the destinations of each of its HTTP and of its TCP
  routes, of a service entry one port per entry and the addresses of its endpoints.
\<close>

record route_destination =
  rt_Host :: string
  rt_Port :: "32 word"
  rt_Weight :: int

record virtual_service =
  vs_meta :: object_meta
  vs_Hosts :: "string list"
  vs_Gateways :: "string list"
  vs_ExportTo :: "string list"
  vs_Http :: "route_destination list list"
  vs_Tcp :: "route_destination list list"

record entry_port =
  po_Name :: string
  po_Protocol :: string
  po_Number :: "32 word"
  po_TargetPort :: "32 word"

record service_entry =
  sn_meta :: object_meta
  sn_ExportTo :: "string list"
  sn_Hosts :: "string list"
  sn_Location :: string
  sn_Ports :: "entry_port list"
  sn_Resolution :: string
  sn_Addresses :: "string list"
  sn_Endpoints :: "string list"

section \<open>The slice custom resource\<close>

record app_pod =
  ap_PodName :: string
  ap_PodNamespace :: string
  ap_PodIP :: string
  ap_NsmIP :: string
  ap_NsmInterface :: string
  ap_NsmPeerIP :: string

record qos_profile =
  qos_QueueType :: string
  qos_BandwidthCeilingKbps :: int
  qos_BandwidthGuaranteedKbps :: int
  qos_Priority :: int
  qos_DscpClass :: string
  qos_TcType :: string

record isolation_profile =
  IsolationEnabled :: bool
  iso_ApplicationNamespaces :: "string list"
  iso_AllowedNamespaces :: "string list"

text \<open>The options \<open>Ingress\<close> and \<open>Egress\<close> are pointers to a struct with the flag \<open>Enabled\<close>.\<close>

record external_gateway_config =
  eg_Ingress :: "bool option"
  eg_Egress :: "bool option"
  eg_NsIngress :: "bool option"
  eg_GatewayType :: string
  eg_VPCServiceAccess :: "bool \<times> bool"
    \<comment> \<open>ingress and egress enabled\<close>

record slice_config =
  sc_SliceID :: string
  sc_SliceDisplayName :: string
  sc_SliceSubnet :: string
  sc_SliceType :: string
  sc_QosProfileDetails :: qos_profile
  sc_SliceIpamType :: string
  sc_IpamClusterOctet :: int
  sc_ExternalGatewayConfig :: "external_gateway_config option"
  sc_NamespaceIsolationProfile :: "isolation_profile option"
  sc_ClusterSubnetCIDR :: string
  sc_SliceGatewayServiceType :: string
  sc_SliceGatewayProtocol :: string
  sc_NetworkMode :: string

record slice =
  sl_meta :: object_meta
  sl_Config :: "slice_config option"
  sl_DNSIP :: string
  sl_AppPods :: "app_pod list"
  sl_AppPodsUpdatedOn :: int
  sl_NetworkPoliciesInstalled :: bool
  sl_ApplicationNamespaces :: "string list"
  sl_AllowedNamespaces :: "string list"

abbreviation sl_Name :: "slice \<Rightarrow> string" where
  "sl_Name s \<equiv> om_Name (sl_meta s)"

abbreviation sl_Namespace :: "slice \<Rightarrow> string" where
  "sl_Namespace s \<equiv> om_Namespace (sl_meta s)"

definition sl_NetworkMode :: "slice \<Rightarrow> string option" where
  "sl_NetworkMode s = map_option sc_NetworkMode (sl_Config s)"

text \<open>A slice as \<open>&Slice{}\<close> with a name: no status.\<close>

definition new_slice :: "object_meta \<Rightarrow> slice" where
  "new_slice m =
     \<lparr>sl_meta = m, sl_Config = None, sl_DNSIP = '''', sl_AppPods = [], sl_AppPodsUpdatedOn = 0,
      sl_NetworkPoliciesInstalled = False, sl_ApplicationNamespaces = [],
      sl_AllowedNamespaces = []\<rparr>"

section \<open>Custom resources on the hub\<close>

record recycler =
  rc_meta :: object_meta
  rc_ServerID :: string
  rc_ClientID :: string
  rc_State :: string
  rc_Request :: string
  rc_SliceGwServer :: string
  rc_SliceGwClient :: string
  rc_SliceName :: string
  rc_ClientResponse :: string

record status_of_key_rotation =
  sk_Status :: string
  LastUpdatedTimestamp :: int

record vpn_key_rotation =
  vk_meta :: object_meta
  RotationCount :: int
  CertificateCreationTime :: "int option"
  ClusterGatewayMapping :: "(string \<times> string list) list"
  CurrentRotationState :: "(string \<times> status_of_key_rotation) list"
  StatusHistory :: "(string \<times> status_of_key_rotation list) list"

text \<open>The remote side of a gateway, as the hub has it.\<close>

record remote_gateway_config =
  hr_GatewayName :: string
  hr_ClusterName :: string
  hr_VpnIp :: string
  hr_GatewaySubnet :: string
  hr_NodeIps :: "string list"
  hr_NodePorts :: "int list"
  hr_LoadBalancerIps :: "string list"

text \<open>A gateway on the hub; the fields of its local side come first.\<close>

record hub_slice_gateway =
  hg_meta :: object_meta
  hg_NodePorts :: "int list"
  hg_LoadBalancerIps :: "string list"
  hg_GatewayName :: string
  hg_ClusterName :: string
  hg_VpnIp :: string
  hg_GatewaySubnet :: string
  hg_Remote :: remote_gateway_config
  hg_SliceName :: string
  hg_GatewayType :: string
  hg_GatewayHostType :: string
  hg_GatewayConnectivityType :: string
  hg_GatewayProtocol :: string
  hg_GatewayNumber :: int

definition new_hub_slice_gateway :: "object_meta \<Rightarrow> hub_slice_gateway" where
  "new_hub_slice_gateway m =
     \<lparr>hg_meta = m, hg_NodePorts = [], hg_LoadBalancerIps = [], hg_GatewayName = '''',
      hg_ClusterName = '''', hg_VpnIp = '''', hg_GatewaySubnet = '''',
      hg_Remote = \<lparr>hr_GatewayName = '''', hr_ClusterName = '''', hr_VpnIp = '''',
        hr_GatewaySubnet = '''', hr_NodeIps = [], hr_NodePorts = [], hr_LoadBalancerIps = []\<rparr>,
      hg_SliceName = '''', hg_GatewayType = '''', hg_GatewayHostType = '''',
      hg_GatewayConnectivityType = '''', hg_GatewayProtocol = '''', hg_GatewayNumber = 0\<rparr>"

text \<open>
  The configuration of a slice for one worker cluster: what the hub asks for, and the status
  that the worker reports. The health was last updated at a time in seconds, or never.
\<close>

record slice_health =
  sh_SliceHealthStatus :: string
  sh_ComponentStatuses :: "(string \<times> string) list"
  sh_LastUpdated :: "int option"

record worker_slice_spec =
  ws_SliceName :: string
  ws_SliceSubnet :: string
  ws_SliceType :: string
  ws_SliceGatewayServiceType :: string
  ws_SliceGatewayProtocol :: string
  ws_SliceIpamType :: string
  ws_QosProfileDetails :: qos_profile
  ws_NamespaceIsolationProfile :: isolation_profile
  ws_IpamClusterOctet :: int
  ws_ClusterSubnetCIDR :: string
  ws_Ingress :: bool
  ws_Egress :: bool
  ws_NsIngress :: bool
  ws_GatewayType :: string
  ws_VPCServiceAccess :: "bool \<times> bool"
  ws_NetworkMode :: string

definition empty_worker_slice_spec :: worker_slice_spec where
  "empty_worker_slice_spec =
     \<lparr>ws_SliceName = '''', ws_SliceSubnet = '''', ws_SliceType = '''',
      ws_SliceGatewayServiceType = '''', ws_SliceGatewayProtocol = '''', ws_SliceIpamType = '''',
      ws_QosProfileDetails = \<lparr>qos_QueueType = '''', qos_BandwidthCeilingKbps = 0,
        qos_BandwidthGuaranteedKbps = 0, qos_Priority = 0, qos_DscpClass = '''', qos_TcType = ''''\<rparr>,
      ws_NamespaceIsolationProfile = \<lparr>IsolationEnabled = False, iso_ApplicationNamespaces = [],
        iso_AllowedNamespaces = []\<rparr>,
      ws_IpamClusterOctet = 0, ws_ClusterSubnetCIDR = '''', ws_Ingress = False, ws_Egress = False,
      ws_NsIngress = False, ws_GatewayType = '''', ws_VPCServiceAccess = (False, False),
      ws_NetworkMode = ''''\<rparr>"

record worker_slice_config =
  wsc_meta :: object_meta
  OnboardedAppNamespaces :: "string list"
  ConnectedAppPods :: "app_pod list"
  wsc_Spec :: worker_slice_spec
  wsc_SliceHealth :: "slice_health option"

definition new_worker_slice_config :: "object_meta \<Rightarrow> worker_slice_config" where
  "new_worker_slice_config m =
     \<lparr>wsc_meta = m, OnboardedAppNamespaces = [], ConnectedAppPods = [],
      wsc_Spec = empty_worker_slice_spec, wsc_SliceHealth = None\<rparr>"

text \<open>Exported and imported services on the hub.\<close>

record discovery_endpoint =
  de_PodName :: string
  de_Cluster :: string
  de_NsmIp :: string
  de_DnsName :: string
  de_Port :: int

record discovery_port =
  dp_Name :: string
  dp_Port :: int
  dp_Protocol :: string
  dp_ServicePort :: int
  dp_ServiceProtocol :: string

record service_export_config =
  sx_meta :: object_meta
  sx_ServiceName :: string
  sx_ServiceNamespace :: string
  sx_SourceCluster :: string
  sx_SliceName :: string
  sx_Endpoints :: "discovery_endpoint list"
  sx_Ports :: "discovery_port list"
  sx_Aliases :: "string list"

record worker_service_import =
  wi_meta :: object_meta
  wi_ServiceName :: string
  wi_ServiceNamespace :: string
  wi_SliceName :: string
  wi_Endpoints :: "discovery_endpoint list"
  wi_Ports :: "discovery_port list"
  wi_Aliases :: "string list"

text \<open>
  The cluster object: addresses, location and dashboard credentials of its spec, and its status
  with the namespaces of the cluster and the slices they are bound to.
\<close>

record cluster_health =
  ch_ClusterHealthStatus :: string
  ch_ComponentStatuses :: "(string \<times> string) list"
  ch_LastUpdated :: "int option"

record hub_cluster =
  hc_meta :: object_meta
  hc_SpecNodeIPs :: "string list"
  hc_CloudProvider :: string
  hc_CloudRegion :: string
  hc_DashboardEnabled :: bool
  hc_DashboardEndpoint :: string
  hc_DashboardToken :: string
  hc_RegistrationStatus :: string
  hc_NetworkPresent :: bool
  hc_CniSubnet :: "string list"
  hc_NodeIPs :: "string list"
  hc_Namespaces :: "(string \<times> string) list"
  hc_ClusterHealth :: "cluster_health option"

definition new_hub_cluster :: "object_meta \<Rightarrow> hub_cluster" where
  "new_hub_cluster m =
     \<lparr>hc_meta = m, hc_SpecNodeIPs = [], hc_CloudProvider = '''', hc_CloudRegion = '''',
      hc_DashboardEnabled = False, hc_DashboardEndpoint = '''', hc_DashboardToken = '''',
      hc_RegistrationStatus = '''', hc_NetworkPresent = False, hc_CniSubnet = [], hc_NodeIPs = [],
      hc_Namespaces = [], hc_ClusterHealth = None\<rparr>"

section \<open>Replies of the sidecars\<close>

record gw_status =
  st_LocalNsmIP :: string
  st_Tunnel :: tunnel_status

section \<open>The world a reconciler works on\<close>

text \<open>
  A message that the operator sends to a sidecar. The messages sent are recorded in the
  order in which they are sent.
\<close>

record gw_svc_info =
  GwSvcName :: string
  GwSvcClusterIP :: string
  GwSvcNodePort :: "32 word"
  GwSvcTargetPort :: "32 word"
  GwSvcProtocol :: string

record slice_qos =
  sq_SliceName :: string
  sq_SliceId :: string
  sq_QosProfileName :: string
  BwCeiling :: "32 word"
  BwGuaranteed :: "32 word"
  sq_Priority :: "32 word"
  sq_DscpClass :: string

datatype message =
    GwConnectionContext string string string
    \<comment> \<open>address, remote VPN IP, remote NSM subnet\<close>
  | GwQos string string
    \<comment> \<open>address, slice name\<close>
  | RouterConnectionContext string string "string list"
    \<comment> \<open>address, remote NSM subnet, local NSM gateway peer IPs\<close>
  | NetOpConnectionContext string string "int list"
    \<comment> \<open>address, gateway name, node ports\<close>
  | NetOpQos string string
  | SliceQosProfile string slice_qos
    \<comment> \<open>address, profile\<close>
  | SliceDeleted string string
    \<comment> \<open>address, slice name\<close>
  | EdgeServiceMap string string "gw_svc_info list"
    \<comment> \<open>address, slice name, services\<close>

record netop_pod =
  no_PodIP :: string
  no_PodName :: string
  no_Node :: string

text \<open>
  The objects of the worker cluster (\<open>w_\<close>), the objects of the hub (\<open>h_\<close>), the memory of
  the operator process (\<open>o_\<close>), the number of remote calls made so far and the messages sent.
\<close>

record world =
  w_deployments :: "deployment list"
  w_services :: "service list"
  w_pods :: "pod list"
  w_endpoints :: "endpoints list"
  w_secrets :: "secret list"
  w_pdbs :: "pdb list"
  w_nodes :: "node list"
  w_slices :: "slice list"
  w_slicegws :: "slice_gateway list"
  w_nses :: "nse list"
  w_namespaces :: "namespace list"
  w_netpols :: "network_policy list"
  w_statefulsets :: "workload list"
  w_daemonsets :: "workload list"
  w_networkservices :: "any_object list"
  w_serviceimports :: "service_import list"
  w_serviceexports :: "service_export list"
  w_roles :: "any_object list"
  w_serviceaccounts :: "any_object list"
  w_rolebindings :: "any_object list"
  w_istiogateways :: "any_object list"
  w_virtualservices :: "virtual_service list"
  w_serviceentries :: "service_entry list"
  w_configmaps :: "configmap list"
  w_jobs :: "job list"
  w_clusterroles :: "cluster_role list"
  w_clusterrolebindings :: "cluster_role_binding list"
  h_recyclers :: "recycler list"
  h_rotations :: "vpn_key_rotation list"
  h_slicegws :: "hub_slice_gateway list"
  h_secrets :: "secret list"
  h_sliceconfigs :: "worker_slice_config list"
  h_clusters :: "hub_cluster list"
  h_serviceexports :: "service_export_config list"
  h_serviceimports :: "worker_service_import list"
  o_portMap :: "(string \<times> int) list"
  o_NetOpPods :: "netop_pod list"
  o_SliceNetOpPods :: "netop_pod list"
  o_FSM :: "(string \<times> string) list"
  o_NodeIPList :: "string list"
  o_retryAttempts :: nat
  w_calls :: nat
  w_sent :: "message list"

definition empty_world :: world where
  "empty_world =
     \<lparr>w_deployments = [], w_services = [], w_pods = [], w_endpoints = [], w_secrets = [],
      w_pdbs = [], w_nodes = [], w_slices = [], w_slicegws = [], w_nses = [],
      w_namespaces = [], w_netpols = [], w_statefulsets = [], w_daemonsets = [],
      w_networkservices = [], w_serviceimports = [], w_serviceexports = [],
      w_roles = [], w_serviceaccounts = [], w_rolebindings = [], w_istiogateways = [],
      w_virtualservices = [], w_serviceentries = [],
      w_configmaps = [], w_jobs = [], w_clusterroles = [], w_clusterrolebindings = [],
      h_recyclers = [], h_rotations = [], h_slicegws = [], h_secrets = [], h_sliceconfigs = [], h_clusters = [],
      h_serviceexports = [], h_serviceimports = [],
      o_portMap = [], o_NetOpPods = [], o_SliceNetOpPods = [], o_FSM = [], o_NodeIPList = [], o_retryAttempts = 0,
      w_calls = 0, w_sent = []\<rparr>"

end
