(* ===== verification/KubeApi.thy ===== *)
theory KubeApi
  imports ApiTypes
begin

text \<open>
  The clients that the operator calls, as parameters of the model: for each kind of object
  a record \<open>resource_ops\<close> of the operations of \<open>client.Client\<close>, and a record \<open>kube\<close> of these
  for every kind, with the remote calls to the sidecars. The locale \<open>resource\<close> states the
  documented behaviour of one kind of object of an API server that no one else writes to
  during the call: a call that fails changes no object, a call that succeeds reads or
  writes the named object. The reference server \<open>ref_kube\<close> satisfies it; its argument says
  which calls it refuses, and with which error.
\<close>

section \<open>Operations\<close>

record list_opts =
  lo_Namespace :: "string option"
  lo_Labels :: labels
  lo_Phase :: "string option"
  lo_Has :: "string list"

definition in_namespace :: "string \<Rightarrow> labels \<Rightarrow> list_opts" where
  "in_namespace ns ls = \<lparr>lo_Namespace = Some ns, lo_Labels = ls, lo_Phase = None, lo_Has = []\<rparr>"

definition all_namespaces :: "labels \<Rightarrow> list_opts" where
  "all_namespaces ls = \<lparr>lo_Namespace = None, lo_Labels = ls, lo_Phase = None, lo_Has = []\<rparr>"

text \<open>\<open>client.MatchingFields{"status.phase": p}\<close>\<close>

definition with_phase :: "string \<Rightarrow> list_opts \<Rightarrow> list_opts" where
  "with_phase p lo = lo\<lparr>lo_Phase := Some p\<rparr>"

text \<open>\<open>client.HasLabels(ks)\<close>: every key of the list is a label of the object.\<close>

definition has_labels :: "string list \<Rightarrow> list_opts" where
  "has_labels ks = \<lparr>lo_Namespace = None, lo_Labels = [], lo_Phase = None, lo_Has = ks\<rparr>"

record 'o resource_ops =
  r_get :: "string \<Rightarrow> string \<Rightarrow> world \<Rightarrow> (go_error + 'o) \<times> world"
  r_list :: "list_opts \<Rightarrow> world \<Rightarrow> (go_error + 'o list) \<times> world"
  r_create :: "'o \<Rightarrow> world \<Rightarrow> go_error option \<times> world"
  r_update :: "'o \<Rightarrow> world \<Rightarrow> go_error option \<times> world"
  r_update_status :: "'o \<Rightarrow> world \<Rightarrow> go_error option \<times> world"
  r_delete :: "string \<Rightarrow> string \<Rightarrow> world \<Rightarrow> go_error option \<times> world"

record kube =
  k_deployments :: "deployment resource_ops"
  k_services :: "service resource_ops"
  k_pods :: "pod resource_ops"
  k_endpoints :: "endpoints resource_ops"
  k_secrets :: "secret resource_ops"
  k_pdbs :: "pdb resource_ops"
  k_nodes :: "node resource_ops"
  k_slices :: "slice resource_ops"
  k_slicegws :: "slice_gateway resource_ops"
  k_nses :: "nse resource_ops"
  k_recyclers :: "recycler resource_ops"
  k_rotations :: "vpn_key_rotation resource_ops"
  k_hubgws :: "hub_slice_gateway resource_ops"
  k_hubsecrets :: "secret resource_ops"
  k_namespaces :: "namespace resource_ops"
  k_netpols :: "network_policy resource_ops"
  k_statefulsets :: "workload resource_ops"
  k_daemonsets :: "workload resource_ops"
  k_networkservices :: "any_object resource_ops"
  k_serviceimports :: "service_import resource_ops"
  k_serviceexports :: "service_export resource_ops"
  k_roles :: "any_object resource_ops"
  k_serviceaccounts :: "any_object resource_ops"
  k_rolebindings :: "any_object resource_ops"
  k_istiogateways :: "any_object resource_ops"
  k_sliceconfigs :: "worker_slice_config resource_ops"
  k_clusters :: "hub_cluster resource_ops"
  k_virtualservices :: "virtual_service resource_ops"
  k_serviceentries :: "service_entry resource_ops"
  k_hubexports :: "service_export_config resource_ops"
  k_hubimports :: "worker_service_import resource_ops"
  k_configmaps :: "configmap resource_ops"
  k_jobs :: "job resource_ops"
  k_clusterroles :: "cluster_role resource_ops"
  k_clusterrolebindings :: "cluster_role_binding resource_ops"
  k_setControllerReference :: "object_meta \<Rightarrow> object_meta \<Rightarrow> go_error option"
  k_GetStatus :: "string \<Rightarrow> world \<Rightarrow> (go_error + gw_status) \<times> world"
  k_GetSliceGwRemotePodName :: "string \<Rightarrow> string \<Rightarrow> world \<Rightarrow> (go_error + string) \<times> world"
  k_GetRouteInKernel :: "string \<Rightarrow> string \<Rightarrow> string \<Rightarrow> world \<Rightarrow> (go_error + bool) \<times> world"
  k_send :: "message \<Rightarrow> world \<Rightarrow> go_error option \<times> world"
  k_LookupHost :: "string \<Rightarrow> world \<Rightarrow> (go_error + string list) \<times> world"
  k_GetClientConnectionInfo :: "string \<Rightarrow> world \<Rightarrow> (go_error + app_pod list) \<times> world"
  k_parseDeployment :: "string \<Rightarrow> labels \<Rightarrow> go_error + deployment"
  k_parseService :: "string \<Rightarrow> labels \<Rightarrow> go_error + service"
  k_parseObject :: "string \<Rightarrow> labels \<Rightarrow> go_error + any_object"

text \<open>
  The last three read a manifest file with the given path, replace the templates and decode the
  result (\<open>Manifest.Parse\<close>): the files are not part of the Go code.
\<close>

text \<open>Sending a message: it is recorded, and the receiver answers with success or an error.\<close>

definition send_message :: "kube \<Rightarrow> message \<Rightarrow> world \<Rightarrow> go_error option \<times> world" where
  "send_message K m w = k_send K m (w\<lparr>w_sent := w_sent w @ [m]\<rparr>)"

section \<open>Laws of one kind of object\<close>

definition keyed :: "('o \<Rightarrow> object_meta) \<Rightarrow> string \<Rightarrow> string \<Rightarrow> 'o \<Rightarrow> bool" where
  "keyed meta ns n ob \<longleftrightarrow> om_Namespace (meta ob) = ns \<and> om_Name (meta ob) = n"

definition selects :: "('o \<Rightarrow> object_meta) \<Rightarrow> ('o \<Rightarrow> string) \<Rightarrow> list_opts \<Rightarrow> 'o \<Rightarrow> bool" where
  "selects meta phase lo ob \<longleftrightarrow>
     (case lo_Namespace lo of None \<Rightarrow> True | Some ns \<Rightarrow> om_Namespace (meta ob) = ns) \<and>
     matches_labels (lo_Labels lo) (om_Labels (meta ob)) \<and>
     (case lo_Phase lo of None \<Rightarrow> True | Some p \<Rightarrow> phase ob = p) \<and>
     list_all (\<lambda>k. map_of (om_Labels (meta ob)) k \<noteq> None) (lo_Has lo)"

definition tick :: "world \<Rightarrow> world" where
  "tick w = w\<lparr>w_calls := Suc (w_calls w)\<rparr>"

definition replace_object :: "('o \<Rightarrow> object_meta) \<Rightarrow> 'o \<Rightarrow> 'o list \<Rightarrow> 'o list" where
  "replace_object meta ob =
     map (\<lambda>y. if keyed meta (om_Namespace (meta ob)) (om_Name (meta ob)) y then ob else y)"

definition remove_object :: "('o \<Rightarrow> object_meta) \<Rightarrow> string \<Rightarrow> string \<Rightarrow> 'o list \<Rightarrow> 'o list" where
  "remove_object meta ns n = filter (\<lambda>y. \<not> keyed meta ns n y)"

definition same_key :: "('o \<Rightarrow> object_meta) \<Rightarrow> 'o \<Rightarrow> 'o \<Rightarrow> bool" where
  "same_key meta x y \<longleftrightarrow> keyed meta (om_Namespace (meta x)) (om_Name (meta x)) y"

locale resource =
  fixes ops :: "'o resource_ops"
    and meta :: "'o \<Rightarrow> object_meta"
    and phase :: "'o \<Rightarrow> string"
    and sel :: "world \<Rightarrow> 'o list"
    and upd :: "('o list \<Rightarrow> 'o list) \<Rightarrow> world \<Rightarrow> world"
  assumes get_ok: "r_get ops ns n w = (Inr ob, w') \<Longrightarrow>
      w' = tick w \<and> find (keyed meta ns n) (sel w) = Some ob"
    and get_err: "r_get ops ns n w = (Inl e, w') \<Longrightarrow>
      w' = tick w \<and> (e = NotFound \<longrightarrow> find (keyed meta ns n) (sel w) = None)"
    and list_ok: "r_list ops lo w = (Inr obs, w') \<Longrightarrow>
      w' = tick w \<and> obs = filter (selects meta phase lo) (sel w)"
    and list_err: "r_list ops lo w = (Inl e, w') \<Longrightarrow> w' = tick w"
    and create_ok: "r_create ops ob w = (None, w') \<Longrightarrow>
      \<not> list_ex (same_key meta ob) (sel w) \<and> w' = tick (upd (\<lambda>xs. xs @ [ob]) w)"
    and create_err: "r_create ops ob w = (Some e, w') \<Longrightarrow> w' = tick w"
    and update_ok: "r_update ops ob w = (None, w') \<Longrightarrow>
      list_ex (same_key meta ob) (sel w) \<and> w' = tick (upd (replace_object meta ob) w)"
    and update_err: "r_update ops ob w = (Some e, w') \<Longrightarrow> w' = tick w"
    and update_status_ok: "r_update_status ops ob w = (None, w') \<Longrightarrow>
      list_ex (same_key meta ob) (sel w) \<and> w' = tick (upd (replace_object meta ob) w)"
    and update_status_err: "r_update_status ops ob w = (Some e, w') \<Longrightarrow> w' = tick w"
    and delete_ok: "r_delete ops ns n w = (None, w') \<Longrightarrow>
      list_ex (keyed meta ns n) (sel w) \<and> w' = tick (upd (remove_object meta ns n) w)"
    and delete_err: "r_delete ops ns n w = (Some e, w') \<Longrightarrow>
      w' = tick w \<and> (e = NotFound \<longrightarrow> \<not> list_ex (keyed meta ns n) (sel w))"
    and sel_upd: "sel (upd f w) = f (sel w)"
    and sel_tick: "sel (tick w) = sel w"
begin

lemma get_world: "r_get ops ns n w = (r, w') \<Longrightarrow> w' = tick w"
  by (cases r) (auto dest: get_ok get_err)

lemma list_world: "r_list ops lo w = (r, w') \<Longrightarrow> w' = tick w"
  by (cases r) (auto dest: list_ok list_err)

text \<open>An object that was created is found by its key, and among the listed ones.\<close>

lemma get_after_create:
  assumes "r_create ops ob w = (None, w1)"
    and "r_get ops (om_Namespace (meta ob)) (om_Name (meta ob)) w1 = (Inr y, w2)"
  shows "y = ob"
proof -
  let ?k = "keyed meta (om_Namespace (meta ob)) (om_Name (meta ob))"
  from create_ok [OF assms(1)] have "\<not> list_ex ?k (sel w)"
    by (simp add: same_key_def [abs_def])
  then have "find ?k (sel w) = None" by (simp add: find_None_iff list_ex_iff)
  moreover have "sel w1 = sel w @ [ob]"
    using create_ok [OF assms(1)] by (simp add: sel_tick sel_upd)
  ultimately have "find ?k (sel w1) = Some ob"
    by (simp add: find_append keyed_def)
  with get_ok [OF assms(2)] show ?thesis by simp
qed

lemma get_after_delete:
  assumes "r_delete ops ns n w = (None, w1)" and "r_get ops ns n w1 = (r, w2)"
  shows "\<exists>e. r = Inl e"
proof (cases r)
  case (Inl e)
  then show ?thesis by blast
next
  case (Inr y)
  have "sel w1 = remove_object meta ns n (sel w)"
    using delete_ok [OF assms(1)] by (simp add: sel_tick sel_upd)
  moreover have "find (keyed meta ns n) (sel w1) = Some y"
    using get_ok assms(2) Inr by blast
  ultimately show ?thesis
    by (auto simp: find_Some_iff remove_object_def dest!: nth_mem)
qed

end

section \<open>A lawful set of clients\<close>

abbreviation no_phase :: "'o \<Rightarrow> string" where
  "no_phase ob \<equiv> ''''"

text \<open>
  What the theorems on cluster contents ask of the clients: every kind of object obeys the
  laws, and the remote calls change nothing but the call counter.
\<close>

locale lawful =
  fixes K :: kube
  assumes deployments: "resource (k_deployments K) d_meta no_phase w_deployments w_deployments_update"
    and services: "resource (k_services K) s_meta no_phase w_services w_services_update"
    and pods: "resource (k_pods K) p_meta p_Phase w_pods w_pods_update"
    and endpts: "resource (k_endpoints K) e_meta no_phase w_endpoints w_endpoints_update"
    and secrets: "resource (k_secrets K) sec_meta no_phase w_secrets w_secrets_update"
    and pdbs: "resource (k_pdbs K) pdb_meta no_phase w_pdbs w_pdbs_update"
    and nodes: "resource (k_nodes K) n_meta no_phase w_nodes w_nodes_update"
    and slices: "resource (k_slices K) sl_meta no_phase w_slices w_slices_update"
    and slicegws: "resource (k_slicegws K) gw_meta no_phase w_slicegws w_slicegws_update"
    and nses: "resource (k_nses K) nse_meta no_phase w_nses w_nses_update"
    and recyclers: "resource (k_recyclers K) rc_meta no_phase h_recyclers h_recyclers_update"
    and rotations: "resource (k_rotations K) vk_meta no_phase h_rotations h_rotations_update"
    and hubgws: "resource (k_hubgws K) hg_meta no_phase h_slicegws h_slicegws_update"
    and hubsecrets: "resource (k_hubsecrets K) sec_meta no_phase h_secrets h_secrets_update"
    and namespaces: "resource (k_namespaces K) ns_meta no_phase w_namespaces w_namespaces_update"
    and netpols: "resource (k_netpols K) np_meta no_phase w_netpols w_netpols_update"
    and statefulsets: "resource (k_statefulsets K) wl_meta no_phase w_statefulsets w_statefulsets_update"
    and daemonsets: "resource (k_daemonsets K) wl_meta no_phase w_daemonsets w_daemonsets_update"
    and networkservices: "resource (k_networkservices K) ao_meta no_phase w_networkservices w_networkservices_update"
    and serviceimports: "resource (k_serviceimports K) si_meta no_phase w_serviceimports w_serviceimports_update"
    and serviceexports: "resource (k_serviceexports K) se_meta no_phase w_serviceexports w_serviceexports_update"
    and roles: "resource (k_roles K) ao_meta no_phase w_roles w_roles_update"
    and serviceaccounts: "resource (k_serviceaccounts K) ao_meta no_phase w_serviceaccounts w_serviceaccounts_update"
    and rolebindings: "resource (k_rolebindings K) ao_meta no_phase w_rolebindings w_rolebindings_update"
    and istiogateways: "resource (k_istiogateways K) ao_meta no_phase w_istiogateways w_istiogateways_update"
    and sliceconfigs: "resource (k_sliceconfigs K) wsc_meta no_phase h_sliceconfigs h_sliceconfigs_update"
    and clusters: "resource (k_clusters K) hc_meta no_phase h_clusters h_clusters_update"
    and virtualservices: "resource (k_virtualservices K) vs_meta no_phase w_virtualservices w_virtualservices_update"
    and serviceentries: "resource (k_serviceentries K) sn_meta no_phase w_serviceentries w_serviceentries_update"
    and hubexports: "resource (k_hubexports K) sx_meta no_phase h_serviceexports h_serviceexports_update"
    and hubimports: "resource (k_hubimports K) wi_meta no_phase h_serviceimports h_serviceimports_update"
    and configmaps: "resource (k_configmaps K) cm_meta no_phase w_configmaps w_configmaps_update"
    and jobs: "resource (k_jobs K) job_meta no_phase w_jobs w_jobs_update"
    and clusterroles: "resource (k_clusterroles K) cro_meta no_phase w_clusterroles w_clusterroles_update"
    and clusterrolebindings: "resource (k_clusterrolebindings K) crb_meta no_phase w_clusterrolebindings w_clusterrolebindings_update"
    and GetStatus_world: "snd (k_GetStatus K a w) = tick w"
    and GetSliceGwRemotePodName_world: "snd (k_GetSliceGwRemotePodName K v a w) = tick w"
    and GetRouteInKernel_world: "snd (k_GetRouteInKernel K a s ip w) = tick w"
    and send_world: "snd (k_send K m w) = tick w"
    and LookupHost_world: "snd (k_LookupHost K h w) = tick w"
    and GetClientConnectionInfo_world: "snd (k_GetClientConnectionInfo K a w) = tick w"

sublocale lawful \<subseteq> dep: resource "k_deployments K" d_meta no_phase w_deployments w_deployments_update
  by (rule deployments)

sublocale lawful \<subseteq> svc: resource "k_services K" s_meta no_phase w_services w_services_update
  by (rule services)

sublocale lawful \<subseteq> pod: resource "k_pods K" p_meta p_Phase w_pods w_pods_update
  by (rule pods)

sublocale lawful \<subseteq> ep: resource "k_endpoints K" e_meta no_phase w_endpoints w_endpoints_update
  by (rule endpts)

sublocale lawful \<subseteq> sec: resource "k_secrets K" sec_meta no_phase w_secrets w_secrets_update
  by (rule secrets)

sublocale lawful \<subseteq> pdb: resource "k_pdbs K" pdb_meta no_phase w_pdbs w_pdbs_update
  by (rule pdbs)

sublocale lawful \<subseteq> node: resource "k_nodes K" n_meta no_phase w_nodes w_nodes_update
  by (rule nodes)

sublocale lawful \<subseteq> slice: resource "k_slices K" sl_meta no_phase w_slices w_slices_update
  by (rule slices)

sublocale lawful \<subseteq> gw: resource "k_slicegws K" gw_meta no_phase w_slicegws w_slicegws_update
  by (rule slicegws)

sublocale lawful \<subseteq> nse: resource "k_nses K" nse_meta no_phase w_nses w_nses_update
  by (rule nses)

sublocale lawful \<subseteq> rec: resource "k_recyclers K" rc_meta no_phase h_recyclers h_recyclers_update
  by (rule recyclers)

sublocale lawful \<subseteq> rot: resource "k_rotations K" vk_meta no_phase h_rotations h_rotations_update
  by (rule rotations)

sublocale lawful \<subseteq> hgw: resource "k_hubgws K" hg_meta no_phase h_slicegws h_slicegws_update
  by (rule hubgws)

sublocale lawful \<subseteq> hsec: resource "k_hubsecrets K" sec_meta no_phase h_secrets h_secrets_update
  by (rule hubsecrets)

sublocale lawful \<subseteq> nsp: resource "k_namespaces K" ns_meta no_phase w_namespaces w_namespaces_update
  by (rule namespaces)

sublocale lawful \<subseteq> npl: resource "k_netpols K" np_meta no_phase w_netpols w_netpols_update
  by (rule netpols)

sublocale lawful \<subseteq> sts: resource "k_statefulsets K" wl_meta no_phase w_statefulsets w_statefulsets_update
  by (rule statefulsets)

sublocale lawful \<subseteq> dms: resource "k_daemonsets K" wl_meta no_phase w_daemonsets w_daemonsets_update
  by (rule daemonsets)

sublocale lawful \<subseteq> nsv: resource "k_networkservices K" ao_meta no_phase w_networkservices w_networkservices_update
  by (rule networkservices)

sublocale lawful \<subseteq> svi: resource "k_serviceimports K" si_meta no_phase w_serviceimports w_serviceimports_update
  by (rule serviceimports)

sublocale lawful \<subseteq> sve: resource "k_serviceexports K" se_meta no_phase w_serviceexports w_serviceexports_update
  by (rule serviceexports)

sublocale lawful \<subseteq> role: resource "k_roles K" ao_meta no_phase w_roles w_roles_update
  by (rule roles)

sublocale lawful \<subseteq> sac: resource "k_serviceaccounts K" ao_meta no_phase w_serviceaccounts w_serviceaccounts_update
  by (rule serviceaccounts)

sublocale lawful \<subseteq> rob: resource "k_rolebindings K" ao_meta no_phase w_rolebindings w_rolebindings_update
  by (rule rolebindings)

sublocale lawful \<subseteq> igw: resource "k_istiogateways K" ao_meta no_phase w_istiogateways w_istiogateways_update
  by (rule istiogateways)

sublocale lawful \<subseteq> wsc: resource "k_sliceconfigs K" wsc_meta no_phase h_sliceconfigs h_sliceconfigs_update
  by (rule sliceconfigs)

sublocale lawful \<subseteq> hcl: resource "k_clusters K" hc_meta no_phase h_clusters h_clusters_update
  by (rule clusters)

sublocale lawful \<subseteq> vsv: resource "k_virtualservices K" vs_meta no_phase w_virtualservices w_virtualservices_update
  by (rule virtualservices)

sublocale lawful \<subseteq> sen: resource "k_serviceentries K" sn_meta no_phase w_serviceentries w_serviceentries_update
  by (rule serviceentries)

sublocale lawful \<subseteq> hsx: resource "k_hubexports K" sx_meta no_phase h_serviceexports h_serviceexports_update
  by (rule hubexports)

sublocale lawful \<subseteq> hsm: resource "k_hubimports K" wi_meta no_phase h_serviceimports h_serviceimports_update
  by (rule hubimports)

sublocale lawful \<subseteq> cfm: resource "k_configmaps K" cm_meta no_phase w_configmaps w_configmaps_update
  by (rule configmaps)

sublocale lawful \<subseteq> jobr: resource "k_jobs K" job_meta no_phase w_jobs w_jobs_update
  by (rule jobs)

sublocale lawful \<subseteq> cro: resource "k_clusterroles K" cro_meta no_phase w_clusterroles w_clusterroles_update
  by (rule clusterroles)

sublocale lawful \<subseteq> crb: resource "k_clusterrolebindings K" crb_meta no_phase w_clusterrolebindings w_clusterrolebindings_update
  by (rule clusterrolebindings)

text \<open>
  A call that only reads leaves the world as it is up to the number of calls; \<open>reads\<close> is
  closed under composition, so it holds of every handler that only reads.
\<close>

definition reads :: "world \<Rightarrow> world \<Rightarrow> bool" where
  "reads w w' \<longleftrightarrow> (\<exists>n. w' = w\<lparr>w_calls := n\<rparr>)"

lemma readsE: "reads w w' \<Longrightarrow> (\<And>n. w' = w\<lparr>w_calls := n\<rparr> \<Longrightarrow> P) \<Longrightarrow> P"
  by (auto simp: reads_def)

lemma reads_refl [simp, intro]: "reads w w"
  unfolding reads_def by (rule exI [of _ "w_calls w"]) simp

lemma reads_tick [simp, intro]: "reads w (tick w)"
  unfolding reads_def tick_def by blast

lemma reads_trans [trans]: "reads w w1 \<Longrightarrow> reads w1 w2 \<Longrightarrow> reads w w2"
  by (auto simp: reads_def)

lemma reads_tickI [intro]: "reads w w1 \<Longrightarrow> reads w (tick w1)"
  by (blast intro: reads_trans)

lemma reads_sel:
  assumes "reads w w'"
  shows "w_deployments w' = w_deployments w" "w_services w' = w_services w"
    "w_pods w' = w_pods w" "w_endpoints w' = w_endpoints w" "w_secrets w' = w_secrets w"
    "w_pdbs w' = w_pdbs w" "w_nodes w' = w_nodes w" "w_slices w' = w_slices w"
    "w_slicegws w' = w_slicegws w" "w_nses w' = w_nses w" "h_recyclers w' = h_recyclers w"
    "h_rotations w' = h_rotations w" "h_slicegws w' = h_slicegws w" "h_secrets w' = h_secrets w"
    "o_portMap w' = o_portMap w" "o_NetOpPods w' = o_NetOpPods w" "o_FSM w' = o_FSM w"
    "w_sent w' = w_sent w" "o_SliceNetOpPods w' = o_SliceNetOpPods w"
    "w_namespaces w' = w_namespaces w"
    "w_netpols w' = w_netpols w"
    "w_statefulsets w' = w_statefulsets w"
    "w_daemonsets w' = w_daemonsets w"
    "w_networkservices w' = w_networkservices w"
    "w_serviceimports w' = w_serviceimports w"
    "w_serviceexports w' = w_serviceexports w"
    "w_roles w' = w_roles w"
    "w_serviceaccounts w' = w_serviceaccounts w"
    "w_rolebindings w' = w_rolebindings w"
    "w_istiogateways w' = w_istiogateways w"
    "h_sliceconfigs w' = h_sliceconfigs w"
    "h_clusters w' = h_clusters w"
    "w_virtualservices w' = w_virtualservices w"
    "w_serviceentries w' = w_serviceentries w"
    "h_serviceexports w' = h_serviceexports w"
    "h_serviceimports w' = h_serviceimports w"
    "w_configmaps w' = w_configmaps w"
    "w_jobs w' = w_jobs w"
    "w_clusterroles w' = w_clusterroles w"
    "w_clusterrolebindings w' = w_clusterrolebindings w"
    "o_NodeIPList w' = o_NodeIPList w"
    "o_retryAttempts w' = o_retryAttempts w"
  using assms by (auto simp: reads_def)

lemma tick_sel [simp]:
  "w_deployments (tick w) = w_deployments w" "w_services (tick w) = w_services w"
  "w_pods (tick w) = w_pods w" "w_endpoints (tick w) = w_endpoints w"
  "w_secrets (tick w) = w_secrets w" "w_pdbs (tick w) = w_pdbs w" "w_nodes (tick w) = w_nodes w"
  "w_slices (tick w) = w_slices w" "w_slicegws (tick w) = w_slicegws w"
  "w_nses (tick w) = w_nses w" "h_recyclers (tick w) = h_recyclers w"
  "h_rotations (tick w) = h_rotations w" "h_slicegws (tick w) = h_slicegws w"
  "h_secrets (tick w) = h_secrets w" "o_portMap (tick w) = o_portMap w"
  "o_NetOpPods (tick w) = o_NetOpPods w" "o_FSM (tick w) = o_FSM w" "w_sent (tick w) = w_sent w"
  "o_SliceNetOpPods (tick w) = o_SliceNetOpPods w"
  "w_namespaces (tick w) = w_namespaces w"
  "w_netpols (tick w) = w_netpols w"
  "w_statefulsets (tick w) = w_statefulsets w"
  "w_daemonsets (tick w) = w_daemonsets w"
  "w_networkservices (tick w) = w_networkservices w"
  "w_serviceimports (tick w) = w_serviceimports w"
  "w_serviceexports (tick w) = w_serviceexports w"
  "w_roles (tick w) = w_roles w"
  "w_serviceaccounts (tick w) = w_serviceaccounts w"
  "w_rolebindings (tick w) = w_rolebindings w"
  "w_istiogateways (tick w) = w_istiogateways w"
  "h_sliceconfigs (tick w) = h_sliceconfigs w"
  "h_clusters (tick w) = h_clusters w"
  "w_virtualservices (tick w) = w_virtualservices w"
  "w_serviceentries (tick w) = w_serviceentries w"
  "h_serviceexports (tick w) = h_serviceexports w"
  "h_serviceimports (tick w) = h_serviceimports w"
  "w_configmaps (tick w) = w_configmaps w"
  "w_jobs (tick w) = w_jobs w"
  "w_clusterroles (tick w) = w_clusterroles w"
  "w_clusterrolebindings (tick w) = w_clusterrolebindings w"
  "o_NodeIPList (tick w) = o_NodeIPList w"
  "o_retryAttempts (tick w) = o_retryAttempts w"
  "w_calls (tick w) = Suc (w_calls w)"
  by (simp_all add: tick_def)

lemma keyed_self [simp]: "keyed meta (om_Namespace (meta ob)) (om_Name (meta ob)) ob"
  by (simp add: keyed_def)

lemma in_replace_object: "x \<in> set (replace_object meta ob xs) \<Longrightarrow> x = ob \<or> x \<in> set xs"
  by (auto simp: replace_object_def split: if_splits)

lemma find_replace_key:
  assumes "find (keyed meta ns n) xs = Some x" and y: "keyed meta ns n y"
  shows "find (keyed meta ns n) (replace_object meta y xs) = Some y"
proof -
  have k: "keyed meta (om_Namespace (meta y)) (om_Name (meta y)) = keyed meta ns n"
    using y by (auto simp: keyed_def)
  show ?thesis
    using assms(1) unfolding replace_object_def k
    by (induction xs) (auto simp: y split: if_splits)
qed

lemma find_replace:
  assumes "find (keyed meta ns n) xs = Some x" and "meta y = meta x"
  shows "find (keyed meta ns n) (replace_object meta y xs) = Some y"
  by (rule find_replace_key [OF assms(1)])
    (use find_Some_iff' [OF assms(1)] assms(2) in \<open>simp add: keyed_def\<close>)

lemma find_replace_other:
  assumes "\<not> keyed meta ns n y"
  shows "find (keyed meta ns n) (replace_object meta y xs) = find (keyed meta ns n) xs"
  using assms unfolding replace_object_def
  by (induction xs) (auto simp: keyed_def)

lemma find_replace_same:
  assumes "list_ex (same_key meta y) xs"
  shows "find (keyed meta (om_Namespace (meta y)) (om_Name (meta y))) (replace_object meta y xs) = Some y"
  using assms unfolding replace_object_def
  by (induction xs) (auto simp: keyed_def same_key_def)

lemma find_append_new:
  assumes "\<not> list_ex (same_key meta y) xs"
  shows "find (keyed meta ns n) (xs @ [y])
    = (if keyed meta ns n y then Some y else find (keyed meta ns n) xs)"
proof (cases "keyed meta ns n y")
  case True
  have "same_key meta y = keyed meta ns n"
    using True by (auto simp: same_key_def keyed_def fun_eq_iff)
  with assms have "find (keyed meta ns n) xs = None" by (simp add: find_None_iff list_ex_iff)
  with True show ?thesis by (simp add: find_append)
next
  case False
  then show ?thesis by (simp add: find_append split: option.split)
qed

lemma find_remove_other:
  assumes "(ns', n') \<noteq> (ns, n)"
  shows "find (keyed meta ns n) (remove_object meta ns' n' xs) = find (keyed meta ns n) xs"
  using assms unfolding remove_object_def
  by (induction xs) (auto simp: keyed_def)

lemma find_remove_same: "find (keyed meta ns n) (remove_object meta ns n xs) = None"
  by (auto simp: remove_object_def find_None_iff)

section \<open>The reference server\<close>

text \<open>
  The argument \<open>V\<close> gives, for the number of calls made so far, the error with which the
  server refuses the call, if it does.
\<close>

type_synonym verdicts = "nat \<Rightarrow> go_error option"

definition no_faults :: verdicts where
  "no_faults = (\<lambda>_. None)"

text \<open>A refusal with \<open>NotFound\<close> is reported as a server error when the object is there.\<close>

definition refusal :: "bool \<Rightarrow> go_error \<Rightarrow> go_error" where
  "refusal present e = (if e = NotFound \<and> present then Failure ''refused'' else e)"

definition ref_ops :: "verdicts \<Rightarrow> ('o \<Rightarrow> object_meta) \<Rightarrow> ('o \<Rightarrow> string) \<Rightarrow> (world \<Rightarrow> 'o list)
    \<Rightarrow> (('o list \<Rightarrow> 'o list) \<Rightarrow> world \<Rightarrow> world) \<Rightarrow> 'o resource_ops" where
  "ref_ops V meta phase sel upd =
     \<lparr>r_get = (\<lambda>ns n w. case find (keyed meta ns n) (sel w) of
          None \<Rightarrow> (Inl (case V (w_calls w) of None \<Rightarrow> NotFound | Some e \<Rightarrow> e), tick w)
        | Some ob \<Rightarrow> (case V (w_calls w) of None \<Rightarrow> (Inr ob, tick w)
                        | Some e \<Rightarrow> (Inl (refusal True e), tick w))),
      r_list = (\<lambda>lo w. case V (w_calls w) of
          None \<Rightarrow> (Inr (filter (selects meta phase lo) (sel w)), tick w)
        | Some e \<Rightarrow> (Inl e, tick w)),
      r_create = (\<lambda>ob w. case V (w_calls w) of
          None \<Rightarrow> if list_ex (same_key meta ob) (sel w) then (Some AlreadyExists, tick w)
                  else (None, tick (upd (\<lambda>xs. xs @ [ob]) w))
        | Some e \<Rightarrow> (Some e, tick w)),
      r_update = (\<lambda>ob w. case V (w_calls w) of
          None \<Rightarrow> if list_ex (same_key meta ob) (sel w)
                  then (None, tick (upd (replace_object meta ob) w)) else (Some NotFound, tick w)
        | Some e \<Rightarrow> (Some e, tick w)),
      r_update_status = (\<lambda>ob w. case V (w_calls w) of
          None \<Rightarrow> if list_ex (same_key meta ob) (sel w)
                  then (None, tick (upd (replace_object meta ob) w)) else (Some NotFound, tick w)
        | Some e \<Rightarrow> (Some e, tick w)),
      r_delete = (\<lambda>ns n w. case V (w_calls w) of
          None \<Rightarrow> if list_ex (keyed meta ns n) (sel w)
                  then (None, tick (upd (remove_object meta ns n) w)) else (Some NotFound, tick w)
        | Some e \<Rightarrow> (Some (refusal (list_ex (keyed meta ns n) (sel w)) e), tick w))\<rparr>"

lemma ref_ops_resource:
  assumes "\<And>f w. sel (upd f w) = f (sel w)" and "\<And>w. sel (tick w) = sel w"
  shows "resource (ref_ops V meta phase sel upd) meta phase sel upd"
  by (unfold_locales)
    (auto simp: ref_ops_def refusal_def assms split: option.splits if_splits)

text \<open>
  The remote calls of the reference server: \<open>R\<close> gives the replies of the gateway sidecars,
  the peer pod names, the routes of the slice router, the addresses of a host, the clients
  of the slice router and the contents of the manifest files.
\<close>

record replies =
  re_status :: "string \<Rightarrow> gw_status option"
  re_peer :: "string \<Rightarrow> string option"
  re_route :: "string \<Rightarrow> bool"
  re_host :: "string \<Rightarrow> string list"
  re_clients :: "string \<Rightarrow> app_pod list"
  re_deployment :: "string \<Rightarrow> labels \<Rightarrow> deployment option"
  re_service :: "string \<Rightarrow> labels \<Rightarrow> service option"
  re_object :: "string \<Rightarrow> labels \<Rightarrow> any_object option"

definition ref_reply :: "verdicts \<Rightarrow> 'a option \<Rightarrow> world \<Rightarrow> (go_error + 'a) \<times> world" where
  "ref_reply V r w =
     (case V (w_calls w) of
        Some e \<Rightarrow> (Inl e, tick w)
      | None \<Rightarrow> (case r of None \<Rightarrow> (Inl (Failure ''unavailable''), tick w) | Some x \<Rightarrow> (Inr x, tick w)))"

definition ref_parse :: "'a option \<Rightarrow> go_error + 'a" where
  "ref_parse r = (case r of None \<Rightarrow> Inl (Failure ''no such file'') | Some x \<Rightarrow> Inr x)"

definition ref_kube :: "verdicts \<Rightarrow> replies \<Rightarrow> kube" where
  "ref_kube V R =
     \<lparr>k_deployments = ref_ops V d_meta no_phase w_deployments w_deployments_update,
      k_services = ref_ops V s_meta no_phase w_services w_services_update,
      k_pods = ref_ops V p_meta p_Phase w_pods w_pods_update,
      k_endpoints = ref_ops V e_meta no_phase w_endpoints w_endpoints_update,
      k_secrets = ref_ops V sec_meta no_phase w_secrets w_secrets_update,
      k_pdbs = ref_ops V pdb_meta no_phase w_pdbs w_pdbs_update,
      k_nodes = ref_ops V n_meta no_phase w_nodes w_nodes_update,
      k_slices = ref_ops V sl_meta no_phase w_slices w_slices_update,
      k_slicegws = ref_ops V gw_meta no_phase w_slicegws w_slicegws_update,
      k_nses = ref_ops V nse_meta no_phase w_nses w_nses_update,
      k_recyclers = ref_ops V rc_meta no_phase h_recyclers h_recyclers_update,
      k_rotations = ref_ops V vk_meta no_phase h_rotations h_rotations_update,
      k_hubgws = ref_ops V hg_meta no_phase h_slicegws h_slicegws_update,
      k_hubsecrets = ref_ops V sec_meta no_phase h_secrets h_secrets_update,
      k_namespaces = ref_ops V ns_meta no_phase w_namespaces w_namespaces_update,
      k_netpols = ref_ops V np_meta no_phase w_netpols w_netpols_update,
      k_statefulsets = ref_ops V wl_meta no_phase w_statefulsets w_statefulsets_update,
      k_daemonsets = ref_ops V wl_meta no_phase w_daemonsets w_daemonsets_update,
      k_networkservices = ref_ops V ao_meta no_phase w_networkservices w_networkservices_update,
      k_serviceimports = ref_ops V si_meta no_phase w_serviceimports w_serviceimports_update,
      k_serviceexports = ref_ops V se_meta no_phase w_serviceexports w_serviceexports_update,
      k_roles = ref_ops V ao_meta no_phase w_roles w_roles_update,
      k_serviceaccounts = ref_ops V ao_meta no_phase w_serviceaccounts w_serviceaccounts_update,
      k_rolebindings = ref_ops V ao_meta no_phase w_rolebindings w_rolebindings_update,
      k_istiogateways = ref_ops V ao_meta no_phase w_istiogateways w_istiogateways_update,
      k_sliceconfigs = ref_ops V wsc_meta no_phase h_sliceconfigs h_sliceconfigs_update,
      k_clusters = ref_ops V hc_meta no_phase h_clusters h_clusters_update,
      k_virtualservices = ref_ops V vs_meta no_phase w_virtualservices w_virtualservices_update,
      k_serviceentries = ref_ops V sn_meta no_phase w_serviceentries w_serviceentries_update,
      k_hubexports = ref_ops V sx_meta no_phase h_serviceexports h_serviceexports_update,
      k_hubimports = ref_ops V wi_meta no_phase h_serviceimports h_serviceimports_update,
      k_configmaps = ref_ops V cm_meta no_phase w_configmaps w_configmaps_update,
      k_jobs = ref_ops V job_meta no_phase w_jobs w_jobs_update,
      k_clusterroles = ref_ops V cro_meta no_phase w_clusterroles w_clusterroles_update,
      k_clusterrolebindings = ref_ops V crb_meta no_phase w_clusterrolebindings w_clusterrolebindings_update,
      k_setControllerReference = (\<lambda>owner ob. if om_Namespace owner = om_Namespace ob then None
          else Some (Failure ''cross-namespace owner references are disallowed'')),
      k_GetStatus = (\<lambda>a. ref_reply V (re_status R a)),
      k_GetSliceGwRemotePodName = (\<lambda>v a. ref_reply V (re_peer R a)),
      k_GetRouteInKernel = (\<lambda>a s ip. ref_reply V (Some (re_route R ip))),
      k_send = (\<lambda>m w. (V (w_calls w), tick w)),
      k_LookupHost = (\<lambda>h. ref_reply V (Some (re_host R h))),
      k_GetClientConnectionInfo = (\<lambda>a. ref_reply V (Some (re_clients R a))),
      k_parseDeployment = (\<lambda>f t. ref_parse (re_deployment R f t)),
      k_parseService = (\<lambda>f t. ref_parse (re_service R f t)),
      k_parseObject = (\<lambda>f t. ref_parse (re_object R f t))\<rparr>"

lemma ref_reply_world [simp]: "snd (ref_reply V r w) = w\<lparr>w_calls := Suc (w_calls w)\<rparr>"
  by (simp add: ref_reply_def tick_def split: option.splits)

interpretation ref: lawful "ref_kube V R" for V R
  by (rule lawful.intro) (simp_all add: ref_kube_def ref_ops_resource tick_def)

end
