(* ===== verification/Examples.thy ===== *)
theory Examples
  imports KubeApi
begin

text \<open>
  A small cluster on the reference server, on which the theorems are applied: the gateways
  \<open>red-a-b\<close> (server) and \<open>red-b-a\<close> (client) of slice \<open>red\<close>, with two remote node ports.
\<close>

definition ex_config :: "string \<Rightarrow> string \<Rightarrow> slice_gateway_config" where
  "ex_config gwName host =
     \<lparr>SliceGatewayID = gwName, SliceGatewayName = ''1'', cfg_SliceName = ''red'',
      SliceSiteName = '''', SliceGatewayType = ''OpenVPN'', SliceGatewaySubnet = ''192.168.1.0/24'',
      SliceGatewayStatus = '''', SliceGatewayHostType = host, SliceGatewayNodePorts = [],
      SliceGatewayRemoteNodeIPs = [''10.0.0.1''], SliceGatewayRemoteNodePorts = [30001, 30002],
      SliceGatewayRemoteSubnet = ''192.168.2.0/24'', SliceGatewayRemoteVpnIP = ''10.1.1.2'',
      SliceGatewayLocalVpnIP = ''10.1.1.1'', SliceGatewayRemoteGatewayID = ''red-b-a'',
      SliceGatewayRemoteClusterID = ''b'', SliceGatewayIntermediateDeployments = [],
      SliceGatewayConnectivityType = '''', SliceGatewayProtocol = ''UDP'',
      SliceGatewayServerLBIPs = []\<rparr>"

definition ex_gateway :: "string \<Rightarrow> string \<Rightarrow> slice_gateway" where
  "ex_gateway gwName host =
     \<lparr>gw_meta = new_meta ''kubeslice-system'' gwName [], gw_SliceName = ''red'',
      gw_SiteName = '''', gw_Config = ex_config gwName host,
      gw_ConfigUpdatedOn = 0, gw_ConnectionContextUpdatedOn = 0, gw_GatewayPodStatus = []\<rparr>"

definition ex_replies :: replies where
  "ex_replies =
     \<lparr>re_status = (\<lambda>_. None), re_peer = (\<lambda>_. None), re_route = (\<lambda>_. True), re_host = (\<lambda>_. []),
      re_clients = (\<lambda>_. []),
      re_deployment = (\<lambda>_ _. None), re_service = (\<lambda>_ _. None), re_object = (\<lambda>_ _. None)\<rparr>"

definition ex_kube :: kube where
  "ex_kube = ref_kube no_faults ex_replies"

lemma ex_kube_lawful: "lawful ex_kube"
  unfolding ex_kube_def by (rule ref.lawful_axioms)

end
