(* ===== verification/GatewayUtils.thy ===== *)
theory GatewayUtils
  imports Examples
begin

text \<open>
  The helper functions of the slice gateway controller (\<open>controllers/slicegateway/utils.go\<close>
  and the pure helpers of \<open>slicegateway.go\<close>): predicates on a gateway, names of
  deployments, pods and services, searches in lists and in the status of a gateway, and the
  queries of the API server. \<open>E\<close> is the environment of the process, \<open>K\<close> the clients.
\<close>

section \<open>Constants\<close>

definition ControlPlaneNamespace :: string where
  "ControlPlaneNamespace = ''kubeslice-system''"

definition ApplicationNamespaceSelectorLabelKey :: string where
  "ApplicationNamespaceSelectorLabelKey = ''kubeslice.io/slice''"

definition SliceGatewaySelectorLabelKey :: string where
  "SliceGatewaySelectorLabelKey = ''kubeslice.io/slice-gw''"

definition NodeTypeSelectorLabelKey :: string where
  "NodeTypeSelectorLabelKey = ''kubeslice.io/node-type''"

definition PodTypeSelectorLabelKey :: string where
  "PodTypeSelectorLabelKey = ''kubeslice.io/pod-type''"

definition PodInjectLabelKey :: string where
  "PodInjectLabelKey = ''kubeslice.io/pod-type''"

definition GW_TUNNEL_STATE_UP :: int where
  "GW_TUNNEL_STATE_UP = 0"

lemmas label_key_defs =
  ControlPlaneNamespace_def ApplicationNamespaceSelectorLabelKey_def
  SliceGatewaySelectorLabelKey_def NodeTypeSelectorLabelKey_def PodTypeSelectorLabelKey_def
  PodInjectLabelKey_def

section \<open>The host type of a gateway\<close>

definition isClient :: "slice_gateway \<Rightarrow> bool" where
  "isClient g \<longleftrightarrow> SliceGatewayHostType (gw_Config g) = ''Client''"

definition isServer :: "slice_gateway \<Rightarrow> bool" where
  "isServer g \<longleftrightarrow> SliceGatewayHostType (gw_Config g) = ''Server''"

definition readyToDeployGwClient :: "environ \<Rightarrow> slice_gateway \<Rightarrow> bool" where
  "readyToDeployGwClient E g \<longleftrightarrow>
     (if SliceGatewayConnectivityType (gw_Config g) = ''LoadBalancer''
         \<or> getenv E ''ENABLE_GW_LB_EDGE'' \<noteq> ''''
      then length (SliceGatewayServerLBIPs (gw_Config g)) > 0 \<or> getenv E ''GW_LB_IP'' \<noteq> ''''
      else length (SliceGatewayRemoteNodeIPs (gw_Config g)) > 0
         \<and> length (SliceGatewayRemoteNodePorts (gw_Config g)) \<noteq> 0
         \<and> SliceGatewayRemoteGatewayID (gw_Config g) \<noteq> '''')"

definition canDeployGw :: "environ \<Rightarrow> slice_gateway \<Rightarrow> bool" where
  "canDeployGw E g \<longleftrightarrow>
     SliceGatewayHostType (gw_Config g) = ''Server'' \<or> readyToDeployGwClient E g"

lemma isClient_not_isServer: "isClient g \<Longrightarrow> \<not> isServer g"
  by (simp add: isClient_def isServer_def)

section \<open>Names and lists\<close>

definition getPodType :: "labels \<Rightarrow> string" where
  "getPodType ls =
     (case map_of ls PodInjectLabelKey of
        Some podType \<Rightarrow> podType
      | None \<Rightarrow>
         (case map_of ls ''app'' of
            Some nsmLabel \<Rightarrow>
              if nsmLabel = ''nsmgr-daemonset'' \<or> nsmLabel = ''nsm-kernel-plane''
              then ''nsm'' else ''''
          | None \<Rightarrow> ''''))"

definition getGwSvcNameFromDepName :: "string \<Rightarrow> string" where
  "getGwSvcNameFromDepName depName = ''svc-'' @ depName"

fun contains :: "'a list \<Rightarrow> 'a \<Rightarrow> bool" where
  "contains [] e = False"
| "contains (x # xs) e = (if x = e then True else contains xs e)"

fun containsWithIndex_from :: "nat \<Rightarrow> 'a list \<Rightarrow> 'a \<Rightarrow> bool \<times> nat" where
  "containsWithIndex_from i [] e = (False, 0)"
| "containsWithIndex_from i (x # xs) e =
     (if x = e then (True, i) else containsWithIndex_from (Suc i) xs e)"

definition containsWithIndex :: "'a list \<Rightarrow> 'a \<Rightarrow> bool \<times> nat" where
  "containsWithIndex s e = containsWithIndex_from 0 s e"

definition getPodIPs :: "slice_gateway \<Rightarrow> string list" where
  "getPodIPs g = map PodIP (gw_GatewayPodStatus g)"

definition getPodNames :: "slice_gateway \<Rightarrow> string list" where
  "getPodNames g = map PodName (gw_GatewayPodStatus g)"

definition getLocalNSMIPs :: "slice_gateway \<Rightarrow> string list" where
  "getLocalNSMIPs g = map LocalNsmIP (gw_GatewayPodStatus g)"

definition GetDepNameFromPodName :: "string \<Rightarrow> string \<Rightarrow> string" where
  "GetDepNameFromPodName sliceGwID podName =
     (if sliceGwID = '''' \<or> podName = '''' then ''''
      else case cut_prefix podName sliceGwID of
        None \<Rightarrow> ''''
      | Some after \<Rightarrow>
         (let l = split_on CHR ''-'' after in
          if length l < 3 then '''' else sliceGwID @ ''-'' @ l ! 1 @ ''-'' @ l ! 2))"

text \<open>Panics when the local name has no dash: \<open>l[len(l)-2]\<close> is out of range.\<close>

definition GetRemoteDepName :: "string \<Rightarrow> string \<Rightarrow> string go" where
  "GetRemoteDepName remoteGwID localDepName =
     (let l = split_on CHR ''-'' localDepName in
      if length l < 2 then Panic
      else Ret (remoteGwID @ ''-'' @ l ! (length l - 2) @ ''-'' @ l ! (length l - 1)))"

section \<open>The status of the gateway pods\<close>

fun isGWPodStatusChanged_in :: "gw_pod_info list \<Rightarrow> gw_pod_info \<Rightarrow> bool" where
  "isGWPodStatusChanged_in [] gwPod = False"
| "isGWPodStatusChanged_in (gw # gws) gwPod =
     (if PodName gw = PodName gwPod then
        (let t = TunnelStatus gw; t' = TunnelStatus gwPod;
             tunnelUnchanged = (ts_Status t = ts_Status t' \<and> Latency t = Latency t'
               \<and> RxRate t = RxRate t' \<and> TxRate t = TxRate t' \<and> PacketLoss t = PacketLoss t'
               \<and> RemoteIP t = RemoteIP t' \<and> LocalIP t = LocalIP t' \<and> IntfName t = IntfName t'
               \<and> TunnelState t = TunnelState t');
             peerUnchanged = (PeerPodName gw = PeerPodName gwPod)
         in tunnelUnchanged \<and> peerUnchanged)
      else isGWPodStatusChanged_in gws gwPod)"

definition isGWPodStatusChanged :: "slice_gateway \<Rightarrow> gw_pod_info \<Rightarrow> bool" where
  "isGWPodStatusChanged g gwPod = isGWPodStatusChanged_in (gw_GatewayPodStatus g) gwPod"

definition isGatewayStatusChanged :: "slice_gateway \<Rightarrow> gw_pod_info \<Rightarrow> bool" where
  "isGatewayStatusChanged g gwPod \<longleftrightarrow>
     \<not> contains (getPodNames g) (PodName gwPod)
     \<or> \<not> contains (getPodIPs g) (PodIP gwPod)
     \<or> \<not> contains (getLocalNSMIPs g) (LocalNsmIP gwPod)
     \<or> \<not> isGWPodStatusChanged g gwPod"

definition isPodPresentInPodList :: "pod list \<Rightarrow> string \<Rightarrow> bool" where
  "isPodPresentInPodList pods podName = list_ex (\<lambda>p. p_Name p = podName) pods"

definition findGwPodInfo :: "gw_pod_info list \<Rightarrow> string \<Rightarrow> gw_pod_info option" where
  "findGwPodInfo gwPodStatus podName = find (\<lambda>p. PodName p = podName) gwPodStatus"

fun getPodPairToRebalance :: "pod list \<Rightarrow> slice_gateway \<Rightarrow> string \<times> string" where
  "getPodPairToRebalance [] g = ('''', '''')"
| "getPodPairToRebalance (pod # pods) g =
     (case findGwPodInfo (gw_GatewayPodStatus g) (p_Name pod) of
        None \<Rightarrow> getPodPairToRebalance pods g
      | Some podInfo \<Rightarrow>
          if ts_Status (TunnelStatus podInfo) \<noteq> GW_TUNNEL_STATE_UP
          then getPodPairToRebalance pods g
          else if PeerPodName podInfo \<noteq> '''' then (PodName podInfo, PeerPodName podInfo)
          else getPodPairToRebalance pods g)"

definition GetPeerGwPodName :: "string \<Rightarrow> slice_gateway \<Rightarrow> go_error + string" where
  "GetPeerGwPodName gwPodName g =
     (case findGwPodInfo (gw_GatewayPodStatus g) gwPodName of
        None \<Rightarrow> Inl (Failure ''gw pod not found'')
      | Some podInfo \<Rightarrow>
          if ts_Status (TunnelStatus podInfo) \<noteq> GW_TUNNEL_STATE_UP
          then Inl (Failure ''gw tunnel is down'')
          else if PeerPodName podInfo = '''' then Inl (Failure ''gw peer pod info unavailable'')
          else Inr (PeerPodName podInfo))"

text \<open>Panics when the pod is not in the list: the index stays \<open>-1\<close>.\<close>

definition UpdateGWPodStatus :: "gw_pod_info list \<Rightarrow> string \<Rightarrow> gw_pod_info list go" where
  "UpdateGWPodStatus gwPodStatus podName =
     (if list_ex (\<lambda>p. PodName p = podName) gwPodStatus
      then let i = length (takeWhile (\<lambda>p. PodName p \<noteq> podName) gwPodStatus)
           in Ret (take i gwPodStatus @ drop (Suc i) gwPodStatus)
      else Panic)"

section \<open>Deployments and services of a gateway\<close>

definition gwDeploymentName :: "string \<Rightarrow> nat \<Rightarrow> string \<Rightarrow> string" where
  "gwDeploymentName sliceGwName gwInstance depInstance =
     sliceGwName @ ''-'' @ itoa (int gwInstance) @ ''-'' @ depInstance"

definition gwDeploymentIsPresent :: "string \<Rightarrow> nat \<Rightarrow> deployment list \<Rightarrow> bool" where
  "gwDeploymentIsPresent sliceGwName gwInstance deployments =
     list_ex (\<lambda>d. d_Name d = gwDeploymentName sliceGwName gwInstance ''0''
                \<or> d_Name d = gwDeploymentName sliceGwName gwInstance ''1'') deployments"

definition gwServiceIsPresent :: "string \<Rightarrow> nat \<Rightarrow> service list \<Rightarrow> bool" where
  "gwServiceIsPresent sliceGwName gwInstance services =
     list_ex (\<lambda>s. s_Name s = ''svc'' @ ''-'' @ gwDeploymentName sliceGwName gwInstance ''0''
                \<or> s_Name s = ''svc'' @ ''-'' @ gwDeploymentName sliceGwName gwInstance ''1'') services"

definition getGwService :: "service list \<Rightarrow> string \<Rightarrow> service option" where
  "getGwService services svcName = find (\<lambda>s. s_Name s = svcName) services"

definition GetDeployments :: "kube \<Rightarrow> string \<Rightarrow> string \<Rightarrow> world
    \<Rightarrow> (go_error + deployment list) \<times> world" where
  "GetDeployments K sliceName sliceGwName w =
     r_list (k_deployments K)
       (in_namespace ControlPlaneNamespace
          [(ApplicationNamespaceSelectorLabelKey, sliceName),
           (PodInjectLabelKey, ''slicegateway''),
           (''kubeslice.io/slicegw'', sliceGwName)]) w"

definition getDeploymentsMarkedForDeletion :: "kube \<Rightarrow> string \<Rightarrow> string \<Rightarrow> world
    \<Rightarrow> (go_error + deployment list) \<times> world" where
  "getDeploymentsMarkedForDeletion K sliceName sliceGwName w =
     r_list (k_deployments K)
       (in_namespace ControlPlaneNamespace
          [(ApplicationNamespaceSelectorLabelKey, sliceName),
           (PodInjectLabelKey, ''slicegateway''),
           (''kubeslice.io/slicegw'', sliceGwName),
           (''kubeslice.io/marked-for-deletion'', ''true'')]) w"

definition getGwDeployment :: "kube \<Rightarrow> slice_gateway \<Rightarrow> string \<Rightarrow> world
    \<Rightarrow> deployment option \<times> world" where
  "getGwDeployment K g depName w =
     (case GetDeployments K (gw_SliceName g) (gw_Name g) w of
        (Inl e, w) \<Rightarrow> (None, w)
      | (Inr deployments, w) \<Rightarrow> (find (\<lambda>d. d_Name d = depName) deployments, w))"

fun first_node_port_env :: "env_var list \<Rightarrow> int option" where
  "first_node_port_env [] = None"
| "first_node_port_env (ev # evs) =
     (if ev_Name ev = ''NODE_PORT'' then
        (case atoi (ev_Value ev) of
           Some nodePort \<Rightarrow> Some nodePort
         | None \<Rightarrow> first_node_port_env evs)
      else first_node_port_env evs)"

fun first_node_port :: "container list \<Rightarrow> int option" where
  "first_node_port [] = None"
| "first_node_port (c # cs) =
     (if c_Name c = ''kubeslice-sidecar'' then
        (case first_node_port_env (c_Env c) of
           Some nodePort \<Rightarrow> Some nodePort
         | None \<Rightarrow> first_node_port cs)
      else first_node_port cs)"

text \<open>The pair \<open>(found, port)\<close>; the port is \<open>-1\<close> when none is found.\<close>

definition getClientGwRemotePortInUse :: "kube \<Rightarrow> slice_gateway \<Rightarrow> string \<Rightarrow> world
    \<Rightarrow> (bool \<times> int) \<times> world" where
  "getClientGwRemotePortInUse K g depName w =
     (case getGwDeployment K g depName w of
        (None, w) \<Rightarrow> ((False, - 1), w)
      | (Some d, w) \<Rightarrow>
         (case first_node_port (ps_Containers (d_PodSpec d)) of
            Some nodePort \<Rightarrow> ((True, nodePort), w)
          | None \<Rightarrow> ((False, - 1), w)))"

text \<open>Panics when no pod belongs to the deployment: \<open>podList.Items[0]\<close>.\<close>

definition GetPodForGwDeployment :: "kube \<Rightarrow> string \<Rightarrow> world \<Rightarrow> (go_error + pod) go \<times> world" where
  "GetPodForGwDeployment K depName w =
     (case r_list (k_pods K)
         (in_namespace ControlPlaneNamespace [(''kubeslice.io/slice-gw-dep'', depName)]) w of
        (Inl e, w) \<Rightarrow> (Ret (Inl e), w)
      | (Inr [], w) \<Rightarrow> (Panic, w)
      | (Inr (p # ps), w) \<Rightarrow> (Ret (Inr p), w))"

fun nsm_ips_of_pods :: "pod list \<Rightarrow> gw_pod_info list \<Rightarrow> string list" where
  "nsm_ips_of_pods [] status = []"
| "nsm_ips_of_pods (p # ps) status =
     (case find (\<lambda>s. PodName s = p_Name p) status of
        Some s \<Rightarrow> (if LocalNsmIP s \<noteq> '''' then [LocalNsmIP s] else []) @ nsm_ips_of_pods ps status
      | None \<Rightarrow> nsm_ips_of_pods ps status)"

definition GetNsmIPsForGwDeployment :: "kube \<Rightarrow> string \<Rightarrow> string \<Rightarrow> world
    \<Rightarrow> (go_error + string list) \<times> world" where
  "GetNsmIPsForGwDeployment K sliceGwName depName w =
     (case r_get (k_slicegws K) ControlPlaneNamespace sliceGwName w of
        (Inl e, w) \<Rightarrow> (Inl e, w)
      | (Inr g, w) \<Rightarrow>
         (case r_list (k_pods K)
             (in_namespace ControlPlaneNamespace [(''kubeslice.io/slice-gw-dep'', depName)]) w of
            (Inl e, w) \<Rightarrow> (Inl e, w)
          | (Inr pods, w) \<Rightarrow> (Inr (nsm_ips_of_pods pods (gw_GatewayPodStatus g)), w)))"

section \<open>Endpoint addresses\<close>

text \<open>\<open>getAddrSlice\<close> wraps each address; an address is modelled by its IP.\<close>

definition getAddrSlice :: "string list \<Rightarrow> string list" where
  "getAddrSlice endpointIPs = map (\<lambda>ip. ip) endpointIPs"

fun checkEndpointSubset_loop :: "string list \<Rightarrow> bool \<Rightarrow> string list \<Rightarrow> bool" where
  "checkEndpointSubset_loop known requireMatch [] = True"
| "checkEndpointSubset_loop known requireMatch (v # vs) =
     (if requireMatch \<and> v \<notin> set known then False
      else if \<not> requireMatch \<and> v \<in> set known then False
      else checkEndpointSubset_loop known requireMatch vs)"

definition checkEndpointSubset :: "string list \<Rightarrow> string list \<Rightarrow> bool \<Rightarrow> bool" where
  "checkEndpointSubset addrSlice remoteNodeIPs requireMatch =
     (if requireMatch \<and> length addrSlice \<noteq> length remoteNodeIPs then False
      else checkEndpointSubset_loop addrSlice requireMatch remoteNodeIPs)"

section \<open>The queries only read\<close>

lemma nsm_ips_of_podsD:
  "ip \<in> set (nsm_ips_of_pods ps status) \<Longrightarrow>
     \<exists>p \<in> set ps. \<exists>s \<in> set status. PodName s = p_Name p \<and> LocalNsmIP s = ip \<and> ip \<noteq> ''''"
proof (induction ps status rule: nsm_ips_of_pods.induct)
  case (2 p ps status)
  show ?case
  proof (cases "find (\<lambda>s. PodName s = p_Name p) status")
    case None
    with 2 show ?thesis by auto
  next
    case (Some s)
    note s = find_Some_iff' [OF Some]
    from 2(3) Some have "LocalNsmIP s \<noteq> '''' \<and> ip = LocalNsmIP s
        \<or> ip \<in> set (nsm_ips_of_pods ps status)"
      by (auto split: if_splits)
    with 2(2) [OF Some] s show ?thesis by auto
  qed
qed simp

context lawful
begin

lemma GetDeployments_reads: "GetDeployments K a b w = (r, w') \<Longrightarrow> reads w w'"
  by (auto simp: GetDeployments_def dest: dep.list_world)

lemma GetPodForGwDeployment_reads: "GetPodForGwDeployment K d w = (r, w') \<Longrightarrow> reads w w'"
  by (auto simp: GetPodForGwDeployment_def split: prod.splits sum.splits list.splits
      dest!: pod.list_world)

lemma GetNsmIPsForGwDeployment_reads: "GetNsmIPsForGwDeployment K g d w = (r, w') \<Longrightarrow> reads w w'"
  by (auto simp: GetNsmIPsForGwDeployment_def split: prod.splits sum.splits list.splits
      dest!: pod.list_world gw.get_world)

lemma GetDeployments_ok:
  "GetDeployments K a g w = (Inr ds, w') \<Longrightarrow> set ds \<subseteq> set (w_deployments w)"
  by (auto simp: GetDeployments_def dest!: dep.list_ok)

end

section \<open>Endpoints and pod status\<close>

lemma contains_iff [simp]: "contains xs v \<longleftrightarrow> v \<in> set xs"
  by (induction xs) auto

lemma checkEndpointSubset_loop_iff:
  "checkEndpointSubset_loop known True ips \<longleftrightarrow> set ips \<subseteq> set known"
  "checkEndpointSubset_loop known False ips \<longleftrightarrow> set known \<inter> set ips = {}"
  by (induction ips) auto

text \<open>
  for distinct addresses the strict comparison of endpoints holds exactly when the endpoint
  has the wanted addresses in some order, and the lax one exactly when they have nothing in
  common.
\<close>

theorem endpoint_comparison:
  assumes "distinct ips"
  shows "(checkEndpointSubset current ips True \<longleftrightarrow> distinct current \<and> set current = set ips)
    \<and> (checkEndpointSubset current ips False \<longleftrightarrow> set current \<inter> set ips = {})"
proof -
  have "checkEndpointSubset current ips True \<longleftrightarrow> length current = length ips \<and> set ips \<subseteq> set current"
    by (simp add: checkEndpointSubset_def checkEndpointSubset_loop_iff)
  also have "\<dots> \<longleftrightarrow> distinct current \<and> set current = set ips"
  proof
    assume l: "length current = length ips \<and> set ips \<subseteq> set current"
    have "card (set current) \<le> length current" by (rule card_length)
    also have "\<dots> = card (set ips)" using l assms by (simp add: distinct_card)
    finally have eq: "set current = set ips" using l by (metis List.finite_set card_seteq)
    then have "card (set current) = length current" using l assms by (simp add: distinct_card)
    then have "distinct current" by (rule card_distinct)
    with eq show "distinct current \<and> set current = set ips" by simp
  next
    assume "distinct current \<and> set current = set ips"
    with assms show "length current = length ips \<and> set ips \<subseteq> set current"
      by (metis distinct_card order_refl)
  qed
  finally show ?thesis
    by (simp add: checkEndpointSubset_def checkEndpointSubset_loop_iff)
qed

theorem endpoint_comparison_witness:
  "checkEndpointSubset [''10.0.0.2'', ''10.0.0.1''] [''10.0.0.1'', ''10.0.0.2''] True"
  using endpoint_comparison [of "[''10.0.0.1'', ''10.0.0.2'']" "[''10.0.0.2'', ''10.0.0.1'']"] by auto

lemma statusUnchanged_in:
  "isGWPodStatusChanged_in ps p \<Longrightarrow>
     \<exists>s \<in> set ps. PodName s = PodName p \<and> TunnelStatus s = TunnelStatus p \<and> PeerPodName s = PeerPodName p"
proof (induction ps)
  case (Cons s ps)
  show ?case
  proof (cases "PodName s = PodName p")
    case True
    with Cons.prems have "TunnelStatus s = TunnelStatus p \<and> PeerPodName s = PeerPodName p"
      by (auto simp: Let_def)
    with True show ?thesis by auto
  next
    case False
    with Cons show ?thesis by auto
  qed
qed simp

text \<open>
  when the status of a gateway counts as unchanged for a pod, it has an entry with the name,
  the tunnel and the peer of that pod, and the addresses of the pod are in the status.
\<close>

theorem status_unchanged:
  assumes "\<not> isGatewayStatusChanged g p"
  shows "(\<exists>s \<in> set (gw_GatewayPodStatus g). PodName s = PodName p
      \<and> TunnelStatus s = TunnelStatus p \<and> PeerPodName s = PeerPodName p)
    \<and> PodIP p \<in> PodIP ` set (gw_GatewayPodStatus g)
    \<and> LocalNsmIP p \<in> LocalNsmIP ` set (gw_GatewayPodStatus g)"
  using assms statusUnchanged_in [of "gw_GatewayPodStatus g" p]
  by (auto simp: isGatewayStatusChanged_def isGWPodStatusChanged_def getPodIPs_def getLocalNSMIPs_def)

definition ex_up_pod :: "string \<Rightarrow> string \<Rightarrow> string \<Rightarrow> gw_pod_info" where
  "ex_up_pod podName ip peer =
     \<lparr>PodName = podName, PodCreationTS = None, OriginalPodCreationTS = None, PeerPodName = peer,
      PodIP = ip, LocalNsmIP = ip,
      TunnelStatus = \<lparr>IntfName = ''tun0'', LocalIP = '''', RemoteIP = '''', Latency = 3, TxRate = 0,
        RxRate = 0, PacketLoss = 0, ts_Status = 0, TunnelState = ''UP''\<rparr>,
      RouteRemoved = 0, RemotePort = 0\<rparr>"

definition ex_status_gateway :: slice_gateway where
  "ex_status_gateway = (ex_gateway ''red-a-b'' ''Server'')
     \<lparr>gw_GatewayPodStatus := [ex_up_pod ''red-a-b-0-0-x'' ''10.9.0.1'' ''red-b-a-0-0-y'']\<rparr>"

theorem status_unchanged_witness:
  "''10.9.0.1'' \<in> PodIP ` set (gw_GatewayPodStatus ex_status_gateway)"
proof -
  have "\<not> isGatewayStatusChanged ex_status_gateway (ex_up_pod ''red-a-b-0-0-x'' ''10.9.0.1'' ''red-b-a-0-0-y'')"
    by code_simp
  from status_unchanged [OF this] show ?thesis by (simp add: ex_up_pod_def)
qed

lemma getPodPair_spec:
  "getPodPairToRebalance pods g = (p, q) \<Longrightarrow> p \<noteq> '''' \<Longrightarrow>
     \<exists>pod \<in> set pods. \<exists>s \<in> set (gw_GatewayPodStatus g). PodName s = p_Name pod \<and> p = PodName s
       \<and> q = PeerPodName s \<and> q \<noteq> '''' \<and> ts_Status (TunnelStatus s) = GW_TUNNEL_STATE_UP"
proof (induction pods)
  case (Cons pod pods)
  show ?case
  proof (cases "findGwPodInfo (gw_GatewayPodStatus g) (p_Name pod)")
    case None
    with Cons show ?thesis by auto
  next
    case (Some s)
    then have s: "s \<in> set (gw_GatewayPodStatus g)" "PodName s = p_Name pod"
      by (auto simp: findGwPodInfo_def dest: find_Some_iff')
    show ?thesis
    proof (cases "ts_Status (TunnelStatus s) = GW_TUNNEL_STATE_UP \<and> PeerPodName s \<noteq> ''''")
      case True
      with Cons.prems Some s show ?thesis by auto
    next
      case False
      with Cons Some show ?thesis by (auto split: if_splits)
    qed
  qed
qed simp

end
