(* ===== verification/GatewayNaming.thy ===== *)
theory GatewayNaming
  imports GatewayUtils
begin

text \<open>
  The naming scheme of gateway deployments, \<open><gateway>-<gwInstance>-<deploymentInstance>\<close>
  with a deployment instance of 0 or 1, as three components share it: the slice gateway
  controller (\<open>gwDeploymentIsPresent\<close>), the recycler (\<open>getNewDeploymentName\<close> of
  \<open>workerslicegwrecycler/utils.go\<close>, which names the deployment that replaces another) and
  the mapping of pod names back to deployments (\<open>GetDepNameFromPodName\<close>). The locale
  \<open>naming\<close> states what the recycling protocol needs of the replacement name; it is
  interpreted on \<open>getNewDeploymentName\<close>.
\<close>

section \<open>The name of the replacement\<close>

definition getNewDeploymentName :: "string \<Rightarrow> string" where
  "getNewDeploymentName gwID =
     (let l = split_on CHR ''-'' gwID;
          depInstance = last l;
          newDepInstance = (if depInstance = ''0'' then ''1'' else ''0'')
      in join_with CHR ''-'' (l[length l - 1 := newDepInstance]))"

definition gw_dep_name :: "string \<Rightarrow> nat \<Rightarrow> bool \<Rightarrow> string" where
  "gw_dep_name g i b = gwDeploymentName g i (if b then ''1'' else ''0'')"

definition well_named :: "string \<Rightarrow> bool" where
  "well_named d \<longleftrightarrow> (\<exists>s. d = s @ ''-0'' \<or> d = s @ ''-1'')"

lemma well_named_gw_dep_name: "well_named (gw_dep_name g i b)"
proof (cases b)
  case True
  have "gw_dep_name g i b = (g @ ''-'' @ itoa (int i)) @ ''-1''"
    using True by (simp add: gw_dep_name_def gwDeploymentName_def)
  then show ?thesis unfolding well_named_def by blast
next
  case False
  have "gw_dep_name g i b = (g @ ''-'' @ itoa (int i)) @ ''-0''"
    using False by (simp add: gw_dep_name_def gwDeploymentName_def)
  then show ?thesis unfolding well_named_def by blast
qed

text \<open>The last component is replaced, the rest of the name kept.\<close>

lemma getNewDeploymentName_snoc:
  assumes "CHR ''-'' \<notin> set t"
  shows "getNewDeploymentName (s @ CHR ''-'' # t)
           = s @ CHR ''-'' # (if t = ''0'' then ''1'' else ''0'')"
proof -
  let ?n = "if t = ''0'' then ''1'' else ''0''"
  have "getNewDeploymentName (s @ CHR ''-'' # t)
          = join_with CHR ''-'' (split_on CHR ''-'' s @ [?n])"
    by (simp add: getNewDeploymentName_def Let_def split_on_append_snoc [OF assms]
        list_update_append)
  also have "\<dots> = s @ CHR ''-'' # ?n"
    by (simp add: join_snoc)
  finally show ?thesis .
qed

lemma getNewDeploymentName_0: "getNewDeploymentName (s @ ''-0'') = s @ ''-1''"
  using getNewDeploymentName_snoc [of "''0''" s] by simp

lemma getNewDeploymentName_1: "getNewDeploymentName (s @ ''-1'') = s @ ''-0''"
  using getNewDeploymentName_snoc [of "''1''" s] by simp

lemma getNewDeploymentName_gw: "getNewDeploymentName (gw_dep_name g i b) = gw_dep_name g i (\<not> b)"
  using getNewDeploymentName_snoc [of "''0''" "g @ ''-'' @ itoa (int i)"]
    getNewDeploymentName_snoc [of "''1''" "g @ ''-'' @ itoa (int i)"]
  by (cases b) (simp_all add: gw_dep_name_def gwDeploymentName_def)

section \<open>What the protocol needs of a replacement name\<close>

locale naming =
  fixes newName :: "string \<Rightarrow> string"
    and good :: "string \<Rightarrow> bool"
  assumes good_newName: "good d \<Longrightarrow> good (newName d)"
    and newName_neq: "good d \<Longrightarrow> newName d \<noteq> d"
    and newName_newName: "good d \<Longrightarrow> newName (newName d) = d"
begin

lemma newName_inj: "good d \<Longrightarrow> good d' \<Longrightarrow> newName d = newName d' \<Longrightarrow> d = d'"
  by (metis newName_newName)

lemma newName_swap: "good d \<Longrightarrow> good d' \<Longrightarrow> newName d = d' \<longleftrightarrow> d = newName d'"
  by (metis newName_newName)

end

lemma well_named_snoc: "well_named (s @ ''-0'')" "well_named (s @ ''-1'')"
  unfolding well_named_def by blast+

lemma well_named_cases:
  assumes "well_named d"
  obtains s where "d = s @ ''-0''" "getNewDeploymentName d = s @ ''-1''"
      "getNewDeploymentName (s @ ''-1'') = d" "well_named (s @ ''-1'')"
    | s where "d = s @ ''-1''" "getNewDeploymentName d = s @ ''-0''"
      "getNewDeploymentName (s @ ''-0'') = d" "well_named (s @ ''-0'')"
proof -
  from assms obtain s where "d = s @ ''-0'' \<or> d = s @ ''-1''"
    unfolding well_named_def by blast
  then show thesis
  proof
    assume d: "d = s @ ''-0''"
    show thesis
      by (rule that(1) [of s])
        (simp_all only: d getNewDeploymentName_0 getNewDeploymentName_1 well_named_snoc)
  next
    assume d: "d = s @ ''-1''"
    show thesis
      by (rule that(2) [of s])
        (simp_all only: d getNewDeploymentName_0 getNewDeploymentName_1 well_named_snoc)
  qed
qed

interpretation replacement: naming getNewDeploymentName well_named
proof
  fix d
  assume "well_named d"
  then show "well_named (getNewDeploymentName d)" and "getNewDeploymentName d \<noteq> d"
    and "getNewDeploymentName (getNewDeploymentName d) = d"
    by (cases d rule: well_named_cases; simp)+
qed

section \<open>Presence of an instance\<close>

lemma gwDeploymentIsPresent_iff:
  "gwDeploymentIsPresent g i ds \<longleftrightarrow> (\<exists>b. gw_dep_name g i b \<in> d_Name ` set ds)"
proof -
  have "(\<exists>b. gw_dep_name g i b \<in> d_Name ` set ds)
      \<longleftrightarrow> gw_dep_name g i False \<in> d_Name ` set ds \<or> gw_dep_name g i True \<in> d_Name ` set ds"
    using ex_bool_eq by auto
  also have "\<dots> \<longleftrightarrow> gwDeploymentIsPresent g i ds"
    by (force simp: gwDeploymentIsPresent_def gw_dep_name_def list_ex_iff)
  finally show ?thesis by blast
qed

lemma gwDeploymentName_inj:
  assumes "gw_dep_name g i b = gw_dep_name g j c"
  shows "i = j \<and> b = c"
proof -
  have len: "length (if b then ''1'' else ''0'') = length (if c then ''1'' else ''0'')" by simp
  have eq: "itoa (int i) @ CHR ''-'' # (if b then ''1'' else ''0'')
      = itoa (int j) @ CHR ''-'' # (if c then ''1'' else ''0'')"
    using assms by (simp add: gw_dep_name_def gwDeploymentName_def)
  then have "itoa (int i) = itoa (int j)" "(if b then ''1'' else ''0'') = (if c then ''1'' else ''0'')"
    by (auto split: if_splits)
  then show ?thesis by (auto dest: itoa_inj split: if_splits)
qed

text \<open>Replacing a deployment keeps the instance present.\<close>

lemma present_new_name:
  "gw_dep_name g i b \<in> d_Name ` set ds \<Longrightarrow>
     getNewDeploymentName (gw_dep_name g i b) = gw_dep_name g i (\<not> b)
     \<and> gwDeploymentIsPresent g i ds"
  by (auto simp: getNewDeploymentName_gw gwDeploymentIsPresent_iff)

section \<open>From pods back to deployments\<close>

text \<open>
  A pod of the deployment \<open>g-i-b\<close> is named by Kubernetes \<open>g-i-b-<suffixes>\<close>.
\<close>

lemma GetDepNameFromPodName_roundtrip:
  assumes "g \<noteq> ''''"
  shows "GetDepNameFromPodName g (gw_dep_name g i b @ ''-'' @ sfx) = gw_dep_name g i b"
proof -
  let ?bit = "if b then ''1'' else ''0''"
  let ?after = "CHR ''-'' # itoa (int i) @ CHR ''-'' # ?bit @ CHR ''-'' # sfx"
  have pod: "gw_dep_name g i b @ ''-'' @ sfx = g @ ?after"
    by (simp add: gw_dep_name_def gwDeploymentName_def)
  have bit: "CHR ''-'' \<notin> set ?bit" by simp
  have "split_on CHR ''-'' ?after = [] # itoa (int i) # ?bit # split_on CHR ''-'' sfx"
    by (simp only: split_on.simps refl if_True
        split_on_append_sep [OF itoa_no_dash] split_on_append_sep [OF bit])
  moreover obtain y ys where "split_on CHR ''-'' sfx = y # ys"
    by (meson neq_Nil_conv split_on_not_Nil)
  ultimately show ?thesis
    using assms unfolding pod
    by (simp add: GetDepNameFromPodName_def Let_def gw_dep_name_def gwDeploymentName_def)
qed

text \<open>A pod name that does not start with the gateway's name gives no deployment.\<close>

lemma GetDepNameFromPodName_other:
  "cut_prefix p g = None \<Longrightarrow> GetDepNameFromPodName g p = ''''"
  by (simp add: GetDepNameFromPodName_def)

text \<open>The deployment of the same instance on the other side of the tunnel.\<close>

lemma GetRemoteDepName_gw: "GetRemoteDepName r (gw_dep_name g i b) = Ret (gw_dep_name r i b)"
proof -
  let ?bit = "if b then ''1'' else ''0''"
  have bit: "CHR ''-'' \<notin> set ?bit" by simp
  have "split_on CHR ''-'' (gw_dep_name g i b)
      = split_on CHR ''-'' (g @ CHR ''-'' # itoa (int i)) @ [?bit]"
    using split_on_append_snoc [OF bit, of "g @ CHR ''-'' # itoa (int i)"]
    by (simp add: gw_dep_name_def gwDeploymentName_def)
  also have "\<dots> = split_on CHR ''-'' g @ [itoa (int i), ?bit]"
    by (simp add: split_on_append_snoc [OF itoa_no_dash])
  finally show ?thesis
    by (simp add: GetRemoteDepName_def Let_def nth_append gw_dep_name_def gwDeploymentName_def)
qed

lemma GetRemoteDepName_panics: "CHR ''-'' \<notin> set s \<Longrightarrow> GetRemoteDepName r s = Panic"
  by (simp add: GetRemoteDepName_def split_on_no_sep)

section \<open>Properties\<close>

text \<open>
  the name of a pod of a gateway deployment leads back to the deployment, and from there to
  the deployment of the same instance on the other side of the tunnel, without a panic.
\<close>

theorem pod_name_to_peer_deployment:
  assumes "g \<noteq> ''''"
  shows "GetDepNameFromPodName g (gw_dep_name g i b @ ''-'' @ sfx) = gw_dep_name g i b
    \<and> GetRemoteDepName peer (GetDepNameFromPodName g (gw_dep_name g i b @ ''-'' @ sfx))
        = Ret (gw_dep_name peer i b)"
  by (simp only: GetDepNameFromPodName_roundtrip [OF assms] GetRemoteDepName_gw simp_thms)

theorem pod_name_to_peer_deployment_witness:
  "GetRemoteDepName ''red-b-a'' (GetDepNameFromPodName ''red-a-b''
     (gw_dep_name ''red-a-b'' 1 True @ ''-'' @ ''5f-x'')) = Ret (gw_dep_name ''red-b-a'' 1 True)"
  by (rule conjunct2 [OF pod_name_to_peer_deployment]) simp

text \<open>
  recycling does not lose an instance. When the deployment of an instance gets its
  replacement and is then deleted, in this order, the instance is present in all three states,
  and the name of the next replacement is the first name again.
\<close>

theorem replacement_keeps_instance:
  assumes "d_Name old = gw_dep_name g i b" and "d_Name new = getNewDeploymentName (d_Name old)"
  shows "gwDeploymentIsPresent g i (old # ds) \<and> gwDeploymentIsPresent g i (old # ds @ [new])
    \<and> gwDeploymentIsPresent g i (filter (\<lambda>d. d_Name d \<noteq> d_Name old) (old # ds @ [new]))
    \<and> getNewDeploymentName (d_Name new) = d_Name old"
proof -
  have n: "d_Name new = gw_dep_name g i (\<not> b)" using assms by (simp add: getNewDeploymentName_gw)
  then have "d_Name new \<noteq> d_Name old"
    using assms(1) by (auto dest: gwDeploymentName_inj)
  with n assms(1) have "d_Name new \<in> d_Name ` set (filter (\<lambda>d. d_Name d \<noteq> d_Name old) (old # ds @ [new]))"
    by simp
  with n have p: "gwDeploymentIsPresent g i (filter (\<lambda>d. d_Name d \<noteq> d_Name old) (old # ds @ [new]))"
    by (metis gwDeploymentIsPresent_iff)
  have "gwDeploymentIsPresent g i (old # xs)" for xs
    unfolding gwDeploymentIsPresent_iff using assms(1) by (intro exI [of _ b]) simp
  with p n assms(1) show ?thesis by (simp add: getNewDeploymentName_gw)
qed

definition ex_named :: "string \<Rightarrow> deployment" where
  "ex_named n =
     \<lparr>d_meta = new_meta ''kubeslice-system'' n [], d_Replicas = 1, d_Selector = [],
      d_TemplateLabels = [], d_TemplateAnnotations = [],
      d_PodSpec = \<lparr>ps_ServiceAccountName = '''', ps_NodeAffinity = [], ps_PodAntiAffinity =
          \<lparr>paa_Weight = 0, paa_TopologyKey = '''', paa_Expressions = []\<rparr>,
        ps_Containers = [], ps_Volumes = [], ps_Tolerations = [], ps_ImagePullSecrets = []\<rparr>\<rparr>"

theorem replacement_keeps_instance_witness:
  "gwDeploymentIsPresent ''red-a-b'' 0
     (filter (\<lambda>d. d_Name d \<noteq> ''red-a-b-0-0'') [ex_named ''red-a-b-0-0'', ex_named ''red-a-b-0-1''])"
proof -
  have names: "d_Name (ex_named ''red-a-b-0-0'') = gw_dep_name ''red-a-b'' 0 False"
    "d_Name (ex_named ''red-a-b-0-1'') = getNewDeploymentName (d_Name (ex_named ''red-a-b-0-0''))"
    by code_simp+
  have "d_Name (ex_named ''red-a-b-0-0'') = ''red-a-b-0-0''" by code_simp
  with replacement_keeps_instance [OF names, of "[]"] show ?thesis by simp
qed

end
