(* ===== verification/NodePorts.thy ===== *)
theory NodePorts
  imports GatewayUtils
begin

text \<open>
  The assignment of remote node ports to client deployments: the process-wide map
  \<open>gwClientToRemotePortMap\<close> (a \<open>sync.Map\<close>, here an association list whose order is the
  unspecified order in which \<open>Range\<close> visits the entries), the choice of a port for a new
  deployment (in \<open>deploymentForGatewayClient\<close>) and the choice of a new port for a deployment
  whose port became invalid (\<open>allocateNodePortToClient\<close>). The locale \<open>port_allocator\<close> states
  what both choices keep; its consequence, that no two deployments share a port, is proved
  once and holds for both.
\<close>

type_synonym port_map = "(string \<times> int) list"

section \<open>Queries of the map\<close>

fun checkIfNodePortIsAlreadyUsed :: "port_map \<Rightarrow> int \<Rightarrow> bool" where
  "checkIfNodePortIsAlreadyUsed [] nodePort = False"
| "checkIfNodePortIsAlreadyUsed ((key, v) # pm) nodePort =
     (if v = nodePort then True else checkIfNodePortIsAlreadyUsed pm nodePort)"

fun checkIfNodePortIsValid :: "int list \<Rightarrow> int \<Rightarrow> bool" where
  "checkIfNodePortIsValid [] nodePort = False"
| "checkIfNodePortIsValid (v # vs) nodePort =
     (if v = nodePort then True else checkIfNodePortIsValid vs nodePort)"

lemma used_iff [simp]: "checkIfNodePortIsAlreadyUsed pm p \<longleftrightarrow> p \<in> snd ` set pm"
  by (induction pm p rule: checkIfNodePortIsAlreadyUsed.induct) auto

lemma valid_iff [simp]: "checkIfNodePortIsValid ports p \<longleftrightarrow> p \<in> set ports"
  by (induction ports) auto

section \<open>The port of a new client deployment\<close>

text \<open>
  The part of \<open>deploymentForGatewayClient\<close> before the deployment is built. \<open>None\<close> is the
  early return of nil: no port is available.
\<close>

definition clientRemotePort :: "int list \<Rightarrow> string \<Rightarrow> port_map \<Rightarrow> int option \<times> port_map" where
  "clientRemotePort ports depName pm =
     (let found = map_of pm depName;
          (remotePortNumber, pm) =
            (case found of
               None \<Rightarrow> (0, pm)
             | Some v \<Rightarrow> if \<not> checkIfNodePortIsValid ports v
                         then (0, AList.delete depName pm) else (v, pm))
      in if found = None \<or> remotePortNumber = 0 then
           (let pm = (case find (\<lambda>nodePort. \<not> checkIfNodePortIsAlreadyUsed pm nodePort) ports of
                        Some nodePort \<Rightarrow> AList.update depName nodePort pm
                      | None \<Rightarrow> pm)
            in (map_of pm depName, pm))
         else (Some remotePortNumber, pm))"

section \<open>A new port for an existing deployment\<close>

text \<open>
  Go's \<open>append(s[:i], s[i+1:]...)\<close> shifts the elements after \<open>i\<close> within the array that
  backs \<open>s\<close>. The state is that array and the current length of the slice.
\<close>

definition delete_at :: "nat \<Rightarrow> int list \<times> nat \<Rightarrow> int list \<times> nat" where
  "delete_at i s = (case s of (arr, n) \<Rightarrow>
     (take i arr @ drop (Suc i) (take n arr) @ drop (n - 1) arr, n - 1))"

fun removeUsedPorts :: "port_map \<Rightarrow> int list \<times> nat \<Rightarrow> int list \<times> nat" where
  "removeUsedPorts [] s = s"
| "removeUsedPorts ((k, v) # pm) s =
     (case containsWithIndex (take (snd s) (fst s)) v of
        (ok, index) \<Rightarrow> removeUsedPorts pm (if ok then delete_at index s else s))"

text \<open>
  The result, and the array that backs the argument \<open>correctNodePorts\<close> after the call.
\<close>

definition allocateNodePortToClient :: "int list \<Rightarrow> string \<Rightarrow> port_map
    \<Rightarrow> (go_error + int) \<times> int list" where
  "allocateNodePortToClient correctNodePorts depName nodePortsMap =
     (case removeUsedPorts nodePortsMap (correctNodePorts, length correctNodePorts) of
        (arr, n) \<Rightarrow>
          (if n > 0 then Inr (hd arr)
           else (case map_of nodePortsMap depName of
                   Some port \<Rightarrow> Inr port
                 | None \<Rightarrow> Inl (Failure ''could not allocate a port'')), arr))"

subsection \<open>What the loop leaves\<close>

lemma containsWithIndex_from:
  "containsWithIndex_from k xs v =
     (if v \<in> set xs then (True, k + length (takeWhile (\<lambda>x. x \<noteq> v) xs)) else (False, 0))"
  by (induction k xs v rule: containsWithIndex_from.induct) auto

lemma containsWithIndex_eq:
  "containsWithIndex xs v =
     (if v \<in> set xs then (True, length (takeWhile (\<lambda>x. x \<noteq> v) xs)) else (False, 0))"
  by (simp add: containsWithIndex_def containsWithIndex_from)

lemma remove1_at_index:
  "v \<in> set xs \<Longrightarrow> take (length (takeWhile (\<lambda>x. x \<noteq> v) xs)) xs
     @ drop (Suc (length (takeWhile (\<lambda>x. x \<noteq> v) xs))) xs = remove1 v xs"
  by (induction xs) auto

lemma takeWhile_shorter: "v \<in> set xs \<Longrightarrow> length (takeWhile (\<lambda>x. x \<noteq> v) xs) < length xs"
  by (induction xs) auto

definition remove_values :: "int list \<Rightarrow> int list \<Rightarrow> int list" where
  "remove_values vs xs = fold remove1 vs xs"

lemma delete_at_index:
  assumes "n \<le> length arr" and v: "v \<in> set (take n arr)"
    and "i = length (takeWhile (\<lambda>x. x \<noteq> v) (take n arr))"
    and "delete_at i (arr, n) = (arr', n')"
  shows "n' \<le> length arr' \<and> length arr' = length arr \<and> take n' arr' = remove1 v (take n arr)"
proof -
  have i: "i < length (take n arr)"
    using takeWhile_shorter [OF v] assms(3) by simp
  then have n: "0 < n" "i < n" by auto
  have t: "take i arr = take i (take n arr)" using n by simp
  have r: "take i (take n arr) @ drop (Suc i) (take n arr) = remove1 v (take n arr)"
    using remove1_at_index [OF v] assms(3) by simp
  have l: "length (remove1 v (take n arr)) = n - 1"
    using v assms(1) by (simp add: length_remove1)
  have arr': "arr' = remove1 v (take n arr) @ drop (n - 1) arr" and n': "n' = n - 1"
    using assms(4) r [folded t] by (auto simp: delete_at_def simp flip: append_assoc)
  show ?thesis
    using l n assms(1) by (simp add: arr' n')
qed

lemma removeUsedPorts_spec:
  assumes "n \<le> length arr" and "removeUsedPorts pm (arr, n) = (arr', n')"
  shows "n' \<le> length arr' \<and> length arr' = length arr
    \<and> take n' arr' = remove_values (map snd pm) (take n arr)"
  using assms
proof (induction pm arbitrary: arr n)
  case Nil
  then show ?case by (simp add: remove_values_def)
next
  case (Cons kv pm)
  obtain k v where kv: "kv = (k, v)" by fastforce
  let ?i = "length (takeWhile (\<lambda>x. x \<noteq> v) (take n arr))"
  show ?case
  proof (cases "v \<in> set (take n arr)")
    case True
    obtain arr1 n1 where d: "delete_at ?i (arr, n) = (arr1, n1)" by fastforce
    from delete_at_index [OF Cons.prems(1) True refl d]
    have 1: "n1 \<le> length arr1" "length arr1 = length arr"
      "take n1 arr1 = remove1 v (take n arr)" by auto
    have "removeUsedPorts pm (arr1, n1) = (arr', n')"
      using Cons.prems(2) True d by (simp add: kv containsWithIndex_eq)
    from Cons.IH [OF 1(1) this] 1 show ?thesis
      by (simp add: kv remove_values_def)
  next
    case False
    then have "removeUsedPorts pm (arr, n) = (arr', n')"
      using Cons.prems(2) by (simp add: kv containsWithIndex_eq)
    from Cons.IH [OF Cons.prems(1) this] False show ?thesis
      by (simp add: kv remove_values_def remove1_idem)
  qed
qed

lemma remove_values_distinct:
  "distinct xs \<Longrightarrow> remove_values vs xs = filter (\<lambda>x. x \<notin> set vs) xs"
  by (induction vs arbitrary: xs)
    (auto simp: remove_values_def distinct_remove1_removeAll removeAll_filter_not_eq intro: filter_cong)

text \<open>
  For a list of distinct ports the loop leaves the ports that no deployment uses, in their
  order, whatever the order in which \<open>Range\<close> visits the map.
\<close>

lemma removeUsedPorts_distinct:
  assumes "distinct ports" and "removeUsedPorts pm (ports, length ports) = (arr, n)"
  shows "take n arr = filter (\<lambda>p. p \<notin> snd ` set pm) ports \<and> length arr = length ports
    \<and> n = length (filter (\<lambda>p. p \<notin> snd ` set pm) ports)"
proof -
  from removeUsedPorts_spec [OF order_refl assms(2)]
  have "n \<le> length arr" "length arr = length ports"
    "take n arr = remove_values (map snd pm) ports" by simp_all
  moreover from this(3) have "take n arr = filter (\<lambda>p. p \<notin> snd ` set pm) ports"
    by (simp add: remove_values_distinct [OF assms(1)])
  ultimately show ?thesis by (metis length_take min.absorb2)
qed

lemma find_eq_hd_filter:
  "find P xs = (case filter P xs of [] \<Rightarrow> None | x # _ \<Rightarrow> Some x)"
  by (induction xs) auto

lemma allocate_spec:
  assumes "distinct ports"
  shows "fst (allocateNodePortToClient ports dep pm) =
    (case find (\<lambda>p. p \<notin> snd ` set pm) ports of
       Some p \<Rightarrow> Inr p
     | None \<Rightarrow> (case map_of pm dep of
                  Some p \<Rightarrow> Inr p
                | None \<Rightarrow> Inl (Failure ''could not allocate a port'')))"
proof -
  obtain arr n where r: "removeUsedPorts pm (ports, length ports) = (arr, n)" by fastforce
  note s = removeUsedPorts_distinct [OF assms r]
  show ?thesis
  proof (cases "filter (\<lambda>p. p \<notin> snd ` set pm) ports")
    case Nil
    with s have "n = 0" by simp
    with r Nil show ?thesis by (simp add: allocateNodePortToClient_def find_eq_hd_filter)
  next
    case (Cons p ps)
    with s have "0 < n" by simp
    from s have "take n arr = filter (\<lambda>p. p \<notin> snd ` set pm) ports" by blast
    then have "take n arr = p # ps" by (simp only: Cons)
    with \<open>0 < n\<close> have "hd arr = p" by (metis hd_take list.sel(1))
    with r Cons \<open>0 < n\<close> show ?thesis
      by (simp add: allocateNodePortToClient_def find_eq_hd_filter)
  qed
qed

section \<open>What a choice of ports keeps\<close>

text \<open>No two deployments of the map have the same port.\<close>

definition ports_disjoint :: "port_map \<Rightarrow> bool" where
  "ports_disjoint pm \<longleftrightarrow>
     (\<forall>d d' p. map_of pm d = Some p \<longrightarrow> map_of pm d' = Some p \<longrightarrow> d = d')"

definition well_formed_map :: "port_map \<Rightarrow> bool" where
  "well_formed_map pm \<longleftrightarrow> distinct (map fst pm)"

lemma used_map_of:
  "well_formed_map pm \<Longrightarrow> p \<in> snd ` set pm \<longleftrightarrow> (\<exists>d. map_of pm d = Some p)"
  by (force simp: well_formed_map_def image_iff)

lemma wf_update: "well_formed_map pm \<Longrightarrow> well_formed_map (AList.update k v pm)"
  by (simp add: well_formed_map_def distinct_update)

lemma wf_delete: "well_formed_map pm \<Longrightarrow> well_formed_map (AList.delete k pm)"
  by (simp add: well_formed_map_def distinct_delete)

lemma disjoint_delete: "ports_disjoint pm \<Longrightarrow> ports_disjoint (AList.delete k pm)"
  unfolding ports_disjoint_def map_of_delete by (metis option.distinct(1))

locale port_allocator =
  fixes alloc :: "int list \<Rightarrow> string \<Rightarrow> port_map \<Rightarrow> int option \<times> port_map"
  assumes alloc_wf: "alloc ports d pm = (r, pm') \<Longrightarrow> well_formed_map pm \<Longrightarrow> well_formed_map pm'"
    and alloc_other: "alloc ports d pm = (r, pm') \<Longrightarrow> d' \<noteq> d \<Longrightarrow> map_of pm' d' = map_of pm d'"
    and alloc_own: "alloc ports d pm = (Some p, pm') \<Longrightarrow> map_of pm' d = Some p"
    and alloc_none: "alloc ports d pm = (None, pm') \<Longrightarrow> map_of pm' d = None"
    and alloc_fresh: "alloc ports d pm = (Some p, pm') \<Longrightarrow> well_formed_map pm \<Longrightarrow> distinct ports
      \<Longrightarrow> map_of pm d = Some p \<or> p \<notin> snd ` set pm \<or> p \<notin> snd ` set (AList.delete d pm)"
begin

lemma alloc_disjoint:
  assumes a: "alloc ports d pm = (r, pm')" and wf: "well_formed_map pm" and "distinct ports"
    and dis: "ports_disjoint pm"
  shows "ports_disjoint pm'"
proof -
  have new: "d' = d" if "map_of pm' d = Some p" "map_of pm' d' = Some p" for d' p
  proof (rule ccontr)
    assume d': "d' \<noteq> d"
    then have old: "map_of pm d' = Some p" using alloc_other [OF a] that(2) by simp
    from that(1) a have "r = Some p" using alloc_own alloc_none by (cases r) fastforce+
    with a have f: "map_of pm d = Some p \<or> p \<notin> snd ` set pm \<or> p \<notin> snd ` set (AList.delete d pm)"
      using alloc_fresh [OF _ wf assms(3)] by blast
    have "map_of (AList.delete d pm) d' = Some p" using old d' by simp
    then have "p \<in> snd ` set pm" "p \<in> snd ` set (AList.delete d pm)"
      using old by (metis map_of_SomeD image_eqI snd_conv)+
    with f have "map_of pm d = Some p" by blast
    with old dis d' show False by (auto simp: ports_disjoint_def)
  qed
  show ?thesis
    unfolding ports_disjoint_def
  proof (intro allI impI)
    fix d1 d2 p
    assume 1: "map_of pm' d1 = Some p" and 2: "map_of pm' d2 = Some p"
    show "d1 = d2"
    proof (cases "d1 = d \<or> d2 = d")
      case True
      then show ?thesis using new 1 2 by blast
    next
      case False
      then have "map_of pm d1 = Some p" "map_of pm d2 = Some p"
        using alloc_other [OF a] 1 2 by simp_all
      with dis show ?thesis by (auto simp: ports_disjoint_def)
    qed
  qed
qed

text \<open>A history of requests and releases, each request with the ports known at its time.\<close>

fun run :: "(int list \<times> string + string) list \<Rightarrow> port_map \<Rightarrow> port_map" where
  "run [] pm = pm"
| "run (Inl (ports, d) # es) pm = run es (snd (alloc ports d pm))"
| "run (Inr d # es) pm = run es (AList.delete d pm)"

lemma run_disjoint:
  "\<forall>ports d. Inl (ports, d) \<in> set es \<longrightarrow> distinct ports \<Longrightarrow> well_formed_map pm \<Longrightarrow>
     ports_disjoint pm \<Longrightarrow> ports_disjoint (run es pm) \<and> well_formed_map (run es pm)"
proof (induction es pm rule: run.induct)
  case (1 pm)
  then show ?case by simp
next
  case (2 ports d es pm)
  obtain r pm' where a: "alloc ports d pm = (r, pm')" by fastforce
  have "ports_disjoint pm'" "well_formed_map pm'"
    using alloc_disjoint [OF a] alloc_wf [OF a] 2 by auto
  moreover have "\<forall>ports d. Inl (ports, d) \<in> set es \<longrightarrow> distinct ports"
    using "2.prems"(1) by auto
  ultimately have "ports_disjoint (run es pm') \<and> well_formed_map (run es pm')"
    using "2.IH" a by simp
  with a show ?case by simp
next
  case (3 d es pm)
  then show ?case by (simp add: wf_delete disjoint_delete)
qed

end

section \<open>Both choices are port allocators\<close>

text \<open>The use of \<open>allocateNodePortToClient\<close> in \<open>ReconcileGatewayDeployments\<close>: the port is stored.\<close>

definition allocateAndStore :: "int list \<Rightarrow> string \<Rightarrow> port_map \<Rightarrow> int option \<times> port_map" where
  "allocateAndStore ports d pm =
     (case fst (allocateNodePortToClient ports d pm) of
        Inr p \<Rightarrow> (Some p, AList.update d p pm)
      | Inl e \<Rightarrow> (None, pm))"

lemma allocate_error_unmapped:
  "fst (allocateNodePortToClient ports d pm) = Inl e \<Longrightarrow> map_of pm d = None"
  by (auto simp: allocateNodePortToClient_def split: prod.splits if_splits option.splits)

interpretation reallocation: port_allocator allocateAndStore
proof
  fix ports d pm r pm' d' p
  show "allocateAndStore ports d pm = (r, pm') \<Longrightarrow> well_formed_map pm \<Longrightarrow> well_formed_map pm'"
    by (auto simp: allocateAndStore_def wf_update split: sum.splits)
  show "allocateAndStore ports d pm = (r, pm') \<Longrightarrow> d' \<noteq> d \<Longrightarrow> map_of pm' d' = map_of pm d'"
    by (auto simp: allocateAndStore_def split: sum.splits)
  show "allocateAndStore ports d pm = (Some p, pm') \<Longrightarrow> map_of pm' d = Some p"
    by (auto simp: allocateAndStore_def split: sum.splits)
  show "allocateAndStore ports d pm = (None, pm') \<Longrightarrow> map_of pm' d = None"
    by (auto simp: allocateAndStore_def allocate_error_unmapped split: sum.splits)
  assume a: "allocateAndStore ports d pm = (Some p, pm')" and "distinct ports"
  then have "fst (allocateNodePortToClient ports d pm) = Inr p"
    by (auto simp: allocateAndStore_def split: sum.splits)
  then show "map_of pm d = Some p \<or> p \<notin> snd ` set pm \<or> p \<notin> snd ` set (AList.delete d pm)"
    using \<open>distinct ports\<close>
    by (auto simp: allocate_spec dest: find_Some_iff' split: option.splits)
qed

lemma clientRemotePort_unmapped:
  assumes "map_of pm d = None"
  shows "clientRemotePort ports d pm =
    (case find (\<lambda>p. p \<notin> snd ` set pm) ports of
       Some p \<Rightarrow> (Some p, AList.update d p pm) | None \<Rightarrow> (None, pm))"
  using assms by (simp add: clientRemotePort_def Let_def split: option.splits)

lemma clientRemotePort_valid:
  assumes "map_of pm d = Some v" "v \<in> set ports" "v \<noteq> 0"
  shows "clientRemotePort ports d pm = (Some v, pm)"
  using assms by (simp add: clientRemotePort_def)

lemma clientRemotePort_zero:
  assumes "map_of pm d = Some 0" "0 \<in> set ports"
  shows "clientRemotePort ports d pm =
    (case find (\<lambda>p. p \<notin> snd ` set pm) ports of
       Some p \<Rightarrow> (Some p, AList.update d p pm) | None \<Rightarrow> (Some 0, pm))"
  using assms by (simp add: clientRemotePort_def Let_def split: option.splits)

lemma clientRemotePort_stale:
  assumes "map_of pm d = Some v" "v \<notin> set ports"
  shows "clientRemotePort ports d pm =
    (case find (\<lambda>p. p \<notin> snd ` set (AList.delete d pm)) ports of
       Some p \<Rightarrow> (Some p, AList.update d p (AList.delete d pm))
     | None \<Rightarrow> (None, AList.delete d pm))"
  using assms by (simp add: clientRemotePort_def Let_def split: option.splits)

lemma pick_cases:
  assumes "(case find P ports of Some p \<Rightarrow> (Some p, AList.update d p q) | None \<Rightarrow> (x, y)) = (r, pm')"
  shows "(\<exists>p. find P ports = Some p \<and> r = Some p \<and> pm' = AList.update d p q)
    \<or> (find P ports = None \<and> r = x \<and> pm' = y)"
proof (cases "find P ports")
  case None
  with assms show ?thesis by simp
next
  case (Some p)
  with assms have "r = Some p" "pm' = AList.update d p q" by auto
  with Some show ?thesis by blast
qed

lemma clientRemotePort_disj:
  assumes "clientRemotePort ports d pm = (r, pm')"
  shows "(\<exists>v. map_of pm d = Some v \<and> r = Some v \<and> pm' = pm)
    \<or> (\<exists>p q. (q = pm \<or> q = AList.delete d pm) \<and> r = Some p \<and> pm' = AList.update d p q
          \<and> find (\<lambda>p. p \<notin> snd ` set q) ports = Some p)
    \<or> (\<exists>q. (q = pm \<or> q = AList.delete d pm) \<and> r = None \<and> pm' = q \<and> map_of q d = None
          \<and> find (\<lambda>p. p \<notin> snd ` set q) ports = None)"
proof (cases "map_of pm d")
  case None
  from pick_cases [OF assms [unfolded clientRemotePort_unmapped [OF None]]] None
  show ?thesis by blast
next
  case (Some v)
  consider "v \<notin> set ports" | "v \<in> set ports" "v = 0" | "v \<in> set ports" "v \<noteq> 0" by blast
  then show ?thesis
  proof cases
    case 1
    have "map_of (AList.delete d pm) d = None" by simp
    with pick_cases [OF assms [unfolded clientRemotePort_stale [OF Some 1]]]
    show ?thesis by blast
  next
    case 2
    with Some have z: "map_of pm d = Some 0" "0 \<in> set ports" by auto
    from pick_cases [OF assms [unfolded clientRemotePort_zero [OF z]]] z
    show ?thesis by blast
  next
    case 3
    have "r = Some v" "pm' = pm" using assms clientRemotePort_valid [OF Some 3] by auto
    with Some show ?thesis by blast
  qed
qed

lemma clientRemotePort_cases:
  assumes "clientRemotePort ports d pm = (r, pm')"
  obtains (kept) v where "map_of pm d = Some v" "r = Some v" "pm' = pm"
  | (chosen) p q where "q = pm \<or> q = AList.delete d pm" "r = Some p" "pm' = AList.update d p q"
      "find (\<lambda>p. p \<notin> snd ` set q) ports = Some p"
  | (full) q where "q = pm \<or> q = AList.delete d pm" "r = None" "pm' = q" "map_of q d = None"
      "find (\<lambda>p. p \<notin> snd ` set q) ports = None"
  using clientRemotePort_disj [OF assms] by blast

interpretation fresh_choice: port_allocator clientRemotePort
proof
  fix ports d pm r pm' d' p
  show "clientRemotePort ports d pm = (r, pm') \<Longrightarrow> well_formed_map pm \<Longrightarrow> well_formed_map pm'"
    by (erule clientRemotePort_cases) (auto simp: wf_update wf_delete)
  show "clientRemotePort ports d pm = (r, pm') \<Longrightarrow> d' \<noteq> d \<Longrightarrow> map_of pm' d' = map_of pm d'"
    by (erule clientRemotePort_cases) auto
  show "clientRemotePort ports d pm = (Some p, pm') \<Longrightarrow> map_of pm' d = Some p"
    by (erule clientRemotePort_cases) auto
  show "clientRemotePort ports d pm = (None, pm') \<Longrightarrow> map_of pm' d = None"
    by (erule clientRemotePort_cases) auto
  assume "clientRemotePort ports d pm = (Some p, pm')"
  then show "map_of pm d = Some p \<or> p \<notin> snd ` set pm \<or> p \<notin> snd ` set (AList.delete d pm)"
    by (cases rule: clientRemotePort_cases) (auto dest: find_Some_iff' split: if_splits)
qed

section \<open>The map over its lifetime\<close>

text \<open>
  What happens to the map: a deployment is created with the ports known at that time, a
  deployment gets a new port, a deployment is deleted.
\<close>

datatype port_event =
    NewDeployment "int list" string
  | Reallocate "int list" string
  | Release string

fun port_event_step :: "port_event \<Rightarrow> port_map \<Rightarrow> port_map" where
  "port_event_step (NewDeployment ports d) pm = snd (clientRemotePort ports d pm)"
| "port_event_step (Reallocate ports d) pm = snd (allocateAndStore ports d pm)"
| "port_event_step (Release d) pm = AList.delete d pm"

fun event_ports :: "port_event \<Rightarrow> int list" where
  "event_ports (NewDeployment ports d) = ports"
| "event_ports (Reallocate ports d) = ports"
| "event_ports (Release d) = []"

lemma port_event_step_disjoint:
  assumes "well_formed_map pm \<and> ports_disjoint pm" and "distinct (event_ports e)"
  shows "well_formed_map (port_event_step e pm) \<and> ports_disjoint (port_event_step e pm)"
proof (cases e)
  case (NewDeployment ports d)
  with fresh_choice.alloc_disjoint [OF prod.collapse [symmetric], of pm ports d]
    fresh_choice.alloc_wf [OF prod.collapse [symmetric], of pm ports d] assms
  show ?thesis by simp
next
  case (Reallocate ports d)
  with reallocation.alloc_disjoint [OF prod.collapse [symmetric], of pm ports d]
    reallocation.alloc_wf [OF prod.collapse [symmetric], of pm ports d] assms
  show ?thesis by simp
next
  case (Release d)
  with assms show ?thesis by (simp add: wf_delete disjoint_delete)
qed



text \<open>
  a new client deployment keeps the port it is mapped to while that port is valid (and not
  0); otherwise it gets the first remote node port that no other deployment uses, and none
  exactly when all are in use.
\<close>

theorem new_deployment_port:
  "fst (clientRemotePort ports d pm) =
     (case map_of pm d of
        Some v \<Rightarrow>
          if v \<in> set ports then
            if v \<noteq> 0 then Some v
            else (case find (\<lambda>p. p \<notin> snd ` set pm) ports of Some p \<Rightarrow> Some p | None \<Rightarrow> Some 0)
          else find (\<lambda>p. p \<notin> snd ` set (AList.delete d pm)) ports
      | None \<Rightarrow> find (\<lambda>p. p \<notin> snd ` set pm) ports)"
proof (cases "map_of pm d")
  case None
  then show ?thesis by (simp add: clientRemotePort_unmapped split: option.splits)
next
  case (Some v)
  consider "v \<notin> set ports" | "v \<in> set ports" "v = 0" | "v \<in> set ports" "v \<noteq> 0" by blast
  then show ?thesis
  proof cases
    case 1
    with Some show ?thesis by (simp add: clientRemotePort_stale split: option.splits)
  next
    case 2
    with Some have "map_of pm d = Some 0" "0 \<in> set ports" by auto
    from clientRemotePort_zero [OF this] this show ?thesis by (simp split: option.splits)
  next
    case 3
    with Some show ?thesis by (simp add: clientRemotePort_valid)
  qed
qed

text \<open>
  the new port of a deployment is the first of the distinct remote ports that no deployment
  uses, whatever the order in which the map is visited; when all are in use, the port it is
  mapped to already, and an error when it has none.
\<close>

theorem reallocated_port:
  assumes "distinct ports"
  shows "fst (allocateNodePortToClient ports dep pm) =
    (case find (\<lambda>p. p \<notin> snd ` set pm) ports of
       Some p \<Rightarrow> Inr p
     | None \<Rightarrow> (case map_of pm dep of
                  Some p \<Rightarrow> Inr p
                | None \<Rightarrow> Inl (Failure ''could not allocate a port'')))"
  by (rule allocate_spec [OF assms])

theorem reallocated_port_witness:
  "fst (allocateNodePortToClient [30001, 30002, 30003] ''d2'' [(''d1'', 30002), (''d0'', 30001)]) = Inr 30003"
  using reallocated_port [of "[30001, 30002, 30003]" "''d2''" "[(''d1'', 30002), (''d0'', 30001)]"] by simp

text \<open>
  \<open>allocateNodePortToClient\<close> works in place on its argument, the remote node ports of the
  gateway's status: when a port in use comes before a free one, the caller's list of ports is
  changed by the call, although the call only asks for a port.
\<close>

theorem allocation_changes_callers_ports:
  assumes "distinct ports" and "ports = as @ u # bs @ f # cs"
    and "u \<in> snd ` set pm" and "f \<notin> snd ` set pm"
  shows "snd (allocateNodePortToClient ports dep pm) \<noteq> ports"
proof
  assume same: "snd (allocateNodePortToClient ports dep pm) = ports"
  obtain arr n where r: "removeUsedPorts pm (ports, length ports) = (arr, n)" by fastforce
  with same have "arr = ports" by (simp add: allocateNodePortToClient_def)
  have "take n arr = filter (\<lambda>p. p \<notin> snd ` set pm) ports"
    using removeUsedPorts_distinct [OF assms(1) r] by blast
  then have t: "take n ports = filter (\<lambda>p. p \<notin> snd ` set pm) ports"
    unfolding \<open>arr = ports\<close> .
  have "f \<in> set (take n ports)" unfolding t using assms(2,4) by simp
  have "length as < n"
  proof (rule ccontr)
    assume "\<not> length as < n"
    then have "take n ports = take n as" using assms(2) by simp
    then have "f \<in> set as" using \<open>f \<in> set (take n ports)\<close> by (auto dest: in_set_takeD)
    with assms(1,2) show False by auto
  qed
  then obtain m where "n - length as = Suc m" by (metis Suc_diff_Suc)
  then have "u \<in> set (take n ports)" by (simp add: assms(2))
  then show False unfolding t using assms(3) by simp
qed

theorem allocation_changes_callers_ports_witness:
  "snd (allocateNodePortToClient [30001, 30002] ''d1'' [(''d0'', 30001)]) \<noteq> [30001, 30002]"
  by (rule allocation_changes_callers_ports [of _ "[]" 30001 "[]" 30002 "[]"]) simp_all

end
