(* ===== verification/GatewayDeployment.thy ===== *)
theory GatewayDeployment
  imports NodePorts GatewayNaming
begin

text \<open>
  The objects the slice gateway controller creates (\<open>controllers/slicegateway/slicegateway.go\<close>):
  the deployments of a gateway server and of a gateway client with their VPN container and
  volumes, the service, the headless service and endpoints of the remote gateway, the pod
  disruption budget, and the change of a client deployment's node port. The lemmas relate what
  is written to what is read back: labels to the queries that look for them, the
  \<open>NODE_PORT\<close> variable to the port in use.
\<close>

section \<open>Labels\<close>

definition labelsForSliceGwDeployment :: "string \<Rightarrow> string \<Rightarrow> string \<Rightarrow> labels" where
  "labelsForSliceGwDeployment name sliceName depName =
     [(''networkservicemesh.io/app'', name),
      (PodInjectLabelKey, ''slicegateway''),
      (ApplicationNamespaceSelectorLabelKey, sliceName),
      (SliceGatewaySelectorLabelKey, name),
      (''kubeslice.io/slice-gw-dep'', depName)]"

definition labelsForSliceGwService :: "string \<Rightarrow> string \<Rightarrow> labels" where
  "labelsForSliceGwService name depName =
     [(SliceGatewaySelectorLabelKey, name), (''kubeslice.io/slice-gw-dep'', depName)]"

definition labelsForSliceGwStatus :: "string \<Rightarrow> labels" where
  "labelsForSliceGwStatus name = [(SliceGatewaySelectorLabelKey, name)]"

definition deploymentLabels :: "slice_gateway \<Rightarrow> labels" where
  "deploymentLabels g =
     [(ApplicationNamespaceSelectorLabelKey, gw_SliceName g),
      (PodInjectLabelKey, ''slicegateway''),
      (''kubeslice.io/slicegw'', gw_Name g)]"

section \<open>Parts of a pod\<close>

definition env_entry :: "string \<Rightarrow> string \<Rightarrow> env_var" where
  "env_entry n v = \<lparr>ev_Name = n, ev_Value = v\<rparr>"

definition privileged_net_admin :: security_context where
  "privileged_net_admin =
     \<lparr>Privileged = True, AllowPrivilegeEscalation = True, AddCapabilities = [''NET_ADMIN'']\<rparr>"

definition mount :: "string \<Rightarrow> string \<Rightarrow> volume_mount" where
  "mount n p = \<lparr>vm_Name = n, MountPath = p, SubPath = '''', ReadOnly = False\<rparr>"

definition mount_sub :: "string \<Rightarrow> string \<Rightarrow> string \<Rightarrow> volume_mount" where
  "mount_sub n p s = \<lparr>vm_Name = n, MountPath = p, SubPath = s, ReadOnly = True\<rparr>"

definition or_default :: "string \<Rightarrow> string \<Rightarrow> string" where
  "or_default v d = (if length v \<noteq> 0 then v else d)"

definition getPodAntiAffinity :: "string \<Rightarrow> string \<Rightarrow> pod_anti_affinity" where
  "getPodAntiAffinity sliceName slicegateway =
     \<lparr>paa_Weight = 100, paa_TopologyKey = ''kubernetes.io/hostname'',
      paa_Expressions =
        [\<lparr>rq_Key = SliceGatewaySelectorLabelKey, rq_Operator = ''In'', rq_Values = [slicegateway]\<rparr>,
         \<lparr>rq_Key = ApplicationNamespaceSelectorLabelKey, rq_Operator = ''In'', rq_Values = [sliceName]\<rparr>]\<rparr>"

definition gateway_tolerations :: "toleration list" where
  "gateway_tolerations =
     [\<lparr>tol_Key = NodeTypeSelectorLabelKey, tol_Operator = ''Equal'', tol_Effect = ''NoSchedule'',
       tol_Value = ''gateway''\<rparr>,
      \<lparr>tol_Key = NodeTypeSelectorLabelKey, tol_Operator = ''Equal'', tol_Effect = ''NoExecute'',
       tol_Value = ''gateway''\<rparr>]"

definition gateway_node_affinity :: "requirement list" where
  "gateway_node_affinity =
     [\<lparr>rq_Key = NodeTypeSelectorLabelKey, rq_Operator = ''In'', rq_Values = [''gateway'']\<rparr>]"

definition sidecar_limits :: "(string \<times> string) list" where
  "sidecar_limits = [(''memory'', ''200Mi''), (''cpu'', ''500m'')]"

definition sidecar_requests :: "(string \<times> string) list" where
  "sidecar_requests = [(''memory'', ''50Mi''), (''cpu'', ''50m'')]"

definition DEFAULT_SIDECAR_IMG :: string where
  "DEFAULT_SIDECAR_IMG = ''nexus.dev.aveshalabs.io/kubeslice/gw-sidecar:1.0.0''"

definition sidecarImage :: "environ \<Rightarrow> string" where
  "sidecarImage E = or_default (getenv E ''AVESHA_GW_SIDECAR_IMAGE'') DEFAULT_SIDECAR_IMG"

definition sidecarPullPolicy :: "environ \<Rightarrow> string" where
  "sidecarPullPolicy E = or_default (getenv E ''AVESHA_GW_SIDECAR_IMAGE_PULLPOLICY'') ''Always''"

definition imagePullSecrets :: "environ \<Rightarrow> string list" where
  "imagePullSecrets E =
     (let n = (case E ''IMAGE_PULL_SECRET_NAME'' of None \<Rightarrow> ''kubeslice-nexus'' | Some v \<Rightarrow> v)
      in if length n \<noteq> 0 then [n] else [])"

definition secretName :: "slice_gateway \<Rightarrow> int \<Rightarrow> string" where
  "secretName g gwConfigKey = gw_Name g @ ''-'' @ itoa gwConfigKey"

definition nsmAnnotation :: "slice_gateway \<Rightarrow> string" where
  "nsmAnnotation g = ''kernel://vl3-service-'' @ gw_SliceName g @ ''/nsm0''"

definition podAnnotations :: "slice_gateway \<Rightarrow> labels" where
  "podAnnotations g =
     [(''prometheus.io/port'', ''18080''), (''prometheus.io/scrape'', ''true''),
      (''networkservicemesh.io'', nsmAnnotation g)]"

section \<open>The server side\<close>

definition wireguard_env :: "slice_gateway \<Rightarrow> env_var list" where
  "wireguard_env g =
     [env_entry ''ADDRESS'' (SliceGatewayLocalVpnIP (gw_Config g) @ ''/32''),
      env_entry ''PORT'' ''11194'',
      env_entry ''ALLOWED_IPS''
        (SliceGatewayRemoteVpnIP (gw_Config g) @ ''/32, '' @ SliceGatewayRemoteSubnet (gw_Config g))]"

definition getServerVpnContainerSpec :: "environ \<Rightarrow> slice_gateway \<Rightarrow> container" where
  "getServerVpnContainerSpec E g =
     (if SliceGatewayType (gw_Config g) = ''OpenVPN'' then
        empty_container\<lparr>
          c_Name := ''kubeslice-openvpn-server'',
          c_Image := or_default (getenv E ''AVESHA_OPENVPN_SERVER_IMAGE'')
            ''nexus.dev.aveshalabs.io/kubeslice/openvpn-server.ubuntu.18.04:1.0.0'',
          c_ImagePullPolicy := or_default (getenv E ''AVESHA_OPENVPN_SERVER_PULLPOLICY'') ''Always'',
          c_Command := [''/usr/local/bin/waitForConfigToRunCmd.sh''],
          c_Args := [''/etc/openvpn/openvpn.conf'', ''90'', ''ovpn_run''],
          c_SecurityContext := Some privileged_net_admin,
          c_VolumeMounts := [mount ''shared-volume'' ''/etc/openvpn'']\<rparr>
      else if SliceGatewayType (gw_Config g) = ''Wireguard'' then
        empty_container\<lparr>
          c_Name := ''kubeslice-wireguard-server'',
          c_Image := or_default (getenv E ''WIREGUARD_SERVER_IMAGE'')
            ''aveshasystems/wireguard-server.alpine:1.0.0'',
          c_ImagePullPolicy := or_default (getenv E ''WIREGUARD_SERVER_PULLPOLICY'') ''Always'',
          c_Env := wireguard_env g,
          c_SecurityContext := Some privileged_net_admin,
          c_VolumeMounts :=
            [mount_sub ''vpn-certs'' ''/etc/wireguard/privatekey'' ''privatekey'',
             mount_sub ''vpn-certs'' ''/etc/wireguard/publickey'' ''publickey'']\<rparr>
      else empty_container)"

definition to_path :: "string \<Rightarrow> string \<Rightarrow> key_to_path" where
  "to_path k p = \<lparr>kp_Key = k, kp_Path = p, kp_Mode = None\<rparr>"

definition to_path_mode :: "string \<Rightarrow> string \<Rightarrow> int \<Rightarrow> key_to_path" where
  "to_path_mode k p m = \<lparr>kp_Key = k, kp_Path = p, kp_Mode = Some m\<rparr>"

text \<open>The modes are \<open>0644\<close>, that is 420.\<close>

definition getVolumesForGatewayServer :: "environ \<Rightarrow> slice_gateway \<Rightarrow> int \<Rightarrow> volume list" where
  "getVolumesForGatewayServer E g gwConfigKey =
     (let shared = \<lparr>v_Name = ''shared-volume'', v_Source = EmptyDir\<rparr>;
          baseFileName = getenv E ''CLUSTER_NAME'' @ ''-'' @ gw_SliceName g @ ''-''
            @ SliceGatewayName (gw_Config g) @ ''.vpn.aveshasystems.com''
      in if SliceGatewayType (gw_Config g) = ''OpenVPN'' then
           [shared,
            \<lparr>v_Name = ''vpn-certs'', v_Source = SecretVolume (secretName g gwConfigKey) 420
               [to_path ''ovpnConfigFile'' ''openvpn.conf'',
                to_path ''pkiCACertFile'' ''pki/ca.crt'',
                to_path ''pkiDhPemFile'' ''pki/dh.pem'',
                to_path ''pkiTAKeyFile'' (''pki/'' @ baseFileName @ ''-ta.key''),
                to_path_mode ''pkiIssuedCertFile'' (''pki/issued/'' @ baseFileName @ ''.crt'') 420,
                to_path_mode ''pkiPrivateKeyFile'' (''pki/private/'' @ baseFileName @ ''.key'') 420,
                to_path ''ccdFile'' (''ccd/'' @ SliceGatewayRemoteGatewayID (gw_Config g))]\<rparr>]
         else if SliceGatewayType (gw_Config g) = ''Wireguard'' then
           [shared,
            \<lparr>v_Name = ''vpn-certs'', v_Source = SecretVolume (secretName g gwConfigKey) 420
               [to_path ''clientPublicKeyWgFile'' ''publickey'',
                to_path ''serverPrivateKeyWgFile'' ''privatekey'']\<rparr>]
         else [])"

definition sidecarContainer :: "environ \<Rightarrow> env_var list \<Rightarrow> volume_mount list \<Rightarrow> container" where
  "sidecarContainer E env mounts =
     empty_container\<lparr>
       c_Name := ''kubeslice-sidecar'',
       c_Image := sidecarImage E,
       c_ImagePullPolicy := sidecarPullPolicy E,
       c_Ports := [(''metrics'', 18080)],
       c_Env := env,
       c_SecurityContext := Some privileged_net_admin,
       c_VolumeMounts := mounts,
       c_Limits := sidecar_limits,
       c_Requests := sidecar_requests\<rparr>"

text \<open>
  \<open>nodeIps\<close> is what \<open>cluster.GetNodeExternalIpList()\<close> returns; its list is nil or not empty.
\<close>

definition serverSidecarEnv :: "environ \<Rightarrow> string list \<Rightarrow> slice_gateway \<Rightarrow> env_var list" where
  "serverSidecarEnv E nodeIps g =
     [env_entry ''SLICE_NAME'' (gw_SliceName g),
      env_entry ''CLUSTER_ID'' (getenv E ''CLUSTER_NAME''),
      env_entry ''REMOTE_CLUSTER_ID'' (SliceGatewayRemoteClusterID (gw_Config g)),
      env_entry ''GATEWAY_ID'' (SliceGatewayID (gw_Config g)),
      env_entry ''REMOTE_GATEWAY_ID'' (SliceGatewayRemoteGatewayID (gw_Config g)),
      env_entry ''POD_TYPE'' ''GATEWAY_POD'',
      env_entry ''NODE_IP'' (case nodeIps of [] \<Rightarrow> '''' | ip # _ \<Rightarrow> ip),
      env_entry ''VPN_TYPE'' (SliceGatewayType (gw_Config g)),
      env_entry ''VPN_MODE'' ''SERVER'',
      env_entry ''MOUNT_PATH'' ''config'']"

definition deploymentForGatewayServer :: "environ \<Rightarrow> string list \<Rightarrow> slice_gateway \<Rightarrow> string
    \<Rightarrow> int \<Rightarrow> deployment" where
  "deploymentForGatewayServer E nodeIps g depName gwConfigKey =
     (let ls = labelsForSliceGwDeployment (gw_Name g) (gw_SliceName g) depName
      in \<lparr>d_meta = (new_meta (gw_Namespace g) depName (deploymentLabels g))
            \<lparr>om_Owner := Some (gw_Name g)\<rparr>,
          d_Replicas = 1,
          d_Selector = ls,
          d_TemplateLabels = ls,
          d_TemplateAnnotations = podAnnotations g,
          d_PodSpec =
            \<lparr>ps_ServiceAccountName = ''vpn-gateway-server'',
             ps_NodeAffinity = gateway_node_affinity,
             ps_PodAntiAffinity = getPodAntiAffinity (gw_SliceName g) (gw_Name g),
             ps_Containers =
               [sidecarContainer E (serverSidecarEnv E nodeIps g)
                  [mount ''shared-volume'' ''/config'', mount ''vpn-certs'' ''/var/run/vpn''],
                getServerVpnContainerSpec E g],
             ps_Volumes = getVolumesForGatewayServer E g gwConfigKey,
             ps_Tolerations = gateway_tolerations,
             ps_ImagePullSecrets = imagePullSecrets E\<rparr>\<rparr>)"

definition serviceForGateway :: "slice_gateway \<Rightarrow> string \<Rightarrow> string \<Rightarrow> service" where
  "serviceForGateway g svcName depName =
     \<lparr>s_meta = (new_meta (gw_Namespace g) svcName
         [(ApplicationNamespaceSelectorLabelKey, gw_SliceName g), (''kubeslice.io/slicegw'', gw_Name g)])
         \<lparr>om_Owner := Some (gw_Name g)\<rparr>,
      s_Type = ''NodePort'',
      s_Selector = labelsForSliceGwService (gw_Name g) depName,
      s_ClusterIP = '''',
      s_Ports =
        [\<lparr>sp_Name = '''', sp_Port = 11194,
          sp_Protocol = (if SliceGatewayProtocol (gw_Config g) = ''TCP'' then ''TCP'' else ''UDP''),
          sp_TargetPort = 11194, sp_NodePort = 0\<rparr>],
      s_Ingress = []\<rparr>"

section \<open>The client side\<close>

definition vpnClientFileName :: string where
  "vpnClientFileName = ''openvpn_client.ovpn''"

definition getOVPNClientContainerArgs :: "int \<Rightarrow> slice_gateway \<Rightarrow> string list" where
  "getOVPNClientContainerArgs remotePortNumber g =
     [''/vpnclient/'' @ vpnClientFileName, ''90'', ''openvpn'',
      ''--remote'', SliceGatewayRemoteGatewayID (gw_Config g),
      ''--port'', itoa remotePortNumber,
      ''--ping-restart'', ''15'',
      ''--proto'', to_lower (SliceGatewayProtocol (gw_Config g)),
      ''--txqueuelen'', ''5000'',
      ''--config'', ''/vpnclient/'' @ vpnClientFileName]"

definition getClientVpnContainerSpec :: "environ \<Rightarrow> slice_gateway \<Rightarrow> int \<Rightarrow> container" where
  "getClientVpnContainerSpec E g remotePortNumber =
     (if SliceGatewayType (gw_Config g) = ''OpenVPN'' then
        empty_container\<lparr>
          c_Name := ''kubeslice-openvpn-client'',
          c_Image := or_default (getenv E ''AVESHA_OPENVPN_CLIENT_IMAGE'')
            ''nexus.dev.aveshalabs.io/kubeslice/gw-sidecar:1.0.0'',
          c_ImagePullPolicy := or_default (getenv E ''AVESHA_OPENVPN_CLIENT_PULLPOLICY'') ''Always'',
          c_Command := [''/usr/local/bin/waitForConfigToRunCmd.sh''],
          c_Args := getOVPNClientContainerArgs remotePortNumber g,
          c_SecurityContext := Some privileged_net_admin,
          c_VolumeMounts := [mount ''shared-volume'' ''/vpnclient'']\<rparr>
      else if SliceGatewayType (gw_Config g) = ''Wireguard'' then
        empty_container\<lparr>
          c_Name := ''kubeslice-wireguard-client'',
          c_Image := or_default (getenv E ''WIREGUARD_CLIENT_IMAGE'')
            ''aveshasystems/wireguard-client.alpine:1.0.0'',
          c_ImagePullPolicy := or_default (getenv E ''WIREGUARD_CLIENT_PULLPOLICY'') ''Always'',
          c_Env := wireguard_env g
            @ [env_entry ''ENDPOINT''
                 (SliceGatewayRemoteGatewayID (gw_Config g) @ '':'' @ itoa remotePortNumber)],
          c_SecurityContext := Some privileged_net_admin,
          c_VolumeMounts :=
            [mount_sub ''shared-volume'' ''/etc/wireguard/privatekey'' ''privatekey'',
             mount_sub ''shared-volume'' ''/etc/wireguard/publickey'' ''publickey'']\<rparr>
      else empty_container)"

definition getVolumesForGatewayClient :: "slice_gateway \<Rightarrow> int \<Rightarrow> volume list" where
  "getVolumesForGatewayClient g gwConfigKey =
     (if SliceGatewayType (gw_Config g) = ''OpenVPN'' then
        [\<lparr>v_Name = ''shared-volume'', v_Source = SecretVolume (secretName g gwConfigKey) 420
            [to_path ''ovpnConfigFile'' ''openvpn_client.ovpn'']\<rparr>]
      else if SliceGatewayType (gw_Config g) = ''Wireguard'' then
        [\<lparr>v_Name = ''shared-volume'', v_Source = SecretVolume (secretName g gwConfigKey) 420
            [to_path ''serverPublicKeyWgFile'' ''publickey'',
             to_path ''clientPrivateKeyWgFile'' ''privatekey'']\<rparr>]
      else [])"

definition clientSidecarEnv :: "environ \<Rightarrow> slice_gateway \<Rightarrow> int \<Rightarrow> env_var list" where
  "clientSidecarEnv E g remotePortNumber =
     [env_entry ''SLICE_NAME'' (gw_SliceName g),
      env_entry ''REMOTE_CLUSTER_ID'' (SliceGatewayRemoteClusterID (gw_Config g)),
      env_entry ''GATEWAY_ID'' (SliceGatewayID (gw_Config g)),
      env_entry ''REMOTE_GATEWAY_ID'' (SliceGatewayRemoteGatewayID (gw_Config g)),
      env_entry ''POD_TYPE'' ''GATEWAY_POD'',
      env_entry ''VPN_MODE'' ''CLIENT'',
      env_entry ''VPN_TYPE'' (SliceGatewayType (gw_Config g)),
      env_entry ''GW_LOG_LEVEL'' (getenv E ''GW_LOG_LEVEL''),
      env_entry ''NODE_PORT'' (itoa remotePortNumber)]"

definition clientDeployment :: "environ \<Rightarrow> slice_gateway \<Rightarrow> string \<Rightarrow> int \<Rightarrow> int \<Rightarrow> deployment" where
  "clientDeployment E g depName gwConfigKey remotePortNumber =
     (let ls = labelsForSliceGwDeployment (gw_Name g) (gw_SliceName g) depName
      in \<lparr>d_meta = (new_meta (gw_Namespace g) depName (deploymentLabels g))
            \<lparr>om_Owner := Some (gw_Name g)\<rparr>,
          d_Replicas = 1,
          d_Selector = ls,
          d_TemplateLabels = ls,
          d_TemplateAnnotations = podAnnotations g,
          d_PodSpec =
            \<lparr>ps_ServiceAccountName = ''vpn-gateway-client'',
             ps_NodeAffinity = gateway_node_affinity,
             ps_PodAntiAffinity = getPodAntiAffinity (gw_SliceName g) (gw_Name g),
             ps_Containers =
               [sidecarContainer E (clientSidecarEnv E g remotePortNumber)
                  [mount ''shared-volume'' ''/config''],
                getClientVpnContainerSpec E g remotePortNumber],
             ps_Volumes = getVolumesForGatewayClient g gwConfigKey,
             ps_Tolerations = gateway_tolerations,
             ps_ImagePullSecrets = imagePullSecrets E\<rparr>\<rparr>)"

text \<open>\<open>None\<close> is the nil deployment that is returned when no node port is available.\<close>

definition deploymentForGatewayClient :: "environ \<Rightarrow> slice_gateway \<Rightarrow> string \<Rightarrow> int \<Rightarrow> world
    \<Rightarrow> deployment option \<times> world" where
  "deploymentForGatewayClient E g depName gwConfigKey w =
     (case clientRemotePort (SliceGatewayRemoteNodePorts (gw_Config g)) depName (o_portMap w) of
        (None, pm) \<Rightarrow> (None, w\<lparr>o_portMap := pm\<rparr>)
      | (Some port, pm) \<Rightarrow> (Some (clientDeployment E g depName gwConfigKey port), w\<lparr>o_portMap := pm\<rparr>))"

definition deploymentForGateway :: "environ \<Rightarrow> string list \<Rightarrow> slice_gateway \<Rightarrow> string \<Rightarrow> int \<Rightarrow> world
    \<Rightarrow> deployment option \<times> world" where
  "deploymentForGateway E nodeIps g depName gwConfigKey w =
     (if SliceGatewayHostType (gw_Config g) = ''Server''
      then (Some (deploymentForGatewayServer E nodeIps g depName gwConfigKey), w)
      else deploymentForGatewayClient E g depName gwConfigKey w)"

section \<open>Changing the node port of a client deployment\<close>

definition updateContainerNodePort :: "slice_gateway \<Rightarrow> int \<Rightarrow> container \<Rightarrow> container" where
  "updateContainerNodePort g nodePort c =
     (if c_Name c = ''kubeslice-sidecar'' then
        c\<lparr>c_Env := map (\<lambda>ev. if ev_Name ev = ''NODE_PORT''
                             then env_entry ''NODE_PORT'' (itoa nodePort) else ev) (c_Env c)\<rparr>
      else if c_Name c = ''kubeslice-openvpn-client'' then
        c\<lparr>c_Args := getOVPNClientContainerArgs nodePort g\<rparr>
      else c)"

definition withNodePort :: "slice_gateway \<Rightarrow> int \<Rightarrow> deployment \<Rightarrow> deployment" where
  "withNodePort g nodePort d =
     d\<lparr>d_PodSpec := (d_PodSpec d)
         \<lparr>ps_Containers := map (updateContainerNodePort g nodePort) (ps_Containers (d_PodSpec d))\<rparr>\<rparr>"

definition updateGatewayDeploymentNodePort :: "kube \<Rightarrow> slice_gateway \<Rightarrow> deployment \<Rightarrow> int \<Rightarrow> world
    \<Rightarrow> go_error option \<times> world" where
  "updateGatewayDeploymentNodePort K g d nodePort w =
     r_update (k_deployments K) (withNodePort g nodePort d) w"

section \<open>The remote gateway's service and endpoints, the disruption budget\<close>

definition createHeadlessServiceForGwServer :: "slice_gateway \<Rightarrow> service" where
  "createHeadlessServiceForGwServer g =
     \<lparr>s_meta = (new_meta (gw_Namespace g) (SliceGatewayRemoteGatewayID (gw_Config g)) [])
         \<lparr>om_Owner := Some (gw_Name g)\<rparr>,
      s_Type = '''', s_Selector = [], s_ClusterIP = ''None'', s_Ports = [], s_Ingress = []\<rparr>"

definition gatewayEndpointIPs :: "environ \<Rightarrow> slice_gateway \<Rightarrow> string list" where
  "gatewayEndpointIPs E g =
     (if SliceGatewayConnectivityType (gw_Config g) = ''LoadBalancer''
         \<or> getenv E ''ENABLE_GW_LB_EDGE'' \<noteq> ''''
      then if getenv E ''GW_LB_IP'' \<noteq> '''' then [getenv E ''GW_LB_IP'']
           else SliceGatewayServerLBIPs (gw_Config g)
      else SliceGatewayRemoteNodeIPs (gw_Config g))"

definition createEndpointForGatewayServer :: "environ \<Rightarrow> slice_gateway \<Rightarrow> endpoints" where
  "createEndpointForGatewayServer E g =
     \<lparr>e_meta = (new_meta (gw_Namespace g) (SliceGatewayRemoteGatewayID (gw_Config g)) [])
         \<lparr>om_Owner := Some (gw_Name g)\<rparr>,
      e_Subsets = [getAddrSlice (gatewayEndpointIPs E g)]\<rparr>"

definition constructPodDisruptionBudget :: "string \<Rightarrow> string \<Rightarrow> int \<Rightarrow> pdb" where
  "constructPodDisruptionBudget sliceName sliceGwName minAvailable =
     \<lparr>pdb_meta = new_meta ControlPlaneNamespace (sliceGwName @ ''-pdb'')
         [(ApplicationNamespaceSelectorLabelKey, sliceName), (SliceGatewaySelectorLabelKey, sliceGwName)],
      pdb_MinAvailable = minAvailable,
      pdb_Selector =
         [(ApplicationNamespaceSelectorLabelKey, sliceName),
          (PodInjectLabelKey, ''slicegateway''),
          (SliceGatewaySelectorLabelKey, sliceGwName)]\<rparr>"

section \<open>What is written and what is read back\<close>

definition int64 :: "int \<Rightarrow> bool" where
  "int64 n \<longleftrightarrow> - (2 ^ 63) \<le> n \<and> n < 2 ^ 63"

lemma atoi_itoa64: "int64 n \<Longrightarrow> atoi (itoa n) = Some n"
  by (simp add: int64_def atoi_itoa)

lemma client_port_read_back:
  "int64 port \<Longrightarrow>
     first_node_port (ps_Containers (d_PodSpec (clientDeployment E g depName key port))) = Some port"
  by (simp add: clientDeployment_def Let_def sidecarContainer_def clientSidecarEnv_def env_entry_def
      empty_container_def atoi_itoa64)

text \<open>
  the port that is read back from the deployment of a gateway client
  (\<open>getClientGwRemotePortInUse\<close>) is the port it was rendered with.
\<close>

theorem client_deployment_port:
  assumes "int64 port"
  shows "first_node_port (ps_Containers (d_PodSpec (clientDeployment E g depName key port))) = Some port"
  by (rule client_port_read_back [OF assms])

theorem client_deployment_port_witness:
  "first_node_port (ps_Containers (d_PodSpec
     (clientDeployment Map.empty (ex_gateway ''red-b-a'' ''Client'') ''red-b-a-0-0'' 1 30001))) = Some 30001"
  by (rule client_deployment_port) (simp add: int64_def)

lemma first_node_port_env_map:
  "int64 port \<Longrightarrow> first_node_port_env (map (\<lambda>ev. if ev_Name ev = ''NODE_PORT''
       then env_entry ''NODE_PORT'' (itoa port) else ev) evs)
     = (if list_ex (\<lambda>ev. ev_Name ev = ''NODE_PORT'') evs then Some port else None)"
  by (induction evs) (simp_all add: env_entry_def atoi_itoa64)

text \<open>
  after the node port of a deployment has been changed, the port that is read back is the
  new one, whenever its sidecar had a node port at all.
\<close>

theorem update_then_read_port:
  assumes "int64 port" and "first_node_port (ps_Containers (d_PodSpec d)) \<noteq> None"
  shows "first_node_port (ps_Containers (d_PodSpec (withNodePort g port d))) = Some port"
proof -
  have some: "first_node_port_env evs \<noteq> None \<Longrightarrow> list_ex (\<lambda>ev. ev_Name ev = ''NODE_PORT'') evs" for evs
    by (induction evs) (auto split: if_splits option.splits)
  have "first_node_port cs \<noteq> None \<Longrightarrow> first_node_port (map (updateContainerNodePort g port) cs) = Some port" for cs
  proof (induction cs)
    case (Cons c cs)
    show ?case
    proof (cases "c_Name c = ''kubeslice-sidecar''")
      case True
      then have u: "c_Name (updateContainerNodePort g port c) = ''kubeslice-sidecar''"
        "first_node_port_env (c_Env (updateContainerNodePort g port c))
           = (if list_ex (\<lambda>ev. ev_Name ev = ''NODE_PORT'') (c_Env c) then Some port else None)"
        by (simp_all add: updateContainerNodePort_def first_node_port_env_map [OF assms(1)])
      show ?thesis
      proof (cases "list_ex (\<lambda>ev. ev_Name ev = ''NODE_PORT'') (c_Env c)")
        case True
        with u show ?thesis by simp
      next
        case False
        with some [of "c_Env c"] have "first_node_port_env (c_Env c) = None" by blast
        with Cons \<open>c_Name c = ''kubeslice-sidecar''\<close> u False show ?thesis by simp
      qed
    next
      case False
      then have "c_Name (updateContainerNodePort g port c) \<noteq> ''kubeslice-sidecar''"
        by (simp add: updateContainerNodePort_def)
      with Cons False show ?thesis by simp
    qed
  qed simp
  with assms(2) show ?thesis by (simp add: withNodePort_def)
qed

theorem update_then_read_port_witness:
  "first_node_port (ps_Containers (d_PodSpec (withNodePort (ex_gateway ''red-b-a'' ''Client'') 30002
     (clientDeployment Map.empty (ex_gateway ''red-b-a'' ''Client'') ''red-b-a-0-0'' 1 30001)))) = Some 30002"
proof (rule update_then_read_port)
  show "int64 30002" by (simp add: int64_def)
  show "first_node_port (ps_Containers (d_PodSpec
      (clientDeployment Map.empty (ex_gateway ''red-b-a'' ''Client'') ''red-b-a-0-0'' 1 30001))) \<noteq> None"
    by (simp add: client_port_read_back int64_def)
qed

text \<open>
  for an OpenVPN gateway, changing the node port of a deployment gives the deployment that
  would have been rendered with that port.
\<close>

theorem openvpn_update_is_rerender:
  assumes "SliceGatewayType (gw_Config g) = ''OpenVPN''"
  shows "withNodePort g new (clientDeployment E g depName key old) = clientDeployment E g depName key new"
  using assms
  by (simp add: withNodePort_def updateContainerNodePort_def clientDeployment_def Let_def
      sidecarContainer_def clientSidecarEnv_def env_entry_def empty_container_def
      getClientVpnContainerSpec_def)

theorem openvpn_update_is_rerender_witness:
  "withNodePort (ex_gateway ''red-b-a'' ''Client'') 30002
     (clientDeployment Map.empty (ex_gateway ''red-b-a'' ''Client'') ''red-b-a-0-0'' 1 30001)
   = clientDeployment Map.empty (ex_gateway ''red-b-a'' ''Client'') ''red-b-a-0-0'' 1 30002"
  by (rule openvpn_update_is_rerender) (simp add: ex_gateway_def ex_config_def)

text \<open>
  for a Wireguard gateway it does not: the endpoint in the environment of the VPN container
  keeps the old port, although the sidecar announces the new one.
\<close>

theorem wireguard_update_keeps_endpoint:
  assumes "SliceGatewayType (gw_Config g) = ''Wireguard''" and "new \<noteq> old"
  shows "withNodePort g new (clientDeployment E g depName key old) \<noteq> clientDeployment E g depName key new
    \<and> (\<exists>c \<in> set (ps_Containers (d_PodSpec (withNodePort g new (clientDeployment E g depName key old)))).
         c_Name c = ''kubeslice-wireguard-client''
         \<and> env_entry ''ENDPOINT'' (SliceGatewayRemoteGatewayID (gw_Config g) @ '':'' @ itoa old) \<in> set (c_Env c))"
  using assms
  by (auto simp: withNodePort_def updateContainerNodePort_def clientDeployment_def Let_def
      sidecarContainer_def clientSidecarEnv_def env_entry_def empty_container_def
      getClientVpnContainerSpec_def dest: itoa_inj)

definition ex_wireguard :: slice_gateway where
  "ex_wireguard = (ex_gateway ''red-b-a'' ''Client'')
     \<lparr>gw_Config := (ex_config ''red-b-a'' ''Client'')\<lparr>SliceGatewayType := ''Wireguard''\<rparr>\<rparr>"

theorem wireguard_update_keeps_endpoint_witness:
  "withNodePort ex_wireguard 30002 (clientDeployment Map.empty ex_wireguard ''red-b-a-0-0'' 1 30001)
     \<noteq> clientDeployment Map.empty ex_wireguard ''red-b-a-0-0'' 1 30002"
  using wireguard_update_keeps_endpoint [of ex_wireguard 30002 30001 Map.empty "''red-b-a-0-0''" 1]
  by (simp add: ex_wireguard_def)

text \<open>
  a deployment that the controller renders is found by every query that looks for it: the
  deployments of the gateway, its pods by deployment and by gateway, the pods that the
  disruption budget protects; and it is not marked for deletion.
\<close>

theorem rendered_deployment_is_found:
  assumes "deploymentForGateway E ips g depName key w = (Some d, w')"
  shows "matches_labels (deploymentLabels g) (om_Labels (d_meta d))
    \<and> matches_labels [(''kubeslice.io/slice-gw-dep'', depName)] (d_TemplateLabels d)
    \<and> matches_labels (labelsForSliceGwService (gw_Name g) depName) (d_TemplateLabels d)
    \<and> matches_labels (labelsForSliceGwStatus (gw_Name g)) (d_TemplateLabels d)
    \<and> matches_labels (pdb_Selector (constructPodDisruptionBudget (gw_SliceName g) (gw_Name g) m))
         (d_TemplateLabels d)
    \<and> matches_labels (d_Selector d) (d_TemplateLabels d)
    \<and> map_of (om_Labels (d_meta d)) ''kubeslice.io/marked-for-deletion'' = None"
proof -
  from assms have "om_Labels (d_meta d) = deploymentLabels g
      \<and> d_TemplateLabels d = labelsForSliceGwDeployment (gw_Name g) (gw_SliceName g) depName
      \<and> d_Selector d = labelsForSliceGwDeployment (gw_Name g) (gw_SliceName g) depName"
    by (auto simp: deploymentForGateway_def deploymentForGatewayClient_def clientDeployment_def
        deploymentForGatewayServer_def Let_def split: if_splits prod.splits option.splits)
  then show ?thesis
    by (simp add: deploymentLabels_def labelsForSliceGwDeployment_def labelsForSliceGwService_def
        labelsForSliceGwStatus_def constructPodDisruptionBudget_def label_key_defs)
qed

theorem rendered_deployment_is_found_witness:
  "matches_labels (deploymentLabels (ex_gateway ''red-a-b'' ''Server''))
     (om_Labels (d_meta (deploymentForGatewayServer Map.empty [] (ex_gateway ''red-a-b'' ''Server'') ''red-a-b-0-0'' 1)))"
  using rendered_deployment_is_found [of Map.empty "[]" "ex_gateway ''red-a-b'' ''Server''" "''red-a-b-0-0''" 1
      empty_world _ empty_world]
  by (simp add: deploymentForGateway_def ex_gateway_def ex_config_def)

end
