(* ===== verification/HubClient.thy ===== *)
theory HubClient
  imports GatewayUtils
begin

text \<open>
  Retrying (\<open>RetryOnConflict\<close> of client-go and \<open>retry.Do\<close> of avast/retry-go, as the operator
  uses them) and the operator's client of the hub: \<open>pkg/hub/hubclient/hubclient.go\<close>, the list
  helpers of \<open>pkg/hub/utils.go\<close> and \<open>TriggerFSM\<close> of \<open>pkg/slicegwrecycler/recycler.go\<close>.
\<close>

section \<open>Retrying\<close>

text \<open>
  \<open>RetryOnConflict\<close> runs the function until it does not fail with a conflict, at most
  \<open>steps\<close> times, and returns its last error. \<open>retry.Do\<close> runs it until it succeeds, at most
  \<open>attempts\<close> times.
\<close>

fun RetryOnConflict :: "nat \<Rightarrow> ('s \<Rightarrow> go_error option \<times> 's) \<Rightarrow> 's
    \<Rightarrow> go_error option \<times> 's" where
  "RetryOnConflict 0 f w = (Some Conflict, w)"
| "RetryOnConflict (Suc steps) f w =
     (case f w of
        (Some Conflict, w) \<Rightarrow> RetryOnConflict steps f w
      | (r, w) \<Rightarrow> (r, w))"

text \<open>The same for a function that may panic.\<close>

fun RetryOnConflict_go :: "nat \<Rightarrow> ('s \<Rightarrow> go_error option go \<times> 's) \<Rightarrow> 's
    \<Rightarrow> go_error option go \<times> 's" where
  "RetryOnConflict_go 0 f w = (Ret (Some Conflict), w)"
| "RetryOnConflict_go (Suc steps) f w =
     (case f w of
        (Ret (Some Conflict), w) \<Rightarrow> RetryOnConflict_go steps f w
      | (r, w) \<Rightarrow> (r, w))"

definition DefaultRetry :: nat where
  "DefaultRetry = 5"

fun retry_Do :: "nat \<Rightarrow> ('s \<Rightarrow> go_error option \<times> 's) \<Rightarrow> 's
    \<Rightarrow> go_error option \<times> 's" where
  "retry_Do 0 f w = (Some (Failure ''All attempts fail''), w)"
| "retry_Do (Suc attempts) f w =
     (case f w of
        (None, w) \<Rightarrow> (None, w)
      | (Some e, w) \<Rightarrow> retry_Do attempts f w)"

text \<open>
  What holds of the world when an attempt starts holds after the retries, if every failing
  attempt keeps it; and a successful attempt was made from a world where it held.
\<close>

lemma RetryOnConflict_last:
  assumes "RetryOnConflict n f w = (r, w')" and "P w"
    and "\<And>w1 w2. P w1 \<Longrightarrow> f w1 = (Some Conflict, w2) \<Longrightarrow> P w2"
  shows "P w' \<and> r = Some Conflict \<or> (\<exists>w0. P w0 \<and> f w0 = (r, w'))"
  using assms(1,2)
proof (induction n arbitrary: w)
  case 0
  then show ?case by simp
next
  case (Suc n)
  obtain r1 w1 where f: "f w = (r1, w1)" by fastforce
  show ?case
  proof (cases "r1 = Some Conflict")
    case True
    with Suc.prems f have "RetryOnConflict n f w1 = (r, w')" by simp
    moreover have "P w1" using assms(3) Suc.prems(2) f True by blast
    ultimately show ?thesis by (rule Suc.IH)
  next
    case False
    with Suc.prems f have "f w = (r, w')" by (auto split: option.splits go_error.splits)
    with Suc.prems(2) show ?thesis by blast
  qed
qed

lemma RetryOnConflict_success:
  assumes "RetryOnConflict n f w = (None, w')" and "P w"
    and "\<And>w1 w2. P w1 \<Longrightarrow> f w1 = (Some Conflict, w2) \<Longrightarrow> P w2"
  shows "\<exists>w1. P w1 \<and> f w1 = (None, w')"
  using RetryOnConflict_last [of n f w "None" w' P, OF assms] by auto

lemma RetryOnConflict_keeps:
  assumes "RetryOnConflict n f w = (r, w')" and "P w"
    and "\<And>w1 w2 r. P w1 \<Longrightarrow> f w1 = (r, w2) \<Longrightarrow> P w2"
  shows "P w'"
  using RetryOnConflict_last [of n f w r w' P, OF assms(1,2)] assms(3) by blast

lemma RetryOnConflict_go_last:
  assumes "RetryOnConflict_go n f w = (r, w')" and "P w"
    and "\<And>w1 w2. P w1 \<Longrightarrow> f w1 = (Ret (Some Conflict), w2) \<Longrightarrow> P w2"
  shows "P w' \<and> r = Ret (Some Conflict) \<or> (\<exists>w0. P w0 \<and> f w0 = (r, w'))"
  using assms(1,2)
proof (induction n arbitrary: w)
  case 0
  then show ?case by simp
next
  case (Suc n)
  obtain r1 w1 where f: "f w = (r1, w1)" by fastforce
  show ?case
  proof (cases "r1 = Ret (Some Conflict)")
    case True
    with Suc.prems f have "RetryOnConflict_go n f w1 = (r, w')" by simp
    moreover have "P w1" using assms(3) Suc.prems(2) f True by blast
    ultimately show ?thesis by (rule Suc.IH)
  next
    case False
    with Suc.prems f have "f w = (r, w')" by (auto split: go.splits option.splits go_error.splits)
    with Suc.prems(2) show ?thesis by blast
  qed
qed

lemma RetryOnConflict_go_success:
  assumes "RetryOnConflict_go n f w = (Ret None, w')" and "P w"
    and "\<And>w1 w2. P w1 \<Longrightarrow> f w1 = (Ret (Some Conflict), w2) \<Longrightarrow> P w2"
  shows "\<exists>w1. P w1 \<and> f w1 = (Ret None, w')"
  using RetryOnConflict_go_last [of n f w "Ret None" w' P, OF assms] by auto

lemma RetryOnConflict_go_keeps:
  assumes "RetryOnConflict_go n f w = (r, w')" and "P w"
    and "\<And>w1 w2 r. P w1 \<Longrightarrow> f w1 = (r, w2) \<Longrightarrow> P w2"
  shows "P w'"
  using RetryOnConflict_go_last [of n f w r w' P, OF assms(1,2)] assms(3) by blast

lemma retry_Do_success:
  assumes "retry_Do n f w = (None, w')" and "P w"
    and "\<And>w1 w2 e. P w1 \<Longrightarrow> f w1 = (Some e, w2) \<Longrightarrow> P w2"
  shows "\<exists>w1. P w1 \<and> f w1 = (None, w')"
  using assms(1,2)
proof (induction n arbitrary: w)
  case 0
  then show ?case by simp
next
  case (Suc n)
  obtain r w1 where f: "f w = (r, w1)" by fastforce
  show ?case
  proof (cases r)
    case None
    with Suc.prems f show ?thesis by auto
  next
    case (Some e)
    with Suc.prems f have "retry_Do n f w1 = (None, w')" by simp
    moreover have "P w1" using assms(3) Suc.prems(2) f Some by blast
    ultimately show ?thesis by (rule Suc.IH)
  qed
qed

lemma retry_Do_fails:
  assumes "retry_Do n f w = (Some e, w')" and "P w"
    and "\<And>w1 w2 e. P w1 \<Longrightarrow> f w1 = (Some e, w2) \<Longrightarrow> P w2"
  shows "P w'"
  using assms(1,2)
proof (induction n arbitrary: w)
  case 0
  then show ?case by simp
next
  case (Suc n)
  obtain r w1 where f: "f w = (r, w1)" by fastforce
  show ?case
  proof (cases r)
    case None
    with Suc.prems f show ?thesis by simp
  next
    case (Some e1)
    with Suc.prems f have "retry_Do n f w1 = (Some e, w')" by simp
    moreover have "P w1" using assms(3) Suc.prems(2) f Some by blast
    ultimately show ?thesis by (rule Suc.IH)
  qed
qed

section \<open>List helpers\<close>

fun ListContains :: "'a list \<Rightarrow> 'a \<Rightarrow> bool" where
  "ListContains [] v = False"
| "ListContains (x # xs) v = (if x = v then True else ListContains xs v)"

definition ListEqual :: "'a list \<Rightarrow> 'a list \<Rightarrow> bool" where
  "ListEqual l1 l2 =
     (if length l1 \<noteq> length l2 then False else list_all (\<lambda>v. ListContains l2 v) l1)"

lemma ListContains_iff [simp]: "ListContains xs v \<longleftrightarrow> v \<in> set xs"
  by (induction xs) auto

lemma ListEqual_iff: "ListEqual l1 l2 \<longleftrightarrow> length l1 = length l2 \<and> set l1 \<subseteq> set l2"
  by (auto simp: ListEqual_def list_all_iff)

text \<open>For a first list without duplicates it is equality up to order.\<close>

lemma ListEqual_distinct:
  assumes "distinct l1"
  shows "ListEqual l1 l2 \<longleftrightarrow> distinct l2 \<and> set l1 = set l2"
proof
  assume e: "ListEqual l1 l2"
  then have l: "length l1 = length l2" and s: "set l1 \<subseteq> set l2" by (auto simp: ListEqual_iff)
  have "card (set l2) \<le> length l2" by (rule card_length)
  also have "\<dots> = card (set l1)" using l assms by (simp add: distinct_card)
  finally have le: "card (set l2) \<le> card (set l1)" .
  then have eq: "set l1 = set l2" using s by (metis List.finite_set card_seteq)
  then have "card (set l2) = length l2" using l assms by (metis distinct_card)
  then have "distinct l2" by (rule card_distinct)
  with eq show "distinct l2 \<and> set l1 = set l2" by simp
next
  assume "distinct l2 \<and> set l1 = set l2"
  with assms show "ListEqual l1 l2"
    by (metis ListEqual_iff distinct_card order_refl)
qed

section \<open>The hub client\<close>

definition ProjectNamespace :: "environ \<Rightarrow> string" where
  "ProjectNamespace E = getenv E ''HUB_PROJECT_NAMESPACE''"

definition newRecycler :: "environ \<Rightarrow> string \<Rightarrow> string \<Rightarrow> string \<Rightarrow> string \<Rightarrow> string \<Rightarrow> string
    \<Rightarrow> recycler" where
  "newRecycler E gwRecyclerName clientID serverID sliceGwServer sliceGwClient sliceName =
     \<lparr>rc_meta = new_meta (ProjectNamespace E) gwRecyclerName
        [(''slice_name'', sliceName), (''slicegw_name'', sliceGwServer)],
      rc_ServerID = serverID, rc_ClientID = clientID,
      rc_State = ''init'', rc_Request = ''verify_new_deployment_created'',
      rc_SliceGwServer = sliceGwServer, rc_SliceGwClient = sliceGwClient,
      rc_SliceName = sliceName, rc_ClientResponse = ''''\<rparr>"

definition CreateWorkerSliceGwRecycler :: "kube \<Rightarrow> environ \<Rightarrow> string \<Rightarrow> string \<Rightarrow> string \<Rightarrow> string
    \<Rightarrow> string \<Rightarrow> string \<Rightarrow> world \<Rightarrow> go_error option \<times> world" where
  "CreateWorkerSliceGwRecycler K E gwRecyclerName clientID serverID sliceGwServer sliceGwClient
     sliceName w =
     (case r_get (k_recyclers K) (ProjectNamespace E) gwRecyclerName w of
        (Inr rc, w) \<Rightarrow> (None, w)
      | (Inl e, w) \<Rightarrow>
          r_create (k_recyclers K)
            (newRecycler E gwRecyclerName clientID serverID sliceGwServer sliceGwClient sliceName) w)"

definition DeleteWorkerSliceGwRecycler :: "kube \<Rightarrow> environ \<Rightarrow> string \<Rightarrow> world
    \<Rightarrow> go_error option \<times> world" where
  "DeleteWorkerSliceGwRecycler K E gwRecyclerName w =
     (case r_get (k_recyclers K) (ProjectNamespace E) gwRecyclerName w of
        (Inl NotFound, w) \<Rightarrow> (None, w)
      | (Inl e, w) \<Rightarrow> (Some e, w)
      | (Inr rc, w) \<Rightarrow> r_delete (k_recyclers K) (ProjectNamespace E) gwRecyclerName w)"

definition ListWorkerSliceGwRecycler :: "kube \<Rightarrow> environ \<Rightarrow> string \<Rightarrow> world
    \<Rightarrow> (go_error + recycler list) \<times> world" where
  "ListWorkerSliceGwRecycler K E sliceGWName w =
     r_list (k_recyclers K)
       (in_namespace (ProjectNamespace E) [(''slicegw_name'', sliceGWName)]) w"

definition UpdateNodePortForSliceGwServer :: "kube \<Rightarrow> environ \<Rightarrow> int list \<Rightarrow> string \<Rightarrow> world
    \<Rightarrow> go_error option \<times> world" where
  "UpdateNodePortForSliceGwServer K E sliceGwNodePorts sliceGwName w =
     (case r_get (k_hubgws K) (ProjectNamespace E) sliceGwName w of
        (Inl e, w) \<Rightarrow> (Some e, w)
      | (Inr sliceGw, w) \<Rightarrow>
          (if ListEqual (hg_NodePorts sliceGw) sliceGwNodePorts then (None, w)
           else r_update (k_hubgws K) (sliceGw\<lparr>hg_NodePorts := sliceGwNodePorts\<rparr>) w))"

definition lbUpdateNeeded :: "string list \<Rightarrow> string list \<Rightarrow> bool" where
  "lbUpdateNeeded current lbIPs =
     (if length current = length lbIPs then list_ex (\<lambda>ip. \<not> contains current ip) lbIPs else True)"

definition UpdateLBIPsForSliceGwServer :: "kube \<Rightarrow> environ \<Rightarrow> string list \<Rightarrow> string \<Rightarrow> world
    \<Rightarrow> go_error option \<times> world" where
  "UpdateLBIPsForSliceGwServer K E lbIPs sliceGwName w =
     (case r_get (k_hubgws K) (ProjectNamespace E) sliceGwName w of
        (Inl e, w) \<Rightarrow> (Some e, w)
      | (Inr sliceGw, w) \<Rightarrow>
          (if lbUpdateNeeded (hg_LoadBalancerIps sliceGw) lbIPs
           then r_update (k_hubgws K) (sliceGw\<lparr>hg_LoadBalancerIps := lbIPs\<rparr>) w
           else (None, w)))"

text \<open>The Go result is a pointer; it is not nil when the error is nil.\<close>

definition GetVPNKeyRotation :: "kube \<Rightarrow> environ \<Rightarrow> string \<Rightarrow> world
    \<Rightarrow> (go_error + vpn_key_rotation option) \<times> world" where
  "GetVPNKeyRotation K E rotationName w =
     (case r_get (k_rotations K) (ProjectNamespace E) rotationName w of
        (Inl e, w) \<Rightarrow> (Inl e, w)
      | (Inr v, w) \<Rightarrow> (Inr (Some v), w))"

section \<open>Slices on the hub\<close>

fun partialContains :: "string list \<Rightarrow> string \<Rightarrow> bool" where
  "partialContains [] str = False"
| "partialContains (s # ss) str = (if str_contains str s then True else partialContains ss str)"

definition toFilter :: "string list" where
  "toFilter = [''kubeslice-'', ''kubernetes.io'']"

definition filterLabelsAndAnnotations :: "labels \<Rightarrow> labels" where
  "filterLabelsAndAnnotations data = filter (\<lambda>(key, _). \<not> partialContains toFilter key) data"

definition GetClusterNamespaceConfig :: "kube \<Rightarrow> environ \<Rightarrow> string \<Rightarrow> world
    \<Rightarrow> (go_error + labels \<times> labels) \<times> world" where
  "GetClusterNamespaceConfig K E clusterName w =
     (case r_get (k_clusters K) (ProjectNamespace E) clusterName w of
        (Inl e, w) \<Rightarrow> (Inl e, w)
      | (Inr cl, w) \<Rightarrow>
          (Inr (filterLabelsAndAnnotations (om_Labels (hc_meta cl)),
                filterLabelsAndAnnotations (om_Annotations (hc_meta cl))), w))"

definition UpdateAppPodsList :: "kube \<Rightarrow> environ \<Rightarrow> string \<Rightarrow> app_pod list \<Rightarrow> world
    \<Rightarrow> go_error option \<times> world" where
  "UpdateAppPodsList K E sliceConfigName appPods w =
     (case r_get (k_sliceconfigs K) (ProjectNamespace E) sliceConfigName w of
        (Inl e, w) \<Rightarrow> (Some e, w)
      | (Inr c, w) \<Rightarrow> r_update_status (k_sliceconfigs K) (c\<lparr>ConnectedAppPods := appPods\<rparr>) w)"

definition UpdateAppNamespaces :: "kube \<Rightarrow> environ \<Rightarrow> string \<Rightarrow> string list \<Rightarrow> world
    \<Rightarrow> go_error option \<times> world" where
  "UpdateAppNamespaces K E sliceConfigName onboardedNamespaces =
     RetryOnConflict DefaultRetry (\<lambda>w.
       case r_get (k_sliceconfigs K) (ProjectNamespace E) sliceConfigName w of
         (Inl e, w) \<Rightarrow> (Some e, w)
       | (Inr c, w) \<Rightarrow>
           r_update_status (k_sliceconfigs K)
             (c\<lparr>OnboardedAppNamespaces := onboardedNamespaces\<rparr>) w)"

section \<open>Starting a recycler\<close>

text \<open>\<open>TriggerFSM\<close>: the recycler is named after the server deployment.\<close>

definition TriggerFSM :: "kube \<Rightarrow> environ \<Rightarrow> slice_gateway \<Rightarrow> string \<Rightarrow> string \<Rightarrow> world
    \<Rightarrow> go_error option \<times> world" where
  "TriggerFSM K E g serverID clientID w =
     (case CreateWorkerSliceGwRecycler K E serverID clientID serverID (gw_Name g)
         (SliceGatewayRemoteGatewayID (gw_Config g)) (gw_SliceName g) w of
        (Some AlreadyExists, w) \<Rightarrow> (None, w)
      | (Some e, w) \<Rightarrow> (Some e, w)
      | (None, w) \<Rightarrow> (None, w))"

end
