(* ===== verification/GatewayReconcile.thy ===== *)
theory GatewayReconcile
  imports GatewayDeployment HubClient
begin

text \<open>
  The steps of the slice gateway controller that manage deployments and services
  (\<open>ReconcileGatewayDeployments\<close>, \<open>ReconcileGatewayServices\<close>,
  \<open>ReconcileIntermediateGatewayDeployments\<close> and what they call). A step takes the clients
  \<open>K\<close>, the environment \<open>E\<close>, the gateway \<open>g\<close> read at the start of the pass and the world,
  and returns the result, the error and the requeue flag of the Go function; a loop that can
  return early gives \<open>Some\<close> of what it returns and \<open>None\<close> when it runs to its end.
\<close>

section \<open>Services\<close>

definition handleSliceGwSvcCreation :: "kube \<Rightarrow> slice_gateway \<Rightarrow> string \<Rightarrow> string \<Rightarrow> world
    \<Rightarrow> step_result \<times> world" where
  "handleSliceGwSvcCreation K g svcName depName w =
     (case r_create (k_services K) (serviceForGateway g svcName depName) w of
        (Some e, w) \<Rightarrow> ((result_none, Some e, True), w)
      | (None, w) \<Rightarrow> ((result_requeue, None, True), w))"

definition handleSliceGwSvcDeletion :: "kube \<Rightarrow> slice_gateway \<Rightarrow> string \<Rightarrow> world
    \<Rightarrow> go_error option \<times> world" where
  "handleSliceGwSvcDeletion K g svcName w =
     (case r_get (k_services K) (gw_Namespace g) svcName w of
        (Inl NotFound, w) \<Rightarrow> (None, w)
      | (Inl e, w) \<Rightarrow> (Some e, w)
      | (Inr svc, w) \<Rightarrow> r_delete (k_services K) (gw_Namespace g) svcName w)"

definition gatewayServiceLabels :: "slice_gateway \<Rightarrow> labels" where
  "gatewayServiceLabels g =
     [(ApplicationNamespaceSelectorLabelKey, gw_SliceName g), (''kubeslice.io/slicegw'', gw_Name g)]"

fun first_node_ports :: "service list \<Rightarrow> int list go" where
  "first_node_ports [] = Ret []"
| "first_node_ports (s # ss) =
     (case s_Ports s of
        [] \<Rightarrow> Panic
      | p # _ \<Rightarrow> (case first_node_ports ss of Panic \<Rightarrow> Panic | Ret ps \<Rightarrow> Ret (sp_NodePort p # ps)))"

definition getNodePorts :: "kube \<Rightarrow> slice_gateway \<Rightarrow> world \<Rightarrow> (go_error + int list) go \<times> world" where
  "getNodePorts K g w =
     (case r_list (k_services K) (all_namespaces (gatewayServiceLabels g)) w of
        (Inl e, w) \<Rightarrow> (Ret (Inl e), w)
      | (Inr services, w) \<Rightarrow>
         (case first_node_ports services of
            Panic \<Rightarrow> (Panic, w)
          | Ret ps \<Rightarrow> (Ret (Inr ps), w)))"

definition getGatewayServices :: "kube \<Rightarrow> slice_gateway \<Rightarrow> world
    \<Rightarrow> (go_error + service list) \<times> world" where
  "getGatewayServices K g w =
     r_list (k_services K) (in_namespace ControlPlaneNamespace (gatewayServiceLabels g)) w"

text \<open>The loop over the deployments: a service is created for the first one that has none.\<close>

fun createMissingService :: "kube \<Rightarrow> slice_gateway \<Rightarrow> service list \<Rightarrow> deployment list \<Rightarrow> world
    \<Rightarrow> step_result option \<times> world" where
  "createMissingService K g gwServices [] w = (None, w)"
| "createMissingService K g gwServices (d # ds) w =
     (let svcNameForDep = ''svc-'' @ d_Name d in
      if getGwService gwServices svcNameForDep = None then
        (case handleSliceGwSvcCreation K g svcNameForDep (d_Name d) w of
           ((_, Some e, _), w) \<Rightarrow> (Some (result_none, Some e, True), w)
         | ((_, None, _), w) \<Rightarrow> (Some (result_requeue, None, True), w))
      else createMissingService K g gwServices ds w)"

definition staleServices :: "service list \<Rightarrow> string list \<Rightarrow> string list" where
  "staleServices gwServices validGwSvcNames =
     map s_Name (filter (\<lambda>s. \<not> list_ex (\<lambda>n. n = s_Name s) validGwSvcNames) gwServices)"

fun deleteServices :: "kube \<Rightarrow> slice_gateway \<Rightarrow> string list \<Rightarrow> world \<Rightarrow> go_error option \<times> world" where
  "deleteServices K g [] w = (None, w)"
| "deleteServices K g (n # ns) w =
     (case handleSliceGwSvcDeletion K g n w of
        (Some e, w) \<Rightarrow> (Some e, w)
      | (None, w) \<Rightarrow> deleteServices K g ns w)"

definition GetSliceGatewayEdgeServices :: "kube \<Rightarrow> string \<Rightarrow> world
    \<Rightarrow> (go_error + service list) \<times> world" where
  "GetSliceGatewayEdgeServices K sliceName w =
     r_list (k_services K)
       (in_namespace ControlPlaneNamespace
          [(SliceGatewaySelectorLabelKey, sliceName),
           (''kubeslice.io/slice-gw-edge-type'', ''LoadBalancer'')]) w"

text \<open>The addresses of the load balancers; a host name is resolved.\<close>

fun ingressIPs :: "kube \<Rightarrow> (string \<times> string) list \<Rightarrow> world \<Rightarrow> (go_error + string list) \<times> world" where
  "ingressIPs K [] w = (Inr [], w)"
| "ingressIPs K ((ip, hostname) # is) w =
     (if ip \<noteq> '''' then
        (case ingressIPs K is w of
           (Inl e, w) \<Rightarrow> (Inl e, w)
         | (Inr ips, w) \<Rightarrow> (Inr (ip # ips), w))
      else if hostname \<noteq> '''' then
        (case k_LookupHost K hostname w of
           (Inl e, w) \<Rightarrow> (Inl e, w)
         | (Inr resolved, w) \<Rightarrow>
            (case ingressIPs K is w of
               (Inl e, w) \<Rightarrow> (Inl e, w)
             | (Inr ips, w) \<Rightarrow> (Inr (resolved @ ips), w)))
      else ingressIPs K is w)"

definition updateLBIPs :: "kube \<Rightarrow> environ \<Rightarrow> slice_gateway \<Rightarrow> world \<Rightarrow> step_result \<times> world" where
  "updateLBIPs K E g w =
     (if SliceGatewayConnectivityType (gw_Config g) = ''LoadBalancer'' then
        (case GetSliceGatewayEdgeServices K (gw_SliceName g) w of
           (Inl e, w) \<Rightarrow> ((result_none, Some e, True), w)
         | (Inr lbSvcs, w) \<Rightarrow>
            (case ingressIPs K (concat (map s_Ingress lbSvcs)) w of
               (Inl e, w) \<Rightarrow> ((result_none, Some e, True), w)
             | (Inr lbIPs, w) \<Rightarrow>
                (case UpdateLBIPsForSliceGwServer K E lbIPs (gw_Name g) w of
                   (Some e, w) \<Rightarrow> ((result_none, Some e, True), w)
                 | (None, w) \<Rightarrow> ((result_none, None, False), w))))
      else ((result_none, None, False), w))"

definition publishNodePorts :: "kube \<Rightarrow> environ \<Rightarrow> slice_gateway \<Rightarrow> world
    \<Rightarrow> step_result go \<times> world" where
  "publishNodePorts K E g w =
     (case getNodePorts K g w of
        (Panic, w) \<Rightarrow> (Panic, w)
      | (Ret (Inl e), w) \<Rightarrow> (Ret (result_none, Some e, True), w)
      | (Ret (Inr nodePorts), w) \<Rightarrow>
         (case UpdateNodePortForSliceGwServer K E nodePorts (gw_Name g) w of
            (Some e, w) \<Rightarrow> (Ret (result_none, Some e, True), w)
          | (None, w) \<Rightarrow> (case updateLBIPs K E g w of (r, w) \<Rightarrow> (Ret r, w))))"

definition ReconcileGatewayServices :: "kube \<Rightarrow> environ \<Rightarrow> slice_gateway \<Rightarrow> world
    \<Rightarrow> step_result go \<times> world" where
  "ReconcileGatewayServices K E g w =
     (case getGatewayServices K g w of
        (Inl e, w) \<Rightarrow> (Ret (result_none, Some e, True), w)
      | (Inr gwServices, w) \<Rightarrow>
         (case GetDeployments K (gw_SliceName g) (gw_Name g) w of
            (Inl e, w) \<Rightarrow> (Ret (result_none, Some e, True), w)
          | (Inr deployments, w) \<Rightarrow>
             (case createMissingService K g gwServices deployments w of
                (Some r, w) \<Rightarrow> (Ret r, w)
              | (None, w) \<Rightarrow>
                 (let validGwSvcNames = map (\<lambda>d. ''svc-'' @ d_Name d) deployments;
                      gwsvcToDelete = staleServices gwServices validGwSvcNames
                  in if gwsvcToDelete \<noteq> [] then
                       (case deleteServices K g gwsvcToDelete w of
                          (Some e, w) \<Rightarrow> (Ret (result_none, Some e, True), w)
                        | (None, w) \<Rightarrow> (Ret (result_requeue, None, True), w))
                     else publishNodePorts K E g w))))"

section \<open>The disruption budget\<close>

definition DefaultMinAvailablePodsInPDB :: int where
  "DefaultMinAvailablePodsInPDB = 1"

definition listPodDisruptionBudgetForSliceGateway :: "kube \<Rightarrow> string \<Rightarrow> string \<Rightarrow> world
    \<Rightarrow> (go_error + pdb list) \<times> world" where
  "listPodDisruptionBudgetForSliceGateway K sliceName sliceGwName w =
     r_list (k_pdbs K)
       (in_namespace ControlPlaneNamespace
          [(ApplicationNamespaceSelectorLabelKey, sliceName),
           (SliceGatewaySelectorLabelKey, sliceGwName)]) w"

definition createOwnedPDB :: "kube \<Rightarrow> string \<Rightarrow> slice_gateway \<Rightarrow> world
    \<Rightarrow> go_error option \<times> world" where
  "createOwnedPDB K sliceName g w =
     (let pdb = constructPodDisruptionBudget sliceName (gw_Name g) DefaultMinAvailablePodsInPDB
      in case k_setControllerReference K (gw_meta g) (pdb_meta pdb) of
           Some e \<Rightarrow> (Some (Failure ''failed to set slice gateway as owner''), w)
         | None \<Rightarrow>
            (case r_create (k_pdbs K)
                (pdb\<lparr>pdb_meta := (pdb_meta pdb)\<lparr>om_Owner := Some (gw_Name g)\<rparr>\<rparr>) w of
               (None, w) \<Rightarrow> (None, w)
             | (Some AlreadyExists, w) \<Rightarrow> (None, w)
             | (Some e, w) \<Rightarrow> (Some (Failure ''failed to create PodDisruptionBudget''), w)))"

definition createPodDisruptionBudgetForSliceGatewayPods :: "kube \<Rightarrow> string \<Rightarrow> slice_gateway \<Rightarrow> world
    \<Rightarrow> go_error option \<times> world" where
  "createPodDisruptionBudgetForSliceGatewayPods K sliceName g w =
     (case listPodDisruptionBudgetForSliceGateway K sliceName (gw_Name g) w of
        (Inl e, w) \<Rightarrow> (if e \<noteq> NotFound then (Some e, w) else createOwnedPDB K sliceName g w)
      | (Inr pdbs, w) \<Rightarrow> (if length pdbs > 0 then (None, w) else createOwnedPDB K sliceName g w))"

section \<open>Deployments\<close>

definition numGwInstances :: "nat \<Rightarrow> slice_gateway \<Rightarrow> nat" where
  "numGwInstances N g =
     (if isClient g \<and> length (SliceGatewayRemoteNodePorts (gw_Config g)) < N
      then length (SliceGatewayRemoteNodePorts (gw_Config g)) else N)"

definition gwConfigKey_of :: "vpn_key_rotation option \<Rightarrow> int" where
  "gwConfigKey_of v = (case v of None \<Rightarrow> 1 | Some r \<Rightarrow> RotationCount r)"

definition staleSidecar :: "environ \<Rightarrow> container \<Rightarrow> bool" where
  "staleSidecar E c \<longleftrightarrow> c_Name c = ''kubeslice-sidecar''
     \<and> (c_Image c \<noteq> sidecarImage E \<or> c_ImagePullPolicy c \<noteq> sidecarPullPolicy E)"

fun refreshSidecar :: "environ \<Rightarrow> container list \<Rightarrow> container list" where
  "refreshSidecar E [] = []"
| "refreshSidecar E (c # cs) =
     (if staleSidecar E c
      then c\<lparr>c_Image := sidecarImage E, c_ImagePullPolicy := sidecarPullPolicy E\<rparr> # cs
      else c # refreshSidecar E cs)"

text \<open>The inner loop: the first deployment with a stale sidecar image is updated.\<close>

fun updateSidecars :: "kube \<Rightarrow> environ \<Rightarrow> deployment list \<Rightarrow> world
    \<Rightarrow> step_result option \<times> world" where
  "updateSidecars K E [] w = (None, w)"
| "updateSidecars K E (d # ds) w =
     (if list_ex (staleSidecar E) (ps_Containers (d_PodSpec d)) then
        (case r_update (k_deployments K)
            (d\<lparr>d_PodSpec := (d_PodSpec d)
                 \<lparr>ps_Containers := refreshSidecar E (ps_Containers (d_PodSpec d))\<rparr>\<rparr>) w of
           (Some e, w) \<Rightarrow> (Some (result_none, Some e, True), w)
         | (None, w) \<Rightarrow> (Some (result_requeue, None, True), w))
      else updateSidecars K E ds w)"

text \<open>
  Creation of the deployment of one missing instance. The nil deployment of a client
  without a free port is dereferenced by the log call: a panic.
\<close>

definition createInstance :: "kube \<Rightarrow> environ \<Rightarrow> string list \<Rightarrow> slice_gateway \<Rightarrow> int \<Rightarrow> nat \<Rightarrow> world
    \<Rightarrow> step_result go \<times> world" where
  "createInstance K E nodeIps g gwConfigKey gwInstance w =
     (case r_get (k_secrets K) (gw_Namespace g) (secretName g gwConfigKey) w of
        (Inl NotFound, w) \<Rightarrow> (Ret (result_after 5, None, True), w)
      | (Inl e, w) \<Rightarrow> (Ret (result_none, Some e, True), w)
      | (Inr sec, w) \<Rightarrow>
         (case deploymentForGateway E nodeIps g (gwDeploymentName (gw_Name g) gwInstance ''0'')
             gwConfigKey w of
            (None, w) \<Rightarrow> (Panic, w)
          | (Some dep, w) \<Rightarrow>
             (case r_create (k_deployments K) dep w of
                (Some e, w) \<Rightarrow> (Ret (result_none, Some e, True), w)
              | (None, w) \<Rightarrow> (Ret (result_requeue, None, True), w))))"

fun instancesLoop :: "kube \<Rightarrow> environ \<Rightarrow> string list \<Rightarrow> slice_gateway \<Rightarrow> int \<Rightarrow> deployment list
    \<Rightarrow> nat list \<Rightarrow> world \<Rightarrow> step_result go option \<times> world" where
  "instancesLoop K E nodeIps g gwConfigKey deployments [] w = (None, w)"
| "instancesLoop K E nodeIps g gwConfigKey deployments (i # is) w =
     (if \<not> gwDeploymentIsPresent (gw_Name g) i deployments
      then (case createInstance K E nodeIps g gwConfigKey i w of (r, w) \<Rightarrow> (Some r, w))
      else (case updateSidecars K E deployments w of
              (Some r, w) \<Rightarrow> (Some (Ret r), w)
            | (None, w) \<Rightarrow> instancesLoop K E nodeIps g gwConfigKey deployments is w))"

definition markedForDeletion :: "deployment \<Rightarrow> bool" where
  "markedForDeletion d \<longleftrightarrow>
     label_or_empty (om_Labels (d_meta d)) ''kubeslice.io/marked-for-deletion'' = ''true''"

text \<open>The mapping of client deployments to node ports, one deployment.\<close>

definition reconcileNodePort :: "kube \<Rightarrow> slice_gateway \<Rightarrow> deployment \<Rightarrow> world
    \<Rightarrow> step_result option \<times> world" where
  "reconcileNodePort K g d w =
     (case getClientGwRemotePortInUse K g (d_Name d) w of
        ((False, _), w) \<Rightarrow> (None, w)
      | ((True, nodePortInUse), w) \<Rightarrow>
         (if \<not> checkIfNodePortIsValid (SliceGatewayRemoteNodePorts (gw_Config g)) nodePortInUse then
            (case fst (allocateNodePortToClient (SliceGatewayRemoteNodePorts (gw_Config g))
                (d_Name d) (o_portMap w)) of
               Inl e \<Rightarrow> (Some (result_none, Some e, True), w)
             | Inr portNumToUpdate \<Rightarrow>
                (case updateGatewayDeploymentNodePort K g d portNumToUpdate
                    (w\<lparr>o_portMap := AList.update (d_Name d) portNumToUpdate (o_portMap w)\<rparr>) of
                   (Some e, w) \<Rightarrow> (Some (result_none, Some e, True), w)
                 | (None, w) \<Rightarrow> (Some (result_none, None, True), w)))
          else
            (case map_of (o_portMap w) (d_Name d) of
               Some portInMap \<Rightarrow>
                 if portInMap \<noteq> nodePortInUse then
                   (case updateGatewayDeploymentNodePort K g d portInMap w of
                      (Some e, w) \<Rightarrow> (Some (result_none, Some e, True), w)
                    | (None, w) \<Rightarrow> (Some (result_none, None, True), w))
                 else (None, w)
             | None \<Rightarrow>
                 (None, w\<lparr>o_portMap := AList.update (d_Name d) nodePortInUse (o_portMap w)\<rparr>))))"

fun nodePortsLoop :: "kube \<Rightarrow> slice_gateway \<Rightarrow> deployment list \<Rightarrow> world
    \<Rightarrow> step_result option \<times> world" where
  "nodePortsLoop K g [] w = (None, w)"
| "nodePortsLoop K g (d # ds) w =
     (if markedForDeletion d then nodePortsLoop K g ds w
      else (case reconcileNodePort K g d w of
              (Some r, w) \<Rightarrow> (Some r, w)
            | (None, w) \<Rightarrow> nodePortsLoop K g ds w))"

fun deleteMarked :: "kube \<Rightarrow> slice_gateway \<Rightarrow> deployment list \<Rightarrow> world \<Rightarrow> go_error option \<times> world" where
  "deleteMarked K g [] w = (None, w)"
| "deleteMarked K g (d # ds) w =
     (case handleSliceGwSvcDeletion K g (getGwSvcNameFromDepName (d_Name d)) w of
        (Some e, w) \<Rightarrow> (Some e, w)
      | (None, w) \<Rightarrow>
         (case r_delete (k_deployments K) (om_Namespace (d_meta d)) (d_Name d) w of
            (Some e, w) \<Rightarrow> (Some e, w)
          | (None, w) \<Rightarrow>
              deleteMarked K g ds
                (if isClient g then w\<lparr>o_portMap := AList.delete (d_Name d) (o_portMap w)\<rparr> else w)))"

definition deleteMarkedDeployments :: "kube \<Rightarrow> slice_gateway \<Rightarrow> world \<Rightarrow> step_result \<times> world" where
  "deleteMarkedDeployments K g w =
     (case getDeploymentsMarkedForDeletion K (gw_SliceName g) (gw_Name g) w of
        (Inl e, w) \<Rightarrow> ((result_none, Some e, True), w)
      | (Inr deploymentsToDelete, w) \<Rightarrow>
         (case deleteMarked K g deploymentsToDelete w of
            (Some e, w) \<Rightarrow> ((result_none, Some e, True), w)
          | (None, w) \<Rightarrow> ((result_none, None, False), w)))"

text \<open>The part after the loop over the instances.\<close>

definition settleDeployments :: "kube \<Rightarrow> slice_gateway \<Rightarrow> deployment list \<Rightarrow> world
    \<Rightarrow> step_result \<times> world" where
  "settleDeployments K g deployments w =
     (case createPodDisruptionBudgetForSliceGatewayPods K (gw_SliceName g) g w of
        (Some e, w) \<Rightarrow> ((result_none, Some e, True), w)
      | (None, w) \<Rightarrow>
         (case (if isClient g then nodePortsLoop K g deployments w else (None, w)) of
            (Some r, w) \<Rightarrow> (r, w)
          | (None, w) \<Rightarrow> deleteMarkedDeployments K g w))"

definition ReconcileGatewayDeployments :: "kube \<Rightarrow> environ \<Rightarrow> string list \<Rightarrow> nat \<Rightarrow> slice_gateway
    \<Rightarrow> world \<Rightarrow> step_result go \<times> world" where
  "ReconcileGatewayDeployments K E nodeIps N g w =
     (case GetDeployments K (gw_SliceName g) (gw_Name g) w of
        (Inl e, w) \<Rightarrow> (Ret (result_none, Some e, True), w)
      | (Inr deployments, w) \<Rightarrow>
         (case GetVPNKeyRotation K E (gw_SliceName g) w of
            (Inl e, w) \<Rightarrow> (Ret (result_none, Some e, True), w)
          | (Inr vpnKeyRotation, w) \<Rightarrow>
             (case instancesLoop K E nodeIps g (gwConfigKey_of vpnKeyRotation) deployments
                 [0..<numGwInstances N g] w of
                (Some r, w) \<Rightarrow> (r, w)
              | (None, w) \<Rightarrow> (case settleDeployments K g deployments w of (r, w) \<Rightarrow> (Ret r, w)))))"

section \<open>Intermediate deployments\<close>

definition createIntermediateGatewayDeployment :: "kube \<Rightarrow> environ \<Rightarrow> string list \<Rightarrow> slice_gateway
    \<Rightarrow> string \<Rightarrow> world \<Rightarrow> go_error option go \<times> world" where
  "createIntermediateGatewayDeployment K E nodeIps g depToCreate w =
     (case GetVPNKeyRotation K E (gw_SliceName g) w of
        (Inl e, w) \<Rightarrow> (Ret (Some e), w)
      | (Inr vpnKeyRotation, w) \<Rightarrow>
         (let gwConfigKey = gwConfigKey_of vpnKeyRotation in
          case r_get (k_secrets K) (gw_Namespace g) (secretName g gwConfigKey) w of
            (Inl NotFound, w) \<Rightarrow> (Ret (Some (Failure ''secret not found, will retry'')), w)
          | (Inl e, w) \<Rightarrow> (Ret (Some e), w)
          | (Inr sec, w) \<Rightarrow>
             (case deploymentForGateway E nodeIps g depToCreate gwConfigKey w of
                (None, w) \<Rightarrow> (Panic, w)
              | (Some dep, w) \<Rightarrow>
                 (case r_create (k_deployments K) dep w of (r, w) \<Rightarrow> (Ret r, w)))))"

definition createIntermediateGatewayService :: "kube \<Rightarrow> slice_gateway \<Rightarrow> world
    \<Rightarrow> (go_error + bool) \<times> world" where
  "createIntermediateGatewayService K g w =
     (case getGatewayServices K g w of
        (Inl e, w) \<Rightarrow> (Inl e, w)
      | (Inr gwServices, w) \<Rightarrow>
         (case find (\<lambda>d. getGwService gwServices (''svc'' @ ''-'' @ d) = None)
             (SliceGatewayIntermediateDeployments (gw_Config g)) of
            None \<Rightarrow> (Inr False, w)
          | Some depName \<Rightarrow>
             (case handleSliceGwSvcCreation K g (''svc'' @ ''-'' @ depName) depName w of
                ((_, Some e, _), w) \<Rightarrow> (Inl e, w)
              | ((_, None, _), w) \<Rightarrow> (Inr True, w))))"

fun newIntermediateDeploymentNeeded_in :: "kube \<Rightarrow> slice_gateway \<Rightarrow> string list \<Rightarrow> world
    \<Rightarrow> string \<times> world" where
  "newIntermediateDeploymentNeeded_in K g [] w = ('''', w)"
| "newIntermediateDeploymentNeeded_in K g (d # ds) w =
     (case getGwDeployment K g d w of
        (None, w) \<Rightarrow> (d, w)
      | (Some _, w) \<Rightarrow> newIntermediateDeploymentNeeded_in K g ds w)"

definition newIntermediateDeploymentNeeded :: "kube \<Rightarrow> slice_gateway \<Rightarrow> world
    \<Rightarrow> string \<times> world" where
  "newIntermediateDeploymentNeeded K g w =
     newIntermediateDeploymentNeeded_in K g (SliceGatewayIntermediateDeployments (gw_Config g)) w"

definition ReconcileIntermediateGatewayDeployments :: "kube \<Rightarrow> environ \<Rightarrow> string list
    \<Rightarrow> slice_gateway \<Rightarrow> world \<Rightarrow> step_result go \<times> world" where
  "ReconcileIntermediateGatewayDeployments K E nodeIps g w =
     (case newIntermediateDeploymentNeeded K g w of
        (depToCreate, w) \<Rightarrow>
         (if depToCreate \<noteq> '''' then
            (if isClient g \<and> \<not> list_ex (\<lambda>p. \<not> checkIfNodePortIsAlreadyUsed (o_portMap w) p)
                  (SliceGatewayRemoteNodePorts (gw_Config g))
             then (Ret (result_after 10, None, True), w)
             else
               (case createIntermediateGatewayDeployment K E nodeIps g depToCreate w of
                  (Panic, w) \<Rightarrow> (Panic, w)
                | (Ret (Some e), w) \<Rightarrow> (Ret (result_none, Some e, True), w)
                | (Ret None, w) \<Rightarrow> (Ret (result_requeue, None, True), w)))
          else if isServer g then
            (case createIntermediateGatewayService K g w of
               (Inl e, w) \<Rightarrow> (Ret (result_none, Some e, True), w)
             | (Inr True, w) \<Rightarrow> (Ret (result_requeue, None, True), w)
             | (Inr False, w) \<Rightarrow> (Ret (result_none, None, False), w))
          else (Ret (result_none, None, False), w)))"

section \<open>What a pass does to the deployments\<close>

definition listedDeployments :: "slice_gateway \<Rightarrow> world \<Rightarrow> deployment list" where
  "listedDeployments g w =
     filter (selects d_meta no_phase (in_namespace ControlPlaneNamespace (deploymentLabels g)))
       (w_deployments w)"

definition markedDeployments :: "slice_gateway \<Rightarrow> world \<Rightarrow> deployment list" where
  "markedDeployments g w =
     filter (selects d_meta no_phase (in_namespace ControlPlaneNamespace
       (deploymentLabels g @ [(''kubeslice.io/marked-for-deletion'', ''true'')])))
       (w_deployments w)"

definition delete_all :: "deployment list \<Rightarrow> deployment list \<Rightarrow> deployment list" where
  "delete_all del ds =
     fold (\<lambda>d. remove_object d_meta (om_Namespace (d_meta d)) (d_Name d)) del ds"

text \<open>The four things that one pass can do.\<close>

inductive deployments_step :: "nat \<Rightarrow> slice_gateway \<Rightarrow> world \<Rightarrow> world \<Rightarrow> bool" for N g w w' where
  unchanged: "w_deployments w' = w_deployments w \<Longrightarrow> deployments_step N g w w'"
| created: "w_deployments w' = w_deployments w @ [d] \<Longrightarrow>
     i < numGwInstances N g \<Longrightarrow> d_Name d = gwDeploymentName (gw_Name g) i ''0'' \<Longrightarrow>
     \<not> gwDeploymentIsPresent (gw_Name g) i (listedDeployments g w) \<Longrightarrow>
     (\<And>j. j < i \<Longrightarrow> gwDeploymentIsPresent (gw_Name g) j (listedDeployments g w)) \<Longrightarrow>
     deployments_step N g w w'"
| changed: "w_deployments w' = replace_object d_meta d' (w_deployments w) \<Longrightarrow>
     d \<in> set (listedDeployments g w) \<Longrightarrow> d_meta d' = d_meta d \<Longrightarrow> deployments_step N g w w'"
| deleted: "w_deployments w' = delete_all del (w_deployments w) \<Longrightarrow>
     set del \<subseteq> set (markedDeployments g w) \<Longrightarrow> deployments_step N g w w'"

lemma upt_split: "[0..<n] = as @ j # bs \<Longrightarrow> as = [0..<j] \<and> j < n"
proof -
  assume eq: "[0..<n] = as @ j # bs"
  then have len: "n = length as + Suc (length bs)" by (metis length_append length_Cons length_upt minus_nat.diff_0)
  have "[0..<n] ! length as = j" by (simp add: eq)
  moreover have "[0..<n] ! length as = length as" using len by (simp del: upt_Suc)
  ultimately have "j = length as" by simp
  moreover have "take (length as) [0..<n] = as" by (simp add: eq)
  ultimately show ?thesis using len by (simp add: take_upt del: upt_Suc)
qed

lemma listed_cong:
  "w_deployments w1 = w_deployments w2 \<Longrightarrow> listedDeployments g w1 = listedDeployments g w2"
  "w_deployments w1 = w_deployments w2 \<Longrightarrow> markedDeployments g w1 = markedDeployments g w2"
  by (simp_all add: listedDeployments_def markedDeployments_def)

lemma deployments_step_cong:
  assumes "deployments_step N g w1 w'" and "w_deployments w1 = w_deployments w2"
  shows "deployments_step N g w2 w'"
  using assms(1)
proof cases
  case unchanged
  with assms(2) show ?thesis by (intro deployments_step.unchanged) simp
next
  case (created d i)
  with assms(2) listed_cong [OF assms(2)] show ?thesis
    by (intro deployments_step.created [of _ _ d i]) auto
next
  case (changed d' d)
  with assms(2) listed_cong [OF assms(2)] show ?thesis
    by (intro deployments_step.changed [of _ d' _ d]) auto
next
  case (deleted del)
  with assms(2) listed_cong [OF assms(2)] show ?thesis
    by (intro deployments_step.deleted [of _ del]) auto
qed

lemma deploymentLabels_query:
  "[(ApplicationNamespaceSelectorLabelKey, gw_SliceName g), (PodInjectLabelKey, ''slicegateway''),
    (''kubeslice.io/slicegw'', gw_Name g)] = deploymentLabels g"
  by (simp add: deploymentLabels_def)

lemma deploymentForGateway_world:
  "deploymentForGateway E ips g n k w = (r, w') \<Longrightarrow> \<exists>pm. w' = w\<lparr>o_portMap := pm\<rparr>"
proof (cases "SliceGatewayHostType (gw_Config g) = ''Server''")
  case True
  assume "deploymentForGateway E ips g n k w = (r, w')"
  with True have "w' = w" by (simp add: deploymentForGateway_def)
  then have "w' = w\<lparr>o_portMap := o_portMap w\<rparr>" by simp
  then show ?thesis by blast
next
  case False
  assume "deploymentForGateway E ips g n k w = (r, w')"
  with False show ?thesis
    by (auto simp: deploymentForGateway_def deploymentForGatewayClient_def
        split: prod.splits option.splits)
qed

lemma deploymentForGateway_name:
  "deploymentForGateway E ips g n k w = (Some d, w') \<Longrightarrow>
     d_Name d = n \<and> om_Namespace (d_meta d) = gw_Namespace g \<and> om_Labels (d_meta d) = deploymentLabels g"
  by (auto simp: deploymentForGateway_def deploymentForGatewayClient_def clientDeployment_def
      deploymentForGatewayServer_def Let_def split: if_splits prod.splits option.splits)

context lawful
begin

lemma GetDeployments_listed:
  "GetDeployments K (gw_SliceName g) (gw_Name g) w = (Inr ds, w') \<Longrightarrow>
     ds = listedDeployments g w \<and> w' = tick w"
  by (auto simp: GetDeployments_def deploymentLabels_query listedDeployments_def dest!: dep.list_ok)

lemma GetVPNKeyRotation_reads: "GetVPNKeyRotation K E n w = (r, w') \<Longrightarrow> reads w w'"
  by (auto simp: GetVPNKeyRotation_def split: prod.splits sum.splits dest!: rot.get_world)

lemma createInstance_deployments:
  assumes "createInstance K E ips g k i w = (r, w')"
  shows "w_deployments w' = w_deployments w
    \<or> (\<exists>d. w_deployments w' = w_deployments w @ [d] \<and> d_Name d = gwDeploymentName (gw_Name g) i ''0''
          \<and> r = Ret (result_requeue, None, True))"
proof -
  obtain x w1 where get: "r_get (k_secrets K) (gw_Namespace g) (secretName g k) w = (x, w1)" by fastforce
  note w1 = sec.get_world [OF get]
  show ?thesis
  proof (cases x)
    case (Inl e)
    with assms get w1 show ?thesis by (cases e) (auto simp: createInstance_def)
  next
    case (Inr s)
    obtain y w2 where d: "deploymentForGateway E ips g (gwDeploymentName (gw_Name g) i ''0'') k w1
        = (y, w2)" by fastforce
    from deploymentForGateway_world [OF d] w1 have w2: "w_deployments w2 = w_deployments w" by auto
    show ?thesis
    proof (cases y)
      case None
      with assms get Inr d w2 show ?thesis by (simp add: createInstance_def)
    next
      case (Some dd)
      obtain z w3 where c: "r_create (k_deployments K) dd w2 = (z, w3)" by fastforce
      with assms get Inr d Some have "w' = w3" "z = None \<longrightarrow> r = Ret (result_requeue, None, True)"
        by (auto simp: createInstance_def split: option.splits)
      with c w2 deploymentForGateway_name [OF d [unfolded Some]] show ?thesis
        by (cases z) (auto dest!: dep.create_ok dep.create_err)
    qed
  qed
qed

lemma updateSidecars_none: "updateSidecars K E ds w = (None, w') \<Longrightarrow> w' = w"
  by (induction ds) (auto split: if_splits prod.splits option.splits)

lemma updateSidecars_deployments:
  "updateSidecars K E ds w = (Some r, w') \<Longrightarrow>
     w_deployments w' = w_deployments w
     \<or> (\<exists>d \<in> set ds. \<exists>d'. d_meta d' = d_meta d
          \<and> w_deployments w' = replace_object d_meta d' (w_deployments w))"
proof (induction ds)
  case (Cons d ds)
  show ?case
  proof (cases "list_ex (staleSidecar E) (ps_Containers (d_PodSpec d))")
    case False
    with Cons show ?thesis by auto
  next
    case True
    let ?d = "d\<lparr>d_PodSpec := (d_PodSpec d)
                 \<lparr>ps_Containers := refreshSidecar E (ps_Containers (d_PodSpec d))\<rparr>\<rparr>"
    obtain e w1 where u: "r_update (k_deployments K) ?d w = (e, w1)" by fastforce
    with Cons.prems True have "w' = w1" by (auto split: option.splits)
    show ?thesis
    proof (cases e)
      case (Some x)
      from dep.update_err [OF u [unfolded Some]] \<open>w' = w1\<close> show ?thesis by simp
    next
      case None
      from dep.update_ok [OF u [unfolded None]] \<open>w' = w1\<close>
      have "w_deployments w' = replace_object d_meta ?d (w_deployments w)" by simp
      then show ?thesis by (intro disjI2 bexI [of _ d] exI [of _ ?d]) simp_all
    qed
  qed
qed simp

lemma instancesLoop_none: "instancesLoop K E ips g k ds is w = (None, w') \<Longrightarrow>
    w' = w \<and> (\<forall>i \<in> set is. gwDeploymentIsPresent (gw_Name g) i ds)"
  by (induction "is") (auto split: if_splits prod.splits option.splits dest!: updateSidecars_none)

lemma instancesLoop_deployments:
  "instancesLoop K E ips g k ds is w = (Some r, w') \<Longrightarrow>
     w_deployments w' = w_deployments w
     \<or> (\<exists>i d as bs. is = as @ i # bs \<and> (\<forall>j \<in> set as. gwDeploymentIsPresent (gw_Name g) j ds)
          \<and> \<not> gwDeploymentIsPresent (gw_Name g) i ds
          \<and> d_Name d = gwDeploymentName (gw_Name g) i ''0''
          \<and> w_deployments w' = w_deployments w @ [d])
     \<or> (\<exists>d \<in> set ds. \<exists>d'. d_meta d' = d_meta d
          \<and> w_deployments w' = replace_object d_meta d' (w_deployments w))"
proof (induction "is")
  case (Cons i "is")
  show ?case
  proof (cases "gwDeploymentIsPresent (gw_Name g) i ds")
    case False
    with Cons.prems obtain r1 where "createInstance K E ips g k i w = (r1, w')"
      by (auto split: prod.splits)
    from createInstance_deployments [OF this] False show ?thesis
      by (fastforce intro: exI [of _ "[]"])
  next
    case True
    obtain x w1 where u: "updateSidecars K E ds w = (x, w1)" by fastforce
    show ?thesis
    proof (cases x)
      case (Some s)
      with Cons.prems True u have "w' = w1" by auto
      with updateSidecars_deployments [OF u [unfolded Some]] show ?thesis by blast
    next
      case None
      with u have "w1 = w" by (auto dest: updateSidecars_none)
      with Cons.prems True u None have "instancesLoop K E ips g k ds is w = (Some r, w')" by simp
      from Cons.IH [OF this] show ?thesis
      proof (elim disjE exE conjE)
        fix i' d as bs
        assume "is = as @ i' # bs" "\<forall>j \<in> set as. gwDeploymentIsPresent (gw_Name g) j ds"
          and *: "\<not> gwDeploymentIsPresent (gw_Name g) i' ds"
            "d_Name d = gwDeploymentName (gw_Name g) i' ''0''"
            "w_deployments w' = w_deployments w @ [d]"
        then have "i # is = (i # as) @ i' # bs"
          "\<forall>j \<in> set (i # as). gwDeploymentIsPresent (gw_Name g) j ds" using True by auto
        with * show ?thesis by blast
      qed blast+
    qed
  qed
qed simp

lemma getClientGwRemotePortInUse_reads:
  "getClientGwRemotePortInUse K g d w = (r, w') \<Longrightarrow> reads w w'"
  by (auto simp: getClientGwRemotePortInUse_def getGwDeployment_def
      split: prod.splits sum.splits option.splits dest!: GetDeployments_reads)

lemma updateNodePort_deployments:
  assumes "updateGatewayDeploymentNodePort K g d p w = (e, w')"
  shows "w_deployments w' = w_deployments w
    \<or> (\<exists>d'. d_meta d' = d_meta d \<and> w_deployments w' = replace_object d_meta d' (w_deployments w))"
proof (cases e)
  case None
  from dep.update_ok [of "withNodePort g p d" w w'] assms None
  have "w_deployments w' = replace_object d_meta (withNodePort g p d) (w_deployments w)"
    by (simp add: updateGatewayDeploymentNodePort_def)
  then show ?thesis by (intro disjI2 exI [of _ "withNodePort g p d"]) (simp add: withNodePort_def)
next
  case (Some x)
  from dep.update_err [of "withNodePort g p d" w x w'] assms Some show ?thesis
    by (simp add: updateGatewayDeploymentNodePort_def)
qed

lemma reconcileNodePort_deployments:
  assumes "reconcileNodePort K g d w = (r, w')"
  shows "w_deployments w' = w_deployments w
    \<or> r \<noteq> None \<and> (\<exists>d'. d_meta d' = d_meta d
        \<and> w_deployments w' = replace_object d_meta d' (w_deployments w))"
proof -
  have u: "w_deployments w2 = w_deployments w1
    \<or> (\<exists>d'. d_meta d' = d_meta d \<and> w_deployments w2 = replace_object d_meta d' (w_deployments w1))"
    if "updateGatewayDeploymentNodePort K g d p w1 = (e, w2)" for p e w1 w2
    using updateNodePort_deployments that .
  show ?thesis
    using assms
    by (auto simp: reconcileNodePort_def split: prod.splits bool.splits if_splits sum.splits option.splits
        elim!: readsE dest!: getClientGwRemotePortInUse_reads u)
qed

lemma nodePortsLoop_deployments:
  "nodePortsLoop K g ds w = (r, w') \<Longrightarrow>
     w_deployments w' = w_deployments w
     \<or> r \<noteq> None \<and> (\<exists>d \<in> set ds. \<exists>d'. d_meta d' = d_meta d
          \<and> w_deployments w' = replace_object d_meta d' (w_deployments w))"
proof (induction ds arbitrary: w)
  case (Cons d ds)
  show ?case
  proof (cases "markedForDeletion d")
    case True
    with Cons show ?thesis by auto
  next
    case False
    obtain x w1 where u: "reconcileNodePort K g d w = (x, w1)" by fastforce
    note d = reconcileNodePort_deployments [OF u]
    show ?thesis
    proof (cases x)
      case (Some s)
      with Cons.prems False u have "w' = w1" "r = Some s" by auto
      with d show ?thesis by auto
    next
      case None
      with Cons.prems False u have "nodePortsLoop K g ds w1 = (r, w')" by simp
      from Cons.IH [OF this] d None show ?thesis by auto
    qed
  qed
qed simp

lemma svc_deletion_deployments:
  "handleSliceGwSvcDeletion K g n w = (r, w') \<Longrightarrow> w_deployments w' = w_deployments w"
proof -
  have "w_deployments w2 = w_deployments w1" if "r_delete (k_services K) ns n w1 = (x, w2)" for ns n w1 x w2
    using that by (cases x) (auto dest!: svc.delete_ok svc.delete_err)
  then show "handleSliceGwSvcDeletion K g n w = (r, w') \<Longrightarrow> w_deployments w' = w_deployments w"
    by (auto simp: handleSliceGwSvcDeletion_def split: prod.splits sum.splits go_error.splits
        dest!: svc.get_world)
qed

lemma deleteMarked_deployments:
  "deleteMarked K g ds w = (r, w') \<Longrightarrow>
     \<exists>del. set del \<subseteq> set ds \<and> w_deployments w' = delete_all del (w_deployments w)
        \<and> (r = None \<longrightarrow> del = ds)"
proof (induction ds arbitrary: w)
  case Nil
  then show ?case by (simp add: delete_all_def)
next
  case (Cons d ds)
  have same: ?case if "w_deployments w' = w_deployments w" "r \<noteq> None"
    using that by (intro exI [of _ "[]"]) (simp add: delete_all_def)
  obtain x w1 where s: "handleSliceGwSvcDeletion K g (getGwSvcNameFromDepName (d_Name d)) w = (x, w1)"
    by fastforce
  note w1 = svc_deletion_deployments [OF s]
  show ?case
  proof (cases x)
    case (Some e)
    with Cons.prems s w1 show ?thesis by (intro same) auto
  next
    case None
    obtain y w2 where del: "r_delete (k_deployments K) (om_Namespace (d_meta d)) (d_Name d) w1 = (y, w2)"
      by fastforce
    show ?thesis
    proof (cases y)
      case (Some e)
      with Cons.prems s None del w1 dep.delete_err [OF del [unfolded Some]] show ?thesis
        by (intro same) auto
    next
      case y: None
      from dep.delete_ok [OF del [unfolded y]] w1
      have w2: "w_deployments w2
          = remove_object d_meta (om_Namespace (d_meta d)) (d_Name d) (w_deployments w)" by simp
      let ?w = "if isClient g then w2\<lparr>o_portMap := AList.delete (d_Name d) (o_portMap w2)\<rparr> else w2"
      from Cons.prems s None del y have "deleteMarked K g ds ?w = (r, w')" by simp
      from Cons.IH [OF this] obtain del where del: "set del \<subseteq> set ds"
        "w_deployments w' = delete_all del (w_deployments w2)" "r = None \<longrightarrow> del = ds"
        by (auto split: if_splits)
      with w2 show ?thesis
        by (intro exI [of _ "d # del"]) (auto simp: delete_all_def)
    qed
  qed
qed

lemma pdb_deployments:
  "createPodDisruptionBudgetForSliceGatewayPods K s g w = (r, w') \<Longrightarrow>
     w_deployments w' = w_deployments w"
proof -
  have c: "w_deployments w2 = w_deployments w1" if "r_create (k_pdbs K) ob w1 = (x, w2)" for ob w1 x w2
    using that by (cases x) (auto dest!: pdb.create_ok pdb.create_err)
  then have o: "w_deployments w2 = w_deployments w1" if "createOwnedPDB K s g w1 = (x, w2)" for w1 x w2
    using that by (auto simp: createOwnedPDB_def Let_def split: option.splits prod.splits go_error.splits)
  show "createPodDisruptionBudgetForSliceGatewayPods K s g w = (r, w') \<Longrightarrow>
     w_deployments w' = w_deployments w"
    by (auto simp: createPodDisruptionBudgetForSliceGatewayPods_def
        listPodDisruptionBudgetForSliceGateway_def split: prod.splits sum.splits if_splits
        dest!: pdb.list_world o)
qed

lemma getMarked_listed:
  "getDeploymentsMarkedForDeletion K (gw_SliceName g) (gw_Name g) w = (Inr ds, w') \<Longrightarrow>
     ds = markedDeployments g w \<and> w' = tick w"
  by (auto simp: getDeploymentsMarkedForDeletion_def deploymentLabels_def markedDeployments_def
      dest!: dep.list_ok)

lemma deleteMarkedDeployments_deployments:
  assumes "deleteMarkedDeployments K g w = (r, w')"
  shows "\<exists>del. set del \<subseteq> set (markedDeployments g w) \<and> w_deployments w' = delete_all del (w_deployments w)"
proof -
  obtain x w1 where l: "getDeploymentsMarkedForDeletion K (gw_SliceName g) (gw_Name g) w = (x, w1)"
    by fastforce
  show ?thesis
  proof (cases x)
    case (Inl e)
    with l have "w1 = tick w" by (auto simp: getDeploymentsMarkedForDeletion_def dest: dep.list_err)
    with assms l Inl show ?thesis
      by (intro exI [of _ "[]"]) (auto simp: deleteMarkedDeployments_def delete_all_def)
  next
    case (Inr ds)
    with l have ds: "ds = markedDeployments g w" "w1 = tick w" by (auto dest: getMarked_listed)
    obtain y w2 where d: "deleteMarked K g ds w1 = (y, w2)" by fastforce
    with assms l Inr have "w' = w2" by (auto simp: deleteMarkedDeployments_def split: option.splits)
    with deleteMarked_deployments [OF d] ds show ?thesis by auto
  qed
qed

lemma settleDeployments_deployments:
  assumes "settleDeployments K g ds w = (r, w')" and "set ds \<subseteq> set (listedDeployments g w)"
  shows "deployments_step N g w w'"
proof -
  obtain x w1 where p: "createPodDisruptionBudgetForSliceGatewayPods K (gw_SliceName g) g w = (x, w1)"
    by fastforce
  note w1 = pdb_deployments [OF p]
  show ?thesis
  proof (cases x)
    case (Some e)
    with assms p have "w' = w1" by (simp add: settleDeployments_def)
    with w1 show ?thesis by (simp add: unchanged)
  next
    case None
    obtain y w2 where n: "(if isClient g then nodePortsLoop K g ds w1 else (None, w1)) = (y, w2)"
      by fastforce
    then have n': "w_deployments w2 = w_deployments w1
     \<or> y \<noteq> None \<and> (\<exists>d \<in> set ds. \<exists>d'. d_meta d' = d_meta d
          \<and> w_deployments w2 = replace_object d_meta d' (w_deployments w1))"
      using nodePortsLoop_deployments [of g ds w1 y w2] by (auto split: if_splits)
    show ?thesis
    proof (cases y)
      case (Some s)
      with assms p None n have "w' = w2" by (simp add: settleDeployments_def)
      with n' w1 show ?thesis
        by (metis changed unchanged assms(2) subsetD)
    next
      case y: None
      with assms p None n have d: "deleteMarkedDeployments K g w2 = (r, w')"
        by (simp add: settleDeployments_def)
      from y n' w1 have "w_deployments w2 = w_deployments w" by simp
      moreover from deleteMarkedDeployments_deployments [OF d] have "deployments_step N g w2 w'"
        by (blast intro: deleted)
      ultimately show ?thesis by (blast intro: deployments_step_cong)
    qed
  qed
qed

lemma ReconcileGatewayDeployments_step:
  assumes "ReconcileGatewayDeployments K E ips N g w = (r, w')"
  shows "deployments_step N g w w'"
proof -
  obtain x w1 where l: "GetDeployments K (gw_SliceName g) (gw_Name g) w = (x, w1)" by fastforce
  then have w1: "w_deployments w1 = w_deployments w" by (auto dest!: GetDeployments_reads elim!: readsE)
  show ?thesis
  proof (cases x)
    case (Inl e)
    with assms l have "w' = w1" by (simp add: ReconcileGatewayDeployments_def)
    with w1 show ?thesis by (simp add: unchanged)
  next
    case (Inr ds)
    with l have ds: "ds = listedDeployments g w" by (auto dest: GetDeployments_listed)
    obtain y w2 where v: "GetVPNKeyRotation K E (gw_SliceName g) w1 = (y, w2)" by fastforce
    with w1 have w2: "w_deployments w2 = w_deployments w"
      by (auto dest!: GetVPNKeyRotation_reads elim!: readsE)
    show ?thesis
    proof (cases y)
      case (Inl e)
      with assms l Inr v have "w' = w2" by (simp add: ReconcileGatewayDeployments_def)
      with w2 show ?thesis by (simp add: unchanged)
    next
      case y: (Inr rot)
      obtain z w3 where i: "instancesLoop K E ips g (gwConfigKey_of rot) ds [0..<numGwInstances N g] w2
          = (z, w3)" by fastforce
      show ?thesis
      proof (cases z)
        case None
        with i have "w3 = w2" by (auto dest: instancesLoop_none)
        obtain r1 w4 where s: "settleDeployments K g ds w2 = (r1, w4)" by fastforce
        with assms l Inr v y i None \<open>w3 = w2\<close> have "w' = w4"
          by (simp add: ReconcileGatewayDeployments_def)
        from settleDeployments_deployments [OF s, of N] ds w2 have "deployments_step N g w2 w4"
          by (simp add: listedDeployments_def)
        then show ?thesis using w2 \<open>w' = w4\<close> by (blast intro: deployments_step_cong)
      next
        case (Some rr)
        with assms l Inr v y i have "w' = w3" by (simp add: ReconcileGatewayDeployments_def)
        from instancesLoop_deployments [OF i [unfolded Some]] show ?thesis
        proof (elim disjE exE conjE bexE)
          assume "w_deployments w3 = w_deployments w2"
          with w2 \<open>w' = w3\<close> show ?thesis by (simp add: unchanged)
        next
          fix j d as bs
          assume split: "[0..<numGwInstances N g] = as @ j # bs"
            and as: "\<forall>j \<in> set as. gwDeploymentIsPresent (gw_Name g) j ds"
            and j: "\<not> gwDeploymentIsPresent (gw_Name g) j ds"
            and d: "d_Name d = gwDeploymentName (gw_Name g) j ''0''"
            and w3: "w_deployments w3 = w_deployments w2 @ [d]"
          from split have "as = [0..<j] \<and> j < numGwInstances N g"
            by (rule upt_split)
          then show ?thesis
            using as j d w3 w2 ds \<open>w' = w3\<close> by (intro created [of _ _ d j]) auto
        next
          fix d d'
          assume "d \<in> set ds" "d_meta d' = d_meta d"
            "w_deployments w3 = replace_object d_meta d' (w_deployments w2)"
          then show ?thesis using w2 ds \<open>w' = w3\<close> by (intro changed [of _ d']) auto
        qed
      qed
    qed
  qed
qed

end

section \<open>Panics\<close>

lemma clientRemotePort_none:
  assumes "clientRemotePort ports d pm = (None, pm')"
  shows "\<forall>p \<in> set ports. p \<in> snd ` set pm"
  using assms
proof (cases rule: clientRemotePort_cases)
  case (full q)
  have "\<forall>p \<in> set ports. p \<in> snd ` set q" using full(5) by (auto simp: find_None_iff)
  moreover have "set q \<subseteq> set pm" using full(1) by (auto simp: AList.delete_eq)
  ultimately show ?thesis by blast
qed auto

lemma deploymentForGateway_none:
  assumes "deploymentForGateway E ips g n k w = (None, w')"
  shows "\<not> isServer g \<and> (\<forall>p \<in> set (SliceGatewayRemoteNodePorts (gw_Config g)).
    p \<in> snd ` set (o_portMap w))"
proof -
  from assms have s: "\<not> isServer g" by (auto simp: deploymentForGateway_def isServer_def)
  with assms have "deploymentForGatewayClient E g n k w = (None, w')"
    by (simp add: deploymentForGateway_def isServer_def)
  then obtain pm where "clientRemotePort (SliceGatewayRemoteNodePorts (gw_Config g)) n (o_portMap w) = (None, pm)"
    by (auto simp: deploymentForGatewayClient_def split: prod.splits option.splits)
  with s show ?thesis by (blast dest: clientRemotePort_none)
qed

context lawful
begin

lemma createInstance_panic:
  assumes "createInstance K E ips g k i w = (Panic, w')"
  shows "\<not> isServer g \<and> (\<forall>p \<in> set (SliceGatewayRemoteNodePorts (gw_Config g)).
    p \<in> snd ` set (o_portMap w))"
proof -
  obtain x w1 where get: "r_get (k_secrets K) (gw_Namespace g) (secretName g k) w = (x, w1)" by fastforce
  note w1 = sec.get_world [OF get]
  obtain y w2 where d: "deploymentForGateway E ips g (gwDeploymentName (gw_Name g) i ''0'') k w1
        = (y, w2)" by fastforce
  from assms get d have "y = None"
    by (auto simp: createInstance_def split: prod.splits sum.splits option.splits go_error.splits)
  with d deploymentForGateway_none w1 show ?thesis by fastforce
qed

lemma instancesLoop_panic:
  "instancesLoop K E ips g k ds is w = (Some Panic, w') \<Longrightarrow>
     (\<exists>i \<in> set is. \<not> gwDeploymentIsPresent (gw_Name g) i ds) \<and> \<not> isServer g
     \<and> (\<forall>p \<in> set (SliceGatewayRemoteNodePorts (gw_Config g)). p \<in> snd ` set (o_portMap w))"
proof (induction "is")
  case (Cons i "is")
  show ?case
  proof (cases "gwDeploymentIsPresent (gw_Name g) i ds")
    case False
    with Cons.prems have "createInstance K E ips g k i w = (Panic, w')"
      by (auto split: prod.splits)
    from createInstance_panic [OF this] False show ?thesis by auto
  next
    case True
    with Cons show ?thesis
      by (auto split: prod.splits option.splits dest!: updateSidecars_none)
  qed
qed simp

lemma ReconcileGatewayDeployments_panic:
  assumes "ReconcileGatewayDeployments K E ips N g w = (Panic, w')"
  shows "\<not> isServer g
    \<and> (\<exists>i < numGwInstances N g. \<not> gwDeploymentIsPresent (gw_Name g) i (listedDeployments g w))
    \<and> (\<forall>p \<in> set (SliceGatewayRemoteNodePorts (gw_Config g)). p \<in> snd ` set (o_portMap w))"
proof -
  obtain x w1 where l: "GetDeployments K (gw_SliceName g) (gw_Name g) w = (x, w1)" by fastforce
  from assms l obtain ds where x: "x = Inr ds"
    by (cases x) (auto simp: ReconcileGatewayDeployments_def)
  with l have ds: "ds = listedDeployments g w" "w1 = tick w" by (auto dest: GetDeployments_listed)
  obtain y w2 where v: "GetVPNKeyRotation K E (gw_SliceName g) w1 = (y, w2)" by fastforce
  with ds have w2: "o_portMap w2 = o_portMap w" by (auto dest!: GetVPNKeyRotation_reads elim!: readsE)
  from assms l x v obtain rot where y: "y = Inr rot"
    by (cases y) (auto simp: ReconcileGatewayDeployments_def)
  obtain z w3 where i: "instancesLoop K E ips g (gwConfigKey_of rot) ds [0..<numGwInstances N g] w2
      = (z, w3)" by fastforce
  with assms l x v y have "z = Some Panic"
    by (auto simp: ReconcileGatewayDeployments_def split: option.splits prod.splits)
  with i instancesLoop_panic ds w2 show ?thesis by fastforce
qed

end

section \<open>Survival of what is not marked\<close>

lemma delete_all_keeps:
  "d \<in> set ds \<Longrightarrow> \<forall>x \<in> set del. \<not> same_key d_meta x d \<Longrightarrow> d \<in> set (delete_all del ds)"
  unfolding delete_all_def
  by (induction del arbitrary: ds) (auto simp: remove_object_def same_key_def)

lemma deployments_step_survives:
  assumes "deployments_step N g w w'" and "d \<in> set (w_deployments w)"
    and "\<forall>x \<in> set (markedDeployments g w). \<not> same_key d_meta x d"
  shows "\<exists>d' \<in> set (w_deployments w'). same_key d_meta d d'"
  using assms(1)
proof cases
  case (deleted del)
  with assms(2,3) delete_all_keeps [of d "w_deployments w" del] show ?thesis
    by (intro bexI [of _ d]) (auto simp: same_key_def)
next
  case (changed d1 d0)
  let ?f = "\<lambda>y. if keyed d_meta (om_Namespace (d_meta d1)) (d_Name d1) y then d1 else y"
  have "?f d \<in> set (w_deployments w')"
    using changed(1) assms(2) by (simp add: replace_object_def)
  moreover have "same_key d_meta d (?f d)" by (auto simp: same_key_def keyed_def)
  ultimately show ?thesis by blast
qed (use assms(2) in \<open>auto intro!: bexI [of _ d] simp: same_key_def\<close>)

section \<open>Convergence of a server gateway\<close>

text \<open>The instances that have no deployment.\<close>

definition missingInstances :: "nat \<Rightarrow> slice_gateway \<Rightarrow> world \<Rightarrow> nat list" where
  "missingInstances N g w =
     filter (\<lambda>i. \<not> gwDeploymentIsPresent (gw_Name g) i (listedDeployments g w)) [0..<numGwInstances N g]"

definition sidecars_current :: "environ \<Rightarrow> slice_gateway \<Rightarrow> world \<Rightarrow> bool" where
  "sidecars_current E g w \<longleftrightarrow>
     (\<forall>d \<in> set (listedDeployments g w). \<not> list_ex (staleSidecar E) (ps_Containers (d_PodSpec d)))"

text \<open>
  What a pass needs: the gateway lives in the operator's namespace, the key rotation and its
  secret are there, and no other deployment has the name of one that is to be created.
\<close>

definition ready_to_create :: "environ \<Rightarrow> slice_gateway \<Rightarrow> world \<Rightarrow> bool" where
  "ready_to_create E g w \<longleftrightarrow>
     gw_Namespace g = ControlPlaneNamespace \<and> isServer g
     \<and> (\<exists>v. find (keyed vk_meta (ProjectNamespace E) (gw_SliceName g)) (h_rotations w) = Some v
          \<and> (\<exists>s. find (keyed sec_meta (gw_Namespace g) (secretName g (RotationCount v))) (w_secrets w) = Some s))
     \<and> (\<forall>d \<in> set (w_deployments w). om_Namespace (d_meta d) = ControlPlaneNamespace \<longrightarrow>
          (\<exists>i. d_Name d = gwDeploymentName (gw_Name g) i ''0'') \<longrightarrow> d \<in> set (listedDeployments g w))"

lemma instancesLoop_first:
  "\<forall>j \<in> set as. gwDeploymentIsPresent (gw_Name g) j ds \<Longrightarrow>
   \<forall>d \<in> set ds. \<not> list_ex (staleSidecar E) (ps_Containers (d_PodSpec d)) \<Longrightarrow>
   \<not> gwDeploymentIsPresent (gw_Name g) i ds \<Longrightarrow>
   instancesLoop K E ips g k ds (as @ i # bs) w
     = (case createInstance K E ips g k i w of (r, w) \<Rightarrow> (Some r, w))"
proof (induction as)
  case (Cons a as)
  have "updateSidecars K E ds w = (None, w)"
    using Cons.prems(2) by (induction ds) auto
  with Cons show ?case by simp
qed simp

lemma server_deployment_listed:
  assumes "gw_Namespace g = ControlPlaneNamespace"
  shows "selects d_meta no_phase (in_namespace ControlPlaneNamespace (deploymentLabels g))
    (deploymentForGatewayServer E ips g n k)"
  using assms
  by (simp add: selects_def in_namespace_def deploymentForGatewayServer_def Let_def deploymentLabels_def
      label_key_defs)

lemma server_deployment_current:
  "\<not> list_ex (staleSidecar E) (ps_Containers (d_PodSpec (deploymentForGatewayServer E ips g n k)))"
  by (simp add: deploymentForGatewayServer_def Let_def sidecarContainer_def staleSidecar_def
      getServerVpnContainerSpec_def empty_container_def)

lemma pass_creates:
  assumes ready: "ready_to_create E g w" and cur: "sidecars_current E g w"
    and m: "missingInstances N g w = i # is"
  shows "\<exists>k n w'. ReconcileGatewayDeployments (ref_kube no_faults R) E ips N g w
      = (Ret (result_requeue, None, True), w')
    \<and> w' = w\<lparr>w_calls := n, w_deployments := w_deployments w
        @ [deploymentForGatewayServer E ips g (gwDeploymentName (gw_Name g) i ''0'') k]\<rparr>"
proof -
  let ?K = "ref_kube no_faults R" and ?ds = "listedDeployments g w"
  let ?name = "gwDeploymentName (gw_Name g) i ''0''"
  from ready obtain v s where v: "find (keyed vk_meta (ProjectNamespace E) (gw_SliceName g)) (h_rotations w) = Some v"
    and s: "find (keyed sec_meta (gw_Namespace g) (secretName g (RotationCount v))) (w_secrets w) = Some s"
    and g: "gw_Namespace g = ControlPlaneNamespace" "isServer g"
    and own: "\<forall>d \<in> set (w_deployments w). om_Namespace (d_meta d) = ControlPlaneNamespace \<longrightarrow>
          (\<exists>i. d_Name d = gwDeploymentName (gw_Name g) i ''0'') \<longrightarrow> d \<in> set ?ds"
    unfolding ready_to_create_def by blast
  let ?dep = "deploymentForGatewayServer E ips g ?name (RotationCount v)"
  from m obtain as bs where split: "[0..<numGwInstances N g] = as @ i # bs"
    and as: "\<forall>j \<in> set as. gwDeploymentIsPresent (gw_Name g) j ?ds"
    and i: "\<not> gwDeploymentIsPresent (gw_Name g) i ?ds"
    unfolding missingInstances_def by (auto simp: filter_eq_Cons_iff)
  have absent: "\<not> list_ex (same_key d_meta ?dep) (w_deployments w)"
  proof
    assume "list_ex (same_key d_meta ?dep) (w_deployments w)"
    then obtain d where d: "d \<in> set (w_deployments w)" "same_key d_meta ?dep d"
      by (auto simp: list_ex_iff)
    have meta: "d_Name ?dep = ?name" "om_Namespace (d_meta ?dep) = gw_Namespace g"
      by (simp_all add: deploymentForGatewayServer_def Let_def)
    with d(2) g have "d_Name d = ?name" "om_Namespace (d_meta d) = ControlPlaneNamespace"
      by (auto simp: same_key_def keyed_def)
    with own d have "d \<in> set ?ds" by blast
    with \<open>d_Name d = ?name\<close> i show False
      by (auto simp: gwDeploymentIsPresent_def list_ex_iff)
  qed
  have gd: "GetDeployments ?K (gw_SliceName g) (gw_Name g) w = (Inr ?ds, tick w)"
    by (simp add: GetDeployments_def ref_kube_def ref_ops_def no_faults_def listedDeployments_def
        deploymentLabels_def)
  have rot: "GetVPNKeyRotation ?K E (gw_SliceName g) (tick w) = (Inr (Some v), tick (tick w))"
    using v by (simp add: GetVPNKeyRotation_def ref_kube_def ref_ops_def no_faults_def)
  have sec: "r_get (k_secrets ?K) (gw_Namespace g) (secretName g (RotationCount v)) (tick (tick w))
      = (Inr s, tick (tick (tick w)))"
    using s by (simp add: ref_kube_def ref_ops_def no_faults_def)
  have dep: "deploymentForGateway E ips g ?name (RotationCount v) (tick (tick (tick w)))
      = (Some ?dep, tick (tick (tick w)))"
    using g(2) by (simp add: deploymentForGateway_def isServer_def)
  have cr: "r_create (k_deployments ?K) ?dep (tick (tick (tick w)))
      = (None, tick (w_deployments_update (\<lambda>xs. xs @ [?dep]) (tick (tick (tick w)))))"
    using absent by (simp add: ref_kube_def ref_ops_def no_faults_def)
  have "ReconcileGatewayDeployments ?K E ips N g w = (Ret (result_requeue, None, True),
      tick (w_deployments_update (\<lambda>xs. xs @ [?dep]) (tick (tick (tick w)))))"
    using cur
    by (simp add: ReconcileGatewayDeployments_def gd rot gwConfigKey_of_def split
        instancesLoop_first [OF as _ i] sidecars_current_def createInstance_def sec dep cr)
  moreover have "tick (w_deployments_update (\<lambda>xs. xs @ [?dep]) (tick (tick (tick w))))
      = w\<lparr>w_calls := w_calls w + 4, w_deployments := w_deployments w @ [?dep]\<rparr>"
    by (simp add: tick_def)
  ultimately show ?thesis by metis
qed

lemma present_snoc:
  assumes "d_Name d = gwDeploymentName n i ''0''"
  shows "gwDeploymentIsPresent n j (ds @ [d]) \<longleftrightarrow> gwDeploymentIsPresent n j ds \<or> j = i"
proof -
  have "d_Name d = gw_dep_name n i False" using assms by (simp add: gw_dep_name_def)
  then show ?thesis
    by (auto simp: gwDeploymentIsPresent_iff image_Un dest: gwDeploymentName_inj)
qed

definition deployment_pass :: "kube \<Rightarrow> environ \<Rightarrow> string list \<Rightarrow> nat \<Rightarrow> slice_gateway \<Rightarrow> world \<Rightarrow> world" where
  "deployment_pass K E ips N g w = snd (ReconcileGatewayDeployments K E ips N g w)"

lemma pass_keeps:
  assumes ready: "ready_to_create E g w" and cur: "sidecars_current E g w"
    and m: "missingInstances N g w = i # is"
    and w': "w' = deployment_pass (ref_kube no_faults R) E ips N g w"
  shows "ready_to_create E g w' \<and> sidecars_current E g w' \<and> missingInstances N g w' = is"
proof -
  from pass_creates [OF ready cur m, of R ips] obtain k n where
    w'_eq: "w' = w\<lparr>w_calls := n, w_deployments := w_deployments w
        @ [deploymentForGatewayServer E ips g (gwDeploymentName (gw_Name g) i ''0'') k]\<rparr>"
    using w' unfolding deployment_pass_def by fastforce
  let ?d = "deploymentForGatewayServer E ips g (gwDeploymentName (gw_Name g) i ''0'') k"
  have ns: "gw_Namespace g = ControlPlaneNamespace" using ready by (simp add: ready_to_create_def)
  have listed: "listedDeployments g w' = listedDeployments g w @ [?d]"
    using server_deployment_listed [OF ns] by (simp add: listedDeployments_def w'_eq)
  have name: "d_Name ?d = gwDeploymentName (gw_Name g) i ''0''"
    by (simp add: deploymentForGatewayServer_def Let_def)
  have "missingInstances N g w' = filter (\<lambda>j. j \<noteq> i) (missingInstances N g w)"
    unfolding missingInstances_def listed present_snoc [OF name] by (auto intro: filter_cong)
  moreover have "distinct (missingInstances N g w)" by (simp add: missingInstances_def)
  ultimately have "missingInstances N g w' = is" using m by (auto simp: filter_id_conv)
  moreover have "sidecars_current E g w'"
    using cur server_deployment_current [of E ips g "gwDeploymentName (gw_Name g) i ''0''" k]
    by (auto simp: sidecars_current_def listed)
  moreover have "ready_to_create E g w'"
    using ready listed by (auto simp: ready_to_create_def w'_eq)
  ultimately show ?thesis by blast
qed

lemma passes_create_all:
  "ready_to_create E g w \<Longrightarrow> sidecars_current E g w \<Longrightarrow> missingInstances N g w = ms \<Longrightarrow>
     missingInstances N g ((deployment_pass (ref_kube no_faults R) E ips N g ^^ length ms) w) = []"
proof (induction ms arbitrary: w)
  case (Cons i ms)
  let ?pass = "deployment_pass (ref_kube no_faults R) E ips N g"
  from pass_keeps [OF Cons.prems refl, of R ips]
  have "ready_to_create E g (?pass w)" "sidecars_current E g (?pass w)"
    "missingInstances N g (?pass w) = ms" by auto
  from Cons.IH [OF this] show ?case by (simp add: funpow_swap1)
qed simp

section \<open>What a pass does to the services\<close>

definition listedServices :: "slice_gateway \<Rightarrow> world \<Rightarrow> service list" where
  "listedServices g w =
     filter (selects s_meta no_phase (in_namespace ControlPlaneNamespace (gatewayServiceLabels g)))
       (w_services w)"

lemma createMissingService_none:
  "createMissingService K g svcs ds w = (None, w') \<Longrightarrow>
     w' = w \<and> (\<forall>d \<in> set ds. \<exists>s \<in> set svcs. s_Name s = ''svc-'' @ d_Name d)"
proof (induction ds)
  case (Cons d ds)
  show ?case
  proof (cases "getGwService svcs (''svc-'' @ d_Name d)")
    case None
    with Cons.prems show ?thesis by (auto split: prod.splits option.splits)
  next
    case (Some s)
    then have "s \<in> set svcs" "s_Name s = ''svc-'' @ d_Name d"
      by (auto simp: getGwService_def dest: find_Some_iff')
    with Cons Some show ?thesis by auto
  qed
qed simp

lemma staleServices_Nil:
  "staleServices svcs names = [] \<longleftrightarrow> s_Name ` set svcs \<subseteq> set names"
  by (auto simp: staleServices_def filter_empty_conv list_ex_iff)

definition hub_ports :: "environ \<Rightarrow> slice_gateway \<Rightarrow> int list \<Rightarrow> world \<Rightarrow> bool" where
  "hub_ports E g ports w \<longleftrightarrow>
     (\<exists>h. find (keyed hg_meta (ProjectNamespace E) (gw_Name g)) (h_slicegws w) = Some h
        \<and> ListEqual (hg_NodePorts h) ports)"

lemma hub_ports_reads: "reads w w' \<Longrightarrow> hub_ports E g ports w' = hub_ports E g ports w"
  by (auto simp: hub_ports_def elim!: readsE)

text \<open>The ports of all services of the gateway, in every namespace.\<close>

definition gatewayNodePorts :: "slice_gateway \<Rightarrow> world \<Rightarrow> int list go" where
  "gatewayNodePorts g w =
     first_node_ports (filter (selects s_meta no_phase (all_namespaces (gatewayServiceLabels g))) (w_services w))"

context lawful
begin

lemma createMissingService_some:
  "createMissingService K g svcs ds w = (Some r, w') \<Longrightarrow>
     snd (snd r) \<and> (w_services w' = w_services w
     \<or> (\<exists>d \<in> set ds. (\<forall>s \<in> set svcs. s_Name s \<noteq> ''svc-'' @ d_Name d)
          \<and> w_services w' = w_services w @ [serviceForGateway g (''svc-'' @ d_Name d) (d_Name d)]))"
proof (induction ds)
  case (Cons d ds)
  show ?case
  proof (cases "getGwService svcs (''svc-'' @ d_Name d)")
    case (Some s)
    with Cons show ?thesis by auto
  next
    case None
    then have no: "\<forall>s \<in> set svcs. s_Name s \<noteq> ''svc-'' @ d_Name d"
      by (auto simp: getGwService_def find_None_iff)
    obtain x w1 where c: "r_create (k_services K)
        (serviceForGateway g (''svc-'' @ d_Name d) (d_Name d)) w = (x, w1)" by fastforce
    with None Cons.prems have "w' = w1" "snd (snd r)"
      by (auto simp: handleSliceGwSvcCreation_def split: option.splits)
    with c no show ?thesis
      by (cases x) (auto dest!: svc.create_ok svc.create_err)
  qed
qed simp

lemma handleSliceGwSvcDeletion_services:
  assumes "handleSliceGwSvcDeletion K g n w = (r, w')"
  shows "w_services w' = w_services w
    \<or> w_services w' = remove_object s_meta (gw_Namespace g) n (w_services w)"
proof -
  have "w_services w2 = w_services w1 \<or> w_services w2 = remove_object s_meta (gw_Namespace g) n (w_services w1)"
    if "r_delete (k_services K) (gw_Namespace g) n w1 = (x, w2)" for w1 x w2
    using that by (cases x) (auto dest!: svc.delete_ok svc.delete_err)
  with assms show ?thesis
    by (fastforce simp: handleSliceGwSvcDeletion_def split: prod.splits sum.splits go_error.splits
        dest!: svc.get_world)
qed

lemma deleteServices_keeps:
  "deleteServices K g ns w = (r, w') \<Longrightarrow> s \<in> set (w_services w) \<Longrightarrow> s_Name s \<notin> set ns \<Longrightarrow>
     s \<in> set (w_services w')"
proof (induction ns arbitrary: w)
  case (Cons n ns)
  obtain x w1 where d: "handleSliceGwSvcDeletion K g n w = (x, w1)" by fastforce
  from handleSliceGwSvcDeletion_services [OF d] Cons.prems(2,3) have "s \<in> set (w_services w1)"
    by (auto simp: remove_object_def keyed_def)
  with Cons d show ?case by (auto split: option.splits)
qed simp

lemma getGatewayServices_listed:
  "getGatewayServices K g w = (Inr svcs, w') \<Longrightarrow> svcs = listedServices g w \<and> w' = tick w"
  by (auto simp: getGatewayServices_def listedServices_def dest!: svc.list_ok)

lemma getGatewayServices_reads: "getGatewayServices K g w = (r, w') \<Longrightarrow> reads w w'"
  by (auto simp: getGatewayServices_def dest: svc.list_world)

lemma hgw_update_services:
  "r_update (k_hubgws K) h w = (r, w') \<Longrightarrow> w_services w' = w_services w"
  by (cases r) (auto dest!: hgw.update_ok hgw.update_err)

lemma LookupHost_reads: "k_LookupHost K h w = (r, w') \<Longrightarrow> reads w w'"
  using LookupHost_world [of h w] by auto

lemma ingressIPs_reads: "ingressIPs K is w = (r, w') \<Longrightarrow> reads w w'"
proof (induction "is" arbitrary: w r w')
  case (Cons a "is")
  obtain ip hostname where a: "a = (ip, hostname)" by fastforce
  obtain x w1 where l: "k_LookupHost K hostname w = (x, w1)" by fastforce
  note w1 = LookupHost_reads [OF l]
  obtain y w2 where i: "ingressIPs K is w = (y, w2)" by fastforce
  obtain z w3 where i1: "ingressIPs K is w1 = (z, w3)" by fastforce
  note r = Cons.IH [OF i] reads_trans [OF w1 Cons.IH [OF i1]]
  show ?case
    using Cons.prems l i i1 r w1 unfolding a by (auto split: if_splits sum.splits)
qed simp

lemma GetSliceGatewayEdgeServices_reads:
  "GetSliceGatewayEdgeServices K s w = (r, w') \<Longrightarrow> reads w w'"
  by (auto simp: GetSliceGatewayEdgeServices_def dest: svc.list_world)

lemma UpdateNodePort_ok:
  assumes "UpdateNodePortForSliceGwServer K E ports (gw_Name g) w = (None, w')"
  shows "hub_ports E g ports w' \<and> w_services w' = w_services w"
proof -
  from assms obtain h w1 where get: "r_get (k_hubgws K) (ProjectNamespace E) (gw_Name g) w = (Inr h, w1)"
    by (auto simp: UpdateNodePortForSliceGwServer_def split: prod.splits sum.splits)
  from hgw.get_ok [OF get] have w1: "w1 = tick w"
    and h: "find (keyed hg_meta (ProjectNamespace E) (gw_Name g)) (h_slicegws w) = Some h" by auto
  show ?thesis
  proof (cases "ListEqual (hg_NodePorts h) ports")
    case True
    with assms get w1 h show ?thesis
      by (auto simp: UpdateNodePortForSliceGwServer_def hub_ports_def)
  next
    case False
    with assms get have u: "r_update (k_hubgws K) (h\<lparr>hg_NodePorts := ports\<rparr>) w1 = (None, w')"
      by (simp add: UpdateNodePortForSliceGwServer_def)
    from hgw.update_ok [OF this] w1
    have "h_slicegws w' = replace_object hg_meta (h\<lparr>hg_NodePorts := ports\<rparr>) (h_slicegws w)" by simp
    with find_replace [OF h, of "h\<lparr>hg_NodePorts := ports\<rparr>"]
    have "find (keyed hg_meta (ProjectNamespace E) (gw_Name g)) (h_slicegws w')
        = Some (h\<lparr>hg_NodePorts := ports\<rparr>)" by simp
    moreover have "w_services w' = w_services w"
      using hgw_update_services [OF u] w1 by simp
    ultimately show ?thesis by (auto simp: hub_ports_def ListEqual_iff)
  qed
qed

lemma UpdateLBIPs_keeps:
  assumes "UpdateLBIPsForSliceGwServer K E ips (gw_Name g) w = (r, w')" and "hub_ports E g ports w"
  shows "hub_ports E g ports w' \<and> w_services w' = w_services w"
proof -
  obtain x w1 where get: "r_get (k_hubgws K) (ProjectNamespace E) (gw_Name g) w = (x, w1)" by fastforce
  note w1 = hgw.get_world [OF get]
  show ?thesis
  proof (cases x)
    case (Inl e)
    with assms get w1 show ?thesis by (auto simp: UpdateLBIPsForSliceGwServer_def hub_ports_def)
  next
    case (Inr h)
    with get have h: "find (keyed hg_meta (ProjectNamespace E) (gw_Name g)) (h_slicegws w) = Some h"
      by (auto dest: hgw.get_ok)
    with assms(2) have eq: "ListEqual (hg_NodePorts h) ports" by (simp add: hub_ports_def)
    have f: "find (keyed hg_meta (ProjectNamespace E) (gw_Name g))
        (replace_object hg_meta (h\<lparr>hg_LoadBalancerIps := ips\<rparr>) (h_slicegws w))
        = Some (h\<lparr>hg_LoadBalancerIps := ips\<rparr>)"
      by (rule find_replace [OF h]) simp
    show ?thesis
    proof (cases "lbUpdateNeeded (hg_LoadBalancerIps h) ips")
      case False
      with assms get Inr w1 show ?thesis by (auto simp: UpdateLBIPsForSliceGwServer_def hub_ports_def)
    next
      case True
      with assms get Inr have u: "r_update (k_hubgws K) (h\<lparr>hg_LoadBalancerIps := ips\<rparr>) w1 = (r, w')"
        by (simp add: UpdateLBIPsForSliceGwServer_def)
      then have "h_slicegws w' = h_slicegws w
          \<or> h_slicegws w' = replace_object hg_meta (h\<lparr>hg_LoadBalancerIps := ips\<rparr>) (h_slicegws w)"
        using w1 by (cases r) (auto dest!: hgw.update_ok hgw.update_err)
      with f eq assms(2) hgw_update_services [OF u] w1 show ?thesis by (auto simp: hub_ports_def)
    qed
  qed
qed

lemma updateLBIPs_keeps:
  assumes "updateLBIPs K E g w = (r, w')" and "hub_ports E g ports w"
  shows "hub_ports E g ports w' \<and> w_services w' = w_services w"
proof (cases "SliceGatewayConnectivityType (gw_Config g) = ''LoadBalancer''")
  case False
  with assms show ?thesis by (simp add: updateLBIPs_def)
next
  case True
  obtain x w1 where e: "GetSliceGatewayEdgeServices K (gw_SliceName g) w = (x, w1)" by fastforce
  note w1 = GetSliceGatewayEdgeServices_reads [OF e]
  show ?thesis
  proof (cases x)
    case (Inl err)
    with assms True e w1 show ?thesis by (auto simp: updateLBIPs_def hub_ports_reads elim: readsE)
  next
    case (Inr svcs)
    obtain y w2 where i: "ingressIPs K (concat (map s_Ingress svcs)) w1 = (y, w2)" by fastforce
    note w2 = reads_trans [OF w1 ingressIPs_reads [OF i]]
    show ?thesis
    proof (cases y)
      case (Inl err)
      with assms True e Inr i w2 show ?thesis by (auto simp: updateLBIPs_def hub_ports_reads elim: readsE)
    next
      case y: (Inr ips)
      obtain z w3 where u: "UpdateLBIPsForSliceGwServer K E ips (gw_Name g) w2 = (z, w3)" by fastforce
      from assms True e Inr i y u have "w' = w3" by (auto simp: updateLBIPs_def split: option.splits)
      with UpdateLBIPs_keeps [OF u] w2 assms(2) show ?thesis
        by (auto simp: hub_ports_reads reads_sel)
    qed
  qed
qed

lemma getNodePorts_ok:
  "getNodePorts K g w = (Ret (Inr ps), w') \<Longrightarrow> gatewayNodePorts g w = Ret ps \<and> w' = tick w"
  by (auto simp: getNodePorts_def gatewayNodePorts_def split: prod.splits sum.splits go.splits
      dest!: svc.list_ok)

lemma UpdateNodePort_services:
  "UpdateNodePortForSliceGwServer K E ports n w = (r, w') \<Longrightarrow> w_services w' = w_services w"
  by (auto simp: UpdateNodePortForSliceGwServer_def split: prod.splits sum.splits if_splits
      dest!: hgw.get_world hgw_update_services)

lemma updateLBIPs_services:
  "updateLBIPs K E g w = (r, w') \<Longrightarrow> w_services w' = w_services w"
  by (auto simp: updateLBIPs_def UpdateLBIPsForSliceGwServer_def
      split: prod.splits sum.splits if_splits option.splits elim!: readsE
      dest!: GetSliceGatewayEdgeServices_reads ingressIPs_reads hgw.get_world hgw_update_services)

lemma publishNodePorts_services:
  assumes "publishNodePorts K E g w = (r, w')"
  shows "w_services w' = w_services w"
proof -
  have n: "w_services w2 = w_services w1" if "getNodePorts K g w1 = (x, w2)" for x w1 w2
    using that by (auto simp: getNodePorts_def split: prod.splits sum.splits go.splits
        dest!: svc.list_world)
  show ?thesis
    using assms
    by (auto simp: publishNodePorts_def split: prod.splits sum.splits go.splits option.splits
        dest!: n UpdateNodePort_services updateLBIPs_services)
qed

lemma publishNodePorts_settled:
  assumes "publishNodePorts K E g w = (Ret (res, None, False), w')"
  shows "\<exists>ps. gatewayNodePorts g w = Ret ps \<and> hub_ports E g ps w' \<and> w_services w' = w_services w"
proof -
  from assms obtain ps w1 where p: "getNodePorts K g w = (Ret (Inr ps), w1)"
    by (auto simp: publishNodePorts_def split: prod.splits go.splits sum.splits)
  from assms p obtain w2 where u: "UpdateNodePortForSliceGwServer K E ps (gw_Name g) w1 = (None, w2)"
    by (auto simp: publishNodePorts_def split: prod.splits option.splits)
  from assms p u have l: "updateLBIPs K E g w2 = ((res, None, False), w')"
    by (auto simp: publishNodePorts_def split: prod.splits)
  from UpdateNodePort_ok [OF u] updateLBIPs_keeps [OF l] getNodePorts_ok [OF p] show ?thesis by auto
qed

lemma ReconcileGatewayServices_settled:
  assumes "ReconcileGatewayServices K E g w = (Ret (res, None, False), w')"
  shows "s_Name ` set (listedServices g w) = (\<lambda>d. ''svc-'' @ d_Name d) ` set (listedDeployments g w)
    \<and> w_services w' = w_services w
    \<and> (\<exists>ps. gatewayNodePorts g w = Ret ps \<and> hub_ports E g ps w')"
proof -
  from assms obtain svcs w1 where s: "getGatewayServices K g w = (Inr svcs, w1)"
    by (auto simp: ReconcileGatewayServices_def split: prod.splits sum.splits)
  note s' = getGatewayServices_listed [OF s]
  from assms s obtain ds w2 where d: "GetDeployments K (gw_SliceName g) (gw_Name g) w1 = (Inr ds, w2)"
    by (auto simp: ReconcileGatewayServices_def split: prod.splits sum.splits)
  note d' = GetDeployments_listed [OF d]
  obtain x w3 where c: "createMissingService K g svcs ds w2 = (x, w3)" by fastforce
  have x: "x = None"
  proof (cases x)
    case (Some r)
    with assms s d c have "r = (res, None, False)" by (simp add: ReconcileGatewayServices_def)
    with createMissingService_some [OF c [unfolded Some]] show ?thesis by simp
  qed
  from createMissingService_none [OF c [unfolded x]] have w3: "w3 = w2"
    and has: "\<forall>d \<in> set ds. \<exists>s \<in> set svcs. s_Name s = ''svc-'' @ d_Name d" by auto
  let ?names = "map (\<lambda>d. ''svc-'' @ d_Name d) ds"
  have stale: "staleServices svcs ?names = []"
  proof (rule ccontr)
    assume "staleServices svcs ?names \<noteq> []"
    with assms s d c x w3 show False
      by (auto simp: ReconcileGatewayServices_def Let_def split: prod.splits option.splits)
  qed
  with assms s d c x w3 have "publishNodePorts K E g w2 = (Ret (res, None, False), w')"
    by (simp add: ReconcileGatewayServices_def Let_def)
  from publishNodePorts_settled [OF this] s' d' have
    "\<exists>ps. gatewayNodePorts g w = Ret ps \<and> hub_ports E g ps w' \<and> w_services w' = w_services w"
    by (auto simp: gatewayNodePorts_def)
  moreover have "s_Name ` set svcs = (\<lambda>d. ''svc-'' @ d_Name d) ` set ds"
    using stale has by (force simp: staleServices_Nil image_iff)
  moreover have "listedDeployments g w1 = listedDeployments g w" using s' by (simp add: listedDeployments_def)
  ultimately show ?thesis using s' d' by auto
qed

lemma ReconcileGatewayServices_keeps:
  assumes "ReconcileGatewayServices K E g w = (r, w')" and "s \<in> set (w_services w)"
    and "\<exists>d \<in> set (listedDeployments g w). s_Name s = ''svc-'' @ d_Name d"
  shows "\<exists>s' \<in> set (w_services w'). s_Name s' = s_Name s"
proof -
  let ?goal = "\<exists>s' \<in> set (w_services w'). s_Name s' = s_Name s"
  have keep: ?goal if "w_services w' = w_services w1" "s \<in> set (w_services w1)" for w1
    using that by auto
  obtain x w1 where g1: "getGatewayServices K g w = (x, w1)" by fastforce
  then have w1: "w_services w1 = w_services w" "w_deployments w1 = w_deployments w"
    by (auto dest!: getGatewayServices_reads elim!: readsE)
  show ?thesis
  proof (cases x)
    case (Inl e)
    with assms(1) g1 have "w' = w1" by (simp add: ReconcileGatewayServices_def)
    with w1 assms(2) show ?thesis by (intro keep [of w1]) simp_all
  next
    case (Inr svcs)
    obtain y w2 where g2: "GetDeployments K (gw_SliceName g) (gw_Name g) w1 = (y, w2)" by fastforce
    then have w2: "w_services w2 = w_services w" using w1
      by (auto dest!: GetDeployments_reads elim!: readsE)
    show ?thesis
    proof (cases y)
      case (Inl e)
      with assms(1) g1 Inr g2 have "w' = w2" by (simp add: ReconcileGatewayServices_def)
      with w2 assms(2) show ?thesis by (intro keep [of w2]) simp_all
    next
      case y: (Inr ds)
      with g2 w1 have ds: "ds = listedDeployments g w"
        by (auto dest!: GetDeployments_listed simp: listedDeployments_def)
      obtain c w3 where c: "createMissingService K g svcs ds w2 = (c, w3)" by fastforce
      show ?thesis
      proof (cases c)
        case (Some r1)
        with assms(1) g1 Inr g2 y c have "w' = w3" by (simp add: ReconcileGatewayServices_def)
        with createMissingService_some [OF c [unfolded Some]] w2 assms(2) show ?thesis by auto
      next
        case None
        with c have w3: "w3 = w2" by (auto dest: createMissingService_none)
        let ?stale = "staleServices svcs (map (\<lambda>d. ''svc-'' @ d_Name d) ds)"
        show ?thesis
        proof (cases "?stale = []")
          case True
          with assms(1) g1 Inr g2 y c None w3 have "publishNodePorts K E g w2 = (r, w')"
            by (simp add: ReconcileGatewayServices_def Let_def)
          from publishNodePorts_services [OF this] w2 assms(2) show ?thesis
            by (intro keep [of w2]) simp_all
        next
          case False
          obtain e w4 where d: "deleteServices K g ?stale w2 = (e, w4)" by fastforce
          with assms(1) g1 Inr g2 y c None w3 False have "w' = w4"
            by (auto simp: ReconcileGatewayServices_def Let_def split: option.splits)
          moreover have "s_Name s \<notin> set ?stale"
            using assms(3) ds by (auto simp: staleServices_def list_ex_iff)
          ultimately show ?thesis using deleteServices_keeps [OF d] w2 assms(2) by auto
        qed
      qed
    qed
  qed
qed

end

section \<open>What reconciling deployments and services keeps\<close>

text \<open>
  C3: one pass over the deployments does one of four things: it leaves them as they are, it
  creates the deployment of the first instance that has none, it changes the contents of one
  listed deployment, or it deletes deployments that are marked for deletion.
\<close>

theorem reconcile_deployments_step:
  assumes "lawful K" and "ReconcileGatewayDeployments K E ips N g w = (r, w')"
  shows "deployments_step N g w w'"
  by (rule lawful.ReconcileGatewayDeployments_step [OF assms])

text \<open>
  C8: no deployment disappears that is not marked for deletion, of this gateway or of another:
  after a pass there is still a deployment with its namespace and name.
\<close>

theorem unmarked_deployment_survives:
  assumes "lawful K" and "ReconcileGatewayDeployments K E ips N g w = (r, w')"
    and "d \<in> set (w_deployments w)"
    and "\<forall>x \<in> set (markedDeployments g w). \<not> same_key d_meta x d"
  shows "\<exists>d' \<in> set (w_deployments w'). same_key d_meta d d'"
  using lawful.ReconcileGatewayDeployments_step [OF assms(1,2)] assms(3,4)
  by (rule deployments_step_survives)


text \<open>
  a pass panics only for a gateway that is not a server, that lacks the deployment of an
  instance, and all of whose remote node ports are in the process-wide map already, be it for
  deployments of other gateways: the nil deployment is dereferenced.
\<close>

theorem reconcile_deployments_panic:
  assumes "lawful K" and "ReconcileGatewayDeployments K E ips N g w = (Panic, w')"
  shows "\<not> isServer g
    \<and> (\<exists>i < numGwInstances N g. \<not> gwDeploymentIsPresent (gw_Name g) i (listedDeployments g w))
    \<and> (\<forall>p \<in> set (SliceGatewayRemoteNodePorts (gw_Config g)). p \<in> snd ` set (o_portMap w))"
  by (rule lawful.ReconcileGatewayDeployments_panic [OF assms])


text \<open>no pass deletes the service of a deployment that is listed.\<close>

theorem service_of_deployment_survives:
  assumes "lawful K" and "ReconcileGatewayServices K E g w = (r, w')" and "s \<in> set (w_services w)"
    and "\<exists>d \<in> set (listedDeployments g w). s_Name s = ''svc-'' @ d_Name d"
  shows "\<exists>s' \<in> set (w_services w'). s_Name s' = s_Name s"
  by (rule lawful.ReconcileGatewayServices_keeps [OF assms])

section \<open>Reconciling on the reference server\<close>

definition ex_rotation :: vpn_key_rotation where
  "ex_rotation =
     \<lparr>vk_meta = new_meta '''' ''red'' [], RotationCount = 1, CertificateCreationTime = Some 1000,
      ClusterGatewayMapping = [(''a'', [''red-a-b''])], CurrentRotationState = [], StatusHistory = []\<rparr>"

definition ex_secret :: "string \<Rightarrow> secret" where
  "ex_secret n = \<lparr>sec_meta = new_meta ''kubeslice-system'' n [], sec_Data = []\<rparr>"

definition ex_server :: slice_gateway where
  "ex_server = ex_gateway ''red-a-b'' ''Server''"

definition ex_client :: slice_gateway where
  "ex_client = ex_gateway ''red-b-a'' ''Client''"

definition ex_ready :: world where
  "ex_ready = empty_world\<lparr>h_rotations := [ex_rotation],
     w_secrets := [ex_secret ''red-a-b-1'', ex_secret ''red-b-a-1'']\<rparr>"

lemma ex_ready_to_create: "ready_to_create Map.empty ex_server ex_ready"
proof -
  have "keyed vk_meta '''' ''red'' ex_rotation" "keyed sec_meta ''kubeslice-system'' ''red-a-b-1'' (ex_secret ''red-a-b-1'')"
    "gw_Namespace ex_server = ControlPlaneNamespace" "isServer ex_server"
    "gw_SliceName ex_server = ''red''" "ProjectNamespace Map.empty = ''''"
    "secretName ex_server 1 = ''red-a-b-1''" "RotationCount ex_rotation = 1"
    by code_simp+
  then show ?thesis
    by (simp add: ready_to_create_def ex_ready_def empty_world_def ControlPlaneNamespace_def)
qed

lemma ex_sidecars: "sidecars_current Map.empty ex_server ex_ready"
  by (simp add: sidecars_current_def listedDeployments_def ex_ready_def empty_world_def)

lemma ex_missing: "missingInstances 2 ex_server ex_ready = [0, 1]"
  by code_simp

theorem reconcile_deployments_step_witness:
  "deployments_step 2 ex_server ex_ready (deployment_pass ex_kube Map.empty [] 2 ex_server ex_ready)"
  unfolding deployment_pass_def
  by (rule reconcile_deployments_step [OF ex_kube_lawful prod.collapse [symmetric]])


definition ex_one :: world where
  "ex_one = deployment_pass ex_kube Map.empty [] 2 ex_server ex_ready"

lemma ex_one_deployments:
  "w_deployments ex_one = [deploymentForGatewayServer Map.empty [] ex_server ''red-a-b-0-0'' 1]"
  by code_simp

lemma ex_one_unmarked: "markedDeployments ex_server ex_one = []"
  by code_simp

theorem unmarked_deployment_survives_witness:
  "\<exists>d' \<in> set (w_deployments (deployment_pass ex_kube Map.empty [] 2 ex_server ex_one)).
     same_key d_meta (deploymentForGatewayServer Map.empty [] ex_server ''red-a-b-0-0'' 1) d'"
  unfolding deployment_pass_def
  by (rule unmarked_deployment_survives [OF ex_kube_lawful prod.collapse [symmetric]])
    (simp_all add: ex_one_deployments ex_one_unmarked)

text \<open>Two deployments of other gateways use the port numbers of the client gateway.\<close>

definition ex_ports_taken :: world where
  "ex_ports_taken = ex_ready\<lparr>o_portMap := [(''blue-b-a-0-0'', 30001), (''blue-b-a-1-0'', 30002)]\<rparr>"

lemma ex_panics:
  "ReconcileGatewayDeployments ex_kube Map.empty [] 2 ex_client ex_ports_taken
     = (Panic, deployment_pass ex_kube Map.empty [] 2 ex_client ex_ports_taken)"
proof -
  have "(case fst (ReconcileGatewayDeployments ex_kube Map.empty [] 2 ex_client ex_ports_taken) of
      Panic \<Rightarrow> True | Ret _ \<Rightarrow> False)" by code_simp
  then have "fst (ReconcileGatewayDeployments ex_kube Map.empty [] 2 ex_client ex_ports_taken) = Panic"
    by (simp split: go.splits)
  then show ?thesis unfolding deployment_pass_def by (metis prod.collapse)
qed

theorem reconcile_deployments_panic_witness:
  "\<not> isServer ex_client
    \<and> set (SliceGatewayRemoteNodePorts (gw_Config ex_client)) \<subseteq> snd ` set (o_portMap ex_ports_taken)"
  using reconcile_deployments_panic [OF ex_kube_lawful ex_panics] by blast

definition ex_served :: world where
  "ex_served = ex_one\<lparr>
     w_services := [(serviceForGateway ex_server ''svc-red-a-b-0-0'' ''red-a-b-0-0'')
       \<lparr>s_Ports := [\<lparr>sp_Name = '''', sp_Port = 11194, sp_Protocol = ''UDP'', sp_TargetPort = 11194, sp_NodePort = 31000\<rparr>]\<rparr>],
     h_slicegws := [new_hub_slice_gateway (new_meta '''' ''red-a-b'' [])]\<rparr>"

lemma ex_served_settled:
  "fst (ReconcileGatewayServices ex_kube Map.empty ex_server ex_served)
     = Ret (result_none, None, False)"
  by code_simp


definition ex_service :: service where
  "ex_service = hd (w_services ex_served)"

lemma ex_service_of:
  "ex_service \<in> set (w_services ex_served)"
  "\<exists>d \<in> set (listedDeployments ex_server ex_served). s_Name ex_service = ''svc-'' @ d_Name d"
  by (simp add: ex_service_def ex_served_def, code_simp)

theorem service_of_deployment_survives_witness:
  "\<exists>s' \<in> set (w_services (snd (ReconcileGatewayServices ex_kube Map.empty ex_server ex_served))).
     s_Name s' = s_Name ex_service"
  by (rule service_of_deployment_survives [OF ex_kube_lawful prod.collapse [symmetric] ex_service_of])

section \<open>A restart\<close>

definition ex_restart_client :: slice_gateway where
  "ex_restart_client = ex_client\<lparr>gw_Config := (gw_Config ex_client)
     \<lparr>SliceGatewayRemoteNodePorts := [1, 2]\<rparr>\<rparr>"

abbreviation client_pass :: "world \<Rightarrow> world" where
  "client_pass \<equiv> deployment_pass ex_kube Map.empty [] 2 ex_restart_client"

text \<open>The operator has created the first deployment and is restarted: its map is empty again.\<close>

definition ex_restarted :: world where
  "ex_restarted = (client_pass ex_ready)\<lparr>o_portMap := []\<rparr>"

text \<open>
  the port numbers of the client deployments are not unique across a restart. Without a
  restart the two deployments of a client gateway get the two remote ports; with a restart
  between the two passes that create them, both get the first one.
\<close>

theorem restart_shares_port:
  "o_portMap (client_pass (client_pass (client_pass ex_ready)))
     = [(''red-b-a-0-0'', 1), (''red-b-a-1-0'', 2)]
   \<and> o_portMap (client_pass (client_pass ex_restarted))
     = [(''red-b-a-1-0'', 1), (''red-b-a-0-0'', 1)]"
proof
  show "o_portMap (client_pass (client_pass (client_pass ex_ready)))
     = [(''red-b-a-0-0'', 1), (''red-b-a-1-0'', 2)]" by code_simp
  show "o_portMap (client_pass (client_pass ex_restarted))
     = [(''red-b-a-1-0'', 1), (''red-b-a-0-0'', 1)]" by code_simp
qed

end
