(* ===== verification/GatewayTraffic.thy ===== *)
theory GatewayTraffic
  imports GatewayReconcile
begin

text \<open>
  The steps of the slice gateway controller around the pods of a gateway: the service and
  endpoints through which a client reaches the remote nodes, the status of the gateway pods,
  the connection contexts sent to gateways, slice router and netop pods, the rebalancing of
  pods over nodes, the deletion of a gateway, and the whole \<open>Reconcile\<close>.
\<close>

section \<open>Headless service and endpoints of the remote gateway\<close>

definition reconcileGatewayHeadlessService :: "kube \<Rightarrow> slice_gateway \<Rightarrow> world
    \<Rightarrow> go_error option \<times> world" where
  "reconcileGatewayHeadlessService K g w =
     (case r_get (k_services K) (gw_Namespace g) (SliceGatewayRemoteGatewayID (gw_Config g)) w of
        (Inr svc, w) \<Rightarrow> (None, w)
      | (Inl NotFound, w) \<Rightarrow> r_create (k_services K) (createHeadlessServiceForGwServer g) w
      | (Inl e, w) \<Rightarrow> (Some e, w))"

fun deletePods :: "kube \<Rightarrow> pod list \<Rightarrow> world \<Rightarrow> go_error option \<times> world" where
  "deletePods K [] w = (None, w)"
| "deletePods K (p # ps) w =
     (case r_delete (k_pods K) (om_Namespace (p_meta p)) (p_Name p) w of
        (Some e, w) \<Rightarrow> (Some e, w)
      | (None, w) \<Rightarrow> deletePods K ps w)"

definition restartGatewayPods :: "kube \<Rightarrow> string \<Rightarrow> world \<Rightarrow> go_error option \<times> world" where
  "restartGatewayPods K sliceGWName w =
     (case r_list (k_pods K)
         (all_namespaces [(''kubeslice.io/pod-type'', ''slicegateway''),
                          (''kubeslice.io/slice-gw'', sliceGWName)]) w of
        (Inl e, w) \<Rightarrow> (Some e, w)
      | (Inr pods, w) \<Rightarrow> deletePods K pods w)"

text \<open>
  The requeue flag, the result and the error. When the restart of the pods fails, the error
  that is returned is the one of the update before it, which is nil.
\<close>

definition updateGatewayEndpoint :: "kube \<Rightarrow> slice_gateway \<Rightarrow> endpoints \<Rightarrow> string list
    \<Rightarrow> string list \<Rightarrow> world \<Rightarrow> (bool \<times> ctrl_result \<times> go_error option) \<times> world" where
  "updateGatewayEndpoint K g endpointFound current endpointIPs w =
     (case r_update (k_endpoints K)
         (endpointFound\<lparr>e_Subsets := (e_Subsets endpointFound)[0 := getAddrSlice endpointIPs]\<rparr>) w of
        (Some e, w) \<Rightarrow> ((True, result_none, Some e), w)
      | (None, w) \<Rightarrow>
         (if checkEndpointSubset current endpointIPs False then
            (case restartGatewayPods K (gw_Name g) w of
               (Some _, w) \<Rightarrow> ((True, result_none, None), w)
             | (None, w) \<Rightarrow> ((True, result_requeue, None), w))
          else ((False, result_none, None), w)))"

definition reconcileGatewayEndpoint :: "kube \<Rightarrow> environ \<Rightarrow> slice_gateway \<Rightarrow> world
    \<Rightarrow> (bool \<times> ctrl_result \<times> go_error option) go \<times> world" where
  "reconcileGatewayEndpoint K E g w =
     (case r_get (k_endpoints K) (gw_Namespace g) (SliceGatewayRemoteGatewayID (gw_Config g)) w of
        (Inl NotFound, w) \<Rightarrow>
         (case r_create (k_endpoints K) (createEndpointForGatewayServer E g) w of
            (Some e, w) \<Rightarrow> (Ret (True, result_none, Some e), w)
          | (None, w) \<Rightarrow> (Ret (True, result_requeue, None), w))
      | (Inl e, w) \<Rightarrow> (Ret (True, result_none, Some e), w)
      | (Inr endpointFound, w) \<Rightarrow>
         (case e_Subsets endpointFound of
            [] \<Rightarrow> (Panic, w)
          | current # _ \<Rightarrow>
             (if \<not> checkEndpointSubset current (gatewayEndpointIPs E g) True then
                (if current = [] then (Panic, w)
                 else (case updateGatewayEndpoint K g endpointFound current
                           (gatewayEndpointIPs E g) w of (r, w) \<Rightarrow> (Ret r, w)))
              else (Ret (False, result_none, None), w))))"

section \<open>Status of the gateway pods\<close>

definition zero_tunnel :: tunnel_status where
  "zero_tunnel =
     \<lparr>IntfName = '''', LocalIP = '''', RemoteIP = '''', Latency = 0, TxRate = 0, RxRate = 0,
      PacketLoss = 0, ts_Status = 0, TunnelState = ''''\<rparr>"

definition gwPodInfo_of :: "slice_gateway \<Rightarrow> pod \<Rightarrow> gw_pod_info" where
  "gwPodInfo_of g p =
     \<lparr>PodName = p_Name p,
      PodCreationTS = Some (om_CreationTimestamp (p_meta p)),
      OriginalPodCreationTS =
        (case findGwPodInfo (gw_GatewayPodStatus g) (p_Name p) of
           Some existingPodInfo \<Rightarrow> OriginalPodCreationTS existingPodInfo
         | None \<Rightarrow> Some (om_CreationTimestamp (p_meta p))),
      PeerPodName = '''', PodIP = p_PodIP p, LocalNsmIP = '''', TunnelStatus = zero_tunnel,
      RouteRemoved = 0, RemotePort = 0\<rparr>"

definition GetGwPodInfo :: "kube \<Rightarrow> slice_gateway \<Rightarrow> world
    \<Rightarrow> (go_error + gw_pod_info list) \<times> world" where
  "GetGwPodInfo K g w =
     (case r_list (k_pods K) (in_namespace (gw_Namespace g) (labelsForSliceGwStatus (gw_Name g))) w of
        (Inl e, w) \<Rightarrow> (Inl e, w)
      | (Inr pods, w) \<Rightarrow>
          (Inr (map (gwPodInfo_of g)
             (filter (\<lambda>p. p_Phase p = ''Running'' \<and> om_DeletionTimestamp (p_meta p) = None) pods)),
           w))"

definition sidecarAddress :: "string \<Rightarrow> string" where
  "sidecarAddress podIP = podIP @ '':5000''"

definition getRemoteGwPodName :: "kube \<Rightarrow> string \<Rightarrow> string \<Rightarrow> world \<Rightarrow> (go_error + string) \<times> world" where
  "getRemoteGwPodName K gwRemoteVpnIP podIP w =
     k_GetSliceGwRemotePodName K gwRemoteVpnIP (sidecarAddress podIP) w"

text \<open>One pod of the loop: what its sidecar reports; an error of \<open>GetStatus\<close> ends the loop.\<close>

definition refreshGwPod :: "kube \<Rightarrow> slice_gateway \<Rightarrow> gw_pod_info \<Rightarrow> world
    \<Rightarrow> (go_error + gw_pod_info) \<times> world" where
  "refreshGwPod K g gwPod w =
     (case k_GetStatus K (sidecarAddress (PodIP gwPod)) w of
        (Inl e, w) \<Rightarrow> (Inl e, w)
      | (Inr status, w) \<Rightarrow>
         (case (if isClient g then
                  (case getClientGwRemotePortInUse K g
                      (GetDepNameFromPodName (SliceGatewayID (gw_Config g)) (PodName gwPod)) w of
                     ((_, port), w) \<Rightarrow> (to_int32 port, w))
                else (RemotePort gwPod, w)) of
            (remotePort, w) \<Rightarrow>
             (case getRemoteGwPodName K (SliceGatewayRemoteVpnIP (gw_Config g)) (PodIP gwPod) w of
                (peer, w) \<Rightarrow>
                  (Inr (gwPod\<lparr>LocalNsmIP := st_LocalNsmIP status,
                              TunnelStatus := st_Tunnel status,
                              RemotePort := remotePort,
                              PeerPodName := (case peer of Inl _ \<Rightarrow> '''' | Inr n \<Rightarrow> n)\<rparr>), w))))"

fun refreshGwPods :: "kube \<Rightarrow> slice_gateway \<Rightarrow> gw_pod_info list \<Rightarrow> world
    \<Rightarrow> (go_error + gw_pod_info list) \<times> world" where
  "refreshGwPods K g [] w = (Inr [], w)"
| "refreshGwPods K g (p # ps) w =
     (case refreshGwPod K g p w of
        (Inl e, w) \<Rightarrow> (Inl e, w)
      | (Inr p', w) \<Rightarrow>
         (case refreshGwPods K g ps w of
            (Inl e, w) \<Rightarrow> (Inl e, w)
          | (Inr ps', w) \<Rightarrow> (Inr (p' # ps'), w)))"

definition podStatusChanged :: "slice_gateway \<Rightarrow> gw_pod_info list \<Rightarrow> bool" where
  "podStatusChanged g gwPodsInfo \<longleftrightarrow>
     list_ex (isGatewayStatusChanged g) gwPodsInfo
     \<or> length (gw_GatewayPodStatus g) \<noteq> length gwPodsInfo"

definition storeGwPodStatus :: "kube \<Rightarrow> slice_gateway \<Rightarrow> gw_pod_info list \<Rightarrow> world
    \<Rightarrow> go_error option \<times> world" where
  "storeGwPodStatus K g gwPodsInfo w =
     RetryOnConflict DefaultRetry (\<lambda>w.
       case r_get (k_slicegws K) ControlPlaneNamespace (gw_Name g) w of
         (Inl e, w) \<Rightarrow> (Some e, w)
       | (Inr sliceGw, w) \<Rightarrow>
           r_update_status (k_slicegws K)
             (sliceGw\<lparr>gw_GatewayPodStatus := gwPodsInfo, gw_ConnectionContextUpdatedOn := 0\<rparr>) w) w"

definition ReconcileGwPodStatus :: "kube \<Rightarrow> slice_gateway \<Rightarrow> world \<Rightarrow> step_result \<times> world" where
  "ReconcileGwPodStatus K g w =
     (case GetGwPodInfo K g w of
        (Inl e, w) \<Rightarrow> ((result_after 5, Some e, True), w)
      | (Inr gwPodsInfo, w) \<Rightarrow>
         (if length gwPodsInfo = 0 then ((result_after 5, None, True), w)
          else
            (case refreshGwPods K g gwPodsInfo w of
               (Inl e, w) \<Rightarrow> ((result_none, Some e, True), w)
             | (Inr gwPodsInfo, w) \<Rightarrow>
                (if podStatusChanged g gwPodsInfo then
                   (case storeGwPodStatus K g gwPodsInfo w of
                      (Some e, w) \<Rightarrow> ((result_after 30, None, True), w)
                    | (None, w) \<Rightarrow> ((result_none, None, True), w))
                 else ((result_none, None, False), w)))))"

section \<open>Connection contexts\<close>

text \<open>An error on one gateway pod is logged, and the next pod is tried.\<close>

fun sendToGwPods :: "kube \<Rightarrow> slice_gateway \<Rightarrow> gw_pod_info list \<Rightarrow> world \<Rightarrow> world" where
  "sendToGwPods K g [] w = w"
| "sendToGwPods K g (p # ps) w =
     (let addr = sidecarAddress (PodIP p) in
      case send_message K (GwConnectionContext addr (SliceGatewayRemoteVpnIP (gw_Config g))
          (SliceGatewayRemoteSubnet (gw_Config g))) w of
        (Some e, w) \<Rightarrow> sendToGwPods K g ps w
      | (None, w) \<Rightarrow>
         (case send_message K (GwQos addr (gw_SliceName g)) w of
            (_, w) \<Rightarrow> sendToGwPods K g ps w))"

definition SendConnectionContextAndQosToGwPod :: "kube \<Rightarrow> slice_gateway \<Rightarrow> world
    \<Rightarrow> step_result \<times> world" where
  "SendConnectionContextAndQosToGwPod K g w =
     (case GetGwPodInfo K g w of
        (Inl e, w) \<Rightarrow> ((result_after 5, Some e, True), w)
      | (Inr gwPodsInfo, w) \<Rightarrow>
         (if length gwPodsInfo = 0 then ((result_after 5, None, True), w)
          else ((result_none, None, False), sendToGwPods K g gwPodsInfo w)))"

definition GetSliceRouterPodNameAndIP :: "kube \<Rightarrow> string \<Rightarrow> world
    \<Rightarrow> (go_error + string \<times> string) \<times> world" where
  "GetSliceRouterPodNameAndIP K sliceName w =
     (case r_list (k_pods K)
         (all_namespaces [(''networkservicemesh.io/impl'', ''vl3-service-'' @ sliceName)]) w of
        (Inl e, w) \<Rightarrow> (Inl e, w)
      | (Inr pods, w) \<Rightarrow>
         (case find (\<lambda>p. p_Phase p = ''Running'') pods of
            None \<Rightarrow> (Inr ('''', ''''), w)
          | Some p \<Rightarrow> (Inr (p_Name p, p_PodIP p), w)))"

text \<open>The next hops that are announced to the slice router.\<close>

definition routerNextHops :: "pod list \<Rightarrow> gw_pod_info list \<Rightarrow> string list" where
  "routerNextHops excluded status =
     map LocalNsmIP
       (filter (\<lambda>p. \<not> isPodPresentInPodList excluded (PodName p)
                  \<and> LocalNsmIP p \<noteq> '''' \<and> PeerPodName p \<noteq> ''''
                  \<and> ts_Status (TunnelStatus p) = GW_TUNNEL_STATE_UP) status)"

definition SendConnectionContextToSliceRouter :: "kube \<Rightarrow> slice_gateway \<Rightarrow> world
    \<Rightarrow> step_result \<times> world" where
  "SendConnectionContextToSliceRouter K g w =
     (case GetSliceRouterPodNameAndIP K (gw_SliceName g) w of
        (Inl e, w) \<Rightarrow> ((result_none, Some e, True), w)
      | (Inr (_, podIP), w) \<Rightarrow>
         (if podIP = '''' then ((result_after 5, None, True), w)
          else if SliceGatewayRemoteSubnet (gw_Config g) = '''' \<or> length (gw_GatewayPodStatus g) = 0
          then ((result_after 10, None, True), w)
          else
            (case r_list (k_pods K)
                (in_namespace (gw_Namespace g) [(''kubeslice.io/exclude-gw-route'', ''true'')]) w of
               (Inl e, w) \<Rightarrow> ((result_none, Some e, True), w)
             | (Inr excluded, w) \<Rightarrow>
                (case send_message K (RouterConnectionContext (sidecarAddress podIP)
                    (SliceGatewayRemoteSubnet (gw_Config g))
                    (routerNextHops excluded (gw_GatewayPodStatus g))) w of
                   (Some e, w) \<Rightarrow> ((result_after 10, None, True), w)
                 | (None, w) \<Rightarrow> ((result_none, None, False), w)))))"

fun syncNetOpPods :: "kube \<Rightarrow> slice_gateway \<Rightarrow> int list \<Rightarrow> netop_pod list \<Rightarrow> world
    \<Rightarrow> go_error option \<times> world" where
  "syncNetOpPods K g ports [] w = (None, w)"
| "syncNetOpPods K g ports (n # ns) w =
     (let addr = sidecarAddress (no_PodIP n) in
      case send_message K (NetOpConnectionContext addr (gw_Name g) ports) w of
        (Some e, w) \<Rightarrow> (Some e, w)
      | (None, w) \<Rightarrow>
         (case send_message K (NetOpQos addr (gw_SliceName g)) w of
            (Some e, w) \<Rightarrow> (Some e, w)
          | (None, w) \<Rightarrow> syncNetOpPods K g ports ns w))"

definition SyncNetOpConnectionContextAndQos :: "kube \<Rightarrow> slice_gateway \<Rightarrow> int list \<Rightarrow> world
    \<Rightarrow> go_error option \<times> world" where
  "SyncNetOpConnectionContextAndQos K g sliceGwNodePorts w =
     syncNetOpPods K g sliceGwNodePorts (o_NetOpPods w) w"

definition getNetOpPods :: "kube \<Rightarrow> slice_gateway \<Rightarrow> world \<Rightarrow> go_error option \<times> world" where
  "getNetOpPods K g w =
     (case r_list (k_pods K) (in_namespace (gw_Namespace g) [(''app'', ''app_net_op'')]) w of
        (Inl e, w) \<Rightarrow> (Some e, w)
      | (Inr pods, w) \<Rightarrow>
          (None, w\<lparr>o_NetOpPods :=
             map (\<lambda>p. \<lparr>no_PodIP = p_PodIP p, no_PodName = p_Name p, no_Node = p_NodeName p\<rparr>) pods\<rparr>))"

section \<open>Placement of the gateway pods\<close>

definition ceil_div :: "nat \<Rightarrow> nat \<Rightarrow> nat" where
  "ceil_div a b = (a + b - 1) div b"

text \<open>
  \<open>ord\<close> is the order in which \<open>range\<close> visits the keys of \<open>nodeToPodMap\<close>, the nodes of the pods.
\<close>

fun findSkewedNode :: "pod list \<Rightarrow> nat \<Rightarrow> slice_gateway \<Rightarrow> string list \<Rightarrow> bool \<times> string \<times> string" where
  "findSkewedNode pods desired g [] = (False, '''', '''')"
| "findSkewedNode pods desired g (n # ns) =
     (let podsOnNode = filter (\<lambda>p. p_NodeName p = n) pods in
      if length podsOnNode > desired then
        (case getPodPairToRebalance podsOnNode g of
           (podToRebalance, peerPodToRebalance) \<Rightarrow>
             if podToRebalance = '''' \<or> peerPodToRebalance = '''' then findSkewedNode pods desired g ns
             else (True, podToRebalance, peerPodToRebalance))
      else findSkewedNode pods desired g ns)"

definition gwPodPlacementIsSkewed :: "kube \<Rightarrow> (string list \<Rightarrow> string list) \<Rightarrow> nat \<Rightarrow> slice_gateway
    \<Rightarrow> world \<Rightarrow> (go_error + bool \<times> string \<times> string) \<times> world" where
  "gwPodPlacementIsSkewed K ord N g w =
     (case r_list (k_pods K)
         (with_phase ''Running'' (all_namespaces
            [(PodTypeSelectorLabelKey, ''slicegateway''), (''kubeslice.io/slice-gw'', gw_Name g)])) w of
        (Inl e, w) \<Rightarrow> (Inl e, w)
      | (Inr pods, w) \<Rightarrow>
         (if length pods < numGwInstances N g then (Inr (False, '''', ''''), w)
          else
            (case r_list (k_nodes K) (all_namespaces [(NodeTypeSelectorLabelKey, ''gateway'')]) w of
               (Inl e, w) \<Rightarrow> (Inl e, w)
             | (Inr nodes, w) \<Rightarrow>
                (if length nodes \<le> 1 then (Inr (False, '''', ''''), w)
                 else (Inr (findSkewedNode pods (ceil_div (length pods) (length nodes)) g
                         (ord (remdups (map p_NodeName pods)))), w)))))"

fun deleteEndedRecyclers :: "kube \<Rightarrow> environ \<Rightarrow> recycler list \<Rightarrow> world \<Rightarrow> world" where
  "deleteEndedRecyclers K E [] w = w"
| "deleteEndedRecyclers K E (rc # rcs) w =
     (if rc_State rc = ''end''
      then (case DeleteWorkerSliceGwRecycler K E (om_Name (rc_meta rc)) w of
              (_, w) \<Rightarrow> deleteEndedRecyclers K E rcs w)
      else deleteEndedRecyclers K E rcs w)"

definition GetSlice :: "kube \<Rightarrow> string \<Rightarrow> world \<Rightarrow> (go_error + slice) \<times> world" where
  "GetSlice K sliceName w = r_get (k_slices K) ControlPlaneNamespace sliceName w"

definition triggerRebalance :: "kube \<Rightarrow> environ \<Rightarrow> slice_gateway \<Rightarrow> string \<Rightarrow> string \<Rightarrow> world
    \<Rightarrow> go_error option \<times> world" where
  "triggerRebalance K E g podToRebalance peerPodToRebalance w =
     (let serverID = GetDepNameFromPodName (SliceGatewayID (gw_Config g)) podToRebalance;
          clientID = GetDepNameFromPodName (SliceGatewayRemoteGatewayID (gw_Config g)) peerPodToRebalance
      in if serverID = '''' \<or> clientID = '''' then (None, w)
         else (case GetSlice K (gw_SliceName g) w of
                 (Inl e, w) \<Rightarrow> (Some e, w)
               | (Inr _, w) \<Rightarrow> TriggerFSM K E g serverID clientID w))"

definition ReconcileGwPodPlacement :: "kube \<Rightarrow> environ \<Rightarrow> (string list \<Rightarrow> string list) \<Rightarrow> nat
    \<Rightarrow> slice_gateway \<Rightarrow> world \<Rightarrow> go_error option \<times> world" where
  "ReconcileGwPodPlacement K E ord N g w =
     (if getenv E ''DISABLE_GW_POD_REBALANCING'' = ''true'' then (None, w)
      else
        (case ListWorkerSliceGwRecycler K E (gw_Name g) w of
           (Inl e, w) \<Rightarrow> (Some e, w)
         | (Inr recyclers, w) \<Rightarrow>
            (if length recyclers > 0 then (None, deleteEndedRecyclers K E recyclers w)
             else
               (case gwPodPlacementIsSkewed K ord N g w of
                  (Inl e, w) \<Rightarrow> (Some e, w)
                | (Inr (rebalanceNeeded, podToRebalance, peerPodToRebalance), w) \<Rightarrow>
                   (if \<not> rebalanceNeeded then (None, w)
                    else if podToRebalance = '''' \<or> peerPodToRebalance = '''' then (None, w)
                    else triggerRebalance K E g podToRebalance peerPodToRebalance w)))))"

section \<open>Deletion of a gateway\<close>

fun deleteSecrets :: "kube \<Rightarrow> secret list \<Rightarrow> world \<Rightarrow> go_error option \<times> world" where
  "deleteSecrets K [] w = (None, w)"
| "deleteSecrets K (s # ss) w =
     (case r_delete (k_secrets K) ControlPlaneNamespace (om_Name (sec_meta s)) w of
        (Some e, w) \<Rightarrow> (Some e, w)
      | (None, w) \<Rightarrow> deleteSecrets K ss w)"

definition cleanupSliceGwResources :: "kube \<Rightarrow> slice_gateway \<Rightarrow> world \<Rightarrow> go_error option \<times> world" where
  "cleanupSliceGwResources K g w =
     (case r_list (k_secrets K)
         (in_namespace (gw_Namespace g) [(''kubeslice.io/slice-gw'', gw_Name g)]) w of
        (Inl e, w) \<Rightarrow> (Some e, w)
      | (Inr secrets, w) \<Rightarrow>
         (case deleteSecrets K secrets w of
            (Some e, w) \<Rightarrow> (Some e, w)
          | (None, w) \<Rightarrow>
             (case GetDeployments K (gw_SliceName g) (gw_Name g) w of
                (Inl e, w) \<Rightarrow> (Some e, w)
              | (Inr deployments, w) \<Rightarrow>
                  (None, w\<lparr>o_portMap := fold (\<lambda>d. AList.delete (d_Name d)) deployments (o_portMap w)\<rparr>))))"

definition sliceGwFinalizer :: string where
  "sliceGwFinalizer = ''networking.kubeslice.io/slicegw-finalizer''"

definition with_finalizers :: "string list \<Rightarrow> slice_gateway \<Rightarrow> slice_gateway" where
  "with_finalizers fs g = g\<lparr>gw_meta := (gw_meta g)\<lparr>om_Finalizers := fs\<rparr>\<rparr>"

definition removeGatewayFinalizer :: "kube \<Rightarrow> slice_gateway \<Rightarrow> world \<Rightarrow> go_error option \<times> world" where
  "removeGatewayFinalizer K g w =
     RetryOnConflict DefaultRetry (\<lambda>w.
       case r_get (k_slicegws K) (gw_Namespace g) (gw_Name g) w of
         (Inl e, w) \<Rightarrow> (Some e, w)
       | (Inr sliceGw, w) \<Rightarrow>
           r_update (k_slicegws K)
             (with_finalizers (filter (\<lambda>f. f \<noteq> sliceGwFinalizer) (om_Finalizers (gw_meta sliceGw)))
               sliceGw) w) w"

text \<open>\<open>(True, \<dots>)\<close> ends the pass.\<close>

definition handleSliceGwDeletion :: "kube \<Rightarrow> slice_gateway \<Rightarrow> world
    \<Rightarrow> (bool \<times> ctrl_result \<times> go_error option) \<times> world" where
  "handleSliceGwDeletion K g w =
     (if om_DeletionTimestamp (gw_meta g) = None then
        (if \<not> contains (om_Finalizers (gw_meta g)) sliceGwFinalizer then
           (case r_update (k_slicegws K)
               (with_finalizers (om_Finalizers (gw_meta g) @ [sliceGwFinalizer]) g) w of
              (Some e, w) \<Rightarrow> ((True, result_none, Some e), w)
            | (None, w) \<Rightarrow> ((False, result_none, None), w))
         else ((False, result_none, None), w))
      else
        (if contains (om_Finalizers (gw_meta g)) sliceGwFinalizer then
           (case cleanupSliceGwResources K g w of
              (_, w) \<Rightarrow>
               (case removeGatewayFinalizer K g w of
                  (Some e, w) \<Rightarrow> ((True, result_none, Some e), w)
                | (None, w) \<Rightarrow> ((True, result_none, None), w)))
         else ((True, result_none, None), w)))"

section \<open>The whole pass\<close>

definition FindSliceRouterService :: "kube \<Rightarrow> string \<Rightarrow> world \<Rightarrow> (bool \<times> go_error option) \<times> world" where
  "FindSliceRouterService K sliceName w =
     (case r_get (k_nses K) ControlPlaneNamespace (''vl3-nse-'' @ sliceName) w of
        (Inl NotFound, w) \<Rightarrow> ((False, None), w)
      | (Inl e, w) \<Rightarrow> ((False, Some e), w)
      | (Inr _, w) \<Rightarrow> ((True, None), w))"

type_synonym reconcile_result = "(ctrl_result \<times> go_error option) go \<times> world"

text \<open>
  How a step that returned \<open>(res, err, requeue)\<close> is followed: an error ends the pass with an
  empty result, a requeue with \<open>res\<close>.
\<close>

definition after_step :: "step_result \<Rightarrow> world \<Rightarrow> (world \<Rightarrow> reconcile_result) \<Rightarrow> reconcile_result" where
  "after_step r w cont =
     (case r of
        (res, Some e, _) \<Rightarrow> (Ret (result_none, Some e), w)
      | (res, None, True) \<Rightarrow> (Ret (res, None), w)
      | (res, None, False) \<Rightarrow> cont w)"

definition after_step_go :: "step_result go \<Rightarrow> world \<Rightarrow> (world \<Rightarrow> reconcile_result)
    \<Rightarrow> reconcile_result" where
  "after_step_go r w cont = (case r of Panic \<Rightarrow> (Panic, w) | Ret s \<Rightarrow> after_step s w cont)"

text \<open>From \<open>getNetOpPods\<close> on: pod status, contexts, netop, placement.\<close>

definition reconcilePods :: "kube \<Rightarrow> environ \<Rightarrow> (string list \<Rightarrow> string list) \<Rightarrow> nat \<Rightarrow> slice_gateway
    \<Rightarrow> int list \<Rightarrow> world \<Rightarrow> reconcile_result" where
  "reconcilePods K E ord N g sliceGwNodePorts w =
     (case getNetOpPods K g w of
        (Some e, w) \<Rightarrow> (Ret (result_none, Some e), w)
      | (None, w) \<Rightarrow>
         (case ReconcileGwPodStatus K g w of (r, w) \<Rightarrow> after_step r w (\<lambda>w.
          case SendConnectionContextAndQosToGwPod K g w of (r, w) \<Rightarrow> after_step r w (\<lambda>w.
          case SendConnectionContextToSliceRouter K g w of (r, w) \<Rightarrow> after_step r w (\<lambda>w.
          case SyncNetOpConnectionContextAndQos K g sliceGwNodePorts w of
            (Some e, w) \<Rightarrow> (Ret (result_none, Some e), w)
          | (None, w) \<Rightarrow>
             (case (if isServer g then ReconcileGwPodPlacement K E ord N g w else (None, w)) of
                (Some e, w) \<Rightarrow> (Ret (result_none, Some e), w)
              | (None, w) \<Rightarrow> (Ret (result_after 120, None), w)))))))"

definition reconcileServerSide :: "kube \<Rightarrow> environ \<Rightarrow> string list \<Rightarrow> nat \<Rightarrow> slice_gateway
    \<Rightarrow> (int list \<Rightarrow> world \<Rightarrow> reconcile_result) \<Rightarrow> world \<Rightarrow> reconcile_result" where
  "reconcileServerSide K E nodeIps N g cont w =
     (case ReconcileGatewayDeployments K E nodeIps N g w of (r, w) \<Rightarrow> after_step_go r w (\<lambda>w.
      case ReconcileGatewayServices K E g w of (r, w) \<Rightarrow> after_step_go r w (\<lambda>w.
      case getNodePorts K g w of
        (Panic, w) \<Rightarrow> (Panic, w)
      | (Ret (Inl e), w) \<Rightarrow> (Ret (result_none, Some e), w)
      | (Ret (Inr ports), w) \<Rightarrow> cont ports w)))"

definition reconcileClientSide :: "kube \<Rightarrow> environ \<Rightarrow> string list \<Rightarrow> nat \<Rightarrow> slice_gateway
    \<Rightarrow> (int list \<Rightarrow> world \<Rightarrow> reconcile_result) \<Rightarrow> world \<Rightarrow> reconcile_result" where
  "reconcileClientSide K E nodeIps N g cont w =
     (if \<not> canDeployGw E g then (Ret (result_after 10, None), w)
      else
        (case reconcileGatewayHeadlessService K g w of
           (Some e, w) \<Rightarrow> (Ret (result_none, Some e), w)
         | (None, w) \<Rightarrow>
            (case reconcileGatewayEndpoint K E g w of
               (Panic, w) \<Rightarrow> (Panic, w)
             | (Ret (True, res, err), w) \<Rightarrow> (Ret (res, err), w)
             | (Ret (False, _, _), w) \<Rightarrow>
                (case ReconcileGatewayDeployments K E nodeIps N g w of (r, w) \<Rightarrow> after_step_go r w
                   (cont (SliceGatewayRemoteNodePorts (gw_Config g)))))))"

definition reconcileGateway :: "kube \<Rightarrow> environ \<Rightarrow> (string list \<Rightarrow> string list) \<Rightarrow> string list \<Rightarrow> nat
    \<Rightarrow> slice_gateway \<Rightarrow> world \<Rightarrow> reconcile_result" where
  "reconcileGateway K E ord nodeIps N g w =
     (let rest = (\<lambda>ports w.
            case ReconcileIntermediateGatewayDeployments K E nodeIps g w of
              (r, w) \<Rightarrow> after_step_go r w (reconcilePods K E ord N g ports))
      in if isServer g then reconcileServerSide K E nodeIps N g rest w
         else if isClient g then reconcileClientSide K E nodeIps N g rest w
         else rest [] w)"

definition Reconcile :: "kube \<Rightarrow> environ \<Rightarrow> (string list \<Rightarrow> string list) \<Rightarrow> string list \<Rightarrow> nat
    \<Rightarrow> string \<Rightarrow> string \<Rightarrow> world \<Rightarrow> reconcile_result" where
  "Reconcile K E ord nodeIps N reqNamespace reqName w =
     (case r_get (k_slicegws K) reqNamespace reqName w of
        (Inl NotFound, w) \<Rightarrow> (Ret (result_none, None), w)
      | (Inl e, w) \<Rightarrow> (Ret (result_none, Some e), w)
      | (Inr g, w) \<Rightarrow>
         (case handleSliceGwDeletion K g w of
            ((True, res, err), w) \<Rightarrow> (Ret (res, err), w)
          | ((False, _, _), w) \<Rightarrow>
             (case GetSlice K (gw_SliceName g) w of
                (Inl e, w) \<Rightarrow> (Ret (result_none, Some e), w)
              | (Inr sl, w) \<Rightarrow>
                 (if sl_NetworkMode sl = Some ''no-network'' then (Ret (result_none, None), w)
                  else
                    (case FindSliceRouterService K (gw_SliceName g) w of
                       ((False, Some e), w) \<Rightarrow> (Ret (result_none, Some e), w)
                     | ((False, None), w) \<Rightarrow> (Ret (result_after 10, None), w)
                     | ((True, _), w) \<Rightarrow> reconcileGateway K E ord nodeIps N g w)))))"

context lawful
begin

lemma GetSliceRouterPodNameAndIP_reads: "GetSliceRouterPodNameAndIP K s w = (r, w') \<Longrightarrow> reads w w'"
  by (auto simp: GetSliceRouterPodNameAndIP_def split: prod.splits sum.splits option.splits
      dest!: pod.list_world)

lemma GetRouteInKernel_reads: "k_GetRouteInKernel K a s ip w = (r, w') \<Longrightarrow> reads w w'"
  using GetRouteInKernel_world [of a s ip w] by auto

end

section \<open>What the traffic steps keep\<close>

lemma findSkewedNode_spec:
  "findSkewedNode pods desired g ns = (True, p, q) \<Longrightarrow>
     \<exists>n \<in> set ns. length (filter (\<lambda>p. p_NodeName p = n) pods) > desired
       \<and> p \<noteq> '''' \<and> getPodPairToRebalance (filter (\<lambda>p. p_NodeName p = n) pods) g = (p, q)"
  by (induction ns) (auto simp: Let_def split: if_splits prod.splits)

text \<open>
  a pod that is chosen for rebalancing runs on a node with more gateway pods than the
  desired number, its tunnel is up and its peer is known, in whatever order the nodes are
  visited.
\<close>

theorem rebalanced_pod_spec:
  assumes "findSkewedNode pods desired g ns = (True, p, q)"
  shows "\<exists>pod \<in> set pods. p_NodeName pod \<in> set ns
    \<and> length (filter (\<lambda>x. p_NodeName x = p_NodeName pod) pods) > desired
    \<and> (\<exists>s \<in> set (gw_GatewayPodStatus g). PodName s = p_Name pod \<and> p = p_Name pod
         \<and> q = PeerPodName s \<and> q \<noteq> '''' \<and> ts_Status (TunnelStatus s) = GW_TUNNEL_STATE_UP)"
proof -
  from findSkewedNode_spec [OF assms] obtain n where n: "n \<in> set ns"
    "length (filter (\<lambda>p. p_NodeName p = n) pods) > desired" "p \<noteq> ''''"
    "getPodPairToRebalance (filter (\<lambda>p. p_NodeName p = n) pods) g = (p, q)" by blast
  from getPodPair_spec [OF n(4,3)] n(1,2) show ?thesis by fastforce
qed

definition ex_placed_pod :: "string \<Rightarrow> string \<Rightarrow> pod" where
  "ex_placed_pod podName nodeName =
     \<lparr>p_meta = new_meta ''kubeslice-system'' podName [], p_Phase = ''Running'', p_PodIP = '''',
      p_NodeName = nodeName, p_TerminatedExitCodes = []\<rparr>"

lemma ex_skewed:
  "findSkewedNode [ex_placed_pod ''red-a-b-0-0-x'' ''n1'', ex_placed_pod ''red-a-b-1-0-x'' ''n1''] 1
     ex_status_gateway [''n2'', ''n1''] = (True, ''red-a-b-0-0-x'', ''red-b-a-0-0-y'')"
  by code_simp

theorem rebalanced_pod_spec_witness:
  "\<exists>s \<in> set (gw_GatewayPodStatus ex_status_gateway). ts_Status (TunnelStatus s) = GW_TUNNEL_STATE_UP"
  using rebalanced_pod_spec [OF ex_skewed] by blast

text \<open>
  when the status step neither fails nor asks for a requeue, the status of the gateway has
  as many entries as there are running pods, and what the sidecars reported just now for every
  pod, its tunnel and its peer, is what the status has for the pod's name.
\<close>

theorem pod_status_settled:
  assumes "ReconcileGwPodStatus K g w = ((res, None, False), w')"
  shows "\<exists>pods w1 infos. GetGwPodInfo K g w = (Inr pods, w1) \<and> pods \<noteq> []
    \<and> refreshGwPods K g pods w1 = (Inr infos, w')
    \<and> length (gw_GatewayPodStatus g) = length infos
    \<and> (\<forall>p \<in> set infos. \<exists>s \<in> set (gw_GatewayPodStatus g). PodName s = PodName p
         \<and> TunnelStatus s = TunnelStatus p \<and> PeerPodName s = PeerPodName p)"
proof -
  from assms obtain pods w1 where p: "GetGwPodInfo K g w = (Inr pods, w1)" "pods \<noteq> []"
    by (auto simp: ReconcileGwPodStatus_def split: prod.splits sum.splits if_splits)
  from assms p obtain infos w2 where i: "refreshGwPods K g pods w1 = (Inr infos, w2)"
    by (auto simp: ReconcileGwPodStatus_def split: prod.splits sum.splits)
  from assms p i have c: "\<not> podStatusChanged g infos" and "w' = w2"
    by (auto simp: ReconcileGwPodStatus_def split: if_splits prod.splits option.splits)
  from c have "length (gw_GatewayPodStatus g) = length infos"
    "\<forall>p \<in> set infos. \<not> isGatewayStatusChanged g p"
    by (auto simp: podStatusChanged_def list_ex_iff)
  moreover from this(2) have "\<forall>p \<in> set infos. \<exists>s \<in> set (gw_GatewayPodStatus g).
      PodName s = PodName p \<and> TunnelStatus s = TunnelStatus p \<and> PeerPodName s = PeerPodName p"
    using statusUnchanged_in [of "gw_GatewayPodStatus g"]
    by (auto simp: isGatewayStatusChanged_def isGWPodStatusChanged_def)
  ultimately show ?thesis using p i \<open>w' = w2\<close> by blast
qed

context lawful
begin

lemma send_message_world:
  "send_message K m w = (r, w') \<Longrightarrow> w' = tick (w\<lparr>w_sent := w_sent w @ [m]\<rparr>)"
  using send_world [of m "w\<lparr>w_sent := w_sent w @ [m]\<rparr>"] by (auto simp: send_message_def)

lemma router_context:
  assumes "SendConnectionContextToSliceRouter K g w = ((res, None, False), w')"
  shows "\<exists>ip. w_sent w' = w_sent w @ [RouterConnectionContext (sidecarAddress ip)
      (SliceGatewayRemoteSubnet (gw_Config g))
      (routerNextHops (filter (selects p_meta p_Phase (in_namespace (gw_Namespace g)
           [(''kubeslice.io/exclude-gw-route'', ''true'')])) (w_pods w)) (gw_GatewayPodStatus g))]"
proof -
  obtain x w1 where r: "GetSliceRouterPodNameAndIP K (gw_SliceName g) w = (x, w1)" by fastforce
  then have w1: "reads w w1" by (rule GetSliceRouterPodNameAndIP_reads)
  from assms r obtain n ip where x: "x = Inr (n, ip)"
    by (cases x) (auto simp: SendConnectionContextToSliceRouter_def)
  from assms r x have c: "ip \<noteq> ''''" "SliceGatewayRemoteSubnet (gw_Config g) \<noteq> ''''"
    "gw_GatewayPodStatus g \<noteq> []"
    by (auto simp: SendConnectionContextToSliceRouter_def split: if_splits)
  obtain y w2 where l: "r_list (k_pods K) (in_namespace (gw_Namespace g)
      [(''kubeslice.io/exclude-gw-route'', ''true'')]) w1 = (y, w2)" by fastforce
  from assms r x c l obtain ps where y: "y = Inr ps"
    by (cases y) (auto simp: SendConnectionContextToSliceRouter_def)
  from pod.list_ok [OF l [unfolded y]] w1 have w2: "w_sent w2 = w_sent w"
    and ps: "ps = filter (selects p_meta p_Phase (in_namespace (gw_Namespace g)
           [(''kubeslice.io/exclude-gw-route'', ''true'')])) (w_pods w)"
    by (auto simp: reads_sel)
  obtain z w3 where s: "send_message K (RouterConnectionContext (sidecarAddress ip)
      (SliceGatewayRemoteSubnet (gw_Config g)) (routerNextHops ps (gw_GatewayPodStatus g))) w2 = (z, w3)"
    by fastforce
  with assms r x c l y have "w' = w3"
    by (auto simp: SendConnectionContextToSliceRouter_def split: option.splits)
  with send_message_world [OF s] w2 ps show ?thesis by auto
qed

end

text \<open>
  the slice router is told as next hops to the remote subnet exactly the addresses of the
  gateway pods whose tunnel is up, whose peer is known and whose route is not excluded: the
  pods marked by the recycler get no traffic.
\<close>

theorem router_next_hops:
  assumes "lawful K" and "SendConnectionContextToSliceRouter K g w = ((res, None, False), w')"
  shows "\<exists>addr hops. w_sent w' = w_sent w
      @ [RouterConnectionContext addr (SliceGatewayRemoteSubnet (gw_Config g)) hops]
    \<and> (\<forall>ip. ip \<in> set hops \<longleftrightarrow> ip \<noteq> '''' \<and> (\<exists>s \<in> set (gw_GatewayPodStatus g). LocalNsmIP s = ip
         \<and> PeerPodName s \<noteq> '''' \<and> ts_Status (TunnelStatus s) = GW_TUNNEL_STATE_UP
         \<and> \<not> (\<exists>p \<in> set (w_pods w). p_Name p = PodName s \<and> om_Namespace (p_meta p) = gw_Namespace g
              \<and> map_of (om_Labels (p_meta p)) ''kubeslice.io/exclude-gw-route'' = Some ''true'')))"
proof -
  let ?ex = "filter (selects p_meta p_Phase (in_namespace (gw_Namespace g)
           [(''kubeslice.io/exclude-gw-route'', ''true'')])) (w_pods w)"
  from lawful.router_context [OF assms] obtain ip where
    s: "w_sent w' = w_sent w @ [RouterConnectionContext (sidecarAddress ip)
      (SliceGatewayRemoteSubnet (gw_Config g)) (routerNextHops ?ex (gw_GatewayPodStatus g))]" by blast
  have ex: "isPodPresentInPodList ?ex n \<longleftrightarrow> (\<exists>p \<in> set (w_pods w). p_Name p = n
      \<and> om_Namespace (p_meta p) = gw_Namespace g
      \<and> map_of (om_Labels (p_meta p)) ''kubeslice.io/exclude-gw-route'' = Some ''true'')" for n
    by (auto simp: isPodPresentInPodList_def list_ex_iff selects_def in_namespace_def)
  have "ip \<in> set (routerNextHops ?ex (gw_GatewayPodStatus g)) \<longleftrightarrow>
      ip \<noteq> '''' \<and> (\<exists>s \<in> set (gw_GatewayPodStatus g). LocalNsmIP s = ip
         \<and> PeerPodName s \<noteq> '''' \<and> ts_Status (TunnelStatus s) = GW_TUNNEL_STATE_UP
         \<and> \<not> isPodPresentInPodList ?ex (PodName s))" for ip
    by (auto simp: routerNextHops_def)
  with s show ?thesis unfolding ex by blast
qed

definition ex_router_pod :: pod where
  "ex_router_pod =
     \<lparr>p_meta = new_meta ''kubeslice-system'' ''vl3-red'' [(''networkservicemesh.io/impl'', ''vl3-service-red'')],
      p_Phase = ''Running'', p_PodIP = ''10.9.9.9'', p_NodeName = ''n1'', p_TerminatedExitCodes = []\<rparr>"

definition ex_gw_pod :: pod where
  "ex_gw_pod =
     \<lparr>p_meta = new_meta ''kubeslice-system'' ''red-a-b-0-0-x'' [(''kubeslice.io/slice-gw'', ''red-a-b'')],
      p_Phase = ''Running'', p_PodIP = ''10.9.0.1'', p_NodeName = ''n1'', p_TerminatedExitCodes = []\<rparr>"

definition ex_live_replies :: replies where
  "ex_live_replies =
     \<lparr>re_status = (\<lambda>_. Some \<lparr>st_LocalNsmIP = ''10.9.0.1'',
        st_Tunnel = TunnelStatus (ex_up_pod ''red-a-b-0-0-x'' ''10.9.0.1'' ''red-b-a-0-0-y'')\<rparr>),
      re_peer = (\<lambda>_. Some ''red-b-a-0-0-y''), re_route = (\<lambda>_. True), re_host = (\<lambda>_. []),
      re_clients = (\<lambda>_. []),
      re_deployment = (\<lambda>_ _. None), re_service = (\<lambda>_ _. None), re_object = (\<lambda>_ _. None)\<rparr>"

definition ex_live :: world where
  "ex_live = empty_world\<lparr>w_pods := [ex_router_pod, ex_gw_pod], w_slicegws := [ex_status_gateway]\<rparr>"

lemma ex_status_settles:
  "fst (ReconcileGwPodStatus (ref_kube no_faults ex_live_replies) ex_status_gateway ex_live)
     = (result_none, None, False)"
  by code_simp

theorem pod_status_settled_witness:
  "\<exists>pods w1 infos. GetGwPodInfo (ref_kube no_faults ex_live_replies) ex_status_gateway ex_live = (Inr pods, w1)
    \<and> length (gw_GatewayPodStatus ex_status_gateway) = length (infos :: gw_pod_info list)"
  using pod_status_settled [of "ref_kube no_faults ex_live_replies" ex_status_gateway ex_live result_none
      "snd (ReconcileGwPodStatus (ref_kube no_faults ex_live_replies) ex_status_gateway ex_live)"]
    ex_status_settles
    prod.collapse [of "ReconcileGwPodStatus (ref_kube no_faults ex_live_replies) ex_status_gateway ex_live"]
  by auto

lemma ex_router_sent:
  "fst (SendConnectionContextToSliceRouter (ref_kube no_faults ex_live_replies) ex_status_gateway ex_live)
     = (result_none, None, False)"
  by code_simp

theorem router_next_hops_witness:
  "\<exists>addr hops. w_sent (snd (SendConnectionContextToSliceRouter (ref_kube no_faults ex_live_replies)
       ex_status_gateway ex_live)) = w_sent ex_live @ [RouterConnectionContext addr ''192.168.2.0/24'' hops]"
  using router_next_hops [OF ref.lawful_axioms, of no_faults ex_live_replies ex_status_gateway ex_live result_none
      "snd (SendConnectionContextToSliceRouter (ref_kube no_faults ex_live_replies) ex_status_gateway ex_live)"]
    ex_router_sent
    prod.collapse [of "SendConnectionContextToSliceRouter (ref_kube no_faults ex_live_replies) ex_status_gateway ex_live"]
  by (auto simp: ex_status_gateway_def ex_gateway_def ex_config_def)

section \<open>Deletion\<close>

text \<open>What the deletion of a gateway leaves alone.\<close>

definition workload_kept :: "world \<Rightarrow> world \<Rightarrow> bool" where
  "workload_kept w w' \<longleftrightarrow> w_deployments w' = w_deployments w \<and> w_services w' = w_services w
     \<and> w_pods w' = w_pods w \<and> w_endpoints w' = w_endpoints w \<and> w_sent w' = w_sent w"

lemma workload_kept_refl [simp]: "workload_kept w w"
  by (simp add: workload_kept_def)

lemma workload_kept_trans: "workload_kept w w1 \<Longrightarrow> workload_kept w1 w2 \<Longrightarrow> workload_kept w w2"
  by (simp add: workload_kept_def)

lemma reads_workload: "reads w w' \<Longrightarrow> workload_kept w w'"
  by (auto simp: workload_kept_def elim!: readsE)

definition finalizer_attempt :: "kube \<Rightarrow> slice_gateway \<Rightarrow> world \<Rightarrow> go_error option \<times> world" where
  "finalizer_attempt K g w =
     (case r_get (k_slicegws K) (gw_Namespace g) (gw_Name g) w of
         (Inl e, w) \<Rightarrow> (Some e, w)
       | (Inr sliceGw, w) \<Rightarrow>
           r_update (k_slicegws K)
             (with_finalizers (filter (\<lambda>f. f \<noteq> sliceGwFinalizer) (om_Finalizers (gw_meta sliceGw)))
               sliceGw) w)"

lemma removeGatewayFinalizer_attempts:
  "removeGatewayFinalizer K g w = RetryOnConflict DefaultRetry (finalizer_attempt K g) w"
  by (simp add: removeGatewayFinalizer_def finalizer_attempt_def [abs_def])

context lawful
begin

lemma deleteSecrets_kept:
  "deleteSecrets K ss w = (r, w') \<Longrightarrow> workload_kept w w' \<and> w_slicegws w' = w_slicegws w"
proof (induction ss arbitrary: w)
  case (Cons s ss)
  obtain x w1 where d: "r_delete (k_secrets K) ControlPlaneNamespace (om_Name (sec_meta s)) w = (x, w1)"
    by fastforce
  then have "workload_kept w w1 \<and> w_slicegws w1 = w_slicegws w"
    by (cases x) (auto simp: workload_kept_def dest!: sec.delete_ok sec.delete_err)
  with Cons d show ?case by (cases x) (auto intro: workload_kept_trans)
qed simp

lemma cleanup_kept:
  assumes "cleanupSliceGwResources K g w = (r, w')"
  shows "workload_kept w w' \<and> w_slicegws w' = w_slicegws w"
proof -
  obtain x w1 where l: "r_list (k_secrets K)
      (in_namespace (gw_Namespace g) [(''kubeslice.io/slice-gw'', gw_Name g)]) w = (x, w1)" by fastforce
  note w1 = sec.list_world [OF l]
  show ?thesis
  proof (cases x)
    case (Inl e)
    with assms l w1 show ?thesis
      by (auto simp: cleanupSliceGwResources_def workload_kept_def)
  next
    case (Inr ss)
    obtain y w2 where d: "deleteSecrets K ss w1 = (y, w2)" by fastforce
    note d' = deleteSecrets_kept [OF d]
    obtain z w3 where g3: "GetDeployments K (gw_SliceName g) (gw_Name g) w2 = (z, w3)" by fastforce
    note r3 = GetDeployments_reads [OF g3]
    show ?thesis
      using assms l Inr d g3 d' w1 r3
      by (cases y; cases z) (auto simp: cleanupSliceGwResources_def workload_kept_def reads_sel)
  qed
qed

lemma finalizer_attempt_kept: "finalizer_attempt K g w = (r, w') \<Longrightarrow> workload_kept w w'"
proof -
  have u: "workload_kept w1 w2" if "r_update (k_slicegws K) ob w1 = (x, w2)" for ob w1 x w2
    using that by (cases x) (auto simp: workload_kept_def dest!: gw.update_ok gw.update_err)
  show "finalizer_attempt K g w = (r, w') \<Longrightarrow> workload_kept w w'"
    by (auto simp: finalizer_attempt_def split: prod.splits sum.splits dest!: gw.get_world u)
      (auto simp: workload_kept_def)
qed

lemma finalizer_attempt_fails:
  "finalizer_attempt K g w = (Some e, w') \<Longrightarrow> w_slicegws w' = w_slicegws w"
  by (auto simp: finalizer_attempt_def split: prod.splits sum.splits dest!: gw.get_world gw.update_err)

lemma finalizer_attempt_ok:
  assumes "finalizer_attempt K g w = (None, w')"
  shows "\<exists>g0 g'. find (keyed gw_meta (gw_Namespace g) (gw_Name g)) (w_slicegws w) = Some g0
    \<and> find (keyed gw_meta (gw_Namespace g) (gw_Name g)) (w_slicegws w') = Some g'
    \<and> g' = with_finalizers (filter (\<lambda>f. f \<noteq> sliceGwFinalizer) (om_Finalizers (gw_meta g0))) g0"
proof -
  from assms obtain g0 w1 where get: "r_get (k_slicegws K) (gw_Namespace g) (gw_Name g) w = (Inr g0, w1)"
    and u: "r_update (k_slicegws K)
      (with_finalizers (filter (\<lambda>f. f \<noteq> sliceGwFinalizer) (om_Finalizers (gw_meta g0))) g0) w1 = (None, w')"
    by (auto simp: finalizer_attempt_def split: prod.splits sum.splits)
  from gw.get_ok [OF get] have w1: "w1 = tick w"
    and g0: "find (keyed gw_meta (gw_Namespace g) (gw_Name g)) (w_slicegws w) = Some g0" by auto
  let ?g' = "with_finalizers (filter (\<lambda>f. f \<noteq> sliceGwFinalizer) (om_Finalizers (gw_meta g0))) g0"
  have w': "w_slicegws w' = replace_object gw_meta ?g' (w_slicegws w)"
    using gw.update_ok [OF u] w1 by simp
  have k: "keyed gw_meta (gw_Namespace g) (gw_Name g) g0" using find_Some_iff' [OF g0] by simp
  have k': "keyed gw_meta (gw_Namespace g) (gw_Name g) ?g'"
    using k by (simp add: keyed_def with_finalizers_def)
  have "find (keyed gw_meta (gw_Namespace g) (gw_Name g)) (w_slicegws w') = Some ?g'"
    unfolding w' by (rule find_replace_key [OF g0 k'])
  with g0 show ?thesis by blast
qed

lemma removeGatewayFinalizer_kept:
  "removeGatewayFinalizer K g w = (r, w') \<Longrightarrow> workload_kept w w'"
  unfolding removeGatewayFinalizer_attempts
  by (erule RetryOnConflict_keeps [where P = "workload_kept w"])
    (auto intro: workload_kept_trans dest: finalizer_attempt_kept)

lemma removeGatewayFinalizer_ok:
  assumes "removeGatewayFinalizer K g w = (None, w')"
  shows "\<exists>g0 g'. find (keyed gw_meta (gw_Namespace g) (gw_Name g)) (w_slicegws w) = Some g0
    \<and> find (keyed gw_meta (gw_Namespace g) (gw_Name g)) (w_slicegws w') = Some g'
    \<and> g' = with_finalizers (filter (\<lambda>f. f \<noteq> sliceGwFinalizer) (om_Finalizers (gw_meta g0))) g0"
proof -
  have "\<exists>w1. w_slicegws w1 = w_slicegws w \<and> finalizer_attempt K g w1 = (None, w')"
  proof (rule RetryOnConflict_success [OF assms [unfolded removeGatewayFinalizer_attempts]])
    fix w1 w2
    assume "w_slicegws w1 = w_slicegws w" "finalizer_attempt K g w1 = (Some Conflict, w2)"
    then show "w_slicegws w2 = w_slicegws w" using finalizer_attempt_fails by metis
  qed simp
  then obtain w1 where w1: "w_slicegws w1 = w_slicegws w" "finalizer_attempt K g w1 = (None, w')" by blast
  from finalizer_attempt_ok [OF w1(2)] show ?thesis unfolding w1(1) .
qed

lemma Reconcile_deleting:
  assumes rec: "Reconcile K E ord ips N ns n w = (r, w')"
    and g: "find (keyed gw_meta ns n) (w_slicegws w) = Some g" and del: "om_DeletionTimestamp (gw_meta g) \<noteq> None"
  shows "workload_kept w w' \<and> (\<forall>res. r = Ret (res, None) \<longrightarrow>
    (\<exists>g'. find (keyed gw_meta ns n) (w_slicegws w') = Some g'
       \<and> om_Finalizers (gw_meta g') = filter (\<lambda>f. f \<noteq> sliceGwFinalizer) (om_Finalizers (gw_meta g))))"
proof -
  have key: "gw_Namespace g = ns" "gw_Name g = n"
    using find_Some_iff' [OF g] by (simp_all add: keyed_def)
  obtain x w1 where get: "r_get (k_slicegws K) ns n w = (x, w1)" by fastforce
  note w1 = gw.get_world [OF get]
  show ?thesis
  proof (cases x)
    case (Inl e)
    with get g have "e \<noteq> NotFound" by (auto dest: gw.get_err)
    with Inl get rec have "r = Ret (result_none, Some e)" "w' = w1"
      by (cases e; auto simp: Reconcile_def)+
    with w1 show ?thesis by (simp add: reads_workload)
  next
    case (Inr g1)
    with get g have g1: "g1 = g" by (auto dest: gw.get_ok)
    show ?thesis
    proof (cases "sliceGwFinalizer \<in> set (om_Finalizers (gw_meta g))")
      case False
      with rec get Inr g1 del have "r = Ret (result_none, None)" "w' = w1"
        by (auto simp: Reconcile_def handleSliceGwDeletion_def)
      moreover have "filter (\<lambda>f. f \<noteq> sliceGwFinalizer) (om_Finalizers (gw_meta g)) = om_Finalizers (gw_meta g)"
        using False by (auto simp: filter_id_conv)
      ultimately show ?thesis using w1 g by (simp add: reads_workload)
    next
      case True
      obtain c w2 where c: "cleanupSliceGwResources K g w1 = (c, w2)" by fastforce
      obtain f w3 where f: "removeGatewayFinalizer K g w2 = (f, w3)" by fastforce
      from rec get Inr g1 del True c f have w3: "w' = w3" and r: "r = Ret (result_none, f)"
        by (auto simp: Reconcile_def handleSliceGwDeletion_def split: option.splits)
      have k: "workload_kept w w3"
        using reads_workload [of w w1] cleanup_kept [OF c] removeGatewayFinalizer_kept [OF f] w1
        by (auto intro: workload_kept_trans)
      show ?thesis
      proof (cases f)
        case (Some e)
        with k w3 r show ?thesis by simp
      next
        case None
        from removeGatewayFinalizer_ok [OF f [unfolded None]] cleanup_kept [OF c] w1 g key
        obtain g' where "find (keyed gw_meta ns n) (w_slicegws w3) = Some g'"
          "g' = with_finalizers (filter (\<lambda>f. f \<noteq> sliceGwFinalizer) (om_Finalizers (gw_meta g))) g"
          by auto
        with k w3 show ?thesis by (auto simp: with_finalizers_def)
      qed
    qed
  qed
qed

end

text \<open>
  a pass on a gateway that is being deleted touches no deployment, service, pod or endpoint
  and sends nothing; when it succeeds, the controller's finalizer, and no other, is gone, even
  if cleaning up the secrets failed.
\<close>

theorem deleted_gateway_released:
  assumes "lawful K" and "Reconcile K E ord ips N ns n w = (r, w')"
    and "find (keyed gw_meta ns n) (w_slicegws w) = Some g" and "om_DeletionTimestamp (gw_meta g) \<noteq> None"
  shows "workload_kept w w' \<and> (\<forall>res. r = Ret (res, None) \<longrightarrow>
    (\<exists>g'. find (keyed gw_meta ns n) (w_slicegws w') = Some g'
       \<and> om_Finalizers (gw_meta g') = filter (\<lambda>f. f \<noteq> sliceGwFinalizer) (om_Finalizers (gw_meta g))))"
  by (rule lawful.Reconcile_deleting [OF assms])

definition ex_deleted :: slice_gateway where
  "ex_deleted = (ex_gateway ''red-a-b'' ''Server'')
     \<lparr>gw_meta := (new_meta ''kubeslice-system'' ''red-a-b'' [])
        \<lparr>om_DeletionTimestamp := Some 5, om_Finalizers := [sliceGwFinalizer, ''other'']\<rparr>\<rparr>"

definition ex_deleting :: world where
  "ex_deleting = empty_world\<lparr>w_slicegws := [ex_deleted], w_pods := [ex_gw_pod]\<rparr>"

lemma ex_deleting_facts:
  "find (keyed gw_meta ''kubeslice-system'' ''red-a-b'') (w_slicegws ex_deleting) = Some ex_deleted"
  "om_DeletionTimestamp (gw_meta ex_deleted) \<noteq> None"
  by code_simp+

theorem deleted_gateway_released_witness:
  "w_pods (snd (Reconcile ex_kube Map.empty id [] 2 ''kubeslice-system'' ''red-a-b'' ex_deleting)) = [ex_gw_pod]"
  using deleted_gateway_released [OF ex_kube_lawful prod.collapse [symmetric] ex_deleting_facts,
      of Map.empty id "[]" 2]
  by (simp add: workload_kept_def ex_deleting_def)

end
