(* ===== verification/Recycler.thy ===== *)
theory Recycler
  imports GatewayTraffic
begin

text \<open>
  The worker slice gateway recycler (\<open>pkg/hub/controllers/workerslicegwrecycler\<close>): the
  protocol by which the operators of two clusters replace a pair of gateway deployments, make
  before break. The server side owns the state in the spec of the custom resource and posts
  requests there; the client side answers in its status. Here are the requests, responses and
  states, the finite state machine, the helpers and the reconciler of both sides, one
  definition per state and per request. \<open>RecyclerProtocol\<close> proves what the protocol keeps.
\<close>

section \<open>States, events, requests, responses\<close>

definition ST_init :: string where "ST_init = ''init''"

definition ST_new_deployment_created :: string where "ST_new_deployment_created = ''new_deployment_created_state''"

definition ST_slicerouter_updated :: string where "ST_slicerouter_updated = ''slicerouter_updated_state''"

definition ST_old_deployment_deleted :: string where "ST_old_deployment_deleted = ''old_deployment_deleted_state''"

definition ST_error :: string where "ST_error = ''error_state''"

definition ST_end :: string where "ST_end = ''end''"

lemmas ST_defs =
  ST_init_def ST_new_deployment_created_def ST_slicerouter_updated_def
  ST_old_deployment_deleted_def ST_error_def ST_end_def

definition EV_verify_new_deployment_created :: string where "EV_verify_new_deployment_created = ''verify_new_deployment_created''"

definition EV_update_routing_table :: string where "EV_update_routing_table = ''update_routing_table''"

definition EV_delete_old_gw_deployment :: string where "EV_delete_old_gw_deployment = ''delete_old_gw_deployment''"

definition EV_on_error :: string where "EV_on_error = ''on_error''"

definition EV_end :: string where "EV_end = ''end''"

lemmas EV_defs =
  EV_verify_new_deployment_created_def EV_update_routing_table_def
  EV_delete_old_gw_deployment_def EV_on_error_def EV_end_def

text \<open>\<open>iota\<close> counts the lines of the constant declaration, so \<open>none\<close> is 1.\<close>

definition REQ_invalid :: int where "REQ_invalid = - 1"

definition REQ_none :: int where "REQ_none = 1"

definition REQ_create_new_deployment :: int where "REQ_create_new_deployment = 2"

definition REQ_update_routing_table :: int where "REQ_update_routing_table = 3"

definition REQ_delete_old_gw_deployment :: int where "REQ_delete_old_gw_deployment = 4"

definition RESP_invalid :: int where "RESP_invalid = - 1"

definition RESP_none :: int where "RESP_none = 1"

definition RESP_new_deployment_created :: int where "RESP_new_deployment_created = 2"

definition RESP_routing_table_updated :: int where "RESP_routing_table_updated = 3"

definition RESP_old_deployment_deleted :: int where "RESP_old_deployment_deleted = 4"

lemmas REQ_defs =
  REQ_invalid_def REQ_none_def REQ_create_new_deployment_def REQ_update_routing_table_def
  REQ_delete_old_gw_deployment_def

lemmas RESP_defs =
  RESP_invalid_def RESP_none_def RESP_new_deployment_created_def
  RESP_routing_table_updated_def RESP_old_deployment_deleted_def

definition getRequestString :: "int \<Rightarrow> string" where
  "getRequestString req =
     (if req = REQ_none then ''none''
      else if req = REQ_create_new_deployment then ''create_new_deployment''
      else if req = REQ_update_routing_table then ''update_routing_table''
      else if req = REQ_delete_old_gw_deployment then ''delete_old_gw_deployment''
      else '''')"

definition getRequestIndex :: "string \<Rightarrow> int" where
  "getRequestIndex req =
     (if req = ''none'' then REQ_none
      else if req = ''create_new_deployment'' then REQ_create_new_deployment
      else if req = ''update_routing_table'' then REQ_update_routing_table
      else if req = ''delete_old_gw_deployment'' then REQ_delete_old_gw_deployment
      else REQ_invalid)"

definition getResponseString :: "int \<Rightarrow> string" where
  "getResponseString resp =
     (if resp = RESP_none then ''none''
      else if resp = RESP_new_deployment_created then ''new_deployment_created''
      else if resp = RESP_routing_table_updated then ''routing_table_updated''
      else if resp = RESP_old_deployment_deleted then ''old_gw_deployment_deleted''
      else '''')"

definition getResponseIndex :: "string \<Rightarrow> int" where
  "getResponseIndex resp =
     (if resp = ''none'' then RESP_none
      else if resp = ''new_deployment_created'' then RESP_new_deployment_created
      else if resp = ''routing_table_updated'' then RESP_routing_table_updated
      else if resp = ''old_gw_deployment_deleted'' then RESP_old_deployment_deleted
      else RESP_invalid)"

section \<open>The finite state machine\<close>

text \<open>
  The table of events given to \<open>fsm.NewFSM\<close>: name, source states, target. An event that the
  current state does not allow is an error, and so is one that does not leave the state.
\<close>

definition fsmEvents :: "(string \<times> string list \<times> string) list" where
  "fsmEvents =
     [(EV_verify_new_deployment_created, [ST_init, ST_new_deployment_created],
       ST_new_deployment_created),
      (EV_update_routing_table, [ST_init, ST_new_deployment_created, ST_slicerouter_updated],
       ST_slicerouter_updated),
      (EV_delete_old_gw_deployment, [ST_init, ST_slicerouter_updated, ST_old_deployment_deleted],
       ST_old_deployment_deleted),
      (EV_on_error,
       [ST_init, ST_new_deployment_created, ST_slicerouter_updated, ST_old_deployment_deleted],
       ST_error),
      (EV_end,
       [ST_init, ST_new_deployment_created, ST_slicerouter_updated, ST_old_deployment_deleted,
        ST_error],
       ST_end)]"

definition fsmEvent :: "string \<Rightarrow> string \<Rightarrow> go_error + string" where
  "fsmEvent current ev =
     (case find (\<lambda>(n, src, dst). n = ev \<and> current \<in> set src) fsmEvents of
        None \<Rightarrow> Inl (Failure ''event inappropriate in current state'')
      | Some (_, _, dst) \<Rightarrow>
          if dst = current then Inl (Failure ''no transition'') else Inr dst)"

definition crIdentifier :: "string \<Rightarrow> string \<Rightarrow> string" where
  "crIdentifier ns n = ns @ ''/'' @ n"

text \<open>\<open>f.Event(ev)\<close> on the machine of the custom resource.\<close>

definition fireEvent :: "string \<Rightarrow> string \<Rightarrow> world \<Rightarrow> go_error option \<times> world" where
  "fireEvent cr ev w =
     (case map_of (o_FSM w) cr of
        None \<Rightarrow> (Some (Failure ''no machine''), w)
      | Some current \<Rightarrow>
         (case fsmEvent current ev of
            Inl e \<Rightarrow> (Some e, w)
          | Inr dst \<Rightarrow> (None, w\<lparr>o_FSM := AList.update cr dst (o_FSM w)\<rparr>)))"

section \<open>Helpers on the worker cluster\<close>

definition withIntermediate :: "string list \<Rightarrow> slice_gateway \<Rightarrow> slice_gateway" where
  "withIntermediate ds g =
     g\<lparr>gw_Config := (gw_Config g)\<lparr>SliceGatewayIntermediateDeployments := ds\<rparr>\<rparr>"

definition requestIntermediate :: "kube \<Rightarrow> string \<Rightarrow> string \<Rightarrow> world \<Rightarrow> go_error option \<times> world" where
  "requestIntermediate K depName sliceGwName w =
     (case r_get (k_slicegws K) ''kubeslice-system'' sliceGwName w of
        (Inl e, w) \<Rightarrow> (Some e, w)
      | (Inr sliceGw, w) \<Rightarrow>
         (let ds = SliceGatewayIntermediateDeployments (gw_Config sliceGw) in
          if list_ex (\<lambda>d. d = depName) ds then (None, w)
          else r_update_status (k_slicegws K) (withIntermediate (ds @ [depName]) sliceGw) w))"

text \<open>Asks the slice gateway controller for a new deployment, if there is none.\<close>

definition CreateNewDeployment :: "kube \<Rightarrow> string \<Rightarrow> string \<Rightarrow> string \<Rightarrow> world
    \<Rightarrow> step_result \<times> world" where
  "CreateNewDeployment K depName sliceName sliceGwName w =
     (case GetDeployments K sliceName sliceGwName w of
        (Inl e, w) \<Rightarrow> ((result_none, Some e, True), w)
      | (Inr deployments, w) \<Rightarrow>
         (if list_ex (\<lambda>d. d_Name d = depName) deployments then ((result_none, None, False), w)
          else
            (case RetryOnConflict DefaultRetry (requestIntermediate K depName sliceGwName) w of
               (Some e, w) \<Rightarrow> ((result_none, Some e, True), w)
             | (None, w) \<Rightarrow> ((result_none, None, False), w))))"

definition CheckIfDeploymentIsPresent :: "kube \<Rightarrow> string \<Rightarrow> string \<Rightarrow> string \<Rightarrow> world
    \<Rightarrow> bool \<times> world" where
  "CheckIfDeploymentIsPresent K depName sliceName sliceGwName w =
     (case GetDeployments K sliceName sliceGwName w of
        (Inl e, w) \<Rightarrow> (False, w)
      | (Inr deployments, w) \<Rightarrow> (list_ex (\<lambda>d. d_Name d = depName) deployments, w))"

text \<open>One attempt of \<open>MarkGwRouteForDeletion\<close>; it panics when the deployment has no pod.\<close>

definition markGwRoute :: "kube \<Rightarrow> string \<Rightarrow> world \<Rightarrow> go_error option go \<times> world" where
  "markGwRoute K depName w =
     (case GetPodForGwDeployment K depName w of
        (Panic, w) \<Rightarrow> (Panic, w)
      | (Ret (Inl NotFound), w) \<Rightarrow> (Ret None, w)
      | (Ret (Inl e), w) \<Rightarrow> (Ret (Some e), w)
      | (Ret (Inr pod), w) \<Rightarrow>
         (if om_Labels (p_meta pod) = [] then (Ret None, w)
          else
            (case r_update (k_pods K)
                (pod\<lparr>p_meta := (p_meta pod)
                       \<lparr>om_Labels := AList.update ''kubeslice.io/exclude-gw-route'' ''true''
                          (om_Labels (p_meta pod))\<rparr>\<rparr>) w of
               (r, w) \<Rightarrow> (Ret r, w))))"

definition MarkGwRouteForDeletion :: "kube \<Rightarrow> string \<Rightarrow> world \<Rightarrow> go_error option go \<times> world" where
  "MarkGwRouteForDeletion K depName w = RetryOnConflict_go DefaultRetry (markGwRoute K depName) w"

text \<open>The callers drop the error: the empty string stands for it as for no address.\<close>

definition GetNsmIPForNewDeployment :: "kube \<Rightarrow> slice_gateway \<Rightarrow> string \<Rightarrow> world
    \<Rightarrow> (go_error + string) \<times> world" where
  "GetNsmIPForNewDeployment K g depName w =
     (case GetNsmIPsForGwDeployment K (gw_Name g) depName w of
        (Inl e, w) \<Rightarrow> (Inl e, w)
      | (Inr [], w) \<Rightarrow> (Inr '''', w)
      | (Inr (ip # _), w) \<Rightarrow> (Inr ip, w))"

definition CheckRouteInSliceRouter :: "kube \<Rightarrow> slice_gateway \<Rightarrow> string \<Rightarrow> world
    \<Rightarrow> (go_error + bool) \<times> world" where
  "CheckRouteInSliceRouter K g gwNsmIP w =
     (case GetSliceRouterPodNameAndIP K (gw_SliceName g) w of
        (Inl e, w) \<Rightarrow> (Inl e, w)
      | (Inr (_, podIP), w) \<Rightarrow>
          k_GetRouteInKernel K (sidecarAddress podIP)
            (SliceGatewayRemoteSubnet (gw_Config g)) gwNsmIP w)"

definition value_or :: "'a \<Rightarrow> (go_error + 'a) \<times> world \<Rightarrow> 'a \<times> world" where
  "value_or d r = (case r of (Inl e, w) \<Rightarrow> (d, w) | (Inr x, w) \<Rightarrow> (x, w))"

definition markDeployment :: "deployment \<Rightarrow> deployment" where
  "markDeployment d =
     d\<lparr>d_meta := (d_meta d)
         \<lparr>om_Labels := AList.update ''kubeslice.io/marked-for-deletion'' ''true''
            (om_Labels (d_meta d))\<rparr>\<rparr>"

definition markForDeletion :: "kube \<Rightarrow> string \<Rightarrow> string \<Rightarrow> string \<Rightarrow> world
    \<Rightarrow> go_error option \<times> world" where
  "markForDeletion K sliceName sliceGwName depName w =
     (case GetDeployments K sliceName sliceGwName w of
        (Inl e, w) \<Rightarrow> (None, w)
      | (Inr deployments, w) \<Rightarrow>
         (case find (\<lambda>d. d_Name d = depName) deployments of
            None \<Rightarrow> (None, w)
          | Some d \<Rightarrow> r_update (k_deployments K) (markDeployment d) w))"

definition withdrawIntermediate :: "kube \<Rightarrow> string \<Rightarrow> string \<Rightarrow> world \<Rightarrow> go_error option \<times> world" where
  "withdrawIntermediate K sliceGwName newDepName w =
     (case r_get (k_slicegws K) ''kubeslice-system'' sliceGwName w of
        (Inl e, w) \<Rightarrow> (Some e, w)
      | (Inr sliceGw, w) \<Rightarrow>
          r_update_status (k_slicegws K)
            (withIntermediate
               (remove1 newDepName (SliceGatewayIntermediateDeployments (gw_Config sliceGw)))
               sliceGw) w)"

definition TriggerGwDeploymentDeletion :: "kube \<Rightarrow> string \<Rightarrow> string \<Rightarrow> string \<Rightarrow> string \<Rightarrow> world
    \<Rightarrow> go_error option \<times> world" where
  "TriggerGwDeploymentDeletion K sliceName sliceGwName depName newDepName w =
     (case RetryOnConflict DefaultRetry (markForDeletion K sliceName sliceGwName depName) w of
        (Some e, w) \<Rightarrow> (Some e, w)
      | (None, w) \<Rightarrow>
          RetryOnConflict DefaultRetry (withdrawIntermediate K sliceGwName newDepName) w)"

section \<open>Updates of the custom resource\<close>

text \<open>The functions retried by \<open>retry.Do\<close>: each reads the resource again before it writes.\<close>

definition setStateAndRequest :: "kube \<Rightarrow> string \<Rightarrow> string \<Rightarrow> string \<Rightarrow> int \<Rightarrow> world
    \<Rightarrow> go_error option \<times> world" where
  "setStateAndRequest K ns n st req w =
     (case r_get (k_recyclers K) ns n w of
        (Inl e, w) \<Rightarrow> (Some e, w)
      | (Inr rc, w) \<Rightarrow>
          r_update (k_recyclers K) (rc\<lparr>rc_State := st, rc_Request := getRequestString req\<rparr>) w)"

definition setResponse :: "kube \<Rightarrow> string \<Rightarrow> string \<Rightarrow> int \<Rightarrow> world \<Rightarrow> go_error option \<times> world" where
  "setResponse K ns n resp w =
     (case r_get (k_recyclers K) ns n w of
        (Inl e, w) \<Rightarrow> (Some e, w)
      | (Inr rc, w) \<Rightarrow>
          r_update_status (k_recyclers K) (rc\<lparr>rc_ClientResponse := getResponseString resp\<rparr>) w)"

text \<open>The end of a server state: post state and request, then fire the event.\<close>

definition advanceServer :: "kube \<Rightarrow> string \<Rightarrow> string \<Rightarrow> string \<Rightarrow> int \<Rightarrow> string \<Rightarrow> ctrl_result \<Rightarrow> world
    \<Rightarrow> reconcile_result" where
  "advanceServer K ns n st req ev res w =
     (case retry_Do 10 (setStateAndRequest K ns n st req) w of
        (Some e, w) \<Rightarrow> (Ret (result_none, Some e), w)
      | (None, w) \<Rightarrow>
         (case fireEvent (crIdentifier ns n) ev w of
            (Some e, w) \<Rightarrow> (Ret (result_none, Some e), w)
          | (None, w) \<Rightarrow> (Ret (res, None), w)))"

definition answerServer :: "kube \<Rightarrow> string \<Rightarrow> string \<Rightarrow> int \<Rightarrow> ctrl_result \<Rightarrow> world
    \<Rightarrow> reconcile_result" where
  "answerServer K ns n resp res w =
     (case retry_Do 10 (setResponse K ns n resp) w of
        (Some e, w) \<Rightarrow> (Ret (result_none, Some e), w)
      | (None, w) \<Rightarrow> (Ret (res, None), w))"

abbreviation wait :: "nat \<Rightarrow> world \<Rightarrow> reconcile_result" where
  "wait n w \<equiv> (Ret (result_after n, None), w)"

section \<open>The server side\<close>

definition serverInit :: "kube \<Rightarrow> string \<Rightarrow> string \<Rightarrow> recycler \<Rightarrow> slice_gateway \<Rightarrow> world
    \<Rightarrow> reconcile_result" where
  "serverInit K ns n rc g w =
     (case CreateNewDeployment K (getNewDeploymentName (rc_ServerID rc)) (gw_SliceName g) (gw_Name g) w of
        ((_, Some e, _), w) \<Rightarrow> (Ret (result_none, Some e), w)
      | ((_, None, _), w) \<Rightarrow>
          advanceServer K ns n ST_new_deployment_created REQ_create_new_deployment
            EV_verify_new_deployment_created result_none w)"

definition serverNewDeploymentCreated :: "kube \<Rightarrow> string \<Rightarrow> string \<Rightarrow> recycler \<Rightarrow> slice_gateway
    \<Rightarrow> world \<Rightarrow> reconcile_result" where
  "serverNewDeploymentCreated K ns n rc g w =
     (let newDep = getNewDeploymentName (rc_ServerID rc) in
      case CheckIfDeploymentIsPresent K newDep (gw_SliceName g) (gw_Name g) w of
        (False, w) \<Rightarrow> wait 10 w
      | (True, w) \<Rightarrow>
         (if getResponseIndex (rc_ClientResponse rc) < RESP_new_deployment_created then wait 10 w
          else
            (case value_or '''' (GetNsmIPForNewDeployment K g newDep w) of
               (nsmIP, w) \<Rightarrow>
                (if nsmIP = '''' then wait 10 w
                 else
                   (case value_or False (CheckRouteInSliceRouter K g nsmIP w) of
                      (False, w) \<Rightarrow> wait 10 w
                    | (True, w) \<Rightarrow>
                        advanceServer K ns n ST_slicerouter_updated REQ_update_routing_table
                          EV_update_routing_table result_none w)))))"

text \<open>
  Whether the route through the old gateway is still there: the check before the old
  deployments are deleted. An error counts as no route.
\<close>

definition oldRouteExists :: "kube \<Rightarrow> slice_gateway \<Rightarrow> string \<Rightarrow> world \<Rightarrow> bool \<times> world" where
  "oldRouteExists K g depName w =
     (case value_or '''' (GetNsmIPForNewDeployment K g depName w) of
        (nsmIP, w) \<Rightarrow>
          (if nsmIP \<noteq> '''' then value_or False (CheckRouteInSliceRouter K g nsmIP w)
           else (False, w)))"

definition serverSlicerouterUpdated :: "kube \<Rightarrow> string \<Rightarrow> string \<Rightarrow> recycler \<Rightarrow> slice_gateway
    \<Rightarrow> world \<Rightarrow> reconcile_result" where
  "serverSlicerouterUpdated K ns n rc g w =
     (case MarkGwRouteForDeletion K (rc_ServerID rc) w of
        (Panic, w) \<Rightarrow> (Panic, w)
      | (Ret (Some e), w) \<Rightarrow> (Ret (result_after 10, Some e), w)
      | (Ret None, w) \<Rightarrow>
         (case oldRouteExists K g (rc_ServerID rc) w of
            (True, w) \<Rightarrow> wait 10 w
          | (False, w) \<Rightarrow>
             (if getResponseIndex (rc_ClientResponse rc) < RESP_routing_table_updated then wait 10 w
              else
                advanceServer K ns n ST_old_deployment_deleted REQ_delete_old_gw_deployment
                  EV_delete_old_gw_deployment (result_after 5) w)))"

definition serverOldDeploymentDeleted :: "kube \<Rightarrow> string \<Rightarrow> string \<Rightarrow> recycler \<Rightarrow> slice_gateway
    \<Rightarrow> world \<Rightarrow> reconcile_result" where
  "serverOldDeploymentDeleted K ns n rc g w =
     (case TriggerGwDeploymentDeletion K (gw_SliceName g) (gw_Name g) (rc_ServerID rc)
         (getNewDeploymentName (rc_ServerID rc)) w of
        (Some e, w) \<Rightarrow> wait 10 w
      | (None, w) \<Rightarrow>
         (case CheckIfDeploymentIsPresent K (rc_ServerID rc) (gw_SliceName g) (gw_Name g) w of
            (True, w) \<Rightarrow> wait 10 w
          | (False, w) \<Rightarrow>
             (if getResponseIndex (rc_ClientResponse rc) < RESP_old_deployment_deleted then wait 10 w
              else advanceServer K ns n ST_end REQ_none EV_end result_none w)))"

definition serverSide :: "kube \<Rightarrow> string \<Rightarrow> string \<Rightarrow> recycler \<Rightarrow> slice_gateway \<Rightarrow> world
    \<Rightarrow> reconcile_result" where
  "serverSide K ns n rc g w =
     (if rc_State rc = ST_init then serverInit K ns n rc g w
      else if rc_State rc = ST_new_deployment_created then serverNewDeploymentCreated K ns n rc g w
      else if rc_State rc = ST_slicerouter_updated then serverSlicerouterUpdated K ns n rc g w
      else if rc_State rc = ST_old_deployment_deleted then serverOldDeploymentDeleted K ns n rc g w
      else if rc_State rc = ST_error then wait 30 w
      else if rc_State rc = ST_end then wait 60 w
      else wait 30 w)"

section \<open>The client side\<close>

definition clientCreate :: "kube \<Rightarrow> string \<Rightarrow> string \<Rightarrow> recycler \<Rightarrow> slice_gateway \<Rightarrow> world
    \<Rightarrow> reconcile_result" where
  "clientCreate K ns n rc g w =
     (if getResponseIndex (rc_ClientResponse rc) \<ge> RESP_new_deployment_created
      then (Ret (result_none, None), w)
      else
        (let depName = getNewDeploymentName (rc_ClientID rc) in
         case CreateNewDeployment K depName (gw_SliceName g) (gw_Name g) w of
           ((_, Some e, _), w) \<Rightarrow> (Ret (result_none, Some e), w)
         | ((_, None, _), w) \<Rightarrow>
            (case value_or '''' (GetNsmIPForNewDeployment K g depName w) of
               (nsmIP, w) \<Rightarrow>
                (if nsmIP = '''' then wait 10 w
                 else
                   (case value_or False (CheckRouteInSliceRouter K g nsmIP w) of
                      (False, w) \<Rightarrow> wait 10 w
                    | (True, w) \<Rightarrow>
                        answerServer K ns n RESP_new_deployment_created result_none w)))))"

definition clientUpdateRoutes :: "kube \<Rightarrow> string \<Rightarrow> string \<Rightarrow> recycler \<Rightarrow> slice_gateway \<Rightarrow> world
    \<Rightarrow> reconcile_result" where
  "clientUpdateRoutes K ns n rc g w =
     (if getResponseIndex (rc_ClientResponse rc) \<ge> RESP_routing_table_updated
      then (Ret (result_none, None), w)
      else
        (case MarkGwRouteForDeletion K (rc_ClientID rc) w of
           (Panic, w) \<Rightarrow> (Panic, w)
         | (Ret (Some e), w) \<Rightarrow> (Ret (result_after 10, Some e), w)
         | (Ret None, w) \<Rightarrow>
            (case oldRouteExists K g (rc_ClientID rc) w of
               (True, w) \<Rightarrow> wait 10 w
             | (False, w) \<Rightarrow> answerServer K ns n RESP_routing_table_updated (result_after 5) w)))"

definition clientDeleteOld :: "kube \<Rightarrow> string \<Rightarrow> string \<Rightarrow> recycler \<Rightarrow> slice_gateway \<Rightarrow> world
    \<Rightarrow> reconcile_result" where
  "clientDeleteOld K ns n rc g w =
     (if getResponseIndex (rc_ClientResponse rc) \<ge> RESP_old_deployment_deleted
      then (Ret (result_none, None), w)
      else
        (case TriggerGwDeploymentDeletion K (gw_SliceName g) (gw_Name g) (rc_ClientID rc)
            (getNewDeploymentName (rc_ClientID rc)) w of
           (Some e, w) \<Rightarrow> wait 10 w
         | (None, w) \<Rightarrow>
            (case CheckIfDeploymentIsPresent K (rc_ClientID rc) (gw_SliceName g) (gw_Name g) w of
               (True, w) \<Rightarrow> wait 10 w
             | (False, w) \<Rightarrow> answerServer K ns n RESP_old_deployment_deleted result_none w)))"

definition clientSide :: "kube \<Rightarrow> string \<Rightarrow> string \<Rightarrow> recycler \<Rightarrow> slice_gateway \<Rightarrow> world
    \<Rightarrow> reconcile_result" where
  "clientSide K ns n rc g w =
     (let req = getRequestIndex (rc_Request rc) in
      if req = REQ_create_new_deployment then clientCreate K ns n rc g w
      else if req = REQ_update_routing_table then clientUpdateRoutes K ns n rc g w
      else if req = REQ_delete_old_gw_deployment then clientDeleteOld K ns n rc g w
      else wait 10 w)"

section \<open>The reconciler\<close>

text \<open>
  The gateway of this cluster that takes part: the server's, else the client's. An error other
  than "not found" on the first read leaves the zero value, which is neither.
\<close>

datatype gateway_lookup = NotForThisCluster | ZeroGateway | Gateway slice_gateway

definition lookupGateway :: "kube \<Rightarrow> recycler \<Rightarrow> world \<Rightarrow> gateway_lookup \<times> world" where
  "lookupGateway K rc w =
     (case r_get (k_slicegws K) ''kubeslice-system'' (rc_SliceGwServer rc) w of
        (Inr g, w) \<Rightarrow> (Gateway g, w)
      | (Inl NotFound, w) \<Rightarrow>
         (case r_get (k_slicegws K) ''kubeslice-system'' (rc_SliceGwClient rc) w of
            (Inl e, w) \<Rightarrow> (NotForThisCluster, w)
          | (Inr g, w) \<Rightarrow> (Gateway g, w))
      | (Inl e, w) \<Rightarrow> (ZeroGateway, w))"

definition ensureMachine :: "string \<Rightarrow> world \<Rightarrow> world" where
  "ensureMachine cr w =
     (case map_of (o_FSM w) cr of
        None \<Rightarrow> w\<lparr>o_FSM := AList.update cr ST_init (o_FSM w)\<rparr>
      | Some _ \<Rightarrow> w)"

definition setMachine :: "string \<Rightarrow> string \<Rightarrow> world \<Rightarrow> world" where
  "setMachine cr st w = w\<lparr>o_FSM := AList.update cr st (o_FSM w)\<rparr>"

definition recyclerReconcile :: "kube \<Rightarrow> string \<Rightarrow> string \<Rightarrow> world \<Rightarrow> reconcile_result" where
  "recyclerReconcile K ns n w =
     (let cr = crIdentifier ns n in
      case r_get (k_recyclers K) ns n w of
        (Inl NotFound, w) \<Rightarrow> (Ret (result_none, None), w\<lparr>o_FSM := AList.delete cr (o_FSM w)\<rparr>)
      | (Inl e, w) \<Rightarrow> (Ret (result_none, Some e), w)
      | (Inr rc, w) \<Rightarrow>
         (case lookupGateway K rc w of
            (NotForThisCluster, w) \<Rightarrow> (Ret (result_none, None), w)
          | (ZeroGateway, w) \<Rightarrow> (Ret (result_none, None), ensureMachine cr w)
          | (Gateway g, w) \<Rightarrow>
             (let w = ensureMachine cr w in
              if isServer g then serverSide K ns n rc g (setMachine cr (rc_State rc) w)
              else if isClient g then clientSide K ns n rc g w
              else (Ret (result_none, None), w))))"

section \<open>What the helpers change\<close>

abbreviation hub_same :: "world \<Rightarrow> world \<Rightarrow> bool" where
  "hub_same w w' \<equiv> h_recyclers w' = h_recyclers w \<and> o_FSM w' = o_FSM w"

abbreviation deps_same :: "world \<Rightarrow> world \<Rightarrow> bool" where
  "deps_same w w' \<equiv> w_deployments w' = w_deployments w"

text \<open>A deployment list in which at most the deployment \<open>d\<close> was marked for deletion.\<close>

definition marks_only :: "string \<Rightarrow> deployment list \<Rightarrow> deployment list \<Rightarrow> bool" where
  "marks_only d ds ds' \<longleftrightarrow> ds' = ds
     \<or> (\<exists>x \<in> set ds. d_Name x = d \<and> ds' = replace_object d_meta (markDeployment x) ds)"

lemma marks_only_refl [simp]: "marks_only d ds ds"
  by (simp add: marks_only_def)

text \<open>What a side sees of a new deployment: it is listed, and the slice router has its route.\<close>

definition deployment_listed :: "slice_gateway \<Rightarrow> string \<Rightarrow> world \<Rightarrow> bool" where
  "deployment_listed g d w \<longleftrightarrow>
     (\<exists>x \<in> set (w_deployments w). d_Name x = d
        \<and> selects d_meta no_phase (in_namespace ControlPlaneNamespace (deploymentLabels g)) x)"

definition route_confirmed :: "kube \<Rightarrow> slice_gateway \<Rightarrow> string \<Rightarrow> world \<Rightarrow> bool" where
  "route_confirmed K g d w \<longleftrightarrow>
     (\<exists>g' \<in> set (w_slicegws w). \<exists>p \<in> set (w_pods w). \<exists>s \<in> set (gw_GatewayPodStatus g').
        gw_Name g' = gw_Name g \<and> PodName s = p_Name p
        \<and> map_of (om_Labels (p_meta p)) ''kubeslice.io/slice-gw-dep'' = Some d
        \<and> LocalNsmIP s \<noteq> ''''
        \<and> (\<exists>podIP w1 w2. k_GetRouteInKernel K (sidecarAddress podIP)
             (SliceGatewayRemoteSubnet (gw_Config g)) (LocalNsmIP s) w1 = (Inr True, w2)))"

definition status_kept :: "world \<Rightarrow> world \<Rightarrow> bool" where
  "status_kept w w' \<longleftrightarrow> w_pods w' = w_pods w
     \<and> (\<forall>g' \<in> set (w_slicegws w'). \<exists>g0 \<in> set (w_slicegws w).
          gw_Name g0 = gw_Name g' \<and> gw_GatewayPodStatus g0 = gw_GatewayPodStatus g')"

lemma status_kept_refl: "status_kept w w"
  by (auto simp: status_kept_def)

lemma status_kept_trans: "status_kept w w1 \<Longrightarrow> status_kept w1 w2 \<Longrightarrow> status_kept w w2"
  unfolding status_kept_def by metis

lemma reads_status_kept: "reads w w' \<Longrightarrow> status_kept w w'"
  by (auto simp: status_kept_def elim!: readsE)

lemma route_confirmed_kept: "status_kept w w' \<Longrightarrow> route_confirmed K g d w' \<Longrightarrow> route_confirmed K g d w"
  unfolding status_kept_def route_confirmed_def by metis

context lawful
begin


lemma GetNsmIPForNewDeployment_reads: "GetNsmIPForNewDeployment K g d w = (r, w') \<Longrightarrow> reads w w'"
  by (auto simp: GetNsmIPForNewDeployment_def split: prod.splits sum.splits list.splits
      dest!: GetNsmIPsForGwDeployment_reads)

lemma CheckRouteInSliceRouter_reads: "CheckRouteInSliceRouter K g ip w = (r, w') \<Longrightarrow> reads w w'"
  by (auto simp: CheckRouteInSliceRouter_def split: prod.splits sum.splits
      dest!: GetSliceRouterPodNameAndIP_reads GetRouteInKernel_reads intro: reads_trans)

lemma value_or_snd: "value_or d x = (r, w') \<Longrightarrow> w' = snd x"
  by (auto simp: value_or_def split: prod.splits sum.splits)

lemma oldRouteExists_reads: "oldRouteExists K g d w = (r, w') \<Longrightarrow> reads w w'"
  by (auto simp: oldRouteExists_def value_or_def split: prod.splits sum.splits if_splits
      dest!: GetNsmIPForNewDeployment_reads CheckRouteInSliceRouter_reads intro: reads_trans)

lemma CheckIfDeploymentIsPresent_reads: "CheckIfDeploymentIsPresent K d a b w = (r, w') \<Longrightarrow> reads w w'"
  by (auto simp: CheckIfDeploymentIsPresent_def split: prod.splits sum.splits
      dest!: GetDeployments_reads)

lemma lookupGateway_reads: "lookupGateway K rc w = (r, w') \<Longrightarrow> reads w w'"
  by (auto simp: lookupGateway_def split: prod.splits sum.splits go_error.splits
      dest!: gw.get_world)


lemma dep_update_recs: "r_update (k_deployments K) d w = (r, w') \<Longrightarrow> hub_same w w'"
  by (cases r) (auto dest!: dep.update_ok dep.update_err)

lemma pod_update_recs: "r_update (k_pods K) d w = (r, w') \<Longrightarrow> hub_same w w'"
  by (cases r) (auto dest!: pod.update_ok pod.update_err)

lemma gw_update_status_recs:
  "r_update_status (k_slicegws K) d w = (r, w') \<Longrightarrow> hub_same w w'"
  by (cases r) (auto dest!: gw.update_status_ok gw.update_status_err)

lemma requestIntermediate_recs:
  "requestIntermediate K d g w = (r, w') \<Longrightarrow> hub_same w w'"
  by (auto simp: requestIntermediate_def Let_def split: prod.splits sum.splits if_splits
      dest!: gw.get_world gw_update_status_recs)

lemma CreateNewDeployment_recs:
  assumes "CreateNewDeployment K d a g w = (r, w')"
  shows "hub_same w w'"
proof -
  have "hub_same w w2"
    if "RetryOnConflict DefaultRetry (requestIntermediate K d g) w1 = (x, w2)"
      "hub_same w w1" for x w1 w2
    using that by (rule RetryOnConflict_keeps [where P = "\<lambda>w'. hub_same w w'"])
      (auto dest: requestIntermediate_recs)
  with assms show ?thesis
    by (auto simp: CreateNewDeployment_def split: prod.splits sum.splits if_splits option.splits
        dest!: GetDeployments_reads elim!: readsE)
qed

lemma markGwRoute_recs: "markGwRoute K d w = (r, w') \<Longrightarrow> hub_same w w'"
  by (auto simp: markGwRoute_def split: prod.splits sum.splits if_splits go.splits go_error.splits
      dest!: GetPodForGwDeployment_reads pod_update_recs elim!: readsE)

lemma MarkGwRouteForDeletion_recs:
  "MarkGwRouteForDeletion K d w = (r, w') \<Longrightarrow> hub_same w w'"
  unfolding MarkGwRouteForDeletion_def
  by (erule RetryOnConflict_go_keeps [where P = "\<lambda>w'. hub_same w w'"])
    (auto dest: markGwRoute_recs)

lemma markForDeletion_recs: "markForDeletion K a g d w = (r, w') \<Longrightarrow> hub_same w w'"
  by (auto simp: markForDeletion_def split: prod.splits sum.splits option.splits
      dest!: GetDeployments_reads dep_update_recs elim!: readsE)

lemma withdrawIntermediate_recs:
  "withdrawIntermediate K g d w = (r, w') \<Longrightarrow> hub_same w w'"
  by (auto simp: withdrawIntermediate_def split: prod.splits sum.splits
      dest!: gw.get_world gw_update_status_recs)

lemma TriggerGwDeploymentDeletion_recs:
  assumes "TriggerGwDeploymentDeletion K a g d n w = (r, w')"
  shows "hub_same w w'"
proof -
  have 1: "hub_same w w2"
    if "RetryOnConflict DefaultRetry (markForDeletion K a g d) w = (x, w2)" for x w2
    using that by (rule RetryOnConflict_keeps [where P = "\<lambda>w'. hub_same w w'"])
      (auto dest: markForDeletion_recs)
  have 2: "hub_same w w2"
    if "RetryOnConflict DefaultRetry (withdrawIntermediate K g n) w1 = (x, w2)"
      "hub_same w w1" for x w1 w2
    using that by (rule RetryOnConflict_keeps [where P = "\<lambda>w'. hub_same w w'"])
      (auto dest: withdrawIntermediate_recs)
  show ?thesis
    using assms by (auto simp: TriggerGwDeploymentDeletion_def split: prod.splits option.splits
        dest: 1 2)
qed

text \<open>A write that failed left the recyclers, one that succeeded wrote what it read.\<close>

lemma setStateAndRequest_ok:
  assumes "setStateAndRequest K ns n st req w = (None, w')"
  shows "\<exists>rc. find (keyed rc_meta ns n) (h_recyclers w) = Some rc \<and>
    h_recyclers w' = replace_object rc_meta
      (rc\<lparr>rc_State := st, rc_Request := getRequestString req\<rparr>) (h_recyclers w)
    \<and> o_FSM w' = o_FSM w \<and> w_deployments w' = w_deployments w"
  using assms
  by (auto simp: setStateAndRequest_def split: prod.splits sum.splits
      dest!: rec.get_ok rec.get_err rec.update_ok rec.update_err)

lemma setStateAndRequest_err:
  assumes "setStateAndRequest K ns n st req w = (Some e, w')"
  shows "h_recyclers w' = h_recyclers w \<and> o_FSM w' = o_FSM w \<and> w_deployments w' = w_deployments w"
  using assms
  by (auto simp: setStateAndRequest_def split: prod.splits sum.splits
      dest!: rec.get_ok rec.get_err rec.update_ok rec.update_err)

lemma setResponse_ok:
  assumes "setResponse K ns n resp w = (None, w')"
  shows "\<exists>rc. find (keyed rc_meta ns n) (h_recyclers w) = Some rc \<and>
    h_recyclers w' = replace_object rc_meta
      (rc\<lparr>rc_ClientResponse := getResponseString resp\<rparr>) (h_recyclers w)
    \<and> o_FSM w' = o_FSM w \<and> w_deployments w' = w_deployments w"
  using assms
  by (auto simp: setResponse_def split: prod.splits sum.splits
      dest!: rec.get_ok rec.get_err rec.update_status_ok rec.update_status_err)

lemma setResponse_err:
  assumes "setResponse K ns n resp w = (Some e, w')"
  shows "h_recyclers w' = h_recyclers w \<and> o_FSM w' = o_FSM w \<and> w_deployments w' = w_deployments w"
  using assms
  by (auto simp: setResponse_def split: prod.splits sum.splits
      dest!: rec.get_ok rec.get_err rec.update_status_ok rec.update_status_err)

lemma pod_update_deps: "r_update (k_pods K) d w = (r, w') \<Longrightarrow> deps_same w w'"
  by (cases r) (auto dest!: pod.update_ok pod.update_err)

lemma gw_update_status_deps: "r_update_status (k_slicegws K) d w = (r, w') \<Longrightarrow> deps_same w w'"
  by (cases r) (auto dest!: gw.update_status_ok gw.update_status_err)

lemma requestIntermediate_deps: "requestIntermediate K d g w = (r, w') \<Longrightarrow> deps_same w w'"
  by (auto simp: requestIntermediate_def Let_def split: prod.splits sum.splits if_splits
      dest!: gw.get_world gw_update_status_deps)

lemma CreateNewDeployment_deps:
  assumes "CreateNewDeployment K d a g w = (r, w')"
  shows "deps_same w w'"
proof -
  have "deps_same w w2"
    if "RetryOnConflict DefaultRetry (requestIntermediate K d g) w1 = (x, w2)"
      "deps_same w w1" for x w1 w2
    using that by (rule RetryOnConflict_keeps [where P = "deps_same w"])
      (auto dest: requestIntermediate_deps)
  with assms show ?thesis
    by (auto simp: CreateNewDeployment_def split: prod.splits sum.splits if_splits option.splits
        dest!: GetDeployments_reads elim!: readsE)
qed

lemma markGwRoute_deps: "markGwRoute K d w = (r, w') \<Longrightarrow> deps_same w w'"
  by (auto simp: markGwRoute_def split: prod.splits sum.splits if_splits go.splits go_error.splits
      dest!: GetPodForGwDeployment_reads pod_update_deps elim!: readsE)

lemma MarkGwRouteForDeletion_deps: "MarkGwRouteForDeletion K d w = (r, w') \<Longrightarrow> deps_same w w'"
  unfolding MarkGwRouteForDeletion_def
  by (erule RetryOnConflict_go_keeps [where P = "deps_same w"]) (auto dest: markGwRoute_deps)

lemma withdrawIntermediate_deps: "withdrawIntermediate K g d w = (r, w') \<Longrightarrow> deps_same w w'"
  by (auto simp: withdrawIntermediate_def split: prod.splits sum.splits
      dest!: gw.get_world gw_update_status_deps)

lemma markForDeletion_deps:
  assumes "markForDeletion K a g d w = (r, w')"
  shows "marks_only d (w_deployments w) (w_deployments w') \<and> (r \<noteq> None \<longrightarrow> deps_same w w')"
proof -
  have u: "r = None \<and> w_deployments w2 = replace_object d_meta ob (w_deployments w1)
      \<or> r \<noteq> None \<and> deps_same w1 w2"
    if "r_update (k_deployments K) ob w1 = (r, w2)" for ob w1 w2
    using that by (cases r) (auto dest!: dep.update_ok dep.update_err)
  show ?thesis
  proof (cases "GetDeployments K a g w")
    case (Pair x w1)
    then have w1: "w_deployments w1 = w_deployments w"
      by (auto dest!: GetDeployments_reads elim!: readsE)
    show ?thesis
    proof (cases x)
      case (Inl e)
      with Pair assms w1 show ?thesis by (simp add: markForDeletion_def)
    next
      case (Inr ds)
      with Pair have ds: "set ds \<subseteq> set (w_deployments w)" by (simp add: GetDeployments_ok)
      show ?thesis
      proof (cases "find (\<lambda>y. d_Name y = d) ds")
        case None
        with Pair Inr assms w1 show ?thesis by (simp add: markForDeletion_def)
      next
        case (Some y)
        then have y: "y \<in> set (w_deployments w)" "d_Name y = d"
          using ds find_Some_iff' [OF Some] by auto
        from Pair Inr Some assms have "r_update (k_deployments K) (markDeployment y) w1 = (r, w')"
          by (simp add: markForDeletion_def)
        from u [OF this] w1 y show ?thesis by (auto simp: marks_only_def)
      qed
    qed
  qed
qed

lemma TriggerGwDeploymentDeletion_deps:
  assumes "TriggerGwDeploymentDeletion K a g d n w = (r, w')"
  shows "marks_only d (w_deployments w) (w_deployments w')"
proof -
  obtain r1 w1 where m: "RetryOnConflict DefaultRetry (markForDeletion K a g d) w = (r1, w1)"
    by fastforce
  have m1: "marks_only d (w_deployments w) (w_deployments w1)"
  proof -
    have c: "\<And>w2 w3. deps_same w w2 \<Longrightarrow> markForDeletion K a g d w2 = (Some Conflict, w3) \<Longrightarrow> deps_same w w3"
      by (drule markForDeletion_deps) simp
    have "deps_same w w1 \<and> r1 = Some Conflict
        \<or> (\<exists>w0. deps_same w w0 \<and> markForDeletion K a g d w0 = (r1, w1))"
      by (rule RetryOnConflict_last [where P = "deps_same w", OF m refl]) (erule c)
    then show ?thesis
    proof
      assume "\<exists>w0. deps_same w w0 \<and> markForDeletion K a g d w0 = (r1, w1)"
      then obtain w0 where "deps_same w w0" "markForDeletion K a g d w0 = (r1, w1)" by blast
      with markForDeletion_deps [OF this(2)] show ?thesis by simp
    qed simp
  qed
  show ?thesis
  proof (cases r1)
    case (Some e)
    with assms m m1 show ?thesis by (simp add: TriggerGwDeploymentDeletion_def)
  next
    case None
    with assms m
    have "RetryOnConflict DefaultRetry (withdrawIntermediate K g n) w1 = (r, w')"
      by (simp add: TriggerGwDeploymentDeletion_def)
    then have "deps_same w1 w'"
      by (rule RetryOnConflict_keeps [where P = "deps_same w1"])
        (auto dest: withdrawIntermediate_deps)
    with m1 show ?thesis by simp
  qed
qed

lemma fireEvent_deps: "fireEvent cr ev w = (r, w') \<Longrightarrow> deps_same w w'"
  by (auto simp: fireEvent_def split: option.splits sum.splits)

lemma retry_keeps_deps:
  assumes "retry_Do m f w = (r, w')" and "\<And>w1 w2 r. f w1 = (r, w2) \<Longrightarrow> deps_same w1 w2"
  shows "deps_same w w'"
proof (cases r)
  case (Some e)
  show ?thesis
    by (rule retry_Do_fails [OF assms(1) [unfolded Some], where P = "deps_same w"])
      (auto dest: assms(2))
next
  case None
  have "\<exists>w1. deps_same w w1 \<and> f w1 = (None, w')"
    by (rule retry_Do_success [OF assms(1) [unfolded None]]) (auto dest: assms(2))
  with assms(2) show ?thesis by fastforce
qed

lemma setStateAndRequest_deps: "setStateAndRequest K ns n st req w = (r, w') \<Longrightarrow> deps_same w w'"
  by (cases r) (auto dest: setStateAndRequest_ok setStateAndRequest_err)

lemma setResponse_deps: "setResponse K ns n resp w = (r, w') \<Longrightarrow> deps_same w w'"
  by (cases r) (auto dest: setResponse_ok setResponse_err)

lemma advanceServer_deps: "advanceServer K ns n st req ev res w = (r, w') \<Longrightarrow> deps_same w w'"
  by (auto simp: advanceServer_def split: prod.splits option.splits
      dest!: fireEvent_deps dest: retry_keeps_deps [OF _ setStateAndRequest_deps])

lemma answerServer_deps: "answerServer K ns n resp res w = (r, w') \<Longrightarrow> deps_same w w'"
  by (auto simp: answerServer_def split: prod.splits option.splits
      dest: retry_keeps_deps [OF _ setResponse_deps])

lemma GetNsmIPForNewDeployment_ok:
  assumes "GetNsmIPForNewDeployment K g d w = (Inr ip, w')" "ip \<noteq> ''''"
  shows "\<exists>g' \<in> set (w_slicegws w). \<exists>p \<in> set (w_pods w). \<exists>s \<in> set (gw_GatewayPodStatus g').
        gw_Name g' = gw_Name g \<and> PodName s = p_Name p
        \<and> map_of (om_Labels (p_meta p)) ''kubeslice.io/slice-gw-dep'' = Some d
        \<and> LocalNsmIP s = ip"
proof -
  from assms obtain ips where ips: "GetNsmIPsForGwDeployment K (gw_Name g) d w = (Inr (ip # ips), w')"
    by (auto simp: GetNsmIPForNewDeployment_def split: prod.splits sum.splits list.splits)
  then obtain g' w1 pods where g': "r_get (k_slicegws K) ControlPlaneNamespace (gw_Name g) w = (Inr g', w1)"
    and pods: "r_list (k_pods K)
      (in_namespace ControlPlaneNamespace [(''kubeslice.io/slice-gw-dep'', d)]) w1 = (Inr pods, w')"
    and eq: "ip # ips = nsm_ips_of_pods pods (gw_GatewayPodStatus g')"
    by (auto simp: GetNsmIPsForGwDeployment_def split: prod.splits sum.splits)
  have "ip \<in> set (nsm_ips_of_pods pods (gw_GatewayPodStatus g'))"
    by (simp flip: eq)
  from nsm_ips_of_podsD [OF this] obtain p s where
    "p \<in> set pods" "s \<in> set (gw_GatewayPodStatus g')" "PodName s = p_Name p" "LocalNsmIP s = ip"
    by blast
  moreover from gw.get_ok [OF g'] have "w1 = tick w" "g' \<in> set (w_slicegws w)"
    "gw_Name g' = gw_Name g"
    by (auto dest: find_Some_iff' simp: keyed_def)
  moreover from pod.list_ok [OF pods] \<open>w1 = tick w\<close> \<open>p \<in> set pods\<close>
  have "p \<in> set (w_pods w)" "map_of (om_Labels (p_meta p)) ''kubeslice.io/slice-gw-dep'' = Some d"
    by (auto simp: selects_def in_namespace_def)
  ultimately show ?thesis by blast
qed

lemma CheckRouteInSliceRouter_ok:
  assumes "CheckRouteInSliceRouter K g ip w = (Inr True, w')"
  shows "\<exists>podIP w1 w2. k_GetRouteInKernel K (sidecarAddress podIP)
             (SliceGatewayRemoteSubnet (gw_Config g)) ip w1 = (Inr True, w2)"
  using assms by (auto simp: CheckRouteInSliceRouter_def split: prod.splits sum.splits)

lemma route_confirmedI:
  assumes "GetNsmIPForNewDeployment K g d w = (Inr ip, w1)" "ip \<noteq> ''''"
    and "CheckRouteInSliceRouter K g ip w2 = (Inr True, w3)"
    and "w_slicegws w = w_slicegws w0" "w_pods w = w_pods w0"
  shows "route_confirmed K g d w0"
  using GetNsmIPForNewDeployment_ok [OF assms(1,2)] CheckRouteInSliceRouter_ok [OF assms(3)] assms(2,4,5)
  unfolding route_confirmed_def by metis

lemma CheckIfDeploymentIsPresent_true:
  assumes "CheckIfDeploymentIsPresent K d (gw_SliceName g) (gw_Name g) w = (True, w')"
  shows "deployment_listed g d w"
  using assms
  by (auto simp: CheckIfDeploymentIsPresent_def GetDeployments_def deployment_listed_def
      deploymentLabels_def list_ex_iff split: prod.splits sum.splits dest!: dep.list_ok)

lemma requestIntermediate_status:
  assumes "requestIntermediate K d g w = (r, w')"
  shows "status_kept w w'"
proof -
  obtain x w1 where get: "r_get (k_slicegws K) ''kubeslice-system'' g w = (x, w1)" by fastforce
  note w1 = gw.get_world [OF get]
  show ?thesis
  proof (cases x)
    case (Inl e)
    with assms get w1 show ?thesis by (auto simp: requestIntermediate_def intro: reads_status_kept)
  next
    case (Inr g0)
    then have g0: "g0 \<in> set (w_slicegws w)" using gw.get_ok get by (blast dest: find_Some_iff')
    let ?g1 = "withIntermediate (SliceGatewayIntermediateDeployments (gw_Config g0) @ [d]) g0"
    consider "w' = w1" | "r_update_status (k_slicegws K) ?g1 w1 = (r, w')"
      using assms get Inr by (auto simp: requestIntermediate_def Let_def split: if_splits)
    then show ?thesis
    proof cases
      case 1
      with w1 show ?thesis by (simp add: reads_status_kept)
    next
      case 2
      then have "w_pods w' = w_pods w \<and> (w_slicegws w' = w_slicegws w
          \<or> w_slicegws w' = replace_object gw_meta ?g1 (w_slicegws w))"
        using w1 by (cases r) (auto dest!: gw.update_status_ok gw.update_status_err)
      moreover have "g' = ?g1 \<or> g' \<in> set (w_slicegws w)" if "g' \<in> set (w_slicegws w')" for g'
        using that calculation by (auto dest: in_replace_object)
      moreover have "gw_Name g0 = gw_Name ?g1 \<and> gw_GatewayPodStatus g0 = gw_GatewayPodStatus ?g1"
        by (simp add: withIntermediate_def)
      ultimately show ?thesis using g0 unfolding status_kept_def by metis
    qed
  qed
qed

lemma CreateNewDeployment_status:
  assumes "CreateNewDeployment K d a g w = (r, w')"
  shows "status_kept w w'"
proof -
  obtain x w1 where x: "GetDeployments K a g w = (x, w1)" by fastforce
  note w1 = reads_status_kept [OF GetDeployments_reads [OF x]]
  have "status_kept w w2"
    if "RetryOnConflict DefaultRetry (requestIntermediate K d g) w1 = (y, w2)" for y w2
    using that w1 by (rule RetryOnConflict_keeps [where P = "status_kept w"])
      (blast intro: status_kept_trans requestIntermediate_status)
  with assms x w1 show ?thesis
    by (auto simp: CreateNewDeployment_def split: sum.splits if_splits prod.splits option.splits)
qed

lemma serverNewDeploymentCreated_guard:
  assumes s: "serverNewDeploymentCreated K ns n rc g w = (r, w')" and "h_recyclers w' \<noteq> h_recyclers w"
  shows "deployment_listed g (getNewDeploymentName (rc_ServerID rc)) w
    \<and> route_confirmed K g (getNewDeploymentName (rc_ServerID rc)) w"
proof -
  let ?d = "getNewDeploymentName (rc_ServerID rc)"
  obtain present w1 where c: "CheckIfDeploymentIsPresent K ?d (gw_SliceName g) (gw_Name g) w
      = (present, w1)" by fastforce
  note w1 = CheckIfDeploymentIsPresent_reads [OF c]
  obtain x w2 where ip: "GetNsmIPForNewDeployment K g ?d w1 = (x, w2)" by fastforce
  note w2 = GetNsmIPForNewDeployment_reads [OF ip]
  obtain y w3 where rt: "CheckRouteInSliceRouter K g (case x of Inl e \<Rightarrow> '''' | Inr i \<Rightarrow> i) w2 = (y, w3)"
    by fastforce
  note w3 = CheckRouteInSliceRouter_reads [OF rt]
  have "present \<and> (\<exists>i. x = Inr i \<and> i \<noteq> '''') \<and> y = Inr True"
    using s assms(2) c ip rt w1 w2 w3
    by (auto simp: serverNewDeploymentCreated_def value_or_def Let_def
        split: bool.splits sum.splits if_splits elim!: readsE)
  then show ?thesis
    using CheckIfDeploymentIsPresent_true c route_confirmedI [of g ?d w1 _ w2 w2 w3 w] ip rt
      reads_sel [OF w1] by auto
qed

lemma clientCreate_guard:
  assumes s: "clientCreate K ns n rc g w = (r, w')" and "h_recyclers w' \<noteq> h_recyclers w"
  shows "route_confirmed K g (getNewDeploymentName (rc_ClientID rc)) w"
proof -
  let ?d = "getNewDeploymentName (rc_ClientID rc)"
  obtain c w1 where c: "CreateNewDeployment K ?d (gw_SliceName g) (gw_Name g) w = (c, w1)" by fastforce
  obtain x w2 where ip: "GetNsmIPForNewDeployment K g ?d w1 = (x, w2)" by fastforce
  note w2 = GetNsmIPForNewDeployment_reads [OF ip]
  obtain y w3 where rt: "CheckRouteInSliceRouter K g (case x of Inl e \<Rightarrow> '''' | Inr i \<Rightarrow> i) w2 = (y, w3)"
    by fastforce
  note w3 = CheckRouteInSliceRouter_reads [OF rt]
  have h: "h_recyclers w1 = h_recyclers w" using CreateNewDeployment_recs [OF c] by simp
  have "(\<exists>i. x = Inr i \<and> i \<noteq> '''') \<and> y = Inr True"
    using s assms(2) c ip rt h w2 w3
    by (auto simp: clientCreate_def value_or_def Let_def
        split: prod.splits option.splits bool.splits sum.splits if_splits elim!: readsE)
  then have "route_confirmed K g ?d w1"
    using route_confirmedI [of g ?d w1 _ w2 w2 w3 w1] ip rt by auto
  then show ?thesis by (rule route_confirmed_kept [OF CreateNewDeployment_status [OF c]])
qed


end

end
