(* ===== verification/RecyclerProtocol.thy ===== *)
theory RecyclerProtocol
  imports Recycler
begin

text \<open>
  The recycling protocol between the two clusters of a tunnel. \<open>Recycler\<close> has the reconciler as
  the code has it; this theory states what it promises: the decisions of both sides
  (\<open>server_next\<close>, \<open>client_next\<close>), the eight phases of the resource, runs of atomic passes
  (\<open>protocol_run\<close>), and a step relation in which a pass reads the resource, decides, and writes
  later, so that both sides interleave (\<open>proto_step\<close>).
\<close>

section \<open>The decisions of both sides\<close>

definition server_next :: "recycler \<Rightarrow> (string \<times> int) option" where
  "server_next rc =
     (let resp = getResponseIndex (rc_ClientResponse rc) in
      if rc_State rc = ST_init then Some (ST_new_deployment_created, REQ_create_new_deployment)
      else if rc_State rc = ST_new_deployment_created \<and> resp \<ge> RESP_new_deployment_created
      then Some (ST_slicerouter_updated, REQ_update_routing_table)
      else if rc_State rc = ST_slicerouter_updated \<and> resp \<ge> RESP_routing_table_updated
      then Some (ST_old_deployment_deleted, REQ_delete_old_gw_deployment)
      else if rc_State rc = ST_old_deployment_deleted \<and> resp \<ge> RESP_old_deployment_deleted
      then Some (ST_end, REQ_none)
      else None)"

definition client_next :: "recycler \<Rightarrow> int option" where
  "client_next rc =
     (let req = getRequestIndex (rc_Request rc); resp = getResponseIndex (rc_ClientResponse rc) in
      if req = REQ_create_new_deployment \<and> resp < RESP_new_deployment_created
      then Some RESP_new_deployment_created
      else if req = REQ_update_routing_table \<and> resp < RESP_routing_table_updated
      then Some RESP_routing_table_updated
      else if req = REQ_delete_old_gw_deployment \<and> resp < RESP_old_deployment_deleted
      then Some RESP_old_deployment_deleted
      else None)"

definition post :: "string \<times> int \<Rightarrow> recycler \<Rightarrow> recycler" where
  "post a rc = rc\<lparr>rc_State := fst a, rc_Request := getRequestString (snd a)\<rparr>"

definition answer :: "int \<Rightarrow> recycler \<Rightarrow> recycler" where
  "answer resp rc = rc\<lparr>rc_ClientResponse := getResponseString resp\<rparr>"

text \<open>
  A pass on a resource that is there is idle, or runs the side that its gateway is on; the
  objects of the world are then those at the start of the pass.
\<close>

definition at_start :: "world \<Rightarrow> world \<Rightarrow> bool" where
  "at_start w w1 \<longleftrightarrow> (\<exists>n f. w1 = w\<lparr>w_calls := n, o_FSM := f\<rparr>)"

lemma at_startE: "at_start w w1 \<Longrightarrow> (\<And>n f. w1 = w\<lparr>w_calls := n, o_FSM := f\<rparr> \<Longrightarrow> P) \<Longrightarrow> P"
  by (auto simp: at_start_def)

lemma at_start_sel:
  "at_start w w1 \<Longrightarrow> h_recyclers w1 = h_recyclers w \<and> w_deployments w1 = w_deployments w
     \<and> w_pods w1 = w_pods w \<and> w_slicegws w1 = w_slicegws w"
  by (auto simp: at_start_def)

lemma reads_at_start: "reads w w1 \<Longrightarrow> at_start w w1"
proof (elim readsE)
  fix n
  assume "w1 = w\<lparr>w_calls := n\<rparr>"
  then have "w1 = w\<lparr>w_calls := n, o_FSM := o_FSM w\<rparr>" by simp
  then show ?thesis unfolding at_start_def by blast
qed

lemma at_start_FSM: "at_start w w1 \<Longrightarrow> at_start w (w1\<lparr>o_FSM := f\<rparr>)"
proof (elim at_startE)
  fix n f1
  assume "w1 = w\<lparr>w_calls := n, o_FSM := f1\<rparr>"
  then have "w1\<lparr>o_FSM := f\<rparr> = w\<lparr>w_calls := n, o_FSM := f\<rparr>" by simp
  then show ?thesis unfolding at_start_def by blast
qed

lemma at_start_ensureMachine: "at_start w w1 \<Longrightarrow> at_start w (ensureMachine cr w1)"
  by (simp add: ensureMachine_def at_start_FSM split: option.splits)

lemma at_start_setMachine: "at_start w w1 \<Longrightarrow> at_start w (setMachine cr st w1)"
  by (simp add: setMachine_def at_start_FSM)


definition server_made :: "kube \<Rightarrow> recycler \<Rightarrow> world \<Rightarrow> bool" where
  "server_made K rc w \<longleftrightarrow>
     (\<exists>g \<in> set (w_slicegws w). isServer g
        \<and> deployment_listed g (getNewDeploymentName (rc_ServerID rc)) w
        \<and> route_confirmed K g (getNewDeploymentName (rc_ServerID rc)) w)"

definition client_made :: "kube \<Rightarrow> recycler \<Rightarrow> world \<Rightarrow> bool" where
  "client_made K rc w \<longleftrightarrow>
     (\<exists>g \<in> set (w_slicegws w). isClient g
        \<and> route_confirmed K g (getNewDeploymentName (rc_ClientID rc)) w)"

lemma at_start_status: "at_start w w1 \<Longrightarrow> status_kept w w1"
  by (auto simp: at_start_def status_kept_def)

lemma at_start_listed: "at_start w w1 \<Longrightarrow> deployment_listed g d w1 = deployment_listed g d w"
  by (auto simp: at_start_def deployment_listed_def)

lemma post_keyed: "rc_meta (post a rc) = rc_meta rc"
  by (simp add: post_def)

lemma answer_keyed: "rc_meta (answer b rc) = rc_meta rc"
  by (simp add: answer_def)

lemma replace_object_inj:
  assumes "find (keyed meta ns n) xs = Some x" "meta y = meta x" "meta z = meta x"
    and "replace_object meta y xs = replace_object meta z xs"
  shows "y = z"
proof -
  have "Some y = Some z"
    using find_replace [OF assms(1,2)] find_replace [OF assms(1,3)]
    unfolding assms(4) by (rule trans [OF sym])
  then show ?thesis by simp
qed

context lawful
begin


lemma fireEvent_recs: "fireEvent cr ev w = (r, w') \<Longrightarrow> h_recyclers w' = h_recyclers w"
  by (auto simp: fireEvent_def split: option.splits sum.splits)

lemma advanceServer_writes:
  assumes "advanceServer K ns n st req ev res w = (r, w')"
    and "find (keyed rc_meta ns n) (h_recyclers w) = Some rc"
  shows "h_recyclers w' = h_recyclers w
    \<or> h_recyclers w' = replace_object rc_meta (post (st, req) rc) (h_recyclers w)"
proof -
  let ?P = "\<lambda>w'. h_recyclers w' = h_recyclers w"
  obtain e w1 where d: "retry_Do 10 (setStateAndRequest K ns n st req) w = (e, w1)" by fastforce
  have keep: "?P w2 \<Longrightarrow> setStateAndRequest K ns n st req w2 = (Some e, w3) \<Longrightarrow> ?P w3" for w2 w3 e
    by (simp add: setStateAndRequest_err)
  show ?thesis
  proof (cases e)
    case (Some e1)
    with retry_Do_fails [OF d [unfolded Some], where P = ?P] keep have "?P w1" by blast
    with assms(1) d Some show ?thesis by (simp add: advanceServer_def)
  next
    case None
    from retry_Do_success [OF d [unfolded None], where P = ?P] keep
    obtain w2 where "?P w2" "setStateAndRequest K ns n st req w2 = (None, w1)" by blast
    with assms(2) have "h_recyclers w1 = replace_object rc_meta (post (st, req) rc) (h_recyclers w)"
      by (auto simp: post_def dest!: setStateAndRequest_ok)
    then show ?thesis
      using assms(1) d None
      by (auto simp: advanceServer_def split: prod.splits option.splits dest!: fireEvent_recs)
  qed
qed

lemma answerServer_writes:
  assumes "answerServer K ns n resp res w = (r, w')"
    and "find (keyed rc_meta ns n) (h_recyclers w) = Some rc"
  shows "h_recyclers w' = h_recyclers w
    \<or> h_recyclers w' = replace_object rc_meta (answer resp rc) (h_recyclers w)"
proof -
  let ?P = "\<lambda>w'. h_recyclers w' = h_recyclers w"
  obtain e w1 where d: "retry_Do 10 (setResponse K ns n resp) w = (e, w1)" by fastforce
  have keep: "?P w2 \<Longrightarrow> setResponse K ns n resp w2 = (Some e, w3) \<Longrightarrow> ?P w3" for w2 w3 e
    by (simp add: setResponse_err)
  have "w' = w1" using assms(1) d by (auto simp: answerServer_def split: option.splits)
  show ?thesis
  proof (cases e)
    case (Some e1)
    with retry_Do_fails [OF d [unfolded Some], where P = ?P] keep have "?P w1" by blast
    with \<open>w' = w1\<close> show ?thesis by simp
  next
    case None
    from retry_Do_success [OF d [unfolded None], where P = ?P] keep
    obtain w2 where "?P w2" "setResponse K ns n resp w2 = (None, w1)" by blast
    with assms(2) show ?thesis
      by (auto simp: answer_def \<open>w' = w1\<close> dest!: setResponse_ok)
  qed
qed

lemma serverInit_writes:
  assumes "serverInit K ns n rc g w = (r, w')"
    and "find (keyed rc_meta ns n) (h_recyclers w) = Some rc"
  shows "h_recyclers w' = h_recyclers w
    \<or> h_recyclers w' = replace_object rc_meta
        (post (ST_new_deployment_created, REQ_create_new_deployment) rc) (h_recyclers w)"
proof -
  obtain x w1 where c: "CreateNewDeployment K (getNewDeploymentName (rc_ServerID rc))
      (gw_SliceName g) (gw_Name g) w = (x, w1)" by fastforce
  have h: "h_recyclers w1 = h_recyclers w" using CreateNewDeployment_recs [OF c] by simp
  show ?thesis
  proof (cases "fst (snd x)")
    case None
    then obtain a b where "x = (a, None, b)" by (cases x) auto
    with c assms(1) have "advanceServer K ns n ST_new_deployment_created REQ_create_new_deployment
            EV_verify_new_deployment_created result_none w1 = (r, w')"
      by (simp add: serverInit_def)
    from advanceServer_writes [OF this, of rc] h assms(2) show ?thesis by simp
  next
    case (Some e)
    then obtain a b where "x = (a, Some e, b)" by (cases x) auto
    with c assms(1) h show ?thesis by (simp add: serverInit_def)
  qed
qed

text \<open>Before the routing tables are switched, the new deployment is there and has its route.\<close>

lemma serverNewDeploymentCreated_writes:
  assumes "serverNewDeploymentCreated K ns n rc g w = (r, w')"
    and "find (keyed rc_meta ns n) (h_recyclers w) = Some rc"
  shows "h_recyclers w' = h_recyclers w
    \<or> h_recyclers w' = replace_object rc_meta
        (post (ST_slicerouter_updated, REQ_update_routing_table) rc) (h_recyclers w)
      \<and> getResponseIndex (rc_ClientResponse rc) \<ge> RESP_new_deployment_created"
proof -
  have a: "advanceServer K ns n st req ev res w1 = (r, w') \<Longrightarrow> h_recyclers w1 = h_recyclers w \<Longrightarrow>
    h_recyclers w' = h_recyclers w
    \<or> h_recyclers w' = replace_object rc_meta (post (st, req) rc) (h_recyclers w)" for st req ev res w1
    using advanceServer_writes [of ns n st req ev res w1 r w' rc] assms(2) by simp
  show ?thesis
    using assms(1)
    by (auto simp: serverNewDeploymentCreated_def value_or_def Let_def
        split: prod.splits bool.splits sum.splits if_splits elim!: readsE
        dest!: CheckIfDeploymentIsPresent_reads GetNsmIPForNewDeployment_reads
          CheckRouteInSliceRouter_reads a)
qed

lemma serverSlicerouterUpdated_writes:
  assumes "serverSlicerouterUpdated K ns n rc g w = (r, w')"
    and "find (keyed rc_meta ns n) (h_recyclers w) = Some rc"
  shows "h_recyclers w' = h_recyclers w
    \<or> h_recyclers w' = replace_object rc_meta
        (post (ST_old_deployment_deleted, REQ_delete_old_gw_deployment) rc) (h_recyclers w)
      \<and> getResponseIndex (rc_ClientResponse rc) \<ge> RESP_routing_table_updated"
proof -
  have a: "advanceServer K ns n st req ev res w1 = (r, w') \<Longrightarrow> h_recyclers w1 = h_recyclers w \<Longrightarrow>
    h_recyclers w' = h_recyclers w
    \<or> h_recyclers w' = replace_object rc_meta (post (st, req) rc) (h_recyclers w)" for st req ev res w1
    using advanceServer_writes [of ns n st req ev res w1 r w' rc] assms(2) by simp
  show ?thesis
    using assms(1)
    by (auto simp: serverSlicerouterUpdated_def
        split: prod.splits bool.splits go.splits option.splits if_splits elim!: readsE
        dest!: MarkGwRouteForDeletion_recs oldRouteExists_reads a)
qed

lemma serverOldDeploymentDeleted_writes:
  assumes "serverOldDeploymentDeleted K ns n rc g w = (r, w')"
    and "find (keyed rc_meta ns n) (h_recyclers w) = Some rc"
  shows "h_recyclers w' = h_recyclers w
    \<or> h_recyclers w' = replace_object rc_meta (post (ST_end, REQ_none) rc) (h_recyclers w)
      \<and> getResponseIndex (rc_ClientResponse rc) \<ge> RESP_old_deployment_deleted"
proof -
  have a: "advanceServer K ns n st req ev res w1 = (r, w') \<Longrightarrow> h_recyclers w1 = h_recyclers w \<Longrightarrow>
    h_recyclers w' = h_recyclers w
    \<or> h_recyclers w' = replace_object rc_meta (post (st, req) rc) (h_recyclers w)" for st req ev res w1
    using advanceServer_writes [of ns n st req ev res w1 r w' rc] assms(2) by simp
  show ?thesis
    using assms(1)
    by (auto simp: serverOldDeploymentDeleted_def
        split: prod.splits bool.splits option.splits if_splits elim!: readsE
        dest!: TriggerGwDeploymentDeletion_recs CheckIfDeploymentIsPresent_reads a)
qed

lemma serverSide_writes:
  assumes "serverSide K ns n rc g w = (r, w')"
    and "find (keyed rc_meta ns n) (h_recyclers w) = Some rc"
  shows "h_recyclers w' = h_recyclers w
    \<or> (\<exists>a. server_next rc = Some a
          \<and> h_recyclers w' = replace_object rc_meta (post a rc) (h_recyclers w))"
  using assms(1)
    serverInit_writes [OF _ assms(2), of g r w']
    serverNewDeploymentCreated_writes [OF _ assms(2), of g r w']
    serverSlicerouterUpdated_writes [OF _ assms(2), of g r w']
    serverOldDeploymentDeleted_writes [OF _ assms(2), of g r w']
  by (auto simp: serverSide_def server_next_def Let_def ST_defs split: if_splits)

lemma clientSide_writes:
  assumes "clientSide K ns n rc g w = (r, w')"
    and "find (keyed rc_meta ns n) (h_recyclers w) = Some rc"
  shows "h_recyclers w' = h_recyclers w
    \<or> (\<exists>b. client_next rc = Some b
          \<and> h_recyclers w' = replace_object rc_meta (answer b rc) (h_recyclers w))"
proof -
  have a: "answerServer K ns n resp res w1 = (r, w') \<Longrightarrow> h_recyclers w1 = h_recyclers w \<Longrightarrow>
    h_recyclers w' = h_recyclers w
    \<or> h_recyclers w' = replace_object rc_meta (answer resp rc) (h_recyclers w)" for resp res w1
    using answerServer_writes [of ns n resp res w1 r w' rc] assms(2) by simp
  have "clientCreate K ns n rc g w = (r, w') \<Longrightarrow> h_recyclers w' = h_recyclers w
    \<or> getResponseIndex (rc_ClientResponse rc) < RESP_new_deployment_created
      \<and> h_recyclers w' = replace_object rc_meta (answer RESP_new_deployment_created rc) (h_recyclers w)"
    by (auto simp: clientCreate_def value_or_def Let_def
        split: prod.splits bool.splits sum.splits option.splits if_splits elim!: readsE
        dest!: CreateNewDeployment_recs GetNsmIPForNewDeployment_reads
          CheckRouteInSliceRouter_reads a)
  moreover have "clientUpdateRoutes K ns n rc g w = (r, w') \<Longrightarrow> h_recyclers w' = h_recyclers w
    \<or> getResponseIndex (rc_ClientResponse rc) < RESP_routing_table_updated
      \<and> h_recyclers w' = replace_object rc_meta (answer RESP_routing_table_updated rc) (h_recyclers w)"
    by (auto simp: clientUpdateRoutes_def
        split: prod.splits bool.splits go.splits option.splits if_splits elim!: readsE
        dest!: MarkGwRouteForDeletion_recs oldRouteExists_reads a)
  moreover have "clientDeleteOld K ns n rc g w = (r, w') \<Longrightarrow> h_recyclers w' = h_recyclers w
    \<or> getResponseIndex (rc_ClientResponse rc) < RESP_old_deployment_deleted
      \<and> h_recyclers w' = replace_object rc_meta (answer RESP_old_deployment_deleted rc) (h_recyclers w)"
    by (auto simp: clientDeleteOld_def
        split: prod.splits bool.splits option.splits if_splits elim!: readsE
        dest!: TriggerGwDeploymentDeletion_recs CheckIfDeploymentIsPresent_reads a)
  ultimately show ?thesis
    using assms(1)
    by (auto simp: clientSide_def client_next_def Let_def REQ_defs split: if_splits)
qed

lemma lookupGateway_Gateway:
  "lookupGateway K rc w = (Gateway g, w') \<Longrightarrow> g \<in> set (w_slicegws w)"
  by (auto simp: lookupGateway_def split: prod.splits sum.splits go_error.splits
      dest!: gw.get_ok gw.get_err dest: find_Some_iff')

lemma recyclerReconcile_cases:
  assumes pass: "recyclerReconcile K ns n w = (r, w')"
    and rc: "find (keyed rc_meta ns n) (h_recyclers w) = Some rc"
  obtains (idle) "at_start w w'" "r \<noteq> Panic"
    | (server) g w1 where "g \<in> set (w_slicegws w)" "isServer g" "at_start w w1"
        "map_of (o_FSM w1) (crIdentifier ns n) = Some (rc_State rc)"
        "serverSide K ns n rc g w1 = (r, w')"
    | (client) g w1 where "g \<in> set (w_slicegws w)" "isClient g" "at_start w w1"
        "clientSide K ns n rc g w1 = (r, w')"
proof -
  obtain x w1 where get: "r_get (k_recyclers K) ns n w = (x, w1)" by fastforce
  then have w1: "reads w w1" by (auto dest: rec.get_world)
  show thesis
  proof (cases x)
    case (Inl e)
    with get rc have "e \<noteq> NotFound" by (auto dest: rec.get_err)
    with Inl get pass have "w' = w1" "r \<noteq> Panic"
      by (cases e; auto simp: recyclerReconcile_def Let_def)+
    with w1 show thesis by (intro idle) (auto intro: reads_at_start)
  next
    case (Inr rc1)
    with get rc have rc1: "rc1 = rc" by (auto dest: rec.get_ok)
    obtain l w2 where l: "lookupGateway K rc w1 = (l, w2)" by fastforce
    let ?cr = "crIdentifier ns n"
    have w2: "at_start w w2"
      using w1 l by (auto intro: reads_at_start reads_trans dest: lookupGateway_reads)
    note e = at_start_ensureMachine [OF w2, of ?cr]
    show thesis
    proof (cases l)
      case NotForThisCluster
      with pass get Inr rc1 l have "w' = w2" "r \<noteq> Panic"
        by (auto simp: recyclerReconcile_def Let_def)
      with w2 show thesis by (intro idle) auto
    next
      case ZeroGateway
      with pass get Inr rc1 l have "w' = ensureMachine ?cr w2" "r \<noteq> Panic"
        by (auto simp: recyclerReconcile_def Let_def)
      with e show thesis by (intro idle) auto
    next
      case (Gateway g)
      with l w1 have g: "g \<in> set (w_slicegws w)"
        by (auto dest!: lookupGateway_Gateway elim!: readsE)
      have pass': "(if isServer g then serverSide K ns n rc g (setMachine ?cr (rc_State rc) (ensureMachine ?cr w2))
              else if isClient g then clientSide K ns n rc g (ensureMachine ?cr w2)
              else (Ret (result_none, None), ensureMachine ?cr w2)) = (r, w')"
        using pass get Inr rc1 l Gateway by (simp add: recyclerReconcile_def Let_def)
      consider "isServer g" | "isClient g" | "\<not> isServer g" "\<not> isClient g" by blast
      then show thesis
      proof cases
        case 1
        with pass' show thesis
          by (intro server [OF g 1 at_start_setMachine [OF e]]) (auto simp: setMachine_def)
      next
        case 2
        then have "\<not> isServer g" by (simp add: isClient_not_isServer)
        with pass' 2 show thesis by (intro client [OF g 2 e]) auto
      next
        case 3
        with pass' e show thesis by (intro idle) auto
      qed
    qed
  qed
qed

lemma recyclerReconcile_writes:
  assumes "recyclerReconcile K ns n w = (r, w')"
    and "find (keyed rc_meta ns n) (h_recyclers w) = Some rc"
  shows "h_recyclers w' = h_recyclers w
    \<or> (\<exists>a. server_next rc = Some a
          \<and> h_recyclers w' = replace_object rc_meta (post a rc) (h_recyclers w))
    \<or> (\<exists>b. client_next rc = Some b
          \<and> h_recyclers w' = replace_object rc_meta (answer b rc) (h_recyclers w))"
  using assms
proof (cases rule: recyclerReconcile_cases)
  case idle
  then show ?thesis by (auto dest: at_start_sel)
next
  case (server g w1)
  with serverSide_writes [of ns n rc g w1 r w'] assms(2) show ?thesis
    by (auto dest!: at_start_sel)
next
  case (client g w1)
  with clientSide_writes [of ns n rc g w1 r w'] assms(2) show ?thesis
    by (auto dest!: at_start_sel)
qed

lemma serverOldDeploymentDeleted_deps:
  assumes "serverOldDeploymentDeleted K ns n rc g w = (r, w')"
  shows "marks_only (rc_ServerID rc) (w_deployments w) (w_deployments w')"
  using assms
  by (auto simp: serverOldDeploymentDeleted_def
      split: prod.splits bool.splits option.splits if_splits elim!: readsE
      dest!: TriggerGwDeploymentDeletion_deps CheckIfDeploymentIsPresent_reads advanceServer_deps)

lemma clientDeleteOld_deps:
  assumes "clientDeleteOld K ns n rc g w = (r, w')"
  shows "marks_only (rc_ClientID rc) (w_deployments w) (w_deployments w')"
  using assms
  by (auto simp: clientDeleteOld_def
      split: prod.splits bool.splits option.splits if_splits elim!: readsE
      dest!: TriggerGwDeploymentDeletion_deps CheckIfDeploymentIsPresent_reads answerServer_deps)

lemma serverSide_deps:
  assumes "serverSide K ns n rc g w = (r, w')"
  shows "deps_same w w' \<or> rc_State rc = ST_old_deployment_deleted
    \<and> marks_only (rc_ServerID rc) (w_deployments w) (w_deployments w')"
proof -
  have 1: "serverInit K ns n rc g w = (r, w') \<Longrightarrow> deps_same w w'"
    by (auto simp: serverInit_def split: prod.splits option.splits
        dest!: CreateNewDeployment_deps advanceServer_deps)
  have 2: "serverNewDeploymentCreated K ns n rc g w = (r, w') \<Longrightarrow> deps_same w w'"
    by (auto simp: serverNewDeploymentCreated_def value_or_def Let_def
        split: prod.splits bool.splits sum.splits if_splits elim!: readsE
        dest!: CheckIfDeploymentIsPresent_reads GetNsmIPForNewDeployment_reads
          CheckRouteInSliceRouter_reads advanceServer_deps)
  have 3: "serverSlicerouterUpdated K ns n rc g w = (r, w') \<Longrightarrow> deps_same w w'"
    by (auto simp: serverSlicerouterUpdated_def
        split: prod.splits bool.splits go.splits option.splits if_splits elim!: readsE
        dest!: MarkGwRouteForDeletion_deps oldRouteExists_reads advanceServer_deps)
  show ?thesis
    using assms 1 2 3 serverOldDeploymentDeleted_deps [of ns n rc g w r w']
    by (auto simp: serverSide_def split: if_splits)
qed

lemma clientSide_deps:
  assumes "clientSide K ns n rc g w = (r, w')"
  shows "deps_same w w' \<or> getRequestIndex (rc_Request rc) = REQ_delete_old_gw_deployment
    \<and> marks_only (rc_ClientID rc) (w_deployments w) (w_deployments w')"
proof -
  have 1: "clientCreate K ns n rc g w = (r, w') \<Longrightarrow> deps_same w w'"
    by (auto simp: clientCreate_def value_or_def Let_def
        split: prod.splits bool.splits sum.splits option.splits if_splits elim!: readsE
        dest!: CreateNewDeployment_deps GetNsmIPForNewDeployment_reads
          CheckRouteInSliceRouter_reads answerServer_deps)
  have 2: "clientUpdateRoutes K ns n rc g w = (r, w') \<Longrightarrow> deps_same w w'"
    by (auto simp: clientUpdateRoutes_def
        split: prod.splits bool.splits go.splits option.splits if_splits elim!: readsE
        dest!: MarkGwRouteForDeletion_deps oldRouteExists_reads answerServer_deps)
  show ?thesis
    using assms 1 2 clientDeleteOld_deps [of ns n rc g w r w']
    by (auto simp: clientSide_def Let_def split: if_splits)
qed

lemma recyclerReconcile_deps:
  assumes "recyclerReconcile K ns n w = (r, w')"
    and "find (keyed rc_meta ns n) (h_recyclers w) = Some rc"
  shows "w_deployments w' = w_deployments w
    \<or> rc_State rc = ST_old_deployment_deleted
        \<and> marks_only (rc_ServerID rc) (w_deployments w) (w_deployments w')
    \<or> getRequestIndex (rc_Request rc) = REQ_delete_old_gw_deployment
        \<and> marks_only (rc_ClientID rc) (w_deployments w) (w_deployments w')"
  using assms
proof (cases rule: recyclerReconcile_cases)
  case idle
  then show ?thesis by (auto dest: at_start_sel)
next
  case (server g w1)
  with serverSide_deps [of ns n rc g w1 r w'] show ?thesis by (auto dest!: at_start_sel)
next
  case (client g w1)
  with clientSide_deps [of ns n rc g w1 r w'] show ?thesis by (auto dest!: at_start_sel)
qed

text \<open>What the resource is after a pass.\<close>

lemma recyclerReconcile_next:
  assumes "recyclerReconcile K ns n w = (r, w')"
    and "find (keyed rc_meta ns n) (h_recyclers w) = Some rc"
    and "find (keyed rc_meta ns n) (h_recyclers w') = Some rc'"
  shows "rc' = rc \<or> (\<exists>a. server_next rc = Some a \<and> rc' = post a rc)
    \<or> (\<exists>b. client_next rc = Some b \<and> rc' = answer b rc)"
  using recyclerReconcile_writes [OF assms(1,2)] find_replace [OF assms(2)] assms(2,3)
  by (auto simp: post_keyed answer_keyed)

lemma recyclerReconcile_server_guard:
  assumes pass: "recyclerReconcile K ns n w = (r, w')"
    and rc: "find (keyed rc_meta ns n) (h_recyclers w) = Some rc"
    and st: "rc_State rc = ST_new_deployment_created"
    and w': "h_recyclers w' = replace_object rc_meta (post a rc) (h_recyclers w)"
    and ch: "h_recyclers w' \<noteq> h_recyclers w" and "fst a \<noteq> rc_State rc"
  shows "server_made K rc w"
  using pass rc
proof (cases rule: recyclerReconcile_cases)
  case idle
  with ch show ?thesis by (auto dest: at_start_sel)
next
  case (server g w1)
  note s = at_start_sel [OF server(3)]
  from server(5) st have "serverNewDeploymentCreated K ns n rc g w1 = (r, w')"
    by (simp add: serverSide_def ST_defs)
  from serverNewDeploymentCreated_guard [OF this] ch s
    route_confirmed_kept [OF at_start_status [OF server(3)]] at_start_listed [OF server(3)] server(1,2)
  show ?thesis unfolding server_made_def by auto
next
  case (client g w1)
  note s = at_start_sel [OF client(3)]
  from rc s have "find (keyed rc_meta ns n) (h_recyclers w1) = Some rc" by simp
  from clientSide_writes [OF client(4) this] s ch obtain b where
    "h_recyclers w' = replace_object rc_meta (answer b rc) (h_recyclers w)" by metis
  from this w' have "replace_object rc_meta (answer b rc) (h_recyclers w)
      = replace_object rc_meta (post a rc) (h_recyclers w)" by (rule trans [OF sym])
  then have "answer b rc = post a rc" by (rule replace_object_inj [OF rc answer_keyed post_keyed])
  then have "rc_State (answer b rc) = rc_State (post a rc)" by simp
  with assms(6) show ?thesis by (simp add: answer_def post_def)
qed

lemma recyclerReconcile_client_guard:
  assumes pass: "recyclerReconcile K ns n w = (r, w')"
    and rc: "find (keyed rc_meta ns n) (h_recyclers w) = Some rc"
    and req: "getRequestIndex (rc_Request rc) = REQ_create_new_deployment"
    and w': "h_recyclers w' = replace_object rc_meta (answer b rc) (h_recyclers w)"
    and ch: "rc_ClientResponse (answer b rc) \<noteq> rc_ClientResponse rc"
  shows "client_made K rc w"
proof -
  have ch': "h_recyclers w' \<noteq> h_recyclers w"
    using find_replace [OF rc answer_keyed [of b rc]] rc w' ch by auto
  show ?thesis
    using pass rc
  proof (cases rule: recyclerReconcile_cases)
    case idle
    with ch' show ?thesis by (auto dest: at_start_sel)
  next
    case (client g w1)
    note s = at_start_sel [OF client(3)]
    from client(4) req have "clientCreate K ns n rc g w1 = (r, w')"
      by (simp add: clientSide_def)
    from clientCreate_guard [OF this] ch' s route_confirmed_kept [OF at_start_status [OF client(3)]] client(1,2)
    show ?thesis unfolding client_made_def by auto
  next
    case (server g w1)
    note s = at_start_sel [OF server(3)]
    from rc s have "find (keyed rc_meta ns n) (h_recyclers w1) = Some rc" by simp
    from serverSide_writes [OF server(5) this] s ch' obtain a where
      "h_recyclers w' = replace_object rc_meta (post a rc) (h_recyclers w)" by metis
    with w' have "replace_object rc_meta (answer b rc) (h_recyclers w)
        = replace_object rc_meta (post a rc) (h_recyclers w)" by (rule trans [OF sym])
    then have "answer b rc = post a rc" by (rule replace_object_inj [OF rc answer_keyed post_keyed])
    then have "rc_ClientResponse (answer b rc) = rc_ClientResponse (post a rc)" by simp
    with ch show ?thesis by (simp add: post_def)
  qed
qed

section \<open>The machine follows the state\<close>

lemma advanceServer_machine:
  assumes "advanceServer K ns n st req ev res w = (r, w')"
    and m: "map_of (o_FSM w) (crIdentifier ns n) = Some cur" and ev: "fsmEvent cur ev = Inr st"
    and ch: "h_recyclers w' \<noteq> h_recyclers w"
  shows "r = Ret (res, None) \<and> map_of (o_FSM w') (crIdentifier ns n) = Some st"
proof -
  let ?P = "\<lambda>w'. h_recyclers w' = h_recyclers w \<and> o_FSM w' = o_FSM w"
  obtain e w1 where d: "retry_Do 10 (setStateAndRequest K ns n st req) w = (e, w1)" by fastforce
  have "e = None"
  proof (rule ccontr)
    assume "e \<noteq> None"
    then obtain e1 where e: "e = Some e1" by blast
    with d have "retry_Do 10 (setStateAndRequest K ns n st req) w = (Some e1, w1)" by simp
    then have "?P w1"
    proof (rule retry_Do_fails)
      show "\<And>w1 w2 e. ?P w1 \<Longrightarrow> setStateAndRequest K ns n st req w1 = (Some e, w2) \<Longrightarrow> ?P w2"
        by (drule setStateAndRequest_err) simp
    qed simp
    with assms(1) d e ch show False by (simp add: advanceServer_def)
  qed
  have "\<exists>w2. ?P w2 \<and> setStateAndRequest K ns n st req w2 = (None, w1)"
  proof (rule retry_Do_success [OF d [unfolded \<open>e = None\<close>]])
    show "\<And>w1 w2 e. ?P w1 \<Longrightarrow> setStateAndRequest K ns n st req w1 = (Some e, w2) \<Longrightarrow> ?P w2"
      by (drule setStateAndRequest_err) simp
  qed simp
  then have "o_FSM w1 = o_FSM w" by (auto dest!: setStateAndRequest_ok)
  with assms(1) d \<open>e = None\<close> m ev show ?thesis
    by (auto simp: advanceServer_def fireEvent_def)
qed

lemma serverSide_machine:
  assumes s: "serverSide K ns n rc g w = (r, w')"
    and m: "map_of (o_FSM w) (crIdentifier ns n) = Some (rc_State rc)"
    and ch: "h_recyclers w' \<noteq> h_recyclers w"
    and rc: "find (keyed rc_meta ns n) (h_recyclers w) = Some rc"
  shows "\<exists>a res. server_next rc = Some a \<and> r = Ret (res, None)
    \<and> map_of (o_FSM w') (crIdentifier ns n) = Some (fst a)"
proof -
  let ?cr = "crIdentifier ns n"
  have adv: "advanceServer K ns n st req ev res w1 = (r, w') \<Longrightarrow> hub_same w w1 \<Longrightarrow>
      fsmEvent (rc_State rc) ev = Inr st \<Longrightarrow>
      (\<exists>res. r = Ret (res, None)) \<and> map_of (o_FSM w') ?cr = Some st" for st req ev res w1
    using advanceServer_machine [of ns n st req ev res w1 r w' "rc_State rc"] m ch by auto
  have 1: "\<exists>res. r = Ret (res, None)" "map_of (o_FSM w') ?cr = Some ST_new_deployment_created"
    if "rc_State rc = ST_init" "serverInit K ns n rc g w = (r, w')"
    using that ch
    by (auto simp: serverInit_def fsmEvent_def fsmEvents_def ST_defs EV_defs
        split: prod.splits option.splits dest!: CreateNewDeployment_recs adv)
  have 2: "\<exists>res. r = Ret (res, None)" "map_of (o_FSM w') ?cr = Some ST_slicerouter_updated"
    if "rc_State rc = ST_new_deployment_created" "serverNewDeploymentCreated K ns n rc g w = (r, w')"
    using that ch
    by (auto simp: serverNewDeploymentCreated_def value_or_def Let_def
        fsmEvent_def fsmEvents_def ST_defs EV_defs elim!: readsE
        split: prod.splits bool.splits sum.splits if_splits
        dest!: CheckIfDeploymentIsPresent_reads GetNsmIPForNewDeployment_reads
          CheckRouteInSliceRouter_reads adv)
  have 3: "\<exists>res. r = Ret (res, None)" "map_of (o_FSM w') ?cr = Some ST_old_deployment_deleted"
    if "rc_State rc = ST_slicerouter_updated" "serverSlicerouterUpdated K ns n rc g w = (r, w')"
    using that ch
    by (auto simp: serverSlicerouterUpdated_def
        fsmEvent_def fsmEvents_def ST_defs EV_defs elim!: readsE
        split: prod.splits bool.splits go.splits option.splits if_splits
        dest!: MarkGwRouteForDeletion_recs oldRouteExists_reads adv)
  have 4: "\<exists>res. r = Ret (res, None)" "map_of (o_FSM w') ?cr = Some ST_end"
    if "rc_State rc = ST_old_deployment_deleted" "serverOldDeploymentDeleted K ns n rc g w = (r, w')"
    using that ch
    by (auto simp: serverOldDeploymentDeleted_def
        fsmEvent_def fsmEvents_def ST_defs EV_defs elim!: readsE
        split: prod.splits bool.splits option.splits if_splits
        dest!: TriggerGwDeploymentDeletion_recs CheckIfDeploymentIsPresent_reads adv)
  from serverSide_writes [OF s rc] ch obtain a where a: "server_next rc = Some a" by blast
  consider "rc_State rc = ST_init" "fst a = ST_new_deployment_created"
    | "rc_State rc = ST_new_deployment_created" "fst a = ST_slicerouter_updated"
    | "rc_State rc = ST_slicerouter_updated" "fst a = ST_old_deployment_deleted"
    | "rc_State rc = ST_old_deployment_deleted" "fst a = ST_end"
    using a by (auto simp: server_next_def Let_def split: if_splits)
  then show ?thesis
  proof cases
    case c: 1
    with s have "serverInit K ns n rc g w = (r, w')" by (simp add: serverSide_def)
    from 1 [OF c(1) this] a c show ?thesis by auto
  next
    case c: 2
    with s have "serverNewDeploymentCreated K ns n rc g w = (r, w')"
      by (simp add: serverSide_def ST_defs)
    from 2 [OF c(1) this] a c show ?thesis by auto
  next
    case c: 3
    with s have "serverSlicerouterUpdated K ns n rc g w = (r, w')"
      by (simp add: serverSide_def ST_defs)
    from 3 [OF c(1) this] a c show ?thesis by auto
  next
    case c: 4
    with s have "serverOldDeploymentDeleted K ns n rc g w = (r, w')"
      by (simp add: serverSide_def ST_defs)
    from 4 [OF c(1) this] a c show ?thesis by auto
  qed
qed


end

section \<open>The eight phases\<close>

text \<open>State, request and response, in the order in which a recycling goes through them.\<close>

definition phases :: "(string \<times> string \<times> string) list" where
  "phases =
     [(''init'', ''verify_new_deployment_created'', ''''),
      (''new_deployment_created_state'', ''create_new_deployment'', ''''),
      (''new_deployment_created_state'', ''create_new_deployment'', ''new_deployment_created''),
      (''slicerouter_updated_state'', ''update_routing_table'', ''new_deployment_created''),
      (''slicerouter_updated_state'', ''update_routing_table'', ''routing_table_updated''),
      (''old_deployment_deleted_state'', ''delete_old_gw_deployment'', ''routing_table_updated''),
      (''old_deployment_deleted_state'', ''delete_old_gw_deployment'', ''old_gw_deployment_deleted''),
      (''end'', ''none'', ''old_gw_deployment_deleted'')]"

definition in_phase :: "nat \<Rightarrow> recycler \<Rightarrow> bool" where
  "in_phase i rc \<longleftrightarrow> i < length phases
     \<and> phases ! i = (rc_State rc, rc_Request rc, rc_ClientResponse rc)"

lemma phase_cases:
  assumes "in_phase i rc"
  shows "i = 0 \<and> rc_State rc = ''init'' \<and> rc_Request rc = ''verify_new_deployment_created'' \<and> rc_ClientResponse rc = ''''
    \<or> i = 1 \<and> rc_State rc = ''new_deployment_created_state'' \<and> rc_Request rc = ''create_new_deployment'' \<and> rc_ClientResponse rc = ''''
    \<or> i = 2 \<and> rc_State rc = ''new_deployment_created_state'' \<and> rc_Request rc = ''create_new_deployment'' \<and> rc_ClientResponse rc = ''new_deployment_created''
    \<or> i = 3 \<and> rc_State rc = ''slicerouter_updated_state'' \<and> rc_Request rc = ''update_routing_table'' \<and> rc_ClientResponse rc = ''new_deployment_created''
    \<or> i = 4 \<and> rc_State rc = ''slicerouter_updated_state'' \<and> rc_Request rc = ''update_routing_table'' \<and> rc_ClientResponse rc = ''routing_table_updated''
    \<or> i = 5 \<and> rc_State rc = ''old_deployment_deleted_state'' \<and> rc_Request rc = ''delete_old_gw_deployment'' \<and> rc_ClientResponse rc = ''routing_table_updated''
    \<or> i = 6 \<and> rc_State rc = ''old_deployment_deleted_state'' \<and> rc_Request rc = ''delete_old_gw_deployment'' \<and> rc_ClientResponse rc = ''old_gw_deployment_deleted''
    \<or> i = 7 \<and> rc_State rc = ''end'' \<and> rc_Request rc = ''none'' \<and> rc_ClientResponse rc = ''old_gw_deployment_deleted''"
proof -
  from assms have "i < 8" "phases ! i = (rc_State rc, rc_Request rc, rc_ClientResponse rc)"
    by (simp_all add: in_phase_def phases_def)
  moreover from \<open>i < 8\<close> have "i = 0 \<or> i = 1 \<or> i = 2 \<or> i = 3 \<or> i = 4 \<or> i = 5 \<or> i = 6 \<or> i = 7"
    by presburger
  ultimately show ?thesis by (elim disjE) (simp_all add: phases_def)
qed

lemma server_next_phase:
  assumes "in_phase i rc" and "server_next rc = Some a"
  shows "in_phase (Suc i) (post a rc) \<and> i \<in> {0, 2, 4, 6}"
  using phase_cases [OF assms(1)] assms(2)
  by (elim disjE; simp add: server_next_def post_def in_phase_def phases_def Let_def ST_defs
      getResponseIndex_def RESP_defs getRequestString_def REQ_defs split: if_splits)
    (auto simp: getRequestString_def REQ_defs)

lemma client_next_phase:
  assumes "in_phase i rc" and "client_next rc = Some b"
  shows "in_phase (Suc i) (answer b rc) \<and> i \<in> {1, 3, 5}"
  using phase_cases [OF assms(1)] assms(2)
  by (elim disjE; simp add: client_next_def answer_def in_phase_def phases_def Let_def
      getRequestIndex_def getResponseIndex_def RESP_defs getResponseString_def REQ_defs split: if_splits)

lemma phase_progress:
  assumes "in_phase i rc" and "i < 7"
  shows "server_next rc \<noteq> None \<or> client_next rc \<noteq> None"
  using phase_cases [OF assms(1)] assms(2)
  by (elim disjE; simp add: server_next_def client_next_def Let_def ST_defs
      getRequestIndex_def getResponseIndex_def RESP_defs REQ_defs)

lemma post_IDs:
  "rc_ServerID (post a rc) = rc_ServerID rc" "rc_ClientID (post a rc) = rc_ClientID rc"
  by (simp_all add: post_def)

lemma answer_IDs:
  "rc_ServerID (answer b rc) = rc_ServerID rc" "rc_ClientID (answer b rc) = rc_ClientID rc"
  by (simp_all add: answer_def)

section \<open>Runs of passes\<close>

text \<open>
  A run of the protocol: passes of the two operators on the resource, in any order, each in a
  world of its own. Between passes everything but the resource may change at will: the
  deployments, pods and gateways of either cluster, the memory of either operator, the number
  and the outcome of remote calls. A pass is recorded with its clients and its worlds.
\<close>

type_synonym pass = "kube \<times> world \<times> world"

inductive protocol_run :: "string \<Rightarrow> string \<Rightarrow> recycler \<Rightarrow> pass list \<Rightarrow> recycler \<Rightarrow> bool"
  for ns n :: string and rc0 :: recycler where
  run_start: "protocol_run ns n rc0 [] rc0"
| run_pass: "protocol_run ns n rc0 (ps @ [(K, w, w')]) rc'"
    if "protocol_run ns n rc0 ps rc" and "lawful K"
      and "find (keyed rc_meta ns n) (h_recyclers w) = Some rc"
      and "recyclerReconcile K ns n w = (r, w')"
      and "find (keyed rc_meta ns n) (h_recyclers w') = Some rc'"

inductive_cases protocol_run_snoc: "protocol_run ns n rc0 (ps @ [(K, w, w')]) rc'"

context lawful
begin

lemma recyclerReconcile_phase:
  assumes pass: "recyclerReconcile K ns n w = (r, w')"
    and rc: "find (keyed rc_meta ns n) (h_recyclers w) = Some rc"
    and rc': "find (keyed rc_meta ns n) (h_recyclers w') = Some rc'"
    and ph: "in_phase i rc"
  shows "rc' = rc \<or> i < 7 \<and> in_phase (Suc i) rc'
      \<and> (i = 2 \<longrightarrow> server_made K rc w) \<and> (i = 1 \<longrightarrow> client_made K rc w)
      \<and> rc_ServerID rc' = rc_ServerID rc \<and> rc_ClientID rc' = rc_ClientID rc"
proof (cases "rc' = rc")
  case False
  then have ch: "h_recyclers w' \<noteq> h_recyclers w" using rc rc' by auto
  from recyclerReconcile_writes [OF pass rc] ch
  consider a where "server_next rc = Some a"
      "h_recyclers w' = replace_object rc_meta (post a rc) (h_recyclers w)"
    | b where "client_next rc = Some b"
      "h_recyclers w' = replace_object rc_meta (answer b rc) (h_recyclers w)"
    by blast
  then show ?thesis
  proof cases
    case 1
    note p = server_next_phase [OF ph 1(1)]
    have eq: "rc' = post a rc" using find_replace [OF rc post_keyed [of a rc]] rc' 1(2) by simp
    have "server_made K rc w" if "i = 2"
    proof -
      have st: "rc_State rc = ST_new_deployment_created"
        using phase_cases [OF ph] that by (auto simp: ST_defs)
      then have "fst a \<noteq> rc_State rc"
        using 1(1) by (auto simp: server_next_def Let_def ST_defs split: if_splits)
      with recyclerReconcile_server_guard [OF pass rc st 1(2) ch] show ?thesis by blast
    qed
    with p eq show ?thesis by (auto simp: post_IDs)
  next
    case 2
    note p = client_next_phase [OF ph 2(1)]
    have eq: "rc' = answer b rc" using find_replace [OF rc answer_keyed [of b rc]] rc' 2(2) by simp
    have "client_made K rc w" if "i = 1"
    proof -
      have req: "getRequestIndex (rc_Request rc) = REQ_create_new_deployment"
        using phase_cases [OF ph] that by (auto simp: getRequestIndex_def)
      have "rc_ClientResponse (answer b rc) \<noteq> rc_ClientResponse rc"
        using False eq by (auto simp: answer_def)
      with recyclerReconcile_client_guard [OF pass rc req 2(2)] show ?thesis by blast
    qed
    with p eq show ?thesis by (auto simp: answer_IDs)
  qed
qed simp

end

lemma server_made_ID: "rc_ServerID rc = rc_ServerID rc0 \<Longrightarrow> server_made K rc w = server_made K rc0 w"
  by (simp add: server_made_def)

lemma client_made_ID: "rc_ClientID rc = rc_ClientID rc0 \<Longrightarrow> client_made K rc w = client_made K rc0 w"
  by (simp add: client_made_def)

text \<open>What holds along every run that starts with a new resource.\<close>

definition run_inv :: "recycler \<Rightarrow> pass list \<Rightarrow> recycler \<Rightarrow> bool" where
  "run_inv rc0 ps rc \<longleftrightarrow>
     rc_ServerID rc = rc_ServerID rc0 \<and> rc_ClientID rc = rc_ClientID rc0
     \<and> (\<exists>i. in_phase i rc
          \<and> (2 \<le> i \<longrightarrow> (\<exists>(K, w, w') \<in> set ps. client_made K rc0 w))
          \<and> (3 \<le> i \<longrightarrow> (\<exists>(K, w, w') \<in> set ps. server_made K rc0 w)))"

lemma run_inv_pass:
  assumes inv: "run_inv rc0 ps rc" and K: "lawful K"
    and pass: "recyclerReconcile K ns n w = (r, w')"
    and rc: "find (keyed rc_meta ns n) (h_recyclers w) = Some rc"
    and rc': "find (keyed rc_meta ns n) (h_recyclers w') = Some rc'"
  shows "run_inv rc0 (ps @ [(K, w, w')]) rc'"
proof -
  from inv obtain i where ids: "rc_ServerID rc = rc_ServerID rc0" "rc_ClientID rc = rc_ClientID rc0"
    and i: "in_phase i rc"
    and c: "2 \<le> i \<longrightarrow> (\<exists>(K, w, w') \<in> set ps. client_made K rc0 w)"
    and s: "3 \<le> i \<longrightarrow> (\<exists>(K, w, w') \<in> set ps. server_made K rc0 w)"
    by (auto simp: run_inv_def)
  from lawful.recyclerReconcile_phase [OF K pass rc rc' i]
  consider "rc' = rc"
    | "in_phase (Suc i) rc'" "i = 2 \<longrightarrow> server_made K rc w" "i = 1 \<longrightarrow> client_made K rc w"
      "rc_ServerID rc' = rc_ServerID rc" "rc_ClientID rc' = rc_ClientID rc"
    by blast
  then show ?thesis
  proof cases
    case 1
    with ids i c s show ?thesis by (auto simp: run_inv_def)
  next
    case 2
    have "2 \<le> Suc i \<longrightarrow> (\<exists>(K, w, w') \<in> set (ps @ [(K, w, w')]). client_made K rc0 w)"
      using 2(3) c client_made_ID [OF ids(2)] by (cases "i = 1") auto
    moreover have "3 \<le> Suc i \<longrightarrow> (\<exists>(K, w, w') \<in> set (ps @ [(K, w, w')]). server_made K rc0 w)"
      using 2(2) s server_made_ID [OF ids(1)] by (cases "i = 2") auto
    ultimately show ?thesis using 2(1,4,5) ids
      unfolding run_inv_def by (intro conjI exI [of _ "Suc i"]) simp_all
  qed
qed

lemma protocol_run_inv:
  "protocol_run ns n rc0 ps rc \<Longrightarrow> in_phase 0 rc0 \<Longrightarrow> run_inv rc0 ps rc"
proof (induction rule: protocol_run.induct)
  case run_start
  then show ?case by (auto simp: run_inv_def)
next
  case (run_pass ps rc K w r w' rc')
  then show ?case by (blast intro: run_inv_pass)
qed

section \<open>Interleaved passes\<close>

text \<open>
  A pass is not atomic: it decides on a copy of the resource read at its start, and writes
  later, after the other side may have written. The state of this finer model is the resource
  with the decision that each side still has to write. A pass that fails drops its decision.
\<close>

record proto =
  pr_rc :: recycler
  pr_server :: "(string \<times> int) option"
  pr_client :: "int option"

definition proto_init :: "proto \<Rightarrow> bool" where
  "proto_init s \<longleftrightarrow> in_phase 0 (pr_rc s) \<and> pr_server s = None \<and> pr_client s = None"

inductive proto_step :: "proto \<Rightarrow> proto \<Rightarrow> bool" where
  server_decides: "proto_step s (s\<lparr>pr_server := Some a\<rparr>)"
    if "pr_server s = None" "server_next (pr_rc s) = Some a"
| server_writes: "proto_step s (s\<lparr>pr_rc := post a (pr_rc s), pr_server := None\<rparr>)"
    if "pr_server s = Some a"
| server_fails: "proto_step s (s\<lparr>pr_server := None\<rparr>)"
| client_decides: "proto_step s (s\<lparr>pr_client := Some b\<rparr>)"
    if "pr_client s = None" "client_next (pr_rc s) = Some b"
| client_writes: "proto_step s (s\<lparr>pr_rc := answer b (pr_rc s), pr_client := None\<rparr>)"
    if "pr_client s = Some b"
| client_fails: "proto_step s (s\<lparr>pr_client := None\<rparr>)"

inductive_cases proto_stepE: "proto_step s s'"

definition phase_of :: "recycler \<Rightarrow> nat" where
  "phase_of rc =
     length (takeWhile (\<lambda>p. p \<noteq> (rc_State rc, rc_Request rc, rc_ClientResponse rc)) phases)"

definition proto_inv :: "proto \<Rightarrow> bool" where
  "proto_inv s \<longleftrightarrow> in_phase (phase_of (pr_rc s)) (pr_rc s)
     \<and> (\<forall>a. pr_server s = Some a \<longrightarrow> server_next (pr_rc s) = Some a)
     \<and> (\<forall>b. pr_client s = Some b \<longrightarrow> client_next (pr_rc s) = Some b)"

lemma phase_of_eq: "in_phase i rc \<Longrightarrow> phase_of rc = i"
  by (drule phase_cases) (elim disjE; simp add: phase_of_def phases_def)

lemma one_side: "in_phase i rc \<Longrightarrow> server_next rc = None \<or> client_next rc = None"
  using server_next_phase [of i rc] client_next_phase [of i rc]
  by (cases "server_next rc"; cases "client_next rc") auto

lemma proto_inv_step:
  assumes inv: "proto_inv s" and step: "proto_step s s'"
  shows "proto_inv s' \<and> (phase_of (pr_rc s') = phase_of (pr_rc s)
     \<or> phase_of (pr_rc s') = Suc (phase_of (pr_rc s)))"
  using step
proof (cases rule: proto_step.cases)
  case (server_writes a)
  from inv server_writes have ph: "in_phase (phase_of (pr_rc s)) (pr_rc s)"
    and a: "server_next (pr_rc s) = Some a" by (auto simp: proto_inv_def)
  from one_side [OF ph] a inv have "pr_client s = None" by (auto simp: proto_inv_def)
  moreover have "in_phase (Suc (phase_of (pr_rc s))) (post a (pr_rc s))"
    using server_next_phase [OF ph a] by blast
  ultimately show ?thesis
    using phase_of_eq server_writes by (auto simp: proto_inv_def)
next
  case (client_writes b)
  from inv client_writes have ph: "in_phase (phase_of (pr_rc s)) (pr_rc s)"
    and b: "client_next (pr_rc s) = Some b" by (auto simp: proto_inv_def)
  from one_side [OF ph] b inv have "pr_server s = None"
    by (cases "pr_server s") (auto simp: proto_inv_def)
  moreover have "in_phase (Suc (phase_of (pr_rc s))) (answer b (pr_rc s))"
    using client_next_phase [OF ph b] by blast
  ultimately show ?thesis
    using phase_of_eq client_writes by (auto simp: proto_inv_def)
qed (use inv in \<open>auto simp: proto_inv_def\<close>)

interpretation recycling: ranked_system proto_init proto_step proto_inv "\<lambda>s. phase_of (pr_rc s)"
proof
  fix s s'
  show "proto_init s \<Longrightarrow> proto_inv s"
    by (auto simp: proto_init_def proto_inv_def phase_of_eq)
  show "proto_inv s \<Longrightarrow> proto_step s s' \<Longrightarrow> proto_inv s'"
    using proto_inv_step by blast
  show "proto_inv s \<Longrightarrow> proto_step s s' \<Longrightarrow> phase_of (pr_rc s) \<le> phase_of (pr_rc s')"
    using proto_inv_step by fastforce
qed

section \<open>Panics\<close>

lemma pod_panic:
  "GetPodForGwDeployment K d w = (Panic, w') \<Longrightarrow>
     \<exists>w1. r_list (k_pods K) (in_namespace ControlPlaneNamespace [(''kubeslice.io/slice-gw-dep'', d)]) w
       = (Inr [], w1)"
  by (auto simp: GetPodForGwDeployment_def split: prod.splits sum.splits list.splits)

text \<open>No pod of the deployment \<open>d\<close>.\<close>

definition no_pod_of :: "string \<Rightarrow> world \<Rightarrow> bool" where
  "no_pod_of d w \<longleftrightarrow>
     (\<forall>p \<in> set (w_pods w). \<not> selects p_meta p_Phase
        (in_namespace ControlPlaneNamespace [(''kubeslice.io/slice-gw-dep'', d)]) p)"

context lawful
begin

lemma markGwRoute_panic:
  assumes "markGwRoute K d w = (Panic, w')"
  shows "no_pod_of d w"
proof -
  from assms obtain w1 where "GetPodForGwDeployment K d w = (Panic, w1)"
    by (auto simp: markGwRoute_def split: prod.splits go.splits sum.splits go_error.splits if_splits)
  from pod_panic [OF this] obtain w2 where
    "r_list (k_pods K) (in_namespace ControlPlaneNamespace [(''kubeslice.io/slice-gw-dep'', d)]) w
       = (Inr [], w2)" by blast
  from pod.list_ok [OF this] show ?thesis by (auto simp: no_pod_of_def filter_empty_conv dest!: sym [of "[]"])
qed

lemma markGwRoute_conflict:
  assumes "markGwRoute K d w = (Ret (Some Conflict), w')"
  shows "w_pods w' = w_pods w"
proof -
  have u: "w_pods w2 = w_pods w1" if "r_update (k_pods K) p w1 = (Some e, w2)" for p w1 w2 e
    using pod.update_err [OF that] by simp
  show ?thesis
    using assms
    by (auto simp: markGwRoute_def split: prod.splits go.splits sum.splits go_error.splits if_splits
        dest!: GetPodForGwDeployment_reads elim!: readsE dest: u)
qed

lemma MarkGwRouteForDeletion_panic:
  assumes "MarkGwRouteForDeletion K d w = (Panic, w')"
  shows "no_pod_of d w"
proof -
  let ?P = "\<lambda>w'. w_pods w' = w_pods w"
  have "?P w' \<and> Panic = Ret (Some Conflict) \<or> (\<exists>w0. ?P w0 \<and> markGwRoute K d w0 = (Panic, w'))"
    by (rule RetryOnConflict_go_last [OF assms [unfolded MarkGwRouteForDeletion_def]])
      (auto dest: markGwRoute_conflict)
  then obtain w0 where "?P w0" "markGwRoute K d w0 = (Panic, w')" by auto
  from markGwRoute_panic [OF this(2)] \<open>?P w0\<close> show ?thesis by (simp add: no_pod_of_def)
qed

lemma advanceServer_returns: "advanceServer K ns n st req ev res w = (r, w') \<Longrightarrow> r \<noteq> Panic"
  by (auto simp: advanceServer_def split: prod.splits option.splits)

lemma answerServer_returns: "answerServer K ns n resp res w = (r, w') \<Longrightarrow> r \<noteq> Panic"
  by (auto simp: answerServer_def split: prod.splits option.splits)

lemma serverSide_panic:
  assumes "serverSide K ns n rc g w = (Panic, w')"
  shows "rc_State rc = ST_slicerouter_updated \<and> no_pod_of (rc_ServerID rc) w"
  using assms
  by (auto simp: serverSide_def serverInit_def serverNewDeploymentCreated_def
      serverSlicerouterUpdated_def serverOldDeploymentDeleted_def Let_def
      split: if_splits prod.splits option.splits bool.splits go.splits
      dest: MarkGwRouteForDeletion_panic advanceServer_returns)

lemma clientSide_panic:
  assumes "clientSide K ns n rc g w = (Panic, w')"
  shows "getRequestIndex (rc_Request rc) = REQ_update_routing_table
    \<and> getResponseIndex (rc_ClientResponse rc) < RESP_routing_table_updated
    \<and> no_pod_of (rc_ClientID rc) w"
  using assms
  by (auto simp: clientSide_def clientCreate_def clientUpdateRoutes_def clientDeleteOld_def Let_def
      split: if_splits prod.splits option.splits bool.splits go.splits
      dest: MarkGwRouteForDeletion_panic answerServer_returns)

end

section \<open>What the protocol keeps\<close>

text \<open>
  C1: make before break. Along any run of the recycling protocol that starts with a new resource,
  a pass that changes the deployments of its cluster only marks one of the two old deployments
  for deletion, and before it there was a pass in which the server side saw its new deployment
  listed with its route in the slice router, and one in which the client side saw the route of
  its own new deployment.
\<close>

theorem recycler_make_before_break:
  assumes "protocol_run ns n rc0 (ps @ [(K, w, w')]) rc"
    and "in_phase 0 rc0"
    and "w_deployments w' \<noteq> w_deployments w"
  shows "(\<exists>(K1, u, u') \<in> set ps. client_made K1 rc0 u)
    \<and> (\<exists>(K1, u, u') \<in> set ps. server_made K1 rc0 u)
    \<and> (marks_only (rc_ServerID rc0) (w_deployments w) (w_deployments w')
       \<or> marks_only (rc_ClientID rc0) (w_deployments w) (w_deployments w'))"
proof -
  from assms(1) obtain rc1 r where run: "protocol_run ns n rc0 ps rc1" and K: "lawful K"
    and rc1: "find (keyed rc_meta ns n) (h_recyclers w) = Some rc1"
    and pass: "recyclerReconcile K ns n w = (r, w')"
    by (cases rule: protocol_run.cases) auto
  from protocol_run_inv [OF run assms(2)] obtain i where
    ids: "rc_ServerID rc1 = rc_ServerID rc0" "rc_ClientID rc1 = rc_ClientID rc0"
    and i: "in_phase i rc1"
    and c: "2 \<le> i \<longrightarrow> (\<exists>(K, w, w') \<in> set ps. client_made K rc0 w)"
    and s: "3 \<le> i \<longrightarrow> (\<exists>(K, w, w') \<in> set ps. server_made K rc0 w)"
    unfolding run_inv_def by blast
  from lawful.recyclerReconcile_deps [OF K pass rc1] assms(3)
  consider "rc_State rc1 = ST_old_deployment_deleted"
      "marks_only (rc_ServerID rc1) (w_deployments w) (w_deployments w')"
    | "getRequestIndex (rc_Request rc1) = REQ_delete_old_gw_deployment"
      "marks_only (rc_ClientID rc1) (w_deployments w) (w_deployments w')"
    by blast
  then show ?thesis
  proof cases
    case 1
    from phase_cases [OF i] 1(1) have "3 \<le> i" by (elim disjE) (simp_all add: ST_defs)
    with 1(2) c s ids show ?thesis by simp
  next
    case 2
    from phase_cases [OF i] 2(1) have "3 \<le> i"
      by (elim disjE) (simp_all add: getRequestIndex_def REQ_defs)
    with 2(2) c s ids show ?thesis by simp
  qed
qed

text \<open>
  C6: a pass leaves the resource in its phase or moves it to the next of the eight phases; no
  phase is skipped, repeated or undone, whatever calls fail.
\<close>

theorem recycler_phase_step:
  assumes "lawful K" and "recyclerReconcile K ns n w = (r, w')"
    and "find (keyed rc_meta ns n) (h_recyclers w) = Some rc" and "in_phase i rc"
  shows "\<exists>rc'. find (keyed rc_meta ns n) (h_recyclers w') = Some rc'
    \<and> (rc' = rc \<or> i < 7 \<and> in_phase (Suc i) rc')"
proof -
  from lawful.recyclerReconcile_writes [OF assms(1,2,3)] assms(3)
  obtain rc' where "find (keyed rc_meta ns n) (h_recyclers w') = Some rc'"
    by (elim disjE exE conjE)
      (use find_replace [OF assms(3)] in \<open>auto simp: post_keyed answer_keyed\<close>)
  with lawful.recyclerReconcile_phase [OF assms(1,2,3) this assms(4)] show ?thesis by blast
qed


text \<open>
  a pass that changes the posted state ends without error, and the state machine of the
  resource is then in the posted state: no event that the code fires is refused.
\<close>

theorem recycler_machine_follows:
  assumes "lawful K" and "recyclerReconcile K ns n w = (r, w')"
    and "find (keyed rc_meta ns n) (h_recyclers w) = Some rc"
    and "find (keyed rc_meta ns n) (h_recyclers w') = Some rc'"
    and "rc_State rc' \<noteq> rc_State rc"
  shows "map_of (o_FSM w') (crIdentifier ns n) = Some (rc_State rc') \<and> (\<exists>res. r = Ret (res, None))"
proof -
  have ch: "h_recyclers w' \<noteq> h_recyclers w" using assms(3,4,5) by auto
  show ?thesis
  proof (cases rule: lawful.recyclerReconcile_cases [OF assms(1,2,3), case_names 1 2 3])
    case 1
    with ch show ?thesis by (auto dest: at_start_sel)
  next
    case (2 g w1)
    note h = at_start_sel [OF 2(3)]
    from h assms(3) have rc: "find (keyed rc_meta ns n) (h_recyclers w1) = Some rc" by simp
    from h ch have "h_recyclers w' \<noteq> h_recyclers w1" by simp
    from lawful.serverSide_machine [OF assms(1) 2(5,4) this rc] obtain a res where
      a: "server_next rc = Some a" "r = Ret (res, None)"
        "map_of (o_FSM w') (crIdentifier ns n) = Some (fst a)" by blast
    from lawful.serverSide_writes [OF assms(1) 2(5) rc] \<open>h_recyclers w' \<noteq> h_recyclers w1\<close> a(1)
    have "h_recyclers w' = replace_object rc_meta (post a rc) (h_recyclers w1)" by auto
    with find_replace [OF rc post_keyed [of a rc]] assms(4) have "rc' = post a rc" by simp
    with a show ?thesis by (auto simp: post_def)
  next
    case (3 g w1)
    note h = at_start_sel [OF 3(3)]
    from h assms(3) have rc: "find (keyed rc_meta ns n) (h_recyclers w1) = Some rc" by simp
    from lawful.clientSide_writes [OF assms(1) 3(4) rc] h ch obtain b where
      "h_recyclers w' = replace_object rc_meta (answer b rc) (h_recyclers w1)" by metis
    with find_replace [OF rc answer_keyed [of b rc]] assms(4) have "rc' = answer b rc" by simp
    with assms(5) show ?thesis by (simp add: answer_def)
  qed
qed

text \<open>
  a pass panics only where the old route is marked, when the old deployment of its side
  has no pod: \<open>GetPodForGwDeployment\<close> takes the first element of an empty list.
\<close>

theorem recycler_panic:
  assumes "lawful K" and "recyclerReconcile K ns n w = (Panic, w')"
    and "find (keyed rc_meta ns n) (h_recyclers w) = Some rc"
  shows "rc_State rc = ST_slicerouter_updated \<and> no_pod_of (rc_ServerID rc) w
    \<or> getRequestIndex (rc_Request rc) = REQ_update_routing_table \<and> no_pod_of (rc_ClientID rc) w"
proof (cases rule: lawful.recyclerReconcile_cases [OF assms(1,2,3), case_names 1 2 3])
  case (2 g w1)
  with lawful.serverSide_panic [OF assms(1) 2(5)] show ?thesis
    by (auto simp: no_pod_of_def dest!: at_start_sel)
next
  case (3 g w1)
  with lawful.clientSide_panic [OF assms(1) 3(4)] show ?thesis
    by (auto simp: no_pod_of_def dest!: at_start_sel)
qed simp

section \<open>A recycling on the reference server\<close>

definition ex_pod :: "string \<Rightarrow> string \<Rightarrow> pod" where
  "ex_pod depName podName =
     \<lparr>p_meta = new_meta ''kubeslice-system'' podName [(''kubeslice.io/slice-gw-dep'', depName)],
      p_Phase = ''Running'', p_PodIP = ''10.0.1.1'', p_NodeName = ''node1'', p_TerminatedExitCodes = []\<rparr>"

definition ex_pod_info :: "string \<Rightarrow> string \<Rightarrow> gw_pod_info" where
  "ex_pod_info podName ip =
     \<lparr>PodName = podName, PodCreationTS = None, OriginalPodCreationTS = None, PeerPodName = '''',
      PodIP = ''10.0.1.1'', LocalNsmIP = ip, TunnelStatus = zero_tunnel, RouteRemoved = 0,
      RemotePort = 0\<rparr>"

definition ex_recycler :: recycler where
  "ex_recycler =
     newRecycler Map.empty ''red-a-b-0-0'' ''red-b-a-0-0'' ''red-a-b-0-0'' ''red-a-b'' ''red-b-a'' ''red''"

definition ex_phase :: "nat \<Rightarrow> recycler" where
  "ex_phase i = (case phases ! i of (st, req, resp) \<Rightarrow>
     ex_recycler\<lparr>rc_State := st, rc_Request := req, rc_ClientResponse := resp\<rparr>)"

text \<open>The cluster of one side: both deployments with one pod each, the new one with an address.\<close>

definition ex_cluster :: "string \<Rightarrow> string \<Rightarrow> recycler \<Rightarrow> world" where
  "ex_cluster gwName host rc =
     (let g = ex_gateway gwName host; new = gw_dep_name gwName 0 True; old = gw_dep_name gwName 0 False
      in empty_world\<lparr>
        w_slicegws := [g\<lparr>gw_GatewayPodStatus := [ex_pod_info (new @ ''-x'') ''10.9.0.2'']\<rparr>],
        w_pods := [ex_pod new (new @ ''-x''), ex_pod old (old @ ''-x'')],
        w_deployments := [deploymentForGatewayServer Map.empty [] g old 1,
                          deploymentForGatewayServer Map.empty [] g new 1],
        h_recyclers := [rc]\<rparr>)"

definition ex_side :: "nat \<Rightarrow> world" where
  "ex_side i = (if i \<in> {1, 3} then ex_cluster ''red-b-a'' ''Client'' (ex_phase i)
                else ex_cluster ''red-a-b'' ''Server'' (ex_phase i))"

definition ex_pass :: "nat \<Rightarrow> (ctrl_result \<times> go_error option) go \<times> world" where
  "ex_pass i = recyclerReconcile ex_kube '''' ''red-a-b-0-0'' (ex_side i)"

lemma ex_pass_next:
  "h_recyclers (snd (ex_pass 0)) = [ex_phase 1]" "h_recyclers (snd (ex_pass 1)) = [ex_phase 2]"
  "h_recyclers (snd (ex_pass 2)) = [ex_phase 3]" "h_recyclers (snd (ex_pass 3)) = [ex_phase 4]"
  "h_recyclers (snd (ex_pass 4)) = [ex_phase 5]" "h_recyclers (snd (ex_pass 5)) = [ex_phase 5]"
  by code_simp+

lemma ex_phase_in:
  "in_phase 0 (ex_phase 0)" "in_phase 2 (ex_phase 2)" "in_phase 5 (ex_phase 5)"
  by code_simp+

lemma ex_keyed [simp]: "keyed rc_meta '''' ''red-a-b-0-0'' (ex_phase i)"
proof -
  have "rc_meta (ex_phase i) = rc_meta ex_recycler"
    by (simp add: ex_phase_def split: prod.splits)
  moreover have "keyed rc_meta '''' ''red-a-b-0-0'' ex_recycler" by code_simp
  ultimately show ?thesis by (simp add: keyed_def)
qed

lemma ex_found:
  "find (keyed rc_meta '''' ''red-a-b-0-0'') (h_recyclers (ex_side i)) = Some (ex_phase i)"
  by (simp add: ex_side_def ex_cluster_def Let_def)

lemma ex_found_next:
  "h_recyclers w = [ex_phase j] \<Longrightarrow>
     find (keyed rc_meta '''' ''red-a-b-0-0'') (h_recyclers w) = Some (ex_phase j)"
  by simp

lemma ex_passed:
  "recyclerReconcile ex_kube '''' ''red-a-b-0-0'' (ex_side i) = (fst (ex_pass i), snd (ex_pass i))"
  by (simp add: ex_pass_def)

lemma ex_run_pass:
  assumes "protocol_run '''' ''red-a-b-0-0'' rc0 ps (ex_phase i)"
    and "h_recyclers (snd (ex_pass i)) = [ex_phase j]"
  shows "protocol_run '''' ''red-a-b-0-0'' rc0 (ps @ [(ex_kube, ex_side i, snd (ex_pass i))]) (ex_phase j)"
  by (rule run_pass [OF assms(1) ex_kube_lawful ex_found ex_passed ex_found_next [OF assms(2)]])

definition ex_passes :: "pass list" where
  "ex_passes = map (\<lambda>i. (ex_kube, ex_side i, snd (ex_pass i))) [0, 1, 2, 3, 4]"

lemma ex_run:
  "protocol_run '''' ''red-a-b-0-0'' (ex_phase 0) (ex_passes @ [(ex_kube, ex_side 5, snd (ex_pass 5))])
     (ex_phase 5)"
proof -
  have "protocol_run '''' ''red-a-b-0-0'' (ex_phase 0)
      (((((([] @ [(ex_kube, ex_side 0, snd (ex_pass 0))]) @ [(ex_kube, ex_side 1, snd (ex_pass 1))])
        @ [(ex_kube, ex_side 2, snd (ex_pass 2))]) @ [(ex_kube, ex_side 3, snd (ex_pass 3))])
        @ [(ex_kube, ex_side 4, snd (ex_pass 4))]) @ [(ex_kube, ex_side 5, snd (ex_pass 5))]) (ex_phase 5)"
    by (intro ex_run_pass ex_pass_next run_start)
  then show ?thesis by (simp add: ex_passes_def)
qed

lemma ex_marks: "w_deployments (snd (ex_pass 5)) \<noteq> w_deployments (ex_side 5)"
  by code_simp

theorem recycler_make_before_break_witness:
  "(\<exists>(K1, u, u') \<in> set ex_passes. client_made K1 (ex_phase 0) u)
    \<and> (\<exists>(K1, u, u') \<in> set ex_passes. server_made K1 (ex_phase 0) u)"
  using recycler_make_before_break [OF ex_run ex_phase_in(1) ex_marks] by blast

theorem recycler_phase_step_witness:
  "\<exists>rc'. find (keyed rc_meta '''' ''red-a-b-0-0'') (h_recyclers (snd (ex_pass 2))) = Some rc'
    \<and> (rc' = ex_phase 2 \<or> in_phase 3 rc')"
  using recycler_phase_step [OF ex_kube_lawful ex_passed ex_found ex_phase_in(2)]
  by (simp add: numeral_eq_Suc)

lemma ex_proto:
  "reachable proto_init proto_step \<lparr>pr_rc = ex_phase 0, pr_server = Some (the (server_next (ex_phase 0))),
     pr_client = None\<rparr>"
proof -
  let ?s = "\<lparr>pr_rc = ex_phase 0, pr_server = None, pr_client = None\<rparr>"
  have "reachable proto_init proto_step ?s"
    by (rule reachable.start) (simp add: proto_init_def ex_phase_in)
  moreover have "server_next (ex_phase 0) = Some (the (server_next (ex_phase 0)))" by code_simp
  then have "proto_step ?s (?s\<lparr>pr_server := Some (the (server_next (ex_phase 0)))\<rparr>)"
    by (intro server_decides) simp_all
  ultimately show ?thesis using reachable.step by fastforce
qed


lemma ex_state_changes: "rc_State (ex_phase 3) \<noteq> rc_State (ex_phase 2)"
  by code_simp

theorem recycler_machine_follows_witness:
  "map_of (o_FSM (snd (ex_pass 2))) (crIdentifier '''' ''red-a-b-0-0'') = Some (rc_State (ex_phase 3))
    \<and> (\<exists>res. fst (ex_pass 2) = Ret (res, None))"
  by (rule recycler_machine_follows [OF ex_kube_lawful ex_passed ex_found
        ex_found_next [OF ex_pass_next(3)] ex_state_changes])

definition ex_podless :: world where
  "ex_podless = (ex_side 4)\<lparr>w_pods := []\<rparr>"

lemma ex_podless_panics:
  "recyclerReconcile ex_kube '''' ''red-a-b-0-0'' ex_podless
     = (Panic, snd (recyclerReconcile ex_kube '''' ''red-a-b-0-0'' ex_podless))"
proof -
  have "(case fst (recyclerReconcile ex_kube '''' ''red-a-b-0-0'' ex_podless) of Panic \<Rightarrow> True | Ret _ \<Rightarrow> False)"
    by code_simp
  then have "fst (recyclerReconcile ex_kube '''' ''red-a-b-0-0'' ex_podless) = Panic"
    by (simp split: go.splits)
  then show ?thesis by (metis prod.collapse)
qed

lemma ex_podless_found:
  "find (keyed rc_meta '''' ''red-a-b-0-0'') (h_recyclers ex_podless) = Some (ex_phase 4)"
  using ex_found [of 4] by (simp add: ex_podless_def)

theorem recycler_panic_witness:
  "no_pod_of (rc_ServerID (ex_phase 4)) ex_podless \<or> no_pod_of (rc_ClientID (ex_phase 4)) ex_podless"
  using recycler_panic [OF ex_kube_lawful ex_podless_panics ex_podless_found] by blast

text \<open>
  C2: the reconciler refines the protocol: a pass of the code, with its calls failing or not,
  takes the resource where zero or more steps of the protocol take it (a decision of one side
  and its write), and leaves no decision behind.
\<close>

theorem recycler_refines_protocol:
  assumes "lawful K" and "recyclerReconcile K ns n w = (r, w')"
    and "find (keyed rc_meta ns n) (h_recyclers w) = Some (pr_rc s)"
    and "pr_server s = None" and "pr_client s = None"
  shows "\<exists>s'. rtranclp proto_step s s' \<and> find (keyed rc_meta ns n) (h_recyclers w') = Some (pr_rc s')
    \<and> pr_server s' = None \<and> pr_client s' = None"
proof -
  obtain rc where s: "s = \<lparr>pr_rc = rc, pr_server = None, pr_client = None\<rparr>"
    using assms(4,5) by (cases s) simp
  from lawful.recyclerReconcile_writes [OF assms(1,2,3)] consider
      (idle) "h_recyclers w' = h_recyclers w"
    | (server) a where "server_next (pr_rc s) = Some a"
        "h_recyclers w' = replace_object rc_meta (post a (pr_rc s)) (h_recyclers w)"
    | (client) b where "client_next (pr_rc s) = Some b"
        "h_recyclers w' = replace_object rc_meta (answer b (pr_rc s)) (h_recyclers w)"
    by blast
  then show ?thesis
  proof cases
    case idle
    with assms(3,4,5) show ?thesis by (intro exI [of _ s]) simp
  next
    case server
    let ?d = "s\<lparr>pr_server := Some a\<rparr>" and ?t = "s\<lparr>pr_rc := post a (pr_rc s)\<rparr>"
    have "proto_step s ?d" using server(1) assms(4) by (intro server_decides)
    moreover have "proto_step ?d ?t"
      using proto_step.server_writes [of ?d a] s by simp
    ultimately have "rtranclp proto_step s ?t"
      by (rule converse_rtranclp_into_rtranclp [OF _ r_into_rtranclp])
    with find_replace [OF assms(3)] server(2) assms(4,5) show ?thesis
      by (intro exI [of _ ?t]) (simp add: post_keyed)
  next
    case client
    let ?d = "s\<lparr>pr_client := Some b\<rparr>" and ?t = "s\<lparr>pr_rc := answer b (pr_rc s)\<rparr>"
    have "proto_step s ?d" using client(1) assms(5) by (intro client_decides)
    moreover have "proto_step ?d ?t"
      using proto_step.client_writes [of ?d b] s by simp
    ultimately have "rtranclp proto_step s ?t"
      by (rule converse_rtranclp_into_rtranclp [OF _ r_into_rtranclp])
    with find_replace [OF assms(3)] client(2) assms(4,5) show ?thesis
      by (intro exI [of _ ?t]) (simp add: answer_keyed)
  qed
qed

text \<open>
  a decision lands on the resource as it is when it is written, not on the copy that it was
  made on: the write reads the resource again, and changes the state and request (server) or
  the response (client) of what it reads and nothing else.
\<close>

theorem decision_lands_on_current:
  assumes "lawful K" and "retry_Do 10 f w = (None, w')"
    and "find (keyed rc_meta ns n) (h_recyclers w) = Some rc"
    and "f = setStateAndRequest K ns n st req \<and> rc' = post (st, req) rc
       \<or> f = setResponse K ns n b \<and> rc' = answer b rc"
  shows "find (keyed rc_meta ns n) (h_recyclers w') = Some rc'"
  using assms(4)
proof
  let ?P = "\<lambda>u. h_recyclers u = h_recyclers w"
  assume f: "f = setStateAndRequest K ns n st req \<and> rc' = post (st, req) rc"
  have "\<exists>u. ?P u \<and> f u = (None, w')"
    by (rule retry_Do_success [OF assms(2)])
      (use f in \<open>auto dest: lawful.setStateAndRequest_err [OF assms(1)]\<close>)
  then obtain u where u: "?P u" "f u = (None, w')" by blast
  from lawful.setStateAndRequest_ok [OF assms(1), of ns n st req u w'] u f assms(3)
  have "h_recyclers w' = replace_object rc_meta (post (st, req) rc) (h_recyclers w)"
    by (auto simp: post_def)
  with find_replace [OF assms(3)] f show ?thesis by (simp add: post_keyed)
next
  let ?P = "\<lambda>u. h_recyclers u = h_recyclers w"
  assume f: "f = setResponse K ns n b \<and> rc' = answer b rc"
  have "\<exists>u. ?P u \<and> f u = (None, w')"
    by (rule retry_Do_success [OF assms(2)])
      (use f in \<open>auto dest: lawful.setResponse_err [OF assms(1)]\<close>)
  then obtain u where u: "?P u" "f u = (None, w')" by blast
  from lawful.setResponse_ok [OF assms(1), of ns n b u w'] u f assms(3)
  have "h_recyclers w' = replace_object rc_meta (answer b rc) (h_recyclers w)"
    by (auto simp: answer_def)
  with find_replace [OF assms(3)] f show ?thesis by (simp add: answer_keyed)
qed

theorem recycler_refines_protocol_witness:
  "\<exists>s'. rtranclp proto_step \<lparr>pr_rc = ex_phase 2, pr_server = None, pr_client = None\<rparr> s'
    \<and> pr_rc s' = ex_phase 3"
proof -
  let ?s = "\<lparr>pr_rc = ex_phase 2, pr_server = None, pr_client = None\<rparr>"
  have "find (keyed rc_meta '''' ''red-a-b-0-0'') (h_recyclers (ex_side 2)) = Some (pr_rc ?s)"
    using ex_found by simp
  from recycler_refines_protocol [OF ex_kube_lawful ex_passed this] obtain s' where
    "rtranclp proto_step ?s s'"
    "find (keyed rc_meta '''' ''red-a-b-0-0'') (h_recyclers (snd (ex_pass 2))) = Some (pr_rc s')" by auto
  with ex_found_next [OF ex_pass_next(3)] show ?thesis by auto
qed

lemma ex_posts:
  "fst (retry_Do 10 (setStateAndRequest ex_kube '''' ''red-a-b-0-0'' ST_new_deployment_created
      REQ_create_new_deployment) (ex_side 0)) = None"
  by code_simp

theorem decision_lands_on_current_witness:
  "find (keyed rc_meta '''' ''red-a-b-0-0'')
     (h_recyclers (snd (retry_Do 10 (setStateAndRequest ex_kube '''' ''red-a-b-0-0''
        ST_new_deployment_created REQ_create_new_deployment) (ex_side 0))))
     = Some (post (ST_new_deployment_created, REQ_create_new_deployment) (ex_phase 0))"
proof -
  let ?f = "setStateAndRequest ex_kube '''' ''red-a-b-0-0'' ST_new_deployment_created REQ_create_new_deployment"
  have "retry_Do 10 ?f (ex_side 0) = (None, snd (retry_Do 10 ?f (ex_side 0)))"
    using ex_posts by (metis prod.collapse)
  from decision_lands_on_current [OF ex_kube_lawful this ex_found] show ?thesis by blast
qed

end
