(* ===== verification/VpnRotation.thy ===== *)
theory VpnRotation
  imports GatewayTraffic
begin

text \<open>
  The rotation of the VPN keys (\<open>pkg/hub/controllers/vpnkeyrotation/reconciler.go\<close>): the worker
  reconciles the custom resource \<open>VpnKeyRotation\<close> of the hub, whose status keeps one entry per
  gateway. A pass has three steps: bring the entries in line with the gateways of the cluster,
  move every gateway whose certificates are older than the last rotation through
  \<open>READ_IN_PROGRESS\<close> and \<open>SECRET_UPDATED\<close> to \<open>IN_PROGRESS\<close> (the server side starts the
  recyclers and writes both entries), and turn \<open>IN_PROGRESS\<close> into \<open>COMPLETE\<close> when the recyclers
  are gone.

  The Go functions share one pointer to the resource, which every read refreshes and every
  write changes in memory before it is sent: the state of the functions below is the pair of
  that resource and the world. An empty status map is a nil map after a read, to which an
  assignment panics.
\<close>

section \<open>Constants\<close>

definition SecretReadInProgress :: string where
  "SecretReadInProgress = ''READ_IN_PROGRESS''"

definition SecretUpdated :: string where
  "SecretUpdated = ''SECRET_UPDATED''"

definition InProgress :: string where
  "InProgress = ''IN_PROGRESS''"

definition Complete :: string where
  "Complete = ''COMPLETE''"

definition Error :: string where
  "Error = ''ERROR''"

lemmas rotation_status_defs =
  SecretReadInProgress_def SecretUpdated_def InProgress_def Complete_def Error_def

text \<open>The zero value of a status: its time is the zero time, the first of January of year 1.\<close>

definition zero_rotation_status :: status_of_key_rotation where
  "zero_rotation_status = \<lparr>sk_Status = '''', LastUpdatedTimestamp = - 62135596800\<rparr>"

definition rotation_of :: "vpn_key_rotation \<Rightarrow> string \<Rightarrow> status_of_key_rotation" where
  "rotation_of v gw =
     (case map_of (CurrentRotationState v) gw of None \<Rightarrow> zero_rotation_status | Some s \<Rightarrow> s)"

definition gateways_of :: "environ \<Rightarrow> vpn_key_rotation \<Rightarrow> string list" where
  "gateways_of E v =
     (case map_of (ClusterGatewayMapping v) (getenv E ''CLUSTER_NAME'') of
        None \<Rightarrow> [] | Some gws \<Rightarrow> gws)"

type_synonym rotation_state = "vpn_key_rotation \<times> world"

section \<open>Updates of the status\<close>

text \<open>The retries of both updates: \<open>wait.Backoff{Steps: 100, \<dots>}\<close>.\<close>

definition rotationRetrySteps :: nat where
  "rotationRetrySteps = 100"

definition setRotationStatus :: "kube \<Rightarrow> string \<Rightarrow> string \<Rightarrow> rotation_state
    \<Rightarrow> go_error option \<times> rotation_state" where
  "setRotationStatus K gatewayName rotationStatus s =
     (case s of (v, w) \<Rightarrow>
      case r_get (k_rotations K) (om_Namespace (vk_meta v)) (om_Name (vk_meta v)) w of
        (Inl e, w) \<Rightarrow> (Some e, (v, w))
      | (Inr v, w) \<Rightarrow>
         (if CurrentRotationState v = [] then (Some (Failure ''current state is empty''), (v, w))
          else
            (case map_of (CurrentRotationState v) gatewayName of
               None \<Rightarrow> (None, (v, w))
             | Some status \<Rightarrow>
                (if sk_Status status = rotationStatus then (None, (v, w))
                 else
                   (let v = v\<lparr>CurrentRotationState := AList.update gatewayName
                               (status\<lparr>sk_Status := rotationStatus\<rparr>) (CurrentRotationState v)\<rparr>
                    in case r_update_status (k_rotations K) v w of (r, w) \<Rightarrow> (r, (v, w)))))))"

definition updateRotationStatus :: "kube \<Rightarrow> string \<Rightarrow> string \<Rightarrow> rotation_state
    \<Rightarrow> go_error option \<times> rotation_state" where
  "updateRotationStatus K gatewayName rotationStatus s =
     RetryOnConflict rotationRetrySteps (setRotationStatus K gatewayName rotationStatus) s"

text \<open>The history of a gateway: the newest rotation first, five at most.\<close>

definition pushHistory :: "status_of_key_rotation \<Rightarrow> status_of_key_rotation list
    \<Rightarrow> status_of_key_rotation list" where
  "pushHistory rotation history =
     (let history = rotation # history
      in if length history \<ge> 5 then take 5 history else history)"

definition recordRotation :: "string \<Rightarrow> status_of_key_rotation \<Rightarrow> vpn_key_rotation
    \<Rightarrow> vpn_key_rotation" where
  "recordRotation gatewayName rotation v =
     (let v = v\<lparr>CurrentRotationState := AList.update gatewayName rotation (CurrentRotationState v)\<rparr>
      in if sk_Status rotation = Complete \<or> sk_Status rotation = Error then
           v\<lparr>StatusHistory := AList.update gatewayName
              (pushHistory rotation
                 (case map_of (StatusHistory v) gatewayName of None \<Rightarrow> [] | Some h \<Rightarrow> h))
              (StatusHistory v)\<rparr>
         else v)"

definition setRotationStatusWithTimeStamp :: "kube \<Rightarrow> string \<Rightarrow> string \<Rightarrow> int option
    \<Rightarrow> rotation_state \<Rightarrow> go_error option go \<times> rotation_state" where
  "setRotationStatusWithTimeStamp K gatewayName rotationStatus timestamp s =
     (case s of (v, w) \<Rightarrow>
      case r_get (k_rotations K) (om_Namespace (vk_meta v)) (om_Name (vk_meta v)) w of
        (Inl e, w) \<Rightarrow> (Ret (Some e), (v, w))
      | (Inr v, w) \<Rightarrow>
         (case timestamp of
            None \<Rightarrow> (Panic, (v, w))
          | Some t \<Rightarrow>
             (if CurrentRotationState v = [] then (Panic, (v, w))
              else
                (let v = recordRotation gatewayName
                       \<lparr>sk_Status = rotationStatus, LastUpdatedTimestamp = t\<rparr> v
                 in case r_update_status (k_rotations K) v w of (r, w) \<Rightarrow> (Ret r, (v, w))))))"

definition updateRotationStatusWithTimeStamp :: "kube \<Rightarrow> string \<Rightarrow> string \<Rightarrow> int option
    \<Rightarrow> rotation_state \<Rightarrow> go_error option go \<times> rotation_state" where
  "updateRotationStatusWithTimeStamp K gatewayName rotationStatus timestamp s =
     RetryOnConflict_go rotationRetrySteps
       (setRotationStatusWithTimeStamp K gatewayName rotationStatus timestamp) s"

section \<open>Step 1: the entries of the cluster's gateways\<close>

definition arrayDifference :: "string list \<Rightarrow> string list \<Rightarrow> string list" where
  "arrayDifference arr1 arr2 = filter (\<lambda>e. e \<notin> set arr1) arr2"

definition areGatewayPodsReady :: "kube \<Rightarrow> string \<Rightarrow> world \<Rightarrow> bool \<times> world" where
  "areGatewayPodsReady K sliceGWName w =
     (case r_list (k_pods K)
         (all_namespaces [(''kubeslice.io/pod-type'', ''slicegateway''),
                          (''kubeslice.io/slice-gw'', sliceGWName)]) w of
        (Inl e, w) \<Rightarrow> (False, w)
      | (Inr pods, w) \<Rightarrow> (length pods = 2, w))"

type_synonym rotation_map = "(string \<times> status_of_key_rotation) list"

text \<open>The loop over the gateways of the cluster; \<open>None\<close> stands for pods that are not ready.\<close>

fun syncEntries :: "kube \<Rightarrow> int option \<Rightarrow> rotation_map \<Rightarrow> string list \<Rightarrow> rotation_map \<Rightarrow> world
    \<Rightarrow> rotation_map option go \<times> world" where
  "syncEntries K created current [] synced w = (Ret (Some synced), w)"
| "syncEntries K created current (gw # gws) synced w =
     (case map_of current gw of
        Some obj \<Rightarrow> syncEntries K created current gws (AList.update gw obj synced) w
      | None \<Rightarrow>
         (case areGatewayPodsReady K gw w of
            (False, w) \<Rightarrow> (Ret None, w)
          | (True, w) \<Rightarrow>
             (case created of
                None \<Rightarrow> (Panic, w)
              | Some t \<Rightarrow>
                  syncEntries K created current gws
                    (AList.update gw \<lparr>sk_Status = Complete, LastUpdatedTimestamp = t\<rparr> synced) w)))"

definition addRemaining :: "rotation_map \<Rightarrow> rotation_map \<Rightarrow> rotation_map" where
  "addRemaining current synced =
     fold (\<lambda>(gw, obj) m. if map_of m gw = None then AList.update gw obj m else m) current synced"

definition keysInStatus :: "string \<Rightarrow> rotation_map \<Rightarrow> string list" where
  "keysInStatus clusterName current =
     filter (\<lambda>k. str_contains k clusterName \<and> \<not> has_suffix k clusterName) (map fst current)"

definition mergeRotation :: "rotation_map \<Rightarrow> rotation_map \<Rightarrow> string list \<Rightarrow> rotation_map" where
  "mergeRotation current synced keysToDelete =
     fold AList.delete keysToDelete
       (fold (\<lambda>(gw, obj). AList.update gw obj) synced current)"

text \<open>One attempt; the flag is the captured variable \<open>requeue\<close>.\<close>

definition syncAttempt :: "kube \<Rightarrow> environ \<Rightarrow> bool \<times> rotation_state
    \<Rightarrow> go_error option go \<times> (bool \<times> rotation_state)" where
  "syncAttempt K E s =
     (case s of (requeue, v, w) \<Rightarrow>
      case r_get (k_rotations K) (om_Namespace (vk_meta v)) (om_Name (vk_meta v)) w of
        (Inl e, w) \<Rightarrow> (Ret (Some e), (requeue, v, w))
      | (Inr v, w) \<Rightarrow>
         (let current = CurrentRotationState v;
              allGws = gateways_of E v;
              keysToDelete = arrayDifference allGws (keysInStatus (getenv E ''CLUSTER_NAME'') current)
          in case syncEntries K (CertificateCreationTime v) current allGws [] w of
               (Panic, w) \<Rightarrow> (Panic, (requeue, v, w))
             | (Ret None, w) \<Rightarrow> (Ret (Some (Failure ''gateway pods are not ready'')), (True, v, w))
             | (Ret (Some synced), w) \<Rightarrow>
                (let synced = addRemaining current synced in
                 if length synced \<noteq> length current \<or> length keysToDelete > 0 then
                   (let v = v\<lparr>CurrentRotationState := mergeRotation current synced keysToDelete\<rparr>
                    in case r_update_status (k_rotations K) v w of
                         (r, w) \<Rightarrow> (Ret r, (True, v, w)))
                 else (Ret None, (requeue, v, w)))))"

definition syncCurrentRotationState :: "kube \<Rightarrow> environ \<Rightarrow> rotation_state
    \<Rightarrow> go_error option go \<times> (bool \<times> rotation_state)" where
  "syncCurrentRotationState K E s =
     RetryOnConflict_go DefaultRetry (syncAttempt K E) (False, s)"

section \<open>Step 2: new certificates\<close>

definition rotationSecretName :: "string \<Rightarrow> int \<Rightarrow> string" where
  "rotationSecretName sliceGwName version = sliceGwName @ ''-'' @ itoa version"

definition updateCertificates :: "kube \<Rightarrow> int \<Rightarrow> string \<Rightarrow> string \<Rightarrow> world
    \<Rightarrow> (ctrl_result \<times> bool \<times> go_error option) \<times> world" where
  "updateCertificates K rotationVersion sliceGwName reqNamespace w =
     (let currentSecretName = rotationSecretName sliceGwName rotationVersion in
      case r_get (k_secrets K) ControlPlaneNamespace currentSecretName w of
        (Inr sec, w) \<Rightarrow> ((result_none, False, None), w)
      | (Inl NotFound, w) \<Rightarrow>
         (case r_get (k_hubsecrets K) reqNamespace sliceGwName w of
            (Inl e, w) \<Rightarrow> ((result_after 10, True, None), w)
          | (Inr certs, w) \<Rightarrow>
             (case r_create (k_secrets K)
                 \<lparr>sec_meta = new_meta ControlPlaneNamespace currentSecretName
                    [(''kubeslice.io/slice-gw'', sliceGwName)],
                  sec_Data = sec_Data certs\<rparr> w of
                (Some e, w) \<Rightarrow> ((result_none, False, Some e), w)
              | (None, w) \<Rightarrow> ((result_none, False, None), w)))
      | (Inl e, w) \<Rightarrow> ((result_none, False, Some e), w))"

definition rotation_pod_labels :: "slice_gateway \<Rightarrow> labels" where
  "rotation_pod_labels g =
     [(''kubeslice.io/pod-type'', ''slicegateway''),
      (ApplicationNamespaceSelectorLabelKey, gw_SliceName g),
      (''kubeslice.io/slice-gw'', gw_Name g)]"

fun triggerPods :: "kube \<Rightarrow> environ \<Rightarrow> slice_gateway \<Rightarrow> pod list \<Rightarrow> world
    \<Rightarrow> go_error option \<times> world" where
  "triggerPods K E g [] w = (None, w)"
| "triggerPods K E g (p # ps) w =
     (case GetSlice K (gw_SliceName g) w of
        (Inl e, w) \<Rightarrow> (Some e, w)
      | (Inr _, w) \<Rightarrow>
         (case GetPeerGwPodName (p_Name p) g of
            Inl e \<Rightarrow> (Some e, w)
          | Inr peerPodName \<Rightarrow>
             (case TriggerFSM K E g
                 (GetDepNameFromPodName (SliceGatewayID (gw_Config g)) (p_Name p))
                 (GetDepNameFromPodName (SliceGatewayRemoteGatewayID (gw_Config g)) peerPodName) w of
                (Some e, w) \<Rightarrow> (Some e, w)
              | (None, w) \<Rightarrow> triggerPods K E g ps w)))"

type_synonym rotation_result = "(ctrl_result \<times> go_error option) go \<times> rotation_state"

text \<open>The client's certificates are updated: start the recyclers and mark both gateways.\<close>

definition startRecycling :: "kube \<Rightarrow> environ \<Rightarrow> slice_gateway \<Rightarrow> string \<Rightarrow> rotation_state
    \<Rightarrow> rotation_result" where
  "startRecycling K E g selectedGw s =
     (case s of (v, w) \<Rightarrow>
      case r_list (k_pods K) (all_namespaces (rotation_pod_labels g)) w of
        (Inl e, w) \<Rightarrow> (Ret (result_none, Some e), (v, w))
      | (Inr pods, w) \<Rightarrow>
         (case triggerPods K E g pods w of
            (Some e, w) \<Rightarrow> (Ret (result_none, Some e), (v, w))
          | (None, w) \<Rightarrow>
             (case updateRotationStatusWithTimeStamp K (SliceGatewayRemoteGatewayID (gw_Config g))
                 InProgress (CertificateCreationTime v) (v, w) of
                (Panic, s) \<Rightarrow> (Panic, s)
              | (Ret (Some e), s) \<Rightarrow> (Ret (result_none, Some e), s)
              | (Ret None, (v, w)) \<Rightarrow>
                 (case updateRotationStatusWithTimeStamp K selectedGw InProgress
                     (CertificateCreationTime v) (v, w) of
                    (Panic, s) \<Rightarrow> (Panic, s)
                  | (Ret (Some e), s) \<Rightarrow> (Ret (result_none, Some e), s)
                  | (Ret None, s) \<Rightarrow> (Ret (result_requeue, None), s)))))"

text \<open>The server side after its certificates are there; the client side goes on (\<open>None\<close>).\<close>

definition serverAwaitsClient :: "kube \<Rightarrow> environ \<Rightarrow> string \<Rightarrow> rotation_state
    \<Rightarrow> (ctrl_result \<times> go_error option) go option \<times> rotation_state" where
  "serverAwaitsClient K E selectedGw s =
     (case s of (v, w) \<Rightarrow>
      case r_get (k_slicegws K) ControlPlaneNamespace selectedGw w of
        (Inl e, w) \<Rightarrow> (Some (Ret (result_none, Some e)), (v, w))
      | (Inr g, w) \<Rightarrow>
         (if isServer g then
            (case map_of (CurrentRotationState v) (SliceGatewayRemoteGatewayID (gw_Config g)) of
               None \<Rightarrow> (Some (Ret (result_after 5, None)), (v, w))
             | Some clientGWRotation \<Rightarrow>
                (if sk_Status clientGWRotation = SecretUpdated then
                   (case startRecycling K E g selectedGw (v, w) of (r, s) \<Rightarrow> (Some r, s))
                 else (Some (Ret (result_requeue, None)), (v, w))))
          else (None, (v, w))))"

definition rotateGateway :: "kube \<Rightarrow> environ \<Rightarrow> string \<Rightarrow> string \<Rightarrow> rotation_state
    \<Rightarrow> (ctrl_result \<times> go_error option) go option \<times> rotation_state" where
  "rotateGateway K E reqNamespace selectedGw s =
     (case s of (v, w) \<Rightarrow>
      let rotationStatus = rotation_of v selectedGw;
          unchanged = (CertificateCreationTime v = Some (LastUpdatedTimestamp rotationStatus));
          st = sk_Status rotationStatus
      in if \<not> unchanged \<and> st \<noteq> InProgress then
           (if st \<noteq> SecretUpdated \<and> st \<noteq> SecretReadInProgress then
              (case updateRotationStatus K selectedGw SecretReadInProgress (v, w) of
                 (Some e, s) \<Rightarrow> (Some (Ret (result_none, Some e)), s)
               | (None, s) \<Rightarrow> (Some (Ret (result_requeue, None)), s))
            else
              (case updateCertificates K (RotationCount v) selectedGw reqNamespace w of
                 ((res, True, _), w) \<Rightarrow> (Some (Ret (res, None)), (v, w))
               | ((res, False, Some e), w) \<Rightarrow> (Some (Ret (res, Some e)), (v, w))
               | ((_, False, None), w) \<Rightarrow>
                  (case (if st \<noteq> InProgress \<and> st \<noteq> SecretUpdated
                         then updateRotationStatus K selectedGw SecretUpdated (v, w)
                         else (None, (v, w))) of
                     (Some e, s) \<Rightarrow> (Some (Ret (result_none, Some e)), s)
                   | (None, s) \<Rightarrow> serverAwaitsClient K E selectedGw s)))
         else (None, (v, w)))"

fun rotateGateways :: "kube \<Rightarrow> environ \<Rightarrow> string \<Rightarrow> string list \<Rightarrow> rotation_state
    \<Rightarrow> (ctrl_result \<times> go_error option) go option \<times> rotation_state" where
  "rotateGateways K E reqNamespace [] s = (None, s)"
| "rotateGateways K E reqNamespace (gw # gws) s =
     (case rotateGateway K E reqNamespace gw s of
        (Some r, s) \<Rightarrow> (Some r, s)
      | (None, s) \<Rightarrow> rotateGateways K E reqNamespace gws s)"

section \<open>Step 3: the end of a rotation\<close>

definition removeOldSecrets :: "kube \<Rightarrow> int \<Rightarrow> string \<Rightarrow> world \<Rightarrow> go_error option \<times> world" where
  "removeOldSecrets K rotationVersion sliceGwName w =
     (case r_delete (k_secrets K) ControlPlaneNamespace
         (rotationSecretName sliceGwName (rotationVersion - 1)) w of
        (Some NotFound, w) \<Rightarrow> (None, w)
      | (Some e, w) \<Rightarrow> (Some e, w)
      | (None, w) \<Rightarrow> (None, w))"

text \<open>The recyclers are gone: server, then client, then the old secret.\<close>

definition completeRotation :: "kube \<Rightarrow> slice_gateway \<Rightarrow> string \<Rightarrow> int option \<Rightarrow> rotation_state
    \<Rightarrow> (ctrl_result \<times> go_error option) go option \<times> rotation_state" where
  "completeRotation K g selectedGw updatedTime s =
     (case updateRotationStatusWithTimeStamp K selectedGw Complete updatedTime s of
        (Panic, s) \<Rightarrow> (Some Panic, s)
      | (Ret (Some e), s) \<Rightarrow> (Some (Ret (result_none, None)), s)
      | (Ret None, s) \<Rightarrow>
         (case updateRotationStatusWithTimeStamp K (SliceGatewayRemoteGatewayID (gw_Config g))
             Complete updatedTime s of
            (Panic, s) \<Rightarrow> (Some Panic, s)
          | (Ret (Some e), s) \<Rightarrow> (Some (Ret (result_none, None)), s)
          | (Ret None, (v, w)) \<Rightarrow>
             (case removeOldSecrets K (RotationCount v) selectedGw w of
                (Some e, w) \<Rightarrow> (Some (Ret (result_none, Some e)), (v, w))
              | (None, w) \<Rightarrow> (None, (v, w)))))"

definition failRotation :: "kube \<Rightarrow> slice_gateway \<Rightarrow> string \<Rightarrow> int option \<Rightarrow> rotation_state
    \<Rightarrow> rotation_result" where
  "failRotation K g selectedGw updatedTime s =
     (case updateRotationStatusWithTimeStamp K (SliceGatewayRemoteGatewayID (gw_Config g))
         Error updatedTime s of
        (Panic, s) \<Rightarrow> (Panic, s)
      | (Ret (Some e), s) \<Rightarrow> (Ret (result_none, None), s)
      | (Ret None, s) \<Rightarrow>
         (case updateRotationStatusWithTimeStamp K selectedGw Error updatedTime s of
            (Panic, s) \<Rightarrow> (Panic, s)
          | (Ret (Some e), s) \<Rightarrow> (Ret (result_none, Some e), s)
          | (Ret None, s) \<Rightarrow> (Ret (result_none, None), s)))"

text \<open>Both branches of the loop over the recyclers return: only the first one is looked at.\<close>

definition settleGateway :: "kube \<Rightarrow> environ \<Rightarrow> string \<Rightarrow> rotation_state
    \<Rightarrow> (ctrl_result \<times> go_error option) go option \<times> rotation_state" where
  "settleGateway K E selectedGw s =
     (case s of (v, w) \<Rightarrow>
      if sk_Status (rotation_of v selectedGw) = InProgress then
        (case r_get (k_slicegws K) ControlPlaneNamespace selectedGw w of
           (Inl NotFound, w) \<Rightarrow> (Some (Ret (result_none, None)), (v, w))
         | (Inl e, w) \<Rightarrow> (Some (Ret (result_none, Some e)), (v, w))
         | (Inr g, w) \<Rightarrow>
            (if isServer g then
               (case ListWorkerSliceGwRecycler K E selectedGw w of
                  (Inl e, w) \<Rightarrow> (Some (Ret (result_none, Some e)), (v, w))
                | (Inr [], w) \<Rightarrow>
                    completeRotation K g selectedGw (CertificateCreationTime v) (v, w)
                | (Inr (rc # _), w) \<Rightarrow>
                   (if rc_State rc = ''error'' \<or> rc_ClientResponse rc = ''error''
                    then (case failRotation K g selectedGw (CertificateCreationTime v) (v, w) of
                            (r, s) \<Rightarrow> (Some r, s))
                    else (Some (Ret (result_after 120, None)), (v, w))))
             else (None, (v, w))))
      else (None, (v, w)))"

fun settleGateways :: "kube \<Rightarrow> environ \<Rightarrow> string list \<Rightarrow> rotation_state \<Rightarrow> rotation_result" where
  "settleGateways K E [] s = (Ret (result_none, None), s)"
| "settleGateways K E (gw # gws) s =
     (case settleGateway K E gw s of
        (Some r, s) \<Rightarrow> (r, s)
      | (None, s) \<Rightarrow> settleGateways K E gws s)"

section \<open>The pass\<close>

text \<open>
  Two instants have the same year, month and day in a zone with offset \<open>tz\<close> (in seconds) when
  they have the same number of days since the epoch there.
\<close>

definition same_day :: "int \<Rightarrow> int \<Rightarrow> int \<Rightarrow> bool" where
  "same_day tz t u \<longleftrightarrow> (t + tz) div 86400 = (u + tz) div 86400"

text \<open>Step 3; reading the date of a nil time panics.\<close>

definition settleRotation :: "kube \<Rightarrow> environ \<Rightarrow> int \<Rightarrow> int \<Rightarrow> string list \<Rightarrow> rotation_state
    \<Rightarrow> rotation_result" where
  "settleRotation K E tz now allGws s =
     (case CertificateCreationTime (fst s) of
        None \<Rightarrow> (Panic, s)
      | Some t \<Rightarrow> if same_day tz t now then settleGateways K E allGws s
                 else (Ret (result_none, None), s))"

definition rotationReconcile :: "kube \<Rightarrow> environ \<Rightarrow> int \<Rightarrow> int \<Rightarrow> string \<Rightarrow> string \<Rightarrow> world
    \<Rightarrow> (ctrl_result \<times> go_error option) go \<times> world" where
  "rotationReconcile K E tz now reqNamespace reqName w =
     (case r_get (k_rotations K) reqNamespace reqName w of
        (Inl NotFound, w) \<Rightarrow> (Ret (result_none, None), w)
      | (Inl e, w) \<Rightarrow> (Ret (result_none, Some e), w)
      | (Inr v, w) \<Rightarrow>
         (if CertificateCreationTime v = None then (Ret (result_after 1, None), w)
          else
            (case syncCurrentRotationState K E (v, w) of
               (Panic, (_, _, w)) \<Rightarrow> (Panic, w)
             | (Ret _, (True, _, w)) \<Rightarrow> (Ret (result_requeue, None), w)
             | (Ret (Some e), (False, _, w)) \<Rightarrow> (Ret (result_none, Some e), w)
             | (Ret None, (False, s)) \<Rightarrow>
                (case rotateGateways K E reqNamespace (gateways_of E v) s of
                   (Some r, (_, w)) \<Rightarrow> (r, w)
                 | (None, s) \<Rightarrow>
                    (case settleRotation K E tz now (gateways_of E v) s of
                       (r, (_, w)) \<Rightarrow> (r, w))))))"

section \<open>Predicates that every pass keeps\<close>

text \<open>
  A predicate on the resource that neither a change of the current state nor the record of a
  rotation breaks holds of all resources after a pass if it did before.
\<close>

locale rotation_predicate =
  fixes P :: "vpn_key_rotation \<Rightarrow> bool"
  assumes P_current: "P v \<Longrightarrow> P (v\<lparr>CurrentRotationState := m\<rparr>)"
    and P_record: "P v \<Longrightarrow> P (recordRotation n rotation v)"
begin

definition holds :: "world \<Rightarrow> bool" where
  "holds w \<longleftrightarrow> (\<forall>v \<in> set (h_rotations w). P v)"

lemma holds_cong: "h_rotations w = h_rotations w' \<Longrightarrow> holds w = holds w'"
  by (simp add: holds_def)

lemma get_holds:
  assumes "lawful K" and "r_get (k_rotations K) ns n w = (r, w')" and "holds w"
  shows "holds w' \<and> (\<forall>v. r = Inr v \<longrightarrow> P v)"
  using assms(3) lawful.rotations [OF assms(1), THEN resource.get_world, OF assms(2)]
    resource.get_ok [OF lawful.rotations [OF assms(1)], of ns n w _ w'] assms(2)
  by (auto simp: holds_def dest: find_Some_iff')

lemma update_holds:
  assumes "lawful K" and "r_update_status (k_rotations K) v w = (r, w')" and "holds w" and "P v"
  shows "holds w'"
proof (cases r)
  case (Some e)
  from resource.update_status_err [OF lawful.rotations [OF assms(1)] assms(2) [unfolded Some]] assms(3)
  show ?thesis by (simp add: holds_def)
next
  case None
  from resource.update_status_ok [OF lawful.rotations [OF assms(1)] assms(2) [unfolded None]] assms(3,4)
  show ?thesis by (auto simp: holds_def dest: in_replace_object)
qed

lemma setRotationStatus_holds:
  assumes K: "lawful K" and "setRotationStatus K n st (v, w) = (r, v', w')" and "holds w \<and> P v"
  shows "holds w' \<and> P v'"
proof -
  obtain x w1 where get: "r_get (k_rotations K) (om_Namespace (vk_meta v)) (om_Name (vk_meta v)) w = (x, w1)"
    by fastforce
  from get_holds [OF K get] assms(3) have w1: "holds w1" "\<And>v1. x = Inr v1 \<Longrightarrow> P v1" by auto
  show ?thesis
    using assms(2,3) get w1 update_holds [OF K, of _ w1 r w']
    by (auto simp: setRotationStatus_def Let_def P_current
        split: sum.splits if_splits option.splits prod.splits)
qed

lemma updateRotationStatus_holds:
  assumes K: "lawful K" and "updateRotationStatus K n st s = (r, s')" and "holds (snd s) \<and> P (fst s)"
  shows "holds (snd s') \<and> P (fst s')"
  using assms(2,3) unfolding updateRotationStatus_def
  by (rule RetryOnConflict_keeps [where P = "\<lambda>s. holds (snd s) \<and> P (fst s)"])
    (metis setRotationStatus_holds [OF K] prod.collapse)

lemma setRotationStatusWithTimeStamp_holds:
  assumes K: "lawful K" and "setRotationStatusWithTimeStamp K n st t (v, w) = (r, v', w')"
    and "holds w \<and> P v"
  shows "holds w' \<and> P v'"
proof -
  obtain x w1 where get: "r_get (k_rotations K) (om_Namespace (vk_meta v)) (om_Name (vk_meta v)) w = (x, w1)"
    by fastforce
  from get_holds [OF K get] assms(3) have w1: "holds w1" "\<And>v1. x = Inr v1 \<Longrightarrow> P v1" by auto
  show ?thesis
    using assms(2,3) get w1 update_holds [OF K, of _ w1 _ w']
    by (auto simp: setRotationStatusWithTimeStamp_def Let_def P_record
        split: sum.splits if_splits option.splits prod.splits)
qed

lemma updateRotationStatusWithTimeStamp_holds:
  assumes K: "lawful K" and "updateRotationStatusWithTimeStamp K n st t s = (r, s')"
    and "holds (snd s) \<and> P (fst s)"
  shows "holds (snd s') \<and> P (fst s')"
  using assms(2,3) unfolding updateRotationStatusWithTimeStamp_def
  by (rule RetryOnConflict_go_keeps [where P = "\<lambda>s. holds (snd s) \<and> P (fst s)"])
    (metis setRotationStatusWithTimeStamp_holds [OF K] prod.collapse)

end

context lawful
begin

lemma areGatewayPodsReady_reads: "areGatewayPodsReady K n w = (r, w') \<Longrightarrow> reads w w'"
  by (auto simp: areGatewayPodsReady_def split: prod.splits sum.splits dest!: pod.list_world)

lemma syncEntries_reads: "syncEntries K t cur gws s w = (r, w') \<Longrightarrow> reads w w'"
proof (induction gws arbitrary: s w)
  case (Cons gw gws)
  obtain b w1 where a: "areGatewayPodsReady K gw w = (b, w1)" by fastforce
  note w1 = areGatewayPodsReady_reads [OF a]
  show ?case
    using Cons.prems a w1 Cons.IH reads_trans [OF w1 Cons.IH]
    by (auto split: option.splits bool.splits)
qed simp

abbreviation rotations_same :: "world \<Rightarrow> world \<Rightarrow> bool" where
  "rotations_same w w' \<equiv> h_rotations w' = h_rotations w"

lemma updateCertificates_rotations:
  assumes "updateCertificates K c n ns w = (r, w')"
  shows "rotations_same w w' \<and> h_recyclers w' = h_recyclers w"
proof -
  have c: "rotations_same w1 w2 \<and> h_recyclers w2 = h_recyclers w1"
    if "r_create (k_secrets K) ob w1 = (x, w2)" for ob w1 x w2
    using that by (cases x) (auto dest!: sec.create_ok sec.create_err)
  show ?thesis
    using assms
    by (auto simp: updateCertificates_def Let_def split: prod.splits sum.splits go_error.splits option.splits
        dest!: sec.get_world hsec.get_world c)
qed

lemma recycler_create_rotations:
  "r_create (k_recyclers K) rc w = (r, w') \<Longrightarrow> rotations_same w w'"
  by (cases r) (auto dest!: rec.create_ok rec.create_err)

lemma TriggerFSM_rotations: "TriggerFSM K E g a b w = (r, w') \<Longrightarrow> rotations_same w w'"
  by (auto simp: TriggerFSM_def CreateWorkerSliceGwRecycler_def
      split: prod.splits sum.splits option.splits go_error.splits
      dest!: rec.get_world recycler_create_rotations)

lemma triggerPods_rotations: "triggerPods K E g ps w = (r, w') \<Longrightarrow> rotations_same w w'"
proof (induction ps arbitrary: w)
  case (Cons p ps)
  obtain x w1 where s: "GetSlice K (gw_SliceName g) w = (x, w1)" by fastforce
  then have w1: "rotations_same w w1" by (auto simp: GetSlice_def dest: slice.get_world)
  show ?case
    using Cons.prems s w1 Cons.IH
    by (auto split: sum.splits prod.splits option.splits dest!: TriggerFSM_rotations)
qed simp

lemma removeOldSecrets_rotations: "removeOldSecrets K c n w = (r, w') \<Longrightarrow> rotations_same w w'"
proof -
  have "rotations_same w1 w2" if "r_delete (k_secrets K) ns n w1 = (x, w2)" for ns n w1 x w2
    using that by (cases x) (auto dest!: sec.delete_ok sec.delete_err)
  then show "removeOldSecrets K c n w = (r, w') \<Longrightarrow> rotations_same w w'"
    by (auto simp: removeOldSecrets_def split: prod.splits option.splits go_error.splits)
qed

end

context rotation_predicate
begin

lemma syncAttempt_holds:
  assumes K: "lawful K" and a: "syncAttempt K E (q, v, w) = (r, q', v', w')" and "holds w \<and> P v"
  shows "holds w' \<and> P v'"
proof -
  obtain x w1 where get: "r_get (k_rotations K) (om_Namespace (vk_meta v)) (om_Name (vk_meta v)) w = (x, w1)"
    by fastforce
  from get_holds [OF K get] assms(3) have w1: "holds w1" "\<And>v1. x = Inr v1 \<Longrightarrow> P v1" by auto
  show ?thesis
  proof (cases x)
    case (Inl e)
    with a get assms(3) w1 show ?thesis by (auto simp: syncAttempt_def)
  next
    case (Inr v1)
    obtain y w2 where s: "syncEntries K (CertificateCreationTime v1) (CurrentRotationState v1)
        (gateways_of E v1) [] w1 = (y, w2)" by fastforce
    from lawful.syncEntries_reads [OF K s] w1(1) have w2: "holds w2"
      by (auto simp: holds_def elim: readsE)
    show ?thesis
      using a get Inr s w2 w1(2) [OF Inr] update_holds [OF K, of _ w2 _ w']
      by (auto simp: syncAttempt_def Let_def P_current
          split: go.splits option.splits if_splits prod.splits)
  qed
qed

lemma sync_holds:
  assumes K: "lawful K" and "syncCurrentRotationState K E (v, w) = (r, q', v', w')" and "holds w \<and> P v"
  shows "holds w' \<and> P v'"
proof -
  let ?P = "\<lambda>s. holds (snd (snd s)) \<and> P (fst (snd s))"
  have "?P (q', v', w')"
    using assms(2) unfolding syncCurrentRotationState_def
    by (rule RetryOnConflict_go_keeps [where P = ?P])
      (use assms(3) in simp, metis syncAttempt_holds [OF K] prod.collapse)
  then show ?thesis by simp
qed

lemma holds_rotations: "h_rotations w' = h_rotations w \<Longrightarrow> holds w \<Longrightarrow> holds w'"
  by (simp add: holds_def)

lemma startRecycling_holds:
  assumes K: "lawful K" and a: "startRecycling K E g n (v, w) = (r, s')" and "holds w \<and> P v"
  shows "holds (snd s') \<and> P (fst s')"
proof -
  obtain x w1 where l: "r_list (k_pods K) (all_namespaces (rotation_pod_labels g)) w = (x, w1)" by fastforce
  from resource.list_world [OF lawful.pods [OF K] l] assms(3) have w1: "holds w1"
    by (auto simp: holds_def)
  show ?thesis
  proof (cases x)
    case (Inl e)
    with a l w1 assms(3) show ?thesis by (auto simp: startRecycling_def)
  next
    case (Inr ps)
    obtain y w2 where t: "triggerPods K E g ps w1 = (y, w2)" by fastforce
    from lawful.triggerPods_rotations [OF K t] w1 have w2: "holds w2" by (rule holds_rotations)
    show ?thesis
    proof (cases y)
      case (Some e)
      with a l Inr t w2 assms(3) show ?thesis by (auto simp: startRecycling_def)
    next
      case None
      obtain c s2 where u: "updateRotationStatusWithTimeStamp K (SliceGatewayRemoteGatewayID (gw_Config g))
          InProgress (CertificateCreationTime v) (v, w2) = (c, s2)" by (rule prod.exhaust)
      from updateRotationStatusWithTimeStamp_holds [OF K u] w2 assms(3)
      have s2: "holds (snd s2) \<and> P (fst s2)" by simp
      obtain c3 s3 where u3: "updateRotationStatusWithTimeStamp K n
          InProgress (CertificateCreationTime (fst s2)) s2 = (c3, s3)" by (rule prod.exhaust)
      note s3 = updateRotationStatusWithTimeStamp_holds [OF K u3 s2]
      show ?thesis
        using a l Inr t None u u3 s2 s3
        by (cases s2) (auto simp: startRecycling_def split: go.splits option.splits)
    qed
  qed
qed

lemma serverAwaitsClient_holds:
  assumes K: "lawful K" and a: "serverAwaitsClient K E n (v, w) = (r, s')" and "holds w \<and> P v"
  shows "holds (snd s') \<and> P (fst s')"
proof -
  obtain x w1 where g: "r_get (k_slicegws K) ControlPlaneNamespace n w = (x, w1)" by fastforce
  from resource.get_world [OF lawful.slicegws [OF K] g] assms(3) have w1: "holds w1"
    by (auto simp: holds_def)
  show ?thesis
    using a g w1 assms(3) startRecycling_holds [OF K, of E _ n v w1]
    by (auto simp: serverAwaitsClient_def split: sum.splits if_splits option.splits prod.splits)
qed

lemma rotateGateway_holds:
  assumes K: "lawful K" and a: "rotateGateway K E ns n (v, w) = (r, s')" and "holds w \<and> P v"
  shows "holds (snd s') \<and> P (fst s')"
proof -
  obtain c w1 where u: "updateCertificates K (RotationCount v) n ns w = (c, w1)" by fastforce
  from lawful.updateCertificates_rotations [OF K u] assms(3) have w1: "holds w1"
    by (auto intro: holds_rotations)
  obtain e1 s1 where r1: "updateRotationStatus K n SecretReadInProgress (v, w) = (e1, s1)" by (rule prod.exhaust)
  from updateRotationStatus_holds [OF K r1] assms(3) have s1: "holds (snd s1) \<and> P (fst s1)" by simp
  obtain e2 s2 where r2: "updateRotationStatus K n SecretUpdated (v, w1) = (e2, s2)" by (rule prod.exhaust)
  from updateRotationStatus_holds [OF K r2] assms(3) w1 have s2: "holds (snd s2) \<and> P (fst s2)" by simp
  show ?thesis
    using a u r1 r2 s1 s2 w1 assms(3) serverAwaitsClient_holds [OF K, of E n v w1]
      serverAwaitsClient_holds [OF K, of E n "fst s2" "snd s2"]
    by (auto simp: rotateGateway_def Let_def split: if_splits option.splits prod.splits bool.splits)
qed

lemma rotateGateways_holds:
  assumes K: "lawful K"
  shows "rotateGateways K E ns gws s = (r, s') \<Longrightarrow> holds (snd s) \<and> P (fst s) \<Longrightarrow>
    holds (snd s') \<and> P (fst s')"
proof (induction gws arbitrary: s)
  case (Cons gw gws)
  obtain x s1 where g: "rotateGateway K E ns gw s = (x, s1)" by (rule prod.exhaust)
  then have s1: "holds (snd s1) \<and> P (fst s1)"
    using rotateGateway_holds [OF K, of E ns gw "fst s" "snd s" x s1] Cons.prems(2) by simp
  with Cons g show ?case by (auto split: option.splits)
qed simp

lemma settleGateway_holds:
  assumes K: "lawful K" and a: "settleGateway K E n (v, w) = (r, s')" and "holds w \<and> P v"
  shows "holds (snd s') \<and> P (fst s')"
proof -
  have complete: "holds (snd s2) \<and> P (fst s2)"
    if "completeRotation K g n t (v1, w1) = (x, s2)" "holds w1 \<and> P v1" for g t v1 w1 x s2
  proof -
    obtain c s3 where u: "updateRotationStatusWithTimeStamp K n Complete t (v1, w1) = (c, s3)" by (rule prod.exhaust)
    from updateRotationStatusWithTimeStamp_holds [OF K u] that(2) have s3: "holds (snd s3) \<and> P (fst s3)" by simp
    obtain c4 s4 where u4: "updateRotationStatusWithTimeStamp K (SliceGatewayRemoteGatewayID (gw_Config g))
        Complete t s3 = (c4, s4)" by (rule prod.exhaust)
    note s4 = updateRotationStatusWithTimeStamp_holds [OF K u4 s3]
    obtain e w5 where rm: "removeOldSecrets K (RotationCount (fst s4)) n (snd s4) = (e, w5)" by fastforce
    from lawful.removeOldSecrets_rotations [OF K rm] s4 have "holds w5" by (auto intro: holds_rotations)
    with that(1) u u4 rm s3 s4 show ?thesis
      by (cases s4) (auto simp: completeRotation_def split: go.splits option.splits)
  qed
  have fail: "holds (snd s2) \<and> P (fst s2)"
    if "failRotation K g n t (v1, w1) = (x, s2)" "holds w1 \<and> P v1" for g t v1 w1 x s2
  proof -
    obtain c s3 where u: "updateRotationStatusWithTimeStamp K (SliceGatewayRemoteGatewayID (gw_Config g))
        Error t (v1, w1) = (c, s3)" by (rule prod.exhaust)
    from updateRotationStatusWithTimeStamp_holds [OF K u] that(2) have s3: "holds (snd s3) \<and> P (fst s3)" by simp
    obtain c4 s4 where u4: "updateRotationStatusWithTimeStamp K n Error t s3 = (c4, s4)" by (rule prod.exhaust)
    note s4 = updateRotationStatusWithTimeStamp_holds [OF K u4 s3]
    with that(1) u u4 s3 show ?thesis
      by (auto simp: failRotation_def split: go.splits option.splits)
  qed
  obtain x w1 where g: "r_get (k_slicegws K) ControlPlaneNamespace n w = (x, w1)" by fastforce
  from resource.get_world [OF lawful.slicegws [OF K] g] assms(3) have w1: "holds w1"
    by (auto simp: holds_def)
  obtain y w2 where l: "ListWorkerSliceGwRecycler K E n w1 = (y, w2)" by fastforce
  then have "w2 = tick w1"
    unfolding ListWorkerSliceGwRecycler_def by (rule resource.list_world [OF lawful.recyclers [OF K]])
  with w1 have w2: "holds w2" by (simp add: holds_def)
  show ?thesis
    using a g l w1 w2 assms(3) complete [of _ _ v w2] fail [of _ _ v w2]
    by (auto simp: settleGateway_def split: if_splits sum.splits go_error.splits list.splits prod.splits)
qed

lemma settleGateways_holds:
  assumes K: "lawful K"
  shows "settleGateways K E gws s = (r, s') \<Longrightarrow> holds (snd s) \<and> P (fst s) \<Longrightarrow>
    holds (snd s') \<and> P (fst s')"
proof (induction gws arbitrary: s)
  case (Cons gw gws)
  obtain x s1 where g: "settleGateway K E gw s = (x, s1)" by (rule prod.exhaust)
  then have s1: "holds (snd s1) \<and> P (fst s1)"
    using settleGateway_holds [OF K, of E gw "fst s" "snd s" x s1] Cons.prems(2) by simp
  with Cons g show ?case by (auto split: option.splits)
qed simp

lemma rotationReconcile_holds:
  assumes K: "lawful K" and a: "rotationReconcile K E tz now ns n w = (r, w')" and "holds w"
  shows "holds w'"
proof -
  obtain x w1 where get: "r_get (k_rotations K) ns n w = (x, w1)" by fastforce
  from get_holds [OF K get] assms(3) have w1: "holds w1" "\<And>v1. x = Inr v1 \<Longrightarrow> P v1" by auto
  show ?thesis
  proof (cases x)
    case (Inl e)
    with a get w1 show ?thesis by (cases e) (auto simp: rotationReconcile_def)
  next
    case (Inr v)
    obtain y q v2 w2 where s: "syncCurrentRotationState K E (v, w1) = (y, q, v2, w2)"
      by (metis prod.collapse)
    from sync_holds [OF K s] w1 Inr have s2: "holds w2 \<and> P v2" by simp
    obtain z s3 where ro: "rotateGateways K E ns (gateways_of E v) (v2, w2) = (z, s3)" by (rule prod.exhaust)
    from rotateGateways_holds [OF K ro] s2 have s3: "holds (snd s3) \<and> P (fst s3)" by simp
    obtain u s4 where se: "settleRotation K E tz now (gateways_of E v) s3 = (u, s4)" by (rule prod.exhaust)
    then have s4: "holds (snd s4)"
      using settleGateways_holds [OF K, of E "gateways_of E v" s3 u s4] s3
      by (auto simp: settleRotation_def split: option.splits if_splits)
    show ?thesis
      using a get Inr s s2 ro s3 se s4 w1
      by (cases s3; cases s4) (auto simp: rotationReconcile_def
          split: if_splits go.splits bool.splits option.splits)
  qed
qed

end

definition histories_bounded :: "vpn_key_rotation \<Rightarrow> bool" where
  "histories_bounded v \<longleftrightarrow> (\<forall>n h. map_of (StatusHistory v) n = Some h \<longrightarrow> length h \<le> 5)"

lemma pushHistory_bounded: "length (pushHistory x h) \<le> 5"
  by (simp add: pushHistory_def Let_def)

interpretation bounded: rotation_predicate histories_bounded
proof
  fix v m n rotation
  show "histories_bounded v \<Longrightarrow> histories_bounded (v\<lparr>CurrentRotationState := m\<rparr>)"
    by (simp add: histories_bounded_def)
  show "histories_bounded v \<Longrightarrow> histories_bounded (recordRotation n rotation v)"
    using pushHistory_bounded by (simp add: histories_bounded_def recordRotation_def Let_def)
qed

text \<open>The part of the resource that the controller owns: its metadata and its spec.\<close>

definition rotation_spec :: "vpn_key_rotation \<Rightarrow> object_meta \<times> int \<times> int option \<times> (string \<times> string list) list" where
  "rotation_spec v = (vk_meta v, RotationCount v, CertificateCreationTime v, ClusterGatewayMapping v)"

interpretation spec_kept: rotation_predicate "\<lambda>v. rotation_spec v \<in> S" for S
  by unfold_locales (simp_all add: rotation_spec_def recordRotation_def Let_def)

section \<open>Step 1\<close>

lemma syncEntries_keys:
  "syncEntries K t cur gws s w = (Ret (Some s'), w') \<Longrightarrow> distinct (map fst s) \<Longrightarrow>
     distinct (map fst s') \<and> fst ` set s' = fst ` set s \<union> set gws"
proof (induction gws arbitrary: s w)
  case (Cons gw gws)
  have upd: "distinct (map fst (AList.update gw x s))" "fst ` set (AList.update gw x s) = insert gw (fst ` set s)" for x
    using Cons.prems(2) by (simp_all add: distinct_update dom_update)
  show ?case
  proof (cases "map_of cur gw")
    case (Some x)
    with Cons.prems have "syncEntries K t cur gws (AList.update gw x s) w = (Ret (Some s'), w')" by simp
    from Cons.IH [OF this upd(1)] upd(2) [of x] show ?thesis by auto
  next
    case None
    with Cons.prems obtain w1 x where
      "syncEntries K t cur gws (AList.update gw x s) w1 = (Ret (Some s'), w')"
      by (auto split: prod.splits bool.splits option.splits)
    from Cons.IH [OF this upd(1)] upd(2) [of x] show ?thesis by auto
  qed
qed simp

lemma addRemaining_keys:
  "distinct (map fst s) \<Longrightarrow> distinct (map fst (addRemaining cur s))
     \<and> fst ` set (addRemaining cur s) = fst ` set s \<union> fst ` set cur"
  unfolding addRemaining_def
proof (induction cur arbitrary: s)
  case (Cons a cur)
  obtain k x where a: "a = (k, x)" by fastforce
  show ?case
  proof (cases "map_of s k")
    case None
    have "distinct (map fst (AList.update k x s))" using Cons.prems by (simp add: distinct_update)
    from Cons.IH [OF this] None a show ?thesis by (auto simp: dom_update)
  next
    case (Some y)
    then have "k \<in> fst ` set s" by (metis map_of_eq_None_iff option.distinct(1))
    with Cons.IH [OF Cons.prems] Some a show ?thesis by auto
  qed
qed simp

lemma same_length_keys:
  assumes "distinct (map fst xs)" "distinct (map fst ys)" "fst ` set ys \<subseteq> fst ` set xs"
    and "length xs = length ys"
  shows "fst ` set xs = fst ` set ys"
proof -
  have "card (set (map fst xs)) = length xs" "card (set (map fst ys)) = length ys"
    using distinct_card [OF assms(1)] distinct_card [OF assms(2)] by simp_all
  then have "card (fst ` set xs) = card (fst ` set ys)" using assms(4) by simp
  then show ?thesis using assms(3) by (metis List.finite_set card_subset_eq finite_imageI)
qed

text \<open>The entries of the status are in line with the gateways of the cluster.\<close>

definition synced :: "environ \<Rightarrow> vpn_key_rotation \<Rightarrow> bool" where
  "synced E v \<longleftrightarrow> set (gateways_of E v) \<subseteq> fst ` set (CurrentRotationState v)
     \<and> set (keysInStatus (getenv E ''CLUSTER_NAME'') (CurrentRotationState v)) \<subseteq> set (gateways_of E v)"

definition distinct_states :: "world \<Rightarrow> bool" where
  "distinct_states w \<longleftrightarrow> (\<forall>v \<in> set (h_rotations w). distinct (map fst (CurrentRotationState v)))"

context lawful
begin

lemma syncAttempt_settled:
  assumes a: "syncAttempt K E (q, v, w) = (Ret None, False, v', w')" and "distinct_states w"
  shows "synced E v'"
proof -
  from a obtain v1 w1 where get:
    "r_get (k_rotations K) (om_Namespace (vk_meta v)) (om_Name (vk_meta v)) w = (Inr v1, w1)"
    by (auto simp: syncAttempt_def split: prod.splits sum.splits)
  from rot.get_ok [OF get] assms(2) have d: "distinct (map fst (CurrentRotationState v1))"
    by (auto simp: distinct_states_def dest: find_Some_iff')
  let ?cur = "CurrentRotationState v1"
  let ?del = "arrayDifference (gateways_of E v1) (keysInStatus (getenv E ''CLUSTER_NAME'') ?cur)"
  obtain y w2 where s0: "syncEntries K (CertificateCreationTime v1) ?cur (gateways_of E v1) [] w1
      = (y, w2)" by (rule prod.exhaust)
  obtain s where y: "y = Ret (Some s)"
  proof (cases y)
    case Panic
    with a get s0 show ?thesis by (simp add: syncAttempt_def Let_def)
  next
    case (Ret z)
    with a get s0 that show ?thesis by (cases z) (simp_all add: syncAttempt_def Let_def)
  qed
  note s = s0 [unfolded y]
  have c: "length (addRemaining ?cur s) = length ?cur" "?del = []" and v': "v' = v1"
    using a get s by (simp_all add: syncAttempt_def Let_def split: if_splits prod.splits)
  from syncEntries_keys [OF s] have s': "distinct (map fst s)" "fst ` set s = set (gateways_of E v1)" by auto
  note r = addRemaining_keys [OF s'(1), of ?cur]
  have "fst ` set (addRemaining ?cur s) = fst ` set ?cur"
    using same_length_keys [of "addRemaining ?cur s" ?cur] r d c(1) by blast
  with r s'(2) have "set (gateways_of E v1) \<subseteq> fst ` set ?cur" by (metis Un_upper1)
  moreover have "set (keysInStatus (getenv E ''CLUSTER_NAME'') ?cur) \<subseteq> set (gateways_of E v1)"
    using c(2) unfolding arrayDifference_def filter_empty_conv by blast
  ultimately show ?thesis by (simp add: synced_def v')
qed

lemma syncAttempt_conflict:
  assumes "syncAttempt K E (q, v, w) = (Ret (Some Conflict), q', v', w')"
  shows "h_rotations w' = h_rotations w"
proof -
  obtain x w1 where get: "r_get (k_rotations K) (om_Namespace (vk_meta v)) (om_Name (vk_meta v)) w = (x, w1)"
    by fastforce
  note w1 = rot.get_world [OF get]
  show ?thesis
  proof (cases x)
    case (Inl e)
    with assms get w1 show ?thesis by (auto simp: syncAttempt_def)
  next
    case (Inr v1)
    obtain y w2 where s: "syncEntries K (CertificateCreationTime v1) (CurrentRotationState v1)
        (gateways_of E v1) [] w1 = (y, w2)" by fastforce
    from syncEntries_reads [OF s] w1 have w2: "h_rotations w2 = h_rotations w" by (auto elim!: readsE)
    show ?thesis
      using assms get Inr s w2
      by (auto simp: syncAttempt_def Let_def split: go.splits option.splits if_splits prod.splits
          dest!: rot.update_status_err)
  qed
qed

lemma sync_settled:
  assumes "syncCurrentRotationState K E (v, w) = (Ret None, False, v', w')" and "distinct_states w"
  shows "synced E v'"
proof -
  let ?P = "\<lambda>s. h_rotations (snd (snd s)) = h_rotations w"
  have "\<exists>s. ?P s \<and> syncAttempt K E s = (Ret None, False, v', w')"
  proof (rule RetryOnConflict_go_success [OF assms(1) [unfolded syncCurrentRotationState_def]])
    fix s1 s2
    assume "?P s1" "syncAttempt K E s1 = (Ret (Some Conflict), s2)"
    then show "?P s2"
      using syncAttempt_conflict [of E "fst s1" "fst (snd s1)" "snd (snd s1)" "fst s2" "fst (snd s2)" "snd (snd s2)"]
      by simp
  qed simp
  then obtain q v1 w1 where "h_rotations w1 = h_rotations w"
    "syncAttempt K E (q, v1, w1) = (Ret None, False, v', w')" by auto
  with assms(2) syncAttempt_settled [of E q v1 w1 v' w'] show ?thesis by (simp add: distinct_states_def)
qed

section \<open>Step 2\<close>

text \<open>Secrets, recyclers and gateways are left alone.\<close>

abbreviation actors_same :: "world \<Rightarrow> world \<Rightarrow> bool" where
  "actors_same w w' \<equiv> w_secrets w' = w_secrets w \<and> h_recyclers w' = h_recyclers w
     \<and> w_slicegws w' = w_slicegws w"

lemma rot_update_actors: "r_update_status (k_rotations K) v w = (r, w') \<Longrightarrow> actors_same w w'"
  by (cases r) (auto dest!: rot.update_status_ok rot.update_status_err)

lemma setRotationStatus_actors:
  "setRotationStatus K n st s = (r, s') \<Longrightarrow> actors_same (snd s) (snd s')"
  by (auto simp: setRotationStatus_def Let_def split: prod.splits sum.splits if_splits option.splits
      dest!: rot.get_world rot_update_actors)

lemma updateRotationStatus_actors:
  "updateRotationStatus K n st s = (r, s') \<Longrightarrow> actors_same (snd s) (snd s')"
  unfolding updateRotationStatus_def
  by (erule RetryOnConflict_keeps [where P = "\<lambda>s'. actors_same (snd s) (snd s')"])
    (auto dest: setRotationStatus_actors)

lemma setRotationStatusWithTimeStamp_actors:
  "setRotationStatusWithTimeStamp K n st t s = (r, s') \<Longrightarrow> actors_same (snd s) (snd s')"
  by (auto simp: setRotationStatusWithTimeStamp_def Let_def
      split: prod.splits sum.splits if_splits option.splits dest!: rot.get_world rot_update_actors)

lemma updateRotationStatusWithTimeStamp_actors:
  "updateRotationStatusWithTimeStamp K n st t s = (r, s') \<Longrightarrow> actors_same (snd s) (snd s')"
  unfolding updateRotationStatusWithTimeStamp_def
  by (erule RetryOnConflict_go_keeps [where P = "\<lambda>s'. actors_same (snd s) (snd s')"])
    (auto dest: setRotationStatusWithTimeStamp_actors)

lemma TriggerFSM_secrets: "TriggerFSM K E g a b w = (r, w') \<Longrightarrow> w_secrets w' = w_secrets w"
proof -
  have c: "w_secrets w2 = w_secrets w1" if "r_create (k_recyclers K) rc w1 = (x, w2)" for rc w1 x w2
    using that by (cases x) (auto dest!: rec.create_ok rec.create_err)
  show "TriggerFSM K E g a b w = (r, w') \<Longrightarrow> w_secrets w' = w_secrets w"
    by (auto simp: TriggerFSM_def CreateWorkerSliceGwRecycler_def
        split: prod.splits sum.splits option.splits go_error.splits dest!: rec.get_world c)
qed

lemma triggerPods_secrets: "triggerPods K E g ps w = (r, w') \<Longrightarrow> w_secrets w' = w_secrets w"
proof (induction ps arbitrary: w)
  case (Cons p ps)
  obtain x w1 where s: "GetSlice K (gw_SliceName g) w = (x, w1)" by fastforce
  then have w1: "w_secrets w1 = w_secrets w" by (auto simp: GetSlice_def dest: slice.get_world)
  show ?case
    using Cons.prems s w1 Cons.IH
    by (auto split: sum.splits prod.splits option.splits dest!: TriggerFSM_secrets)
qed simp

lemma startRecycling_secrets:
  assumes "startRecycling K E g n (v, w) = (r, s')"
  shows "w_secrets (snd s') = w_secrets w"
proof -
  obtain x w1 where l: "r_list (k_pods K) (all_namespaces (rotation_pod_labels g)) w = (x, w1)" by fastforce
  from pod.list_world [OF l] have w1: "w_secrets w1 = w_secrets w" by simp
  show ?thesis
  proof (cases x)
    case (Inl e)
    with assms l w1 show ?thesis by (auto simp: startRecycling_def)
  next
    case (Inr ps)
    obtain y w2 where t: "triggerPods K E g ps w1 = (y, w2)" by fastforce
    note w2 = triggerPods_secrets [OF t]
    obtain c s2 where u: "updateRotationStatusWithTimeStamp K (SliceGatewayRemoteGatewayID (gw_Config g))
        InProgress (CertificateCreationTime v) (v, w2) = (c, s2)" by (rule prod.exhaust)
    note s2 = updateRotationStatusWithTimeStamp_actors [OF u]
    obtain c3 s3 where u3: "updateRotationStatusWithTimeStamp K n
        InProgress (CertificateCreationTime (fst s2)) s2 = (c3, s3)" by (rule prod.exhaust)
    note s3 = updateRotationStatusWithTimeStamp_actors [OF u3]
    show ?thesis
      using assms l Inr t u u3 s2 s3 w1 w2
      by (cases s2) (auto simp: startRecycling_def split: go.splits option.splits)
  qed
qed

lemma serverAwaitsClient_guard:
  assumes a: "serverAwaitsClient K E n (v, w) = (r, s')" and "h_recyclers (snd s') \<noteq> h_recyclers w"
  shows "w_secrets (snd s') = w_secrets w
    \<and> (\<exists>g \<in> set (w_slicegws w). gw_Name g = n \<and> isServer g
         \<and> (\<exists>c. map_of (CurrentRotationState v) (SliceGatewayRemoteGatewayID (gw_Config g)) = Some c
              \<and> sk_Status c = SecretUpdated))"
proof -
  obtain x w1 where g: "r_get (k_slicegws K) ControlPlaneNamespace n w = (x, w1)" by fastforce
  note w1 = gw.get_world [OF g]
  from a g assms(2) w1 obtain g1 where x: "x = Inr g1"
    by (cases x) (auto simp: serverAwaitsClient_def)
  from gw.get_ok [OF g [unfolded x]] have g1: "g1 \<in> set (w_slicegws w)" "gw_Name g1 = n"
    by (auto dest: find_Some_iff' simp: keyed_def)
  from a g x assms(2) w1 obtain c r1 where c: "isServer g1"
    "map_of (CurrentRotationState v) (SliceGatewayRemoteGatewayID (gw_Config g1)) = Some c"
    "sk_Status c = SecretUpdated" "startRecycling K E g1 n (v, w1) = (r1, s')"
    by (auto simp: serverAwaitsClient_def split: if_splits option.splits prod.splits)
  with startRecycling_secrets [OF c(4)] w1 g1 show ?thesis by auto
qed

lemma updateCertificates_ok:
  assumes "updateCertificates K c n ns w = ((res, False, None), w')"
  shows "\<exists>s \<in> set (w_secrets w'). om_Name (sec_meta s) = rotationSecretName n c
    \<and> om_Namespace (sec_meta s) = ControlPlaneNamespace"
proof -
  obtain x w1 where get: "r_get (k_secrets K) ControlPlaneNamespace (rotationSecretName n c) w = (x, w1)"
    by fastforce
  show ?thesis
  proof (cases x)
    case (Inr s)
    from sec.get_ok [OF get [unfolded Inr]] have "s \<in> set (w_secrets w1)"
      "om_Name (sec_meta s) = rotationSecretName n c" "om_Namespace (sec_meta s) = ControlPlaneNamespace"
      by (auto dest: find_Some_iff' simp: keyed_def)
    with assms get Inr show ?thesis by (auto simp: updateCertificates_def)
  next
    case (Inl e)
    with assms get have e: "e = NotFound" by (cases e) (auto simp: updateCertificates_def)
    obtain y w2 where h: "r_get (k_hubsecrets K) ns n w1 = (y, w2)" by fastforce
    from assms get Inl e h obtain certs where y: "y = Inr certs"
      by (cases y) (auto simp: updateCertificates_def)
    let ?s = "\<lparr>sec_meta = new_meta ControlPlaneNamespace (rotationSecretName n c)
        [(''kubeslice.io/slice-gw'', n)], sec_Data = sec_Data certs\<rparr>"
    from assms get Inl e h y have "r_create (k_secrets K) ?s w2 = (None, w')"
      by (auto simp: updateCertificates_def split: prod.splits option.splits)
    from sec.create_ok [OF this] show ?thesis by (intro bexI [of _ ?s]) simp_all
  qed
qed

lemma updateCertificates_actors:
  assumes "updateCertificates K c n ns w = (r, w')"
  shows "w_slicegws w' = w_slicegws w \<and> h_recyclers w' = h_recyclers w"
proof -
  have c: "w_slicegws w2 = w_slicegws w1 \<and> h_recyclers w2 = h_recyclers w1"
    if "r_create (k_secrets K) ob w1 = (x, w2)" for ob w1 x w2
    using that by (cases x) (auto dest!: sec.create_ok sec.create_err)
  show ?thesis
    using assms
    by (auto simp: updateCertificates_def Let_def split: prod.splits sum.splits go_error.splits option.splits
        dest!: sec.get_world hsec.get_world c)
qed

lemma rotateGateway_guard:
  assumes a: "rotateGateway K E ns n (v, w) = (r, s')" and ch: "h_recyclers (snd s') \<noteq> h_recyclers w"
  shows "CertificateCreationTime v \<noteq> Some (LastUpdatedTimestamp (rotation_of v n))
    \<and> sk_Status (rotation_of v n) \<in> {SecretReadInProgress, SecretUpdated}
    \<and> (\<exists>s \<in> set (w_secrets (snd s')). om_Name (sec_meta s) = rotationSecretName n (RotationCount v)
         \<and> om_Namespace (sec_meta s) = ControlPlaneNamespace)
    \<and> (\<exists>v1. \<exists>g \<in> set (w_slicegws w). gw_Name g = n \<and> isServer g
         \<and> (\<exists>c. map_of (CurrentRotationState v1) (SliceGatewayRemoteGatewayID (gw_Config g)) = Some c
              \<and> sk_Status c = SecretUpdated)
         \<and> (v1 = v \<or> (\<exists>w0 s0. setRotationStatus K n SecretUpdated s0 = (None, v1, w0))))"
proof -
  let ?st = "sk_Status (rotation_of v n)"
  obtain e1 s1 where r1: "updateRotationStatus K n SecretReadInProgress (v, w) = (e1, s1)" by (rule prod.exhaust)
  note s1 = updateRotationStatus_actors [OF r1]
  have due: "CertificateCreationTime v \<noteq> Some (LastUpdatedTimestamp (rotation_of v n))"
    "?st \<in> {SecretReadInProgress, SecretUpdated}"
    using a ch r1 s1
    by (auto simp: rotateGateway_def Let_def split: if_splits option.splits prod.splits)
  obtain c w1 where u: "updateCertificates K (RotationCount v) n ns w = (c, w1)" by (rule prod.exhaust)
  note w1 = updateCertificates_actors [OF u]
  have st: "?st \<noteq> InProgress" using due(2) by (auto simp: rotation_status_defs)
  obtain res where c: "c = (res, False, None)"
    using a ch u w1 due st
    by (cases c) (auto simp: rotateGateway_def Let_def split: if_splits bool.splits option.splits)
  note sec = updateCertificates_ok [OF u [unfolded c]]
  obtain e2 s2 where r2: "(if ?st \<noteq> SecretUpdated then updateRotationStatus K n SecretUpdated (v, w1)
      else (None, (v, w1))) = (e2, s2)" by (rule prod.exhaust)
  have s2: "actors_same w1 (snd s2)"
    using r2 updateRotationStatus_actors [of n SecretUpdated "(v, w1)" e2 s2] by (auto split: if_splits)
  have e2: "e2 = None" and aw: "serverAwaitsClient K E n s2 = (r, s')"
    using a ch u c w1 due st r2 s2
    by (auto simp: rotateGateway_def Let_def split: if_splits option.splits prod.splits)
  have "serverAwaitsClient K E n (fst s2, snd s2) = (r, s')" using aw by simp
  from serverAwaitsClient_guard [OF this] s2 w1 ch
  have g: "w_secrets (snd s') = w_secrets w1"
    "\<exists>g \<in> set (w_slicegws w). gw_Name g = n \<and> isServer g
       \<and> (\<exists>c. map_of (CurrentRotationState (fst s2)) (SliceGatewayRemoteGatewayID (gw_Config g)) = Some c
            \<and> sk_Status c = SecretUpdated)" by auto
  have "fst s2 = v \<or> (\<exists>w0 s0. setRotationStatus K n SecretUpdated s0 = (None, fst s2, w0))"
  proof (cases "?st = SecretUpdated")
    case True
    with r2 show ?thesis by auto
  next
    case False
    with r2 e2 have "RetryOnConflict rotationRetrySteps (setRotationStatus K n SecretUpdated) (v, w1) = (None, s2)"
      by (simp add: updateRotationStatus_def)
    from RetryOnConflict_success [OF this, where P = "\<lambda>_. True"]
    obtain s0 where "setRotationStatus K n SecretUpdated s0 = (None, s2)" by blast
    then show ?thesis by (metis prod.collapse)
  qed
  with due sec g show ?thesis by metis
qed

end

section \<open>Step 3\<close>

context lawful
begin

lemma removeOldSecrets_secrets:
  "removeOldSecrets K c n w = (r, w') \<Longrightarrow> w_secrets w' = w_secrets w
     \<or> w_secrets w' = remove_object sec_meta ControlPlaneNamespace (rotationSecretName n (c - 1)) (w_secrets w)"
  by (auto simp: removeOldSecrets_def split: prod.splits option.splits go_error.splits
      dest!: sec.delete_ok sec.delete_err)

lemma settleGateway_guard:
  assumes a: "settleGateway K E n (v, w) = (r, s')"
    and ch: "h_rotations (snd s') \<noteq> h_rotations w \<or> w_secrets (snd s') \<noteq> w_secrets w"
  shows "sk_Status (rotation_of v n) = InProgress
    \<and> (\<exists>g \<in> set (w_slicegws w). gw_Name g = n \<and> isServer g)
    \<and> (case filter (selects rc_meta no_phase
                (in_namespace (ProjectNamespace E) [(''slicegw_name'', n)])) (h_recyclers w) of
         [] \<Rightarrow> True
       | rc # _ \<Rightarrow> (rc_State rc = ''error'' \<or> rc_ClientResponse rc = ''error'')
                   \<and> w_secrets (snd s') = w_secrets w)"
proof -
  from a ch have st: "sk_Status (rotation_of v n) = InProgress"
    by (auto simp: settleGateway_def split: if_splits)
  obtain x w1 where g: "r_get (k_slicegws K) ControlPlaneNamespace n w = (x, w1)" by fastforce
  note w1 = gw.get_world [OF g]
  obtain g1 where x: "x = Inr g1"
    using a ch st g w1 by (cases x) (auto simp: settleGateway_def split: go_error.splits)
  from gw.get_ok [OF g [unfolded x]] have g1: "g1 \<in> set (w_slicegws w)" "gw_Name g1 = n"
    by (auto dest: find_Some_iff' simp: keyed_def)
  have sv: "isServer g1" using a ch st g w1 x by (auto simp: settleGateway_def split: if_splits)
  obtain y w2 where l: "ListWorkerSliceGwRecycler K E n w1 = (y, w2)" by fastforce
  note l' = l [unfolded ListWorkerSliceGwRecycler_def]
  note w2 = rec.list_world [OF l']
  obtain rs where y: "y = Inr rs"
    using a ch st g w1 x sv l w2 by (cases y) (auto simp: settleGateway_def)
  from rec.list_ok [OF l' [unfolded y]] w1
  have rs: "rs = filter (selects rc_meta no_phase
      (in_namespace (ProjectNamespace E) [(''slicegw_name'', n)])) (h_recyclers w)" by simp
  show ?thesis
  proof (cases rs)
    case Nil
    with st g1 sv rs show ?thesis by auto
  next
    case (Cons rc rest)
    have er: "rc_State rc = ''error'' \<or> rc_ClientResponse rc = ''error''"
      using a ch st g w1 x sv l w2 y Cons by (auto simp: settleGateway_def split: if_splits)
    obtain r1 where f: "failRotation K g1 n (CertificateCreationTime v) (v, w2) = (r1, s')"
      using a st g x sv l y Cons er by (auto simp: settleGateway_def split: prod.splits)
    have "w_secrets (snd s') = w_secrets w2"
    proof -
      obtain c1 s1 where u: "updateRotationStatusWithTimeStamp K (SliceGatewayRemoteGatewayID (gw_Config g1))
          Error (CertificateCreationTime v) (v, w2) = (c1, s1)" by (rule prod.exhaust)
      obtain c2 s2 where u2: "updateRotationStatusWithTimeStamp K n
          Error (CertificateCreationTime v) s1 = (c2, s2)" by (rule prod.exhaust)
      show ?thesis
        using f u u2 updateRotationStatusWithTimeStamp_actors [OF u] updateRotationStatusWithTimeStamp_actors [OF u2]
        by (auto simp: failRotation_def split: go.splits option.splits)
    qed
    with w1 w2 er Cons rs st g1 sv show ?thesis by (auto split: list.splits)
  qed
qed

lemma settleGateway_secrets:
  assumes a: "settleGateway K E n (v, w) = (r, s')" and ch: "w_secrets (snd s') \<noteq> w_secrets w"
  shows "r = None \<and> w_secrets (snd s') = remove_object sec_meta ControlPlaneNamespace
    (rotationSecretName n (RotationCount (fst s') - 1)) (w_secrets w)"
proof -
  from settleGateway_guard [OF a] ch
  have st: "sk_Status (rotation_of v n) = InProgress" by blast
  obtain x w1 where g: "r_get (k_slicegws K) ControlPlaneNamespace n w = (x, w1)" by fastforce
  note w1 = gw.get_world [OF g]
  obtain g1 where x: "x = Inr g1"
    using a ch st g w1 by (cases x) (auto simp: settleGateway_def split: go_error.splits)
  have sv: "isServer g1" using a ch st g w1 x by (auto simp: settleGateway_def split: if_splits)
  obtain y w2 where l: "ListWorkerSliceGwRecycler K E n w1 = (y, w2)" by fastforce
  note w2 = rec.list_world [OF l [unfolded ListWorkerSliceGwRecycler_def]]
  obtain rs where y: "y = Inr rs"
    using a ch st g w1 x sv l w2 by (cases y) (auto simp: settleGateway_def)
  have "rs = []"
  proof (cases rs)
    case (Cons rc rest)
    obtain c1 s1 where u: "updateRotationStatusWithTimeStamp K (SliceGatewayRemoteGatewayID (gw_Config g1))
        Error (CertificateCreationTime v) (v, w2) = (c1, s1)" by (rule prod.exhaust)
    obtain c2 s2 where u2: "updateRotationStatusWithTimeStamp K n
        Error (CertificateCreationTime v) s1 = (c2, s2)" by (rule prod.exhaust)
    show ?thesis
      using a ch st g w1 x sv l w2 y Cons u u2
        updateRotationStatusWithTimeStamp_actors [OF u] updateRotationStatusWithTimeStamp_actors [OF u2]
      by (auto simp: settleGateway_def failRotation_def split: go.splits option.splits if_splits prod.splits)
  qed
  let ?t = "CertificateCreationTime v"
  have cr: "completeRotation K g1 n ?t (v, w2) = (r, s')"
    using a st g x sv l y \<open>rs = []\<close> by (simp add: settleGateway_def)
  obtain c1 s1 where u: "updateRotationStatusWithTimeStamp K n Complete ?t (v, w2) = (c1, s1)" by (rule prod.exhaust)
  obtain c2 v2 w3 where u2: "updateRotationStatusWithTimeStamp K (SliceGatewayRemoteGatewayID (gw_Config g1))
      Complete ?t s1 = (c2, v2, w3)" by (metis prod.collapse)
  from updateRotationStatusWithTimeStamp_actors [OF u] updateRotationStatusWithTimeStamp_actors [OF u2] w1 w2
  have sec: "w_secrets w3 = w_secrets w" "w_secrets (snd s1) = w_secrets w" by simp_all
  obtain e w4 where rm: "removeOldSecrets K (RotationCount v2) n w3 = (e, w4)" by fastforce
  have rs4: "s' = (v2, w4)" "e = None \<longrightarrow> r = None"
    using cr u u2 sec ch rm by (auto simp: completeRotation_def split: go.splits option.splits)
  have "e = None"
    using removeOldSecrets_secrets [OF rm] rm rs4 ch sec
    by (auto simp: removeOldSecrets_def split: prod.splits option.splits go_error.splits dest!: sec.delete_err)
  with removeOldSecrets_secrets [OF rm] rs4 sec ch show ?thesis by auto
qed

end

section \<open>Properties\<close>

text \<open>
  no pass of the reconciler, whatever the servers answer, lets the history of a gateway grow
  beyond five rotations.
\<close>

theorem rotation_history_bounded:
  assumes "lawful K" and "rotationReconcile K E tz now ns n w = (r, w')"
    and "\<forall>v \<in> set (h_rotations w). \<forall>gw h. map_of (StatusHistory v) gw = Some h \<longrightarrow> length h \<le> 5"
  shows "\<forall>v \<in> set (h_rotations w'). \<forall>gw h. map_of (StatusHistory v) gw = Some h \<longrightarrow> length h \<le> 5"
  using bounded.rotationReconcile_holds [OF assms(1, 2)] assms(3)
  by (simp add: bounded.holds_def histories_bounded_def)

text \<open>
  a pass never changes what the controller owns: the metadata and the spec of every resource
  (count, time and gateways) after it are those of a resource before it.
\<close>

theorem rotation_spec_kept:
  assumes "lawful K" and "rotationReconcile K E tz now ns n w = (r, w')"
  shows "rotation_spec ` set (h_rotations w') \<subseteq> rotation_spec ` set (h_rotations w)"
  using spec_kept.rotationReconcile_holds [OF assms, of "rotation_spec ` set (h_rotations w)"]
  by (auto simp: spec_kept.holds_def)

text \<open>
  when the first step of a pass lets it go on, every gateway of the cluster has an entry in
  the status, and no entry is left of a gateway of this cluster that the spec does not name.
\<close>

theorem rotation_entries_synced:
  assumes "lawful K" and "syncCurrentRotationState K E (v, w) = (Ret None, False, v', w')"
    and "\<forall>u \<in> set (h_rotations w). distinct (map fst (CurrentRotationState u))"
  shows "set (gateways_of E v') \<subseteq> fst ` set (CurrentRotationState v')
    \<and> set (keysInStatus (getenv E ''CLUSTER_NAME'') (CurrentRotationState v')) \<subseteq> set (gateways_of E v')"
  using lawful.sync_settled [OF assms(1, 2)] assms(3) by (simp_all add: synced_def distinct_states_def)


text \<open>
  C40: the end of a rotation. The third step writes the status of a gateway or deletes a secret
  only for a server gateway in \<open>IN_PROGRESS\<close> whose recyclers are gone, or (without touching
  secrets) when the first of them reports an error.
\<close>

theorem rotation_ends_after_recyclers:
  assumes "lawful K" and "settleGateway K E n (v, w) = (r, s')"
    and "h_rotations (snd s') \<noteq> h_rotations w \<or> w_secrets (snd s') \<noteq> w_secrets w"
  shows "sk_Status (rotation_of v n) = InProgress
    \<and> (\<exists>g \<in> set (w_slicegws w). gw_Name g = n \<and> isServer g)
    \<and> (case filter (selects rc_meta no_phase
                (in_namespace (ProjectNamespace E) [(''slicegw_name'', n)])) (h_recyclers w) of
         [] \<Rightarrow> True
       | rc # _ \<Rightarrow> (rc_State rc = ''error'' \<or> rc_ClientResponse rc = ''error'')
                   \<and> w_secrets (snd s') = w_secrets w)"
  by (rule lawful.settleGateway_guard [OF assms])

text \<open>
  the only secret the third step removes is the gateway's secret of the previous rotation,
  and only when both statuses are written (the pass then goes on to the next gateway).
\<close>

theorem only_previous_secret_removed:
  assumes "lawful K" and "settleGateway K E n (v, w) = (r, s')"
    and "w_secrets (snd s') \<noteq> w_secrets w"
  shows "r = None \<and> w_secrets (snd s') = remove_object sec_meta ControlPlaneNamespace
    (rotationSecretName n (RotationCount (fst s') - 1)) (w_secrets w)"
  by (rule lawful.settleGateway_secrets [OF assms])

section \<open>The properties on a small cluster\<close>

definition ex_env :: environ where
  "ex_env = [''CLUSTER_NAME'' \<mapsto> ''a'']"

definition ex_status :: "string \<Rightarrow> int \<Rightarrow> status_of_key_rotation" where
  "ex_status st t = \<lparr>sk_Status = st, LastUpdatedTimestamp = t\<rparr>"

definition ex_rotating :: "string \<Rightarrow> int \<Rightarrow> vpn_key_rotation" where
  "ex_rotating st t =
     \<lparr>vk_meta = new_meta '''' ''red'' [], RotationCount = 2, CertificateCreationTime = Some 1000,
      ClusterGatewayMapping = [(''a'', [''red-a-b''])],
      CurrentRotationState = [(''red-a-b'', ex_status st t), (''red-b-a'', ex_status st t)],
      StatusHistory = []\<rparr>"

definition ex_cluster_pod :: pod where
  "ex_cluster_pod =
     \<lparr>p_meta = new_meta ''kubeslice-system'' ''red-a-b-0-0-x''
        [(''kubeslice.io/pod-type'', ''slicegateway''),
         (''kubeslice.io/slice'', ''red''), (''kubeslice.io/slice-gw'', ''red-a-b'')],
      p_Phase = ''Running'', p_PodIP = ''10.9.0.1'', p_NodeName = ''n1'', p_TerminatedExitCodes = []\<rparr>"

definition ex_rotation_world :: "string \<Rightarrow> int \<Rightarrow> world" where
  "ex_rotation_world st t = empty_world\<lparr>
     h_rotations := [ex_rotating st t], w_slicegws := [ex_status_gateway], w_pods := [ex_cluster_pod],
     w_slices := [new_slice (new_meta ''kubeslice-system'' ''red'' [])],
     w_secrets := map (\<lambda>n. \<lparr>sec_meta = new_meta ''kubeslice-system'' n [], sec_Data = []\<rparr>)
        [''red-a-b-1'', ''red-a-b-2'']\<rparr>"

abbreviation ex_start :: "(ctrl_result \<times> go_error option) go option \<times> rotation_state" where
  "ex_start \<equiv> rotateGateway ex_kube ex_env '''' ''red-a-b''
     (ex_rotating SecretUpdated 500, ex_rotation_world SecretUpdated 500)"

abbreviation ex_end :: "(ctrl_result \<times> go_error option) go option \<times> rotation_state" where
  "ex_end \<equiv> settleGateway ex_kube ex_env ''red-a-b''
     (ex_rotating InProgress 1000, ex_rotation_world InProgress 1000)"

abbreviation ex_last_pass :: "(ctrl_result \<times> go_error option) go \<times> world" where
  "ex_last_pass \<equiv> rotationReconcile ex_kube ex_env 0 2000 '''' ''red'' (ex_rotation_world InProgress 1000)"

lemma ex_started: "map rc_ServerID (h_recyclers (snd (snd ex_start))) = [''red-a-b-0-0'']"
  by code_simp

lemma ex_ended:
  "map (om_Name \<circ> sec_meta) (w_secrets (snd (snd ex_end))) = [''red-a-b-2'']"
  by code_simp

lemma ex_completed:
  "map (map (map sk_Status \<circ> snd) \<circ> StatusHistory) (h_rotations (snd ex_last_pass))
     = [[[''COMPLETE''], [''COMPLETE'']]]"
  by code_simp

lemma ex_history:
  "h_rotations (snd ex_last_pass) \<noteq> []"
  "map_of (StatusHistory (hd (h_rotations (snd ex_last_pass)))) ''red-a-b'' = Some [ex_status Complete 1000]"
  by code_simp+

theorem rotation_history_bounded_witness:
  "length [ex_status Complete 1000] \<le> 5"
proof -
  have "\<forall>v \<in> set (h_rotations (ex_rotation_world InProgress 1000)). StatusHistory v = []"
    by (simp add: ex_rotation_world_def ex_rotating_def)
  then have "\<forall>v \<in> set (h_rotations (ex_rotation_world InProgress 1000)).
      \<forall>gw h. map_of (StatusHistory v) gw = Some h \<longrightarrow> length h \<le> 5" by simp
  from rotation_history_bounded [OF ex_kube_lawful prod.collapse [symmetric] this]
  show ?thesis using ex_history hd_in_set by blast
qed

theorem rotation_spec_kept_witness:
  "rotation_spec ` set (h_rotations (snd ex_last_pass))
     \<subseteq> rotation_spec ` set (h_rotations (ex_rotation_world InProgress 1000))"
  by (rule rotation_spec_kept [OF ex_kube_lawful prod.collapse [symmetric]])

lemma ex_synced:
  "(case syncCurrentRotationState ex_kube ex_env (ex_rotating InProgress 1000, ex_rotation_world InProgress 1000) of
      (Ret None, False, _) \<Rightarrow> True | _ \<Rightarrow> False)"
  by code_simp

theorem rotation_entries_synced_witness:
  "\<exists>v' w'. syncCurrentRotationState ex_kube ex_env
       (ex_rotating InProgress 1000, ex_rotation_world InProgress 1000) = (Ret None, False, v', w')
     \<and> set (gateways_of ex_env v') \<subseteq> fst ` set (CurrentRotationState v')"
proof -
  obtain v' w' where s: "syncCurrentRotationState ex_kube ex_env
       (ex_rotating InProgress 1000, ex_rotation_world InProgress 1000) = (Ret None, False, v', w')"
    using ex_synced by (auto split: prod.splits go.splits option.splits bool.splits)
  have "\<forall>u \<in> set (h_rotations (ex_rotation_world InProgress 1000)). distinct (map fst (CurrentRotationState u))"
    by (simp add: ex_rotation_world_def ex_rotating_def)
  with rotation_entries_synced [OF ex_kube_lawful s] s show ?thesis by blast
qed


lemma ex_secret_gone: "w_secrets (snd (snd ex_end)) \<noteq> w_secrets (ex_rotation_world InProgress 1000)"
  using ex_ended by (auto simp: ex_rotation_world_def)

theorem rotation_ends_after_recyclers_witness:
  "sk_Status (rotation_of (ex_rotating InProgress 1000) ''red-a-b'') = InProgress
     \<and> (\<exists>g \<in> set (w_slicegws (ex_rotation_world InProgress 1000)). gw_Name g = ''red-a-b'' \<and> isServer g)"
  using rotation_ends_after_recyclers [OF ex_kube_lawful prod.collapse [symmetric] disjI2 [OF ex_secret_gone]]
  by blast

theorem only_previous_secret_removed_witness:
  "fst ex_end = None
     \<and> w_secrets (snd (snd ex_end)) = remove_object sec_meta ControlPlaneNamespace
         (rotationSecretName ''red-a-b'' (RotationCount (fst (snd ex_end)) - 1))
         (w_secrets (ex_rotation_world InProgress 1000))"
  by (rule only_previous_secret_removed [OF ex_kube_lawful prod.collapse [symmetric] ex_secret_gone])

end
