(* ===== verification/SliceNamespaces.thy ===== *)
theory SliceNamespaces
  imports HubClient
begin

text \<open>
  Slices and namespaces: \<open>controllers/slice/namespaces.go\<close> and \<open>ContructNetworkPolicyObject\<close>
  of \<open>controllers/controller.go\<close>. A slice has application namespaces, bound by a label, and
  allowed namespaces, which carry a label and the list of their slices in an annotation.
\<close>

section \<open>Names\<close>

definition InjectSidecarKey :: string where
  "InjectSidecarKey = ''kubeslice.io/inject''"

definition AllowedNamespaceSelectorLabelKey :: string where
  "AllowedNamespaceSelectorLabelKey = ''kubeslice.io/namespace''"

definition AllowedNamespaceAnnotationKey :: string where
  "AllowedNamespaceAnnotationKey = ''kubeslice.io/trafficAllowedToSlices''"

lemmas slice_key_defs =
  InjectSidecarKey_def AllowedNamespaceSelectorLabelKey_def AllowedNamespaceAnnotationKey_def

definition allowedNamespacesByDefault :: "string list" where
  "allowedNamespacesByDefault = [''kubeslice-system'', ''kube-system'', ''istio-system'']"

definition ClusterName :: "environ \<Rightarrow> string" where
  "ClusterName E = getenv E ''CLUSTER_NAME''"

abbreviation ns_Labels :: "namespace \<Rightarrow> labels" where
  "ns_Labels n \<equiv> om_Labels (ns_meta n)"

abbreviation ns_Annotations :: "namespace \<Rightarrow> labels" where
  "ns_Annotations n \<equiv> om_Annotations (ns_meta n)"

abbreviation set_ns_Labels :: "labels \<Rightarrow> namespace \<Rightarrow> namespace" where
  "set_ns_Labels ls n \<equiv> n\<lparr>ns_meta := (ns_meta n)\<lparr>om_Labels := ls\<rparr>\<rparr>"

abbreviation set_ns_Annotations :: "labels \<Rightarrow> namespace \<Rightarrow> namespace" where
  "set_ns_Annotations an n \<equiv> n\<lparr>ns_meta := (ns_meta n)\<lparr>om_Annotations := an\<rparr>\<rparr>"

section \<open>Helpers\<close>

fun exists :: "string list \<Rightarrow> string \<Rightarrow> bool" where
  "exists [] v = False"
| "exists (x # xs) v = (if x = v then True else exists xs v)"

lemma exists_iff [simp]: "exists xs v \<longleftrightarrow> v \<in> set xs"
  by (induction xs) auto

fun indexOf_from :: "nat \<Rightarrow> string list \<Rightarrow> string \<Rightarrow> int" where
  "indexOf_from i [] b = -1"
| "indexOf_from i (j # a) b = (if j = b then int i else indexOf_from (Suc i) a b)"

definition indexOf :: "string list \<Rightarrow> string \<Rightarrow> int" where
  "indexOf a b = indexOf_from 0 a b"

definition mergeMaps :: "labels \<Rightarrow> labels \<Rightarrow> labels" where
  "mergeMaps baseMap overrideMap =
     foldl (\<lambda>r (k, v). AList.update k v r) (foldl (\<lambda>r (k, v). AList.update k v r) [] baseMap)
       overrideMap"

fun removeEntries :: "labels \<Rightarrow> labels \<Rightarrow> labels" where
  "removeEntries m1 [] = m1"
| "removeEntries m1 ((key, val) # m2) =
     removeEntries (if map_of m1 key = Some val then AList.delete key m1 else m1) m2"

text \<open>The list of default allowed namespaces is appended to the configured one.\<close>

fun addMissing :: "string list \<Rightarrow> string list \<Rightarrow> string list" where
  "addMissing xs [] = xs"
| "addMissing xs (v # vs) = addMissing (if \<not> exists xs v then xs @ [v] else xs) vs"

definition allowedNamespaces :: "isolation_profile \<Rightarrow> string list" where
  "allowedNamespaces p = addMissing (iso_AllowedNamespaces p) allowedNamespacesByDefault"

definition buildAppNamespacesList :: "isolation_profile \<Rightarrow> string list" where
  "buildAppNamespacesList p =
     filter (\<lambda>ns. ns \<noteq> ControlPlaneNamespace) (iso_ApplicationNamespaces p)"

text \<open>
  The slice's status is written on the latest version of the slice, at most five times; the
  slice in the hands of the reconciler becomes that version.
\<close>

definition updateSliceStatus :: "kube \<Rightarrow> (slice \<Rightarrow> slice) \<Rightarrow> slice \<times> world
    \<Rightarrow> go_error option \<times> slice \<times> world" where
  "updateSliceStatus K change =
     RetryOnConflict DefaultRetry (\<lambda>(s, w).
       case r_get (k_slices K) ControlPlaneNamespace (sl_Name s) w of
         (Inl e, w) \<Rightarrow> (Some e, s, w)
       | (Inr s, w) \<Rightarrow>
           (case r_update_status (k_slices K) (change s) w of (r, w) \<Rightarrow> (r, change s, w)))"

section \<open>Application namespaces\<close>

definition newNamespace :: "string \<Rightarrow> labels \<Rightarrow> labels \<Rightarrow> namespace" where
  "newNamespace n configLabels configAnnotations =
     \<lparr>ns_meta = (new_meta '''' n configLabels)\<lparr>om_Annotations := configAnnotations\<rparr>\<rparr>"

text \<open>The namespace to label: found, or created; \<open>None\<close> where the loop continues.\<close>

definition getOrCreateNamespace :: "kube \<Rightarrow> labels \<Rightarrow> labels \<Rightarrow> string \<Rightarrow> world
    \<Rightarrow> namespace option \<times> world" where
  "getOrCreateNamespace K configLabels configAnnotations cfgAppNs w =
     (case r_get (k_namespaces K) '''' cfgAppNs w of
        (Inr n, w) \<Rightarrow> (Some n, w)
      | (Inl NotFound, w) \<Rightarrow>
          (let n = newNamespace cfgAppNs configLabels configAnnotations
           in case r_create (k_namespaces K) n w of
                (Some e, w) \<Rightarrow> (None, w)
              | (None, w) \<Rightarrow> (Some n, w))
      | (Inl e, w) \<Rightarrow> (None, w))"

text \<open>
  The code calls \<open>mergeMaps\<close> for the labels and for the annotations and drops both results,
  so the namespace gets the two labels of the slice only.
\<close>

definition labelAppNamespace :: "string \<Rightarrow> labels \<Rightarrow> labels \<Rightarrow> namespace \<Rightarrow> namespace" where
  "labelAppNamespace sliceName configLabels configAnnotations n =
     (let nsLabels = ns_Labels n;
          mergedLabels = mergeMaps configLabels nsLabels;
          nsLabels = AList.update ApplicationNamespaceSelectorLabelKey sliceName nsLabels;
          nsLabels = AList.update InjectSidecarKey ''true'' nsLabels;
          mergedAnnotations = mergeMaps configAnnotations (ns_Annotations n)
      in set_ns_Labels nsLabels n)"

text \<open>
  \<open>marks\<close> is \<open>existingAppNsMap\<close>: for each namespace that has the label of the slice, whether
  it has been seen in the configuration.
\<close>

fun createAndLabelAppNamespaces :: "kube \<Rightarrow> slice \<Rightarrow> labels \<Rightarrow> labels \<Rightarrow> string list
    \<Rightarrow> (string \<times> bool) list \<Rightarrow> string list \<Rightarrow> bool \<Rightarrow> world
    \<Rightarrow> ((go_error + string list \<times> bool) \<times> (string \<times> bool) list) \<times> world" where
  "createAndLabelAppNamespaces K s configLabels configAnnotations [] marks labeled changed w =
     ((Inr (labeled, changed), marks), w)"
| "createAndLabelAppNamespaces K s configLabels configAnnotations (cfgAppNs # cfg) marks labeled
     changed w =
     (if map_of marks cfgAppNs \<noteq> None
      then createAndLabelAppNamespaces K s configLabels configAnnotations cfg
             (AList.update cfgAppNs True marks) (labeled @ [cfgAppNs]) changed w
      else
        (case getOrCreateNamespace K configLabels configAnnotations cfgAppNs w of
           (None, w) \<Rightarrow>
             createAndLabelAppNamespaces K s configLabels configAnnotations cfg marks labeled
               changed w
         | (Some n, w) \<Rightarrow>
             (case r_update (k_namespaces K)
                 (labelAppNamespace (sl_Name s) configLabels configAnnotations n) w of
                (Some e, w) \<Rightarrow> ((Inl e, marks), w)
              | (None, w) \<Rightarrow>
                  createAndLabelAppNamespaces K s configLabels configAnnotations cfg marks
                    (labeled @ [cfgAppNs]) True w)))"

text \<open>What the webhook put on a pod or a pod template is taken off.\<close>

definition stripLabels :: "string \<Rightarrow> labels \<Rightarrow> labels" where
  "stripLabels sliceName ls =
     (let ls = AList.delete PodInjectLabelKey ls
      in if map_of ls ApplicationNamespaceSelectorLabelKey = Some sliceName
         then AList.delete ApplicationNamespaceSelectorLabelKey ls else ls)"

definition stripAnnotations :: "string \<Rightarrow> labels \<Rightarrow> labels" where
  "stripAnnotations sliceName an =
     (let an = (if map_of an ''ns.networkservicemesh.io'' = Some (''vl3-service-'' @ sliceName)
                then AList.delete ''ns.networkservicemesh.io'' an else an);
          an = (if map_of an ''networkservicemesh.io''
                  = Some (''kernel://vl3-service-'' @ sliceName @ ''/nsm0'')
                then AList.delete ''networkservicemesh.io'' an else an)
      in AList.delete ''kubeslice.io/status'' an)"

definition stripPod :: "string \<Rightarrow> pod \<Rightarrow> pod" where
  "stripPod sliceName p =
     p\<lparr>p_meta := (p_meta p)\<lparr>
         om_Labels := stripLabels sliceName (om_Labels (p_meta p)),
         om_Annotations := stripAnnotations sliceName (om_Annotations (p_meta p))\<rparr>\<rparr>"

definition stripOwnAnnotations :: "object_meta \<Rightarrow> object_meta" where
  "stripOwnAnnotations m =
     m\<lparr>om_Annotations := AList.delete ''kubeslice.io/status'' (om_Annotations m)\<rparr>"

definition stripDeployment :: "string \<Rightarrow> deployment \<Rightarrow> deployment" where
  "stripDeployment sliceName d =
     d\<lparr>d_TemplateLabels := stripLabels sliceName (d_TemplateLabels d),
       d_TemplateAnnotations := stripAnnotations sliceName (d_TemplateAnnotations d),
       d_meta := stripOwnAnnotations (d_meta d)\<rparr>"

definition stripWorkload :: "string \<Rightarrow> workload \<Rightarrow> workload" where
  "stripWorkload sliceName d =
     d\<lparr>wl_TemplateLabels := stripLabels sliceName (wl_TemplateLabels d),
       wl_TemplateAnnotations := stripAnnotations sliceName (wl_TemplateAnnotations d),
       wl_meta := stripOwnAnnotations (wl_meta d)\<rparr>"

text \<open>The objects are updated one after the other, up to the first error.\<close>

fun updateAll :: "'o resource_ops \<Rightarrow> ('o \<Rightarrow> 'o) \<Rightarrow> 'o list \<Rightarrow> world \<Rightarrow> go_error option \<times> world" where
  "updateAll ops change [] w = (None, w)"
| "updateAll ops change (ob # obs) w =
     (case r_update ops (change ob) w of
        (Some e, w) \<Rightarrow> (Some e, w)
      | (None, w) \<Rightarrow> updateAll ops change obs w)"

text \<open>An error of the list is logged; the list is then empty.\<close>

definition updateInNamespace :: "'o resource_ops \<Rightarrow> ('o \<Rightarrow> 'o) \<Rightarrow> string \<Rightarrow> world
    \<Rightarrow> go_error option \<times> world" where
  "updateInNamespace ops change appNs w =
     (case r_list ops (in_namespace appNs []) w of
        (Inl e, w) \<Rightarrow> updateAll ops change [] w
      | (Inr obs, w) \<Rightarrow> updateAll ops change obs w)"

definition deleteAnnotationsAndLabels :: "kube \<Rightarrow> string \<Rightarrow> string \<Rightarrow> world
    \<Rightarrow> go_error option \<times> world" where
  "deleteAnnotationsAndLabels K sliceName appNs w =
     (case updateInNamespace (k_pods K) (stripPod sliceName) appNs w of
        (Some e, w) \<Rightarrow> (Some e, w)
      | (None, w) \<Rightarrow>
     (case updateInNamespace (k_deployments K) (stripDeployment sliceName) appNs w of
        (Some e, w) \<Rightarrow> (Some e, w)
      | (None, w) \<Rightarrow>
     (case updateInNamespace (k_statefulsets K) (stripWorkload sliceName) appNs w of
        (Some e, w) \<Rightarrow> (Some e, w)
      | (None, w) \<Rightarrow> updateInNamespace (k_daemonsets K) (stripWorkload sliceName) appNs w)))"

definition unbindLabels :: "labels \<Rightarrow> labels \<Rightarrow> namespace \<Rightarrow> namespace" where
  "unbindLabels configLabels configAnnotations n =
     (let nsLabels = AList.delete ApplicationNamespaceSelectorLabelKey (ns_Labels n);
          nsLabels = AList.delete InjectSidecarKey nsLabels;
          nsLabels = removeEntries nsLabels configLabels;
          nsAnnotations = removeEntries (ns_Annotations n) configAnnotations
      in set_ns_Annotations nsAnnotations (set_ns_Labels nsLabels n))"

definition netpolName :: "string \<Rightarrow> string \<Rightarrow> string" where
  "netpolName sliceName appNs = sliceName @ ''-'' @ appNs"

text \<open>The second half of \<open>unbindAppNamespace\<close>: an error of the delete is logged.\<close>

definition removeSliceFromNamespace :: "kube \<Rightarrow> string \<Rightarrow> string \<Rightarrow> world
    \<Rightarrow> go_error option \<times> world" where
  "removeSliceFromNamespace K sliceName appNs w =
     (case r_delete (k_netpols K) appNs (netpolName sliceName appNs) w of
        (_, w) \<Rightarrow> deleteAnnotationsAndLabels K sliceName appNs w)"

definition unbindAppNamespace :: "kube \<Rightarrow> string \<Rightarrow> string \<Rightarrow> labels \<Rightarrow> labels \<Rightarrow> world
    \<Rightarrow> go_error option \<times> world" where
  "unbindAppNamespace K sliceName appNs configLabels configAnnotations w =
     (case r_get (k_namespaces K) '''' appNs w of
        (Inl NotFound, w) \<Rightarrow> (None, w)
      | (Inl e, w) \<Rightarrow> (Some e, w)
      | (Inr n, w) \<Rightarrow>
          (if map_of (ns_Labels n) ApplicationNamespaceSelectorLabelKey = None
           then removeSliceFromNamespace K sliceName appNs w
           else
             (case r_update (k_namespaces K) (unbindLabels configLabels configAnnotations n) w of
                (Some e, w) \<Rightarrow> (Some e, w)
              | (None, w) \<Rightarrow> removeSliceFromNamespace K sliceName appNs w)))"

text \<open>The sweep over the names that are not marked, in the order of the iteration over the map.\<close>

fun unbindUnmarked :: "kube \<Rightarrow> string \<Rightarrow> labels \<Rightarrow> labels \<Rightarrow> (string \<times> bool) list \<Rightarrow> string list
    \<Rightarrow> bool \<Rightarrow> world \<Rightarrow> (go_error + bool) \<times> world" where
  "unbindUnmarked K sliceName configLabels configAnnotations marks [] changed w =
     (Inr changed, w)"
| "unbindUnmarked K sliceName configLabels configAnnotations marks (n # ns) changed w =
     (if map_of marks n \<noteq> Some True
      then (case unbindAppNamespace K sliceName n configLabels configAnnotations w of
              (Some e, w) \<Rightarrow> (Inl e, w)
            | (None, w) \<Rightarrow>
                unbindUnmarked K sliceName configLabels configAnnotations marks ns True w)
      else unbindUnmarked K sliceName configLabels configAnnotations marks ns changed w)"

definition sliceConfigName :: "environ \<Rightarrow> slice \<Rightarrow> string" where
  "sliceConfigName E s = sl_Name s @ ''-'' @ ClusterName E"

text \<open>The label the namespaces are listed by.\<close>

definition app_selector :: "string \<Rightarrow> list_opts" where
  "app_selector sliceName = all_namespaces [(ApplicationNamespaceSelectorLabelKey, sliceName)]"

definition publishAppNamespaces :: "kube \<Rightarrow> environ \<Rightarrow> string list \<Rightarrow> slice \<Rightarrow> world
    \<Rightarrow> (step_result \<times> slice) \<times> world" where
  "publishAppNamespaces K E labeled s w =
     (case updateSliceStatus K (\<lambda>s. s\<lparr>sl_ApplicationNamespaces := labeled\<rparr>) (s, w) of
        (Some e, s, w) \<Rightarrow> (((result_none, Some e, True), s), w)
      | (None, s, w) \<Rightarrow>
          (case UpdateAppNamespaces K E (sliceConfigName E s) labeled w of
             (Some e, w) \<Rightarrow> (((result_none, Some e, True), s), w)
           | (None, w) \<Rightarrow> (((result_none, None, False), s), w)))"

text \<open>\<open>ord\<close> is the order in which \<open>range\<close> visits the keys of \<open>existingAppNsMap\<close>.\<close>

definition reconcileAppNamespaces :: "kube \<Rightarrow> environ \<Rightarrow> (string list \<Rightarrow> string list) \<Rightarrow> slice
    \<Rightarrow> world \<Rightarrow> (step_result \<times> slice) go \<times> world" where
  "reconcileAppNamespaces K E ord s w =
     (case sl_Config s of
        None \<Rightarrow> (Panic, w)
      | Some c \<Rightarrow>
     (case sc_NamespaceIsolationProfile c of
        None \<Rightarrow> (Ret ((result_none, None, False), s), w)
      | Some p \<Rightarrow>
     (case r_list (k_namespaces K) (app_selector (sl_Name s)) w of
        (Inl e, w) \<Rightarrow> (Ret ((result_none, Some e, True), s), w)
      | (Inr existing, w) \<Rightarrow>
     (case GetClusterNamespaceConfig K E (ClusterName E) w of
        (Inl e, w) \<Rightarrow> (Ret ((result_none, Some e, True), s), w)
      | (Inr (configLabels, configAnnotations), w) \<Rightarrow>
     (case createAndLabelAppNamespaces K s configLabels configAnnotations
         (buildAppNamespacesList p) (map (\<lambda>n. (ns_Name n, False)) existing) [] False w of
        ((Inl e, marks), w) \<Rightarrow> (Ret ((result_none, Some e, True), s), w)
      | ((Inr (labeled, changed), marks), w) \<Rightarrow>
     (case unbindUnmarked K (sl_Name s) configLabels configAnnotations marks
         (ord (map fst marks)) changed w of
        (Inl e, w) \<Rightarrow> (Ret ((result_none, Some e, True), s), w)
      | (Inr changed, w) \<Rightarrow>
          (if changed
           then (case publishAppNamespaces K E labeled s w of (r, w) \<Rightarrow> (Ret r, w))
           else (Ret ((result_none, None, False), s), w))))))))"

section \<open>Allowed namespaces\<close>

text \<open>The change of the annotation, and whether there is one.\<close>

definition annotateSlice :: "string \<Rightarrow> namespace \<Rightarrow> bool \<times> namespace" where
  "annotateSlice sliceName n =
     (case map_of (ns_Annotations n) AllowedNamespaceAnnotationKey of
        None \<Rightarrow>
          (True, set_ns_Annotations
             (AList.update AllowedNamespaceAnnotationKey sliceName (ns_Annotations n)) n)
      | Some v \<Rightarrow>
          (let a = split_on CHR '','' v
           in if \<not> exists a sliceName
              then (True, set_ns_Annotations
                      (AList.update AllowedNamespaceAnnotationKey (v @ '','' @ sliceName)
                         (ns_Annotations n)) n)
              else (False, n)))"

definition annotateAllowedNamespace :: "kube \<Rightarrow> string \<Rightarrow> namespace \<Rightarrow> world
    \<Rightarrow> (bool \<times> go_error option \<times> namespace) \<times> world" where
  "annotateAllowedNamespace K sliceName n w =
     (case annotateSlice sliceName n of
        (False, n) \<Rightarrow> ((False, None, n), w)
      | (True, n) \<Rightarrow> (case r_update (k_namespaces K) n w of (err, w) \<Rightarrow> ((True, err, n), w)))"

text \<open>
  \<open>None\<close>: there is nothing to change. The last slice of the annotation takes the annotation
  and the label away with it.
\<close>

definition unbindSlice :: "string \<Rightarrow> namespace \<Rightarrow> namespace option" where
  "unbindSlice sliceName n =
     (case map_of (ns_Annotations n) AllowedNamespaceAnnotationKey of
        None \<Rightarrow> None
      | Some v \<Rightarrow>
          (let a = split_on CHR '','' v
           in if exists a sliceName
              then if length a = 1
                   then Some (set_ns_Labels
                          (AList.delete AllowedNamespaceSelectorLabelKey (ns_Labels n))
                          (set_ns_Annotations
                            (AList.delete AllowedNamespaceAnnotationKey (ns_Annotations n)) n))
                   else let i = indexOf a sliceName
                        in if i = -1 then None
                           else Some (set_ns_Annotations
                                  (AList.update AllowedNamespaceAnnotationKey
                                    (join_with CHR '','' (take (nat i) a @ drop (nat i + 1) a))
                                    (ns_Annotations n)) n)
              else None))"

definition unbindAllowedNamespace :: "kube \<Rightarrow> string \<Rightarrow> string \<Rightarrow> world
    \<Rightarrow> go_error option \<times> world" where
  "unbindAllowedNamespace K allowedNs sliceName w =
     (case r_get (k_namespaces K) '''' allowedNs w of
        (Inl e, w) \<Rightarrow> (Some e, w)
      | (Inr n, w) \<Rightarrow>
          (case unbindSlice sliceName n of
             None \<Rightarrow> (None, w)
           | Some n \<Rightarrow> r_update (k_namespaces K) n w))"

definition labelAllowedNamespace :: "namespace \<Rightarrow> string \<Rightarrow> namespace" where
  "labelAllowedNamespace n cfgAllowedNs =
     set_ns_Labels (AList.update AllowedNamespaceSelectorLabelKey cfgAllowedNs (ns_Labels n)) n"

text \<open>
  \<open>marks\<close> is \<open>existingAllowedNsMap\<close>: the namespaces that have the label, each as the loop
  has it in memory, and whether it has been seen in the configuration. A namespace that
  cannot be read, or annotated, is skipped with a log entry.
\<close>

fun labelAllowedNamespaces :: "kube \<Rightarrow> string \<Rightarrow> string list
    \<Rightarrow> (string \<times> namespace \<times> bool) list \<Rightarrow> string list \<Rightarrow> bool \<Rightarrow> world
    \<Rightarrow> ((go_error + string list \<times> bool) \<times> (string \<times> namespace \<times> bool) list) \<times> world" where
  "labelAllowedNamespaces K sliceName [] marks labeled changed w =
     ((Inr (labeled, changed), marks), w)"
| "labelAllowedNamespaces K sliceName (cfgAllowedNs # cfg) marks labeled changed w =
     (case map_of marks cfgAllowedNs of
        Some (n, _) \<Rightarrow>
          (case annotateAllowedNamespace K sliceName n w of
             ((applied, err, n), w) \<Rightarrow>
               labelAllowedNamespaces K sliceName cfg (AList.update cfgAllowedNs (n, True) marks)
                 (labeled @ [cfgAllowedNs]) (changed \<or> applied) w)
      | None \<Rightarrow>
          (case r_get (k_namespaces K) '''' cfgAllowedNs w of
             (Inl e, w) \<Rightarrow> labelAllowedNamespaces K sliceName cfg marks labeled changed w
           | (Inr n, w) \<Rightarrow>
               (case r_update (k_namespaces K) (labelAllowedNamespace n cfgAllowedNs) w of
                  (Some e, w) \<Rightarrow> ((Inl e, marks), w)
                | (None, w) \<Rightarrow>
                    labelAllowedNamespaces K sliceName cfg marks (labeled @ [cfgAllowedNs]) True w)))"

fun unbindUnmarkedAllowed :: "kube \<Rightarrow> string \<Rightarrow> (string \<times> namespace \<times> bool) list \<Rightarrow> string list
    \<Rightarrow> bool \<Rightarrow> world \<Rightarrow> (go_error + bool) \<times> world" where
  "unbindUnmarkedAllowed K sliceName marks [] changed w = (Inr changed, w)"
| "unbindUnmarkedAllowed K sliceName marks (m # ms) changed w =
     (if map_option snd (map_of marks m) \<noteq> Some True
      then (case unbindAllowedNamespace K m sliceName w of
              (Some e, w) \<Rightarrow> (Inl e, w)
            | (None, w) \<Rightarrow> unbindUnmarkedAllowed K sliceName marks ms True w)
      else unbindUnmarkedAllowed K sliceName marks ms changed w)"

definition reconcileAllowedNamespaces :: "kube \<Rightarrow> (string list \<Rightarrow> string list) \<Rightarrow> slice \<Rightarrow> world
    \<Rightarrow> (go_error option \<times> slice) go \<times> world" where
  "reconcileAllowedNamespaces K ord s w =
     (case sl_Config s of
        None \<Rightarrow> (Panic, w)
      | Some c \<Rightarrow>
     (case sc_NamespaceIsolationProfile c of
        None \<Rightarrow> (Ret (None, s), w)
      | Some p \<Rightarrow>
     (if \<not> IsolationEnabled p then (Ret (None, s), w)
      else
     (let rest = (\<lambda>existing w.
        case labelAllowedNamespaces K (sl_Name s) (allowedNamespaces p)
            (map (\<lambda>n. (ns_Name n, n, False)) existing) [] False w of
          ((Inl e, marks), w) \<Rightarrow> (Ret (Some e, s), w)
        | ((Inr (labeled, changed), marks), w) \<Rightarrow>
       (case unbindUnmarkedAllowed K (sl_Name s) marks (ord (map fst marks)) changed w of
          (Inl e, w) \<Rightarrow> (Ret (Some e, s), w)
        | (Inr changed, w) \<Rightarrow>
            (if changed
             then (case updateSliceStatus K (\<lambda>s. s\<lparr>sl_AllowedNamespaces := labeled\<rparr>) (s, w) of
                     (err, s, w) \<Rightarrow> (Ret (err, s), w))
             else (Ret (None, s), w))))
      in case r_list (k_namespaces K) (has_labels [AllowedNamespaceSelectorLabelKey]) w of
           (Inl NotFound, w) \<Rightarrow> rest [] w
         | (Inl e, w) \<Rightarrow> (Ret (Some e, s), w)
         | (Inr existing, w) \<Rightarrow> rest existing w))))"

section \<open>Network policies\<close>

definition namespacePeer :: "labels \<Rightarrow> netpol_peer" where
  "namespacePeer sel =
     \<lparr>peer_PodSelector = None, peer_NamespaceSelector = Some sel, peer_IPBlock = None\<rparr>"

definition ContructNetworkPolicyObject :: "string \<Rightarrow> isolation_profile \<Rightarrow> string
    \<Rightarrow> network_policy" where
  "ContructNetworkPolicyObject sliceName p appNs =
     (let peers = namespacePeer [(ApplicationNamespaceSelectorLabelKey, sliceName)] #
            map (\<lambda>allowedNs. namespacePeer [(AllowedNamespaceSelectorLabelKey, allowedNs)]) (allowedNamespaces p)
      in \<lparr>np_meta = new_meta appNs (netpolName sliceName appNs) [], np_PodSelector = [],
          np_PolicyTypes = [''Ingress'', ''Egress''], np_Ingress = [peers],
          np_Egress = [peers]\<rparr>)"

definition installSliceNetworkPolicyInAppNs :: "kube \<Rightarrow> string \<Rightarrow> isolation_profile \<Rightarrow> string
    \<Rightarrow> world \<Rightarrow> go_error option \<times> world" where
  "installSliceNetworkPolicyInAppNs K sliceName p appNs w =
     (let netPolicy = ContructNetworkPolicyObject sliceName p appNs
      in case r_update (k_netpols K) netPolicy w of
           (Some NotFound, w) \<Rightarrow> r_create (k_netpols K) netPolicy w
         | (Some e, w) \<Rightarrow> (Some e, w)
         | (None, w) \<Rightarrow> (None, w))"

fun installNetworkPolicies :: "kube \<Rightarrow> string \<Rightarrow> isolation_profile \<Rightarrow> string list \<Rightarrow> world
    \<Rightarrow> go_error option \<times> world" where
  "installNetworkPolicies K sliceName p [] w = (None, w)"
| "installNetworkPolicies K sliceName p (n # ns) w =
     (case installSliceNetworkPolicyInAppNs K sliceName p n w of
        (Some e, w) \<Rightarrow> (Some e, w)
      | (None, w) \<Rightarrow> installNetworkPolicies K sliceName p ns w)"

text \<open>An error of the delete is logged, or ignored when there is no such policy.\<close>

fun deleteNetworkPolicies :: "kube \<Rightarrow> string \<Rightarrow> string list \<Rightarrow> world \<Rightarrow> world" where
  "deleteNetworkPolicies K sliceName [] w = w"
| "deleteNetworkPolicies K sliceName (n # ns) w =
     deleteNetworkPolicies K sliceName ns (snd (r_delete (k_netpols K) n (netpolName sliceName n) w))"

definition uninstallNetworkPolicies :: "kube \<Rightarrow> slice \<Rightarrow> world
    \<Rightarrow> (go_error option \<times> slice) \<times> world" where
  "uninstallNetworkPolicies K s w =
     (let w = deleteNetworkPolicies K (sl_Name s) (sl_ApplicationNamespaces s) w;
          s = s\<lparr>sl_NetworkPoliciesInstalled := False\<rparr>
      in case r_update_status (k_slices K) s w of (err, w) \<Rightarrow> ((err, s), w))"

definition reconcileSliceNetworkPolicy :: "kube \<Rightarrow> slice \<Rightarrow> world
    \<Rightarrow> (go_error option \<times> slice) go \<times> world" where
  "reconcileSliceNetworkPolicy K s w =
     (case sl_Config s of
        None \<Rightarrow> (Panic, w)
      | Some c \<Rightarrow>
     (case sc_NamespaceIsolationProfile c of
        None \<Rightarrow> (Ret (None, s), w)
      | Some p \<Rightarrow>
     (if \<not> IsolationEnabled p
      then (if sl_NetworkPoliciesInstalled s
            then (case uninstallNetworkPolicies K s w of (r, w) \<Rightarrow> (Ret r, w))
            else (Ret (None, s), w))
      else
     (let rest = (\<lambda>appNsList w.
        case installNetworkPolicies K (sl_Name s) p (map ns_Name appNsList) w of
          (Some e, w) \<Rightarrow> (Ret (Some e, s), w)
        | (None, w) \<Rightarrow>
            (let s = s\<lparr>sl_NetworkPoliciesInstalled := True\<rparr>
             in case r_update_status (k_slices K) s w of (err, w) \<Rightarrow> (Ret (err, s), w)))
      in case r_list (k_namespaces K) (app_selector (sl_Name s)) w of
           (Inl NotFound, w) \<Rightarrow> rest [] w
         | (Inl e, w) \<Rightarrow> (Ret (Some e, s), w)
         | (Inr appNsList, w) \<Rightarrow> rest appNsList w))))"

section \<open>The pass over the namespaces, and the cleanup\<close>

definition ReconcileSliceNamespaces :: "kube \<Rightarrow> environ \<Rightarrow> (string list \<Rightarrow> string list) \<Rightarrow> slice
    \<Rightarrow> world \<Rightarrow> (step_result \<times> slice) go \<times> world" where
  "ReconcileSliceNamespaces K E ord s w =
     (case reconcileAppNamespaces K E ord s w of
        (Panic, w) \<Rightarrow> (Panic, w)
      | (Ret ((res, err, True), s), w) \<Rightarrow> (Ret ((res, err, True), s), w)
      | (Ret ((_, _, False), s), w) \<Rightarrow>
     (case reconcileAllowedNamespaces K ord s w of
        (Panic, w) \<Rightarrow> (Panic, w)
      | (Ret (Some e, s), w) \<Rightarrow> (Ret ((result_none, Some e, True), s), w)
      | (Ret (None, s), w) \<Rightarrow>
     (case reconcileSliceNetworkPolicy K s w of
        (Panic, w) \<Rightarrow> (Panic, w)
      | (Ret (Some e, s), w) \<Rightarrow> (Ret ((result_none, Some e, True), s), w)
      | (Ret (None, s), w) \<Rightarrow> (Ret ((result_none, None, False), s), w))))"

fun unbindAppNamespaces :: "kube \<Rightarrow> string \<Rightarrow> labels \<Rightarrow> labels \<Rightarrow> string list \<Rightarrow> world
    \<Rightarrow> go_error option \<times> world" where
  "unbindAppNamespaces K sliceName configLabels configAnnotations [] w = (None, w)"
| "unbindAppNamespaces K sliceName configLabels configAnnotations (n # ns) w =
     (case unbindAppNamespace K sliceName n configLabels configAnnotations w of
        (Some e, w) \<Rightarrow> (Some e, w)
      | (None, w) \<Rightarrow> unbindAppNamespaces K sliceName configLabels configAnnotations ns w)"

fun unbindAllowedNamespaces :: "kube \<Rightarrow> string \<Rightarrow> string list \<Rightarrow> world \<Rightarrow> go_error option \<times> world" where
  "unbindAllowedNamespaces K sliceName [] w = (None, w)"
| "unbindAllowedNamespaces K sliceName (n # ns) w =
     (case unbindAllowedNamespace K n sliceName w of
        (Some e, w) \<Rightarrow> (Some e, w)
      | (None, w) \<Rightarrow> unbindAllowedNamespaces K sliceName ns w)"

definition cleanupSliceNamespaces :: "kube \<Rightarrow> environ \<Rightarrow> slice \<Rightarrow> world
    \<Rightarrow> go_error option \<times> world" where
  "cleanupSliceNamespaces K E s w =
     (case GetClusterNamespaceConfig K E (ClusterName E) w of
        (cfg, w) \<Rightarrow>
     (let (configLabels, configAnnotations) = (case cfg of Inl e \<Rightarrow> ([], []) | Inr c \<Rightarrow> c)
      in case r_list (k_namespaces K) (app_selector (sl_Name s)) w of
        (Inl e, w) \<Rightarrow> (Some e, w)
      | (Inr existing, w) \<Rightarrow>
     (case unbindAppNamespaces K (sl_Name s) configLabels configAnnotations
         (map ns_Name existing) w of
        (Some e, w) \<Rightarrow> (Some e, w)
      | (None, w) \<Rightarrow> unbindAllowedNamespaces K (sl_Name s) (sl_AllowedNamespaces s) w)))"

section \<open>The annotation as a set of slices\<close>

text \<open>
  The contract of a list of names kept in an object: a name that is acceptable is added at
  the end unless it is there, or removed.
\<close>

locale name_registry =
  fixes names :: "'o \<Rightarrow> 'n list"
    and add :: "'n \<Rightarrow> 'o \<Rightarrow> 'o"
    and del :: "'n \<Rightarrow> 'o \<Rightarrow> 'o"
    and ok :: "'n \<Rightarrow> bool"
  assumes names_add: "ok x \<Longrightarrow> names (add x ob) = (if x \<in> set (names ob) then names ob else names ob @ [x])"
    and names_del: "names (del x ob) = remove1 x (names ob)"
begin

lemma del_add: "ok x \<Longrightarrow> x \<notin> set (names ob) \<Longrightarrow> names (del x (add x ob)) = names ob"
  by (simp add: names_add names_del remove1_append)

lemma add_add: "ok x \<Longrightarrow> names (add x (add x ob)) = names (add x ob)"
  by (simp add: names_add)

lemma others_add: "ok x \<Longrightarrow> y \<noteq> x \<Longrightarrow> y \<in> set (names (add x ob)) \<longleftrightarrow> y \<in> set (names ob)"
  by (simp add: names_add)

lemma others_del: "y \<noteq> x \<Longrightarrow> y \<in> set (names (del x ob)) \<longleftrightarrow> y \<in> set (names ob)"
  by (simp add: names_del)

lemma distinct_add: "ok x \<Longrightarrow> distinct (names ob) \<Longrightarrow> distinct (names (add x ob))"
  by (simp add: names_add)

lemma distinct_del: "distinct (names ob) \<Longrightarrow> distinct (names (del x ob))"
  by (simp add: names_del distinct_remove1)

text \<open>The registry refines a set: the operations are insertion and removal.\<close>

definition apply_op :: "'n + 'n \<Rightarrow> 'o \<Rightarrow> 'o" where
  "apply_op op = (case op of Inl x \<Rightarrow> add x | Inr x \<Rightarrow> del x)"

definition set_op :: "'n + 'n \<Rightarrow> 'n set \<Rightarrow> 'n set" where
  "set_op op S = (case op of Inl x \<Rightarrow> insert x S | Inr x \<Rightarrow> S - {x})"

lemma refines_set:
  assumes "distinct (names ob)" and "\<And>x. Inl x \<in> set ops \<Longrightarrow> ok x"
  shows "set (names (fold apply_op ops ob)) = fold set_op ops (set (names ob))
    \<and> distinct (names (fold apply_op ops ob))"
  using assms
proof (induction ops arbitrary: ob)
  case Nil
  then show ?case by simp
next
  case (Cons op ops)
  have step: "distinct (names (apply_op op ob))
      \<and> set (names (apply_op op ob)) = set_op op (set (names ob))"
    using Cons.prems
    by (cases op) (auto simp: apply_op_def set_op_def names_add names_del distinct_remove1)
  then show ?case using Cons.IH [of "apply_op op ob"] Cons.prems(2) by simp
qed

end

definition slicesOf :: "namespace \<Rightarrow> string list" where
  "slicesOf n =
     (case map_of (ns_Annotations n) AllowedNamespaceAnnotationKey of
        None \<Rightarrow> [] | Some v \<Rightarrow> split_on CHR '','' v)"

definition annotated :: "string \<Rightarrow> namespace \<Rightarrow> namespace" where
  "annotated sliceName n = snd (annotateSlice sliceName n)"

definition unbound :: "string \<Rightarrow> namespace \<Rightarrow> namespace" where
  "unbound sliceName n = (case unbindSlice sliceName n of None \<Rightarrow> n | Some m \<Rightarrow> m)"

definition no_comma :: "string \<Rightarrow> bool" where
  "no_comma s \<longleftrightarrow> CHR '','' \<notin> set s"

lemma split_on_parts: "p \<in> set (split_on c s) \<Longrightarrow> c \<notin> set p"
proof (induction s arbitrary: p)
  case Nil
  then show ?case by simp
next
  case (Cons x s)
  obtain y ys where yys: "split_on c s = y # ys" by (meson neq_Nil_conv split_on_not_Nil)
  with Cons show ?case by (auto split: if_splits)
qed

lemma split_join: "xs \<noteq> [] \<Longrightarrow> (\<And>x. x \<in> set xs \<Longrightarrow> c \<notin> set x) \<Longrightarrow> split_on c (join_with c xs) = xs"
proof (induction xs)
  case Nil
  then show ?case by simp
next
  case (Cons x xs)
  show ?case
  proof (cases "xs = []")
    case True
    with Cons.prems show ?thesis by (simp add: split_on_no_sep)
  next
    case False
    with Cons show ?thesis by (simp add: join_Cons split_on_append_sep)
  qed
qed

lemma indexOf_from_absent: "b \<notin> set a \<Longrightarrow> indexOf_from i a b = -1"
  by (induction a arbitrary: i) auto

lemma indexOf_from_present:
  "b \<in> set a \<Longrightarrow> \<exists>j. indexOf_from i a b = int (i + j)
     \<and> take j a @ drop (Suc j) a = remove1 b a"
proof (induction a arbitrary: i)
  case Nil
  then show ?case by simp
next
  case (Cons x a)
  show ?case
  proof (cases "x = b")
    case True
    then show ?thesis by (intro exI [of _ 0]) simp
  next
    case False
    with Cons.prems have "b \<in> set a" by simp
    from Cons.IH [OF this, of "Suc i"] obtain j
      where "indexOf_from (Suc i) a b = int (Suc i + j)"
        and "take j a @ drop (Suc j) a = remove1 b a" by blast
    with False show ?thesis by (intro exI [of _ "Suc j"]) simp
  qed
qed

lemma indexOf_remove:
  assumes "b \<in> set a"
  shows "indexOf a b \<noteq> -1"
    and "take (nat (indexOf a b)) a @ drop (nat (indexOf a b) + 1) a = remove1 b a"
proof -
  obtain j where "indexOf_from 0 a b = int (0 + j)"
    and "take j a @ drop (Suc j) a = remove1 b a"
    using indexOf_from_present [OF assms] by blast
  then show "indexOf a b \<noteq> -1"
    "take (nat (indexOf a b)) a @ drop (nat (indexOf a b) + 1) a = remove1 b a"
    by (simp_all add: indexOf_def)
qed

lemma slicesOf_annotated:
  assumes "no_comma s"
  shows "slicesOf (annotated s n) = (if s \<in> set (slicesOf n) then slicesOf n else slicesOf n @ [s])"
proof (cases "map_of (ns_Annotations n) AllowedNamespaceAnnotationKey")
  case None
  with assms show ?thesis
    by (simp add: annotated_def annotateSlice_def slicesOf_def no_comma_def split_on_no_sep)
next
  case (Some v)
  have "split_on CHR '','' (v @ '','' @ s) = split_on CHR '','' v @ [s]"
    using assms split_on_append_snoc [of "CHR '',''" s v] by (simp add: no_comma_def)
  with Some show ?thesis
    by (simp add: annotated_def annotateSlice_def slicesOf_def Let_def)
qed

lemma slicesOf_unbound: "slicesOf (unbound s n) = remove1 s (slicesOf n)"
proof (cases "map_of (ns_Annotations n) AllowedNamespaceAnnotationKey")
  case None
  then show ?thesis by (simp add: unbound_def unbindSlice_def slicesOf_def)
next
  case (Some v)
  let ?a = "split_on CHR '','' v"
  show ?thesis
  proof (cases "s \<in> set ?a")
    case False
    with Some show ?thesis
      by (simp add: unbound_def unbindSlice_def slicesOf_def Let_def remove1_idem)
  next
    case True
    show ?thesis
    proof (cases "length ?a = 1")
      case one: True
      with True have "?a = [s]" by (cases ?a) auto
      with Some show ?thesis by (simp add: unbound_def unbindSlice_def slicesOf_def Let_def)
    next
      case False
      have "0 < length ?a" by simp
      with False have "1 < length ?a" by linarith
      then have "length (remove1 s ?a) \<noteq> 0" using True by (simp add: length_remove1)
      then have ne: "remove1 s ?a \<noteq> []" by auto
      have "split_on CHR '','' (join_with CHR '','' (remove1 s ?a)) = remove1 s ?a"
        by (rule split_join [OF ne]) (meson notin_set_remove1 split_on_parts)
      with Some True False indexOf_remove [OF True] show ?thesis
        by (simp add: unbound_def unbindSlice_def slicesOf_def Let_def)
    qed
  qed
qed

interpretation slices: name_registry slicesOf annotated unbound no_comma
  by unfold_locales (simp_all add: slicesOf_annotated slicesOf_unbound)

text \<open>
  C34: The annotation round trip. A namespace is annotated with the name of a slice it did not
  have yet, and then unbound from it: the slices of the annotation are the same as before, and
  the label and the annotation are gone exactly when no other slice uses the namespace.
\<close>

theorem annotation_round_trip:
  assumes "no_comma s" and "s \<notin> set (slicesOf n)"
  shows "slicesOf (unbound s (annotated s n)) = slicesOf n
    \<and> (map_of (ns_Annotations (unbound s (annotated s n))) AllowedNamespaceAnnotationKey = None
        \<longleftrightarrow> slicesOf n = [])
    \<and> (map_of (ns_Labels (unbound s (annotated s n))) AllowedNamespaceSelectorLabelKey
        = (if slicesOf n = [] then None
           else map_of (ns_Labels n) AllowedNamespaceSelectorLabelKey))"
proof (intro conjI)
  show eq: "slicesOf (unbound s (annotated s n)) = slicesOf n"
    using assms by (rule slices.del_add)
  have iff: "map_of (ns_Annotations m) AllowedNamespaceAnnotationKey = None \<longleftrightarrow> slicesOf m = []" for m
    by (simp add: slicesOf_def split: option.splits)
  show "map_of (ns_Annotations (unbound s (annotated s n))) AllowedNamespaceAnnotationKey = None
      \<longleftrightarrow> slicesOf n = []"
    by (simp add: iff eq)
  have a: "slicesOf (annotated s n) = slicesOf n @ [s]"
    using assms by (simp add: slicesOf_annotated)
  have l: "ns_Labels (annotated s n) = ns_Labels n"
    by (simp add: annotated_def annotateSlice_def Let_def split: option.splits)
  obtain v where v: "map_of (ns_Annotations (annotated s n)) AllowedNamespaceAnnotationKey = Some v"
    using iff [of "annotated s n"] a by fastforce
  then have sv: "split_on CHR '','' v = slicesOf n @ [s]" using a by (simp add: slicesOf_def)
  have "s \<in> set (slicesOf n @ [s])" by simp
  note idx = indexOf_remove(1) [OF this]
  show "map_of (ns_Labels (unbound s (annotated s n))) AllowedNamespaceSelectorLabelKey
      = (if slicesOf n = [] then None else map_of (ns_Labels n) AllowedNamespaceSelectorLabelKey)"
    using idx by (simp add: unbound_def unbindSlice_def v sv Let_def l)
qed

section \<open>What a network policy admits\<close>

definition bound_to :: "string \<Rightarrow> namespace \<Rightarrow> bool" where
  "bound_to sliceName n \<longleftrightarrow> map_of (ns_Labels n) ApplicationNamespaceSelectorLabelKey = Some sliceName"

definition admits :: "netpol_peer list list \<Rightarrow> namespace \<Rightarrow> bool" where
  "admits rules n \<longleftrightarrow> list_ex (list_ex (\<lambda>peer.
     case peer_NamespaceSelector peer of None \<Rightarrow> False | Some sel \<Rightarrow> matches_labels sel (ns_Labels n))) rules"

lemma set_addMissing: "set (addMissing xs vs) = set xs \<union> set vs"
  by (induction xs vs rule: addMissing.induct) auto

lemma distinct_addMissing: "distinct xs \<Longrightarrow> distinct (addMissing xs vs)"
  by (induction xs vs rule: addMissing.induct) auto

lemma set_allowedNamespaces:
  "set (allowedNamespaces p) = set (iso_AllowedNamespaces p) \<union> set allowedNamespacesByDefault"
  by (simp add: allowedNamespaces_def set_addMissing)

lemma admits_policy:
  "admits (np_Ingress (ContructNetworkPolicyObject s p a)) n \<longleftrightarrow>
     bound_to s n \<or> (\<exists>v \<in> set (allowedNamespaces p).
        map_of (ns_Labels n) AllowedNamespaceSelectorLabelKey = Some v)"
  by (auto simp: admits_def ContructNetworkPolicyObject_def bound_to_def namespacePeer_def list_ex_iff Let_def)

lemma policy_symmetric:
  "np_Egress (ContructNetworkPolicyObject s p a) = np_Ingress (ContructNetworkPolicyObject s p a)"
  by (simp add: ContructNetworkPolicyObject_def Let_def)

lemma policy_meta:
  "om_Namespace (np_meta (ContructNetworkPolicyObject s p a)) = a"
  "om_Name (np_meta (ContructNetworkPolicyObject s p a)) = netpolName s a"
  by (simp_all add: ContructNetworkPolicyObject_def Let_def)

lemma netpolName_inj: "netpolName s a = netpolName s b \<longleftrightarrow> a = b"
  by (simp add: netpolName_def)

definition policy_at :: "world \<Rightarrow> string \<Rightarrow> string \<Rightarrow> network_policy option" where
  "policy_at w sliceName a = find (keyed np_meta a (netpolName sliceName a)) (w_netpols w)"

context lawful
begin

lemma install_one:
  assumes "installSliceNetworkPolicyInAppNs K s p a w = (r, w')"
  shows "w_namespaces w' = w_namespaces w \<and> w_slices w' = w_slices w
    \<and> (\<forall>b. b \<noteq> a \<longrightarrow> policy_at w' s b = policy_at w s b)
    \<and> (r = None \<longrightarrow> policy_at w' s a = Some (ContructNetworkPolicyObject s p a))"
proof -
  let ?np = "ContructNetworkPolicyObject s p a"
  have other: "\<not> keyed np_meta b (netpolName s b) ?np" if "b \<noteq> a" for b
    using that by (simp add: keyed_def policy_meta netpolName_inj)
  have created: "w_namespaces w2 = w_namespaces w1 \<and> w_slices w2 = w_slices w1
      \<and> (\<forall>b. b \<noteq> a \<longrightarrow> policy_at w2 s b = policy_at w1 s b)
      \<and> (r2 = None \<longrightarrow> policy_at w2 s a = Some ?np)"
    if "r_create (k_netpols K) ?np w1 = (r2, w2)" for w1 w2 r2
  proof (cases r2)
    case None
    with npl.create_ok that
    have c: "\<not> list_ex (same_key np_meta ?np) (w_netpols w1)"
        "w2 = tick (w_netpols_update (\<lambda>xs. xs @ [?np]) w1)" by blast+
    then show ?thesis
      using None other
      by (simp add: policy_at_def find_append_new) (simp add: keyed_def policy_meta)
  next
    case (Some e)
    with npl.create_err that have "w2 = tick w1" by blast
    with Some show ?thesis by (simp add: policy_at_def)
  qed
  obtain u w1 where u: "r_update (k_netpols K) ?np w = (u, w1)" by fastforce
  show ?thesis
  proof (cases u)
    case None
    with npl.update_ok u
    have c: "list_ex (same_key np_meta ?np) (w_netpols w)"
        "w1 = tick (w_netpols_update (replace_object np_meta ?np) w)" by blast+
    from assms u None have "r = None" "w' = w1"
      by (simp_all add: installSliceNetworkPolicyInAppNs_def Let_def)
    moreover have "find (keyed np_meta a (netpolName s a)) (replace_object np_meta ?np (w_netpols w)) = Some ?np"
      using find_replace_same [OF c(1)] by (simp add: policy_meta)
    ultimately show ?thesis
      using c other by (simp add: policy_at_def find_replace_other)
  next
    case (Some e)
    with npl.update_err u have w1: "w1 = tick w" by blast
    have same: "policy_at w1 s b = policy_at w s b" "w_namespaces w1 = w_namespaces w"
      "w_slices w1 = w_slices w" for b
      using w1 by (simp_all add: policy_at_def)
    show ?thesis
    proof (cases "e = NotFound")
      case True
      with assms u Some have "r_create (k_netpols K) ?np w1 = (r, w')"
        by (simp add: installSliceNetworkPolicyInAppNs_def Let_def)
      from created [OF this] same show ?thesis by simp
    next
      case False
      with assms u Some have "r = Some e" "w' = w1"
        by (cases e; simp add: installSliceNetworkPolicyInAppNs_def Let_def)+
      with same show ?thesis by simp
    qed
  qed
qed

lemma install_all:
  "installNetworkPolicies K s p as w = (r, w') \<Longrightarrow>
     w_namespaces w' = w_namespaces w \<and> w_slices w' = w_slices w
     \<and> (\<forall>b. b \<notin> set as \<longrightarrow> policy_at w' s b = policy_at w s b)
     \<and> (r = None \<longrightarrow> (\<forall>a\<in>set as. policy_at w' s a = Some (ContructNetworkPolicyObject s p a)))"
proof (induction as arbitrary: w)
  case Nil
  then show ?case by simp
next
  case (Cons a as)
  obtain r1 w1 where one: "installSliceNetworkPolicyInAppNs K s p a w = (r1, w1)" by fastforce
  note i1 = install_one [OF one]
  show ?case
  proof (cases r1)
    case (Some e)
    with Cons.prems one have "r = Some e" "w' = w1" by simp_all
    with i1 show ?thesis by simp
  next
    case None
    with Cons.prems one have "installNetworkPolicies K s p as w1 = (r, w')" by simp
    note i2 = Cons.IH [OF this]
    show ?thesis
    proof (cases "a \<in> set as")
      case True
      with i1 i2 None show ?thesis by simp
    next
      case False
      with i1 i2 None show ?thesis by simp
    qed
  qed
qed

lemma policies_installed:
  assumes rec: "reconcileSliceNetworkPolicy K s w = (Ret (None, s'), w')"
    and cfg: "sl_Config s = Some c" "sc_NamespaceIsolationProfile c = Some p" "IsolationEnabled p"
    and served: "\<And>lo v. fst (r_list (k_namespaces K) lo v) \<noteq> Inl NotFound"
  shows "w_namespaces w' = w_namespaces w
    \<and> (\<forall>n\<in>set (w_namespaces w'). bound_to (sl_Name s) n \<longrightarrow>
         policy_at w' (sl_Name s) (ns_Name n)
           = Some (ContructNetworkPolicyObject (sl_Name s) p (ns_Name n)))"
proof -
  obtain l w1 where l: "r_list (k_namespaces K) (app_selector (sl_Name s)) w = (l, w1)" by fastforce
  have w1: "w1 = tick w" using nsp.list_world [OF l] .
  have "l \<noteq> Inl NotFound" using served [of "app_selector (sl_Name s)" w] l by simp
  moreover have "\<nexists>e. l = Inl e \<and> e \<noteq> NotFound"
    using rec cfg l by (auto simp: reconcileSliceNetworkPolicy_def split: go_error.splits)
  ultimately obtain ns where ns: "l = Inr ns" by (cases l) auto
  have nss: "ns = filter (selects ns_meta no_phase (app_selector (sl_Name s))) (w_namespaces w)"
    using nsp.list_ok l ns by blast
  have listed: "n \<in> set ns"
    if "n \<in> set (w_namespaces w)" "bound_to (sl_Name s) n" for n
    using that by (simp add: nss selects_def app_selector_def all_namespaces_def bound_to_def)
  obtain r2 w2 where i: "installNetworkPolicies K (sl_Name s) p (map ns_Name ns) w1 = (r2, w2)"
    by fastforce
  have r2: "r2 = None" using rec cfg l ns i
    by (simp add: reconcileSliceNetworkPolicy_def Let_def split: option.splits prod.splits)
  note inst = install_all [OF i]
  obtain r3 where "r_update_status (k_slices K) (s\<lparr>sl_NetworkPoliciesInstalled := True\<rparr>) w2 = (r3, w')"
    and r3: "r3 = None" using rec cfg l ns i r2
    by (auto simp: reconcileSliceNetworkPolicy_def Let_def split: prod.splits)
  then have "w' = tick (w_slices_update
      (replace_object sl_meta (s\<lparr>sl_NetworkPoliciesInstalled := True\<rparr>)) w2)"
    using slice.update_status_ok by blast
  then have "w_namespaces w' = w_namespaces w2" "\<And>a. policy_at w' (sl_Name s) a = policy_at w2 (sl_Name s) a"
    by (simp_all add: policy_at_def)
  with inst r2 w1 listed show ?thesis by (simp add: tick_def)
qed

end

text \<open>
  C13: Isolation. When the network policies have been reconciled without an error for a slice
  with isolation enabled, every namespace bound to the slice has a network policy of that
  slice, with the same peers in both directions, and it admits exactly the namespaces bound to
  the slice and those whose label names an allowed namespace, configured or by default.
\<close>

theorem isolation_enforced:
  assumes "lawful K" and "reconcileSliceNetworkPolicy K s w = (Ret (None, s'), w')"
    and "sl_Config s = Some c" "sc_NamespaceIsolationProfile c = Some p" "IsolationEnabled p"
    and "\<And>lo v. fst (r_list (k_namespaces K) lo v) \<noteq> Inl NotFound"
    and "a \<in> set (w_namespaces w')" "bound_to (sl_Name s) a"
  shows "\<exists>pol. policy_at w' (sl_Name s) (ns_Name a) = Some pol
    \<and> np_PodSelector pol = [] \<and> np_PolicyTypes pol = [''Ingress'', ''Egress'']
    \<and> np_Egress pol = np_Ingress pol
    \<and> (\<forall>n. admits (np_Ingress pol) n \<longleftrightarrow>
         bound_to (sl_Name s) n
         \<or> (\<exists>v \<in> set (iso_AllowedNamespaces p) \<union> set allowedNamespacesByDefault.
              map_of (ns_Labels n) AllowedNamespaceSelectorLabelKey = Some v))"
proof -
  let ?pol = "ContructNetworkPolicyObject (sl_Name s) p (ns_Name a)"
  have "policy_at w' (sl_Name s) (ns_Name a) = Some ?pol"
    using lawful.policies_installed [OF assms(1-6)] assms(7,8) by blast
  moreover have "np_PodSelector ?pol = []" "np_PolicyTypes ?pol = [''Ingress'', ''Egress'']"
    by (simp_all add: ContructNetworkPolicyObject_def Let_def)
  ultimately show ?thesis
    by (intro exI [of _ ?pol]) (simp add: policy_symmetric admits_policy set_allowedNamespaces)
qed

end
