(* ===== verification/ReliableApi.thy ===== *)
theory ReliableApi
  imports KubeApi
begin

text \<open>
  An API server that does not fail: a call is refused only for the reason that the documentation
  gives (no such object, object exists). The locale \<open>reliable_resource\<close> extends the laws of
  one kind of object, \<open>reliable\<close> those of the kinds that the claims about such a server need; the
  reference server without faults satisfies it.
\<close>

locale reliable_resource = resource +
  assumes get_found: "find (keyed meta ns n) (sel w) = Some ob \<Longrightarrow> r_get ops ns n w = (Inr ob, tick w)"
    and get_absent: "find (keyed meta ns n) (sel w) = None \<Longrightarrow> r_get ops ns n w = (Inl NotFound, tick w)"
    and list_all_ok: "r_list ops lo w = (Inr (filter (selects meta phase lo) (sel w)), tick w)"
    and create_absent: "\<not> list_ex (same_key meta ob) (sel w) \<Longrightarrow>
      r_create ops ob w = (None, tick (upd (\<lambda>xs. xs @ [ob]) w))"
    and update_found: "list_ex (same_key meta ob) (sel w) \<Longrightarrow>
      r_update ops ob w = (None, tick (upd (replace_object meta ob) w))"
    and update_absent: "\<not> list_ex (same_key meta ob) (sel w) \<Longrightarrow>
      r_update ops ob w = (Some NotFound, tick w)"
    and update_status_found: "list_ex (same_key meta ob) (sel w) \<Longrightarrow>
      r_update_status ops ob w = (None, tick (upd (replace_object meta ob) w))"
    and delete_found: "list_ex (keyed meta ns n) (sel w) \<Longrightarrow>
      r_delete ops ns n w = (None, tick (upd (remove_object meta ns n) w))"
    and delete_absent: "\<not> list_ex (keyed meta ns n) (sel w) \<Longrightarrow>
      r_delete ops ns n w = (Some NotFound, tick w)"

lemma find_keyed_list_ex: "list_ex (keyed meta ns n) xs \<longleftrightarrow> find (keyed meta ns n) xs \<noteq> None"
  by (auto simp: find_None_iff list_ex_iff)

lemma ref_ops_reliable:
  assumes "\<And>f w. sel (upd f w) = f (sel w)" and "\<And>w. sel (tick w) = sel w"
  shows "reliable_resource (ref_ops no_faults meta phase sel upd) meta phase sel upd"
proof (rule reliable_resource.intro)
  show "resource (ref_ops no_faults meta phase sel upd) meta phase sel upd"
    by (rule ref_ops_resource) (use assms in auto)
  show "reliable_resource_axioms (ref_ops no_faults meta phase sel upd) meta phase sel upd"
    by (rule reliable_resource_axioms.intro) (simp_all add: ref_ops_def no_faults_def)
qed

locale reliable = lawful +
  assumes namespaces_up: "reliable_resource (k_namespaces K) ns_meta no_phase w_namespaces w_namespaces_update"
    and netpols_up: "reliable_resource (k_netpols K) np_meta no_phase w_netpols w_netpols_update"
    and pods_up: "reliable_resource (k_pods K) p_meta p_Phase w_pods w_pods_update"
    and deployments_up: "reliable_resource (k_deployments K) d_meta no_phase w_deployments w_deployments_update"
    and services_up: "reliable_resource (k_services K) s_meta no_phase w_services w_services_update"
    and statefulsets_up: "reliable_resource (k_statefulsets K) wl_meta no_phase w_statefulsets w_statefulsets_update"
    and daemonsets_up: "reliable_resource (k_daemonsets K) wl_meta no_phase w_daemonsets w_daemonsets_update"
    and slices_up: "reliable_resource (k_slices K) sl_meta no_phase w_slices w_slices_update"
    and sliceconfigs_up: "reliable_resource (k_sliceconfigs K) wsc_meta no_phase h_sliceconfigs h_sliceconfigs_update"
    and clusters_up: "reliable_resource (k_clusters K) hc_meta no_phase h_clusters h_clusters_update"
    and slicegws_up: "reliable_resource (k_slicegws K) gw_meta no_phase w_slicegws w_slicegws_update"
    and hubgws_up: "reliable_resource (k_hubgws K) hg_meta no_phase h_slicegws h_slicegws_update"
    and secrets_up: "reliable_resource (k_secrets K) sec_meta no_phase w_secrets w_secrets_update"
    and hubsecrets_up: "reliable_resource (k_hubsecrets K) sec_meta no_phase h_secrets h_secrets_update"
    and serviceexports_up: "reliable_resource (k_serviceexports K) se_meta no_phase w_serviceexports w_serviceexports_update"
    and serviceimports_up: "reliable_resource (k_serviceimports K) si_meta no_phase w_serviceimports w_serviceimports_update"
    and virtualservices_up: "reliable_resource (k_virtualservices K) vs_meta no_phase w_virtualservices w_virtualservices_update"
    and serviceentries_up: "reliable_resource (k_serviceentries K) sn_meta no_phase w_serviceentries w_serviceentries_update"
    and hubexports_up: "reliable_resource (k_hubexports K) sx_meta no_phase h_serviceexports h_serviceexports_update"
    and hubimports_up: "reliable_resource (k_hubimports K) wi_meta no_phase h_serviceimports h_serviceimports_update"
    and configmaps_up: "reliable_resource (k_configmaps K) cm_meta no_phase w_configmaps w_configmaps_update"
    and jobs_up: "reliable_resource (k_jobs K) job_meta no_phase w_jobs w_jobs_update"
    and clusterroles_up: "reliable_resource (k_clusterroles K) cro_meta no_phase w_clusterroles w_clusterroles_update"
    and clusterrolebindings_up: "reliable_resource (k_clusterrolebindings K) crb_meta no_phase w_clusterrolebindings w_clusterrolebindings_update"
    and nodes_up: "reliable_resource (k_nodes K) n_meta no_phase w_nodes w_nodes_update"

sublocale reliable \<subseteq> nspr: reliable_resource "k_namespaces K" ns_meta no_phase w_namespaces w_namespaces_update
  by (rule namespaces_up)

sublocale reliable \<subseteq> nplr: reliable_resource "k_netpols K" np_meta no_phase w_netpols w_netpols_update
  by (rule netpols_up)

sublocale reliable \<subseteq> podr: reliable_resource "k_pods K" p_meta p_Phase w_pods w_pods_update
  by (rule pods_up)

sublocale reliable \<subseteq> depr: reliable_resource "k_deployments K" d_meta no_phase w_deployments w_deployments_update
  by (rule deployments_up)

sublocale reliable \<subseteq> svcr: reliable_resource "k_services K" s_meta no_phase w_services w_services_update
  by (rule services_up)

sublocale reliable \<subseteq> stsr: reliable_resource "k_statefulsets K" wl_meta no_phase w_statefulsets w_statefulsets_update
  by (rule statefulsets_up)

sublocale reliable \<subseteq> dmsr: reliable_resource "k_daemonsets K" wl_meta no_phase w_daemonsets w_daemonsets_update
  by (rule daemonsets_up)

sublocale reliable \<subseteq> slicer: reliable_resource "k_slices K" sl_meta no_phase w_slices w_slices_update
  by (rule slices_up)

sublocale reliable \<subseteq> wscr: reliable_resource "k_sliceconfigs K" wsc_meta no_phase h_sliceconfigs h_sliceconfigs_update
  by (rule sliceconfigs_up)

sublocale reliable \<subseteq> hclr: reliable_resource "k_clusters K" hc_meta no_phase h_clusters h_clusters_update
  by (rule clusters_up)

sublocale reliable \<subseteq> gwr: reliable_resource "k_slicegws K" gw_meta no_phase w_slicegws w_slicegws_update
  by (rule slicegws_up)

sublocale reliable \<subseteq> hgwr: reliable_resource "k_hubgws K" hg_meta no_phase h_slicegws h_slicegws_update
  by (rule hubgws_up)

sublocale reliable \<subseteq> secr: reliable_resource "k_secrets K" sec_meta no_phase w_secrets w_secrets_update
  by (rule secrets_up)

sublocale reliable \<subseteq> hsecr: reliable_resource "k_hubsecrets K" sec_meta no_phase h_secrets h_secrets_update
  by (rule hubsecrets_up)

sublocale reliable \<subseteq> sexr: reliable_resource "k_serviceexports K" se_meta no_phase w_serviceexports w_serviceexports_update
  by (rule serviceexports_up)

sublocale reliable \<subseteq> simr: reliable_resource "k_serviceimports K" si_meta no_phase w_serviceimports w_serviceimports_update
  by (rule serviceimports_up)

sublocale reliable \<subseteq> vsvr: reliable_resource "k_virtualservices K" vs_meta no_phase w_virtualservices w_virtualservices_update
  by (rule virtualservices_up)

sublocale reliable \<subseteq> senr: reliable_resource "k_serviceentries K" sn_meta no_phase w_serviceentries w_serviceentries_update
  by (rule serviceentries_up)

sublocale reliable \<subseteq> hsxr: reliable_resource "k_hubexports K" sx_meta no_phase h_serviceexports h_serviceexports_update
  by (rule hubexports_up)

sublocale reliable \<subseteq> hsmr: reliable_resource "k_hubimports K" wi_meta no_phase h_serviceimports h_serviceimports_update
  by (rule hubimports_up)

sublocale reliable \<subseteq> cfmr: reliable_resource "k_configmaps K" cm_meta no_phase w_configmaps w_configmaps_update
  by (rule configmaps_up)

sublocale reliable \<subseteq> jobrr: reliable_resource "k_jobs K" job_meta no_phase w_jobs w_jobs_update
  by (rule jobs_up)

sublocale reliable \<subseteq> cror: reliable_resource "k_clusterroles K" cro_meta no_phase w_clusterroles w_clusterroles_update
  by (rule clusterroles_up)

sublocale reliable \<subseteq> crbr: reliable_resource "k_clusterrolebindings K" crb_meta no_phase w_clusterrolebindings w_clusterrolebindings_update
  by (rule clusterrolebindings_up)

sublocale reliable \<subseteq> noder: reliable_resource "k_nodes K" n_meta no_phase w_nodes w_nodes_update
  by (rule nodes_up)

interpretation up: reliable "ref_kube no_faults R" for R
  by (rule reliable.intro [OF ref.lawful_axioms], rule reliable_axioms.intro)
    (simp_all add: ref_kube_def ref_ops_reliable)

end
