(* ===== verification/NamespaceBinding.thy ===== *)
theory NamespaceBinding
  imports SliceNamespaces ReliableApi
begin

text \<open>
  What a pass over the application namespaces does to the cluster: the set of namespaces bound
  to a slice (\<open>bound_names\<close>) is tracked through every step, on a cluster where namespaces are
  cluster scoped and have distinct names (\<open>ns_wf\<close>).
\<close>

section \<open>The set of bound namespaces\<close>

definition bound_names :: "string \<Rightarrow> world \<Rightarrow> string set" where
  "bound_names s w = ns_Name ` {n \<in> set (w_namespaces w). bound_to s n}"

definition ns_wf :: "world \<Rightarrow> bool" where
  "ns_wf w \<longleftrightarrow>
     list_all (\<lambda>n. om_Namespace (ns_meta n) = '''') (w_namespaces w) \<and>
     distinct (map ns_Name (w_namespaces w))"

text \<open>The steps on namespaces leave the slices and the objects on the hub alone.\<close>

definition ns_frame :: "world \<Rightarrow> world \<Rightarrow> bool" where
  "ns_frame w w' \<longleftrightarrow>
     w_slices w' = w_slices w \<and> h_sliceconfigs w' = h_sliceconfigs w \<and> h_clusters w' = h_clusters w"

lemma ns_frame_refl [simp]: "ns_frame w w"
  by (simp add: ns_frame_def)

lemma ns_frame_trans: "ns_frame w w1 \<Longrightarrow> ns_frame w1 w2 \<Longrightarrow> ns_frame w w2"
  by (simp add: ns_frame_def)

text \<open>No namespace changed at all.\<close>

definition same_ns :: "world \<Rightarrow> world \<Rightarrow> bool" where
  "same_ns w w' \<longleftrightarrow> ns_frame w w' \<and> w_namespaces w' = w_namespaces w"

lemma same_nsD:
  assumes "same_ns w w'"
  shows "ns_frame w w'" "bound_names s w' = bound_names s w" "ns_wf w' = ns_wf w"
  using assms by (simp_all add: same_ns_def bound_names_def ns_wf_def)

lemma same_ns_trans: "same_ns w w1 \<Longrightarrow> same_ns w1 w2 \<Longrightarrow> same_ns w w2"
  by (auto simp: same_ns_def intro: ns_frame_trans)

lemma same_ns_refl [simp]: "same_ns w w"
  by (simp add: same_ns_def)

lemma same_ns_tick [simp]: "same_ns w (tick w)"
  by (simp add: same_ns_def ns_frame_def)

lemma keyed_wf:
  assumes "ns_wf w" and "n \<in> set (w_namespaces w)"
  shows "keyed ns_meta '''' a n \<longleftrightarrow> ns_Name n = a"
  using assms by (simp add: ns_wf_def keyed_def list_all_iff)

lemma lookup_wf:
  assumes "ns_wf w" and "n \<in> set (w_namespaces w)"
  shows "find (keyed ns_meta '''' (ns_Name n)) (w_namespaces w) = Some n"
proof -
  have "find (keyed ns_meta '''' (ns_Name n)) (w_namespaces w)
      = find (\<lambda>m. ns_Name m = ns_Name n) (w_namespaces w)"
    by (rule find_cong) (use keyed_wf [OF assms(1)] in auto)
  also have "\<dots> = Some n"
    using assms by (intro distinct_map_find) (simp_all add: ns_wf_def)
  finally show ?thesis .
qed

lemma bound_names_iff:
  assumes "ns_wf w"
  shows "a \<in> bound_names s w \<longleftrightarrow>
    (\<exists>n. find (keyed ns_meta '''' a) (w_namespaces w) = Some n \<and> bound_to s n)"
proof
  assume "a \<in> bound_names s w"
  then show "\<exists>n. find (keyed ns_meta '''' a) (w_namespaces w) = Some n \<and> bound_to s n"
    using lookup_wf [OF assms] by (auto simp: bound_names_def)
next
  assume "\<exists>n. find (keyed ns_meta '''' a) (w_namespaces w) = Some n \<and> bound_to s n"
  then obtain n where n: "find (keyed ns_meta '''' a) (w_namespaces w) = Some n" "bound_to s n" by blast
  then have "n \<in> set (w_namespaces w)" "ns_Name n = a"
    using find_Some_iff' [OF n(1)] by (auto simp: keyed_def)
  with n(2) show "a \<in> bound_names s w" by (auto simp: bound_names_def)
qed

context lawful
begin

text \<open>The effect of a successful update, and of a successful creation.\<close>

lemma update_namespace:
  assumes "r_update (k_namespaces K) n w = (None, w')"
    and wf: "ns_wf w" and cs: "om_Namespace (ns_meta n) = ''''"
  shows "ns_wf w'" "ns_frame w w'"
    "bound_names s w' = (if bound_to s n then insert (ns_Name n) (bound_names s w)
                         else bound_names s w - {ns_Name n})"
proof -
  have w': "list_ex (same_key ns_meta n) (w_namespaces w)"
      "w' = tick (w_namespaces_update (replace_object ns_meta n) w)"
    using nsp.update_ok [OF assms(1)] by blast+
  have ns: "w_namespaces w'
      = map (\<lambda>m. if ns_Name m = ns_Name n then n else m) (w_namespaces w)"
    using w'(2) keyed_wf [OF wf] cs by (simp add: replace_object_def)
  have names: "map ns_Name (w_namespaces w') = map ns_Name (w_namespaces w)"
    unfolding ns by (simp add: comp_def cong: if_cong)
  have "list_all (\<lambda>m. om_Namespace (ns_meta m) = '''') (w_namespaces w')"
    using wf cs by (auto simp: ns ns_wf_def list_all_iff)
  with wf names show "ns_wf w'" by (simp only: ns_wf_def)
  show "ns_frame w w'" using w'(2) by (simp add: ns_frame_def)
  have "\<exists>m\<in>set (w_namespaces w). ns_Name m = ns_Name n"
    using w'(1) by (auto simp: list_ex_iff same_key_def keyed_def)
  then show "bound_names s w' = (if bound_to s n then insert (ns_Name n) (bound_names s w)
      else bound_names s w - {ns_Name n})"
    unfolding bound_names_def ns by auto
qed

lemma create_namespace:
  assumes "r_create (k_namespaces K) n w = (None, w')"
    and wf: "ns_wf w" and cs: "om_Namespace (ns_meta n) = ''''"
  shows "ns_wf w'" "ns_frame w w'" "ns_Name n \<notin> bound_names s w"
    "bound_names s w' = bound_names s w \<union> (if bound_to s n then {ns_Name n} else {})"
proof -
  have w': "\<not> list_ex (same_key ns_meta n) (w_namespaces w)"
      "w' = tick (w_namespaces_update (\<lambda>xs. xs @ [n]) w)"
    using nsp.create_ok [OF assms(1)] by blast+
  have new: "ns_Name m \<noteq> ns_Name n" if "m \<in> set (w_namespaces w)" for m
    using that keyed_wf [OF wf] cs w' by (auto simp: list_ex_iff same_key_def)
  have fresh: "ns_Name n \<notin> ns_Name ` set (w_namespaces w)" using new by force
  then show "ns_wf w'" using wf cs w'(2) by (simp add: ns_wf_def)
  show "ns_frame w w'" using w'(2) by (simp add: ns_frame_def)
  show "ns_Name n \<notin> bound_names s w" using fresh unfolding bound_names_def by blast
  show "bound_names s w' = bound_names s w \<union> (if bound_to s n then {ns_Name n} else {})"
    using w'(2) by (auto simp: bound_names_def)
qed

lemma update_namespace_err: "r_update (k_namespaces K) n w = (Some e, w') \<Longrightarrow> same_ns w w'"
  by (drule nsp.update_err) simp

section \<open>Labelling\<close>

lemma bound_to_labelled [simp]:
  "bound_to s (labelAppNamespace s cl ca n)" "ns_Name (labelAppNamespace t cl ca n) = ns_Name n"
  "om_Namespace (ns_meta (labelAppNamespace t cl ca n)) = om_Namespace (ns_meta n)"
  by (simp_all add: bound_to_def labelAppNamespace_def slice_key_defs label_key_defs Let_def)

lemma get_or_create:
  assumes "getOrCreateNamespace K cl ca a w = (r, w')" and wf: "ns_wf w"
  shows "ns_wf w'" "ns_frame w w'"
    "r = None \<Longrightarrow> w_namespaces w' = w_namespaces w"
    "r = Some n \<Longrightarrow> ns_Name n = a \<and> om_Namespace (ns_meta n) = ''''
       \<and> bound_names s w \<subseteq> bound_names s w' \<and> bound_names s w' \<subseteq> insert a (bound_names s w)"
proof -
  obtain g w1 where g: "r_get (k_namespaces K) '''' a w = (g, w1)" by fastforce
  have w1: "same_ns w w1" using nsp.get_world [OF g] by simp
  have goal: "ns_wf w' \<and> ns_frame w w' \<and> (r = None \<longrightarrow> w_namespaces w' = w_namespaces w)
    \<and> (\<forall>n. r = Some n \<longrightarrow> ns_Name n = a \<and> om_Namespace (ns_meta n) = ''''
       \<and> bound_names s w \<subseteq> bound_names s w' \<and> bound_names s w' \<subseteq> insert a (bound_names s w))"
  proof (cases g)
    case (Inr n)
    with assms g have r: "r = Some n" "w' = w1" by (simp_all add: getOrCreateNamespace_def)
    have "find (keyed ns_meta '''' a) (w_namespaces w) = Some n" using nsp.get_ok g Inr by blast
    from find_Some_iff' [OF this] have "ns_Name n = a" "om_Namespace (ns_meta n) = ''''"
      by (simp_all add: keyed_def)
    with r w1 wf show ?thesis by (auto simp: same_nsD [OF w1] same_ns_def)
  next
    case (Inl e)
    show ?thesis
    proof (cases "e = NotFound")
      case False
      with assms g Inl have "r = None" "w' = w1"
        by (cases e; simp add: getOrCreateNamespace_def)+
      with w1 wf show ?thesis by (simp add: same_nsD [OF w1]) (simp add: same_ns_def)
    next
      case True
      let ?n = "newNamespace a cl ca"
      have n: "ns_Name ?n = a" "om_Namespace (ns_meta ?n) = ''''" by (simp_all add: newNamespace_def)
      obtain c w2 where c: "r_create (k_namespaces K) ?n w1 = (c, w2)" by fastforce
      show ?thesis
      proof (cases c)
        case None
        with assms g Inl True c have r: "r = Some ?n" "w' = w2"
          by (simp_all add: getOrCreateNamespace_def Let_def)
        have wf1: "ns_wf w1" using wf same_nsD(3) [OF w1] by simp
        note cr = create_namespace [OF c [unfolded None] wf1 n(2)]
        show ?thesis
          using cr(1) ns_frame_trans [OF same_nsD(1) [OF w1] cr(2)] cr(4) [of s] n r
            same_nsD(2) [OF w1, of s]
          by (auto split: if_splits)
      next
        case (Some e2)
        with assms g Inl True c have r: "r = None" "w' = w2"
          by (simp_all add: getOrCreateNamespace_def Let_def)
        have "w2 = tick w1" using nsp.create_err c Some by blast
        then have s2: "same_ns w w2" using w1 by (auto intro: same_ns_trans)
        with r wf show ?thesis by (simp add: same_nsD [OF s2]) (simp add: same_ns_def)
      qed
    qed
  qed
  then show "ns_wf w'" "ns_frame w w'" "r = None \<Longrightarrow> w_namespaces w' = w_namespaces w"
    "r = Some n \<Longrightarrow> ns_Name n = a \<and> om_Namespace (ns_meta n) = ''''
       \<and> bound_names s w \<subseteq> bound_names s w' \<and> bound_names s w' \<subseteq> insert a (bound_names s w)"
    by blast+
qed

text \<open>
  The labelling loop: the names it adds to the list are those it has bound or found bound;
  the marks are set on the names of the configuration.
\<close>

definition marked :: "(string \<times> bool) list \<Rightarrow> string \<Rightarrow> bool" where
  "marked marks a \<longleftrightarrow> map_of marks a = Some True"

lemma label_loop:
  assumes "createAndLabelAppNamespaces K s cl ca cfg marks labeled changed w
      = ((Inr (labeled', changed'), marks'), w')"
    and "ns_wf w" and "fst ` set marks \<subseteq> bound_names (sl_Name s) w"
  shows "ns_wf w' \<and> ns_frame w w' \<and> map fst marks' = map fst marks
    \<and> (\<exists>new. labeled' = labeled @ new \<and> set new \<subseteq> set cfg
         \<and> fst ` set marks \<inter> set cfg \<subseteq> set new
         \<and> bound_names (sl_Name s) w' = bound_names (sl_Name s) w \<union> set new)
    \<and> (\<forall>a. marked marks' a \<longleftrightarrow> marked marks a \<or> a \<in> fst ` set marks \<inter> set cfg)
    \<and> (changed \<longrightarrow> changed')
    \<and> (\<not> changed' \<longrightarrow> bound_names (sl_Name s) w' = bound_names (sl_Name s) w)"
  using assms
proof (induction cfg arbitrary: marks labeled changed w)
  case Nil
  then show ?case by simp
next
  case (Cons a cfg)
  let ?B = "bound_names (sl_Name s)"
  show ?case
  proof (cases "map_of marks a")
    case (Some b)
    let ?m = "AList.update a True marks"
    from Some have a: "a \<in> fst ` set marks" by (metis map_of_eq_None_iff option.distinct(1))
    then have keys: "map fst ?m = map fst marks" by (simp add: update_keys)
    then have keys': "fst ` set ?m = fst ` set marks" by (metis list.set_map)
    from Cons.prems(1) Some have
      rec: "createAndLabelAppNamespaces K s cl ca cfg ?m (labeled @ [a]) changed w
        = ((Inr (labeled', changed'), marks'), w')" by simp
    from Cons.IH [OF rec Cons.prems(2)] Cons.prems(3) keys keys'
    obtain new where new: "labeled' = (labeled @ [a]) @ new" "set new \<subseteq> set cfg"
        "fst ` set marks \<inter> set cfg \<subseteq> set new" "?B w' = ?B w \<union> set new"
      and rest: "ns_wf w'" "ns_frame w w'" "map fst marks' = map fst marks"
        "\<forall>x. marked marks' x \<longleftrightarrow> marked ?m x \<or> x \<in> fst ` set marks \<inter> set cfg"
        "changed \<longrightarrow> changed'" "\<not> changed' \<longrightarrow> ?B w' = ?B w" by auto
    have "?B w' = ?B w \<union> set (a # new)" using new(4) a Cons.prems(3) by auto
    moreover have "\<forall>x. marked marks' x \<longleftrightarrow> marked marks x \<or> x \<in> fst ` set marks \<inter> set (a # cfg)"
      using rest(4) a by (auto simp: marked_def)
    moreover have "labeled' = labeled @ (a # new) \<and> set (a # new) \<subseteq> set (a # cfg)
        \<and> fst ` set marks \<inter> set (a # cfg) \<subseteq> set (a # new)"
      using new by auto
    ultimately show ?thesis using rest by blast
  next
    case None
    then have a: "a \<notin> fst ` set marks" by (simp add: map_of_eq_None_iff)
    obtain g w1 where g: "getOrCreateNamespace K cl ca a w = (g, w1)" by fastforce
    note gc = get_or_create [OF g Cons.prems(2)]
    show ?thesis
    proof (cases g)
      case gNone: None
      from gc(3) gNone have same: "same_ns w w1" using gc(2) by (simp add: same_ns_def)
      from Cons.prems(1) None g gNone have
        rec: "createAndLabelAppNamespaces K s cl ca cfg marks labeled changed w1
          = ((Inr (labeled', changed'), marks'), w')" by simp
      have "fst ` set marks \<subseteq> ?B w1" using Cons.prems(3) same_nsD(2) [OF same] by simp
      from Cons.IH [OF rec gc(1) this] show ?thesis
        using a same_nsD(2) [OF same, of "sl_Name s"] ns_frame_trans [OF gc(2)] by auto
    next
      case (Some n)
      let ?n = "labelAppNamespace (sl_Name s) cl ca n"
      note n = gc(4) [OF Some, of "sl_Name s"]
      obtain u w2 where u: "r_update (k_namespaces K) ?n w1 = (u, w2)" by fastforce
      with Cons.prems(1) None g Some have uN: "u = None" by (cases u) simp_all
      have cs: "om_Namespace (ns_meta ?n) = ''''" using n by simp
      note up = update_namespace [OF u [unfolded uN] gc(1) cs]
      have B: "?B w2 = insert a (?B w)" using up(3) [of "sl_Name s"] n by auto
      from Cons.prems(1) None g Some u uN have
        rec: "createAndLabelAppNamespaces K s cl ca cfg marks (labeled @ [a]) True w2
          = ((Inr (labeled', changed'), marks'), w')" by simp
      have "fst ` set marks \<subseteq> ?B w2" using Cons.prems(3) B by auto
      from Cons.IH [OF rec up(1) this] obtain new
        where new: "labeled' = (labeled @ [a]) @ new" "set new \<subseteq> set cfg"
          "fst ` set marks \<inter> set cfg \<subseteq> set new" "?B w' = ?B w2 \<union> set new"
        and rest: "ns_wf w'" "ns_frame w2 w'" "map fst marks' = map fst marks"
          "\<forall>x. marked marks' x \<longleftrightarrow> marked marks x \<or> x \<in> fst ` set marks \<inter> set cfg" "changed'"
        by auto
      have fr: "ns_frame w w'"
        using ns_frame_trans [OF ns_frame_trans [OF gc(2) up(2)] rest(2)] .
      have "labeled' = labeled @ (a # new) \<and> set (a # new) \<subseteq> set (a # cfg)
          \<and> fst ` set marks \<inter> set (a # cfg) \<subseteq> set (a # new) \<and> ?B w' = ?B w \<union> set (a # new)"
        using new B a by auto
      moreover have "\<forall>x. marked marks' x \<longleftrightarrow> marked marks x \<or> x \<in> fst ` set marks \<inter> set (a # cfg)"
        using rest(4) a by auto
      ultimately show ?thesis using rest fr by blast
    qed
  qed
qed

end

section \<open>Unbinding\<close>

context resource
begin

text \<open>A loop of updates keeps what one update keeps.\<close>

lemma updateAll_keeps:
  assumes "updateAll ops change obs w = (r, w')"
    and refl: "\<And>v. Q v v" and trans: "\<And>u v x. Q u v \<Longrightarrow> Q v x \<Longrightarrow> Q u x"
    and tick: "\<And>v. Q v (tick v)" and upd: "\<And>f v. Q v (upd f v)"
  shows "Q w w'"
  using assms(1)
proof (induction obs arbitrary: w)
  case Nil
  then show ?case using refl by simp
next
  case (Cons ob obs)
  obtain u w1 where u: "r_update ops (change ob) w = (u, w1)" by fastforce
  have "Q w w1"
  proof (cases u)
    case None
    with update_ok u have "w1 = tick (upd (replace_object meta (change ob)) w)" by blast
    then show ?thesis using trans [OF upd tick] by blast
  next
    case (Some e)
    with update_err u tick show ?thesis by blast
  qed
  with Cons u show ?case by (cases u) (auto intro: trans)
qed

lemma updateInNamespace_keeps:
  assumes "updateInNamespace ops change a w = (r, w')"
    and refl: "\<And>v. Q v v" and trans: "\<And>u v x. Q u v \<Longrightarrow> Q v x \<Longrightarrow> Q u x"
    and tick: "\<And>v. Q v (tick v)" and upd: "\<And>f v. Q v (upd f v)"
  shows "Q w w'"
proof -
  obtain l w1 where l: "r_list ops (in_namespace a []) w = (l, w1)" by fastforce
  have "Q w w1" using list_world [OF l] tick by simp
  moreover have "\<exists>obs. updateAll ops change obs w1 = (r, w')"
    using assms(1) l by (cases l) (auto simp: updateInNamespace_def intro: exI [of _ "[]"])
  then obtain obs where "updateAll ops change obs w1 = (r, w')" ..
  then have "Q w1 w'" by (rule updateAll_keeps) (use assms(2-5) in blast)+
  ultimately show ?thesis by (rule trans)
qed

end

lemma bound_to_unbindLabels: "\<not> bound_to s (unbindLabels cl ca n)"
  "ns_Name (unbindLabels cl ca n) = ns_Name n"
  "om_Namespace (ns_meta (unbindLabels cl ca n)) = om_Namespace (ns_meta n)"
proof -
  have "map_of ls k = None \<Longrightarrow> map_of (removeEntries ls ms) k = None" for ls ms k
    by (induction ls ms rule: removeEntries.induct) simp_all
  then show "\<not> bound_to s (unbindLabels cl ca n)"
    by (simp add: bound_to_def unbindLabels_def Let_def)
qed (simp_all add: unbindLabels_def Let_def)

context lawful
begin

lemma remove_slice_keeps:
  assumes "removeSliceFromNamespace K s a w = (r, w')"
  shows "same_ns w w'"
proof -
  note tr = same_ns_trans
  obtain d w1 where d: "r_delete (k_netpols K) a (netpolName s a) w = (d, w1)" by fastforce
  have s1: "same_ns w w1"
    using d npl.delete_ok npl.delete_err by (cases d) (fastforce simp: same_ns_def ns_frame_def)+
  have pods: "same_ns v v'" if "updateInNamespace (k_pods K) f a v = (x, v')" for f v v' x
    by (rule pod.updateInNamespace_keeps [OF that]) (auto intro: tr, simp_all add: same_ns_def ns_frame_def)
  have deps: "same_ns v v'" if "updateInNamespace (k_deployments K) f a v = (x, v')" for f v v' x
    by (rule dep.updateInNamespace_keeps [OF that]) (auto intro: tr, simp_all add: same_ns_def ns_frame_def)
  have stss: "same_ns v v'" if "updateInNamespace (k_statefulsets K) f a v = (x, v')" for f v v' x
    by (rule sts.updateInNamespace_keeps [OF that]) (auto intro: tr, simp_all add: same_ns_def ns_frame_def)
  have dmss: "same_ns v v'" if "updateInNamespace (k_daemonsets K) f a v = (x, v')" for f v v' x
    by (rule dms.updateInNamespace_keeps [OF that]) (auto intro: tr, simp_all add: same_ns_def ns_frame_def)
  have "same_ns w1 w'"
    using assms d
    by (auto simp: removeSliceFromNamespace_def deleteAnnotationsAndLabels_def
        split: prod.splits option.splits intro: tr dest!: pods deps stss dmss)
  with s1 show ?thesis by (rule tr)
qed

lemma unbind_app:
  assumes "unbindAppNamespace K s a cl ca w = (r, w')" and wf: "ns_wf w"
  shows "ns_wf w'" "ns_frame w w'" "r = None \<Longrightarrow> bound_names t w' = bound_names t w - {a}"
proof -
  obtain g w1 where g: "r_get (k_namespaces K) '''' a w = (g, w1)" by fastforce
  have s1: "same_ns w w1" using nsp.get_world [OF g] by simp
  have wf1: "ns_wf w1" using wf same_nsD(3) [OF s1] by simp
  have "ns_wf w' \<and> ns_frame w w' \<and> (r = None \<longrightarrow> bound_names t w' = bound_names t w - {a})"
  proof (cases g)
    case (Inl e)
    then have w': "w' = w1" and r: "r = None \<Longrightarrow> e = NotFound"
      using assms(1) g by (cases e; simp add: unbindAppNamespace_def)+
    have "a \<notin> bound_names t w" if "e = NotFound"
    proof -
      have "find (keyed ns_meta '''' a) (w_namespaces w) = None"
        using nsp.get_err g Inl that by blast
      then show ?thesis by (simp add: bound_names_iff [OF wf])
    qed
    with w' r wf1 show ?thesis by (auto simp: same_nsD [OF s1])
  next
    case (Inr n)
    have n: "find (keyed ns_meta '''' a) (w_namespaces w) = Some n"
      using nsp.get_ok g Inr by blast
    from find_Some_iff' [OF this] have nn: "ns_Name n = a" "om_Namespace (ns_meta n) = ''''"
      by (simp_all add: keyed_def)
    show ?thesis
    proof (cases "map_of (ns_Labels n) ApplicationNamespaceSelectorLabelKey = None")
      case True
      with assms(1) g Inr have "removeSliceFromNamespace K s a w1 = (r, w')"
        by (simp add: unbindAppNamespace_def)
      from remove_slice_keeps [OF this] have s2: "same_ns w w'" by (rule same_ns_trans [OF s1])
      have "a \<notin> bound_names t w"
        using True n by (simp add: bound_names_iff [OF wf] bound_to_def)
      then show ?thesis using wf by (auto simp: same_nsD [OF s2])
    next
      case False
      let ?n = "unbindLabels cl ca n"
      obtain u w2 where u: "r_update (k_namespaces K) ?n w1 = (u, w2)" by fastforce
      show ?thesis
      proof (cases u)
        case (Some e)
        then have "r = Some e" "w' = w2"
          using assms(1) g Inr False u by (simp_all add: unbindAppNamespace_def)
        moreover have "same_ns w w2"
          using update_namespace_err u Some same_ns_trans [OF s1] by blast
        ultimately show ?thesis using wf same_nsD [of w w2] by simp
      next
        case None
        note up = update_namespace [OF u [unfolded None] wf1]
        have cs: "om_Namespace (ns_meta ?n) = ''''" using nn by (simp add: bound_to_unbindLabels)
        from None have "removeSliceFromNamespace K s a w2 = (r, w')"
          using assms(1) g Inr False u by (simp add: unbindAppNamespace_def)
        note s3 = remove_slice_keeps [OF this]
        have "bound_names t w' = bound_names t w - {a}"
          using up(3) [OF cs, of t] nn
          by (simp add: same_nsD [OF s3] same_nsD [OF s1] bound_to_unbindLabels)
        moreover have "ns_frame w w'"
          using ns_frame_trans [OF ns_frame_trans [OF same_nsD(1) [OF s1] up(2) [OF cs]] same_nsD(1) [OF s3]] .
        ultimately show ?thesis using up(1) [OF cs] same_nsD(3) [OF s3] by simp
      qed
    qed
  qed
  then show "ns_wf w'" "ns_frame w w'" "r = None \<Longrightarrow> bound_names t w' = bound_names t w - {a}"
    by blast+
qed

lemma unbind_sweep:
  assumes "unbindUnmarked K s cl ca marks ns changed w = (Inr changed', w')" and "ns_wf w"
  shows "ns_wf w' \<and> ns_frame w w'
    \<and> bound_names t w' = bound_names t w - {a \<in> set ns. \<not> marked marks a}
    \<and> (changed \<longrightarrow> changed') \<and> (\<not> changed' \<longrightarrow> (\<forall>a\<in>set ns. marked marks a))"
  using assms
proof (induction ns arbitrary: changed w)
  case Nil
  then show ?case by simp
next
  case (Cons a ns)
  show ?case
  proof (cases "marked marks a")
    case True
    with Cons.prems(1) have "unbindUnmarked K s cl ca marks ns changed w = (Inr changed', w')"
      by (simp add: marked_def)
    from Cons.IH [OF this Cons.prems(2)] True show ?thesis by auto
  next
    case False
    obtain r w1 where u: "unbindAppNamespace K s a cl ca w = (r, w1)" by fastforce
    note ub = unbind_app [OF u Cons.prems(2)]
    from False Cons.prems(1) u have r: "r = None" by (cases r) (simp_all add: marked_def)
    with False Cons.prems(1) u
    have "unbindUnmarked K s cl ca marks ns True w1 = (Inr changed', w')" by (simp add: marked_def)
    from Cons.IH [OF this ub(1)] ub(3) [OF r, of t] ns_frame_trans [OF ub(2)] False
    show ?thesis by auto
  qed
qed

end

section \<open>Writing the outcome\<close>

context lawful
begin

text \<open>
  A status update that succeeds has changed the stored slice, read after the start, and
  nothing else; one that fails has changed nothing.
\<close>

lemma update_slice_status:
  assumes "updateSliceStatus K change (s, w) = (r, s', w')"
    and meta: "\<And>x. sl_meta (change x) = sl_meta x"
  shows "sl_Name s' = sl_Name s"
    "r \<noteq> None \<Longrightarrow> reads w w'"
    "r = None \<Longrightarrow> \<exists>s0 w0. reads w w0 \<and> s' = change s0
       \<and> find (keyed sl_meta ControlPlaneNamespace (sl_Name s)) (w_slices w) = Some s0
       \<and> w' = w0\<lparr>w_slices := replace_object sl_meta s' (w_slices w0)\<rparr>
       \<and> find (keyed sl_meta ControlPlaneNamespace (sl_Name s)) (w_slices w') = Some s'"
proof -
  let ?k = "keyed sl_meta ControlPlaneNamespace (sl_Name s)"
  let ?P = "\<lambda>(s1, w1). sl_Name s1 = sl_Name s \<and> reads w w1"
  let ?f = "\<lambda>(s, w). case r_get (k_slices K) ControlPlaneNamespace (sl_Name s) w of
         (Inl e, w) \<Rightarrow> (Some e, s, w)
       | (Inr s, w) \<Rightarrow>
           (case r_update_status (k_slices K) (change s) w of (r, w) \<Rightarrow> (r, change s, w))"
  have step: "sl_Name s2 = sl_Name s \<and> (r1 \<noteq> None \<longrightarrow> reads w w2)
      \<and> (r1 = None \<longrightarrow> (\<exists>s0 w0. reads w w0 \<and> s2 = change s0 \<and> find ?k (w_slices w) = Some s0
           \<and> w2 = w0\<lparr>w_slices := replace_object sl_meta s2 (w_slices w0)\<rparr>
           \<and> find ?k (w_slices w2) = Some s2))"
    if pre: "?P (s1, w1)" and f: "?f (s1, w1) = (r1, s2, w2)" for s1 w1 r1 s2 w2
  proof -
    obtain g w3 where g: "r_get (k_slices K) ControlPlaneNamespace (sl_Name s1) w1 = (g, w3)" by fastforce
    have w3: "w3 = tick w1" by (rule slice.get_world [OF g])
    have rd: "reads w w3" using pre w3 by auto
    show ?thesis
    proof (cases g)
      case (Inl e)
      with f g pre rd show ?thesis by auto
    next
      case (Inr s0)
      have s0: "find ?k (w_slices w1) = Some s0" using slice.get_ok g Inr pre by fastforce
      then have s0w: "find ?k (w_slices w) = Some s0" using pre reads_sel(8) by fastforce
      have name: "sl_Name s0 = sl_Name s" "sl_Namespace s0 = ControlPlaneNamespace"
        using find_Some_iff' [OF s0] by (simp_all add: keyed_def)
      obtain u w4 where u: "r_update_status (k_slices K) (change s0) w3 = (u, w4)" by fastforce
      have r: "r1 = u" "s2 = change s0" "w2 = w4" using f g Inr u by simp_all
      show ?thesis
      proof (cases u)
        case (Some e)
        have "w4 = tick w3" using slice.update_status_err u Some by blast
        with r Some name meta rd show ?thesis by auto
      next
        case None
        have w4: "w4 = tick (w_slices_update (replace_object sl_meta (change s0)) w3)"
          using slice.update_status_ok u None by blast
        have "find ?k (replace_object sl_meta (change s0) (w_slices w3)) = Some (change s0)"
          by (rule find_replace_key) (use s0 w3 name meta in \<open>simp_all add: keyed_def\<close>)
        then have "find ?k (w_slices w4) = Some (change s0)" using w4 by simp
        moreover have "w4 = (tick w3)\<lparr>w_slices := replace_object sl_meta (change s0) (w_slices (tick w3))\<rparr>"
          using w4 by (simp add: tick_def)
        moreover have "reads w (tick w3)" "sl_Name (change s0) = sl_Name s"
          using rd name meta by auto
        ultimately show ?thesis unfolding r(2) r(3) using r(1) None s0w by blast
      qed
    qed
  qed
  have "?P (s, w)" by simp
  moreover have "?P x2" if "?P x1" "?f x1 = (Some Conflict, x2)" for x1 x2
    using step that by (cases x1, cases x2) blast
  ultimately have "?P (s', w') \<and> r = Some Conflict \<or> (\<exists>x. ?P x \<and> ?f x = (r, s', w'))"
    using RetryOnConflict_last [OF assms(1) [unfolded updateSliceStatus_def], of ?P] by blast
  then have all: "sl_Name s' = sl_Name s \<and> (r \<noteq> None \<longrightarrow> reads w w')
      \<and> (r = None \<longrightarrow> (\<exists>s0 w0. reads w w0 \<and> s' = change s0 \<and> find ?k (w_slices w) = Some s0
           \<and> w' = w0\<lparr>w_slices := replace_object sl_meta s' (w_slices w0)\<rparr>
           \<and> find ?k (w_slices w') = Some s'))"
  proof
    assume "?P (s', w') \<and> r = Some Conflict"
    then show ?thesis by simp
  next
    assume "\<exists>x. ?P x \<and> ?f x = (r, s', w')"
    then obtain x where x: "?P x" "?f x = (r, s', w')" by blast
    obtain s1 w1 where "x = (s1, w1)" by (rule prod.exhaust)
    with x show ?thesis using step [of s1 w1 r s' w'] by simp
  qed
  from all show "sl_Name s' = sl_Name s" by (rule conjunct1)
  from all show "reads w w'" if "r \<noteq> None" using that by simp
  from all show "\<exists>s0 w0. reads w w0 \<and> s' = change s0
       \<and> find ?k (w_slices w) = Some s0
       \<and> w' = w0\<lparr>w_slices := replace_object sl_meta s' (w_slices w0)\<rparr>
       \<and> find ?k (w_slices w') = Some s'" if "r = None" using that by simp
qed

lemma update_app_namespaces:
  assumes "UpdateAppNamespaces K E name names w = (None, w')"
  shows "\<exists>c w0. reads w w0 \<and> OnboardedAppNamespaces c = names
    \<and> w' = w0\<lparr>h_sliceconfigs := replace_object wsc_meta c (h_sliceconfigs w0)\<rparr>
    \<and> find (keyed wsc_meta (ProjectNamespace E) name) (h_sliceconfigs w') = Some c"
proof -
  let ?k = "keyed wsc_meta (ProjectNamespace E) name"
  let ?f = "\<lambda>w. case r_get (k_sliceconfigs K) (ProjectNamespace E) name w of
         (Inl e, w) \<Rightarrow> (Some e, w)
       | (Inr c, w) \<Rightarrow> r_update_status (k_sliceconfigs K) (c\<lparr>OnboardedAppNamespaces := names\<rparr>) w"
  have step: "(r1 \<noteq> None \<longrightarrow> reads w w2)
      \<and> (r1 = None \<longrightarrow> (\<exists>c w0. reads w w0 \<and> OnboardedAppNamespaces c = names
           \<and> w2 = w0\<lparr>h_sliceconfigs := replace_object wsc_meta c (h_sliceconfigs w0)\<rparr>
           \<and> find ?k (h_sliceconfigs w2) = Some c))"
    if pre: "reads w w1" and f: "?f w1 = (r1, w2)" for w1 r1 w2
  proof -
    obtain g w3 where g: "r_get (k_sliceconfigs K) (ProjectNamespace E) name w1 = (g, w3)" by fastforce
    have w3: "w3 = tick w1" by (rule wsc.get_world [OF g])
    have rd: "reads w w3" using pre w3 by auto
    show ?thesis
    proof (cases g)
      case (Inl e)
      with f g rd show ?thesis by auto
    next
      case (Inr c0)
      let ?c = "c0\<lparr>OnboardedAppNamespaces := names\<rparr>"
      have c0: "find ?k (h_sliceconfigs w1) = Some c0" using wsc.get_ok g Inr by blast
      have u: "r_update_status (k_sliceconfigs K) ?c w3 = (r1, w2)" using f g Inr by simp
      show ?thesis
      proof (cases r1)
        case (Some e)
        have "w2 = tick w3" using wsc.update_status_err u Some by blast
        with Some rd show ?thesis by auto
      next
        case None
        have w2: "w2 = tick (h_sliceconfigs_update (replace_object wsc_meta ?c) w3)"
          using wsc.update_status_ok u None by blast
        have "find ?k (replace_object wsc_meta ?c (h_sliceconfigs w3)) = Some ?c"
          by (rule find_replace) (use c0 w3 in simp_all)
        then have "find ?k (h_sliceconfigs w2) = Some ?c" using w2 by simp
        moreover have "w2 = (tick w3)\<lparr>h_sliceconfigs := replace_object wsc_meta ?c (h_sliceconfigs (tick w3))\<rparr>"
          using w2 by (simp add: tick_def)
        moreover have "reads w (tick w3)" using rd by auto
        moreover have "OnboardedAppNamespaces ?c = names" by simp
        ultimately show ?thesis using None by blast
      qed
    qed
  qed
  have "reads w w' \<and> (None :: go_error option) = Some Conflict \<or> (\<exists>x. reads w x \<and> ?f x = (None, w'))"
    by (rule RetryOnConflict_last [OF assms [unfolded UpdateAppNamespaces_def]]) (use step in blast)+
  then show ?thesis using step by blast
qed

lemma publish_outcome:
  assumes "publishAppNamespaces K E names s w = (((res, None, False), s'), w')"
  shows "sl_Name s' = sl_Name s" "sl_ApplicationNamespaces s' = names"
    "w_namespaces w' = w_namespaces w"
    "find (keyed sl_meta ControlPlaneNamespace (sl_Name s)) (w_slices w') = Some s'"
    "\<exists>c. find (keyed wsc_meta (ProjectNamespace E) (sliceConfigName E s)) (h_sliceconfigs w') = Some c
       \<and> OnboardedAppNamespaces c = names"
proof -
  obtain r s1 w1 where u: "updateSliceStatus K (\<lambda>s. s\<lparr>sl_ApplicationNamespaces := names\<rparr>) (s, w)
      = (r, s1, w1)" by (rule prod_cases3)
  have r: "r = None" "s1 = s'" "UpdateAppNamespaces K E (sliceConfigName E s1) names w1 = (None, w')"
    using assms u by (auto simp: publishAppNamespaces_def split: option.splits prod.splits)
  note us = update_slice_status [OF u, simplified]
  show name: "sl_Name s' = sl_Name s" using us(1) r by simp
  obtain s0 w0 where s0: "reads w w0" "s' = s0\<lparr>sl_ApplicationNamespaces := names\<rparr>"
      "w1 = w0\<lparr>w_slices := replace_object sl_meta s' (w_slices w0)\<rparr>"
      "find (keyed sl_meta ControlPlaneNamespace (sl_Name s)) (w_slices w1) = Some s'"
    using us(3) r by blast
  obtain c w2 where c: "reads w1 w2" "OnboardedAppNamespaces c = names"
      "w' = w2\<lparr>h_sliceconfigs := replace_object wsc_meta c (h_sliceconfigs w2)\<rparr>"
      "find (keyed wsc_meta (ProjectNamespace E) (sliceConfigName E s1)) (h_sliceconfigs w') = Some c"
    using update_app_namespaces [OF r(3)] by blast
  show "sl_ApplicationNamespaces s' = names" using s0(2) by simp
  have "w_namespaces w1 = w_namespaces w" using s0(1,3) by (auto simp: reads_def)
  then show "w_namespaces w' = w_namespaces w" using c(1,3) by (auto simp: reads_def)
  have "w_slices w' = w_slices w1" using c(1,3) by (auto simp: reads_def)
  with s0(4) show "find (keyed sl_meta ControlPlaneNamespace (sl_Name s)) (w_slices w') = Some s'" by simp
  show "\<exists>c. find (keyed wsc_meta (ProjectNamespace E) (sliceConfigName E s)) (h_sliceconfigs w') = Some c
       \<and> OnboardedAppNamespaces c = names"
    using c(2,4) r(2) name by (auto simp: sliceConfigName_def)
qed

end

section \<open>The pass\<close>

context lawful
begin

lemma GetClusterNamespaceConfig_world:
  "GetClusterNamespaceConfig K E c w = (r, w') \<Longrightarrow> w' = tick w"
  by (auto simp: GetClusterNamespaceConfig_def split: prod.splits sum.splits dest: hcl.get_world)

lemma listed_bound:
  assumes "r_list (k_namespaces K) (app_selector s) w = (Inr ns, w')"
  shows "w' = tick w" "ns_Name ` set ns = bound_names s w"
proof -
  show "w' = tick w" by (rule nsp.list_world [OF assms])
  have "ns = filter (selects ns_meta no_phase (app_selector s)) (w_namespaces w)"
    using nsp.list_ok assms by blast
  moreover have "selects ns_meta no_phase (app_selector s) n = bound_to s n" for n
    by (simp add: selects_def app_selector_def all_namespaces_def bound_to_def)
  ultimately show "ns_Name ` set ns = bound_names s w" by (simp add: bound_names_def)
qed

lemma app_namespaces:
  assumes rec: "reconcileAppNamespaces K E ord s w = (Ret ((res, None, False), s'), w')"
    and cfg: "sl_Config s = Some c" "sc_NamespaceIsolationProfile c = Some p"
    and wf: "ns_wf w" and ord: "\<And>xs. set (ord xs) = set xs"
  shows "\<exists>labeled. bound_names (sl_Name s) w' = set labeled
      \<and> set labeled \<subseteq> set (buildAppNamespacesList p)
      \<and> bound_names (sl_Name s) w \<inter> set (buildAppNamespacesList p) \<subseteq> set labeled
      \<and> (bound_names (sl_Name s) w' \<noteq> bound_names (sl_Name s) w \<longrightarrow>
           sl_ApplicationNamespaces s' = labeled
           \<and> find (keyed sl_meta ControlPlaneNamespace (sl_Name s)) (w_slices w') = Some s'
           \<and> (\<exists>wsc. find (keyed wsc_meta (ProjectNamespace E) (sliceConfigName E s)) (h_sliceconfigs w')
                  = Some wsc \<and> OnboardedAppNamespaces wsc = labeled))"
    and "ns_wf w'"
proof -
  let ?B = "bound_names (sl_Name s)" and ?cfg = "buildAppNamespacesList p"
  obtain l w1 where l: "r_list (k_namespaces K) (app_selector (sl_Name s)) w = (l, w1)" by fastforce
  obtain ns where ns: "l = Inr ns"
    using rec cfg l by (cases l) (auto simp: reconcileAppNamespaces_def)
  note li = listed_bound [OF l [unfolded ns]]
  obtain g w2 where g: "GetClusterNamespaceConfig K E (ClusterName E) w1 = (g, w2)" by fastforce
  obtain cl ca where cc: "g = Inr (cl, ca)"
    using rec cfg l ns g by (cases g) (auto simp: reconcileAppNamespaces_def)
  have w2: "same_ns w w2"
    using li(1) GetClusterNamespaceConfig_world [OF g] by (simp add: same_ns_def ns_frame_def)
  let ?m0 = "map (\<lambda>n. (ns_Name n, False)) ns"
  obtain cr marks w3 where cr: "createAndLabelAppNamespaces K s cl ca ?cfg ?m0 [] False w2
      = ((cr, marks), w3)" by (metis surj_pair)
  obtain labeled ch where lab: "cr = Inr (labeled, ch)"
    using rec cfg l ns g cc cr by (cases cr) (auto simp: reconcileAppNamespaces_def)
  obtain u w4 where u: "unbindUnmarked K (sl_Name s) cl ca marks (ord (map fst marks)) ch w3 = (u, w4)"
    by fastforce
  obtain ch2 where ch2: "u = Inr ch2"
    using rec cfg l ns g cc cr lab u by (cases u) (auto simp: reconcileAppNamespaces_def)
  have keys: "fst ` set ?m0 = ?B w2"
    using li(2) same_nsD(2) [OF w2] by (simp add: image_image)
  have wf2: "ns_wf w2" using wf same_nsD(3) [OF w2] by simp
  note ll = label_loop [OF cr [unfolded lab] wf2 eq_refl [OF keys]]
  obtain new where new: "labeled = new" "set new \<subseteq> set ?cfg" "?B w \<inter> set ?cfg \<subseteq> set new"
      "?B w3 = ?B w \<union> set new"
    using ll keys same_nsD(2) [OF w2] by auto
  have wf3: "ns_wf w3" and fr3: "ns_frame w2 w3" and mk: "map fst marks = map fst ?m0"
    and marked: "marked marks a \<longleftrightarrow> a \<in> ?B w \<inter> set ?cfg"
    and nch: "\<not> ch \<longrightarrow> ?B w3 = ?B w" for a
    using ll keys same_nsD(2) [OF w2] by (auto simp: marked_def dest!: map_of_SomeD)
  note us = unbind_sweep [OF u [unfolded ch2] wf3, of "sl_Name s"]
  have "set (ord (map fst marks)) = ?B w"
    using ord [of "map fst marks"] mk keys same_nsD(2) [OF w2] by (metis list.set_map)
  then have B4: "?B w4 = set labeled" and nch2: "\<not> ch2 \<Longrightarrow> ?B w4 = ?B w"
    using us marked new nch by auto
  have end_: "if ch2 then publishAppNamespaces K E labeled s w4 = (((res, None, False), s'), w')
      else w' = w4"
    using rec cfg l ns g cc cr lab u ch2
    by (auto simp: reconcileAppNamespaces_def split: prod.splits)
  have w': "?B w' = ?B w4 \<and> ns_wf w'"
  proof (cases ch2)
    case True
    with end_ publish_outcome(3) have "w_namespaces w' = w_namespaces w4" by auto
    with us show ?thesis by (simp add: bound_names_def ns_wf_def)
  next
    case False
    with end_ us show ?thesis by simp
  qed
  have pub: "sl_ApplicationNamespaces s' = labeled
      \<and> find (keyed sl_meta ControlPlaneNamespace (sl_Name s)) (w_slices w') = Some s'
      \<and> (\<exists>wsc. find (keyed wsc_meta (ProjectNamespace E) (sliceConfigName E s)) (h_sliceconfigs w')
             = Some wsc \<and> OnboardedAppNamespaces wsc = labeled)"
    if "?B w' \<noteq> ?B w"
  proof -
    have "ch2" using that w' nch2 by auto
    with end_ have "publishAppNamespaces K E labeled s w4 = (((res, None, False), s'), w')" by simp
    from publish_outcome [OF this] show ?thesis by blast
  qed
  show "ns_wf w'" using w' by simp
  show "\<exists>labeled. ?B w' = set labeled \<and> set labeled \<subseteq> set ?cfg \<and> ?B w \<inter> set ?cfg \<subseteq> set labeled
      \<and> (?B w' \<noteq> ?B w \<longrightarrow> sl_ApplicationNamespaces s' = labeled
           \<and> find (keyed sl_meta ControlPlaneNamespace (sl_Name s)) (w_slices w') = Some s'
           \<and> (\<exists>wsc. find (keyed wsc_meta (ProjectNamespace E) (sliceConfigName E s)) (h_sliceconfigs w')
                  = Some wsc \<and> OnboardedAppNamespaces wsc = labeled))"
    using w' B4 new pub by (intro exI [of _ labeled]) simp
qed

end

text \<open>
  C11: A pass over the application namespaces that ends without an error and goes on: the
  namespaces bound to the slice are then those it reports, all of them configured and none of
  them the control plane, no configured one that was bound is lost, all others are unbound;
  and when the set has changed, the status of the slice and the slice configuration on the hub
  have the same list.
\<close>

theorem app_namespaces_settled:
  assumes "lawful K" and "reconcileAppNamespaces K E ord s w = (Ret ((res, None, False), s'), w')"
    and "sl_Config s = Some c" "sc_NamespaceIsolationProfile c = Some p"
    and "ns_wf w" and "\<And>xs. set (ord xs) = set xs"
  shows "\<exists>labeled. bound_names (sl_Name s) w' = set labeled
      \<and> set labeled \<subseteq> set (iso_ApplicationNamespaces p) - {ControlPlaneNamespace}
      \<and> bound_names (sl_Name s) w \<inter> (set (iso_ApplicationNamespaces p) - {ControlPlaneNamespace})
           \<subseteq> set labeled
      \<and> (bound_names (sl_Name s) w' \<noteq> bound_names (sl_Name s) w \<longrightarrow>
           sl_ApplicationNamespaces s' = labeled
           \<and> find (keyed sl_meta ControlPlaneNamespace (sl_Name s)) (w_slices w') = Some s'
           \<and> (\<exists>wsc. find (keyed wsc_meta (ProjectNamespace E) (sliceConfigName E s)) (h_sliceconfigs w')
                  = Some wsc \<and> OnboardedAppNamespaces wsc = labeled))"
proof -
  have "set (buildAppNamespacesList p) = set (iso_ApplicationNamespaces p) - {ControlPlaneNamespace}"
    by (auto simp: buildAppNamespacesList_def)
  with lawful.app_namespaces(1) [OF assms] show ?thesis by simp
qed

section \<open>Without failures\<close>

lemma list_ex_replace:
  "list_ex (same_key meta x) xs \<Longrightarrow> list_ex (same_key meta x) (replace_object meta y xs)"
  unfolding replace_object_def
  by (induction xs) (auto simp: same_key_def keyed_def)

context reliable_resource
begin

lemma updateAll_ok:
  assumes "\<And>ob. ob \<in> set obs \<Longrightarrow> list_ex (same_key meta ob) (sel w)"
    and key: "\<And>ob. om_Namespace (meta (change ob)) = om_Namespace (meta ob)"
      "\<And>ob. om_Name (meta (change ob)) = om_Name (meta ob)"
  shows "\<exists>w'. updateAll ops change obs w = (None, w')"
  using assms(1)
proof (induction obs arbitrary: w)
  case Nil
  then show ?case by simp
next
  case (Cons ob obs)
  have same: "same_key meta (change ob) = same_key meta ob"
    by (simp add: same_key_def fun_eq_iff key)
  have "list_ex (same_key meta ob) (sel w)" using Cons.prems by simp
  then have "r_update ops (change ob) w = (None, tick (upd (replace_object meta (change ob)) w))"
    by (intro update_found) (simp add: same)
  moreover have "\<exists>w'. updateAll ops change obs (tick (upd (replace_object meta (change ob)) w)) = (None, w')"
    by (rule Cons.IH) (use Cons.prems in \<open>simp add: sel_tick sel_upd list_ex_replace\<close>)
  ultimately show ?case by simp
qed

lemma updateInNamespace_ok:
  assumes "\<And>ob. om_Namespace (meta (change ob)) = om_Namespace (meta ob)"
    and "\<And>ob. om_Name (meta (change ob)) = om_Name (meta ob)"
  shows "\<exists>w'. updateInNamespace ops change a w = (None, w')"
proof -
  have "\<exists>w'. updateAll ops change (filter (selects meta phase (in_namespace a [])) (sel w)) (tick w)
      = (None, w')"
  proof (rule updateAll_ok [OF _ assms])
    fix ob assume "ob \<in> set (filter (selects meta phase (in_namespace a [])) (sel w))"
    then have "ob \<in> set (sel (tick w))" "same_key meta ob ob" by (simp_all add: sel_tick same_key_def)
    then show "list_ex (same_key meta ob) (sel (tick w))" unfolding list_ex_iff by blast
  qed
  then show ?thesis by (simp add: updateInNamespace_def list_all_ok)
qed

end

context reliable
begin

lemma delete_ls_ok: "\<exists>w'. deleteAnnotationsAndLabels K s a w = (None, w')"
proof -
  obtain w1 where 1: "updateInNamespace (k_pods K) (stripPod s) a w = (None, w1)"
    using podr.updateInNamespace_ok [of "stripPod s" a w] by (auto simp: stripPod_def)
  obtain w2 where 2: "updateInNamespace (k_deployments K) (stripDeployment s) a w1 = (None, w2)"
    using depr.updateInNamespace_ok [of "stripDeployment s" a w1]
    by (auto simp: stripDeployment_def stripOwnAnnotations_def)
  obtain w3 where 3: "updateInNamespace (k_statefulsets K) (stripWorkload s) a w2 = (None, w3)"
    using stsr.updateInNamespace_ok [of "stripWorkload s" a w2]
    by (auto simp: stripWorkload_def stripOwnAnnotations_def)
  obtain w4 where 4: "updateInNamespace (k_daemonsets K) (stripWorkload s) a w3 = (None, w4)"
    using dmsr.updateInNamespace_ok [of "stripWorkload s" a w3]
    by (auto simp: stripWorkload_def stripOwnAnnotations_def)
  show ?thesis by (simp add: deleteAnnotationsAndLabels_def 1 2 3 4)
qed

lemma update_namespace_ok:
  assumes "find (keyed ns_meta '''' a) (w_namespaces w) \<noteq> None"
    and "ns_Name n = a" "om_Namespace (ns_meta n) = ''''"
  shows "\<exists>w'. r_update (k_namespaces K) n w = (None, w')"
proof -
  have "list_ex (same_key ns_meta n) (w_namespaces w)"
    using assms by (simp add: same_key_def [abs_def] find_keyed_list_ex)
  then show ?thesis using nspr.update_found by blast
qed

lemma unbind_ok: "\<exists>w'. unbindAppNamespace K s a cl ca w = (None, w')"
proof (cases "find (keyed ns_meta '''' a) (w_namespaces w)")
  case None
  then show ?thesis by (simp add: unbindAppNamespace_def nspr.get_absent)
next
  case (Some n)
  have rem: "\<exists>w'. removeSliceFromNamespace K s a v = (None, w')" for v
    using delete_ls_ok by (simp add: removeSliceFromNamespace_def split: prod.split)
  from find_Some_iff' [OF Some] have n: "ns_Name n = a" "om_Namespace (ns_meta n) = ''''"
    by (simp_all add: keyed_def)
  obtain w2 where "r_update (k_namespaces K) (unbindLabels cl ca n) (tick w) = (None, w2)"
    using update_namespace_ok [of a "tick w" "unbindLabels cl ca n"] Some n
    by (auto simp: bound_to_unbindLabels)
  with Some rem show ?thesis by (simp add: unbindAppNamespace_def nspr.get_found)
qed

lemma sweep_ok: "\<exists>ch w'. unbindUnmarked K s cl ca marks ns changed w = (Inr ch, w')"
proof (induction ns arbitrary: changed w)
  case Nil
  then show ?case by simp
next
  case (Cons a ns)
  obtain w1 where "unbindAppNamespace K s a cl ca w = (None, w1)" using unbind_ok by blast
  with Cons.IH show ?case by simp
qed

lemma get_or_create_ok:
  "\<exists>n w'. getOrCreateNamespace K cl ca a w = (Some n, w') \<and> ns_Name n = a
     \<and> om_Namespace (ns_meta n) = '''' \<and> find (keyed ns_meta '''' a) (w_namespaces w') \<noteq> None"
proof (cases "find (keyed ns_meta '''' a) (w_namespaces w)")
  case (Some n)
  with find_Some_iff' [OF Some] show ?thesis
    by (auto simp: getOrCreateNamespace_def nspr.get_found keyed_def)
next
  case None
  let ?n = "newNamespace a cl ca"
  have new: "\<not> list_ex (same_key ns_meta ?n) (w_namespaces (tick w))"
    using None by (simp add: same_key_def [abs_def] find_keyed_list_ex newNamespace_def)
  have n: "ns_Name ?n = a" "om_Namespace (ns_meta ?n) = ''''" by (simp_all add: newNamespace_def)
  then have "find (keyed ns_meta '''' a) (w_namespaces w @ [?n]) \<noteq> None"
    unfolding find_None_iff by (auto simp: keyed_def)
  with None n nspr.create_absent [OF new] show ?thesis
    by (simp add: getOrCreateNamespace_def nspr.get_absent Let_def)
qed

lemma label_loop_ok:
  "\<exists>labeled' ch marks' w'. createAndLabelAppNamespaces K s cl ca cfg marks labeled changed w
     = ((Inr (labeled', ch), marks'), w') \<and> set cfg \<subseteq> set labeled'
       \<and> set labeled \<subseteq> set labeled'"
proof (induction cfg arbitrary: marks labeled changed w)
  case Nil
  then show ?case by simp
next
  case (Cons a cfg)
  show ?case
  proof (cases "map_of marks a = None")
    case False
    then show ?thesis
      using Cons.IH [of "AList.update a True marks" "labeled @ [a]" changed w] by fastforce
  next
    case True
    obtain n w1 where g: "getOrCreateNamespace K cl ca a w = (Some n, w1)" "ns_Name n = a"
        "om_Namespace (ns_meta n) = ''''" "find (keyed ns_meta '''' a) (w_namespaces w1) \<noteq> None"
      using get_or_create_ok by blast
    obtain w2 where "r_update (k_namespaces K) (labelAppNamespace (sl_Name s) cl ca n) w1 = (None, w2)"
      using update_namespace_ok [OF g(4), of "labelAppNamespace (sl_Name s) cl ca n"] g(2,3) by auto
    with True g(1) show ?thesis using Cons.IH [of marks "labeled @ [a]" True w2] by fastforce
  qed
qed

lemma update_slice_status_ok:
  assumes "find (keyed sl_meta ControlPlaneNamespace (sl_Name s)) (w_slices w) = Some s0"
    and "\<And>x. sl_meta (change x) = sl_meta x"
  shows "\<exists>w'. updateSliceStatus K change (s, w) = (None, change s0, w')"
proof -
  have n: "sl_Name s0 = sl_Name s" "sl_Namespace s0 = ControlPlaneNamespace"
    using find_Some_iff' [OF assms(1)] by (simp_all add: keyed_def)
  have "list_ex (same_key sl_meta (change s0)) (w_slices (tick w))"
    using assms n by (simp add: same_key_def [abs_def] find_keyed_list_ex)
  from slicer.update_status_found [OF this] show ?thesis
    by (simp add: updateSliceStatus_def DefaultRetry_def slicer.get_found [OF assms(1)]
        eval_nat_numeral)
qed

lemma update_app_namespaces_ok:
  assumes "find (keyed wsc_meta (ProjectNamespace E) name) (h_sliceconfigs w) = Some c"
  shows "\<exists>w'. UpdateAppNamespaces K E name names w = (None, w')"
proof -
  have n: "om_Name (wsc_meta c) = name" "om_Namespace (wsc_meta c) = ProjectNamespace E"
    using find_Some_iff' [OF assms(1)] by (simp_all add: keyed_def)
  have "list_ex (same_key wsc_meta (c\<lparr>OnboardedAppNamespaces := names\<rparr>)) (h_sliceconfigs (tick w))"
    using assms n by (simp add: same_key_def [abs_def] find_keyed_list_ex)
  from wscr.update_status_found [OF this] show ?thesis
    by (simp add: UpdateAppNamespaces_def DefaultRetry_def wscr.get_found [OF assms(1)]
        eval_nat_numeral)
qed

lemma app_namespaces_ok:
  assumes cfg: "sl_Config s = Some c" "sc_NamespaceIsolationProfile c = Some p"
    and wf: "ns_wf w" and ord: "\<And>xs. set (ord xs) = set xs"
    and slice: "find (keyed sl_meta ControlPlaneNamespace (sl_Name s)) (w_slices w) = Some s0"
    and cluster: "find (keyed hc_meta (ProjectNamespace E) (ClusterName E)) (h_clusters w) = Some cl0"
    and wsc: "find (keyed wsc_meta (ProjectNamespace E) (sliceConfigName E s)) (h_sliceconfigs w) = Some sc0"
  shows "\<exists>s' w'. reconcileAppNamespaces K E ord s w = (Ret ((result_none, None, False), s'), w')
      \<and> bound_names (sl_Name s) w' = set (buildAppNamespacesList p)"
proof -
  let ?B = "bound_names (sl_Name s)" and ?cfg = "buildAppNamespacesList p"
  let ?ns = "filter (selects ns_meta no_phase (app_selector (sl_Name s))) (w_namespaces w)"
  let ?m0 = "map (\<lambda>n. (ns_Name n, False)) ?ns"
  let ?cl = "filterLabelsAndAnnotations (om_Labels (hc_meta cl0))"
  let ?ca = "filterLabelsAndAnnotations (om_Annotations (hc_meta cl0))"
  let ?w2 = "tick (tick w)"
  have w2: "same_ns w ?w2" by (simp add: same_ns_def ns_frame_def)
  have wf2: "ns_wf ?w2" using wf same_nsD(3) [OF w2] by simp
  have l: "r_list (k_namespaces K) (app_selector (sl_Name s)) w = (Inr ?ns, tick w)"
    by (rule nspr.list_all_ok)
  have g: "GetClusterNamespaceConfig K E (ClusterName E) (tick w) = (Inr (?cl, ?ca), ?w2)"
    using cluster by (simp add: GetClusterNamespaceConfig_def hclr.get_found)
  obtain labeled ch marks w3 where lab: "createAndLabelAppNamespaces K s ?cl ?ca ?cfg ?m0 [] False ?w2
      = ((Inr (labeled, ch), marks), w3)" and full: "set ?cfg \<subseteq> set labeled"
    using label_loop_ok by blast
  have keys: "fst ` set ?m0 = ?B ?w2"
    using listed_bound(2) [OF l] same_nsD(2) [OF w2] by (simp add: image_image)
  note ll = label_loop [OF lab wf2 eq_refl [OF keys]]
  have wf3: "ns_wf w3" and fr3: "ns_frame ?w2 w3" and B3: "set labeled \<subseteq> ?B w3"
    and mk: "map fst marks = map fst ?m0"
    and marked: "marked marks a \<longleftrightarrow> a \<in> ?B w \<inter> set ?cfg" for a
    using ll keys same_nsD(2) [OF w2] by (auto simp: marked_def dest!: map_of_SomeD)
  have ordm: "set (ord (map fst marks)) = ?B w"
    using ord [of "map fst marks"] mk keys same_nsD(2) [OF w2] by (metis list.set_map)
  obtain ch2 w4 where u: "unbindUnmarked K (sl_Name s) ?cl ?ca marks (ord (map fst marks)) ch w3 = (Inr ch2, w4)"
    using sweep_ok by blast
  note us = unbind_sweep [OF u wf3, of "sl_Name s"]
  have fr: "ns_frame w w4"
    using ns_frame_trans [OF ns_frame_trans [OF same_nsD(1) [OF w2] fr3]] us by blast
  have B4: "set ?cfg \<subseteq> ?B w4" using us B3 full marked ordm by auto
  obtain s' w' where fin: "(if ch2 then case publishAppNamespaces K E labeled s w4 of (r, w) \<Rightarrow> (Ret r, w)
      else (Ret ((result_none, None, False), s), w4)) = (Ret ((result_none, None, False), s'), w')"
    and w': "w_namespaces w' = w_namespaces w4"
  proof (cases ch2)
    case False
    then show ?thesis using that [of s w4] by simp
  next
    case True
    let ?ch = "\<lambda>s. s\<lparr>sl_ApplicationNamespaces := labeled\<rparr>"
    have "find (keyed sl_meta ControlPlaneNamespace (sl_Name s)) (w_slices w4) = Some s0"
      using slice fr by (simp add: ns_frame_def)
    from update_slice_status_ok [OF this, of ?ch] obtain w5
      where w5: "updateSliceStatus K ?ch (s, w4) = (None, ?ch s0, w5)" by auto
    have up: "sl_Name (?ch s0) = sl_Name s" by (rule update_slice_status(1) [OF w5]) simp
    have "\<exists>s1 w0. reads w4 w0 \<and> ?ch s0 = ?ch s1
        \<and> find (keyed sl_meta ControlPlaneNamespace (sl_Name s)) (w_slices w4) = Some s1
        \<and> w5 = w0\<lparr>w_slices := replace_object sl_meta (?ch s0) (w_slices w0)\<rparr>
        \<and> find (keyed sl_meta ControlPlaneNamespace (sl_Name s)) (w_slices w5) = Some (?ch s0)"
      by (rule update_slice_status(3) [OF w5]) simp_all
    then obtain w0 where "reads w4 w0"
      "w5 = w0\<lparr>w_slices := replace_object sl_meta (?ch s0) (w_slices w0)\<rparr>" by blast
    then have "h_sliceconfigs w5 = h_sliceconfigs w4" by (auto simp: reads_def)
    then have "find (keyed wsc_meta (ProjectNamespace E) (sliceConfigName E (?ch s0))) (h_sliceconfigs w5)
        = Some sc0"
      using wsc fr up by (simp add: ns_frame_def sliceConfigName_def)
    from update_app_namespaces_ok [OF this, of labeled] obtain w6
      where w6: "UpdateAppNamespaces K E (sliceConfigName E (?ch s0)) labeled w5 = (None, w6)" by blast
    have pub: "publishAppNamespaces K E labeled s w4 = (((result_none, None, False), ?ch s0), w6)"
      by (simp add: publishAppNamespaces_def w5 w6)
    show ?thesis
      by (rule that [of "?ch s0" w6]) (use True pub publish_outcome(3) [OF pub] in simp_all)
  qed
  have eq: "reconcileAppNamespaces K E ord s w = (Ret ((result_none, None, False), s'), w')"
    using cfg l g lab u fin by (simp add: reconcileAppNamespaces_def)
  have "?B w' = ?B w4" using w' by (simp add: bound_names_def)
  with app_namespaces(1) [OF eq cfg wf ord] B4 have "?B w' = set ?cfg" by auto
  with eq show ?thesis by blast
qed

end

text \<open>
  C19: Without failures a pass binds the slice to exactly the configured namespaces, creating
  those that are missing and unbinding those that are no longer configured, whatever the labels
  were before: the slice, the cluster object and the slice configuration exist, and no call is
  refused.
\<close>

theorem app_namespaces_converge:
  assumes "sl_Config s = Some c" "sc_NamespaceIsolationProfile c = Some p"
    and "ns_wf w" and "\<And>xs. set (ord xs) = set xs"
    and "find (keyed sl_meta ControlPlaneNamespace (sl_Name s)) (w_slices w) = Some s0"
    and "find (keyed hc_meta (ProjectNamespace E) (ClusterName E)) (h_clusters w) = Some cl0"
    and "find (keyed wsc_meta (ProjectNamespace E) (sliceConfigName E s)) (h_sliceconfigs w) = Some sc0"
  shows "\<exists>s' w'. reconcileAppNamespaces (ref_kube no_faults R) E ord s w
        = (Ret ((result_none, None, False), s'), w')
      \<and> bound_names (sl_Name s) w' = set (iso_ApplicationNamespaces p) - {ControlPlaneNamespace}"
proof -
  have "set (buildAppNamespacesList p) = set (iso_ApplicationNamespaces p) - {ControlPlaneNamespace}"
    by (auto simp: buildAppNamespacesList_def)
  with up.app_namespaces_ok [OF assms, of R] show ?thesis by simp
qed

section \<open>An example\<close>

text \<open>
  Slice \<open>red\<close> is configured with the namespaces \<open>apps\<close> and \<open>new\<close>; the cluster has the
  namespaces \<open>apps\<close>, and \<open>old\<close>, which is still bound to the slice.
\<close>

definition ex_isolation :: isolation_profile where
  "ex_isolation =
     \<lparr>IsolationEnabled = True, iso_ApplicationNamespaces = [''apps'', ''kubeslice-system'', ''new''],
      iso_AllowedNamespaces = [''mon'']\<rparr>"

definition ex_slice_config :: slice_config where
  "ex_slice_config =
     \<lparr>sc_SliceID = ''red'', sc_SliceDisplayName = ''red'', sc_SliceSubnet = ''10.1.0.0/16'',
      sc_SliceType = ''Application'',
      sc_QosProfileDetails = \<lparr>qos_QueueType = ''HTB'', qos_BandwidthCeilingKbps = 5120,
         qos_BandwidthGuaranteedKbps = 2560, qos_Priority = 1, qos_DscpClass = ''AF11'',
         qos_TcType = ''BANDWIDTH_CONTROL''\<rparr>,
      sc_SliceIpamType = ''Local'', sc_IpamClusterOctet = 1, sc_ExternalGatewayConfig = None,
      sc_NamespaceIsolationProfile = Some ex_isolation, sc_ClusterSubnetCIDR = ''10.1.1.0/24'',
      sc_SliceGatewayServiceType = ''NodePort'', sc_SliceGatewayProtocol = ''UDP'',
      sc_NetworkMode = ''single-network''\<rparr>"

definition ex_slice :: slice where
  "ex_slice = (new_slice (new_meta ''kubeslice-system'' ''red'' []))\<lparr>sl_Config := Some ex_slice_config\<rparr>"

definition ex_namespace :: "string \<Rightarrow> labels \<Rightarrow> namespace" where
  "ex_namespace n ls = \<lparr>ns_meta = new_meta '''' n ls\<rparr>"

definition ex_slice_world :: world where
  "ex_slice_world = empty_world\<lparr>
     w_slices := [ex_slice],
     w_namespaces := [ex_namespace ''apps'' [], ex_namespace ''old'' [(''kubeslice.io/slice'', ''red'')],
       ex_namespace ''kubeslice-system'' []],
     h_clusters := [(new_hub_cluster (new_meta '''' '''' []))],
     h_sliceconfigs := [new_worker_slice_config (new_meta '''' ''red-'' [])]\<rparr>"

definition ex_app_pass :: "(step_result \<times> slice) go \<times> world" where
  "ex_app_pass = reconcileAppNamespaces ex_kube Map.empty rev ex_slice ex_slice_world"

lemma ex_slice_simps:
  "sl_Config ex_slice = Some ex_slice_config"
  "sc_NamespaceIsolationProfile ex_slice_config = Some ex_isolation"
  "ns_wf ex_slice_world" "sl_Name ex_slice = ''red''"
  by (code_simp+)

lemma ex_app_pass_shape:
  "fst ex_app_pass = Ret ((result_none, None, False),
     ex_slice\<lparr>sl_ApplicationNamespaces := [''apps'', ''new'']\<rparr>)"
  by code_simp

theorem app_namespaces_settled_witness:
  "\<exists>labeled. bound_names ''red'' (snd ex_app_pass) = set labeled
     \<and> set labeled \<subseteq> {''apps'', ''new''}"
proof -
  have "reconcileAppNamespaces ex_kube Map.empty rev ex_slice ex_slice_world
      = (Ret ((result_none, None, False), ex_slice\<lparr>sl_ApplicationNamespaces := [''apps'', ''new'']\<rparr>),
         snd ex_app_pass)"
    using ex_app_pass_shape by (metis ex_app_pass_def prod.collapse)
  from app_namespaces_settled [OF ex_kube_lawful this ex_slice_simps(1-3)] obtain labeled
    where "bound_names (sl_Name ex_slice) (snd ex_app_pass) = set labeled"
      "set labeled \<subseteq> set (iso_ApplicationNamespaces ex_isolation) - {ControlPlaneNamespace}" by auto
  moreover have "set (iso_ApplicationNamespaces ex_isolation) - {ControlPlaneNamespace} = {''apps'', ''new''}"
    by (auto simp: ex_isolation_def ControlPlaneNamespace_def)
  ultimately show ?thesis by (auto simp: ex_slice_simps(4))
qed

theorem app_namespaces_converge_witness:
  "\<exists>s' w'. reconcileAppNamespaces (ref_kube no_faults ex_replies) Map.empty rev ex_slice ex_slice_world
      = (Ret ((result_none, None, False), s'), w') \<and> bound_names ''red'' w' = {''apps'', ''new''}"
proof -
  have "set (iso_ApplicationNamespaces ex_isolation) - {ControlPlaneNamespace} = {''apps'', ''new''}"
    by (auto simp: ex_isolation_def ControlPlaneNamespace_def)
  moreover have "find (keyed sl_meta ControlPlaneNamespace (sl_Name ex_slice)) (w_slices ex_slice_world) = Some ex_slice"
    "find (keyed hc_meta (ProjectNamespace Map.empty) (ClusterName Map.empty)) (h_clusters ex_slice_world)
       = Some (new_hub_cluster (new_meta '''' '''' []))"
    "find (keyed wsc_meta (ProjectNamespace Map.empty) (sliceConfigName Map.empty ex_slice)) (h_sliceconfigs ex_slice_world)
       = Some (new_worker_slice_config (new_meta '''' ''red-'' []))"
    by (code_simp+)
  from app_namespaces_converge [OF ex_slice_simps(1-3) set_rev this, of ex_replies]
  show ?thesis unfolding calculation ex_slice_simps(4) .
qed

theorem annotation_round_trip_witness:
  "slicesOf (unbound ''red'' (annotated ''red'' (ex_namespace ''mon'' []))) = []"
  using annotation_round_trip [of "''red''" "ex_namespace ''mon'' []"]
  by (simp add: no_comma_def slicesOf_def ex_namespace_def)

definition ex_netpol_pass :: "(go_error option \<times> slice) go \<times> world" where
  "ex_netpol_pass = reconcileSliceNetworkPolicy ex_kube ex_slice ex_slice_world"

lemma ex_netpol_pass_shape:
  "fst ex_netpol_pass = Ret (None, ex_slice\<lparr>sl_NetworkPoliciesInstalled := True\<rparr>)"
  "IsolationEnabled ex_isolation"
  "w_namespaces (snd ex_netpol_pass) = w_namespaces ex_slice_world"
  by (code_simp+)

lemma ex_kube_lists: "fst (r_list (k_namespaces ex_kube) lo v) \<noteq> Inl NotFound"
  by (simp add: ex_kube_def ref_kube_def ref_ops_def no_faults_def)

theorem isolation_enforced_witness:
  "\<exists>pol. policy_at (snd ex_netpol_pass) ''red'' ''old'' = Some pol
     \<and> admits (np_Ingress pol) (ex_namespace ''mon'' [(''kubeslice.io/namespace'', ''mon'')])
     \<and> \<not> admits (np_Ingress pol) (ex_namespace ''x'' [])"
proof -
  let ?a = "ex_namespace ''old'' [(''kubeslice.io/slice'', ''red'')]"
  have eq: "reconcileSliceNetworkPolicy ex_kube ex_slice ex_slice_world
      = (Ret (None, ex_slice\<lparr>sl_NetworkPoliciesInstalled := True\<rparr>), snd ex_netpol_pass)"
    using ex_netpol_pass_shape(1) by (metis ex_netpol_pass_def prod.collapse)
  have a: "?a \<in> set (w_namespaces (snd ex_netpol_pass))" "bound_to (sl_Name ex_slice) ?a"
    by (simp_all add: ex_netpol_pass_shape ex_slice_world_def bound_to_def ex_namespace_def
        label_key_defs ex_slice_simps)
  from isolation_enforced [OF ex_kube_lawful eq ex_slice_simps(1,2) ex_netpol_pass_shape(2)
      ex_kube_lists a]
  show ?thesis
    by (auto simp: ex_slice_simps ex_namespace_def bound_to_def label_key_defs slice_key_defs
        ex_isolation_def allowedNamespacesByDefault_def)
qed

end
