(* ===== verification/SliceRouter.thy ===== *)
theory SliceRouter
  imports SliceNamespaces GatewayTraffic
begin

text \<open>
  The network components of a slice: the slice router (\<open>controllers/slice/slicerouter.go\<close>), the
  gateway edge (\<open>controllers/slice/slice_gw_edge.go\<close>, with \<open>GetSliceGwServices\<close> of
  \<open>controllers/controller.go\<close> and the cluster information of \<open>pkg/cluster/cluster.go\<close>) and the
  messages to the NetOp pods (\<open>controllers/slice/net_op.go\<close>, \<open>pkg/netop/netop.go\<close>).
  A pointer to a boolean that is nil is False, an affinity that is nil is empty.
\<close>

section \<open>Owner references\<close>

text \<open>\<open>ctrl.SetControllerReference\<close> where its error is ignored.\<close>

definition setOwner :: "kube \<Rightarrow> object_meta \<Rightarrow> object_meta \<Rightarrow> object_meta" where
  "setOwner K owner m =
     (case k_setControllerReference K owner m of
        None \<Rightarrow> m\<lparr>om_Owner := Some (om_Name owner)\<rparr>
      | Some e \<Rightarrow> m)"

section \<open>The slice router\<close>

definition sliceRouterDeploymentNamePrefix :: string where
  "sliceRouterDeploymentNamePrefix = ''vl3-slice-router-''"

definition labelsForSliceRouterDeployment :: "string \<Rightarrow> labels" where
  "labelsForSliceRouterDeployment n =
     [(''networkservicemesh.io/app'', ''vl3-nse-'' @ n),
      (''networkservicemesh.io/impl'', ''vl3-service-'' @ n),
      (''spiffe.io/spiffe-id'', ''true''),
      (PodInjectLabelKey, ''router''),
      (ApplicationNamespaceSelectorLabelKey, n)]"

definition getSliceRouterSidecarImageAndPullPolicy :: "environ \<Rightarrow> string \<times> string" where
  "getSliceRouterSidecarImageAndPullPolicy E =
     (getenv E ''AVESHA_VL3_SIDECAR_IMAGE'',
      or_default (getenv E ''AVESHA_VL3_SIDECAR_IMAGE_PULLPOLICY'') ''Always'')"

definition getNsmDataplaneMode :: "kube \<Rightarrow> slice \<Rightarrow> world \<Rightarrow> (go_error + string) \<times> world" where
  "getNsmDataplaneMode K s w =
     (case r_list (k_pods K) (in_namespace (sl_Namespace s) [(''app'', ''nsm-vpp-plane'')]) w of
        (Inl e, w) \<Rightarrow> (Inl e, w)
      | (Inr pods, w) \<Rightarrow> (Inr (if length pods > 0 then ''vpp'' else ''kernel''), w))"

definition router_env :: "slice \<Rightarrow> env_var list" where
  "router_env s =
     [env_entry ''SPIFFE_ENDPOINT_SOCKET'' ''unix:///run/spire/sockets/agent.sock'',
      env_entry ''NSM_CONNECT_TO'' ''unix:///var/lib/networkservicemesh/nsm.io.sock'',
      env_entry ''NSM_SERVICE_NAMES'' (''vl3-service-'' @ sl_Name s),
      env_entry ''NSM_LABELS'' (''app:vl3-nse-'' @ sl_Name s),
      env_entry ''NSM_NAME'' (''vl3-nse-'' @ sl_Name s)]"

text \<open>\<open>CHR 0x22\<close> is the quotation mark of the JSON text.\<close>

definition router_dns_config :: "slice \<Rightarrow> string" where
  "router_dns_config s =
     (let q = [CHR 0x22]
      in ''[{'' @ q @ ''dns_server_ips'' @ q @ '': ['' @ q @ sl_DNSIP s @ q @ ''], ''
         @ q @ ''search_domains'' @ q @ '': ['' @ q @ ''slice.local'' @ q @ '']}]'')"

definition getContainerSpecForSliceRouter :: "environ \<Rightarrow> slice \<Rightarrow> slice_config \<Rightarrow> string
    \<Rightarrow> container" where
  "getContainerSpecForSliceRouter E s c dataplane =
     empty_container\<lparr>
       c_Image := getenv E ''AVESHA_VL3_ROUTER_IMAGE'',
       c_Name := ''vl3-nse'',
       c_ImagePullPolicy := or_default (getenv E ''AVESHA_VL3_ROUTER_PULLPOLICY'') ''Always'',
       c_Env := router_env s
         @ (if dataplane = ''kernel''
            then [env_entry ''NSM_VL3_PREFIX'' (sc_ClusterSubnetCIDR c),
                  env_entry ''NSM_DNS_CONFIGS'' (router_dns_config s)] else [])
         @ (if dataplane = ''vpp''
            then [env_entry ''NSE_IPAM_UNIQUE_OCTET'' (sc_ClusterSubnetCIDR c)] else []),
       c_SecurityContext := Some \<lparr>Privileged = True, AllowPrivilegeEscalation = False,
         AddCapabilities = []\<rparr>,
       c_VolumeMounts :=
         (if dataplane = ''kernel''
          then [mount ''spire-agent-socket'' ''/run/spire/sockets'',
                mount ''nsm-socket'' ''/var/lib/networkservicemesh''] else [])
         @ (if dataplane = ''vpp''
            then [(mount ''universal-cnf-config-volume'' ''/etc/universal-cnf/config.yaml'')
                    \<lparr>SubPath := ''config.yaml''\<rparr>] else [])\<rparr>"

definition getContainerSpecForSliceRouterSidecar :: "environ \<Rightarrow> string \<Rightarrow> container" where
  "getContainerSpecForSliceRouterSidecar E dataplane =
     (let (image, pullPolicy) = getSliceRouterSidecarImageAndPullPolicy E
      in empty_container\<lparr>
           c_Name := ''kubeslice-vl3-sidecar'',
           c_Image := image,
           c_ImagePullPolicy := pullPolicy,
           c_Env := [env_entry ''DATAPLANE'' dataplane, env_entry ''POD_TYPE'' ''SLICEROUTER_POD''],
           c_SecurityContext := Some privileged_net_admin,
           c_VolumeMounts := [mount ''shared-volume'' ''/config'']\<rparr>)"

definition getVolumeSpecForSliceRouter :: "slice \<Rightarrow> string \<Rightarrow> volume list" where
  "getVolumeSpecForSliceRouter s dataplane =
     [\<lparr>v_Name = ''shared-volume'', v_Source = EmptyDir\<rparr>,
      \<lparr>v_Name = ''spire-agent-socket'', v_Source = HostPath ''/run/spire/sockets'' ''Directory''\<rparr>,
      \<lparr>v_Name = ''nsm-socket'',
       v_Source = HostPath ''/var/lib/networkservicemesh'' ''DirectoryOrCreate''\<rparr>]
     @ (if dataplane = ''vpp''
        then [\<lparr>v_Name = ''universal-cnf-config-volume'',
               v_Source = ConfigMapVolume (''ucnf-vl3-service-'' @ sl_Name s)\<rparr>] else [])"

definition no_anti_affinity :: pod_anti_affinity where
  "no_anti_affinity = \<lparr>paa_Weight = 0, paa_TopologyKey = '''', paa_Expressions = []\<rparr>"

definition deploymentForSliceRouter :: "kube \<Rightarrow> environ \<Rightarrow> slice \<Rightarrow> slice_config \<Rightarrow> string
    \<Rightarrow> deployment" where
  "deploymentForSliceRouter K E s c dataplane =
     (let ls = labelsForSliceRouterDeployment (sl_Name s)
      in \<lparr>d_meta = setOwner K (sl_meta s)
            (new_meta (sl_Namespace s) (sliceRouterDeploymentNamePrefix @ sl_Name s) []),
          d_Replicas = 1,
          d_Selector = ls,
          d_TemplateLabels = ls,
          d_TemplateAnnotations = [],
          d_PodSpec =
            \<lparr>ps_ServiceAccountName = ''slice-router'',
             ps_NodeAffinity = gateway_node_affinity,
             ps_PodAntiAffinity = no_anti_affinity,
             ps_Containers =
               [getContainerSpecForSliceRouter E s c dataplane,
                getContainerSpecForSliceRouterSidecar E dataplane],
             ps_Volumes = getVolumeSpecForSliceRouter s dataplane,
             ps_Tolerations = gateway_tolerations,
             ps_ImagePullSecrets = imagePullSecrets E\<rparr>\<rparr>)"

definition deploySliceRouter :: "kube \<Rightarrow> environ \<Rightarrow> slice \<Rightarrow> slice_config \<Rightarrow> world
    \<Rightarrow> go_error option \<times> world" where
  "deploySliceRouter K E s c w =
     (case getNsmDataplaneMode K s w of
        (Inl e, w) \<Rightarrow> (Some e, w)
      | (Inr dataplane, w) \<Rightarrow>
          (if dataplane \<noteq> ''kernel'' \<and> dataplane \<noteq> ''vpp''
           then (Some (Failure (''invalid dataplane: '' @ dataplane)), w)
           else r_create (k_deployments K) (deploymentForSliceRouter K E s c dataplane) w))"

definition serviceForSliceRouter :: "slice \<Rightarrow> service" where
  "serviceForSliceRouter s =
     \<lparr>s_meta = new_meta ControlPlaneNamespace (sliceRouterDeploymentNamePrefix @ sl_Name s) [],
      s_Type = '''', s_Selector = labelsForSliceRouterDeployment (sl_Name s), s_ClusterIP = '''',
      s_Ports = [\<lparr>sp_Name = ''grpc'', sp_Port = 5000, sp_Protocol = '''', sp_TargetPort = 0,
        sp_NodePort = 0\<rparr>],
      s_Ingress = []\<rparr>"

definition deploySliceRouterSvc :: "kube \<Rightarrow> slice \<Rightarrow> world \<Rightarrow> go_error option \<times> world" where
  "deploySliceRouterSvc K s w =
     (let svc = serviceForSliceRouter s
      in case k_setControllerReference K (sl_meta s) (s_meta svc) of
           Some e \<Rightarrow> (Some e, w)
         | None \<Rightarrow>
             r_create (k_services K)
               (svc\<lparr>s_meta := (s_meta svc)\<lparr>om_Owner := Some (sl_Name s)\<rparr>\<rparr>) w)"

definition sliceConfigDefined :: "slice \<Rightarrow> bool" where
  "sliceConfigDefined s \<longleftrightarrow>
     (case sl_Config s of None \<Rightarrow> False
      | Some c \<Rightarrow> sc_SliceSubnet c \<noteq> '''' \<and> sc_ClusterSubnetCIDR c \<noteq> '''')"

definition newDeploymentSliceRouter :: "kube \<Rightarrow> environ \<Rightarrow> slice \<Rightarrow> slice_config \<Rightarrow> world
    \<Rightarrow> step_result \<times> world" where
  "newDeploymentSliceRouter K E s c w =
     (case deploySliceRouter K E s c w of
        (Some e, w) \<Rightarrow> ((result_none, Some e, True), w)
      | (None, w) \<Rightarrow> ((result_after 10, None, True), w))"

definition newServiceSliceRouter :: "kube \<Rightarrow> slice \<Rightarrow> world \<Rightarrow> step_result \<times> world" where
  "newServiceSliceRouter K s w =
     (case deploySliceRouterSvc K s w of
        (Some e, w) \<Rightarrow> ((result_none, Some e, True), w)
      | (None, w) \<Rightarrow> ((result_after 10, None, True), w))"

definition ReconcileSliceRouter :: "kube \<Rightarrow> environ \<Rightarrow> slice \<Rightarrow> world \<Rightarrow> step_result \<times> world" where
  "ReconcileSliceRouter K E s w =
     (let routerName = sliceRouterDeploymentNamePrefix @ sl_Name s
      in case r_get (k_deployments K) (sl_Namespace s) routerName w of
        (Inl NotFound, w) \<Rightarrow>
          (case sl_Config s of
             None \<Rightarrow> ((result_after 10, None, True), w)
           | Some c \<Rightarrow>
               (if \<not> sliceConfigDefined s then ((result_after 10, None, True), w)
                else newDeploymentSliceRouter K E s c w))
      | (Inl e, w) \<Rightarrow> ((result_none, Some e, True), w)
      | (Inr d, w) \<Rightarrow>
          (case r_get (k_services K) ControlPlaneNamespace routerName w of
             (Inl NotFound, w) \<Rightarrow>
               (if sl_Config s = None then ((result_after 10, None, True), w)
                else newServiceSliceRouter K s w)
           | (Inl e, w) \<Rightarrow> ((result_none, Some e, True), w)
           | (Inr svc, w) \<Rightarrow> ((result_none, None, False), w)))"

definition cleanupVl3NSE :: "kube \<Rightarrow> string \<Rightarrow> world \<Rightarrow> go_error option \<times> world" where
  "cleanupVl3NSE K sliceName w =
     (let n = ''vl3-service-'' @ sliceName
      in case r_get (k_networkservices K) ControlPlaneNamespace n w of
           (Inl NotFound, w) \<Rightarrow> (None, w)
         | (Inl e, w) \<Rightarrow> (Some e, w)
         | (Inr v, w) \<Rightarrow> r_delete (k_networkservices K) ControlPlaneNamespace n w)"

section \<open>The gateway edge\<close>

definition SliceGatewayEdgeTypeLabelKey :: string where
  "SliceGatewayEdgeTypeLabelKey = ''kubeslice.io/slice-gw-edge-type''"

definition GetSliceGwServices :: "kube \<Rightarrow> string \<Rightarrow> world \<Rightarrow> (go_error + service list) \<times> world" where
  "GetSliceGwServices K sliceName w =
     r_list (k_services K)
       (in_namespace ControlPlaneNamespace [(ApplicationNamespaceSelectorLabelKey, sliceName)]) w"

definition labelsForSliceGatewayEdgeDeployment :: "string \<Rightarrow> labels" where
  "labelsForSliceGatewayEdgeDeployment sliceName =
     [(SliceGatewaySelectorLabelKey, sliceName), (''kubeslice.io/app'', ''slice-gw-edge'')]"

definition labelsForSliceGatewayEdgeSvc :: "string \<Rightarrow> labels" where
  "labelsForSliceGatewayEdgeSvc sliceName =
     [(SliceGatewaySelectorLabelKey, sliceName), (SliceGatewayEdgeTypeLabelKey, ''LoadBalancer'')]"

definition getSliceGatewayEdgeServices :: "kube \<Rightarrow> slice \<Rightarrow> world
    \<Rightarrow> (go_error + service list) \<times> world" where
  "getSliceGatewayEdgeServices K s w =
     r_list (k_services K)
       (in_namespace ControlPlaneNamespace (labelsForSliceGatewayEdgeSvc (sl_Name s))) w"

definition getSliceGatewayEdgeDeployments :: "kube \<Rightarrow> slice \<Rightarrow> world
    \<Rightarrow> (go_error + deployment list) \<times> world" where
  "getSliceGatewayEdgeDeployments K s w =
     r_list (k_deployments K)
       (in_namespace ControlPlaneNamespace (labelsForSliceGatewayEdgeDeployment (sl_Name s))) w"

text \<open>
  The port map names the gateway services and their node ports; \<open>ord\<close> is the order of an
  iteration over it.
\<close>

definition getPortListForEdgeSvc :: "(string list \<Rightarrow> string list) \<Rightarrow> slice_config
    \<Rightarrow> (string \<times> int) list \<Rightarrow> service_port list" where
  "getPortListForEdgeSvc ord c portmap =
     (let proto = (if sc_SliceGatewayProtocol c = ''TCP'' then ''TCP'' else ''UDP'')
      in map (\<lambda>n. \<lparr>sp_Name = n, sp_Port = (case map_of portmap n of None \<Rightarrow> 0 | Some p \<Rightarrow> p),
                   sp_Protocol = proto, sp_TargetPort = 0, sp_NodePort = 0\<rparr>)
           (ord (map fst portmap)))"

definition serviceForSliceGatewayEdge :: "(string list \<Rightarrow> string list) \<Rightarrow> slice_config \<Rightarrow> string
    \<Rightarrow> string \<Rightarrow> (string \<times> int) list \<Rightarrow> service" where
  "serviceForSliceGatewayEdge ord c sliceName svcName portmap =
     \<lparr>s_meta = new_meta ControlPlaneNamespace svcName (labelsForSliceGatewayEdgeSvc sliceName),
      s_Type = ''LoadBalancer'', s_Selector = labelsForSliceGatewayEdgeDeployment sliceName,
      s_ClusterIP = '''', s_Ports = getPortListForEdgeSvc ord c portmap, s_Ingress = []\<rparr>"

record geo_location =
  CloudProvider :: string
  CloudRegion :: string

record cluster_info =
  ci_Name :: string
  ci_GeoLocation :: geo_location

definition getClusterLocation :: "kube \<Rightarrow> world \<Rightarrow> (go_error + geo_location) \<times> world" where
  "getClusterLocation K w =
     (case r_list (k_nodes K) (all_namespaces []) w of
        (Inl e, w) \<Rightarrow> (Inl (Failure ''can't fetch node list''), w)
      | (Inr nodes, w) \<Rightarrow>
          (case nodes of
             [] \<Rightarrow> (Inl (Failure ''can't fetch node list , length of node items is zero''), w)
           | n # _ \<Rightarrow>
               (let region = label_or_empty (om_Labels (n_meta n)) ''topology.kubernetes.io/region'';
                    provider = (if n_ProviderID n \<noteq> '''' then hd (split_on CHR '':'' (n_ProviderID n))
                                else '''');
                    provider = (if provider = ''gce'' then ''gcp'' else provider)
                in (Inr \<lparr>CloudProvider = provider, CloudRegion = region\<rparr>, w))))"

definition GetClusterInfo :: "kube \<Rightarrow> string \<Rightarrow> world \<Rightarrow> (go_error + cluster_info) \<times> world" where
  "GetClusterInfo K name w =
     (case getClusterLocation K w of
        (Inl e, w) \<Rightarrow> (Inl e, w)
      | (Inr location, w) \<Rightarrow> (Inr \<lparr>ci_Name = name, ci_GeoLocation = location\<rparr>, w))"

definition getClusterProviderID :: "kube \<Rightarrow> world \<Rightarrow> (go_error + string) \<times> world" where
  "getClusterProviderID K w =
     (case GetClusterInfo K ''local-cluster'' w of
        (Inl e, w) \<Rightarrow> (Inl e, w)
      | (Inr info, w) \<Rightarrow> (Inr (CloudProvider (ci_GeoLocation info)), w))"

definition eks_annotations :: labels where
  "eks_annotations =
     [(''service.beta.kubernetes.io/aws-load-balancer-type'', ''external''),
      (''service.beta.kubernetes.io/aws-load-balancer-nlb-target-type'', ''ip''),
      (''service.beta.kubernetes.io/aws-load-balancer-scheme'', ''internet-facing'')]"

definition createSliceGatewayEdgeService :: "kube \<Rightarrow> (string list \<Rightarrow> string list) \<Rightarrow> slice
    \<Rightarrow> slice_config \<Rightarrow> (string \<times> int) list \<Rightarrow> world \<Rightarrow> go_error option \<times> world" where
  "createSliceGatewayEdgeService K ord s c portmap w =
     (let svc = serviceForSliceGatewayEdge ord c (sl_Name s) (''svc-'' @ sl_Name s @ ''-gw-edge'') portmap
      in case getClusterProviderID K w of
           (provider, w) \<Rightarrow>
             (let m = (if provider = Inr ''aws'' \<and> sc_SliceGatewayProtocol c = ''UDP''
                       then (s_meta svc)\<lparr>om_Annotations := eks_annotations\<rparr> else s_meta svc)
              in r_create (k_services K) (svc\<lparr>s_meta := setOwner K (sl_meta s) m\<rparr>) w))"

definition allPortsAccountedInEdgeSvc :: "service \<Rightarrow> (string \<times> int) list \<Rightarrow> bool" where
  "allPortsAccountedInEdgeSvc gwEdgeSvc portmap =
     (let svcPortMap = foldl (\<lambda>m p. AList.update (sp_Name p) (sp_Port p) m) [] (s_Ports gwEdgeSvc)
      in if length svcPortMap \<noteq> length portmap then False
         else list_all (\<lambda>(n, port). map_of svcPortMap n = Some port) portmap)"

text \<open>The code indexes \<open>Spec.Ports[0]\<close>: a service without ports is a panic.\<close>

fun gwPortmap :: "service list \<Rightarrow> (string \<times> int) list \<Rightarrow> (string \<times> int) list go" where
  "gwPortmap [] m = Ret m"
| "gwPortmap (svc # svcs) m =
     (case s_Ports svc of
        [] \<Rightarrow> Panic
      | p # _ \<Rightarrow> gwPortmap svcs (AList.update (s_Name svc) (sp_NodePort p) m))"

definition createEdgeServiceStep :: "kube \<Rightarrow> (string list \<Rightarrow> string list) \<Rightarrow> slice \<Rightarrow> slice_config
    \<Rightarrow> (string \<times> int) list \<Rightarrow> world \<Rightarrow> step_result go \<times> world" where
  "createEdgeServiceStep K ord s c portmap w =
     (case createSliceGatewayEdgeService K ord s c portmap w of
        (Some e, w) \<Rightarrow> (Ret (result_none, Some e, True), w)
      | (None, w) \<Rightarrow> (Ret (result_requeue, None, True), w))"

definition reconcileSliceGatewayEdgeService :: "kube \<Rightarrow> (string list \<Rightarrow> string list) \<Rightarrow> slice
    \<Rightarrow> slice_config \<Rightarrow> world \<Rightarrow> step_result go \<times> world" where
  "reconcileSliceGatewayEdgeService K ord s c w =
     (case GetSliceGwServices K (sl_Name s) w of
        (Inl e, w) \<Rightarrow> (Ret (result_none, Some e, True), w)
      | (Inr svcs, w) \<Rightarrow>
     (if length svcs = 0 then (Ret (result_none, None, False), w)
      else
     (case gwPortmap svcs [] of
        Panic \<Rightarrow> (Panic, w)
      | Ret portmap \<Rightarrow>
     (case getSliceGatewayEdgeServices K s w of
        (Inl NotFound, w) \<Rightarrow> createEdgeServiceStep K ord s c portmap w
      | (Inl e, w) \<Rightarrow> (Ret (result_none, Some e, True), w)
      | (Inr [], w) \<Rightarrow> createEdgeServiceStep K ord s c portmap w
      | (Inr (edge # _), w) \<Rightarrow>
          (if \<not> allPortsAccountedInEdgeSvc edge portmap
           then (case r_update (k_services K)
                    (edge\<lparr>s_Ports := getPortListForEdgeSvc ord c portmap\<rparr>) w of
                   (Some e, w) \<Rightarrow> (Ret (result_none, Some e, True), w)
                 | (None, w) \<Rightarrow> (Ret (result_none, None, False), w))
           else (Ret (result_none, None, False), w))))))"

definition deploymentForSliceGatewayEdge :: "environ \<Rightarrow> string \<Rightarrow> string \<Rightarrow> deployment" where
  "deploymentForSliceGatewayEdge E sliceName depName =
     (let ls = labelsForSliceGatewayEdgeDeployment sliceName
      in \<lparr>d_meta = new_meta ControlPlaneNamespace depName ls,
          d_Replicas = 1,
          d_Selector = ls,
          d_TemplateLabels = ls,
          d_TemplateAnnotations = [],
          d_PodSpec =
            \<lparr>ps_ServiceAccountName = ''kubeslice-gateway-edge'',
             ps_NodeAffinity = [],
             ps_PodAntiAffinity = no_anti_affinity,
             ps_Containers =
               [empty_container\<lparr>
                  c_Name := ''kubeslice-gateway-edge'',
                  c_Image := or_default (getenv E ''AVESHA_SLICE_GW_EDGE_IMAGE'')
                    ''aveshatest/kubeslice-gateway-edge:1.0.0'',
                  c_ImagePullPolicy := ''Always'',
                  c_Env := [env_entry ''SLICE_NAME'' sliceName,
                            env_entry ''POD_TYPE'' ''GATEWAY_EDGE_POD''],
                  c_SecurityContext := Some \<lparr>Privileged = True, AllowPrivilegeEscalation = False,
                    AddCapabilities = [''NET_ADMIN'']\<rparr>,
                  c_Limits := sidecar_limits,
                  c_Requests := sidecar_requests\<rparr>],
             ps_Volumes = [],
             ps_Tolerations = gateway_tolerations,
             ps_ImagePullSecrets = imagePullSecrets E\<rparr>\<rparr>)"

definition createSliceGatewayEdgeDeployment :: "kube \<Rightarrow> environ \<Rightarrow> slice \<Rightarrow> world
    \<Rightarrow> go_error option \<times> world" where
  "createSliceGatewayEdgeDeployment K E s w =
     (let d = deploymentForSliceGatewayEdge E (sl_Name s) (sl_Name s @ ''-gw-edge'')
      in r_create (k_deployments K) (d\<lparr>d_meta := setOwner K (sl_meta s) (d_meta d)\<rparr>) w)"

definition getSliceGatewayEdgePods :: "kube \<Rightarrow> string \<Rightarrow> world \<Rightarrow> (go_error + pod list) \<times> world" where
  "getSliceGatewayEdgePods K sliceName w =
     (case r_list (k_pods K)
         (in_namespace ControlPlaneNamespace (labelsForSliceGatewayEdgeDeployment sliceName)) w of
        (Inl e, w) \<Rightarrow> (Inl e, w)
      | (Inr pods, w) \<Rightarrow>
          (Inr (filter (\<lambda>p. p_Phase p = ''Running'' \<and> om_DeletionTimestamp (p_meta p) = None) pods), w))"

text \<open>The services that have the label of a slice gateway, as the edge is told about them.\<close>

fun edgeServiceList :: "service list \<Rightarrow> gw_svc_info list go" where
  "edgeServiceList [] = Ret []"
| "edgeServiceList (svc # svcs) =
     (if map_of (om_Labels (s_meta svc)) ''kubeslice.io/slicegw'' = None then edgeServiceList svcs
      else
        (case s_Ports svc of
           [] \<Rightarrow> Panic
         | p # _ \<Rightarrow>
             (case edgeServiceList svcs of
                Panic \<Rightarrow> Panic
              | Ret infos \<Rightarrow>
                  Ret (\<lparr>GwSvcName = s_Name svc, GwSvcClusterIP = s_ClusterIP svc,
                        GwSvcNodePort = word_of_int (sp_NodePort p),
                        GwSvcTargetPort = word_of_int (sp_TargetPort p),
                        GwSvcProtocol = to_lower (sp_Protocol p)\<rparr> # infos))))"

fun sendToEdgePods :: "kube \<Rightarrow> string \<Rightarrow> gw_svc_info list \<Rightarrow> pod list \<Rightarrow> world
    \<Rightarrow> go_error option \<times> world" where
  "sendToEdgePods K sliceName infos [] w = (None, w)"
| "sendToEdgePods K sliceName infos (p # ps) w =
     (case send_message K (EdgeServiceMap (sidecarAddress (p_PodIP p)) sliceName infos) w of
        (Some e, w) \<Rightarrow> (Some e, w)
      | (None, w) \<Rightarrow> sendToEdgePods K sliceName infos ps w)"

definition syncSliceGwServiceMap :: "kube \<Rightarrow> slice \<Rightarrow> world \<Rightarrow> go_error option go \<times> world" where
  "syncSliceGwServiceMap K s w =
     (case getSliceGatewayEdgePods K (sl_Name s) w of
        (Inl e, w) \<Rightarrow> (Ret (Some e), w)
      | (Inr pods, w) \<Rightarrow>
          (if length pods = 0 then (Ret None, w)
           else
             (case GetSliceGwServices K (sl_Name s) w of
                (Inl e, w) \<Rightarrow> (Ret (Some e), w)
              | (Inr svcs, w) \<Rightarrow>
                  (case edgeServiceList svcs of
                     Panic \<Rightarrow> (Panic, w)
                   | Ret infos \<Rightarrow>
                       (case sendToEdgePods K (sl_Name s) infos pods w of
                          (err, w) \<Rightarrow> (Ret err, w))))))"

definition createEdgeDeploymentStep :: "kube \<Rightarrow> environ \<Rightarrow> slice \<Rightarrow> world \<Rightarrow> step_result \<times> world" where
  "createEdgeDeploymentStep K E s w =
     (case createSliceGatewayEdgeDeployment K E s w of
        (Some e, w) \<Rightarrow> ((result_none, Some e, True), w)
      | (None, w) \<Rightarrow> ((result_requeue, None, True), w))"

definition reconcileSliceGatewayEdgeDeployment :: "kube \<Rightarrow> environ \<Rightarrow> slice \<Rightarrow> world
    \<Rightarrow> step_result \<times> world" where
  "reconcileSliceGatewayEdgeDeployment K E s w =
     (case getSliceGatewayEdgeDeployments K s w of
        (Inl NotFound, w) \<Rightarrow> createEdgeDeploymentStep K E s w
      | (Inl e, w) \<Rightarrow> ((result_none, Some e, True), w)
      | (Inr ds, w) \<Rightarrow>
          (if length ds = 0 then createEdgeDeploymentStep K E s w
           else ((result_none, None, False), w)))"

definition ReconcileSliceGwEdge :: "kube \<Rightarrow> environ \<Rightarrow> (string list \<Rightarrow> string list) \<Rightarrow> slice
    \<Rightarrow> world \<Rightarrow> step_result go \<times> world" where
  "ReconcileSliceGwEdge K E ord s w =
     (case sl_Config s of
        None \<Rightarrow> (Panic, w)
      | Some c \<Rightarrow>
     (if sc_SliceGatewayServiceType c \<noteq> ''LoadBalancer'' \<and> getenv E ''ENABLE_GW_LB_EDGE'' = ''''
      then (Ret (result_none, None, False), w)
      else
     (case reconcileSliceGatewayEdgeDeployment K E s w of
        ((res, Some e, requeue), w) \<Rightarrow> (Ret (result_none, Some e, True), w)
      | ((res, None, True), w) \<Rightarrow> (Ret (res, None, True), w)
      | ((res, None, False), w) \<Rightarrow>
     (case syncSliceGwServiceMap K s w of
        (Panic, w) \<Rightarrow> (Panic, w)
      | (Ret (Some e), w) \<Rightarrow> (Ret (result_none, Some e, True), w)
      | (Ret None, w) \<Rightarrow> reconcileSliceGatewayEdgeService K ord s c w))))"

section \<open>The NetOp pods\<close>

text \<open>\<open>uint32\<close> of an \<open>int\<close> is \<open>word_of_int\<close>.\<close>

definition sliceQosProfile :: "slice \<Rightarrow> slice_config \<Rightarrow> slice_qos" where
  "sliceQosProfile s c =
     \<lparr>sq_SliceName = sl_Name s, sq_SliceId = sl_Name s, sq_QosProfileName = sl_Name s,
      BwCeiling = word_of_int (qos_BandwidthCeilingKbps (sc_QosProfileDetails c)),
      BwGuaranteed = word_of_int (qos_BandwidthGuaranteedKbps (sc_QosProfileDetails c)),
      sq_Priority = word_of_int (qos_Priority (sc_QosProfileDetails c)),
      sq_DscpClass = qos_DscpClass (sc_QosProfileDetails c)\<rparr>"

definition GetNetOpPods :: "kube \<Rightarrow> string \<Rightarrow> world \<Rightarrow> (go_error + netop_pod list) \<times> world" where
  "GetNetOpPods K ns w =
     (case r_list (k_pods K) (in_namespace ns [(''app'', ''app_net_op'')]) w of
        (Inl e, w) \<Rightarrow> (Inl e, w)
      | (Inr pods, w) \<Rightarrow>
          (Inr (map (\<lambda>p. \<lparr>no_PodIP = p_PodIP p, no_PodName = p_Name p, no_Node = p_NodeName p\<rparr>) pods), w))"

definition getSliceNetOpPods :: "kube \<Rightarrow> string \<Rightarrow> world \<Rightarrow> go_error option \<times> world" where
  "getSliceNetOpPods K ns w =
     (case GetNetOpPods K ns w of
        (Inl e, w) \<Rightarrow> (Some e, w)
      | (Inr pods, w) \<Rightarrow> (None, w\<lparr>o_SliceNetOpPods := pods\<rparr>))"

fun sendQosToNetOps :: "kube \<Rightarrow> slice_qos \<Rightarrow> netop_pod list \<Rightarrow> world \<Rightarrow> go_error option \<times> world" where
  "sendQosToNetOps K q [] w = (None, w)"
| "sendQosToNetOps K q (n # ns) w =
     (case send_message K (SliceQosProfile (sidecarAddress (no_PodIP n)) q) w of
        (Some e, w) \<Rightarrow> (Some e, w)
      | (None, w) \<Rightarrow> sendQosToNetOps K q ns w)"

text \<open>The configuration of the slice is read when a message is made.\<close>

definition SyncSliceQosProfileWithNetOp :: "kube \<Rightarrow> slice \<Rightarrow> world \<Rightarrow> go_error option go \<times> world" where
  "SyncSliceQosProfileWithNetOp K s w =
     (case getSliceNetOpPods K (sl_Namespace s) w of
        (Some e, w) \<Rightarrow> (Ret (Some e), w)
      | (None, w) \<Rightarrow>
          (case sl_Config s of
             None \<Rightarrow> (if o_SliceNetOpPods w = [] then (Ret None, w) else (Panic, w))
           | Some c \<Rightarrow>
               (case sendQosToNetOps K (sliceQosProfile s c) (o_SliceNetOpPods w) w of
                  (err, w) \<Rightarrow> (Ret err, w))))"

fun sendDeletionToNetOps :: "kube \<Rightarrow> string \<Rightarrow> netop_pod list \<Rightarrow> world \<Rightarrow> world" where
  "sendDeletionToNetOps K sliceName [] w = w"
| "sendDeletionToNetOps K sliceName (n # ns) w =
     (case send_message K (SliceDeleted (sidecarAddress (no_PodIP n)) sliceName) w of
        (err, w) \<Rightarrow> sendDeletionToNetOps K sliceName ns w)"

definition SendSliceDeletionEventToNetOp :: "kube \<Rightarrow> string \<Rightarrow> string \<Rightarrow> world
    \<Rightarrow> go_error option \<times> world" where
  "SendSliceDeletionEventToNetOp K sliceName ns w =
     (case getSliceNetOpPods K ns w of
        (Some NotFound, w) \<Rightarrow> (None, w)
      | (Some e, w) \<Rightarrow> (Some e, w)
      | (None, w) \<Rightarrow> (None, sendDeletionToNetOps K sliceName (o_SliceNetOpPods w) w))"

end
