(* ===== verification/Manifests.thy ===== *)
theory Manifests
  imports SliceRouter
begin

text \<open>
  The istio gateways of a slice: \<open>pkg/manifest\<close>. Each is six objects, read from manifest files;
  an object that exists already is left alone.
\<close>

definition ISTIO_PROXY_DEFAULT_IMAGE :: string where
  "ISTIO_PROXY_DEFAULT_IMAGE = ''aveshasystems/istio/proxyv2:1.16.0''"

text \<open>\<open>path.Join\<close> of a directory without a trailing slash.\<close>

definition GetManifestPath :: "environ \<Rightarrow> string \<Rightarrow> string" where
  "GetManifestPath E file =
     (let dir = getenv E ''MANIFEST_PATH''
      in if dir \<noteq> '''' then dir @ ''/'' @ file @ ''.json''
         else ''../../files/manifests/'' @ file @ ''.json'')"

definition manifestTemplates :: "environ \<Rightarrow> string \<Rightarrow> labels" where
  "manifestTemplates E sliceName =
     [(''SLICE'', sliceName),
      (''ProxyImgRef'', (let i = getenv E ''AVESHA_ISTIO_PROXY_IMAGE''
                         in if i = '''' then ISTIO_PROXY_DEFAULT_IMAGE else i))]"

record gateway_objects =
  go_deploy :: deployment
  go_svc :: service
  go_role :: any_object
  go_sa :: any_object
  go_rb :: any_object
  go_gw :: any_object

text \<open>The six files are parsed first, in this order, up to the first error.\<close>

definition parseGateway :: "kube \<Rightarrow> environ \<Rightarrow> string \<Rightarrow> string \<Rightarrow> go_error + gateway_objects" where
  "parseGateway K E kind sliceName =
     (let t = manifestTemplates E sliceName;
          file = (\<lambda>part. GetManifestPath E (kind @ ''-'' @ part))
      in case k_parseDeployment K (file ''deploy'') t of
        Inl e \<Rightarrow> Inl e
      | Inr deploy \<Rightarrow>
     (case k_parseService K (file ''svc'') t of
        Inl e \<Rightarrow> Inl e
      | Inr svc \<Rightarrow>
     (case k_parseObject K (file ''role'') t of
        Inl e \<Rightarrow> Inl e
      | Inr role \<Rightarrow>
     (case k_parseObject K (file ''sa'') t of
        Inl e \<Rightarrow> Inl e
      | Inr sa \<Rightarrow>
     (case k_parseObject K (file ''rolebinding'') t of
        Inl e \<Rightarrow> Inl e
      | Inr rb \<Rightarrow>
     (case k_parseObject K (file ''gw'') t of
        Inl e \<Rightarrow> Inl e
      | Inr gw \<Rightarrow>
          Inr \<lparr>go_deploy = deploy, go_svc = svc, go_role = role, go_sa = sa, go_rb = rb,
               go_gw = gw\<rparr>))))))"

definition createIgnoringExisting :: "'o resource_ops \<Rightarrow> 'o \<Rightarrow> world \<Rightarrow> go_error option \<times> world" where
  "createIgnoringExisting ops ob w =
     (case r_create ops ob w of
        (Some AlreadyExists, w) \<Rightarrow> (None, w)
      | (r, w) \<Rightarrow> (r, w))"

definition ownedObject :: "kube \<Rightarrow> object_meta \<Rightarrow> any_object \<Rightarrow> any_object" where
  "ownedObject K owner ob = ob\<lparr>ao_meta := setOwner K owner (ao_meta ob)\<rparr>"

text \<open>The steps of the loop, up to the first error.\<close>

fun andThen :: "(world \<Rightarrow> go_error option \<times> world) list \<Rightarrow> world \<Rightarrow> go_error option \<times> world" where
  "andThen [] w = (None, w)"
| "andThen (f # fs) w =
     (case f w of
        (Some e, w) \<Rightarrow> (Some e, w)
      | (None, w) \<Rightarrow> andThen fs w)"

definition installGateway :: "kube \<Rightarrow> environ \<Rightarrow> string \<Rightarrow> slice \<Rightarrow> world
    \<Rightarrow> go_error option \<times> world" where
  "installGateway K E kind s w =
     (case parseGateway K E kind (sl_Name s) of
        Inl e \<Rightarrow> (Some e, w)
      | Inr g \<Rightarrow>
          andThen
            [createIgnoringExisting (k_deployments K)
               ((go_deploy g)\<lparr>d_meta := setOwner K (sl_meta s) (d_meta (go_deploy g))\<rparr>),
             createIgnoringExisting (k_services K)
               ((go_svc g)\<lparr>s_meta := setOwner K (sl_meta s) (s_meta (go_svc g))\<rparr>),
             createIgnoringExisting (k_roles K) (ownedObject K (sl_meta s) (go_role g)),
             createIgnoringExisting (k_serviceaccounts K) (ownedObject K (sl_meta s) (go_sa g)),
             createIgnoringExisting (k_rolebindings K) (ownedObject K (sl_meta s) (go_rb g)),
             createIgnoringExisting (k_istiogateways K) (ownedObject K (sl_meta s) (go_gw g))] w)"

definition InstallEgress :: "kube \<Rightarrow> environ \<Rightarrow> slice \<Rightarrow> world \<Rightarrow> go_error option \<times> world" where
  "InstallEgress K E = installGateway K E ''egress''"

definition InstallIngress :: "kube \<Rightarrow> environ \<Rightarrow> slice \<Rightarrow> world \<Rightarrow> go_error option \<times> world" where
  "InstallIngress K E = installGateway K E ''ingress''"

definition deleteIgnoringMissing :: "'o resource_ops \<Rightarrow> string \<Rightarrow> string \<Rightarrow> world
    \<Rightarrow> go_error option \<times> world" where
  "deleteIgnoringMissing ops ns n w =
     (case r_delete ops ns n w of
        (Some NotFound, w) \<Rightarrow> (None, w)
      | (r, w) \<Rightarrow> (r, w))"

definition uninstallGateway :: "kube \<Rightarrow> string \<Rightarrow> world \<Rightarrow> go_error option \<times> world" where
  "uninstallGateway K base =
     (let ns = ''kubeslice-system''
      in andThen
        [deleteIgnoringMissing (k_deployments K) ns base,
         deleteIgnoringMissing (k_services K) ns base,
         deleteIgnoringMissing (k_roles K) ns (base @ ''-sds''),
         deleteIgnoringMissing (k_serviceaccounts K) ns (base @ ''-service-account''),
         deleteIgnoringMissing (k_rolebindings K) ns (base @ ''-sds''),
         deleteIgnoringMissing (k_istiogateways K) ns base])"

definition UninstallEgress :: "kube \<Rightarrow> string \<Rightarrow> world \<Rightarrow> go_error option \<times> world" where
  "UninstallEgress K sliceName = uninstallGateway K (sliceName @ ''-istio-egressgateway'')"

definition UninstallIngress :: "kube \<Rightarrow> string \<Rightarrow> world \<Rightarrow> go_error option \<times> world" where
  "UninstallIngress K sliceName = uninstallGateway K (sliceName @ ''-istio-ingressgateway'')"

end
