(* ===== verification/SliceReconcile.thy ===== *)
theory SliceReconcile
  imports NamespaceBinding Manifests
begin

text \<open>
  The application pods of a slice (\<open>controllers/slice/app_pod.go\<close>), the cleanup of a deleted
  slice (\<open>controllers/slice/utils.go\<close>) and the pass of the slice reconciler
  (\<open>controllers/slice/reconciler.go\<close>).
\<close>

section \<open>Application pods\<close>

definition NSMIPLabelSelectorKey :: string where
  "NSMIPLabelSelectorKey = ''kubeslice.io/nsmIP''"

text \<open>The code compares the names, through a map of the old pods.\<close>

definition isAppPodStatusChanged :: "app_pod list \<Rightarrow> app_pod list \<Rightarrow> bool" where
  "isAppPodStatusChanged current old =
     (if length current \<noteq> length old then True
      else
        (let oldPodMap = foldl (\<lambda>m p. AList.update (ap_PodName p) (ap_PodIP p) m) [] old
         in list_ex (\<lambda>cp. map_of oldPodMap (ap_PodName cp) = None) current))"

definition labelsForAppPods :: "string \<Rightarrow> labels" where
  "labelsForAppPods sliceName =
     [(PodInjectLabelKey, ''app''), (ApplicationNamespaceSelectorLabelKey, sliceName)]"

definition isAppPodConnectedToSliceRouter :: "labels \<Rightarrow> string \<Rightarrow> bool" where
  "isAppPodConnectedToSliceRouter annotations sliceRouter \<longleftrightarrow>
     label_or_empty annotations ''ns.networkservicemesh.io'' = sliceRouter"

definition isRunningAppPod :: "string \<Rightarrow> pod \<Rightarrow> bool" where
  "isRunningAppPod sliceName p \<longleftrightarrow>
     isAppPodConnectedToSliceRouter (om_Annotations (p_meta p)) (''vl3-service-'' @ sliceName)
     \<and> p_Phase p = ''Running''"

definition appPodOf :: "pod \<Rightarrow> app_pod" where
  "appPodOf p =
     \<lparr>ap_PodName = p_Name p, ap_PodNamespace = om_Namespace (p_meta p), ap_PodIP = p_PodIP p,
      ap_NsmIP = '''', ap_NsmInterface = '''', ap_NsmPeerIP = ''''\<rparr>"

definition getAppPods :: "kube \<Rightarrow> string \<Rightarrow> world \<Rightarrow> (go_error + app_pod list) \<times> world" where
  "getAppPods K sliceName w =
     (case r_list (k_pods K) (all_namespaces (labelsForAppPods sliceName)) w of
        (Inl e, w) \<Rightarrow> (Inl e, w)
      | (Inr pods, w) \<Rightarrow> (Inr (map appPodOf (filter (isRunningAppPod sliceName) pods)), w))"

definition getSliceRouterConnectedPods :: "kube \<Rightarrow> string \<Rightarrow> world
    \<Rightarrow> (go_error + app_pod list) \<times> world" where
  "getSliceRouterConnectedPods K sliceName w =
     k_GetClientConnectionInfo K (sliceRouterDeploymentNamePrefix @ sliceName @ '':5000'') w"

definition findAppPodConnectedToSlice :: "string \<Rightarrow> app_pod list \<Rightarrow> app_pod option" where
  "findAppPodConnectedToSlice podName connectedPods = find (\<lambda>v. ap_PodName v = podName) connectedPods"

text \<open>The loop over the pods of the status, and whether it changed one.\<close>

fun syncNsmIPs :: "app_pod list \<Rightarrow> app_pod list \<Rightarrow> app_pod list \<times> bool" where
  "syncNsmIPs connected [] = ([], False)"
| "syncNsmIPs connected (p # ps) =
     (let (ps', changed) = syncNsmIPs connected ps
      in case findAppPodConnectedToSlice (ap_PodName p) connected of
           None \<Rightarrow>
             (if ap_NsmIP p \<noteq> '''' then (p\<lparr>ap_NsmIP := ''''\<rparr> # ps', True) else (p # ps', changed))
         | Some c \<Rightarrow>
             (if ap_NsmIP p \<noteq> ap_NsmIP c then (p\<lparr>ap_NsmIP := ap_NsmIP c\<rparr> # ps', True)
              else (p # ps', changed)))"

definition withNsmIPLabel :: "string \<Rightarrow> pod \<Rightarrow> pod" where
  "withNsmIPLabel ip p =
     p\<lparr>p_meta := (p_meta p)\<lparr>om_Labels := AList.update NSMIPLabelSelectorKey ip (om_Labels (p_meta p))\<rparr>\<rparr>"

fun labelPods :: "kube \<Rightarrow> app_pod list \<Rightarrow> pod list \<Rightarrow> world \<Rightarrow> go_error option \<times> world" where
  "labelPods K appPods [] w = (None, w)"
| "labelPods K appPods (p # ps) w =
     (case findAppPodConnectedToSlice (p_Name p) appPods of
        None \<Rightarrow> labelPods K appPods ps w
      | Some a \<Rightarrow>
          (if map_of (om_Labels (p_meta p)) NSMIPLabelSelectorKey \<noteq> Some (ap_NsmIP a)
           then (case r_update (k_pods K) (withNsmIPLabel (ap_NsmIP a) p) w of
                   (Some e, w) \<Rightarrow> (Some e, w)
                 | (None, w) \<Rightarrow> labelPods K appPods ps w)
           else labelPods K appPods ps w))"

definition labelAppPodWithNsmIp :: "kube \<Rightarrow> slice \<Rightarrow> world \<Rightarrow> go_error option \<times> world" where
  "labelAppPodWithNsmIp K s w =
     (case r_list (k_pods K) (all_namespaces (labelsForAppPods (sl_Name s))) w of
        (Inl e, w) \<Rightarrow> (Some e, w)
      | (Inr pods, w) \<Rightarrow> labelPods K (sl_AppPods s) pods w)"

text \<open>The part of \<open>ReconcileAppPod\<close> between the lists and the update of the status.\<close>

definition refreshAppPods :: "app_pod list \<Rightarrow> app_pod list \<Rightarrow> app_pod list \<Rightarrow> app_pod list \<times> bool" where
  "refreshAppPods connected appPods old =
     (let replace = isAppPodStatusChanged appPods old;
          (pods, changed) = syncNsmIPs connected (if replace then appPods else old)
      in (pods, replace \<or> changed))"

definition ReconcileAppPod :: "kube \<Rightarrow> int \<Rightarrow> slice \<Rightarrow> world \<Rightarrow> (step_result \<times> slice) \<times> world" where
  "ReconcileAppPod K now s w =
     (case getSliceRouterConnectedPods K (sl_Name s) w of
        (Inl e, w) \<Rightarrow> (((result_none, Some e, True), s), w)
      | (Inr connected, w) \<Rightarrow>
     (case getAppPods K (sl_Name s) w of
        (Inl e, w) \<Rightarrow> (((result_none, Some e, True), s), w)
      | (Inr appPods, w) \<Rightarrow>
     (let (pods, updateNeeded) = refreshAppPods connected appPods (sl_AppPods s);
          s = s\<lparr>sl_AppPods := pods\<rparr>;
          s = (if updateNeeded then s\<lparr>sl_AppPodsUpdatedOn := now\<rparr> else s)
      in case (if updateNeeded then r_update_status (k_slices K) s w else (None, w)) of
        (Some e, w) \<Rightarrow> (((result_none, Some e, True), s), w)
      | (None, w) \<Rightarrow>
     (case labelAppPodWithNsmIp K s w of
        (Some e, w) \<Rightarrow> (((result_none, Some e, True), s), w)
      | (None, w) \<Rightarrow> (((result_none, None, False), s), w)))))"

section \<open>Cleanup\<close>

definition removeLabel :: "kube \<Rightarrow> world \<Rightarrow> go_error option \<times> world" where
  "removeLabel K w =
     (case r_list (k_slices K) (in_namespace ControlPlaneNamespace []) w of
        (Inl e, w) \<Rightarrow> (Some e, w)
      | (Inr slices, w) \<Rightarrow>
          (if length slices = 1
           then
             (case r_get (k_namespaces K) '''' ControlPlaneNamespace w of
                (Inl e, w) \<Rightarrow> (Some e, w)
              | (Inr n, w) \<Rightarrow>
                  (if map_of (ns_Labels n) InjectSidecarKey \<noteq> None
                   then r_update (k_namespaces K)
                          (set_ns_Labels (AList.delete InjectSidecarKey (ns_Labels n)) n) w
                   else (None, w)))
           else (None, w)))"

fun deleteAll :: "'o resource_ops \<Rightarrow> ('o \<Rightarrow> object_meta) \<Rightarrow> 'o list \<Rightarrow> world
    \<Rightarrow> go_error option \<times> world" where
  "deleteAll ops meta [] w = (None, w)"
| "deleteAll ops meta (ob # obs) w =
     (case r_delete ops (om_Namespace (meta ob)) (om_Name (meta ob)) w of
        (Some e, w) \<Rightarrow> (Some e, w)
      | (None, w) \<Rightarrow> deleteAll ops meta obs w)"

definition cleanupServiceImport :: "kube \<Rightarrow> string \<Rightarrow> world \<Rightarrow> go_error option \<times> world" where
  "cleanupServiceImport K sliceName w =
     (case r_list (k_serviceimports K) (app_selector sliceName) w of
        (Inl NotFound, w) \<Rightarrow> (None, w)
      | (Inl e, w) \<Rightarrow> (Some e, w)
      | (Inr imports, w) \<Rightarrow> deleteAll (k_serviceimports K) si_meta imports w)"

definition cleanupServiceExport :: "kube \<Rightarrow> string \<Rightarrow> world \<Rightarrow> go_error option \<times> world" where
  "cleanupServiceExport K sliceName w =
     (case r_list (k_serviceexports K) (app_selector sliceName) w of
        (Inl NotFound, w) \<Rightarrow> (None, w)
      | (Inl e, w) \<Rightarrow> (Some e, w)
      | (Inr exports, w) \<Rightarrow> deleteAll (k_serviceexports K) se_meta exports w)"

definition cleanupServiceDiscoveryObjects :: "kube \<Rightarrow> string \<Rightarrow> world \<Rightarrow> go_error option \<times> world" where
  "cleanupServiceDiscoveryObjects K sliceName w =
     (case cleanupServiceImport K sliceName w of
        (Some e, w) \<Rightarrow> (Some e, w)
      | (None, w) \<Rightarrow> cleanupServiceExport K sliceName w)"

definition has_network :: "slice \<Rightarrow> bool" where
  "has_network s \<longleftrightarrow> (case sl_Config s of None \<Rightarrow> False | Some c \<Rightarrow> sc_NetworkMode c \<noteq> ''no-network'')"

definition cleanupSliceResources :: "kube \<Rightarrow> environ \<Rightarrow> slice \<Rightarrow> world \<Rightarrow> go_error option \<times> world" where
  "cleanupSliceResources K E s w =
     (case cleanupSliceNamespaces K E s w of
        (Some e, w) \<Rightarrow> (Some e, w)
      | (None, w) \<Rightarrow>
     (case (if has_network s then cleanupVl3NSE K (sl_Name s) w else (None, w)) of
        (Some e, w) \<Rightarrow> (Some e, w)
      | (None, w) \<Rightarrow>
     (case cleanupServiceDiscoveryObjects K (sl_Name s) w of
        (Some e, w) \<Rightarrow> (Some e, w)
      | (None, w) \<Rightarrow> removeLabel K w)))"

section \<open>The pass\<close>

definition sliceFinalizer :: string where
  "sliceFinalizer = ''networking.kubeslice.io/slice-finalizer''"

definition set_finalizers :: "string list \<Rightarrow> slice \<Rightarrow> slice" where
  "set_finalizers fs s = s\<lparr>sl_meta := (sl_meta s)\<lparr>om_Finalizers := fs\<rparr>\<rparr>"

text \<open>The injection label is put on the namespace of the control plane before anything else.\<close>

definition labelControlPlane :: "kube \<Rightarrow> world \<Rightarrow> go_error option \<times> world" where
  "labelControlPlane K w =
     (case r_get (k_namespaces K) '''' ''kubeslice-system'' w of
        (Inl e, w) \<Rightarrow> (Some e, w)
      | (Inr n, w) \<Rightarrow>
          (if map_of (ns_Labels n) InjectSidecarKey = None
           then r_update (k_namespaces K)
                  (set_ns_Labels (AList.update InjectSidecarKey ''true'' (ns_Labels n)) n) w
           else (None, w)))"

definition handleSliceDeletion :: "kube \<Rightarrow> environ \<Rightarrow> string \<Rightarrow> string \<Rightarrow> slice \<Rightarrow> world
    \<Rightarrow> (bool \<times> ctrl_result \<times> go_error option) \<times> slice \<times> world" where
  "handleSliceDeletion K E reqNamespace reqName s w =
     (let fs = om_Finalizers (sl_meta s)
      in if om_DeletionTimestamp (sl_meta s) = None
         then
           (if sliceFinalizer \<notin> set fs
            then (let s = set_finalizers (fs @ [sliceFinalizer]) s
                  in case r_update (k_slices K) s w of
                       (Some e, w) \<Rightarrow> ((True, result_none, Some e), s, w)
                     | (None, w) \<Rightarrow> ((False, result_none, None), s, w))
            else ((False, result_none, None), s, w))
         else
           (if sliceFinalizer \<in> set fs
            then
              (case (if has_network s then SendSliceDeletionEventToNetOp K reqName reqNamespace w
                     else (None, w)) of
                 (_, w) \<Rightarrow>
                   (case cleanupSliceResources K E s w of
                      (Some e, w) \<Rightarrow> ((True, result_none, Some e), s, w)
                    | (None, w) \<Rightarrow>
                        (let s = set_finalizers (filter (\<lambda>f. f \<noteq> sliceFinalizer) fs) s
                         in case r_update (k_slices K) s w of
                              (Some e, w) \<Rightarrow> ((True, result_none, Some e), s, w)
                            | (None, w) \<Rightarrow> ((True, result_none, None), s, w))))
            else ((True, result_none, None), s, w)))"

definition DNSDeploymentName :: string where
  "DNSDeploymentName = ''kubeslice-dns''"

definition handleDnsSvc :: "kube \<Rightarrow> slice \<Rightarrow> world
    \<Rightarrow> (bool \<times> ctrl_result \<times> go_error option) \<times> slice \<times> world" where
  "handleDnsSvc K s w =
     (case r_get (k_services K) ControlPlaneNamespace DNSDeploymentName w of
        (Inl NotFound, w) \<Rightarrow> ((False, result_none, None), s, w)
      | (Inl e, w) \<Rightarrow> ((True, result_none, Some e), s, w)
      | (Inr svc, w) \<Rightarrow>
          (case updateSliceStatus K (\<lambda>s. s\<lparr>sl_DNSIP := s_ClusterIP svc\<rparr>) (s, w) of
             (Some e, s, w) \<Rightarrow> ((True, result_none, Some e), s, w)
           | (None, s, w) \<Rightarrow> ((True, result_none, None), s, w)))"

text \<open>\<open>Egress.Enabled\<close> and \<open>Ingress.Enabled\<close> of a nil pointer are a panic.\<close>

definition isEgressConfigured :: "slice_config \<Rightarrow> bool go" where
  "isEgressConfigured c =
     (case sc_ExternalGatewayConfig c of
        None \<Rightarrow> Ret False
      | Some g \<Rightarrow> (case eg_Egress g of None \<Rightarrow> Panic | Some b \<Rightarrow> Ret b))"

definition isIngressConfigured :: "slice_config \<Rightarrow> bool go" where
  "isIngressConfigured c =
     (case sc_ExternalGatewayConfig c of
        None \<Rightarrow> Ret False
      | Some g \<Rightarrow> (case eg_Ingress g of None \<Rightarrow> Panic | Some b \<Rightarrow> Ret b))"

text \<open>
  The last part of \<open>reconcileNetworkComponents\<close>. An error of an installation is returned
  without the request to stop, and the caller looks at it only when it has to stop.
\<close>

definition reconcileExternalGateways :: "kube \<Rightarrow> environ \<Rightarrow> slice \<Rightarrow> slice_config \<Rightarrow> world
    \<Rightarrow> step_result go \<times> world" where
  "reconcileExternalGateways K E s c w =
     (if (case sc_ExternalGatewayConfig c of None \<Rightarrow> False | Some g \<Rightarrow> eg_GatewayType g = ''istio'')
      then
        (case isEgressConfigured c of
           Panic \<Rightarrow> (Panic, w)
         | Ret egress \<Rightarrow>
        (case (if egress then InstallEgress K E s w else (None, w)) of
           (Some e, w) \<Rightarrow> (Ret (result_none, Some e, False), w)
         | (None, w) \<Rightarrow>
        (case isIngressConfigured c of
           Panic \<Rightarrow> (Panic, w)
         | Ret ingress \<Rightarrow>
        (case (if ingress then InstallIngress K E s w else (None, w)) of
           (Some e, w) \<Rightarrow> (Ret (result_none, Some e, False), w)
         | (None, w) \<Rightarrow> (Ret (result_none, None, False), w)))))
      else (Ret (result_none, None, False), w))"

definition reconcileNetworkComponents :: "kube \<Rightarrow> environ \<Rightarrow> (string list \<Rightarrow> string list) \<Rightarrow> slice
    \<Rightarrow> world \<Rightarrow> step_result go \<times> world" where
  "reconcileNetworkComponents K E ord s w =
     (case SyncSliceQosProfileWithNetOp K s w of
        (Panic, w) \<Rightarrow> (Panic, w)
      | (Ret _, w) \<Rightarrow>
     (case ReconcileSliceRouter K E s w of
        ((res, Some e, _), w) \<Rightarrow> (Ret (res, Some e, True), w)
      | ((res, None, True), w) \<Rightarrow> (Ret (res, None, True), w)
      | ((res, None, False), w) \<Rightarrow>
     (case ReconcileSliceGwEdge K E ord s w of
        (Panic, w) \<Rightarrow> (Panic, w)
      | (Ret (res, Some e, _), w) \<Rightarrow> (Ret (res, Some e, True), w)
      | (Ret (res, None, True), w) \<Rightarrow> (Ret (res, None, True), w)
      | (Ret (res, None, False), w) \<Rightarrow>
          (case sl_Config s of
             None \<Rightarrow> (Panic, w)
           | Some c \<Rightarrow> reconcileExternalGateways K E s c w))))"

text \<open>From the application pods on.\<close>

definition reconcileSlicePods :: "kube \<Rightarrow> environ \<Rightarrow> int \<Rightarrow> slice \<Rightarrow> world \<Rightarrow> reconcile_result" where
  "reconcileSlicePods K E now s w =
     (case ReconcileAppPod K now s w of
        (((res, Some e, _), s), w) \<Rightarrow> (Ret (res, Some e), w)
      | (((res, None, True), s), w) \<Rightarrow>
          (case UpdateAppPodsList K E (sliceConfigName E s) (sl_AppPods s) w of
             (Some e, w) \<Rightarrow> (Ret (result_none, Some e), w)
           | (None, w) \<Rightarrow> (Ret (result_requeue, None), w))
      | (((res, None, False), s), w) \<Rightarrow> (Ret (result_after 10, None), w))"

text \<open>From the namespaces on, for a slice with a configuration.\<close>

definition reconcileSliceSteps :: "kube \<Rightarrow> environ \<Rightarrow> (string list \<Rightarrow> string list) \<Rightarrow> int \<Rightarrow> slice
    \<Rightarrow> world \<Rightarrow> reconcile_result" where
  "reconcileSliceSteps K E ord now s w =
     (case ReconcileSliceNamespaces K E ord s w of
        (Panic, w) \<Rightarrow> (Panic, w)
      | (Ret ((res, err, True), s), w) \<Rightarrow> (Ret (res, err), w)
      | (Ret ((_, _, False), s), w) \<Rightarrow>
     (case sl_Config s of
        None \<Rightarrow> (Panic, w)
      | Some c \<Rightarrow>
     (if sc_NetworkMode c = ''no-network'' then reconcileSlicePods K E now s w
      else
        (case reconcileNetworkComponents K E ord s w of
           (Panic, w) \<Rightarrow> (Panic, w)
         | (Ret (res, err, True), w) \<Rightarrow> (Ret (res, err), w)
         | (Ret (res, err, False), w) \<Rightarrow> reconcileSlicePods K E now s w))))"

definition SliceReconcile :: "kube \<Rightarrow> environ \<Rightarrow> (string list \<Rightarrow> string list) \<Rightarrow> int \<Rightarrow> string
    \<Rightarrow> string \<Rightarrow> world \<Rightarrow> reconcile_result" where
  "SliceReconcile K E ord now reqNamespace reqName w =
     (case r_get (k_slices K) reqNamespace reqName w of
        (Inl NotFound, w) \<Rightarrow> (Ret (result_none, None), w)
      | (Inl e, w) \<Rightarrow> (Ret (result_none, Some e), w)
      | (Inr s, w) \<Rightarrow>
     (case labelControlPlane K w of
        (Some e, w) \<Rightarrow> (Ret (result_none, Some e), w)
      | (None, w) \<Rightarrow>
     (case handleSliceDeletion K E reqNamespace reqName s w of
        ((True, res, err), s, w) \<Rightarrow> (Ret (res, err), w)
      | ((False, _, _), s, w) \<Rightarrow>
     (case sl_Config s of
        None \<Rightarrow> (Ret (result_none, Some (Failure ''slice not reconciled from hub'')), w)
      | Some c \<Rightarrow>
     (if sc_NetworkMode c \<noteq> ''no-network'' \<and> sl_DNSIP s = ''''
      then (case handleDnsSvc K s w of
              ((True, res, err), s, w) \<Rightarrow> (Ret (res, err), w)
            | ((False, _, _), s, w) \<Rightarrow> reconcileSliceSteps K E ord now s w)
      else reconcileSliceSteps K E ord now s w)))))"

section \<open>Application pods: what is recorded\<close>

lemma syncNsmIPs_eq:
  "syncNsmIPs connected ps =
     (let ip = (\<lambda>p. case findAppPodConnectedToSlice (ap_PodName p) connected of
                      None \<Rightarrow> '''' | Some c \<Rightarrow> ap_NsmIP c);
          ps' = map (\<lambda>p. p\<lparr>ap_NsmIP := ip p\<rparr>) ps
      in (ps', ps' \<noteq> ps))"
proof (induction ps)
  case Nil
  then show ?case by simp
next
  case (Cons p ps)
  have "p = p\<lparr>ap_NsmIP := x\<rparr> \<longleftrightarrow> ap_NsmIP p = x" for x by (cases p) auto
  then have eq: "p\<lparr>ap_NsmIP := x\<rparr> = p \<longleftrightarrow> ap_NsmIP p = x" for x by metis
  then have "p\<lparr>ap_NsmIP := x\<rparr> = p" if "ap_NsmIP p = x" for x using that by blast
  with Cons eq show ?case by (auto simp: Let_def split: option.splits)
qed

lemma fold_update_dom:
  "map_of (foldl (\<lambda>m p. AList.update (f p) (g p) m) m ps) k = None \<longleftrightarrow>
     map_of m k = None \<and> k \<notin> f ` set ps"
  by (induction ps arbitrary: m) auto

lemma isAppPodStatusChanged_iff:
  assumes "distinct (map ap_PodName current)" and "distinct (map ap_PodName old)"
  shows "isAppPodStatusChanged current old \<longleftrightarrow> ap_PodName ` set current \<noteq> ap_PodName ` set old"
proof -
  have card: "card (ap_PodName ` set ps) = length ps" if "distinct (map ap_PodName ps)" for ps
    using that by (metis distinct_card length_map list.set_map)
  have "ap_PodName ` set current = ap_PodName ` set old"
    if "length current = length old" "ap_PodName ` set current \<subseteq> ap_PodName ` set old"
    using that card [OF assms(1)] card [OF assms(2)] by (intro card_subset_eq) simp_all
  moreover have "length current = length old" if "ap_PodName ` set current = ap_PodName ` set old"
    using that card [OF assms(1)] card [OF assms(2)] by metis
  ultimately show ?thesis
    by (auto simp: isAppPodStatusChanged_def fold_update_dom list_ex_iff)
qed

text \<open>
  The pods in the status of a slice. The names among the running pods of the slice are
  unique, and so are those recorded: the recorded pods then have the names of the running
  pods, each has the address under which the slice router knows a pod of that name, or none,
  and the status is written exactly when the record changes.
\<close>

theorem app_pods_recorded:
  assumes "distinct (map ap_PodName appPods)" and "distinct (map ap_PodName old)"
    and "refreshAppPods connected appPods old = (pods, updateNeeded)"
  shows "ap_PodName ` set pods = ap_PodName ` set appPods
    \<and> (\<forall>p \<in> set pods. ap_NsmIP p =
         (case find (\<lambda>c. ap_PodName c = ap_PodName p) connected of None \<Rightarrow> '''' | Some c \<Rightarrow> ap_NsmIP c))
    \<and> (updateNeeded \<longleftrightarrow> pods \<noteq> old)"
proof -
  let ?ip = "\<lambda>p. case findAppPodConnectedToSlice (ap_PodName p) connected of
                      None \<Rightarrow> '''' | Some c \<Rightarrow> ap_NsmIP c"
  let ?src = "if isAppPodStatusChanged appPods old then appPods else old"
  have pods: "pods = map (\<lambda>p. p\<lparr>ap_NsmIP := ?ip p\<rparr>) ?src"
    and upd: "updateNeeded \<longleftrightarrow> isAppPodStatusChanged appPods old \<or> pods \<noteq> ?src"
    using assms(3) by (auto simp: refreshAppPods_def syncNsmIPs_eq Let_def)
  have names: "ap_PodName ` set pods = ap_PodName ` set ?src"
    unfolding pods by (simp add: image_image)
  have changed: "isAppPodStatusChanged appPods old \<longleftrightarrow> ap_PodName ` set appPods \<noteq> ap_PodName ` set old"
    using assms(1,2) by (rule isAppPodStatusChanged_iff)
  have "ap_PodName ` set pods = ap_PodName ` set appPods"
    using names changed by (simp split: if_splits)
  moreover have "\<forall>p \<in> set pods. ap_NsmIP p = ?ip p"
    unfolding pods by auto
  moreover have "updateNeeded \<longleftrightarrow> pods \<noteq> old"
    using upd names changed by (auto split: if_splits)
  ultimately show ?thesis by (simp add: findAppPodConnectedToSlice_def)
qed

lemma ReconcileAppPod_requeue:
  "ReconcileAppPod K now s w = (((res, err, True), s'), w') \<Longrightarrow> err \<noteq> None"
  by (auto simp: ReconcileAppPod_def Let_def split: prod.splits sum.splits option.splits)

lemma ReconcileAppPod_no_config:
  "ReconcileAppPod (K\<lparr>k_sliceconfigs := ops\<rparr>) now s w = ReconcileAppPod K now s w"
proof -
  let ?K = "K\<lparr>k_sliceconfigs := ops\<rparr>"
  have l: "labelPods ?K a ps w = labelPods K a ps w" for a ps w
    by (induction K a ps w rule: labelPods.induct) (simp_all split: option.split prod.split)
  have ops: "k_slices ?K = k_slices K" "k_pods ?K = k_pods K"
    "k_GetClientConnectionInfo ?K = k_GetClientConnectionInfo K" by simp_all
  show ?thesis
    unfolding ReconcileAppPod_def getSliceRouterConnectedPods_def getAppPods_def
      labelAppPodWithNsmIp_def l ops by (rule refl)
qed

text \<open>
  The application pods are never reported to the hub. A step that asks for another pass
  has an error, and then the pass ends before the report; so the outcome of the last part of
  the pass is the same whatever the client for slice configurations does.
\<close>

theorem app_pods_never_reported:
  "reconcileSlicePods (K\<lparr>k_sliceconfigs := ops\<rparr>) E now s w = reconcileSlicePods K E now s w"
proof -
  obtain res err rq s' w' where r: "ReconcileAppPod K now s w = (((res, err, rq), s'), w')"
    by (metis surj_pair)
  show ?thesis
  proof (cases "err = None \<and> rq")
    case True
    with r ReconcileAppPod_requeue show ?thesis by metis
  next
    case False
    with r show ?thesis
      by (auto simp: reconcileSlicePods_def ReconcileAppPod_no_config split: option.splits bool.splits)
  qed
qed

section \<open>Deletion\<close>

context resource
begin

lemma deleteAll_ok:
  assumes "deleteAll ops meta obs w = (None, w')"
  shows "sel w' = filter (\<lambda>y. \<forall>ob \<in> set obs. \<not> same_key meta ob y) (sel w)"
  using assms
proof (induction obs arbitrary: w)
  case Nil
  then show ?case by simp
next
  case (Cons ob obs)
  obtain r w1 where d: "r_delete ops (om_Namespace (meta ob)) (om_Name (meta ob)) w = (r, w1)" by fastforce
  with Cons.prems have r: "r = None" "deleteAll ops meta obs w1 = (None, w')"
    by (auto split: option.splits)
  have "w1 = tick (upd (remove_object meta (om_Namespace (meta ob)) (om_Name (meta ob))) w)"
    using delete_ok d r(1) by blast
  then have "sel w1 = filter (\<lambda>y. \<not> same_key meta ob y) (sel w)"
    by (simp add: sel_tick sel_upd remove_object_def same_key_def)
  with Cons.IH [OF r(2)] show ?case by (simp add: conj_commute)
qed

lemma deleteAll_keeps:
  assumes "deleteAll ops meta obs w = (r, w')"
    and refl: "\<And>v. Q v v" and trans: "\<And>u v x. Q u v \<Longrightarrow> Q v x \<Longrightarrow> Q u x"
    and tick: "\<And>v. Q v (tick v)" and upd: "\<And>f v. Q v (upd f v)"
  shows "Q w w'"
  using assms(1)
proof (induction obs arbitrary: w)
  case Nil
  then show ?case using refl by simp
next
  case (Cons ob obs)
  obtain u w1 where u: "r_delete ops (om_Namespace (meta ob)) (om_Name (meta ob)) w = (u, w1)" by fastforce
  have "Q w w1"
  proof (cases u)
    case None
    with delete_ok u have "w1 = tick (upd (remove_object meta (om_Namespace (meta ob)) (om_Name (meta ob))) w)"
      by blast
    then show ?thesis using trans [OF upd tick] by blast
  next
    case (Some e)
    with delete_err u tick show ?thesis by blast
  qed
  with Cons u show ?case by (cases u) (auto intro: trans)
qed

text \<open>What a list selects is gone when all of it has been deleted.\<close>

lemma delete_listed:
  assumes "r_list ops lo w = (Inr obs, w1)" and "deleteAll ops meta obs w1 = (None, w')"
  shows "filter (selects meta phase lo) (sel w') = []"
proof -
  have "w1 = tick w" "obs = filter (selects meta phase lo) (sel w)" using list_ok assms(1) by blast+
  with deleteAll_ok [OF assms(2)] show ?thesis
    by (auto simp: filter_empty_conv sel_tick same_key_def)
qed

end

definition absent_ns :: "string \<Rightarrow> world \<Rightarrow> bool" where
  "absent_ns a w \<longleftrightarrow> find (keyed ns_meta '''' a) (w_namespaces w) = None"

lemma same_ns_absent: "same_ns w w' \<Longrightarrow> absent_ns a w' = absent_ns a w"
  by (simp add: same_ns_def absent_ns_def)

lemma absent_replace:
  "find (keyed meta ns n) xs = None \<Longrightarrow> find (keyed meta ns n) (replace_object meta y xs) = None"
  unfolding replace_object_def
  by (induction xs) (auto simp: keyed_def split: if_splits)

context lawful
begin

lemma update_absent_ns:
  assumes "r_update (k_namespaces K) n w = (r, w')" and "absent_ns a w"
  shows "absent_ns a w' \<and> w_slices w' = w_slices w"
proof (cases r)
  case None
  with nsp.update_ok assms(1) have "w' = tick (w_namespaces_update (replace_object ns_meta n) w)" by blast
  with assms(2) show ?thesis by (simp add: absent_ns_def absent_replace)
next
  case (Some e)
  with nsp.update_err assms(1) have "w' = tick w" by blast
  with assms(2) show ?thesis by (simp add: absent_ns_def)
qed

lemma unbind_app_absent:
  assumes "unbindAppNamespace K s b cl ca w = (r, w')" and "absent_ns a w"
  shows "absent_ns a w' \<and> w_slices w' = w_slices w"
proof -
  obtain g w1 where g: "r_get (k_namespaces K) '''' b w = (g, w1)" by fastforce
  have w1: "same_ns w w1" using nsp.get_world [OF g] by simp
  have rem: "absent_ns a v' \<and> w_slices v' = w_slices v"
    if "removeSliceFromNamespace K s b v = (x, v')" "absent_ns a v" for v v' x
    using remove_slice_keeps [OF that(1)] that(2)
    by (simp add: same_ns_absent) (simp add: same_ns_def ns_frame_def)
  have base: "absent_ns a w1" "w_slices w1 = w_slices w"
    using w1 assms(2) by (simp_all add: same_ns_absent [OF w1]) (simp add: same_ns_def ns_frame_def)
  show ?thesis
  proof (cases g)
    case (Inl e)
    with assms(1) g have "w' = w1" by (cases e; simp add: unbindAppNamespace_def)
    with base show ?thesis by simp
  next
    case (Inr n)
    show ?thesis
    proof (cases "map_of (ns_Labels n) ApplicationNamespaceSelectorLabelKey = None")
      case True
      with assms(1) g Inr have "removeSliceFromNamespace K s b w1 = (r, w')"
        by (simp add: unbindAppNamespace_def)
      from rem [OF this base(1)] base show ?thesis by simp
    next
      case False
      obtain u w2 where u: "r_update (k_namespaces K) (unbindLabels cl ca n) w1 = (u, w2)" by fastforce
      note up = update_absent_ns [OF u base(1)]
      show ?thesis
      proof (cases u)
        case (Some e)
        with assms(1) g Inr False u have "w' = w2" by (simp add: unbindAppNamespace_def)
        with up base show ?thesis by simp
      next
        case None
        with assms(1) g Inr False u have "removeSliceFromNamespace K s b w2 = (r, w')"
          by (simp add: unbindAppNamespace_def)
        from rem [OF this] up base show ?thesis by simp
      qed
    qed
  qed
qed

lemma unbind_apps_absent:
  "unbindAppNamespaces K s cl ca bs w = (r, w') \<Longrightarrow> absent_ns a w
     \<Longrightarrow> absent_ns a w' \<and> w_slices w' = w_slices w"
proof (induction bs arbitrary: w)
  case (Cons b bs)
  obtain u w1 where u: "unbindAppNamespace K s b cl ca w = (u, w1)" by fastforce
  note one = unbind_app_absent [OF u Cons.prems(2)]
  with Cons u show ?case by (cases u) auto
qed simp

lemma unbind_allowed_absent:
  assumes "unbindAllowedNamespace K b s w = (r, w')" and "absent_ns a w"
  shows "absent_ns a w' \<and> w_slices w' = w_slices w \<and> (b = a \<longrightarrow> r \<noteq> None)"
proof -
  obtain g w1 where g: "r_get (k_namespaces K) '''' b w = (g, w1)" by fastforce
  have w1: "w1 = tick w" by (rule nsp.get_world [OF g])
  have a1: "absent_ns a w1" using assms(2) w1 by (simp add: absent_ns_def)
  show ?thesis
  proof (cases g)
    case (Inl e)
    with assms(1) g have "r = Some e" "w' = w1" by (simp_all add: unbindAllowedNamespace_def)
    with a1 w1 show ?thesis by simp
  next
    case (Inr n)
    then have "b \<noteq> a" using nsp.get_ok g assms(2) by (fastforce simp: absent_ns_def)
    moreover have "absent_ns a w' \<and> w_slices w' = w_slices w1"
      using assms(1) g Inr a1 update_absent_ns [OF _ a1]
      by (cases "unbindSlice s n") (auto simp: unbindAllowedNamespace_def)
    ultimately show ?thesis using w1 by simp
  qed
qed

lemma unbind_alloweds_absent:
  "unbindAllowedNamespaces K s bs w = (r, w') \<Longrightarrow> absent_ns a w \<Longrightarrow>
     w_slices w' = w_slices w \<and> absent_ns a w' \<and> (a \<in> set bs \<longrightarrow> r \<noteq> None)"
proof (induction bs arbitrary: w)
  case (Cons b bs)
  obtain u w1 where u: "unbindAllowedNamespace K b s w = (u, w1)" by fastforce
  note one = unbind_allowed_absent [OF u Cons.prems(2)]
  with Cons u show ?case by (cases u) auto
qed simp

lemma cleanup_blocked:
  assumes "cleanupSliceResources K E s w = (r, w')" and "absent_ns a w"
    and "a \<in> set (sl_AllowedNamespaces s)"
  shows "r \<noteq> None \<and> w_slices w' = w_slices w \<and> absent_ns a w'"
proof -
  obtain x w1 where x: "cleanupSliceNamespaces K E s w = (x, w1)" by fastforce
  have "x \<noteq> None \<and> w_slices w1 = w_slices w \<and> absent_ns a w1"
  proof -
    obtain c w2 where c: "GetClusterNamespaceConfig K E (ClusterName E) w = (c, w2)" by fastforce
    have w2: "w2 = tick w" by (rule GetClusterNamespaceConfig_world [OF c])
    obtain cl ca where cc: "(case c of Inl e \<Rightarrow> ([], []) | Inr c \<Rightarrow> c) = (cl, ca)" by (metis surj_pair)
    obtain l w3 where l: "r_list (k_namespaces K) (app_selector (sl_Name s)) w2 = (l, w3)" by fastforce
    have w3: "w3 = tick w2" by (rule nsp.list_world [OF l])
    have a3: "absent_ns a w3" "w_slices w3 = w_slices w"
      using assms(2) w2 w3 by (simp_all add: absent_ns_def)
    show ?thesis
    proof (cases l)
      case (Inl e)
      with x c cc l have "x = Some e" "w1 = w3" by (simp_all add: cleanupSliceNamespaces_def)
      with a3 show ?thesis by simp
    next
      case (Inr ns)
      obtain u w4 where u: "unbindAppNamespaces K (sl_Name s) cl ca (map ns_Name ns) w3 = (u, w4)" by fastforce
      note ua = unbind_apps_absent [OF u a3(1)]
      show ?thesis
      proof (cases u)
        case (Some e)
        with x c cc l Inr u have "x = Some e" "w1 = w4" by (simp_all add: cleanupSliceNamespaces_def)
        with ua a3 show ?thesis by simp
      next
        case None
        with x c cc l Inr u
        have "unbindAllowedNamespaces K (sl_Name s) (sl_AllowedNamespaces s) w4 = (x, w1)"
          by (simp add: cleanupSliceNamespaces_def)
        from unbind_alloweds_absent [OF this, of a] ua a3 assms(3) show ?thesis by simp
      qed
    qed
  qed
  with assms(1) x show ?thesis by (auto simp: cleanupSliceResources_def split: option.splits)
qed

lemma send_world': "send_message K m w = (r, w') \<Longrightarrow> w' = tick (w\<lparr>w_sent := w_sent w @ [m]\<rparr>)"
  using send_world [of m "w\<lparr>w_sent := w_sent w @ [m]\<rparr>"] by (simp add: send_message_def)

lemma sendDeletion_keeps: "same_ns w (sendDeletionToNetOps K s ns w)"
proof (induction ns arbitrary: w)
  case Nil
  then show ?case by simp
next
  case (Cons n ns)
  obtain r w1 where s: "send_message K (SliceDeleted (sidecarAddress (no_PodIP n)) s) w = (r, w1)" by fastforce
  have "same_ns w w1" using send_world' [OF s] by (simp add: same_ns_def ns_frame_def)
  with Cons [of w1] s show ?case by (auto intro: same_ns_trans)
qed

lemma deletion_event_keeps:
  assumes "SendSliceDeletionEventToNetOp K n ns w = (r, w')"
  shows "same_ns w w'"
proof -
  obtain l w1 where l: "r_list (k_pods K) (in_namespace ns [(''app'', ''app_net_op'')]) w = (l, w1)" by fastforce
  have w1: "w1 = tick w" by (rule pod.list_world [OF l])
  show ?thesis
  proof (cases l)
    case (Inl e)
    with assms l w1 show ?thesis
      by (cases e) (auto simp: SendSliceDeletionEventToNetOp_def getSliceNetOpPods_def GetNetOpPods_def)
  next
    case (Inr ps)
    let ?v = "w1\<lparr>o_SliceNetOpPods := map (\<lambda>p. \<lparr>no_PodIP = p_PodIP p, no_PodName = p_Name p, no_Node = p_NodeName p\<rparr>) ps\<rparr>"
    from assms l Inr have "w' = sendDeletionToNetOps K n (o_SliceNetOpPods ?v) ?v"
      by (simp add: SendSliceDeletionEventToNetOp_def getSliceNetOpPods_def GetNetOpPods_def)
    moreover have "same_ns w ?v" using w1 by (simp add: same_ns_def ns_frame_def)
    ultimately show ?thesis using sendDeletion_keeps same_ns_trans by blast
  qed
qed

lemma deletion_start:
  assumes "om_DeletionTimestamp (sl_meta s) = Some t" "sliceFinalizer \<in> set (om_Finalizers (sl_meta s))"
    and "handleSliceDeletion K E ns n s w = ((stop, res, err), s', w')"
  obtains w1 r w2 where "same_ns w w1" "cleanupSliceResources K E s w1 = (r, w2)"
    "r \<noteq> None \<Longrightarrow> stop \<and> err = r \<and> s' = s \<and> w' = w2"
    "r = None \<Longrightarrow> stop \<and> s' = set_finalizers (filter (\<lambda>f. f \<noteq> sliceFinalizer) (om_Finalizers (sl_meta s))) s
       \<and> r_update (k_slices K) s' w2 = (err, w')"
proof -
  obtain x w1 where x: "(if has_network s then SendSliceDeletionEventToNetOp K n ns w else (None, w)) = (x, w1)"
    by fastforce
  have k: "same_ns w w1" using x deletion_event_keeps by (auto split: if_splits)
  obtain r w2 where r: "cleanupSliceResources K E s w1 = (r, w2)" by fastforce
  show ?thesis
  proof (rule that [OF k r])
    show "stop \<and> err = r \<and> s' = s \<and> w' = w2" if "r \<noteq> None"
      using assms x r that by (auto simp: handleSliceDeletion_def Let_def)
    show "stop \<and> s' = set_finalizers (filter (\<lambda>f. f \<noteq> sliceFinalizer) (om_Finalizers (sl_meta s))) s
       \<and> r_update (k_slices K) s' w2 = (err, w')" if "r = None"
      using assms x r that by (auto simp: handleSliceDeletion_def Let_def split: prod.splits option.splits)
  qed
qed

end

text \<open>
  A slice that cannot be deleted. When an allowed namespace that is recorded in the status
  of the slice has itself been deleted, the cleanup of the slice fails on every pass: the error
  is returned, the finalizer stays, and the namespace is still missing in the next pass.
\<close>

theorem deletion_blocked_by_missing_namespace:
  assumes "lawful K" and "om_DeletionTimestamp (sl_meta s) = Some t"
    and "sliceFinalizer \<in> set (om_Finalizers (sl_meta s))"
    and "a \<in> set (sl_AllowedNamespaces s)" "absent_ns a w"
    and "handleSliceDeletion K E ns n s w = ((stop, res, err), s', w')"
  shows "stop \<and> err \<noteq> None \<and> s' = s \<and> w_slices w' = w_slices w \<and> absent_ns a w'"
proof -
  obtain w1 r w2 where d: "same_ns w w1" "cleanupSliceResources K E s w1 = (r, w2)"
      "r \<noteq> None \<Longrightarrow> stop \<and> err = r \<and> s' = s \<and> w' = w2"
    using lawful.deletion_start [OF assms(1-3,6)] by metis
  have "absent_ns a w1" "w_slices w1 = w_slices w"
    using same_ns_absent [OF d(1)] assms(5) d(1) by (simp_all add: same_ns_def ns_frame_def)
  with lawful.cleanup_blocked [OF assms(1) d(2) _ assms(4)] d(3) show ?thesis by simp
qed

section \<open>Complete cleanup\<close>

definition registry_ok :: "world \<Rightarrow> bool" where
  "registry_ok w \<longleftrightarrow> list_all (\<lambda>n. distinct (slicesOf n)) (w_namespaces w)"

text \<open>The namespace exists and is not annotated with the slice.\<close>

definition released :: "string \<Rightarrow> string \<Rightarrow> world \<Rightarrow> bool" where
  "released s a w \<longleftrightarrow>
     (\<exists>n. find (keyed ns_meta '''' a) (w_namespaces w) = Some n \<and> s \<notin> set (slicesOf n))"

text \<open>The objects that the steps of the cleanup leave to each other.\<close>

definition same_cleanup :: "world \<Rightarrow> world \<Rightarrow> bool" where
  "same_cleanup w w' \<longleftrightarrow>
     w_slices w' = w_slices w \<and> w_serviceimports w' = w_serviceimports w
     \<and> w_serviceexports w' = w_serviceexports w \<and> w_networkservices w' = w_networkservices w"

lemma map_of_removeEntries: "map_of (removeEntries ls ms) k = None \<or> map_of (removeEntries ls ms) k = map_of ls k"
  by (induction ls ms rule: removeEntries.induct) (auto split: if_splits)

lemma slicesOf_unbindLabels: "slicesOf (unbindLabels cl ca n) = [] \<or> slicesOf (unbindLabels cl ca n) = slicesOf n"
  using map_of_removeEntries [of "ns_Annotations n" ca AllowedNamespaceAnnotationKey]
  by (auto simp: slicesOf_def unbindLabels_def Let_def)

lemma same_ns_registry:
  assumes "same_ns w w'"
  shows "registry_ok w' = registry_ok w" "released s a w' = released s a w"
  using assms by (simp_all add: same_ns_def registry_ok_def released_def)

context lawful
begin

lemma update_registry:
  assumes "r_update (k_namespaces K) n w = (None, w')" and "registry_ok w" and "distinct (slicesOf n)"
  shows "registry_ok w'"
proof -
  have "w' = tick (w_namespaces_update (replace_object ns_meta n) w)" using nsp.update_ok assms(1) by blast
  with assms(2,3) show ?thesis
    by (auto simp: registry_ok_def list_all_iff dest!: in_replace_object)
qed

lemma update_lookup:
  assumes "r_update (k_namespaces K) n w = (None, w')" and "om_Namespace (ns_meta n) = ''''"
  shows "find (keyed ns_meta '''' b) (w_namespaces w')
    = (if b = ns_Name n then Some n else find (keyed ns_meta '''' b) (w_namespaces w))"
proof -
  have w': "list_ex (same_key ns_meta n) (w_namespaces w)"
      "w' = tick (w_namespaces_update (replace_object ns_meta n) w)"
    using nsp.update_ok assms(1) by blast+
  show ?thesis
  proof (cases "b = ns_Name n")
    case True
    with find_replace_same [OF w'(1)] w'(2) assms(2) show ?thesis by simp
  next
    case False
    then have "\<not> keyed ns_meta '''' b n" by (simp add: keyed_def)
    from find_replace_other [OF this] False w'(2) show ?thesis by simp
  qed
qed

lemma unbind_app_registry:
  assumes "unbindAppNamespace K s a cl ca w = (None, w')" and reg: "registry_ok w"
  shows "registry_ok w'"
proof -
  obtain g w1 where g: "r_get (k_namespaces K) '''' a w = (g, w1)" by fastforce
  have s1: "same_ns w w1" using nsp.get_world [OF g] by simp
  have r1: "registry_ok w1" using reg same_ns_registry(1) [OF s1] by simp
  have rem: "registry_ok v'" if "removeSliceFromNamespace K s a v = (x, v')" "registry_ok v" for v v' x
    using same_ns_registry(1) [OF remove_slice_keeps [OF that(1)]] that(2) by simp
  show ?thesis
  proof (cases g)
    case (Inl e)
    with assms(1) g have "w' = w1" by (cases e; simp add: unbindAppNamespace_def)
    with r1 show ?thesis by simp
  next
    case (Inr n)
    then have n: "n \<in> set (w_namespaces w)"
      using nsp.get_ok g find_Some_iff' by fastforce
    show ?thesis
    proof (cases "map_of (ns_Labels n) ApplicationNamespaceSelectorLabelKey = None")
      case True
      with assms(1) g Inr have "removeSliceFromNamespace K s a w1 = (None, w')"
        by (simp add: unbindAppNamespace_def)
      from rem [OF this r1] show ?thesis .
    next
      case False
      obtain u w2 where u: "r_update (k_namespaces K) (unbindLabels cl ca n) w1 = (u, w2)" by fastforce
      with assms(1) g Inr False have uN: "u = None" and x: "removeSliceFromNamespace K s a w2 = (None, w')"
        by (cases u; simp add: unbindAppNamespace_def)+
      have "distinct (slicesOf n)" using n reg by (simp add: registry_ok_def list_all_iff)
      then have "distinct (slicesOf (unbindLabels cl ca n))"
        using slicesOf_unbindLabels [of cl ca n] by auto
      from update_registry [OF u [unfolded uN] r1 this] have "registry_ok w2" .
      from rem [OF x this] show ?thesis .
    qed
  qed
qed

lemma unbind_apps_ok:
  "unbindAppNamespaces K s cl ca as w = (None, w') \<Longrightarrow> ns_wf w \<Longrightarrow> registry_ok w \<Longrightarrow>
     ns_wf w' \<and> registry_ok w' \<and> bound_names t w' = bound_names t w - set as"
proof (induction as arbitrary: w)
  case (Cons a as)
  obtain u w1 where u: "unbindAppNamespace K s a cl ca w = (u, w1)" by fastforce
  with Cons.prems have uN: "u = None" and rest: "unbindAppNamespaces K s cl ca as w1 = (None, w')"
    by (cases u; simp)+
  note ub = unbind_app [OF u Cons.prems(2)]
  have "registry_ok w1" using unbind_app_registry u uN Cons.prems(3) by blast
  from Cons.IH [OF rest ub(1) this] ub(3) [OF uN, of t] show ?case by auto
qed simp

lemma unbind_allowed_ok:
  assumes "unbindAllowedNamespace K a s w = (None, w')" and wf: "ns_wf w" and reg: "registry_ok w"
  shows "ns_wf w' \<and> registry_ok w' \<and> released s a w'
    \<and> (\<forall>b. released s b w \<longrightarrow> released s b w') \<and> bound_names t w' = bound_names t w"
proof -
  obtain g w1 where g: "r_get (k_namespaces K) '''' a w = (g, w1)" by fastforce
  have s1: "same_ns w w1" using nsp.get_world [OF g] by simp
  obtain n where n: "g = Inr n" using assms(1) g by (cases g) (auto simp: unbindAllowedNamespace_def)
  have l: "find (keyed ns_meta '''' a) (w_namespaces w) = Some n" using nsp.get_ok g n by blast
  from find_Some_iff' [OF l] have nn: "n \<in> set (w_namespaces w)" "ns_Name n = a" "om_Namespace (ns_meta n) = ''''"
    by (simp_all add: keyed_def)
  have d: "distinct (slicesOf n)" using nn(1) reg by (simp add: registry_ok_def list_all_iff)
  have s: "s \<notin> set (slicesOf (unbound s n))" using d by (simp add: slicesOf_unbound)
  show ?thesis
  proof (cases "unbindSlice s n")
    case None
    then have "w' = w1" "unbound s n = n"
      using assms(1) g n by (simp_all add: unbindAllowedNamespace_def unbound_def)
    with s l wf reg show ?thesis
      by (auto simp: same_nsD [OF s1] same_ns_registry [OF s1]) (auto simp: released_def)
  next
    case (Some m)
    then have u: "r_update (k_namespaces K) m w1 = (None, w')" and m: "unbound s n = m"
      using assms(1) g n by (simp_all add: unbindAllowedNamespace_def unbound_def)
    have mm: "ns_Name m = a" "om_Namespace (ns_meta m) = ''''"
        "bound_to t m \<longleftrightarrow> bound_to t n"
      using Some nn(2,3) by (auto simp: unbindSlice_def Let_def bound_to_def slice_key_defs label_key_defs
          split: option.splits if_splits)
    have wf1: "ns_wf w1" and reg1: "registry_ok w1"
      using wf reg same_nsD(3) [OF s1] same_ns_registry(1) [OF s1] by simp_all
    note up = update_namespace [OF u wf1 mm(2)]
    have lk: "find (keyed ns_meta '''' b) (w_namespaces w')
        = (if b = a then Some m else find (keyed ns_meta '''' b) (w_namespaces w))" for b
      using update_lookup [OF u mm(2), of b] s1 mm(1) by (simp add: same_ns_def)
    have dm: "distinct (slicesOf m)" using d m slicesOf_unbound [of s n] by (metis distinct_remove1)
    have bn: "a \<in> bound_names t w \<longleftrightarrow> bound_to t n" using l by (simp add: bound_names_iff [OF wf])
    have "bound_names t w' = bound_names t w"
      using up(3) [of t] mm bn same_nsD(2) [OF s1, of t] by auto
    moreover have "released s b w'" if "released s b w \<or> b = a" for b
      using that s m by (auto simp: released_def lk)
    ultimately show ?thesis using up(1) update_registry [OF u reg1 dm] by blast
  qed
qed

lemma unbind_alloweds_ok:
  "unbindAllowedNamespaces K s as w = (None, w') \<Longrightarrow> ns_wf w \<Longrightarrow> registry_ok w \<Longrightarrow>
     ns_wf w' \<and> registry_ok w' \<and> (\<forall>a. released s a w \<or> a \<in> set as \<longrightarrow> released s a w')
     \<and> bound_names t w' = bound_names t w"
proof (induction as arbitrary: w)
  case (Cons a as)
  obtain u w1 where u: "unbindAllowedNamespace K a s w = (u, w1)" by fastforce
  with Cons.prems have uN: "u = None" and rest: "unbindAllowedNamespaces K s as w1 = (None, w')"
    by (cases u; simp)+
  note ub = unbind_allowed_ok [OF u [unfolded uN] Cons.prems(2,3), of t]
  from Cons.IH [OF rest] ub show ?case by auto
qed simp

lemma cleanup_namespaces_ok:
  assumes "cleanupSliceNamespaces K E s w = (None, w')" and wf: "ns_wf w" and reg: "registry_ok w"
  shows "ns_wf w'" "bound_names (sl_Name s) w' = {}"
    "a \<in> set (sl_AllowedNamespaces s) \<Longrightarrow> released (sl_Name s) a w'"
proof -
  obtain c w2 where c: "GetClusterNamespaceConfig K E (ClusterName E) w = (c, w2)" by fastforce
  have w2: "w2 = tick w" by (rule GetClusterNamespaceConfig_world [OF c])
  obtain cl ca where cc: "(case c of Inl e \<Rightarrow> ([], []) | Inr c \<Rightarrow> c) = (cl, ca)" by (metis surj_pair)
  obtain l w3 where l: "r_list (k_namespaces K) (app_selector (sl_Name s)) w2 = (l, w3)" by fastforce
  obtain ns where ns: "l = Inr ns" using assms(1) c cc l by (cases l) (simp_all add: cleanupSliceNamespaces_def)
  note li = listed_bound [OF l [unfolded ns]]
  have s3: "same_ns w w3" using w2 li(1) by (simp add: same_ns_def ns_frame_def)
  have s2: "same_ns w w2" using w2 by simp
  obtain u w4 where u: "unbindAppNamespaces K (sl_Name s) cl ca (map ns_Name ns) w3 = (u, w4)" by fastforce
  have uN: "u = None" and al: "unbindAllowedNamespaces K (sl_Name s) (sl_AllowedNamespaces s) w4 = (None, w')"
    using assms(1) c cc l ns u by (cases u; simp add: cleanupSliceNamespaces_def)+
  have "ns_wf w3" "registry_ok w3"
    using wf reg same_nsD(3) [OF s3] same_ns_registry(1) [OF s3] by simp_all
  note ua = unbind_apps_ok [OF u [unfolded uN] this, of "sl_Name s"]
  have "bound_names (sl_Name s) w4 = {}"
    using ua li(2) same_nsD(2) [OF s3] same_nsD(2) [OF s2] by simp
  moreover note ub = unbind_alloweds_ok [OF al, of "sl_Name s"]
  ultimately show "ns_wf w'" "bound_names (sl_Name s) w' = {}"
    "a \<in> set (sl_AllowedNamespaces s) \<Longrightarrow> released (sl_Name s) a w'"
    using ua by simp_all
qed

lemma removeLabel_ok:
  assumes "removeLabel K w = (None, w')" and wf: "ns_wf w"
  shows "bound_names t w' = bound_names t w" "released s a w \<Longrightarrow> released s a w'"
    "same_cleanup w w'"
proof -
  obtain l w1 where l: "r_list (k_slices K) (in_namespace ControlPlaneNamespace []) w = (l, w1)" by fastforce
  have w1: "w1 = tick w" by (rule slice.list_world [OF l])
  obtain ss where ss: "l = Inr ss" using assms(1) l by (cases l) (auto simp: removeLabel_def)
  have triv: "bound_names t v = bound_names t w \<and> (released s a w \<longrightarrow> released s a v)
      \<and> (same_cleanup w v)" if "v = tick w \<or> v = tick (tick w)" for v
    using that by (auto simp: bound_names_def released_def same_cleanup_def)
  have "bound_names t w' = bound_names t w \<and> (released s a w \<longrightarrow> released s a w')
      \<and> (same_cleanup w w')"
  proof (cases "length ss = 1")
    case False
    with assms(1) l ss w1 have "w' = tick w" by (simp add: removeLabel_def)
    with triv show ?thesis by blast
  next
    case True
    obtain g w2 where g: "r_get (k_namespaces K) '''' ControlPlaneNamespace w1 = (g, w2)" by fastforce
    have w2: "w2 = tick w1" by (rule nsp.get_world [OF g])
    obtain n where n: "g = Inr n" using assms(1) l ss True g by (cases g) (auto simp: removeLabel_def)
    have lk: "find (keyed ns_meta '''' ControlPlaneNamespace) (w_namespaces w) = Some n"
      using nsp.get_ok g n w1 by fastforce
    from find_Some_iff' [OF lk] have nn: "ns_Name n = ControlPlaneNamespace" "om_Namespace (ns_meta n) = ''''"
      by (simp_all add: keyed_def)
    show ?thesis
    proof (cases "map_of (ns_Labels n) InjectSidecarKey = None")
      case True': True
      with assms(1) l ss True g n have "w' = w2" by (simp add: removeLabel_def)
      with triv w1 w2 show ?thesis by blast
    next
      case False
      let ?m = "set_ns_Labels (AList.delete InjectSidecarKey (ns_Labels n)) n"
      have u: "r_update (k_namespaces K) ?m w2 = (None, w')"
        using assms(1) l ss True g n False by (simp add: removeLabel_def)
      have mm: "ns_Name ?m = ns_Name n" "om_Namespace (ns_meta ?m) = ''''" "bound_to t ?m \<longleftrightarrow> bound_to t n"
          "slicesOf ?m = slicesOf n"
        using nn by (simp_all add: bound_to_def slicesOf_def slice_key_defs label_key_defs)
      have s2: "same_ns w w2" using w1 w2 by (simp add: same_ns_def ns_frame_def)
      have wf2: "ns_wf w2" using wf same_nsD(3) [OF s2] by simp
      have bn: "ns_Name n \<in> bound_names t w \<longleftrightarrow> bound_to t n"
        using lk nn by (simp add: bound_names_iff [OF wf])
      have "bound_names t w' = bound_names t w"
        using update_namespace(3) [OF u wf2 mm(2), of t] mm(1,3) bn same_nsD(2) [OF s2, of t] by auto
      moreover have "released s a w'" if "released s a w"
        using that update_lookup [OF u mm(2), of a] mm(1,4) nn(1) lk s2
        by (auto simp: released_def same_ns_def)
      moreover have "w' = tick (w_namespaces_update (replace_object ns_meta ?m) w2)"
        using nsp.update_ok [OF u] by blast
      then have "same_cleanup w w'" using w1 w2 by (simp add: same_cleanup_def)
      ultimately show ?thesis by blast
    qed
  qed
  then show "bound_names t w' = bound_names t w" "released s a w \<Longrightarrow> released s a w'"
    "same_cleanup w w'" by blast+
qed

end

text \<open>Nothing of the slice is left for the service discovery and the network service mesh.\<close>

definition no_discovery :: "string \<Rightarrow> world \<Rightarrow> bool" where
  "no_discovery s w \<longleftrightarrow>
     filter (selects si_meta no_phase (app_selector s)) (w_serviceimports w) = []
     \<and> filter (selects se_meta no_phase (app_selector s)) (w_serviceexports w) = []"

definition no_network_service :: "string \<Rightarrow> world \<Rightarrow> bool" where
  "no_network_service s w \<longleftrightarrow>
     find (keyed ao_meta ControlPlaneNamespace (''vl3-service-'' @ s)) (w_networkservices w) = None"

context lawful
begin

lemma cleanupVl3NSE_ok:
  assumes "cleanupVl3NSE K s w = (None, w')"
  shows "same_ns w w'" "no_network_service s w'" "w_slices w' = w_slices w"
proof -
  let ?n = "''vl3-service-'' @ s"
  obtain g w1 where g: "r_get (k_networkservices K) ControlPlaneNamespace ?n w = (g, w1)" by fastforce
  have w1: "w1 = tick w" by (rule nsv.get_world [OF g])
  have "same_ns w w' \<and> no_network_service s w'"
  proof (cases g)
    case (Inl e)
    with assms g have "e = NotFound" "w' = w1"
      by (cases e; simp add: cleanupVl3NSE_def Let_def)+
    moreover have "find (keyed ao_meta ControlPlaneNamespace ?n) (w_networkservices w) = None"
      using nsv.get_err g Inl calculation(1) by blast
    ultimately show ?thesis using w1 by (simp add: no_network_service_def)
  next
    case (Inr v)
    with assms g have "r_delete (k_networkservices K) ControlPlaneNamespace ?n w1 = (None, w')"
      by (simp add: cleanupVl3NSE_def Let_def)
    with nsv.delete_ok
    have "w' = tick (w_networkservices_update (remove_object ao_meta ControlPlaneNamespace ?n) w1)" by blast
    then show ?thesis
      using w1 by (simp add: no_network_service_def find_remove_same same_ns_def ns_frame_def)
  qed
  then show "same_ns w w'" "no_network_service s w'" by auto
  then show "w_slices w' = w_slices w" by (simp add: same_ns_def ns_frame_def)
qed

lemma cleanup_discovery_ok:
  assumes "cleanupServiceDiscoveryObjects K s w = (None, w')"
    and served: "\<And>lo v. fst (r_list (k_serviceimports K) lo v) \<noteq> Inl NotFound"
      "\<And>lo v. fst (r_list (k_serviceexports K) lo v) \<noteq> Inl NotFound"
  shows "same_ns w w'" "no_discovery s w'" "no_network_service t w' = no_network_service t w"
proof -
  let ?Q = "\<lambda>v v'. same_ns v v' \<and> w_networkservices v' = w_networkservices v"
  obtain w1 where i: "cleanupServiceImport K s w = (None, w1)" and e: "cleanupServiceExport K s w1 = (None, w')"
    using assms(1) by (auto simp: cleanupServiceDiscoveryObjects_def split: prod.splits option.splits)
  obtain l v1 where l: "r_list (k_serviceimports K) (app_selector s) w = (l, v1)" by fastforce
  have v1: "v1 = tick w" by (rule svi.list_world [OF l])
  obtain imps where imps: "l = Inr imps" and d: "deleteAll (k_serviceimports K) si_meta imps v1 = (None, w1)"
    using i l served(1) [of "app_selector s" w]
    by (cases l) (auto simp: cleanupServiceImport_def split: go_error.splits)
  obtain l2 v2 where l2: "r_list (k_serviceexports K) (app_selector s) w1 = (l2, v2)" by fastforce
  have v2: "v2 = tick w1" by (rule sve.list_world [OF l2])
  obtain exps where exps: "l2 = Inr exps" and d2: "deleteAll (k_serviceexports K) se_meta exps v2 = (None, w')"
    using e l2 served(2) [of "app_selector s" w1]
    by (cases l2) (auto simp: cleanupServiceExport_def split: go_error.splits)
  have q1: "?Q v1 w1"
    by (rule svi.deleteAll_keeps [OF d]) (auto intro: same_ns_trans, simp_all add: same_ns_def ns_frame_def)
  have q2: "?Q v2 w' \<and> w_serviceimports w' = w_serviceimports v2"
    by (rule sve.deleteAll_keeps [OF d2]) (auto intro: same_ns_trans, simp_all add: same_ns_def ns_frame_def)
  have sv: "same_ns w v1" "same_ns w1 v2" using v1 v2 by simp_all
  then show "same_ns w w'" using q1 q2 by (meson same_ns_trans)
  have "w_networkservices w' = w_networkservices w" using q1 q2 v1 v2 by simp
  then show "no_network_service t w' = no_network_service t w" by (simp add: no_network_service_def)
  show "no_discovery s w'"
    using svi.delete_listed [OF l [unfolded imps] d] sve.delete_listed [OF l2 [unfolded exps] d2] q2 v2
    by (simp add: no_discovery_def)
qed

lemma cleanup_resources_ok:
  assumes "cleanupSliceResources K E s w = (None, w')" and wf: "ns_wf w" and reg: "registry_ok w"
    and served: "\<And>lo v. fst (r_list (k_serviceimports K) lo v) \<noteq> Inl NotFound"
      "\<And>lo v. fst (r_list (k_serviceexports K) lo v) \<noteq> Inl NotFound"
  shows "bound_names (sl_Name s) w' = {}" "a \<in> set (sl_AllowedNamespaces s) \<Longrightarrow> released (sl_Name s) a w'"
    "no_discovery (sl_Name s) w'" "has_network s \<Longrightarrow> no_network_service (sl_Name s) w'"
proof -
  obtain x w1 where x: "cleanupSliceNamespaces K E s w = (x, w1)" by fastforce
  have xN: "x = None" using assms(1) x by (cases x) (auto simp: cleanupSliceResources_def)
  obtain y w2 where y: "(if has_network s then cleanupVl3NSE K (sl_Name s) w1 else (None, w1)) = (y, w2)" by fastforce
  have yN: "y = None" using assms(1) x xN y by (cases y) (auto simp: cleanupSliceResources_def)
  obtain z w3 where z: "cleanupServiceDiscoveryObjects K (sl_Name s) w2 = (z, w3)" by fastforce
  have zN: "z = None" and rl: "removeLabel K w3 = (None, w')"
    using assms(1) x xN y yN z by (cases z; simp add: cleanupSliceResources_def)+
  note cn = cleanup_namespaces_ok [OF x [unfolded xN] wf reg]
  have s12: "same_ns w1 w2" using y yN cleanupVl3NSE_ok by (auto split: if_splits)
  note cd = cleanup_discovery_ok [OF z [unfolded zN] served]
  have s13: "same_ns w1 w3" using s12 cd(1) by (rule same_ns_trans)
  have wf3: "ns_wf w3" using cn(1) same_nsD(3) [OF s13] by simp
  note rm = removeLabel_ok [OF rl wf3]
  show "bound_names (sl_Name s) w' = {}" using rm(1) cn(2) same_nsD(2) [OF s13] by simp
  show "released (sl_Name s) a w'" if "a \<in> set (sl_AllowedNamespaces s)"
    using rm(2) cn(3) [OF that] same_ns_registry(2) [OF s13] by simp
  show "no_discovery (sl_Name s) w'" using cd(2) rm(3) by (simp add: no_discovery_def same_cleanup_def)
  show "no_network_service (sl_Name s) w'" if "has_network s"
    using that y yN cleanupVl3NSE_ok(2) cd(3) [of "sl_Name s"] rm(3)
    by (simp add: no_network_service_def same_cleanup_def)
qed

end


end
