(* ===== verification/EdgePorts.thy ===== *)
theory EdgePorts
  imports SliceReconcile
begin

text \<open>
  What the network components of a slice converge to: the slice router with its service, and
  the ports of the gateway edge.
\<close>

section \<open>The slice router\<close>

definition router_deployed :: "slice \<Rightarrow> world \<Rightarrow> bool" where
  "router_deployed s w \<longleftrightarrow>
     find (keyed d_meta (sl_Namespace s) (sliceRouterDeploymentNamePrefix @ sl_Name s)) (w_deployments w) \<noteq> None"

definition router_served :: "slice \<Rightarrow> world \<Rightarrow> bool" where
  "router_served s w \<longleftrightarrow>
     find (keyed s_meta ControlPlaneNamespace (sliceRouterDeploymentNamePrefix @ sl_Name s)) (w_services w) \<noteq> None"

context reliable
begin

lemma router_step_deploy:
  assumes "sl_Config s = Some c" "sliceConfigDefined s" and "\<not> router_deployed s w"
  shows "\<exists>w'. ReconcileSliceRouter K E s w = ((result_after 10, None, True), w')
    \<and> router_deployed s w' \<and> router_served s w' = router_served s w"
proof -
  let ?name = "sliceRouterDeploymentNamePrefix @ sl_Name s"
  let ?pods = "filter (selects p_meta p_Phase (in_namespace (sl_Namespace s) [(''app'', ''nsm-vpp-plane'')])) (w_pods (tick w))"
  let ?dp = "if length ?pods > 0 then ''vpp'' else ''kernel''"
  let ?d = "deploymentForSliceRouter K E s c ?dp"
  let ?w' = "tick (w_deployments_update (\<lambda>xs. xs @ [?d]) (tick (tick w)))"
  have g: "r_get (k_deployments K) (sl_Namespace s) ?name w = (Inl NotFound, tick w)"
    using assms(3) by (intro depr.get_absent) (simp add: router_deployed_def)
  have mode: "getNsmDataplaneMode K s (tick w) = (Inr ?dp, tick (tick w))"
    by (simp only: getNsmDataplaneMode_def podr.list_all_ok prod.case sum.case)
  have m: "om_Namespace (setOwner K o' x) = om_Namespace x" "om_Name (setOwner K o' x) = om_Name x" for o' x
    by (simp_all add: setOwner_def split: option.split)
  then have k: "om_Namespace (d_meta ?d) = sl_Namespace s" "d_Name ?d = ?name"
    by (simp_all add: deploymentForSliceRouter_def Let_def)
  have "\<not> list_ex (same_key d_meta ?d) (w_deployments (tick (tick w)))"
    using assms(3) k by (simp add: same_key_def [abs_def] find_keyed_list_ex router_deployed_def)
  note c = depr.create_absent [OF this]
  have "deploySliceRouter K E s c (tick w) = (None, ?w')"
    using c by (simp add: deploySliceRouter_def mode)
  then have "ReconcileSliceRouter K E s w = ((result_after 10, None, True), ?w')"
    using g assms(1,2) by (simp add: ReconcileSliceRouter_def newDeploymentSliceRouter_def Let_def)
  moreover have "keyed d_meta (sl_Namespace s) ?name ?d" using k by (simp add: keyed_def)
  then have "router_deployed s ?w'"
    by (auto simp: router_deployed_def find_None_iff)
  moreover have "router_served s ?w' = router_served s w" by (simp add: router_served_def)
  ultimately show ?thesis by blast
qed

lemma router_step_serve:
  assumes "sl_Config s = Some c" and "router_deployed s w" "\<not> router_served s w"
    and own: "\<And>m. om_Namespace m = ControlPlaneNamespace \<Longrightarrow> k_setControllerReference K (sl_meta s) m = None"
  shows "\<exists>w'. ReconcileSliceRouter K E s w = ((result_after 10, None, True), w')
    \<and> router_deployed s w' \<and> router_served s w'"
proof -
  let ?name = "sliceRouterDeploymentNamePrefix @ sl_Name s"
  let ?svc = "(serviceForSliceRouter s)\<lparr>s_meta := (s_meta (serviceForSliceRouter s))\<lparr>om_Owner := Some (sl_Name s)\<rparr>\<rparr>"
  let ?w' = "tick (w_services_update (\<lambda>xs. xs @ [?svc]) (tick (tick w)))"
  obtain d where d: "r_get (k_deployments K) (sl_Namespace s) ?name w = (Inr d, tick w)"
    using assms(2) depr.get_found by (auto simp: router_deployed_def)
  have g: "r_get (k_services K) ControlPlaneNamespace ?name (tick w) = (Inl NotFound, tick (tick w))"
    using assms(3) by (intro svcr.get_absent) (simp add: router_served_def)
  have k: "om_Namespace (s_meta ?svc) = ControlPlaneNamespace" "s_Name ?svc = ?name"
    by (simp_all add: serviceForSliceRouter_def)
  have "\<not> list_ex (same_key s_meta ?svc) (w_services (tick (tick w)))"
    using assms(3) k by (simp add: same_key_def [abs_def] find_keyed_list_ex router_served_def)
  note c = svcr.create_absent [OF this]
  have "k_setControllerReference K (sl_meta s) (s_meta (serviceForSliceRouter s)) = None"
    by (rule own) (simp add: serviceForSliceRouter_def)
  then have "deploySliceRouterSvc K s (tick (tick w)) = (None, ?w')"
    using c by (simp add: deploySliceRouterSvc_def Let_def)
  then have "ReconcileSliceRouter K E s w = ((result_after 10, None, True), ?w')"
    using d g assms(1) by (simp add: ReconcileSliceRouter_def newServiceSliceRouter_def Let_def)
  moreover have "keyed s_meta ControlPlaneNamespace ?name ?svc" using k by (simp add: keyed_def)
  then have "router_served s ?w'" by (auto simp: router_served_def find_None_iff)
  moreover have "router_deployed s ?w'" using assms(2) by (simp add: router_deployed_def)
  ultimately show ?thesis by blast
qed

lemma router_step_done:
  assumes "router_deployed s w" "router_served s w"
  shows "ReconcileSliceRouter K E s w = ((result_none, None, False), tick (tick w))"
proof -
  let ?name = "sliceRouterDeploymentNamePrefix @ sl_Name s"
  obtain d where d: "r_get (k_deployments K) (sl_Namespace s) ?name w = (Inr d, tick w)"
    using assms(1) depr.get_found by (auto simp: router_deployed_def)
  obtain v where "r_get (k_services K) ControlPlaneNamespace ?name (tick w) = (Inr v, tick (tick w))"
    using assms(2) svcr.get_found [of ControlPlaneNamespace ?name "tick w"]
    by (auto simp: router_served_def)
  with d show ?thesis by (simp add: ReconcileSliceRouter_def Let_def)
qed

lemma router_settles_in_three:
  assumes cfg: "sl_Config s = Some c" "sliceConfigDefined s"
    and own: "\<And>m. om_Namespace m = ControlPlaneNamespace \<Longrightarrow> k_setControllerReference K (sl_meta s) m = None"
  shows "let step = (\<lambda>w. snd (ReconcileSliceRouter K E s w)); w2 = step (step w)
    in router_deployed s w2 \<and> router_served s w2
       \<and> fst (ReconcileSliceRouter K E s w2) = (result_none, None, False)"
proof -
  let ?step = "\<lambda>w. snd (ReconcileSliceRouter K E s w)"
  have two: "router_deployed s (?step w) \<and> router_served s (?step w)" if d: "router_deployed s w" for w
  proof (cases "router_served s w")
    case True
    with d have "?step w = tick (tick w)" by (simp add: router_step_done)
    with d True show ?thesis by (simp add: router_deployed_def router_served_def)
  next
    case False
    from router_step_serve [OF cfg(1) d False own, of E] show ?thesis by auto
  qed
  have one: "router_deployed s (?step w)" for w
  proof (cases "router_deployed s w")
    case True
    from two [OF this] show ?thesis by blast
  next
    case False
    from router_step_deploy [OF cfg False, of E] show ?thesis by auto
  qed
  have "router_deployed s (?step (?step w))" "router_served s (?step (?step w))"
    using one two by blast+
  then show ?thesis by (simp add: Let_def router_step_done)
qed

end

text \<open>
  C21: The slice router comes up. For a slice whose subnets are known, and without failures, two
  steps are enough from any cluster: the router is then deployed and has its service, and the
  next step goes on to the other components.
\<close>

theorem slice_router_settles:
  assumes "sl_Config s = Some c" "sliceConfigDefined s" "sl_Namespace s = ControlPlaneNamespace"
  shows "let step = (\<lambda>w. snd (ReconcileSliceRouter (ref_kube no_faults R) E s w)); w2 = step (step w)
    in router_deployed s w2 \<and> router_served s w2
       \<and> fst (ReconcileSliceRouter (ref_kube no_faults R) E s w2) = (result_none, None, False)"
  by (rule up.router_settles_in_three [OF assms(1,2)]) (simp add: ref_kube_def assms(3))

section \<open>The ports of the edge\<close>

text \<open>The port of an edge service with a given name (the last one, when names repeat).\<close>

definition edge_port :: "service \<Rightarrow> string \<Rightarrow> int option" where
  "edge_port svc n = map_of (rev (map (\<lambda>p. (sp_Name p, sp_Port p)) (s_Ports svc))) n"

lemma fold_update_ports:
  "map_of (foldl (\<lambda>m p. AList.update (f p) (g p) m) m ps) n =
     (case map_of (rev (map (\<lambda>p. (f p, g p)) ps)) n of None \<Rightarrow> map_of m n | Some x \<Rightarrow> Some x)"
  by (induction ps arbitrary: m) (auto simp: map_add_def split: option.splits)

lemma fold_update_distinct:
  "distinct (map fst m) \<Longrightarrow> distinct (map fst (foldl (\<lambda>m p. AList.update (f p) (g p) m) m ps))"
  by (induction ps arbitrary: m) (simp_all add: distinct_update)

text \<open>Two association lists with distinct keys are the same map if one includes the other.\<close>

lemma same_length_same_map:
  assumes "distinct (map fst xs)" "distinct (map fst ys)" and "length xs = length ys"
    and "\<And>n x. (n, x) \<in> set ys \<Longrightarrow> map_of xs n = Some x"
  shows "map_of xs = map_of ys"
proof -
  have "set ys \<subseteq> set xs" using assms(4) by (auto dest: map_of_SomeD)
  moreover have "card (set xs) = card (set ys)"
    using assms(1-3) by (simp add: distinct_card distinct_map)
  ultimately have "set xs = set ys" by (metis List.finite_set card_subset_eq)
  then show ?thesis using assms(1,2) by (metis map_of_eqI map_of_inject_set)
qed

text \<open>
  The comparison of the edge service with the port map is equality of the two as maps from
  the names of the gateway services to ports, whatever the order of the ports in the service.
\<close>

theorem edge_ports_equal:
  assumes "distinct (map fst portmap)"
  shows "allPortsAccountedInEdgeSvc svc portmap \<longleftrightarrow> (\<forall>n. edge_port svc n = map_of portmap n)"
proof -
  let ?m = "foldl (\<lambda>m p. AList.update (sp_Name p) (sp_Port p) m) [] (s_Ports svc)"
  have m: "map_of ?m n = edge_port svc n" for n
    by (simp add: fold_update_ports edge_port_def split: option.split)
  have d: "distinct (map fst ?m)" by (rule fold_update_distinct) simp
  have len: "length al = card (dom (map_of al))" if "distinct (map fst al)" for al :: "(string \<times> int) list"
    using that by (metis dom_map_of_conv_image_fst distinct_card length_map list.set_map)
  show ?thesis
  proof
    assume "allPortsAccountedInEdgeSvc svc portmap"
    then have "length ?m = length portmap" "\<And>n x. (n, x) \<in> set portmap \<Longrightarrow> map_of ?m n = Some x"
      by (auto simp: allPortsAccountedInEdgeSvc_def Let_def list_all_iff split: if_splits)
    from same_length_same_map [OF d assms this] show "\<forall>n. edge_port svc n = map_of portmap n"
      by (simp add: m [symmetric])
  next
    assume e: "\<forall>n. edge_port svc n = map_of portmap n"
    then have eq: "map_of ?m = map_of portmap" by (simp add: fun_eq_iff m)
    then have "length ?m = length portmap" using len [OF d] len [OF assms] by simp
    with eq assms show "allPortsAccountedInEdgeSvc svc portmap"
      by (auto simp: allPortsAccountedInEdgeSvc_def Let_def list_all_iff)
  qed
qed

lemma gwPortmap_distinct:
  "gwPortmap svcs m = Ret pm \<Longrightarrow> distinct (map fst m) \<Longrightarrow> distinct (map fst pm)"
  by (induction svcs m rule: gwPortmap.induct) (auto simp: distinct_update split: list.splits)

lemma gwPortmap_returns: "gwPortmap svcs m \<noteq> Panic \<longleftrightarrow> (\<forall>svc \<in> set svcs. s_Ports svc \<noteq> [])"
  by (induction svcs m rule: gwPortmap.induct) (auto split: list.splits)

lemma gwPortmap_lookup:
  assumes "gwPortmap svcs m = Ret pm" and "distinct (map s_Name svcs)"
  shows "map_of pm n = (case find (\<lambda>svc. s_Name svc = n) svcs of
      None \<Rightarrow> map_of m n | Some svc \<Rightarrow> Some (sp_NodePort (hd (s_Ports svc))))"
  using assms
proof (induction svcs m rule: gwPortmap.induct)
  case (1 m)
  then show ?case by simp
next
  case (2 svc svcs m)
  then obtain p ps where p: "s_Ports svc = p # ps" by (auto split: list.splits)
  have no: "find (\<lambda>v. s_Name v = s_Name svc) svcs = None"
    using "2.prems"(2) by (auto simp: find_None_iff image_iff)
  from "2.IH" [OF p] "2.prems" p no show ?case by (auto split: option.splits)
qed

lemma edge_port_list:
  assumes "set (ord (map fst pm)) = set (map fst pm)"
  shows "edge_port (svc\<lparr>s_Ports := getPortListForEdgeSvc ord c pm\<rparr>) n = map_of pm n"
proof -
  let ?f = "\<lambda>k. case map_of pm k of None \<Rightarrow> 0 | Some p \<Rightarrow> p"
  have "map_of (rev (map (\<lambda>k. (k, ?f k)) xs)) n = (if n \<in> set xs then Some (?f n) else None)" for xs
    by (induction xs) (auto simp: map_add_def)
  then have "edge_port (svc\<lparr>s_Ports := getPortListForEdgeSvc ord c pm\<rparr>) n
      = (if n \<in> set (ord (map fst pm)) then Some (?f n) else None)"
    by (simp add: edge_port_def getPortListForEdgeSvc_def Let_def comp_def)
  also have "\<dots> = map_of pm n"
  proof (cases "map_of pm n")
    case None
    then have "n \<notin> set (map fst pm)" by (simp add: map_of_eq_None_iff)
    with None assms show ?thesis by simp
  next
    case (Some x)
    then have "n \<in> set (map fst pm)" by (metis list.set_map map_of_eq_None_iff option.distinct(1))
    with Some assms show ?thesis by simp
  qed
  finally show ?thesis .
qed

definition gateway_services :: "string \<Rightarrow> world \<Rightarrow> service list" where
  "gateway_services sliceName w =
     filter (selects s_meta no_phase
       (in_namespace ControlPlaneNamespace [(ApplicationNamespaceSelectorLabelKey, sliceName)]))
       (w_services w)"

definition edge_services :: "string \<Rightarrow> world \<Rightarrow> service list" where
  "edge_services sliceName w =
     filter (selects s_meta no_phase
       (in_namespace ControlPlaneNamespace (labelsForSliceGatewayEdgeSvc sliceName))) (w_services w)"

lemma filter_replace_hd:
  assumes "filter P xs = x # rest" and "meta y = meta x" and "\<And>a. P a = Q (meta a)"
  shows "\<exists>rest'. filter P (replace_object meta y xs) = y # rest'"
proof -
  have "\<exists>us vs. xs = us @ x # vs \<and> (\<forall>u\<in>set us. \<not> P u) \<and> P x"
    using assms(1) by (auto simp: filter_eq_Cons_iff)
  then obtain us vs where xs: "xs = us @ x # vs" "\<forall>u\<in>set us. \<not> P u" "P x" by blast
  let ?r = "\<lambda>z. if keyed meta (om_Namespace (meta y)) (om_Name (meta y)) z then y else z"
  show ?thesis
  proof (cases "\<exists>u\<in>set us. keyed meta (om_Namespace (meta y)) (om_Name (meta y)) u")
    case False
    then have "map ?r us = us" by (intro map_idI) auto
    moreover have "?r x = y" using assms(2) by (simp add: keyed_def)
    moreover have "P y" using xs(3) assms(2,3) by simp
    moreover have "filter P us = []" using xs(2) by (simp add: filter_empty_conv)
    ultimately show ?thesis by (simp add: replace_object_def xs(1))
  next
    case True
    then obtain u us1 us2 where u: "us = us1 @ u # us2" "keyed meta (om_Namespace (meta y)) (om_Name (meta y)) u"
        "\<forall>v\<in>set us1. \<not> keyed meta (om_Namespace (meta y)) (om_Name (meta y)) v"
      using split_list_first_prop [OF True] by blast
    have "map ?r us1 = us1" using u(3) by (intro map_idI) auto
    moreover have "filter P us1 = []" using xs(2) u(1) by (simp add: filter_empty_conv)
    moreover have "P y" using xs(3) assms(2,3) by simp
    ultimately show ?thesis using u by (simp add: replace_object_def xs(1))
  qed
qed

text \<open>What a step over the edge service that goes on has read, and what it has written.\<close>

lemma edge_service_step:
  assumes "lawful K"
    and "reconcileSliceGatewayEdgeService K ord s c w = (Ret (res, None, False), w')"
    and "gateway_services (sl_Name s) w \<noteq> []"
  obtains pm edge rest where
    "gwPortmap (gateway_services (sl_Name s) w) [] = Ret pm"
    "edge_services (sl_Name s) w = edge # rest"
    "w_services w' = (if allPortsAccountedInEdgeSvc edge pm then w_services w
       else replace_object s_meta (edge\<lparr>s_Ports := getPortListForEdgeSvc ord c pm\<rparr>) (w_services w))"
proof -
  note svc = lawful.services [OF assms(1)]
  obtain l w1 where l: "GetSliceGwServices K (sl_Name s) w = (l, w1)" by fastforce
  obtain svcs where svcs: "l = Inr svcs"
    using assms(2) l by (cases l) (auto simp: reconcileSliceGatewayEdgeService_def)
  have w1: "w1 = tick w" and sv: "svcs = gateway_services (sl_Name s) w"
    using resource.list_ok [OF svc] l svcs
    unfolding GetSliceGwServices_def gateway_services_def by blast+
  obtain pm where pm: "gwPortmap svcs [] = Ret pm"
    using assms(2,3) l svcs sv by (cases "gwPortmap svcs []") (auto simp: reconcileSliceGatewayEdgeService_def)
  obtain el w2 where el: "getSliceGatewayEdgeServices K s w1 = (el, w2)" by fastforce
  have no_create: "createEdgeServiceStep K ord s c pm v \<noteq> (Ret (res, None, False), w')" for v
    by (simp add: createEdgeServiceStep_def split: prod.split option.split)
  have w2: "w2 = tick w1"
    using resource.list_world [OF svc] el unfolding getSliceGatewayEdgeServices_def by blast
  note step = assms(2,3) l svcs sv pm el
  obtain edge rest where e: "el = Inr (edge # rest)"
  proof (cases el)
    case (Inl e)
    then show ?thesis using step no_create [of w2]
      by (cases e) (auto simp: reconcileSliceGatewayEdgeService_def)
  next
    case (Inr es)
    then show ?thesis using step no_create [of w2] that
      by (cases es) (auto simp: reconcileSliceGatewayEdgeService_def)
  qed
  have es: "edge_services (sl_Name s) w1 = edge # rest"
    using resource.list_ok [OF svc] el e unfolding getSliceGatewayEdgeServices_def edge_services_def
    by fastforce
  let ?edge = "edge\<lparr>s_Ports := getPortListForEdgeSvc ord c pm\<rparr>"
  have "w_services w' = (if allPortsAccountedInEdgeSvc edge pm then w_services w
      else replace_object s_meta ?edge (w_services w))"
  proof (cases "allPortsAccountedInEdgeSvc edge pm")
    case True
    then have "w' = w2" using step e by (simp add: reconcileSliceGatewayEdgeService_def)
    then show ?thesis using True w1 w2 by simp
  next
    case False
    then have "r_update (k_services K) ?edge w2 = (None, w')"
      using step e by (auto simp: reconcileSliceGatewayEdgeService_def split: option.splits prod.splits)
    with resource.update_ok [OF svc]
    have "w' = tick (w_services_update (replace_object s_meta ?edge) w2)" by blast
    then show ?thesis using False w1 w2 by simp
  qed
  with that [of pm edge rest] pm sv es w1 show ?thesis by (simp add: edge_services_def)
qed

text \<open>
  C18: The edge follows the gateways. When the step over the edge service goes on, and the slice
  has gateway services, all of them with a port, then there is an edge service, and it has one
  port for each gateway service, with the node port of that service, and no other port.
\<close>

theorem edge_service_follows_gateways:
  assumes "lawful K"
    and "reconcileSliceGatewayEdgeService K ord s c w = (Ret (res, None, False), w')"
    and "\<And>xs. set (ord xs) = set xs"
    and "gateway_services (sl_Name s) w \<noteq> []"
    and "distinct (map s_Name (gateway_services (sl_Name s) w))"
  shows "\<exists>edge rest. edge_services (sl_Name s) w' = edge # rest
    \<and> (\<forall>n. edge_port edge n =
         (case find (\<lambda>svc. s_Name svc = n) (gateway_services (sl_Name s) w) of
            None \<Rightarrow> None | Some svc \<Rightarrow> Some (sp_NodePort (hd (s_Ports svc)))))"
proof -
  let ?gws = "gateway_services (sl_Name s) w"
  obtain pm edge rest where pm: "gwPortmap ?gws [] = Ret pm"
    and es: "edge_services (sl_Name s) w = edge # rest"
    and ws: "w_services w' = (if allPortsAccountedInEdgeSvc edge pm then w_services w
       else replace_object s_meta (edge\<lparr>s_Ports := getPortListForEdgeSvc ord c pm\<rparr>) (w_services w))"
    by (rule edge_service_step [OF assms(1,2,4)])
  have pmn: "map_of pm n = (case find (\<lambda>svc. s_Name svc = n) ?gws of
            None \<Rightarrow> None | Some svc \<Rightarrow> Some (sp_NodePort (hd (s_Ports svc))))" for n
    using gwPortmap_lookup [OF pm, of n] assms(5) by (cases "find (\<lambda>svc. s_Name svc = n) ?gws") simp_all
  have dpm: "distinct (map fst pm)" by (rule gwPortmap_distinct [OF pm]) simp
  show ?thesis
  proof (cases "allPortsAccountedInEdgeSvc edge pm")
    case True
    then have "edge_services (sl_Name s) w' = edge # rest" using es ws by (simp add: edge_services_def)
    moreover have "edge_port edge n = map_of pm n" for n
      using True edge_ports_equal [OF dpm] by simp
    ultimately show ?thesis by (simp add: pmn)
  next
    case False
    let ?edge = "edge\<lparr>s_Ports := getPortListForEdgeSvc ord c pm\<rparr>"
    have "\<exists>rest'. filter (selects s_meta no_phase (in_namespace ControlPlaneNamespace
        (labelsForSliceGatewayEdgeSvc (sl_Name s)))) (replace_object s_meta ?edge (w_services w)) = ?edge # rest'"
      by (rule filter_replace_hd [OF es [unfolded edge_services_def], where Q =
            "\<lambda>m. selects (\<lambda>x. x) (\<lambda>_. '''')
               (in_namespace ControlPlaneNamespace (labelsForSliceGatewayEdgeSvc (sl_Name s))) m"])
        (simp_all add: selects_def)
    then have "\<exists>rest'. edge_services (sl_Name s) w' = ?edge # rest'"
      using ws False by (simp add: edge_services_def)
    moreover have "edge_port ?edge n = map_of pm n" for n
      by (rule edge_port_list) (rule assms(3))
    ultimately show ?thesis by (auto simp: pmn)
  qed
qed

section \<open>Examples\<close>

lemma ex_slice_defined:
  "sliceConfigDefined ex_slice" "sl_Namespace ex_slice = ControlPlaneNamespace"
  by (code_simp+)

theorem slice_router_settles_witness:
  "fst (ReconcileSliceRouter (ref_kube no_faults ex_replies) Map.empty ex_slice
     (snd (ReconcileSliceRouter (ref_kube no_faults ex_replies) Map.empty ex_slice
       (snd (ReconcileSliceRouter (ref_kube no_faults ex_replies) Map.empty ex_slice empty_world)))))
   = (result_none, None, False)"
  using slice_router_settles [OF ex_slice_simps(1) ex_slice_defined, of ex_replies Map.empty empty_world]
  by (simp add: Let_def)

definition ex_app_pod :: "string \<Rightarrow> string \<Rightarrow> app_pod" where
  "ex_app_pod n ip =
     \<lparr>ap_PodName = n, ap_PodNamespace = ''apps'', ap_PodIP = ''10.0.0.7'', ap_NsmIP = ip,
      ap_NsmInterface = '''', ap_NsmPeerIP = ''''\<rparr>"

lemma ex_refresh:
  "refreshAppPods [ex_app_pod ''web'' ''10.1.1.5''] [ex_app_pod ''web'' '''', ex_app_pod ''db'' '''']
     [ex_app_pod ''old'' ''10.1.1.9''] = ([ex_app_pod ''web'' ''10.1.1.5'', ex_app_pod ''db'' ''''], True)"
  by code_simp

theorem app_pods_recorded_witness:
  "ap_PodName ` set [ex_app_pod ''web'' ''10.1.1.5'', ex_app_pod ''db'' '''']
     = ap_PodName ` set [ex_app_pod ''web'' '''', ex_app_pod ''db'' '''']"
  using app_pods_recorded [OF _ _ ex_refresh] by (simp add: ex_app_pod_def)

definition ex_deleted_slice :: "string list \<Rightarrow> slice" where
  "ex_deleted_slice allowed =
     ex_slice\<lparr>sl_meta := (sl_meta ex_slice)\<lparr>om_DeletionTimestamp := Some 7,
       om_Finalizers := [''networking.kubeslice.io/slice-finalizer'']\<rparr>,
       sl_AllowedNamespaces := allowed\<rparr>"

definition ex_deletion_world :: "string list \<Rightarrow> world" where
  "ex_deletion_world allowed = ex_slice_world\<lparr>w_slices := [ex_deleted_slice allowed]\<rparr>"

definition ex_deletion :: "string list \<Rightarrow> (bool \<times> ctrl_result \<times> go_error option) \<times> slice \<times> world" where
  "ex_deletion allowed = handleSliceDeletion ex_kube Map.empty ''kubeslice-system'' ''red''
     (ex_deleted_slice allowed) (ex_deletion_world allowed)"

lemma ex_deleted_simps:
  "om_DeletionTimestamp (sl_meta (ex_deleted_slice al)) = Some 7"
  "sliceFinalizer \<in> set (om_Finalizers (sl_meta (ex_deleted_slice al)))"
  "sl_AllowedNamespaces (ex_deleted_slice al) = al" "sl_Name (ex_deleted_slice al) = ''red''"
  by (simp_all add: ex_deleted_slice_def sliceFinalizer_def ex_slice_simps)

lemma ex_absent: "absent_ns ''gone'' (ex_deletion_world [''gone''])"
  by code_simp

theorem deletion_blocked_by_missing_namespace_witness:
  "snd (snd (fst (ex_deletion [''gone'']))) \<noteq> None
   \<and> w_slices (snd (snd (ex_deletion [''gone'']))) = w_slices (ex_deletion_world [''gone''])"
proof -
  obtain stop res err s' w' where d: "ex_deletion [''gone''] = ((stop, res, err), s', w')"
    by (metis surj_pair)
  have "''gone'' \<in> set (sl_AllowedNamespaces (ex_deleted_slice [''gone'']))"
    by (simp add: ex_deleted_simps)
  from deletion_blocked_by_missing_namespace [OF ex_kube_lawful ex_deleted_simps(1,2) this ex_absent
      d [unfolded ex_deletion_def]]
  show ?thesis using d by simp
qed

lemma ex_deletion_shape:
  "fst (ex_deletion [''apps'']) = (True, result_none, None)"
  "ns_wf (ex_deletion_world [''apps''])" "registry_ok (ex_deletion_world [''apps''])"
  by (code_simp+)

lemma ex_kube_lists2:
  "fst (r_list (k_serviceimports ex_kube) lo v) \<noteq> Inl NotFound"
  "fst (r_list (k_serviceexports ex_kube) lo v) \<noteq> Inl NotFound"
  by (simp_all add: ex_kube_def ref_kube_def ref_ops_def no_faults_def)


theorem edge_ports_equal_witness:
  "allPortsAccountedInEdgeSvc
     ((serviceForSliceRouter ex_slice)\<lparr>s_Ports := [\<lparr>sp_Name = ''b'', sp_Port = 2, sp_Protocol = ''UDP'',
        sp_TargetPort = 0, sp_NodePort = 0\<rparr>, \<lparr>sp_Name = ''a'', sp_Port = 1, sp_Protocol = ''UDP'',
        sp_TargetPort = 0, sp_NodePort = 0\<rparr>]\<rparr>) [(''a'', 1), (''b'', 2)]"
  by (subst edge_ports_equal) (auto simp: edge_port_def)

definition ex_gw_service :: "string \<Rightarrow> int \<Rightarrow> service" where
  "ex_gw_service n port =
     \<lparr>s_meta = new_meta ''kubeslice-system'' n [(''kubeslice.io/slice'', ''red'')],
      s_Type = ''NodePort'', s_Selector = [], s_ClusterIP = '''',
      s_Ports = [\<lparr>sp_Name = '''', sp_Port = 11194, sp_Protocol = ''UDP'', sp_TargetPort = 11194,
        sp_NodePort = port\<rparr>], s_Ingress = []\<rparr>"

definition ex_edge_world :: world where
  "ex_edge_world = empty_world\<lparr>w_services := [ex_gw_service ''svc-a'' 31,
     serviceForSliceGatewayEdge rev ex_slice_config ''red'' ''svc-red-gw-edge'' [(''svc-old'', 29)]]\<rparr>"

definition ex_edge :: "step_result go \<times> world" where
  "ex_edge = reconcileSliceGatewayEdgeService ex_kube rev ex_slice ex_slice_config ex_edge_world"

lemma ex_edge_shape:
  "fst ex_edge = Ret (result_none, None, False)"
  "gateway_services (sl_Name ex_slice) ex_edge_world = [ex_gw_service ''svc-a'' 31]"
  by (code_simp+)

theorem edge_service_follows_gateways_witness:
  "\<exists>edge rest. edge_services ''red'' (snd ex_edge) = edge # rest \<and> edge_port edge ''svc-a'' = Some 31
     \<and> edge_port edge ''svc-old'' = None"
proof -
  have "reconcileSliceGatewayEdgeService ex_kube rev ex_slice ex_slice_config ex_edge_world
      = (Ret (result_none, None, False), snd ex_edge)"
    using ex_edge_shape(1) by (metis ex_edge_def prod.collapse)
  from edge_service_follows_gateways [OF ex_kube_lawful this set_rev]
  obtain edge rest where "edge_services (sl_Name ex_slice) (snd ex_edge) = edge # rest"
    "\<forall>n. edge_port edge n =
         (case find (\<lambda>svc. s_Name svc = n) (gateway_services (sl_Name ex_slice) ex_edge_world) of
            None \<Rightarrow> None | Some svc \<Rightarrow> Some (sp_NodePort (hd (s_Ports svc))))"
    by (auto simp: ex_edge_shape)
  moreover have "gateway_services ''red'' ex_edge_world = [ex_gw_service ''svc-a'' 31]"
    using ex_edge_shape(2) by (simp add: ex_slice_simps)
  ultimately show ?thesis by (simp add: ex_slice_simps) (simp add: ex_gw_service_def)
qed

end
