(* ===== verification/AllowedNamespaces.thy ===== *)
theory AllowedNamespaces
  imports NamespaceBinding
begin

text \<open>
  The pass over the allowed namespaces as a function on each namespace: on a cluster that does
  not fail, \<open>reconcileAllowedNamespaces\<close> computes \<open>allowed_pass\<close>.
\<close>

abbreviation lookup_ns :: "world \<Rightarrow> string \<Rightarrow> namespace option" where
  "lookup_ns w a \<equiv> find (keyed ns_meta '''' a) (w_namespaces w)"

definition allowed_labelled :: "namespace \<Rightarrow> bool" where
  "allowed_labelled n \<longleftrightarrow> map_of (ns_Labels n) AllowedNamespaceSelectorLabelKey \<noteq> None"

text \<open>
  A namespace that is allowed gets the label in one pass and the name of the slice in the
  next; one that is not loses the name of the slice.
\<close>

definition allowed_pass :: "string \<Rightarrow> string list \<Rightarrow> string \<Rightarrow> namespace \<Rightarrow> namespace" where
  "allowed_pass s allowed a n =
     (if a \<in> set allowed
      then (if allowed_labelled n then annotated s n else labelAllowedNamespace n a)
      else (if allowed_labelled n then unbound s n else n))"

lemma annotated_meta [simp]:
  "ns_Name (annotated s n) = ns_Name n" "om_Namespace (ns_meta (annotated s n)) = om_Namespace (ns_meta n)"
  by (simp_all add: annotated_def annotateSlice_def Let_def split: option.split)

lemma labelAllowed_meta [simp]:
  "ns_Name (labelAllowedNamespace n a) = ns_Name n"
  "om_Namespace (ns_meta (labelAllowedNamespace n a)) = om_Namespace (ns_meta n)"
  by (simp_all add: labelAllowedNamespace_def)

lemma unbindSlice_meta:
  "unbindSlice s n = Some m \<Longrightarrow> ns_Name m = ns_Name n \<and> om_Namespace (ns_meta m) = om_Namespace (ns_meta n)"
  by (cases "map_of (ns_Annotations n) AllowedNamespaceAnnotationKey")
    (simp_all add: unbindSlice_def Let_def split: if_split_asm, (hypsubst, simp (no_asm))+)

lemma unbound_meta [simp]:
  "ns_Name (unbound s n) = ns_Name n" "om_Namespace (ns_meta (unbound s n)) = om_Namespace (ns_meta n)"
proof -
  have "ns_Name (unbound s n) = ns_Name n \<and> om_Namespace (ns_meta (unbound s n)) = om_Namespace (ns_meta n)"
  proof (cases "unbindSlice s n")
    case (Some m)
    from unbindSlice_meta [OF this] Some show ?thesis by (simp only: unbound_def option.case)
  qed (simp only: unbound_def option.case)
  then show "ns_Name (unbound s n) = ns_Name n"
    "om_Namespace (ns_meta (unbound s n)) = om_Namespace (ns_meta n)" by blast+
qed

lemma lookup_meta: "lookup_ns w a = Some n \<Longrightarrow> ns_Name n = a \<and> om_Namespace (ns_meta n) = ''''"
  by (auto dest!: find_Some_iff' simp: keyed_def)

lemma distinct_allowed: "distinct (iso_AllowedNamespaces p) \<Longrightarrow> distinct (allowedNamespaces p)"
  by (simp add: allowedNamespaces_def distinct_addMissing)

context reliable
begin

lemma update_ns:
  assumes "lookup_ns w a = Some n" and "ns_Name m = a" "om_Namespace (ns_meta m) = ''''"
  shows "\<exists>w'. r_update (k_namespaces K) m w = (None, w') \<and> w_slices w' = w_slices w
    \<and> (\<forall>b. lookup_ns w' b = (if b = a then Some m else lookup_ns w b))"
proof -
  let ?w' = "tick (w_namespaces_update (replace_object ns_meta m) w)"
  have l: "list_ex (same_key ns_meta m) (w_namespaces w)"
    using assms by (simp add: same_key_def [abs_def] find_keyed_list_ex)
  have "lookup_ns ?w' b = (if b = a then Some m else lookup_ns w b)" for b
  proof (cases "b = a")
    case True
    with find_replace_same [OF l] assms show ?thesis by simp
  next
    case False
    then have "\<not> keyed ns_meta '''' b m" using assms by (simp add: keyed_def)
    from find_replace_other [OF this] False show ?thesis by simp
  qed
  moreover have "w_slices ?w' = w_slices w" by simp
  ultimately show ?thesis using nspr.update_found [OF l] by blast
qed

lemma annotate_ns:
  assumes "lookup_ns w a = Some n"
  shows "\<exists>b w'. annotateAllowedNamespace K s n w = ((b, None, annotated s n), w') \<and> w_slices w' = w_slices w
    \<and> (\<forall>x. lookup_ns w' x = (if x = a then Some (annotated s n) else lookup_ns w x))"
proof -
  obtain ch m where m: "annotateSlice s n = (ch, m)" by fastforce
  then have an: "annotated s n = m" by (simp add: annotated_def)
  show ?thesis
  proof (cases ch)
    case False
    then have "m = n" using m by (auto simp: annotateSlice_def Let_def split: option.splits if_splits)
    with False m an assms show ?thesis
      by (intro exI [of _ False] exI [of _ w]) (simp add: annotateAllowedNamespace_def)
  next
    case True
    have "ns_Name m = a" "om_Namespace (ns_meta m) = ''''"
      using lookup_meta [OF assms] annotated_meta [of s n] an by simp_all
    from update_ns [OF assms this] obtain w' where "r_update (k_namespaces K) m w = (None, w')"
      "w_slices w' = w_slices w" "\<forall>x. lookup_ns w' x = (if x = a then Some m else lookup_ns w x)" by blast
    with m True an show ?thesis
      by (intro exI [of _ True] exI [of _ w']) (simp add: annotateAllowedNamespace_def)
  qed
qed

text \<open>The first loop.\<close>

lemma label_allowed_loop:
  assumes "distinct cfg" and "\<forall>a n b. map_of marks a = Some (n, b) \<longrightarrow> lookup_ns w a = Some n"
  shows "\<exists>labeled' ch marks' w'. labelAllowedNamespaces K s cfg marks labeled changed w
        = ((Inr (labeled', ch), marks'), w')
      \<and> w_slices w' = w_slices w
      \<and> map fst marks' = map fst marks
      \<and> (\<forall>a. map_option snd (map_of marks' a)
             = (if a \<in> set cfg \<and> map_of marks a \<noteq> None then Some True else map_option snd (map_of marks a)))
      \<and> (\<forall>a. lookup_ns w' a = (if a \<in> set cfg
              then (case map_of marks a of
                      Some (n, b) \<Rightarrow> Some (annotated s n)
                    | None \<Rightarrow> map_option (\<lambda>n. labelAllowedNamespace n a) (lookup_ns w a))
              else lookup_ns w a))"
  using assms
proof (induction cfg arbitrary: marks labeled changed w)
  case Nil
  then show ?case by simp
next
  case (Cons a cfg)
  have d: "distinct cfg" "a \<notin> set cfg" using Cons.prems(1) by simp_all
  show ?case
  proof (cases "map_of marks a")
    case (Some nb)
    obtain n b0 where nb: "nb = (n, b0)" by fastforce
    have l: "lookup_ns w a = Some n" using Cons.prems(2) Some nb by blast
    obtain b1 w1 where an: "annotateAllowedNamespace K s n w = ((b1, None, annotated s n), w1)"
        "w_slices w1 = w_slices w"
        "\<forall>b. lookup_ns w1 b = (if b = a then Some (annotated s n) else lookup_ns w b)"
      using annotate_ns [OF l] by blast
    let ?m = "AList.update a (annotated s n, True) marks"
    have m: "\<forall>x y z. map_of ?m x = Some (y, z) \<longrightarrow> lookup_ns w1 x = Some y"
      using an(3) Cons.prems(2) by (auto split: if_split_asm)
    from Cons.IH [where marks = ?m and labeled = "labeled @ [a]" and changed = "changed \<or> b1", OF d(1) m]
    obtain labeled' ch marks' w' where ih:
      "labelAllowedNamespaces K s cfg ?m (labeled @ [a]) (changed \<or> b1) w1 = ((Inr (labeled', ch), marks'), w')"
      "w_slices w' = w_slices w1" "map fst marks' = map fst ?m"
      "\<forall>x. map_option snd (map_of marks' x)
           = (if x \<in> set cfg \<and> map_of ?m x \<noteq> None then Some True else map_option snd (map_of ?m x))"
      "\<forall>x. lookup_ns w' x = (if x \<in> set cfg
            then (case map_of ?m x of Some (n, b) \<Rightarrow> Some (annotated s n)
                  | None \<Rightarrow> map_option (\<lambda>n. labelAllowedNamespace n x) (lookup_ns w1 x))
            else lookup_ns w1 x)" by blast
    have "a \<in> fst ` set marks" using Some by (metis map_of_eq_None_iff option.distinct(1))
    then have keys: "map fst marks' = map fst marks" using ih(3) by (simp add: update_keys)
    have eq: "labelAllowedNamespaces K s (a # cfg) marks labeled changed w = ((Inr (labeled', ch), marks'), w')"
      using Some nb an(1) ih(1) by simp
    have snds: "\<forall>x. map_option snd (map_of marks' x)
        = (if x \<in> set (a # cfg) \<and> map_of marks x \<noteq> None then Some True else map_option snd (map_of marks x))"
      using ih(4) d(2) Some nb by auto
    have lks: "\<forall>x. lookup_ns w' x = (if x \<in> set (a # cfg)
            then (case map_of marks x of Some (n, b) \<Rightarrow> Some (annotated s n)
                  | None \<Rightarrow> map_option (\<lambda>n. labelAllowedNamespace n x) (lookup_ns w x))
            else lookup_ns w x)"
    proof
      fix x
      show "lookup_ns w' x = (if x \<in> set (a # cfg)
            then (case map_of marks x of Some (n, b) \<Rightarrow> Some (annotated s n)
                  | None \<Rightarrow> map_option (\<lambda>n. labelAllowedNamespace n x) (lookup_ns w x))
            else lookup_ns w x)"
        using spec [OF ih(5), of x] spec [OF an(3), of x] d(2) Some nb
        by (cases "x = a"; cases "map_of marks x") auto
    qed
    from eq ih(2) an(2) keys snds lks show ?thesis by auto
  next
    case None
    show ?thesis
    proof (cases "lookup_ns w a")
      case lN: None
      have g: "r_get (k_namespaces K) '''' a w = (Inl NotFound, tick w)" by (rule nspr.get_absent [OF lN])
      have m: "\<forall>x y z. map_of marks x = Some (y, z) \<longrightarrow> lookup_ns (tick w) x = Some y"
        using Cons.prems(2) by simp
      from Cons.IH [where marks = marks and labeled = labeled and changed = changed, OF d(1) m]
      obtain labeled' ch marks' w' where ih:
        "labelAllowedNamespaces K s cfg marks labeled changed (tick w) = ((Inr (labeled', ch), marks'), w')"
        "w_slices w' = w_slices (tick w)" "map fst marks' = map fst marks"
        "\<forall>x. map_option snd (map_of marks' x)
             = (if x \<in> set cfg \<and> map_of marks x \<noteq> None then Some True else map_option snd (map_of marks x))"
        "\<forall>x. lookup_ns w' x = (if x \<in> set cfg
              then (case map_of marks x of Some (n, b) \<Rightarrow> Some (annotated s n)
                    | None \<Rightarrow> map_option (\<lambda>n. labelAllowedNamespace n x) (lookup_ns (tick w) x))
              else lookup_ns (tick w) x)" by blast
      have eq: "labelAllowedNamespaces K s (a # cfg) marks labeled changed w = ((Inr (labeled', ch), marks'), w')"
        using None g ih(1) by simp
      have snds: "\<forall>x. map_option snd (map_of marks' x)
          = (if x \<in> set (a # cfg) \<and> map_of marks x \<noteq> None then Some True else map_option snd (map_of marks x))"
        using ih(4) None by auto
      have lks: "\<forall>x. lookup_ns w' x = (if x \<in> set (a # cfg)
              then (case map_of marks x of Some (n, b) \<Rightarrow> Some (annotated s n)
                    | None \<Rightarrow> map_option (\<lambda>n. labelAllowedNamespace n x) (lookup_ns w x))
              else lookup_ns w x)"
        using ih(5) None lN d(2) by (auto split: option.split)
      from eq ih(2,3) snds lks show ?thesis by auto
    next
      case (Some n)
      have g: "r_get (k_namespaces K) '''' a w = (Inr n, tick w)" by (rule nspr.get_found [OF Some])
      have "lookup_ns (tick w) a = Some n" using Some by simp
      from update_ns [OF this, of "labelAllowedNamespace n a"] lookup_meta [OF Some]
      obtain w1 where u: "r_update (k_namespaces K) (labelAllowedNamespace n a) (tick w) = (None, w1)"
          "w_slices w1 = w_slices w"
          "\<forall>b. lookup_ns w1 b = (if b = a then Some (labelAllowedNamespace n a) else lookup_ns w b)"
        by auto
      have m: "\<forall>x y z. map_of marks x = Some (y, z) \<longrightarrow> lookup_ns w1 x = Some y"
        using Cons.prems(2) u(3) None by auto
      from Cons.IH [where marks = marks and labeled = "labeled @ [a]" and changed = True, OF d(1) m]
      obtain labeled' ch marks' w' where ih:
        "labelAllowedNamespaces K s cfg marks (labeled @ [a]) True w1 = ((Inr (labeled', ch), marks'), w')"
        "w_slices w' = w_slices w1" "map fst marks' = map fst marks"
        "\<forall>x. map_option snd (map_of marks' x)
             = (if x \<in> set cfg \<and> map_of marks x \<noteq> None then Some True else map_option snd (map_of marks x))"
        "\<forall>x. lookup_ns w' x = (if x \<in> set cfg
              then (case map_of marks x of Some (n, b) \<Rightarrow> Some (annotated s n)
                    | None \<Rightarrow> map_option (\<lambda>n. labelAllowedNamespace n x) (lookup_ns w1 x))
              else lookup_ns w1 x)" by blast
      have eq: "labelAllowedNamespaces K s (a # cfg) marks labeled changed w = ((Inr (labeled', ch), marks'), w')"
        using None g u(1) ih(1) by simp
      have snds: "\<forall>x. map_option snd (map_of marks' x)
          = (if x \<in> set (a # cfg) \<and> map_of marks x \<noteq> None then Some True else map_option snd (map_of marks x))"
        using ih(4) None by auto
      have lks: "\<forall>x. lookup_ns w' x = (if x \<in> set (a # cfg)
              then (case map_of marks x of Some (n, b) \<Rightarrow> Some (annotated s n)
                    | None \<Rightarrow> map_option (\<lambda>n. labelAllowedNamespace n x) (lookup_ns w x))
              else lookup_ns w x)"
        using ih(5) u(3) d(2) None Some by (auto split: option.split)
      from eq ih(2,3) u(2) snds lks show ?thesis by auto
    qed
  qed
qed

text \<open>The second loop.\<close>

lemma unbind_one:
  assumes "lookup_ns w a = Some n"
  shows "\<exists>w'. unbindAllowedNamespace K a s w = (None, w') \<and> w_slices w' = w_slices w
    \<and> (\<forall>b. lookup_ns w' b = (if b = a then Some (unbound s n) else lookup_ns w b))"
proof -
  have g: "r_get (k_namespaces K) '''' a w = (Inr n, tick w)" by (rule nspr.get_found [OF assms])
  show ?thesis
  proof (cases "unbindSlice s n")
    case None
    with g assms show ?thesis by (simp add: unbindAllowedNamespace_def unbound_def)
  next
    case (Some m)
    have "lookup_ns (tick w) a = Some n" using assms by simp
    from update_ns [OF this, of m] unbindSlice_meta [OF Some] lookup_meta [OF assms] g Some
    show ?thesis by (auto simp: unbindAllowedNamespace_def unbound_def)
  qed
qed

lemma unbind_loop:
  assumes "distinct ms" and "\<And>a. a \<in> set ms \<Longrightarrow> lookup_ns w a \<noteq> None"
  shows "\<exists>ch w'. unbindUnmarkedAllowed K s marks ms changed w = (Inr ch, w') \<and> w_slices w' = w_slices w
    \<and> (\<forall>a. lookup_ns w' a = (if a \<in> set ms \<and> map_option snd (map_of marks a) \<noteq> Some True
            then map_option (unbound s) (lookup_ns w a) else lookup_ns w a))"
  using assms
proof (induction ms arbitrary: changed w)
  case Nil
  then show ?case by simp
next
  case (Cons m ms)
  have d: "distinct ms" "m \<notin> set ms" using Cons.prems(1) by simp_all
  show ?case
  proof (cases "map_option snd (map_of marks m) = Some True")
    case True
    from Cons.IH [OF d(1), of w changed] Cons.prems(2) True show ?thesis by fastforce
  next
    case False
    obtain n where n: "lookup_ns w m = Some n" using Cons.prems(2) by force
    obtain w1 where u: "unbindAllowedNamespace K m s w = (None, w1)" "w_slices w1 = w_slices w"
        "\<forall>b. lookup_ns w1 b = (if b = m then Some (unbound s n) else lookup_ns w b)"
      using unbind_one [OF n] by blast
    have "lookup_ns w1 a \<noteq> None" if "a \<in> set ms" for a
      using that u(3) Cons.prems(2) by auto
    from Cons.IH [OF d(1) this, of True]
    obtain ch w' where ih: "unbindUnmarkedAllowed K s marks ms True w1 = (Inr ch, w')" "w_slices w' = w_slices w1"
      "\<forall>a. lookup_ns w' a = (if a \<in> set ms \<and> map_option snd (map_of marks a) \<noteq> Some True
            then map_option (unbound s) (lookup_ns w1 a) else lookup_ns w1 a)" by blast
    have "unbindUnmarkedAllowed K s marks (m # ms) changed w = (Inr ch, w')"
      using False u(1) ih(1) by (simp add: u(1) ih(1) del: map_option_eq_Some)
    moreover have "\<forall>a. lookup_ns w' a = (if a \<in> set (m # ms) \<and> map_option snd (map_of marks a) \<noteq> Some True
            then map_option (unbound s) (lookup_ns w a) else lookup_ns w a)"
      using ih(3) u(3) d(2) n False by auto
    ultimately show ?thesis using ih(2) u(2) by auto
  qed
qed

lemma initial_marks:
  assumes "ns_wf w"
  shows "map_of (map (\<lambda>n. (ns_Name n, n, False))
      (filter (selects ns_meta no_phase (has_labels [AllowedNamespaceSelectorLabelKey])) (w_namespaces w))) a
    = (case lookup_ns w a of Some n \<Rightarrow> if allowed_labelled n then Some (n, False) else None | None \<Rightarrow> None)"
    (is "map_of (map ?f ?ns) a = _")
proof -
  have sel: "selects ns_meta no_phase (has_labels [AllowedNamespaceSelectorLabelKey]) n = allowed_labelled n" for n
    by (auto simp: selects_def has_labels_def allowed_labelled_def matches_labels_def)
  have dist: "distinct (map fst (map ?f ?ns))"
    using assms by (auto simp: ns_wf_def comp_def distinct_map_filter)
  show ?thesis
  proof (cases "\<exists>n. lookup_ns w a = Some n \<and> allowed_labelled n")
    case True
    then obtain n where n: "lookup_ns w a = Some n" "allowed_labelled n" by blast
    then have "n \<in> set ?ns" "ns_Name n = a"
      using find_Some_iff' [OF n(1)] sel by (auto simp: keyed_def)
    then have "(a, n, False) \<in> set (map ?f ?ns)" by force
    with map_of_is_SomeI [OF dist this] n show ?thesis by simp
  next
    case False
    have "map_of (map ?f ?ns) a = None"
    proof (rule ccontr)
      assume "map_of (map ?f ?ns) a \<noteq> None"
      then obtain n where "n \<in> set (w_namespaces w)" "allowed_labelled n" "ns_Name n = a"
        using sel by (auto simp: map_of_eq_None_iff)
      with lookup_wf [OF assms, of n] False show False by simp
    qed
    with False show ?thesis by (auto split: option.split)
  qed
qed

lemma allowed_namespaces_ok:
  assumes cfg: "sl_Config s = Some c" "sc_NamespaceIsolationProfile c = Some p" "IsolationEnabled p"
    and wf: "ns_wf w" and ord: "\<And>xs. set (ord xs) = set xs \<and> length (ord xs) = length xs"
    and dist: "distinct (allowedNamespaces p)"
    and slice: "find (keyed sl_meta ControlPlaneNamespace (sl_Name s)) (w_slices w) = Some s0"
  shows "\<exists>s' w'. reconcileAllowedNamespaces K ord s w = (Ret (None, s'), w')
      \<and> (\<forall>a. lookup_ns w' a
             = map_option (allowed_pass (sl_Name s) (allowedNamespaces p) a) (lookup_ns w a))"
proof -
  let ?ex = "filter (selects ns_meta no_phase (has_labels [AllowedNamespaceSelectorLabelKey])) (w_namespaces w)"
  let ?m0 = "map (\<lambda>n. (ns_Name n, n, False)) ?ex" and ?cfg = "allowedNamespaces p"
  have l: "r_list (k_namespaces K) (has_labels [AllowedNamespaceSelectorLabelKey]) w = (Inr ?ex, tick w)"
    by (rule nspr.list_all_ok)
  note m0 = initial_marks [OF wf]
  have pre: "\<forall>a n b. map_of ?m0 a = Some (n, b) \<longrightarrow> lookup_ns (tick w) a = Some n"
    by (auto simp: m0 split: option.split_asm if_split_asm)
  obtain labeled ch marks w1 where lab:
    "labelAllowedNamespaces K (sl_Name s) ?cfg ?m0 [] False (tick w) = ((Inr (labeled, ch), marks), w1)"
    "w_slices w1 = w_slices (tick w)" "map fst marks = map fst ?m0"
    "\<forall>a. map_option snd (map_of marks a)
       = (if a \<in> set ?cfg \<and> map_of ?m0 a \<noteq> None then Some True else map_option snd (map_of ?m0 a))"
    "\<forall>a. lookup_ns w1 a = (if a \<in> set ?cfg
        then (case map_of ?m0 a of Some (n, b) \<Rightarrow> Some (annotated (sl_Name s) n)
              | None \<Rightarrow> map_option (\<lambda>n. labelAllowedNamespace n a) (lookup_ns (tick w) a))
        else lookup_ns (tick w) a)"
    using label_allowed_loop [OF dist pre, of "sl_Name s" "[]" False] by blast
  have keys: "set (ord (map fst marks)) = {a. map_of ?m0 a \<noteq> None}"
    using ord [of "map fst marks"] lab(3) by (auto simp: map_of_eq_None_iff image_iff)
  have "distinct (map fst marks)"
    unfolding lab(3) using wf by (auto simp: ns_wf_def comp_def distinct_map_filter)
  then have dm: "distinct (ord (map fst marks))"
    using ord [of "map fst marks"] by (metis card_distinct distinct_card)
  have found: "lookup_ns w1 a \<noteq> None" if "a \<in> set (ord (map fst marks))" for a
    using that lab(5) unfolding keys m0 by (auto split: option.split option.split_asm if_split_asm)
  obtain ch2 w2 where u:
    "unbindUnmarkedAllowed K (sl_Name s) marks (ord (map fst marks)) ch w1 = (Inr ch2, w2)"
    "w_slices w2 = w_slices w1"
    "\<forall>a. lookup_ns w2 a = (if a \<in> set (ord (map fst marks)) \<and> map_option snd (map_of marks a) \<noteq> Some True
        then map_option (unbound (sl_Name s)) (lookup_ns w1 a) else lookup_ns w1 a)"
    using unbind_loop [OF dm found] by blast
  have res: "lookup_ns w2 a = map_option (allowed_pass (sl_Name s) ?cfg a) (lookup_ns w a)" for a
    using u(3) lab(4,5) unfolding keys m0
    by (cases "lookup_ns w a") (auto simp: allowed_pass_def)
  obtain s' w' where fin: "(if ch2 then (case updateSliceStatus K (\<lambda>s. s\<lparr>sl_AllowedNamespaces := labeled\<rparr>) (s, w2) of
                     (err, s, w) \<Rightarrow> (Ret (err, s), w)) else (Ret (None, s), w2)) = (Ret (None, s'), w')"
      and w': "w_namespaces w' = w_namespaces w2"
  proof (cases ch2)
    case False
    then show ?thesis using that [of s w2] by simp
  next
    case True
    let ?ch = "\<lambda>s. s\<lparr>sl_AllowedNamespaces := labeled\<rparr>"
    have "find (keyed sl_meta ControlPlaneNamespace (sl_Name s)) (w_slices w2) = Some s0"
      using slice lab(2) u(2) by simp
    from update_slice_status_ok [OF this, of ?ch] obtain w5
      where w5: "updateSliceStatus K ?ch (s, w2) = (None, ?ch s0, w5)" by auto
    have "w_namespaces w5 = w_namespaces w2"
      using update_slice_status(3) [OF w5] by (auto simp: reads_def)
    with True w5 show ?thesis by (intro that [of "?ch s0" w5]) simp_all
  qed
  have "reconcileAllowedNamespaces K ord s w = (Ret (None, s'), w')"
    using cfg l lab(1) u(1) fin by (simp add: reconcileAllowedNamespaces_def Let_def)
  with res w' show ?thesis by auto
qed

end

text \<open>
  C20: On a cluster whose calls do not fail, a pass over the allowed namespaces of an isolated
  slice computes \<open>allowed_pass\<close> on every namespace of the cluster and touches nothing else
  of it: the label for an allowed namespace without one, the name of the slice for an allowed
  one that has it, and the removal of the name for a labelled one that is not allowed.
\<close>

theorem allowed_namespaces_pass:
  assumes "sl_Config s = Some c" "sc_NamespaceIsolationProfile c = Some p" "IsolationEnabled p"
    and "ns_wf w" and "\<And>xs. set (ord xs) = set xs \<and> length (ord xs) = length xs"
    and "distinct (iso_AllowedNamespaces p)"
    and "find (keyed sl_meta ControlPlaneNamespace (sl_Name s)) (w_slices w) = Some s0"
  shows "\<exists>s' w'. reconcileAllowedNamespaces (ref_kube no_faults R) ord s w = (Ret (None, s'), w')
      \<and> (\<forall>a. find (keyed ns_meta '''' a) (w_namespaces w')
             = map_option (allowed_pass (sl_Name s) (allowedNamespaces p) a)
                 (find (keyed ns_meta '''' a) (w_namespaces w)))"
  by (rule up.allowed_namespaces_ok [OF assms(1-5) distinct_allowed [OF assms(6)] assms(7)])

section \<open>An example\<close>

definition ex_allowed_world :: world where
  "ex_allowed_world = ex_slice_world\<lparr>w_namespaces :=
     [ex_namespace ''mon'' [],
      ex_namespace ''kube-system'' [(AllowedNamespaceSelectorLabelKey, ''kube-system'')],
      (ex_namespace ''old'' [(AllowedNamespaceSelectorLabelKey, ''old'')])
        \<lparr>ns_meta := (new_meta '''' ''old'' [(AllowedNamespaceSelectorLabelKey, ''old'')])
          \<lparr>om_Annotations := [(AllowedNamespaceAnnotationKey, ''blue,red'')]\<rparr>\<rparr>]\<rparr>"

theorem allowed_namespaces_pass_witness:
  "\<exists>s' w'. reconcileAllowedNamespaces (ref_kube no_faults ex_replies) rev ex_slice ex_allowed_world
        = (Ret (None, s'), w')
      \<and> map_option slicesOf (find (keyed ns_meta '''' ''kube-system'') (w_namespaces w')) = Some [''red'']
      \<and> map_option slicesOf (find (keyed ns_meta '''' ''old'') (w_namespaces w')) = Some [''blue'']
      \<and> map_option ns_Labels (find (keyed ns_meta '''' ''mon'') (w_namespaces w'))
          = Some [(AllowedNamespaceSelectorLabelKey, ''mon'')]"
proof -
  have "IsolationEnabled ex_isolation" "ns_wf ex_allowed_world" "distinct (iso_AllowedNamespaces ex_isolation)"
    "find (keyed sl_meta ControlPlaneNamespace (sl_Name ex_slice)) (w_slices ex_allowed_world) = Some ex_slice"
    by (code_simp+)
  note pass = allowed_namespaces_pass [OF ex_slice_simps(1,2) this(1,2) _ this(3,4), of rev ex_replies]
  have "map_option slicesOf (map_option (allowed_pass (sl_Name ex_slice) (allowedNamespaces ex_isolation) ''kube-system'')
          (find (keyed ns_meta '''' ''kube-system'') (w_namespaces ex_allowed_world))) = Some [''red'']"
    "map_option slicesOf (map_option (allowed_pass (sl_Name ex_slice) (allowedNamespaces ex_isolation) ''old'')
          (find (keyed ns_meta '''' ''old'') (w_namespaces ex_allowed_world))) = Some [''blue'']"
    "map_option ns_Labels (map_option (allowed_pass (sl_Name ex_slice) (allowedNamespaces ex_isolation) ''mon'')
          (find (keyed ns_meta '''' ''mon'') (w_namespaces ex_allowed_world)))
       = Some [(AllowedNamespaceSelectorLabelKey, ''mon'')]"
    by (code_simp+)
  moreover from pass obtain s' w' where
    "reconcileAllowedNamespaces (ref_kube no_faults ex_replies) rev ex_slice ex_allowed_world = (Ret (None, s'), w')"
    "\<forall>a. find (keyed ns_meta '''' a) (w_namespaces w')
       = map_option (allowed_pass (sl_Name ex_slice) (allowedNamespaces ex_isolation) a)
           (find (keyed ns_meta '''' a) (w_namespaces ex_allowed_world))"
    by auto
  ultimately show ?thesis by (intro exI [of _ s'] exI [of _ w']) simp
qed

end
