(* ===== verification/HubObjects.thy ===== *)
theory HubObjects
  imports HubClient
begin

text \<open>
  What the controllers of hub objects share: the object on the hub carries a finalizer of the
  worker, which is taken off, with retries on conflicts, when the worker has cleaned up. The
  locale states what the client relies on: an accessor that replaces the finalizers and a part
  of the world (\<open>keep\<close>) that writing the hub object does not touch.
\<close>

text \<open>The namespace for access to the VPC of a slice: \<open>VPC_NS_FMT\<close>.\<close>

definition VPC_NS :: "string \<Rightarrow> string" where
  "VPC_NS sliceName = sliceName @ ''-vpc-access-gw-system''"

definition takeFinalizer :: "'o resource_ops \<Rightarrow> ('o \<Rightarrow> object_meta) \<Rightarrow> (string list \<Rightarrow> 'o \<Rightarrow> 'o)
    \<Rightarrow> string \<Rightarrow> string \<Rightarrow> string \<Rightarrow> 'o \<times> world \<Rightarrow> go_error option \<times> 'o \<times> world" where
  "takeFinalizer ops meta put fin reqNamespace reqName xw =
     (case r_get ops reqNamespace reqName (snd xw) of
        (Inl e, w) \<Rightarrow> (Some e, fst xw, w)
      | (Inr x, w) \<Rightarrow>
          (let x = put (filter (\<lambda>f. f \<noteq> fin) (om_Finalizers (meta x))) x
           in case r_update ops x w of (r, w) \<Rightarrow> (r, x, w)))"

context resource
begin

lemma delete_gone:
  assumes "r_delete ops ns n w = (r, w')" and "r = None \<or> r = Some NotFound"
  shows "find (keyed meta ns n) (sel w') = None"
proof (cases r)
  case None
  with assms(1) delete_ok [of ns n w w'] show ?thesis by (simp add: find_remove_same sel_upd sel_tick)
next
  case (Some e)
  with assms delete_err [of ns n w e w'] show ?thesis by (auto simp: find_None_iff list_ex_iff sel_tick)
qed

lemma get_tolerant:
  assumes "r_get ops ns n w = (r, w')" and "find (keyed meta ns n) (sel w) = Some ob"
    and "\<And>e. r = Inl e \<Longrightarrow> e = NotFound"
  shows "r = Inr ob"
  using assms get_ok [of ns n w _ w'] get_err [of ns n w _ w'] by (cases r) auto

end

locale hub_object = resource +
  fixes put :: "string list \<Rightarrow> 'a \<Rightarrow> 'a" and fin :: string and keep :: "world \<Rightarrow> 'k"
  assumes put_meta: "meta (put fs x) = (meta x)\<lparr>om_Finalizers := fs\<rparr>"
    and keep_upd: "keep (upd f w) = keep w"
    and keep_tick: "keep (tick w) = keep w"
begin

definition finalizer_gone :: "string \<Rightarrow> string \<Rightarrow> world \<Rightarrow> bool" where
  "finalizer_gone ns n w \<longleftrightarrow> (\<exists>x. find (keyed meta ns n) (sel w) = Some x \<and> fin \<notin> set (om_Finalizers (meta x)))"

lemma take_attempt:
  assumes "takeFinalizer ops meta put fin ns n xw = (r, xw')"
  shows "keep (snd xw') = keep (snd xw)" and "r = None \<Longrightarrow> finalizer_gone ns n (snd xw')"
proof -
  obtain x w where xw: "xw = (x, w)" by fastforce
  obtain q v1 where q: "r_get ops ns n w = (q, v1)" by fastforce
  have v1: "v1 = tick w" by (rule get_world [OF q])
  have "keep (snd xw') = keep w \<and> (r = None \<longrightarrow> finalizer_gone ns n (snd xw'))"
  proof (cases q)
    case (Inl e)
    with assms xw q v1 show ?thesis by (auto simp: takeFinalizer_def keep_tick)
  next
    case (Inr y)
    let ?y = "put (filter (\<lambda>f. f \<noteq> fin) (om_Finalizers (meta y))) y"
    obtain r2 v2 where u: "r_update ops ?y v1 = (r2, v2)" by fastforce
    have out: "r = r2" "xw' = (?y, v2)"
      using assms xw q Inr u by (simp_all add: takeFinalizer_def)
    have fy: "find (keyed meta ns n) (sel w) = Some y"
      using get_ok [of ns n w y v1] q Inr by simp
    show ?thesis
    proof (cases r2)
      case (Some e)
      with update_err [of ?y v1 e v2] u out v1 show ?thesis by (simp add: keep_tick)
    next
      case None
      have v2: "v2 = tick (upd (replace_object meta ?y) v1)"
        using update_ok u None by blast
      have "find (keyed meta ns n) (replace_object meta ?y (sel w)) = Some ?y"
        by (rule find_replace_key [OF fy])
          (use find_Some_iff' [OF fy] in \<open>simp add: keyed_def put_meta\<close>)
      then have "find (keyed meta ns n) (sel v2) = Some ?y" using v1 v2 by (simp add: sel_upd sel_tick)
      then have "finalizer_gone ns n v2" by (simp add: finalizer_gone_def put_meta)
      then show ?thesis using v1 v2 out by (simp add: keep_upd keep_tick)
    qed
  qed
  then show "keep (snd xw') = keep (snd xw)" "r = None \<Longrightarrow> finalizer_gone ns n (snd xw')" using xw by auto
qed

lemma take_finalizer:
  assumes "RetryOnConflict m (takeFinalizer ops meta put fin ns n) (x, w) = (r, x', w')"
  shows "keep w' = keep w" and "r = None \<Longrightarrow> finalizer_gone ns n w'"
proof -
  let ?f = "takeFinalizer ops meta put fin ns n"
  have last: "keep (snd (x', w')) = keep w \<and> r = Some Conflict
      \<or> (\<exists>z. keep (snd z) = keep w \<and> ?f z = (r, x', w'))"
    by (rule RetryOnConflict_last [OF assms]) (simp_all add: take_attempt(1))
  then show "keep w' = keep w" using take_attempt(1) by fastforce
  show "finalizer_gone ns n w'" if "r = None"
    using last that take_attempt(2) [of ns n _ r "(x', w')"] by auto
qed

end

end
