(* ===== verification/HubSlice.thy ===== *)
theory HubSlice
  imports SliceReconcile HubObjects
begin

text \<open>
  The controller that brings the configuration of a slice from the hub to the worker cluster and
  reports the health of the slice to the hub: \<open>pkg/hub/controllers/slice_controller.go\<close>.
\<close>

section \<open>The configuration\<close>

definition externalGatewayOf :: "worker_slice_spec \<Rightarrow> external_gateway_config" where
  "externalGatewayOf p =
     \<lparr>eg_Ingress = Some (ws_Ingress p), eg_Egress = Some (ws_Egress p),
      eg_NsIngress = Some (ws_NsIngress p), eg_GatewayType = ws_GatewayType p,
      eg_VPCServiceAccess = ws_VPCServiceAccess p\<rparr>"

text \<open>A slice that has no configuration yet starts from the fields that never change.\<close>

definition initialSliceConfig :: "worker_slice_spec \<Rightarrow> slice_config" where
  "initialSliceConfig p =
     \<lparr>sc_SliceID = '''', sc_SliceDisplayName = ws_SliceName p, sc_SliceSubnet = ws_SliceSubnet p,
      sc_SliceType = ws_SliceType p,
      sc_QosProfileDetails = \<lparr>qos_QueueType = '''', qos_BandwidthCeilingKbps = 0,
        qos_BandwidthGuaranteedKbps = 0, qos_Priority = 0, qos_DscpClass = '''', qos_TcType = ''''\<rparr>,
      sc_SliceIpamType = ws_SliceIpamType p, sc_IpamClusterOctet = ws_IpamClusterOctet p,
      sc_ExternalGatewayConfig = None, sc_NamespaceIsolationProfile = None,
      sc_ClusterSubnetCIDR = ws_ClusterSubnetCIDR p, sc_SliceGatewayServiceType = '''',
      sc_SliceGatewayProtocol = '''', sc_NetworkMode = ''''\<rparr>"

text \<open>
  The subnet of the slice and its octet are set once; the other fields below follow the hub.
  A subnet of the cluster that is empty or different is replaced, so it follows the hub too.
\<close>

definition configFromHub :: "worker_slice_spec \<Rightarrow> slice_config option \<Rightarrow> slice_config" where
  "configFromHub p old =
     (let c = (case old of None \<Rightarrow> initialSliceConfig p | Some c \<Rightarrow> c);
          c = (if sc_SliceSubnet c = '''' then c\<lparr>sc_SliceSubnet := ws_SliceSubnet p\<rparr> else c);
          c = (if sc_IpamClusterOctet c = 0
               then c\<lparr>sc_IpamClusterOctet := ws_IpamClusterOctet p\<rparr> else c);
          c = (if sc_ClusterSubnetCIDR c = '''' \<or> sc_ClusterSubnetCIDR c \<noteq> ws_ClusterSubnetCIDR p
               then c\<lparr>sc_ClusterSubnetCIDR := ws_ClusterSubnetCIDR p\<rparr> else c)
      in c\<lparr>sc_SliceGatewayServiceType := ws_SliceGatewayServiceType p,
           sc_SliceGatewayProtocol := ws_SliceGatewayProtocol p,
           sc_NetworkMode := ws_NetworkMode p,
           sc_QosProfileDetails := ws_QosProfileDetails p,
           sc_NamespaceIsolationProfile := Some (ws_NamespaceIsolationProfile p),
           sc_ExternalGatewayConfig := Some (externalGatewayOf p)\<rparr>)"

definition updateSliceConfig :: "kube \<Rightarrow> slice \<Rightarrow> worker_slice_config \<Rightarrow> world
    \<Rightarrow> go_error option \<times> world" where
  "updateSliceConfig K meshSlice spokeSlice w =
     r_update_status (k_slices K)
       (meshSlice\<lparr>sl_Config := Some (configFromHub (wsc_Spec spokeSlice) (sl_Config meshSlice))\<rparr>) w"

section \<open>The health of a slice\<close>

record component =
  cp_name :: string
  cp_labels :: labels
  cp_ns :: string
  cp_ignoreMissing :: bool

definition components :: "component list" where
  "components =
     [\<lparr>cp_name = ''dns'', cp_labels = [(''app'', ''kubeslice-dns'')], cp_ns = ControlPlaneNamespace,
       cp_ignoreMissing = False\<rparr>,
      \<lparr>cp_name = ''slice-gateway'', cp_labels = [(''kubeslice.io/pod-type'', ''slicegateway'')],
       cp_ns = ControlPlaneNamespace, cp_ignoreMissing = False\<rparr>,
      \<lparr>cp_name = ''slice-router'', cp_labels = [(''kubeslice.io/pod-type'', ''router'')],
       cp_ns = ControlPlaneNamespace, cp_ignoreMissing = False\<rparr>,
      \<lparr>cp_name = ''egress'', cp_labels = [(''istio'', ''egressgateway'')],
       cp_ns = ControlPlaneNamespace, cp_ignoreMissing = True\<rparr>,
      \<lparr>cp_name = ''ingress'', cp_labels = [(''istio'', ''ingressgateway'')],
       cp_ns = ControlPlaneNamespace, cp_ignoreMissing = True\<rparr>,
      \<lparr>cp_name = ''gateway-tunnel'', cp_labels = [(''kubeslice.io/pod-type'', ''slicegateway'')],
       cp_ns = ControlPlaneNamespace, cp_ignoreMissing = False\<rparr>]"

text \<open>A container that was terminated with an exit code other than zero.\<close>

definition containerFailed :: "int option \<Rightarrow> bool" where
  "containerFailed e \<longleftrightarrow> (case e of None \<Rightarrow> False | Some code \<Rightarrow> code \<noteq> 0)"

definition podHealthy :: "pod \<Rightarrow> bool" where
  "podHealthy p \<longleftrightarrow> \<not> list_ex containerFailed (p_TerminatedExitCodes p)"

text \<open>The verdict on a number of healthy gateway pods or tunnels, two for each gateway.\<close>

definition redundancyHealth :: "nat \<Rightarrow> nat \<Rightarrow> string" where
  "redundancyHealth gateways healthy =
     (if gateways * 2 = healthy then ''Normal'' else if healthy > 0 then ''Warning'' else ''Error'')"

text \<open>The list of pods of a component; \<open>ls\<close> are its labels with the name of the slice.\<close>

definition listComponentPods :: "kube \<Rightarrow> component \<Rightarrow> labels \<Rightarrow> world
    \<Rightarrow> (go_error + pod list) \<times> world" where
  "listComponentPods K c ls w = r_list (k_pods K) (in_namespace (cp_ns c) ls) w"

definition fetchSliceGatewayHealth :: "kube \<Rightarrow> component \<Rightarrow> labels \<Rightarrow> nat \<Rightarrow> world
    \<Rightarrow> ((string \<times> string) option \<times> go_error option) \<times> world" where
  "fetchSliceGatewayHealth K c ls gateways w =
     (case listComponentPods K c ls w of
        (Inl e, w) \<Rightarrow> ((Some (cp_name c, ''Error''), Some e), w)
      | (Inr [], w) \<Rightarrow> ((Some (cp_name c, ''Error''), None), w)
      | (Inr pods, w) \<Rightarrow>
          (let healthyCount = length (filter (\<lambda>p. p_Phase p = ''Running''
                 \<and> om_DeletionTimestamp (p_meta p) = None \<and> podHealthy p) pods)
           in ((Some (cp_name c, redundancyHealth gateways healthyCount), None), w)))"

text \<open>A sidecar that does not answer counts as a tunnel that is not up.\<close>

fun healthyTunnels :: "kube \<Rightarrow> pod list \<Rightarrow> world \<Rightarrow> nat \<times> world" where
  "healthyTunnels K [] w = (0, w)"
| "healthyTunnels K (p # ps) w =
     (if p_Phase p = ''Running'' \<and> om_DeletionTimestamp (p_meta p) = None
      then (case k_GetStatus K (p_PodIP p @ '':5000'') w of
              (Inl e, w) \<Rightarrow> healthyTunnels K ps w
            | (Inr gs, w) \<Rightarrow>
                (case healthyTunnels K ps w of
                   (n, w) \<Rightarrow> (if ts_Status (st_Tunnel gs) = 0 then Suc n else n, w)))
      else healthyTunnels K ps w)"

definition fetchTunnelStatus :: "kube \<Rightarrow> component \<Rightarrow> labels \<Rightarrow> nat \<Rightarrow> world
    \<Rightarrow> ((string \<times> string) option \<times> go_error option) \<times> world" where
  "fetchTunnelStatus K c ls gateways w =
     (case listComponentPods K c ls w of
        (Inl e, w) \<Rightarrow> ((Some (cp_name c, ''Error''), None), w)
      | (Inr [], w) \<Rightarrow> ((Some (cp_name c, ''Error''), None), w)
      | (Inr pods, w) \<Rightarrow>
          (case healthyTunnels K pods w of
             (tunnelHealthy, w) \<Rightarrow> ((Some (cp_name c, redundancyHealth gateways tunnelHealthy), None), w)))"

text \<open>The pods of a component other than the gateways.\<close>

definition podsHealth :: "component \<Rightarrow> pod list \<Rightarrow> (string \<times> string) option" where
  "podsHealth c pods =
     (if pods = [] then (if cp_ignoreMissing c then None else Some (cp_name c, ''Error''))
      else if list_all (\<lambda>p. p_Phase p = ''Running'' \<and> podHealthy p) pods
           then Some (cp_name c, ''Normal'') else Some (cp_name c, ''Error''))"

definition getComponentStatus :: "kube \<Rightarrow> component \<Rightarrow> string \<Rightarrow> world
    \<Rightarrow> ((string \<times> string) option \<times> go_error option) \<times> world" where
  "getComponentStatus K c sliceName w =
     (let ls = (if cp_name c \<noteq> ''dns''
                then AList.update ''kubeslice.io/slice'' sliceName (cp_labels c) else cp_labels c)
      in if cp_name c = ''slice-gateway'' \<or> cp_name c = ''gateway-tunnel''
         then (case r_list (k_slicegws K) (in_namespace (cp_ns c) [(''kubeslice.io/slice'', sliceName)]) w of
                 (Inl NotFound, w) \<Rightarrow> ((None, None), w)
               | (Inl e, w) \<Rightarrow> ((None, Some e), w)
               | (Inr [], w) \<Rightarrow> ((None, None), w)
               | (Inr gws, w) \<Rightarrow>
                   (if cp_name c = ''slice-gateway''
                    then fetchSliceGatewayHealth K c ls (length gws) w
                    else fetchTunnelStatus K c ls (length gws) w))
         else (case listComponentPods K c ls w of
                 (Inl e, w) \<Rightarrow> ((None, Some e), w)
               | (Inr pods, w) \<Rightarrow> ((podsHealth c pods, None), w)))"

text \<open>An error is logged; a status that comes with it is reported.\<close>

fun componentStatuses :: "kube \<Rightarrow> string \<Rightarrow> component list \<Rightarrow> world
    \<Rightarrow> (string \<times> string) list \<times> world" where
  "componentStatuses K sliceName [] w = ([], w)"
| "componentStatuses K sliceName (c # cs) w =
     (case getComponentStatus K c sliceName w of
        ((None, _), w) \<Rightarrow> componentStatuses K sliceName cs w
      | ((Some st, _), w) \<Rightarrow>
          (case componentStatuses K sliceName cs w of (sts, w) \<Rightarrow> (st # sts, w)))"

definition updateSliceHealth :: "kube \<Rightarrow> worker_slice_config \<Rightarrow> slice_health \<Rightarrow> world
    \<Rightarrow> slice_health \<times> world" where
  "updateSliceHealth K sl h w =
     (if ws_NetworkMode (wsc_Spec sl) = ''no-network''
      then (h\<lparr>sh_ComponentStatuses := [], sh_SliceHealthStatus := ''Normal''\<rparr>, w)
      else (case componentStatuses K (ws_SliceName (wsc_Spec sl)) components w of
              (sts, w) \<Rightarrow>
                (h\<lparr>sh_ComponentStatuses := sts,
                   sh_SliceHealthStatus :=
                     (if list_ex (\<lambda>(_, st). st \<noteq> ''Normal'') sts then ''Warning'' else ''Normal'')\<rparr>, w)))"

section \<open>Deletion, labels, the pass\<close>

definition hubSliceFinalizer :: string where
  "hubSliceFinalizer = ''controller.kubeslice.io/hubSpokeSlice-finalizer''"

definition wsc_with_finalizers :: "string list \<Rightarrow> worker_slice_config \<Rightarrow> worker_slice_config" where
  "wsc_with_finalizers fs s = s\<lparr>wsc_meta := (wsc_meta s)\<lparr>om_Finalizers := fs\<rparr>\<rparr>"

definition deleteSliceResourceOnSpoke :: "kube \<Rightarrow> worker_slice_config \<Rightarrow> world
    \<Rightarrow> go_error option \<times> world" where
  "deleteSliceResourceOnSpoke K s w =
     (case r_delete (k_slices K) ControlPlaneNamespace (ws_SliceName (wsc_Spec s)) w of
        (Some NotFound, w) \<Rightarrow> (None, w)
      | (r, w) \<Rightarrow> (r, w))"

text \<open>One attempt to take the finalizer off the object on the hub, from its current copy.\<close>

definition dropHubSliceFinalizer :: "kube \<Rightarrow> string \<Rightarrow> string \<Rightarrow> worker_slice_config \<times> world
    \<Rightarrow> go_error option \<times> worker_slice_config \<times> world" where
  "dropHubSliceFinalizer K = takeFinalizer (k_sliceconfigs K) wsc_meta wsc_with_finalizers hubSliceFinalizer"

definition hubSliceDeletion :: "kube \<Rightarrow> string \<Rightarrow> string \<Rightarrow> worker_slice_config \<Rightarrow> world
    \<Rightarrow> (bool \<times> ctrl_result \<times> go_error option) \<times> worker_slice_config \<times> world" where
  "hubSliceDeletion K reqNamespace reqName s w =
     (let fs = om_Finalizers (wsc_meta s)
      in if om_DeletionTimestamp (wsc_meta s) = None
         then
           (if hubSliceFinalizer \<notin> set fs
            then (let s = wsc_with_finalizers (fs @ [hubSliceFinalizer]) s
                  in case r_update (k_sliceconfigs K) s w of
                       (Some e, w) \<Rightarrow> ((True, result_none, Some e), s, w)
                     | (None, w) \<Rightarrow> ((False, result_none, None), s, w))
            else ((False, result_none, None), s, w))
         else
           (if hubSliceFinalizer \<in> set fs
            then
              (case deleteSliceResourceOnSpoke K s w of
                 (Some e, w) \<Rightarrow> ((True, result_none, Some e), s, w)
               | (None, w) \<Rightarrow>
                   (case RetryOnConflict DefaultRetry (dropHubSliceFinalizer K reqNamespace reqName) (s, w) of
                      (err, s, w) \<Rightarrow> ((True, result_none, err), s, w)))
            else ((True, result_none, None), s, w)))"

text \<open>
  The labels of the slice in the worker cluster follow those on the hub: first what is missing
  or different is set, then what is not on the hub is removed.
\<close>

definition mirrorLabels :: "labels \<Rightarrow> labels \<Rightarrow> bool \<times> labels" where
  "mirrorLabels src dst =
     (let (updated, dst1) = foldl (\<lambda>(u, d) (k, sv).
            if map_of d k \<noteq> Some sv then (True, AList.update k sv d) else (u, d)) (False, dst) src
      in (updated \<or> list_ex (\<lambda>(k, _). map_of src k = None) dst1,
          filter (\<lambda>(k, _). map_of src k \<noteq> None) dst1))"

definition set_sl_Labels :: "labels \<Rightarrow> slice \<Rightarrow> slice" where
  "set_sl_Labels ls s = s\<lparr>sl_meta := (sl_meta s)\<lparr>om_Labels := ls\<rparr>\<rparr>"

definition createSliceOnSpoke :: "kube \<Rightarrow> worker_slice_config \<Rightarrow> world
    \<Rightarrow> (ctrl_result \<times> go_error option) \<times> world" where
  "createSliceOnSpoke K s w =
     (let m = new_slice (new_meta ControlPlaneNamespace (ws_SliceName (wsc_Spec s)) [])
      in case r_create (k_slices K) m w of
           (Some e, w) \<Rightarrow> ((result_none, Some e), w)
         | (None, w) \<Rightarrow>
             (case updateSliceConfig K m s w of
                (Some e, w) \<Rightarrow> ((result_none, Some e), w)
              | (None, w) \<Rightarrow> ((result_after 120, None), w)))"

text \<open>The health is sent when the last report is older than the interval of 120 seconds.\<close>

definition reportSliceHealth :: "kube \<Rightarrow> int \<Rightarrow> worker_slice_config \<Rightarrow> world
    \<Rightarrow> (ctrl_result \<times> go_error option) \<times> world" where
  "reportSliceHealth K now s w =
     (let h0 = (case wsc_SliceHealth s of
                  None \<Rightarrow> \<lparr>sh_SliceHealthStatus = '''', sh_ComponentStatuses = [], sh_LastUpdated = None\<rparr>
                | Some h \<Rightarrow> h)
      in case updateSliceHealth K s h0 w of
           (h, w) \<Rightarrow>
             (if (case sh_LastUpdated h of None \<Rightarrow> True | Some t \<Rightarrow> now - t > 120)
              then (case r_update_status (k_sliceconfigs K)
                        (s\<lparr>wsc_SliceHealth := Some (h\<lparr>sh_LastUpdated := Some now\<rparr>)\<rparr>) w of
                      (Some e, w) \<Rightarrow> ((result_none, Some e), w)
                    | (None, w) \<Rightarrow> ((result_after 120, None), w))
              else ((result_after 120, None), w)))"

definition updateSliceOnSpoke :: "kube \<Rightarrow> int \<Rightarrow> worker_slice_config \<Rightarrow> slice \<Rightarrow> world
    \<Rightarrow> (ctrl_result \<times> go_error option) \<times> world" where
  "updateSliceOnSpoke K now s meshSlice w =
     (let (updateRequired, ls) = mirrorLabels (om_Labels (wsc_meta s)) (om_Labels (sl_meta meshSlice));
          meshSlice = set_sl_Labels ls meshSlice
      in case (if updateRequired then r_update (k_slices K) meshSlice w else (None, w)) of
           (Some e, w) \<Rightarrow> ((result_none, Some e), w)
         | (None, w) \<Rightarrow>
             (case updateSliceConfig K meshSlice s w of
                (Some e, w) \<Rightarrow> ((result_none, Some e), w)
              | (None, w) \<Rightarrow> reportSliceHealth K now s w))"

definition HubSliceReconcile :: "kube \<Rightarrow> int \<Rightarrow> string \<Rightarrow> string \<Rightarrow> world
    \<Rightarrow> (ctrl_result \<times> go_error option) \<times> world" where
  "HubSliceReconcile K now reqNamespace reqName w =
     (case r_get (k_sliceconfigs K) reqNamespace reqName w of
        (Inl NotFound, w) \<Rightarrow> ((result_none, None), w)
      | (Inl e, w) \<Rightarrow> ((result_none, Some e), w)
      | (Inr s, w) \<Rightarrow>
     (case hubSliceDeletion K reqNamespace reqName s w of
        ((True, res, err), s, w) \<Rightarrow> ((res, err), w)
      | ((False, _, _), s, w) \<Rightarrow>
     (case r_get (k_slices K) ControlPlaneNamespace (ws_SliceName (wsc_Spec s)) w of
        (Inl NotFound, w) \<Rightarrow> createSliceOnSpoke K s w
      | (Inl e, w) \<Rightarrow> ((result_none, Some e), w)
      | (Inr meshSlice, w) \<Rightarrow> updateSliceOnSpoke K now s meshSlice w)))"

section \<open>Labels and configuration\<close>

lemma map_of_filter_keys:
  "map_of (filter (\<lambda>(k, _). P k) xs) k = (if P k then map_of xs k else None)"
  by (induction xs) auto

lemma fold_labels:
  fixes src :: labels
  defines "f \<equiv> \<lambda>(u, d) (k, sv). if map_of d k \<noteq> Some sv then (True, AList.update k sv d) else (u, d)"
  assumes "distinct (map fst src)" and "foldl f (u, d) src = (u', d')"
  shows "map_of d' k = (case map_of src k of None \<Rightarrow> map_of d k | Some v \<Rightarrow> Some v)
    \<and> (\<not> u' \<longrightarrow> d' = d \<and> \<not> u)"
  using assms(2,3)
proof (induction src arbitrary: u d)
  case Nil
  then show ?case by simp
next
  case (Cons x src)
  obtain j v where x: "x = (j, v)" by fastforce
  obtain u1 d1 where s: "f (u, d) x = (u1, d1)" by fastforce
  have d1: "map_of d1 = (map_of d)(j \<mapsto> v)" and u1: "\<not> u1 \<Longrightarrow> d1 = d \<and> \<not> u"
    using s x by (auto simp: f_def update_conv' split: if_split_asm)
  have "distinct (map fst src)" "foldl f (u1, d1) src = (u', d')" using Cons.prems s by simp_all
  note ih = Cons.IH [OF this]
  have n: "map_of src j = None" using Cons.prems(1) x by (simp add: map_of_eq_None_iff)
  have "map_of d' k = (case map_of (x # src) k of None \<Rightarrow> map_of d k | Some v \<Rightarrow> Some v)"
    using conjunct1 [OF ih] n unfolding x d1 by (cases "k = j"; cases "map_of src k") simp_all
  with conjunct2 [OF ih] u1 show ?case by blast
qed

lemma mirrorLabels_spec:
  assumes "distinct (map fst src)" and m: "mirrorLabels src dst = (changed, ls)"
  shows "map_of ls = map_of src" and "\<not> changed \<Longrightarrow> ls = dst"
proof -
  obtain u d where f: "foldl (\<lambda>(u, d) (k, sv). if map_of d k \<noteq> Some sv then (True, AList.update k sv d)
      else (u, d)) (False, dst) src = (u, d)" by fastforce
  note d = fold_labels [OF assms(1) f]
  have ls: "ls = filter (\<lambda>(k, _). map_of src k \<noteq> None) d"
    and c: "changed \<longleftrightarrow> u \<or> list_ex (\<lambda>(k, _). map_of src k = None) d"
    using m f by (simp_all add: mirrorLabels_def)
  show "map_of ls = map_of src"
  proof
    fix k
    show "map_of ls k = map_of src k"
      using d [of k] unfolding ls map_of_filter_keys by (cases "map_of src k") simp_all
  qed
  assume "\<not> changed"
  then have "d = dst" "\<forall>(k, v) \<in> set d. map_of src k \<noteq> None"
    using c conjunct2 [OF d [of undefined]] by (auto simp: list_ex_iff)
  then show "ls = dst" unfolding ls by (auto intro!: filter_True)
qed

text \<open>The fields of the configuration, one by one; \<open>c\<close> is what there was before.\<close>

lemma configFromHub_fields:
  fixes old p
  defines "c \<equiv> (case old of None \<Rightarrow> initialSliceConfig p | Some c \<Rightarrow> c)"
  shows "sc_SliceID (configFromHub p old) = sc_SliceID c"
    "sc_SliceDisplayName (configFromHub p old) = sc_SliceDisplayName c"
    "sc_SliceSubnet (configFromHub p old)
       = (if sc_SliceSubnet c = '''' then ws_SliceSubnet p else sc_SliceSubnet c)"
    "sc_SliceType (configFromHub p old) = sc_SliceType c"
    "sc_QosProfileDetails (configFromHub p old) = ws_QosProfileDetails p"
    "sc_SliceIpamType (configFromHub p old) = sc_SliceIpamType c"
    "sc_IpamClusterOctet (configFromHub p old)
       = (if sc_IpamClusterOctet c = 0 then ws_IpamClusterOctet p else sc_IpamClusterOctet c)"
    "sc_ExternalGatewayConfig (configFromHub p old) = Some (externalGatewayOf p)"
    "sc_NamespaceIsolationProfile (configFromHub p old) = Some (ws_NamespaceIsolationProfile p)"
    "sc_ClusterSubnetCIDR (configFromHub p old) = ws_ClusterSubnetCIDR p"
    "sc_SliceGatewayServiceType (configFromHub p old) = ws_SliceGatewayServiceType p"
    "sc_SliceGatewayProtocol (configFromHub p old) = ws_SliceGatewayProtocol p"
    "sc_NetworkMode (configFromHub p old) = ws_NetworkMode p"
  unfolding configFromHub_def Let_def c_def [symmetric] by simp_all

lemma configFromHub_stable:
  "configFromHub p (Some (configFromHub p old)) = configFromHub p old"
  by (rule slice_config.equality)
    (simp_all only: configFromHub_fields [of p "Some (configFromHub p old)"] option.case
      configFromHub_fields [of p old] split: if_split, auto)

section \<open>What a pass leaves\<close>

sublocale lawful \<subseteq> wsf: hub_object "k_sliceconfigs K" wsc_meta no_phase h_sliceconfigs h_sliceconfigs_update
    wsc_with_finalizers hubSliceFinalizer w_slices
  by unfold_locales (simp_all add: wsc_with_finalizers_def)

context lawful
begin

lemma listComponentPods_reads: "listComponentPods K c ls w = (r, w') \<Longrightarrow> reads w w'"
  unfolding listComponentPods_def using pod.list_world by blast

lemma healthyTunnels_reads: "healthyTunnels K ps w = (n, w') \<Longrightarrow> reads w w'"
proof (induction ps arbitrary: n w w')
  case Nil
  then show ?case by simp
next
  case (Cons p ps)
  obtain r w1 where g: "k_GetStatus K (p_PodIP p @ '':5000'') w = (r, w1)" by fastforce
  then have "w1 = tick w" using GetStatus_world by (metis snd_conv)
  with Cons g show ?case
    by (auto split: if_split_asm sum.split_asm prod.split_asm intro: reads_trans [OF reads_tick])
qed

lemma getComponentStatus_reads:
  assumes "getComponentStatus K c s w = (r, w')"
  shows "reads w w'"
proof -
  let ?ls = "if cp_name c \<noteq> ''dns'' then AList.update ''kubeslice.io/slice'' s (cp_labels c) else cp_labels c"
  have gh: "reads v v'" if "fetchSliceGatewayHealth K c ls n v = (q, v')" for ls n v v' q
    using that unfolding fetchSliceGatewayHealth_def Let_def
    by (auto split: prod.split_asm sum.split_asm list.split_asm dest: listComponentPods_reads)
  have tn: "reads v v'" if "fetchTunnelStatus K c ls n v = (q, v')" for ls n v v' q
    using that unfolding fetchTunnelStatus_def
    by (auto split: prod.split_asm sum.split_asm list.split_asm simp del: healthyTunnels.simps
        dest!: listComponentPods_reads healthyTunnels_reads intro: reads_trans)
  obtain gr w1 where g: "r_list (k_slicegws K) (in_namespace (cp_ns c) [(''kubeslice.io/slice'', s)]) w = (gr, w1)"
    by fastforce
  have w1: "w1 = tick w" by (rule gw.list_world [OF g])
  show ?thesis
  proof (cases "cp_name c = ''slice-gateway'' \<or> cp_name c = ''gateway-tunnel''")
    case True
    show ?thesis
    proof (cases gr)
      case (Inl e)
      with True assms g w1 show ?thesis
        by (cases e) (auto simp: getComponentStatus_def Let_def)
    next
      case (Inr gws)
      with True assms g w1 show ?thesis
        by (cases gws) (auto simp: getComponentStatus_def Let_def split: if_split_asm
            dest!: gh tn intro: reads_trans [OF reads_tick])
    qed
  next
    case False
    then show ?thesis using assms
      by (auto simp: getComponentStatus_def Let_def split: prod.split_asm sum.split_asm
          dest: listComponentPods_reads)
  qed
qed

lemma componentStatuses_reads: "componentStatuses K s cs w = (sts, w') \<Longrightarrow> reads w w'"
proof (induction cs arbitrary: sts w w')
  case Nil
  then show ?case by simp
next
  case (Cons c cs)
  obtain st e w1 where g: "getComponentStatus K c s w = ((st, e), w1)" by (metis surj_pair)
  obtain sts1 w2 where c: "componentStatuses K s cs w1 = (sts1, w2)" by fastforce
  have "reads w w1" by (rule getComponentStatus_reads [OF g])
  moreover have "reads w1 w2" by (rule Cons.IH [OF c])
  moreover have "w2 = w'" using Cons.prems g c by (cases st) simp_all
  ultimately show ?case by (blast intro: reads_trans)
qed

lemma updateSliceHealth_reads: "updateSliceHealth K sl h w = (h', w') \<Longrightarrow> reads w w'"
  unfolding updateSliceHealth_def
  by (auto split: if_split_asm prod.split_asm dest: componentStatuses_reads)

lemma reportSliceHealth_slices:
  assumes "reportSliceHealth K now s w = (r, w')"
  shows "w_slices w' = w_slices w"
proof -
  define h0 where "h0 = (case wsc_SliceHealth s of
      None \<Rightarrow> \<lparr>sh_SliceHealthStatus = '''', sh_ComponentStatuses = [], sh_LastUpdated = None\<rparr> | Some h \<Rightarrow> h)"
  obtain h w1 where h: "updateSliceHealth K s h0 w = (h, w1)" by fastforce
  have r: "w_slices w1 = w_slices w" using updateSliceHealth_reads [OF h] by (auto elim: readsE)
  let ?s = "s\<lparr>wsc_SliceHealth := Some (h\<lparr>sh_LastUpdated := Some now\<rparr>)\<rparr>"
  obtain e w2 where u: "r_update_status (k_sliceconfigs K) ?s w1 = (e, w2)" by fastforce
  then have "w_slices w2 = w_slices w1"
    using wsc.update_status_ok wsc.update_status_err by (cases e) fastforce+
  with assms h r u show ?thesis
    unfolding reportSliceHealth_def h0_def [symmetric] Let_def
    by (auto split: if_split_asm option.split_asm)
qed

lemma update_slice_config:
  assumes "updateSliceConfig K m s w = (None, w')"
  shows "find (keyed sl_meta (sl_Namespace m) (sl_Name m)) (w_slices w')
    = Some (m\<lparr>sl_Config := Some (configFromHub (wsc_Spec s) (sl_Config m))\<rparr>)"
    and "w_slices w' = replace_object sl_meta
       (m\<lparr>sl_Config := Some (configFromHub (wsc_Spec s) (sl_Config m))\<rparr>) (w_slices w)"
proof -
  let ?m = "m\<lparr>sl_Config := Some (configFromHub (wsc_Spec s) (sl_Config m))\<rparr>"
  have u: "list_ex (same_key sl_meta ?m) (w_slices w) \<and> w' = tick (w_slices_update (replace_object sl_meta ?m) w)"
    using assms slice.update_status_ok unfolding updateSliceConfig_def by blast
  then show "w_slices w' = replace_object sl_meta ?m (w_slices w)" by simp
  with u find_replace_same [of sl_meta ?m "w_slices w"]
  show "find (keyed sl_meta (sl_Namespace m) (sl_Name m)) (w_slices w') = Some ?m" by simp
qed

lemma hub_deletion_goes_on:
  assumes "hubSliceDeletion K ns n s w = ((False, res, err), s', w')"
  shows "w_slices w' = w_slices w" "wsc_Spec s' = wsc_Spec s"
    "om_Labels (wsc_meta s') = om_Labels (wsc_meta s)"
proof -
  let ?s = "wsc_with_finalizers (om_Finalizers (wsc_meta s) @ [hubSliceFinalizer]) s"
  obtain e v where u: "r_update (k_sliceconfigs K) ?s w = (e, v)" by fastforce
  then have v: "w_slices v = w_slices w" using wsc.update_ok wsc.update_err by (cases e) fastforce+
  have "(s', w') = (?s, v) \<or> (s', w') = (s, w)"
    using assms u unfolding hubSliceDeletion_def Let_def
    by (auto split: if_split_asm option.split_asm prod.split_asm)
  then show "w_slices w' = w_slices w" "wsc_Spec s' = wsc_Spec s"
    "om_Labels (wsc_meta s') = om_Labels (wsc_meta s)"
    using v by (auto simp: wsc_with_finalizers_def)
qed

lemma slice_pass:
  assumes "HubSliceReconcile K now ns n w = ((result_after 120, None), w')"
    and s: "find (keyed wsc_meta ns n) (h_sliceconfigs w) = Some s"
    and dist: "distinct (map fst (om_Labels (wsc_meta s)))"
  defines "found \<equiv> find (keyed sl_meta ControlPlaneNamespace (ws_SliceName (wsc_Spec s))) (w_slices w)"
  shows "\<exists>m. find (keyed sl_meta ControlPlaneNamespace (ws_SliceName (wsc_Spec s))) (w_slices w') = Some m
      \<and> sl_Config m = Some (configFromHub (wsc_Spec s) (Option.bind found sl_Config))
      \<and> (\<forall>m0. found = Some m0 \<longrightarrow>
           map_of (om_Labels (sl_meta m)) = map_of (om_Labels (wsc_meta s))
           \<and> m = (set_sl_Labels (om_Labels (sl_meta m)) m0)\<lparr>sl_Config := sl_Config m\<rparr>)"
proof -
  let ?name = "ws_SliceName (wsc_Spec s)"
  obtain gr w1 where g: "r_get (k_sliceconfigs K) ns n w = (gr, w1)" by fastforce
  have w1: "w1 = tick w" by (rule wsc.get_world [OF g])
  have gr: "gr = Inr s"
  proof (cases gr)
    case (Inl e)
    with wsc.get_err g s have "e \<noteq> NotFound" by auto
    with Inl assms(1) g show ?thesis by (cases e) (auto simp: HubSliceReconcile_def)
  next
    case (Inr x)
    with wsc.get_ok g s show ?thesis by auto
  qed
  obtain stop res err s1 w2 where d: "hubSliceDeletion K ns n s w1 = ((stop, res, err), s1, w2)"
    by (metis surj_pair)
  have stop: "\<not> stop"
  proof
    assume "stop"
    then have "res = result_none"
      using d unfolding hubSliceDeletion_def Let_def
      by (auto split: if_split_asm option.split_asm prod.split_asm)
    with \<open>stop\<close> assms(1) g gr d show False by (simp add: HubSliceReconcile_def)
  qed
  with d have d': "hubSliceDeletion K ns n s w1 = ((False, res, err), s1, w2)" by simp
  note dl = hub_deletion_goes_on [OF d']
  have w2: "w_slices w2 = w_slices w" using dl(1) w1 by simp
  obtain mr w3 where m: "r_get (k_slices K) ControlPlaneNamespace ?name w2 = (mr, w3)" by fastforce
  have w3: "w3 = tick w2" by (rule slice.get_world [OF m])
  note pre = assms(1) g gr d stop m dl(2)
  show ?thesis
  proof (cases mr)
    case (Inl e)
    have e: "e = NotFound" and cr: "createSliceOnSpoke K s1 w3 = ((result_after 120, None), w')"
      using pre Inl by (cases e; simp add: HubSliceReconcile_def)+
    have found: "found = None"
      using slice.get_err [of ControlPlaneNamespace ?name w2 e w3] m Inl e w2 unfolding found_def by simp
    let ?m = "new_slice (new_meta ControlPlaneNamespace ?name [])"
    obtain w4 where "updateSliceConfig K ?m s1 w4 = (None, w')"
      using cr dl(2) unfolding createSliceOnSpoke_def Let_def
      by (auto split: prod.split_asm option.split_asm)
    from update_slice_config(1) [OF this] dl(2) found show ?thesis
      by (simp add: new_slice_def)
  next
    case (Inr m0)
    have up: "updateSliceOnSpoke K now s1 m0 w3 = ((result_after 120, None), w')"
      using pre Inr by (simp add: HubSliceReconcile_def)
    have found: "found = Some m0"
      using slice.get_ok [of ControlPlaneNamespace ?name w2 m0 w3] m Inr w2 unfolding found_def by simp
    then have key: "sl_Namespace m0 = ControlPlaneNamespace" "sl_Name m0 = ?name"
      unfolding found_def using find_Some_iff' [of "keyed sl_meta ControlPlaneNamespace ?name" "w_slices w" m0]
      by (auto simp: keyed_def)
    obtain ch ls where ml: "mirrorLabels (om_Labels (wsc_meta s)) (om_Labels (sl_meta m0)) = (ch, ls)"
      by fastforce
    note ls = mirrorLabels_spec [OF dist ml]
    let ?m = "set_sl_Labels ls m0"
    obtain e4 w4 where u4: "(if ch then r_update (k_slices K) ?m w3 else (None, w3)) = (e4, w4)" by fastforce
    obtain e5 w5 where u5: "updateSliceConfig K ?m s1 w4 = (e5, w5)" by fastforce
    have e: "e4 = None" "e5 = None" and h: "reportSliceHealth K now s1 w5 = ((result_after 120, None), w')"
      using up ml dl(3) u4 u5 unfolding updateSliceOnSpoke_def Let_def
      by (auto split: option.split_asm)
    have "find (keyed sl_meta (sl_Namespace ?m) (sl_Name ?m)) (w_slices w5)
        = Some (?m\<lparr>sl_Config := Some (configFromHub (wsc_Spec s1) (sl_Config ?m))\<rparr>)"
      using update_slice_config(1) u5 e(2) by blast
    moreover have "w_slices w' = w_slices w5" by (rule reportSliceHealth_slices [OF h])
    ultimately show ?thesis using key found dl(2) ls(1) by (simp add: set_sl_Labels_def)
  qed
qed

lemma spoke_slice_deleted:
  assumes "deleteSliceResourceOnSpoke K s w = (None, w')"
  shows "find (keyed sl_meta ControlPlaneNamespace (ws_SliceName (wsc_Spec s))) (w_slices w') = None"
proof -
  obtain d w2 where dd: "r_delete (k_slices K) ControlPlaneNamespace (ws_SliceName (wsc_Spec s)) w = (d, w2)"
    by fastforce
  with assms have "d = None \<or> d = Some NotFound" "w' = w2" unfolding deleteSliceResourceOnSpoke_def
    by (auto split: option.split_asm go_error.split_asm)
  with slice.delete_gone [OF dd] show ?thesis by simp
qed

lemma slice_gone:
  assumes "HubSliceReconcile K now ns n w = ((res, None), w')"
    and s: "find (keyed wsc_meta ns n) (h_sliceconfigs w) = Some s"
    and del: "om_DeletionTimestamp (wsc_meta s) = Some t" "hubSliceFinalizer \<in> set (om_Finalizers (wsc_meta s))"
  shows "find (keyed sl_meta ControlPlaneNamespace (ws_SliceName (wsc_Spec s))) (w_slices w') = None
    \<and> (\<exists>s'. find (keyed wsc_meta ns n) (h_sliceconfigs w') = Some s'
         \<and> hubSliceFinalizer \<notin> set (om_Finalizers (wsc_meta s')))"
proof -
  let ?f = "dropHubSliceFinalizer K ns n"
  obtain gr w1 where g: "r_get (k_sliceconfigs K) ns n w = (gr, w1)" by fastforce
  have gr: "gr = Inr s"
  proof (cases gr)
    case (Inl e)
    with wsc.get_err [of ns n w e w1] g s have "e \<noteq> NotFound" by simp
    with Inl assms(1) g show ?thesis by (cases e) (auto simp: HubSliceReconcile_def)
  next
    case (Inr x)
    with wsc.get_ok [of ns n w x w1] g s show ?thesis by simp
  qed
  obtain e3 w3 where dd: "deleteSliceResourceOnSpoke K s w1 = (e3, w3)" by fastforce
  obtain r s4 w4 where rt: "RetryOnConflict DefaultRetry ?f (s, w3) = (r, s4, w4)"
    by (cases "RetryOnConflict DefaultRetry ?f (s, w3)") auto
  have e3: "e3 = None"
    using assms(1) g gr dd del unfolding HubSliceReconcile_def hubSliceDeletion_def
    by (cases e3) simp_all
  have fin: "r = None" "w4 = w'"
    using assms(1) g gr dd del e3 rt unfolding HubSliceReconcile_def hubSliceDeletion_def
    by simp_all
  note wsf.take_finalizer [OF rt [unfolded dropHubSliceFinalizer_def]]
  with spoke_slice_deleted dd e3 fin show ?thesis by (simp add: wsf.finalizer_gone_def)
qed

end

text \<open>
  C22: The slice in the worker cluster follows the hub. After a pass that goes through, the slice
  exists; its network mode, its QoS and isolation profiles, its gateway and cluster settings are
  those on the hub; a subnet and an octet that were set before are kept; another pass would
  write the same configuration. Of a slice that existed before only the configuration and
  the labels have changed, and the labels are those on the hub.
\<close>

theorem slice_follows_hub:
  assumes "lawful K" and "HubSliceReconcile K now ns n w = ((result_after 120, None), w')"
    and "find (keyed wsc_meta ns n) (h_sliceconfigs w) = Some s"
    and "distinct (map fst (om_Labels (wsc_meta s)))"
  shows "\<exists>m c. find (keyed sl_meta ControlPlaneNamespace (ws_SliceName (wsc_Spec s))) (w_slices w') = Some m
      \<and> sl_Config m = Some c
      \<and> sc_NetworkMode c = ws_NetworkMode (wsc_Spec s)
      \<and> sc_QosProfileDetails c = ws_QosProfileDetails (wsc_Spec s)
      \<and> sc_NamespaceIsolationProfile c = Some (ws_NamespaceIsolationProfile (wsc_Spec s))
      \<and> sc_ExternalGatewayConfig c = Some (externalGatewayOf (wsc_Spec s))
      \<and> sc_ClusterSubnetCIDR c = ws_ClusterSubnetCIDR (wsc_Spec s)
      \<and> configFromHub (wsc_Spec s) (Some c) = c
      \<and> (\<forall>m0 c0. find (keyed sl_meta ControlPlaneNamespace (ws_SliceName (wsc_Spec s))) (w_slices w) = Some m0
            \<and> sl_Config m0 = Some c0
          \<longrightarrow> (sc_SliceSubnet c0 \<noteq> '''' \<longrightarrow> sc_SliceSubnet c = sc_SliceSubnet c0)
            \<and> (sc_IpamClusterOctet c0 \<noteq> 0 \<longrightarrow> sc_IpamClusterOctet c = sc_IpamClusterOctet c0)
            \<and> map_of (om_Labels (sl_meta m)) = map_of (om_Labels (wsc_meta s))
            \<and> m = (set_sl_Labels (om_Labels (sl_meta m)) m0)\<lparr>sl_Config := Some c\<rparr>)"
proof -
  let ?p = "wsc_Spec s"
  let ?found = "find (keyed sl_meta ControlPlaneNamespace (ws_SliceName ?p)) (w_slices w)"
  obtain m where m: "find (keyed sl_meta ControlPlaneNamespace (ws_SliceName ?p)) (w_slices w') = Some m"
      "sl_Config m = Some (configFromHub ?p (Option.bind ?found sl_Config))"
      "\<forall>m0. ?found = Some m0 \<longrightarrow> map_of (om_Labels (sl_meta m)) = map_of (om_Labels (wsc_meta s))
           \<and> m = (set_sl_Labels (om_Labels (sl_meta m)) m0)\<lparr>sl_Config := sl_Config m\<rparr>"
    using lawful.slice_pass [OF assms] by blast
  show ?thesis
    by (rule exI [of _ m], rule exI [of _ "configFromHub ?p (Option.bind ?found sl_Config)"])
      (use m in \<open>auto simp: configFromHub_fields configFromHub_stable\<close>)
qed

text \<open>
  A slice that is deleted on the hub. When the pass ends without an error, the slice is gone
  from the worker cluster, and only then the object on the hub has lost the finalizer of the
  worker.
\<close>

theorem hub_slice_deleted:
  assumes "lawful K" and "HubSliceReconcile K now ns n w = ((res, None), w')"
    and "find (keyed wsc_meta ns n) (h_sliceconfigs w) = Some s"
    and "om_DeletionTimestamp (wsc_meta s) = Some t"
    and "hubSliceFinalizer \<in> set (om_Finalizers (wsc_meta s))"
  shows "find (keyed sl_meta ControlPlaneNamespace (ws_SliceName (wsc_Spec s))) (w_slices w') = None
    \<and> (\<exists>s'. find (keyed wsc_meta ns n) (h_sliceconfigs w') = Some s'
         \<and> hubSliceFinalizer \<notin> set (om_Finalizers (wsc_meta s')))"
  by (rule lawful.slice_gone [OF assms])

end
