(* ===== verification/HubHealth.thy ===== *)
theory HubHealth
  imports HubSlice
begin

text \<open>
  What the health report of a slice says about the cluster, and examples for the theory
  \<open>HubSlice\<close>.
\<close>

section \<open>What a normal slice is\<close>

definition slice_pods :: "labels \<Rightarrow> world \<Rightarrow> pod list" where
  "slice_pods ls w = filter (selects p_meta p_Phase (in_namespace ControlPlaneNamespace ls)) (w_pods w)"

definition slice_gateways :: "string \<Rightarrow> world \<Rightarrow> slice_gateway list" where
  "slice_gateways sliceName w =
     filter (selects gw_meta no_phase (in_namespace ControlPlaneNamespace [(''kubeslice.io/slice'', sliceName)]))
       (w_slicegws w)"

definition gateway_pods :: "string \<Rightarrow> world \<Rightarrow> pod list" where
  "gateway_pods sliceName w =
     filter (\<lambda>p. p_Phase p = ''Running'' \<and> om_DeletionTimestamp (p_meta p) = None)
       (slice_pods [(''kubeslice.io/pod-type'', ''slicegateway''), (''kubeslice.io/slice'', sliceName)] w)"

definition tunnel_up :: "replies \<Rightarrow> pod \<Rightarrow> bool" where
  "tunnel_up R p \<longleftrightarrow>
     (case re_status R (p_PodIP p @ '':5000'') of None \<Rightarrow> False | Some gs \<Rightarrow> ts_Status (st_Tunnel gs) = 0)"

definition all_running :: "pod list \<Rightarrow> bool" where
  "all_running ps \<longleftrightarrow> list_all (\<lambda>p. p_Phase p = ''Running'' \<and> podHealthy p) ps"

lemma reliable_pod_list:
  "cp_ns c = ControlPlaneNamespace \<Longrightarrow>
    listComponentPods (ref_kube no_faults R) c ls w = (Inr (slice_pods ls w), tick w)"
  by (simp add: listComponentPods_def slice_pods_def up.podr.list_all_ok)

lemma healthyTunnels_count:
  "\<exists>w'. healthyTunnels (ref_kube no_faults R) ps w =
     (length (filter (tunnel_up R)
        (filter (\<lambda>p. p_Phase p = ''Running'' \<and> om_DeletionTimestamp (p_meta p) = None) ps)), w')
   \<and> w_pods w' = w_pods w \<and> w_slicegws w' = w_slicegws w"
proof (induction ps arbitrary: w)
  case Nil
  then show ?case by simp
next
  case (Cons p ps)
  have "k_GetStatus (ref_kube no_faults R) (p_PodIP p @ '':5000'') w
      = (case re_status R (p_PodIP p @ '':5000'') of None \<Rightarrow> (Inl (Failure ''unavailable''), tick w)
         | Some gs \<Rightarrow> (Inr gs, tick w))"
    by (simp add: ref_kube_def ref_reply_def no_faults_def)
  with Cons.IH [of w] Cons.IH [of "tick w"] show ?case
    by (auto simp: tunnel_up_def split: option.split)
qed

text \<open>The statuses of the six components when no call fails.\<close>

definition component_statuses :: "replies \<Rightarrow> string \<Rightarrow> world \<Rightarrow> (string \<times> string) option list" where
  "component_statuses R sliceName w =
     (let gws = slice_gateways sliceName w; n = length gws;
          pods = slice_pods [(''kubeslice.io/pod-type'', ''slicegateway''), (''kubeslice.io/slice'', sliceName)] w;
          gw = (\<lambda>name k. if gws = [] then None
                 else Some (name, if pods = [] then ''Error'' else redundancyHealth n k))
      in [podsHealth (components ! 0) (slice_pods [(''app'', ''kubeslice-dns'')] w),
          gw ''slice-gateway'' (length (filter podHealthy (gateway_pods sliceName w))),
          podsHealth (components ! 2)
            (slice_pods [(''kubeslice.io/pod-type'', ''router''), (''kubeslice.io/slice'', sliceName)] w),
          podsHealth (components ! 3)
            (slice_pods [(''istio'', ''egressgateway''), (''kubeslice.io/slice'', sliceName)] w),
          podsHealth (components ! 4)
            (slice_pods [(''istio'', ''ingressgateway''), (''kubeslice.io/slice'', sliceName)] w),
          gw ''gateway-tunnel'' (length (filter (tunnel_up R) (gateway_pods sliceName w)))])"

lemma ref_gateway_list:
  "r_list (k_slicegws (ref_kube no_faults R))
      (in_namespace ControlPlaneNamespace [(''kubeslice.io/slice'', n)]) w
     = (Inr (slice_gateways n w), tick w)"
  unfolding slice_gateways_def by (rule up.gwr.list_all_ok)

lemma other_component_status:
  assumes "cp_name c \<noteq> ''slice-gateway''" "cp_name c \<noteq> ''gateway-tunnel''" "cp_ns c = ControlPlaneNamespace"
  shows "getComponentStatus (ref_kube no_faults R) c n w
      = ((podsHealth c (slice_pods (if cp_name c \<noteq> ''dns''
           then AList.update ''kubeslice.io/slice'' n (cp_labels c) else cp_labels c) w), None), tick w)"
  using assms by (simp add: getComponentStatus_def reliable_pod_list)

lemma gateway_component_status:
  assumes "cp_name c = ''slice-gateway'' \<or> cp_name c = ''gateway-tunnel''" "cp_ns c = ControlPlaneNamespace"
    and "ls = AList.update ''kubeslice.io/slice'' n (cp_labels c)"
  shows "getComponentStatus (ref_kube no_faults R) c n w
      = (if slice_gateways n w = [] then ((None, None), tick w)
         else (if cp_name c = ''slice-gateway'' then fetchSliceGatewayHealth else fetchTunnelStatus)
           (ref_kube no_faults R) c ls (length (slice_gateways n w)) (tick w))"
  using assms
  by (cases "slice_gateways n w") (auto simp: getComponentStatus_def Let_def ref_gateway_list)

lemma gateway_health:
  assumes "cp_ns c = ControlPlaneNamespace"
  shows "fetchSliceGatewayHealth (ref_kube no_faults R) c ls k w
      = ((Some (cp_name c, if slice_pods ls w = [] then ''Error'' else redundancyHealth k
           (length (filter podHealthy (filter (\<lambda>p. p_Phase p = ''Running''
              \<and> om_DeletionTimestamp (p_meta p) = None) (slice_pods ls w))))), None), tick w)"
  by (cases "slice_pods ls w")
    (simp_all add: fetchSliceGatewayHealth_def reliable_pod_list [OF assms] conj_ac)

lemma tunnel_health:
  assumes "cp_ns c = ControlPlaneNamespace"
  shows "\<exists>w'. fetchTunnelStatus (ref_kube no_faults R) c ls k w
      = ((Some (cp_name c, if slice_pods ls w = [] then ''Error'' else redundancyHealth k
           (length (filter (tunnel_up R) (filter (\<lambda>p. p_Phase p = ''Running''
              \<and> om_DeletionTimestamp (p_meta p) = None) (slice_pods ls w))))), None), w')
      \<and> w_pods w' = w_pods w \<and> w_slicegws w' = w_slicegws w"
proof (cases "slice_pods ls w")
  case Nil
  then show ?thesis by (simp add: fetchTunnelStatus_def reliable_pod_list [OF assms])
next
  case (Cons p ps)
  from healthyTunnels_count [of R "slice_pods ls w" "tick w"] Cons show ?thesis
    by (auto simp: fetchTunnelStatus_def reliable_pod_list [OF assms] simp del: filter.simps healthyTunnels.simps)
qed

lemma component_status_ok:
  assumes "i < 6"
  shows "\<exists>w'. getComponentStatus (ref_kube no_faults R) (components ! i) n w
      = ((component_statuses R n w ! i, None), w') \<and> w_pods w' = w_pods w \<and> w_slicegws w' = w_slicegws w"
proof -
  let ?c = "components ! i"
  have tick: "slice_pods ls (tick w) = slice_pods ls w" for ls by (simp add: slice_pods_def)
  have ns: "cp_ns ?c = ControlPlaneNamespace"
    using assms by (auto simp: components_def nth_Cons' numeral_eq_Suc less_Suc_eq)
  consider "i = 0 \<or> i = 2 \<or> i = 3 \<or> i = 4" | "i = 1" | "i = 5" using assms by linarith
  then show ?thesis
  proof cases
    case 1
    then have "cp_name ?c \<noteq> ''slice-gateway''" "cp_name ?c \<noteq> ''gateway-tunnel''"
      by (auto simp: components_def numeral_eq_Suc)
    note s = other_component_status [OF this ns, of R n w]
    show ?thesis unfolding s using 1
      by (auto simp: component_statuses_def Let_def) (simp_all add: components_def numeral_eq_Suc)
  next
    case 2
    have c: "cp_name ?c = ''slice-gateway''" "AList.update ''kubeslice.io/slice'' n (cp_labels ?c)
        = [(''kubeslice.io/pod-type'', ''slicegateway''), (''kubeslice.io/slice'', n)]"
      unfolding 2 by (simp_all add: components_def)
    show ?thesis
      unfolding gateway_component_status [OF disjI1 [OF c(1)] ns c(2) [symmetric], of R w]
      using 2 c(1) gateway_health [OF ns, of R "[(''kubeslice.io/pod-type'', ''slicegateway''), (''kubeslice.io/slice'', n)]"
          "length (slice_gateways n w)" "tick w"]
      by (simp add: component_statuses_def Let_def gateway_pods_def tick)
  next
    case 3
    have c: "cp_name ?c = ''gateway-tunnel''" "AList.update ''kubeslice.io/slice'' n (cp_labels ?c)
        = [(''kubeslice.io/pod-type'', ''slicegateway''), (''kubeslice.io/slice'', n)]"
      unfolding 3 by (simp_all add: components_def numeral_eq_Suc)
    show ?thesis
      unfolding gateway_component_status [OF disjI2 [OF c(1)] ns c(2) [symmetric], of R w]
      using tunnel_health [OF ns, of R "[(''kubeslice.io/pod-type'', ''slicegateway''), (''kubeslice.io/slice'', n)]"
          "length (slice_gateways n w)" "tick w"] 3 c(1)
      by (auto simp: component_statuses_def Let_def gateway_pods_def tick)
  qed
qed

lemma componentStatuses_all:
  assumes "list_all2 (\<lambda>c st. \<forall>w. P w \<longrightarrow> (\<exists>w'. getComponentStatus K c n w = ((st, None), w') \<and> P w')) cs sts"
    and "P w"
  shows "\<exists>w'. componentStatuses K n cs w = (List.map_filter id sts, w')"
  using assms
proof (induction arbitrary: w rule: list_all2_induct)
  case Nil
  then show ?case by (simp add: map_filter_simps)
next
  case (Cons c cs st sts)
  then obtain w1 where c: "getComponentStatus K c n w = ((st, None), w1)" "P w1" by blast
  obtain w2 where "componentStatuses K n cs w1 = (List.map_filter id sts, w2)"
    using Cons.IH [OF c(2)] by blast
  with c(1) show ?case by (cases st) (simp_all add: map_filter_simps id_def)
qed

lemma slice_health_statuses:
  assumes "updateSliceHealth (ref_kube no_faults R) sl h w = (h', w')"
    and "ws_NetworkMode (wsc_Spec sl) \<noteq> ''no-network''"
  shows "sh_ComponentStatuses h' = List.map_filter id (component_statuses R (ws_SliceName (wsc_Spec sl)) w)"
    and "sh_SliceHealthStatus h'
      = (if list_ex (\<lambda>(_, st). st \<noteq> ''Normal'') (sh_ComponentStatuses h') then ''Warning'' else ''Normal'')"
proof -
  let ?K = "ref_kube no_faults R" and ?n = "ws_SliceName (wsc_Spec sl)"
  let ?P = "\<lambda>v::world. w_pods v = w_pods w \<and> w_slicegws v = w_slicegws w"
  have cong: "component_statuses R ?n v = component_statuses R ?n w" if "?P v" for v
    using that by (simp add: component_statuses_def slice_pods_def gateway_pods_def slice_gateways_def)
  have len: "length components = 6" "length (component_statuses R ?n w) = 6"
    by (simp_all add: components_def component_statuses_def Let_def)
  have "list_all2 (\<lambda>c st. \<forall>v. ?P v \<longrightarrow> (\<exists>v'. getComponentStatus ?K c ?n v = ((st, None), v') \<and> ?P v'))
      components (component_statuses R ?n w)"
  proof (rule list_all2_all_nthI)
    show "length components = length (component_statuses R ?n w)" using len by simp
  next
    fix i assume "i < length components"
    then have "i < 6" using len by simp
    show "\<forall>v. ?P v \<longrightarrow> (\<exists>v'. getComponentStatus ?K (components ! i) ?n v
        = ((component_statuses R ?n w ! i, None), v') \<and> ?P v')"
    proof (intro allI impI)
      fix v assume v: "?P v"
      from component_status_ok [OF \<open>i < 6\<close>, of R ?n v] cong [OF v] v
      show "\<exists>v'. getComponentStatus ?K (components ! i) ?n v
          = ((component_statuses R ?n w ! i, None), v') \<and> ?P v'" by auto
    qed
  qed
  from componentStatuses_all [OF this, of w] obtain w2
    where "componentStatuses ?K ?n components w
      = (List.map_filter id (component_statuses R ?n w), w2)" by auto
  with assms show "sh_ComponentStatuses h' = List.map_filter id (component_statuses R ?n w)"
    and "sh_SliceHealthStatus h'
      = (if list_ex (\<lambda>(_, st). st \<noteq> ''Normal'') (sh_ComponentStatuses h') then ''Warning'' else ''Normal'')"
    unfolding updateSliceHealth_def by auto
qed

lemma normal_pods:
  "podsHealth c ps = None \<or> map_option snd (podsHealth c ps) = Some ''Normal''
     \<longleftrightarrow> (ps = [] \<longrightarrow> cp_ignoreMissing c) \<and> all_running ps"
  by (auto simp: podsHealth_def all_running_def)

lemma normal_redundancy: "redundancyHealth n k = ''Normal'' \<longleftrightarrow> k = n * 2"
  by (auto simp: redundancyHealth_def)

lemma all_normal_statuses:
  "(\<not> list_ex (\<lambda>(_, st). st \<noteq> ''Normal'') (List.map_filter id sts))
     \<longleftrightarrow> (\<forall>s\<in>set sts. s = None \<or> map_option snd s = Some ''Normal'')"
  by (induction sts) (auto simp: map_filter_simps split: option.split)

text \<open>
  C23: When a slice is reported as normal. With an API server that answers every call, a slice
  with a network is normal exactly when: the pods of the DNS server and of the slice router
  exist, and they, like those of the slice's ingress and egress gateways if there are any,
  are running without a failed container; and, if the cluster has gateways of the slice, the
  running pods of gateways that are not being deleted include two healthy ones for each gateway,
  no more, and two whose sidecar reports that its tunnel is up, no more.
\<close>

theorem slice_reported_normal:
  assumes "updateSliceHealth (ref_kube no_faults R) sl h w = (h', w')"
    and "ws_NetworkMode (wsc_Spec sl) \<noteq> ''no-network''"
    and "ws_SliceName (wsc_Spec sl) = n"
  shows "sh_SliceHealthStatus h' = ''Normal'' \<longleftrightarrow>
     (let dns = slice_pods [(''app'', ''kubeslice-dns'')] w;
          pods = (\<lambda>k v. slice_pods [(k, v), (''kubeslice.io/slice'', n)] w);
          gws = length (slice_gateways n w)
      in dns \<noteq> [] \<and> all_running dns
       \<and> pods ''kubeslice.io/pod-type'' ''router'' \<noteq> [] \<and> all_running (pods ''kubeslice.io/pod-type'' ''router'')
       \<and> all_running (pods ''istio'' ''egressgateway'') \<and> all_running (pods ''istio'' ''ingressgateway'')
       \<and> (gws = 0
          \<or> length (filter podHealthy (gateway_pods n w)) = gws * 2
            \<and> length (filter (tunnel_up R) (gateway_pods n w)) = gws * 2))"
proof -
  let ?pods = "slice_pods [(''kubeslice.io/pod-type'', ''slicegateway''), (''kubeslice.io/slice'', n)] w"
  have c: "\<not> cp_ignoreMissing (components ! 0)" "\<not> cp_ignoreMissing (components ! 2)"
      "cp_ignoreMissing (components ! 3)" "cp_ignoreMissing (components ! 4)"
    by (simp_all add: components_def numeral_eq_Suc)
  have none: "?pods = [] \<Longrightarrow> gateway_pods n w = []" by (simp add: gateway_pods_def)
  have "sh_SliceHealthStatus h' = ''Normal''
      \<longleftrightarrow> (\<forall>s\<in>set (component_statuses R n w). s = None \<or> map_option snd s = Some ''Normal'')"
    using slice_health_statuses [OF assms(1,2)] assms(3)
      all_normal_statuses [of "component_statuses R n w"] by auto
  then show ?thesis
    using none c
    by (cases "slice_gateways n w"; cases "?pods")
      (simp_all del: option.map_sel map_option_eq_Some not_None_eq
        add: component_statuses_def Let_def normal_pods normal_redundancy conj_ac)
qed

text \<open>
  A slice whose components cannot be seen counts as healthy. When every list of pods and of
  slice gateways fails, the report names no component, and says that the slice is normal.
\<close>

theorem unseen_slice_reported_normal:
  assumes "\<And>lo w. \<exists>e. fst (r_list (k_pods K) lo w) = Inl e"
    and "\<And>lo w. \<exists>e. fst (r_list (k_slicegws K) lo w) = Inl e"
    and "updateSliceHealth K sl h w = (h', w')"
  shows "sh_ComponentStatuses h' = [] \<and> sh_SliceHealthStatus h' = ''Normal''"
proof -
  have pods: "\<exists>e w1. listComponentPods K c ls w = (Inl e, w1)" for c ls w
    using assms(1) [of "in_namespace (cp_ns c) ls" w]
    by (cases "r_list (k_pods K) (in_namespace (cp_ns c) ls) w") (auto simp: listComponentPods_def)
  have gws: "\<exists>e w1. r_list (k_slicegws K) lo w = (Inl e, w1)" for lo w
    using assms(2) [of lo w] by (cases "r_list (k_slicegws K) lo w") auto
  have one: "fst (fst (getComponentStatus K c n w)) = None" for c n w
  proof (cases "cp_name c = ''slice-gateway'' \<or> cp_name c = ''gateway-tunnel''")
    case True
    obtain e w1 where "r_list (k_slicegws K) (in_namespace (cp_ns c) [(''kubeslice.io/slice'', n)]) w = (Inl e, w1)"
      using gws by blast
    with True show ?thesis by (cases e) (auto simp: getComponentStatus_def Let_def)
  next
    case False
    obtain e w1 where "listComponentPods K c (if cp_name c \<noteq> ''dns''
        then AList.update ''kubeslice.io/slice'' n (cp_labels c) else cp_labels c) w = (Inl e, w1)"
      using pods by blast
    with False show ?thesis by (simp add: getComponentStatus_def Let_def)
  qed
  have "fst (componentStatuses K n cs w) = []" for n cs w
  proof (induction cs arbitrary: w)
    case (Cons c cs)
    obtain x e w1 where c: "getComponentStatus K c n w = ((x, e), w1)"
      by (cases "getComponentStatus K c n w") auto
    with one [of c n w] Cons.IH [of w1] show ?case by simp
  qed simp
  then obtain w2 where "componentStatuses K (ws_SliceName (wsc_Spec sl)) components w = ([], w2)"
    by (metis prod.collapse)
  with assms(3) show ?thesis by (auto simp: updateSliceHealth_def split: if_split_asm)
qed

section \<open>Examples\<close>

definition ex_hub_slice :: worker_slice_config where
  "ex_hub_slice =
     (new_worker_slice_config (new_meta ''kubeslice-project'' ''red-worker-1'' [(''team'', ''a'')]))\<lparr>
        wsc_Spec := empty_worker_slice_spec\<lparr>ws_SliceName := ''red'', ws_SliceSubnet := ''10.1.0.0/16'',
          ws_ClusterSubnetCIDR := ''10.1.2.0/24'', ws_IpamClusterOctet := 2,
          ws_SliceGatewayProtocol := ''UDP'', ws_NetworkMode := ''single-network''\<rparr>\<rparr>"

definition ex_hub_slice_world :: world where
  "ex_hub_slice_world = empty_world\<lparr>h_sliceconfigs := [ex_hub_slice],
     w_slices := [(new_slice (new_meta ''kubeslice-system'' ''red'' [(''old'', ''x'')]))\<lparr>
        sl_Config := Some ((initialSliceConfig (wsc_Spec ex_hub_slice))\<lparr>sc_SliceSubnet := ''10.9.0.0/16''\<rparr>)\<rparr>]\<rparr>"

definition ex_hub_slice_pass :: "(ctrl_result \<times> go_error option) \<times> world" where
  "ex_hub_slice_pass = HubSliceReconcile ex_kube 500 ''kubeslice-project'' ''red-worker-1'' ex_hub_slice_world"

lemma ex_hub_slice_shape:
  "fst ex_hub_slice_pass = (result_after 120, None)"
  "find (keyed wsc_meta ''kubeslice-project'' ''red-worker-1'') (h_sliceconfigs ex_hub_slice_world) = Some ex_hub_slice"
  "distinct (map fst (om_Labels (wsc_meta ex_hub_slice)))"
  by (code_simp+)

theorem slice_follows_hub_witness:
  "\<exists>m c. find (keyed sl_meta ControlPlaneNamespace ''red'') (w_slices (snd ex_hub_slice_pass)) = Some m
      \<and> sl_Config m = Some c \<and> sc_NetworkMode c = ''single-network''
      \<and> sc_ClusterSubnetCIDR c = ''10.1.2.0/24''"
proof -
  have "HubSliceReconcile ex_kube 500 ''kubeslice-project'' ''red-worker-1'' ex_hub_slice_world
      = ((result_after 120, None), snd ex_hub_slice_pass)"
    using ex_hub_slice_shape(1) by (metis ex_hub_slice_pass_def prod.collapse)
  from slice_follows_hub [OF ex_kube_lawful this ex_hub_slice_shape(2,3)]
  obtain m c where "find (keyed sl_meta ControlPlaneNamespace (ws_SliceName (wsc_Spec ex_hub_slice)))
        (w_slices (snd ex_hub_slice_pass)) = Some m" "sl_Config m = Some c"
      "sc_NetworkMode c = ws_NetworkMode (wsc_Spec ex_hub_slice)"
      "sc_ClusterSubnetCIDR c = ws_ClusterSubnetCIDR (wsc_Spec ex_hub_slice)" by blast
  then show ?thesis by (auto simp: ex_hub_slice_def)
qed

definition ex_gone_hub_slice :: worker_slice_config where
  "ex_gone_hub_slice = ex_hub_slice\<lparr>wsc_meta := (wsc_meta ex_hub_slice)\<lparr>om_DeletionTimestamp := Some 9,
     om_Finalizers := [''controller.kubeslice.io/hubSpokeSlice-finalizer'']\<rparr>\<rparr>"

definition ex_gone_pass :: "(ctrl_result \<times> go_error option) \<times> world" where
  "ex_gone_pass = HubSliceReconcile ex_kube 500 ''kubeslice-project'' ''red-worker-1''
     (ex_hub_slice_world\<lparr>h_sliceconfigs := [ex_gone_hub_slice]\<rparr>)"

lemma ex_gone_shape:
  "fst ex_gone_pass = (result_none, None)"
  "find (keyed wsc_meta ''kubeslice-project'' ''red-worker-1'')
     (h_sliceconfigs (ex_hub_slice_world\<lparr>h_sliceconfigs := [ex_gone_hub_slice]\<rparr>)) = Some ex_gone_hub_slice"
  "om_DeletionTimestamp (wsc_meta ex_gone_hub_slice) = Some 9"
  "hubSliceFinalizer \<in> set (om_Finalizers (wsc_meta ex_gone_hub_slice))"
  by (code_simp+)

theorem hub_slice_deleted_witness:
  "find (keyed sl_meta ControlPlaneNamespace ''red'') (w_slices (snd ex_gone_pass)) = None"
proof -
  have "HubSliceReconcile ex_kube 500 ''kubeslice-project'' ''red-worker-1''
      (ex_hub_slice_world\<lparr>h_sliceconfigs := [ex_gone_hub_slice]\<rparr>) = ((result_none, None), snd ex_gone_pass)"
    using ex_gone_shape(1) by (metis ex_gone_pass_def prod.collapse)
  from hub_slice_deleted [OF ex_kube_lawful this ex_gone_shape(2-4)]
  show ?thesis by (simp add: ex_gone_hub_slice_def ex_hub_slice_def)
qed

definition ex_health_pod :: "string \<Rightarrow> labels \<Rightarrow> pod" where
  "ex_health_pod n ls =
     \<lparr>p_meta = new_meta ''kubeslice-system'' n ls, p_Phase = ''Running'', p_PodIP = ''10.0.0.9'',
      p_NodeName = '''', p_TerminatedExitCodes = [Some 0]\<rparr>"

definition ex_health_world :: world where
  "ex_health_world = ex_hub_slice_world\<lparr>w_pods :=
     [ex_health_pod ''dns-0'' [(''app'', ''kubeslice-dns'')],
      ex_health_pod ''router-0'' [(''kubeslice.io/pod-type'', ''router''), (''kubeslice.io/slice'', ''red'')]]\<rparr>"

definition ex_health :: "slice_health \<times> world" where
  "ex_health = updateSliceHealth (ref_kube no_faults ex_replies) ex_hub_slice
     \<lparr>sh_SliceHealthStatus = '''', sh_ComponentStatuses = [], sh_LastUpdated = None\<rparr> ex_health_world"

theorem slice_reported_normal_witness: "sh_SliceHealthStatus (fst ex_health) = ''Normal''"
proof -
  have e: "updateSliceHealth (ref_kube no_faults ex_replies) ex_hub_slice
     \<lparr>sh_SliceHealthStatus = '''', sh_ComponentStatuses = [], sh_LastUpdated = None\<rparr> ex_health_world
     = (fst ex_health, snd ex_health)" by (simp add: ex_health_def)
  have n: "ws_NetworkMode (wsc_Spec ex_hub_slice) \<noteq> ''no-network''" "ws_SliceName (wsc_Spec ex_hub_slice) = ''red''"
    by (simp_all add: ex_hub_slice_def)
  show ?thesis unfolding slice_reported_normal [OF e n] by code_simp
qed

theorem unseen_slice_reported_normal_witness:
  "sh_SliceHealthStatus (fst (updateSliceHealth (ref_kube (\<lambda>_. Some Conflict) ex_replies) ex_hub_slice
     \<lparr>sh_SliceHealthStatus = ''Error'', sh_ComponentStatuses = [], sh_LastUpdated = None\<rparr> empty_world)) = ''Normal''"
  by (rule conjunct2 [OF unseen_slice_reported_normal
        [of "ref_kube (\<lambda>_. Some Conflict) ex_replies", OF _ _ prod.collapse [symmetric]]])
    (simp_all add: ref_kube_def ref_ops_def)

end
