(* ===== verification/HubGateway.thy ===== *)
theory HubGateway
  imports HubObjects GatewayReconcile SliceReconcile
begin

text \<open>
  The controller that brings the slice gateways of the hub to the worker cluster, with their
  certificates: \<open>pkg/hub/controllers/slicegateway_controller.go\<close>.
\<close>

section \<open>The configuration of a gateway\<close>

definition empty_gateway_config :: slice_gateway_config where
  "empty_gateway_config =
     \<lparr>SliceGatewayID = '''', SliceGatewayName = '''', cfg_SliceName = '''', SliceSiteName = '''',
      SliceGatewayType = '''', SliceGatewaySubnet = '''', SliceGatewayStatus = '''',
      SliceGatewayHostType = '''', SliceGatewayNodePorts = [], SliceGatewayRemoteNodeIPs = [],
      SliceGatewayRemoteNodePorts = [], SliceGatewayRemoteSubnet = '''',
      SliceGatewayRemoteVpnIP = '''', SliceGatewayLocalVpnIP = '''',
      SliceGatewayRemoteGatewayID = '''', SliceGatewayRemoteClusterID = '''',
      SliceGatewayIntermediateDeployments = [], SliceGatewayConnectivityType = '''',
      SliceGatewayProtocol = '''', SliceGatewayServerLBIPs = []\<rparr>"

definition new_slice_gateway :: "object_meta \<Rightarrow> string \<Rightarrow> slice_gateway" where
  "new_slice_gateway m sliceName =
     \<lparr>gw_meta = m, gw_SliceName = sliceName, gw_SiteName = '''', gw_Config = empty_gateway_config,
      gw_ConfigUpdatedOn = 0, gw_ConnectionContextUpdatedOn = 0, gw_GatewayPodStatus = []\<rparr>"

text \<open>The fields that do not change in the life of a gateway, compared with those on the hub.\<close>

definition staticFieldsChanged :: "hub_slice_gateway \<Rightarrow> slice_gateway_config \<Rightarrow> bool" where
  "staticFieldsChanged h c \<longleftrightarrow>
     SliceGatewayID c \<noteq> hg_GatewayName h \<or>
     SliceGatewaySubnet c \<noteq> hg_GatewaySubnet h \<or>
     SliceGatewayRemoteSubnet c \<noteq> hr_GatewaySubnet (hg_Remote h) \<or>
     SliceGatewayHostType c \<noteq> hg_GatewayHostType h \<or>
     SliceGatewayRemoteClusterID c \<noteq> hr_ClusterName (hg_Remote h) \<or>
     SliceGatewayRemoteGatewayID c \<noteq> hr_GatewayName (hg_Remote h) \<or>
     SliceGatewayName c \<noteq> itoa (hg_GatewayNumber h) \<or>
     SliceGatewayConnectivityType c \<noteq> hg_GatewayConnectivityType h \<or>
     SliceGatewayProtocol c \<noteq> hg_GatewayProtocol h \<or>
     SliceGatewayType c \<noteq> hg_GatewayType h"

text \<open>The dynamic fields of a client; the node ports are compared with \<open>SliceGatewayNodePorts\<close>.\<close>

definition dynamicFieldsChanged :: "hub_slice_gateway \<Rightarrow> slice_gateway_config \<Rightarrow> bool" where
  "dynamicFieldsChanged h c \<longleftrightarrow>
     SliceGatewayHostType c = ''Client'' \<and>
     (\<not> ListEqual (SliceGatewayRemoteNodeIPs c) (hr_NodeIps (hg_Remote h)) \<or>
      \<not> ListEqual (SliceGatewayNodePorts c) (hr_NodePorts (hg_Remote h)))"

definition gatewayChanged :: "hub_slice_gateway \<Rightarrow> slice_gateway_config \<Rightarrow> bool" where
  "gatewayChanged h c \<longleftrightarrow> staticFieldsChanged h c \<or> dynamicFieldsChanged h c"

text \<open>The configuration is written anew; only the intermediate deployments are kept.\<close>

definition gatewayConfigFromHub :: "hub_slice_gateway \<Rightarrow> slice_gateway_config \<Rightarrow> slice_gateway_config" where
  "gatewayConfigFromHub h old = empty_gateway_config
     \<lparr>cfg_SliceName := hg_SliceName h,
      SliceGatewayID := hg_GatewayName h,
      SliceGatewaySubnet := hg_GatewaySubnet h,
      SliceGatewayRemoteSubnet := hr_GatewaySubnet (hg_Remote h),
      SliceGatewayHostType := hg_GatewayHostType h,
      SliceGatewayRemoteNodeIPs := hr_NodeIps (hg_Remote h),
      SliceGatewayRemoteNodePorts := hr_NodePorts (hg_Remote h),
      SliceGatewayRemoteClusterID := hr_ClusterName (hg_Remote h),
      SliceGatewayRemoteGatewayID := hr_GatewayName (hg_Remote h),
      SliceGatewayLocalVpnIP := hg_VpnIp h,
      SliceGatewayRemoteVpnIP := hr_VpnIp (hg_Remote h),
      SliceGatewayName := itoa (hg_GatewayNumber h),
      SliceGatewayType := hg_GatewayType h,
      SliceGatewayIntermediateDeployments := SliceGatewayIntermediateDeployments old,
      SliceGatewayConnectivityType := hg_GatewayConnectivityType h,
      SliceGatewayProtocol := hg_GatewayProtocol h,
      SliceGatewayServerLBIPs := hr_LoadBalancerIps (hg_Remote h)\<rparr>"

section \<open>Certificates, creation, deletion\<close>

definition meshSecretName :: "hub_slice_gateway \<Rightarrow> int \<Rightarrow> string" where
  "meshSecretName h rotationCount = om_Name (hg_meta h) @ ''-'' @ itoa rotationCount"

definition createSliceGwCerts :: "kube \<Rightarrow> string \<Rightarrow> string \<Rightarrow> hub_slice_gateway \<Rightarrow> world
    \<Rightarrow> (ctrl_result \<times> go_error option) \<times> world" where
  "createSliceGwCerts K reqNamespace reqName h w =
     (case r_get (k_rotations K) reqNamespace (hg_SliceName h) w of
        (Inl e, w) \<Rightarrow> ((result_none, Some e), w)
      | (Inr vpnKeyRotation, w) \<Rightarrow>
     (case r_get (k_secrets K) ControlPlaneNamespace (meshSecretName h (RotationCount vpnKeyRotation)) w of
        (Inr _, w) \<Rightarrow> ((result_none, None), w)
      | (Inl NotFound, w) \<Rightarrow>
          (case r_get (k_hubsecrets K) reqNamespace reqName w of
             (Inl e, w) \<Rightarrow> ((result_after 10, Some e), w)
           | (Inr sliceGwCerts, w) \<Rightarrow>
               (case r_create (k_secrets K)
                   \<lparr>sec_meta = new_meta ControlPlaneNamespace (meshSecretName h (RotationCount vpnKeyRotation))
                      [(''kubeslice.io/slice-gw'', om_Name (hg_meta h))],
                    sec_Data = sec_Data sliceGwCerts\<rparr> w of
                  (e, w) \<Rightarrow> ((result_none, e), w)))
      | (Inl e, w) \<Rightarrow> ((result_none, Some e), w)))"

definition createSliceGwOnSpoke :: "kube \<Rightarrow> hub_slice_gateway \<Rightarrow> world \<Rightarrow> go_error option \<times> world" where
  "createSliceGwOnSpoke K h w =
     (case r_get (k_slicegws K) ControlPlaneNamespace (om_Name (hg_meta h)) w of
        (Inr _, w) \<Rightarrow> (None, w)
      | (Inl NotFound, w) \<Rightarrow>
          (let g = new_slice_gateway (new_meta ControlPlaneNamespace (om_Name (hg_meta h))
                 [(ApplicationNamespaceSelectorLabelKey, hg_SliceName h)]) (hg_SliceName h)
           in case r_get (k_slices K) ControlPlaneNamespace (hg_SliceName h) w of
                (Inl e, w) \<Rightarrow> (Some e, w)
              | (Inr sliceOnSpoke, w) \<Rightarrow>
                  (case k_setControllerReference K (sl_meta sliceOnSpoke) (gw_meta g) of
                     Some e \<Rightarrow> (Some e, w)
                   | None \<Rightarrow>
                       r_create (k_slicegws K)
                         (g\<lparr>gw_meta := (gw_meta g)\<lparr>om_Owner := Some (sl_Name sliceOnSpoke)\<rparr>\<rparr>) w))
      | (Inl e, w) \<Rightarrow> (Some e, w))"

definition hubSliceGwFinalizer :: string where
  "hubSliceGwFinalizer = ''controller.kubeslice.io/sliceGw-finalizer''"

definition hg_with_finalizers :: "string list \<Rightarrow> hub_slice_gateway \<Rightarrow> hub_slice_gateway" where
  "hg_with_finalizers fs h = h\<lparr>hg_meta := (hg_meta h)\<lparr>om_Finalizers := fs\<rparr>\<rparr>"

definition deleteSliceGwResourceOnSpoke :: "kube \<Rightarrow> hub_slice_gateway \<Rightarrow> world
    \<Rightarrow> go_error option \<times> world" where
  "deleteSliceGwResourceOnSpoke K h w =
     (case r_delete (k_slicegws K) ControlPlaneNamespace (om_Name (hg_meta h)) w of
        (Some NotFound, w) \<Rightarrow> (None, w)
      | (r, w) \<Rightarrow> (r, w))"

definition dropSliceGwFinalizer :: "kube \<Rightarrow> string \<Rightarrow> string \<Rightarrow> hub_slice_gateway \<times> world
    \<Rightarrow> go_error option \<times> hub_slice_gateway \<times> world" where
  "dropSliceGwFinalizer K = takeFinalizer (k_hubgws K) hg_meta hg_with_finalizers hubSliceGwFinalizer"

definition handleSliceGWDeletion :: "kube \<Rightarrow> string \<Rightarrow> string \<Rightarrow> hub_slice_gateway \<Rightarrow> world
    \<Rightarrow> (bool \<times> ctrl_result \<times> go_error option) \<times> hub_slice_gateway \<times> world" where
  "handleSliceGWDeletion K reqNamespace reqName h w =
     (let fs = om_Finalizers (hg_meta h)
      in if om_DeletionTimestamp (hg_meta h) = None
         then
           (if hubSliceGwFinalizer \<notin> set fs
            then (let h = hg_with_finalizers (fs @ [hubSliceGwFinalizer]) h
                  in case r_update (k_hubgws K) h w of
                       (Some e, w) \<Rightarrow> ((True, result_none, Some e), h, w)
                     | (None, w) \<Rightarrow> ((False, result_none, None), h, w))
            else ((False, result_none, None), h, w))
         else
           (if hubSliceGwFinalizer \<in> set fs
            then
              (case deleteSliceGwResourceOnSpoke K h w of
                 (Some e, w) \<Rightarrow> ((True, result_none, Some e), h, w)
               | (None, w) \<Rightarrow>
                   (case RetryOnConflict DefaultRetry (dropSliceGwFinalizer K reqNamespace reqName) (h, w) of
                      (err, h, w) \<Rightarrow> ((True, result_none, err), h, w)))
            else ((True, result_none, None), h, w)))"

section \<open>The pass\<close>

text \<open>One attempt to write the configuration, into the current copy of the gateway.\<close>

definition writeGatewayConfig :: "kube \<Rightarrow> hub_slice_gateway \<Rightarrow> world \<Rightarrow> go_error option \<times> world" where
  "writeGatewayConfig K h w =
     (case r_get (k_slicegws K) ControlPlaneNamespace (om_Name (hg_meta h)) w of
        (Inl e, w) \<Rightarrow> (Some e, w)
      | (Inr g, w) \<Rightarrow>
          r_update_status (k_slicegws K) (g\<lparr>gw_Config := gatewayConfigFromHub h (gw_Config g)\<rparr>) w)"

definition updateSliceGwOnSpoke :: "kube \<Rightarrow> hub_slice_gateway \<Rightarrow> world
    \<Rightarrow> (ctrl_result \<times> go_error option) \<times> world" where
  "updateSliceGwOnSpoke K h w =
     (case r_get (k_slicegws K) ControlPlaneNamespace (om_Name (hg_meta h)) w of
        (Inl e, w) \<Rightarrow> ((result_none, Some e), w)
      | (Inr g, w) \<Rightarrow>
          (if gatewayChanged h (gw_Config g)
           then (case RetryOnConflict DefaultRetry (writeGatewayConfig K h) w of
                   (e, w) \<Rightarrow> ((result_none, e), w))
           else ((result_none, None), w)))"

definition HubGatewayReconcile :: "kube \<Rightarrow> string \<Rightarrow> string \<Rightarrow> string \<Rightarrow> world
    \<Rightarrow> (ctrl_result \<times> go_error option) \<times> world" where
  "HubGatewayReconcile K clusterName reqNamespace reqName w =
     (case r_get (k_hubgws K) reqNamespace reqName w of
        (Inl NotFound, w) \<Rightarrow> ((result_none, None), w)
      | (Inl e, w) \<Rightarrow> ((result_none, Some e), w)
      | (Inr h, w) \<Rightarrow>
     (if hg_ClusterName h \<noteq> clusterName then ((result_none, None), w)
      else
     (case handleSliceGWDeletion K reqNamespace reqName h w of
        ((True, res, err), h, w) \<Rightarrow> ((res, err), w)
      | ((False, _, _), h, w) \<Rightarrow>
     (case createSliceGwCerts K reqNamespace reqName h w of
        ((res, Some e), w) \<Rightarrow> ((res, Some e), w)
      | ((_, None), w) \<Rightarrow>
     (case createSliceGwOnSpoke K h w of
        (Some e, w) \<Rightarrow> ((result_none, Some e), w)
      | (None, w) \<Rightarrow> updateSliceGwOnSpoke K h w)))))"

section \<open>Facts of the configuration\<close>

lemma gatewayConfigFromHub_static [simp]: "\<not> staticFieldsChanged h (gatewayConfigFromHub h c)"
  by (simp add: staticFieldsChanged_def gatewayConfigFromHub_def)

lemma ListEqual_refl [simp]: "ListEqual xs xs"
proof -
  have "ListContains xs x" if "x \<in> set xs" for x using that by (induction xs) auto
  then show ?thesis by (simp add: ListEqual_def list_all_iff)
qed

lemma ListEqual_Nil [simp]: "ListEqual [] xs \<longleftrightarrow> xs = []"
  by (auto simp: ListEqual_def)

lemma gatewayConfigFromHub_fields [simp]:
  "SliceGatewayRemoteNodeIPs (gatewayConfigFromHub h c) = hr_NodeIps (hg_Remote h)"
  "SliceGatewayNodePorts (gatewayConfigFromHub h c) = []"
  "SliceGatewayHostType (gatewayConfigFromHub h c) = hg_GatewayHostType h"
  "SliceGatewayIntermediateDeployments (gatewayConfigFromHub h c) = SliceGatewayIntermediateDeployments c"
  by (simp_all add: gatewayConfigFromHub_def empty_gateway_config_def)

text \<open>The configuration after a pass, from the one before.\<close>

definition passConfig :: "hub_slice_gateway \<Rightarrow> slice_gateway_config \<Rightarrow> slice_gateway_config" where
  "passConfig h c = (if gatewayChanged h c then gatewayConfigFromHub h c else c)"

lemma passConfig_props:
  "\<not> staticFieldsChanged h (passConfig h c)"
  "hg_GatewayHostType h = ''Client''
     \<Longrightarrow> ListEqual (SliceGatewayRemoteNodeIPs (passConfig h c)) (hr_NodeIps (hg_Remote h))"
  "SliceGatewayIntermediateDeployments (passConfig h c) = SliceGatewayIntermediateDeployments c"
  by (auto simp: passConfig_def gatewayChanged_def dynamicFieldsChanged_def staticFieldsChanged_def [of h c])

section \<open>The steps of the pass\<close>

sublocale lawful \<subseteq> hgf: hub_object "k_hubgws K" hg_meta no_phase h_slicegws h_slicegws_update
    hg_with_finalizers hubSliceGwFinalizer w_slicegws
  by unfold_locales (simp_all add: hg_with_finalizers_def)

context lawful
begin

lemma createSliceGwCerts_ok:
  assumes "createSliceGwCerts K ns n h w = ((res, None), w')"
  shows "\<exists>v. find (keyed vk_meta ns (hg_SliceName h)) (h_rotations w) = Some v
      \<and> find (keyed sec_meta ControlPlaneNamespace (meshSecretName h (RotationCount v))) (w_secrets w') \<noteq> None"
    and "w_slicegws w' = w_slicegws w" "w_slices w' = w_slices w"
proof -
  obtain rv w1 where r: "r_get (k_rotations K) ns (hg_SliceName h) w = (rv, w1)" by fastforce
  obtain v where v: "rv = Inr v" using assms r by (cases rv) (auto simp: createSliceGwCerts_def)
  have w1: "w1 = tick w" "find (keyed vk_meta ns (hg_SliceName h)) (h_rotations w) = Some v"
    using rot.get_ok [of ns "hg_SliceName h" w v w1] r v by simp_all
  let ?name = "meshSecretName h (RotationCount v)"
  let ?found = "\<lambda>w. find (keyed sec_meta ControlPlaneNamespace ?name) (w_secrets w) \<noteq> None"
  obtain rs w2 where s: "r_get (k_secrets K) ControlPlaneNamespace ?name w1 = (rs, w2)" by fastforce
  have w2: "w2 = tick w1" by (rule sec.get_world [OF s])
  have "?found w' \<and> w_slicegws w' = w_slicegws w \<and> w_slices w' = w_slices w"
  proof (cases rs)
    case (Inr x)
    have "w' = w2" using assms r v s Inr by (simp add: createSliceGwCerts_def)
    with sec.get_ok [of ControlPlaneNamespace ?name w1 x w2] s Inr w1 w2 show ?thesis by simp
  next
    case (Inl e)
    have e: "e = NotFound" using assms r v s Inl by (cases e) (auto simp: createSliceGwCerts_def)
    obtain rh w3 where g: "r_get (k_hubsecrets K) ns n w2 = (rh, w3)" by fastforce
    have w3: "w3 = tick w2" by (rule hsec.get_world [OF g])
    obtain c where c: "rh = Inr c" using assms r v s Inl e g by (cases rh) (auto simp: createSliceGwCerts_def)
    let ?sec = "\<lparr>sec_meta = new_meta ControlPlaneNamespace ?name [(''kubeslice.io/slice-gw'', om_Name (hg_meta h))],
      sec_Data = sec_Data c\<rparr>"
    have "r_create (k_secrets K) ?sec w3 = (None, w')"
      using assms r v s Inl e g c by (auto simp: createSliceGwCerts_def split: prod.split_asm)
    from sec.create_ok [OF this] have "\<not> list_ex (same_key sec_meta ?sec) (w_secrets w3)"
      "w' = tick (w_secrets_update (\<lambda>xs. xs @ [?sec]) w3)" by simp_all
    then show ?thesis using w1 w2 w3
      by (simp add: find_append_new [of sec_meta ?sec] keyed_def)
  qed
  with w1(2) show "\<exists>v. find (keyed vk_meta ns (hg_SliceName h)) (h_rotations w) = Some v
      \<and> find (keyed sec_meta ControlPlaneNamespace (meshSecretName h (RotationCount v))) (w_secrets w') \<noteq> None"
    "w_slicegws w' = w_slicegws w" "w_slices w' = w_slices w" by blast+
qed

lemma createSliceGwOnSpoke_ok:
  assumes "createSliceGwOnSpoke K h w = (None, w')"
  shows "w_secrets w' = w_secrets w"
    and "\<exists>g. find (keyed gw_meta ControlPlaneNamespace (om_Name (hg_meta h))) (w_slicegws w') = Some g
       \<and> (case find (keyed gw_meta ControlPlaneNamespace (om_Name (hg_meta h))) (w_slicegws w) of
            Some g0 \<Rightarrow> g = g0
          | None \<Rightarrow> gw_SliceName g = hg_SliceName h \<and> gw_Config g = empty_gateway_config
              \<and> om_Owner (gw_meta g) = Some (hg_SliceName h))"
proof -
  let ?k = "keyed gw_meta ControlPlaneNamespace (om_Name (hg_meta h))"
  let ?Q = "w_secrets w' = w_secrets w \<and> (\<exists>g. find ?k (w_slicegws w') = Some g
       \<and> (case find ?k (w_slicegws w) of Some g0 \<Rightarrow> g = g0
          | None \<Rightarrow> gw_SliceName g = hg_SliceName h \<and> gw_Config g = empty_gateway_config
              \<and> om_Owner (gw_meta g) = Some (hg_SliceName h)))"
  obtain rg w1 where g: "r_get (k_slicegws K) ControlPlaneNamespace (om_Name (hg_meta h)) w = (rg, w1)" by fastforce
  have w1: "w1 = tick w" by (rule gw.get_world [OF g])
  have ?Q
  proof (cases rg)
    case (Inr x)
    with assms g have "w' = w1" by (simp add: createSliceGwOnSpoke_def)
    with gw.get_ok [of ControlPlaneNamespace "om_Name (hg_meta h)" w x w1] g Inr w1 show ?thesis by simp
  next
    case (Inl e)
    have e: "e = NotFound" using assms g Inl by (cases e) (auto simp: createSliceGwOnSpoke_def)
    have none: "find ?k (w_slicegws w) = None"
      using gw.get_err [of ControlPlaneNamespace "om_Name (hg_meta h)" w e w1] g Inl e by simp
    obtain rs w2 where s: "r_get (k_slices K) ControlPlaneNamespace (hg_SliceName h) w1 = (rs, w2)" by fastforce
    have w2: "w2 = tick w1" by (rule slice.get_world [OF s])
    obtain sl where sl: "rs = Inr sl"
      using assms g Inl e s by (cases rs) (auto simp: createSliceGwOnSpoke_def Let_def)
    have name: "sl_Name sl = hg_SliceName h"
      using slice.get_ok [of ControlPlaneNamespace "hg_SliceName h" w1 sl w2] s sl
        find_Some_iff' [of "keyed sl_meta ControlPlaneNamespace (hg_SliceName h)" "w_slices w1" sl]
      by (auto simp: keyed_def)
    let ?g = "new_slice_gateway (new_meta ControlPlaneNamespace (om_Name (hg_meta h))
                 [(ApplicationNamespaceSelectorLabelKey, hg_SliceName h)]) (hg_SliceName h)"
    let ?g' = "?g\<lparr>gw_meta := (gw_meta ?g)\<lparr>om_Owner := Some (sl_Name sl)\<rparr>\<rparr>"
    have "r_create (k_slicegws K) ?g' w2 = (None, w')"
      using assms g Inl e s sl by (auto simp: createSliceGwOnSpoke_def Let_def split: option.split_asm)
    from gw.create_ok [OF this] have c: "\<not> list_ex (same_key gw_meta ?g') (w_slicegws w2)"
      "w' = tick (w_slicegws_update (\<lambda>xs. xs @ [?g']) w2)" by simp_all
    have "find ?k (w_slicegws w') = Some ?g'"
      using c find_append_new [OF c(1), of ControlPlaneNamespace "om_Name (hg_meta h)"]
      by (simp add: keyed_def new_slice_gateway_def)
    with none c(2) w1 w2 name show ?thesis by (simp add: new_slice_gateway_def)
  qed
  then show "w_secrets w' = w_secrets w" and "\<exists>g. find ?k (w_slicegws w') = Some g
       \<and> (case find ?k (w_slicegws w) of Some g0 \<Rightarrow> g = g0
          | None \<Rightarrow> gw_SliceName g = hg_SliceName h \<and> gw_Config g = empty_gateway_config
              \<and> om_Owner (gw_meta g) = Some (hg_SliceName h))" by blast+
qed

lemma writeGatewayConfig_ok:
  assumes "writeGatewayConfig K h w = (None, w')"
    and g: "find (keyed gw_meta ControlPlaneNamespace (om_Name (hg_meta h))) (w_slicegws w) = Some g"
  shows "find (keyed gw_meta ControlPlaneNamespace (om_Name (hg_meta h))) (w_slicegws w')
      = Some (g\<lparr>gw_Config := gatewayConfigFromHub h (gw_Config g)\<rparr>) \<and> w_secrets w' = w_secrets w"
proof -
  let ?g = "g\<lparr>gw_Config := gatewayConfigFromHub h (gw_Config g)\<rparr>"
  obtain rg w1 where r: "r_get (k_slicegws K) ControlPlaneNamespace (om_Name (hg_meta h)) w = (rg, w1)" by fastforce
  have w1: "w1 = tick w" by (rule gw.get_world [OF r])
  have "rg = Inr g"
    using gw.get_tolerant [OF r g] assms(1) r
      gw.get_ok [of ControlPlaneNamespace "om_Name (hg_meta h)" w _ w1] g
    by (cases rg) (auto simp: writeGatewayConfig_def)
  with assms(1) r have "r_update_status (k_slicegws K) ?g w1 = (None, w')"
    by (simp add: writeGatewayConfig_def)
  from gw.update_status_ok [OF this] w1 find_replace [OF g, of ?g] show ?thesis by simp
qed

lemma writeGatewayConfig_conflict:
  "writeGatewayConfig K h w = (Some e, w') \<Longrightarrow> w_slicegws w' = w_slicegws w \<and> w_secrets w' = w_secrets w"
  unfolding writeGatewayConfig_def
  by (auto split: prod.split_asm sum.split_asm dest!: gw.get_world gw.update_status_err)

lemma updateSliceGwOnSpoke_ok:
  assumes "updateSliceGwOnSpoke K h w = ((res, None), w')"
    and g: "find (keyed gw_meta ControlPlaneNamespace (om_Name (hg_meta h))) (w_slicegws w) = Some g"
  shows "find (keyed gw_meta ControlPlaneNamespace (om_Name (hg_meta h))) (w_slicegws w')
      = Some (g\<lparr>gw_Config := passConfig h (gw_Config g)\<rparr>)
    \<and> w_secrets w' = w_secrets w
    \<and> (\<not> gatewayChanged h (gw_Config g) \<longrightarrow> w_slicegws w' = w_slicegws w)"
proof -
  let ?k = "keyed gw_meta ControlPlaneNamespace (om_Name (hg_meta h))"
  obtain rg w1 where r: "r_get (k_slicegws K) ControlPlaneNamespace (om_Name (hg_meta h)) w = (rg, w1)" by fastforce
  have w1: "w1 = tick w" by (rule gw.get_world [OF r])
  have rg: "rg = Inr g"
    using assms(1) r gw.get_ok [of ControlPlaneNamespace "om_Name (hg_meta h)" w _ w1] g
    by (cases rg) (auto simp: updateSliceGwOnSpoke_def)
  show ?thesis
  proof (cases "gatewayChanged h (gw_Config g)")
    case False
    then have "w' = tick w" using assms(1) r rg w1 by (simp add: updateSliceGwOnSpoke_def)
    with False g show ?thesis by (simp add: passConfig_def)
  next
    case True
    then have "RetryOnConflict DefaultRetry (writeGatewayConfig K h) w1 = (None, w')"
      using assms(1) r rg by (auto simp: updateSliceGwOnSpoke_def split: prod.split_asm)
    then obtain v where v: "w_slicegws v = w_slicegws w \<and> w_secrets v = w_secrets w"
        "writeGatewayConfig K h v = (None, w')"
      using RetryOnConflict_success [where P = "\<lambda>v. w_slicegws v = w_slicegws w \<and> w_secrets v = w_secrets w"]
        writeGatewayConfig_conflict w1 by (metis tick_sel(5) tick_sel(9))
    with writeGatewayConfig_ok [OF v(2), of g] g True show ?thesis by (simp add: passConfig_def)
  qed
qed

lemma gateway_deletion_goes_on:
  assumes "handleSliceGWDeletion K ns n h w = ((False, res, err), h', w')"
  shows "w_slicegws w' = w_slicegws w" "w_secrets w' = w_secrets w" "h_rotations w' = h_rotations w"
    and "\<exists>fs. h' = hg_with_finalizers fs h" and "om_DeletionTimestamp (hg_meta h) = None"
proof -
  have del: "om_DeletionTimestamp (hg_meta h) = None"
    using assms unfolding handleSliceGWDeletion_def Let_def
    by (auto split: if_split_asm option.split_asm prod.split_asm)
  let ?h = "hg_with_finalizers (om_Finalizers (hg_meta h) @ [hubSliceGwFinalizer]) h"
  have self: "h = hg_with_finalizers (om_Finalizers (hg_meta h)) h" by (simp add: hg_with_finalizers_def)
  have "w_slicegws w' = w_slicegws w \<and> w_secrets w' = w_secrets w \<and> h_rotations w' = h_rotations w
    \<and> (\<exists>fs. h' = hg_with_finalizers fs h)"
  proof (cases "hubSliceGwFinalizer \<in> set (om_Finalizers (hg_meta h))")
    case True
    with assms del self show ?thesis by (auto simp: handleSliceGWDeletion_def)
  next
    case False
    then have "r_update (k_hubgws K) ?h w = (None, w')" "h' = ?h"
      using assms del by (auto simp: handleSliceGWDeletion_def Let_def split: prod.split_asm option.split_asm)
    with hgw.update_ok [of ?h w w'] show ?thesis by auto
  qed
  with del show "w_slicegws w' = w_slicegws w" "w_secrets w' = w_secrets w" "h_rotations w' = h_rotations w"
    "\<exists>fs. h' = hg_with_finalizers fs h" "om_DeletionTimestamp (hg_meta h) = None" by blast+
qed

lemma with_finalizers_hg [simp]:
  "passConfig (hg_with_finalizers fs h) = passConfig h"
  "gatewayChanged (hg_with_finalizers fs h) = gatewayChanged h"
  "meshSecretName (hg_with_finalizers fs h) = meshSecretName h"
  "hg_SliceName (hg_with_finalizers fs h) = hg_SliceName h"
  "om_Name (hg_meta (hg_with_finalizers fs h)) = om_Name (hg_meta h)"
proof -
  have c: "gatewayConfigFromHub (hg_with_finalizers fs h) = gatewayConfigFromHub h"
    by (simp add: hg_with_finalizers_def fun_eq_iff gatewayConfigFromHub_def)
  have s: "staticFieldsChanged (hg_with_finalizers fs h) = staticFieldsChanged h"
    by (simp add: hg_with_finalizers_def fun_eq_iff staticFieldsChanged_def)
  have d: "dynamicFieldsChanged (hg_with_finalizers fs h) = dynamicFieldsChanged h"
    by (simp add: hg_with_finalizers_def fun_eq_iff dynamicFieldsChanged_def)
  show g: "gatewayChanged (hg_with_finalizers fs h) = gatewayChanged h"
    by (simp add: fun_eq_iff gatewayChanged_def s d)
  show "passConfig (hg_with_finalizers fs h) = passConfig h"
    by (simp add: fun_eq_iff passConfig_def g c)
qed (simp_all add: hg_with_finalizers_def fun_eq_iff meshSecretName_def)

lemma gateway_pass:
  assumes "HubGatewayReconcile K cl ns n w = ((res, None), w')"
    and h: "find (keyed hg_meta ns n) (h_slicegws w) = Some h" and cl: "hg_ClusterName h = cl"
    and del: "om_DeletionTimestamp (hg_meta h) = None"
  shows "\<exists>v. find (keyed vk_meta ns (hg_SliceName h)) (h_rotations w) = Some v
      \<and> find (keyed sec_meta ControlPlaneNamespace (meshSecretName h (RotationCount v))) (w_secrets w') \<noteq> None"
    and "\<exists>g. find (keyed gw_meta ControlPlaneNamespace (om_Name (hg_meta h))) (w_slicegws w') = Some g
       \<and> (case find (keyed gw_meta ControlPlaneNamespace (om_Name (hg_meta h))) (w_slicegws w) of
            Some g0 \<Rightarrow> g = g0\<lparr>gw_Config := passConfig h (gw_Config g0)\<rparr>
                \<and> (\<not> gatewayChanged h (gw_Config g0) \<longrightarrow> w_slicegws w' = w_slicegws w)
          | None \<Rightarrow> gw_SliceName g = hg_SliceName h \<and> gw_Config g = passConfig h empty_gateway_config
              \<and> om_Owner (gw_meta g) = Some (hg_SliceName h))"
proof -
  let ?k = "keyed gw_meta ControlPlaneNamespace (om_Name (hg_meta h))"
  obtain rg w1 where g: "r_get (k_hubgws K) ns n w = (rg, w1)" by fastforce
  have w1: "w1 = tick w" by (rule hgw.get_world [OF g])
  have rg: "rg = Inr h"
  proof (cases rg)
    case (Inl e)
    with hgw.get_err [of ns n w e w1] g h have "e \<noteq> NotFound" by simp
    with Inl assms(1) g show ?thesis by (cases e) (auto simp: HubGatewayReconcile_def)
  next
    case (Inr x)
    with hgw.get_ok [of ns n w x w1] g h show ?thesis by simp
  qed
  obtain stop r0 err h1 w2 where d: "handleSliceGWDeletion K ns n h w1 = ((stop, r0, err), h1, w2)"
    by (cases "handleSliceGWDeletion K ns n h w1") auto
  have stop: "\<not> stop"
  proof
    assume "stop"
    then have "err \<noteq> None"
      using d del unfolding handleSliceGWDeletion_def Let_def
      by (auto split: if_split_asm option.split_asm prod.split_asm)
    with \<open>stop\<close> assms(1) g rg cl d show False by (simp add: HubGatewayReconcile_def)
  qed
  with d have d': "handleSliceGWDeletion K ns n h w1 = ((False, r0, err), h1, w2)" by simp
  note dl = gateway_deletion_goes_on [OF d']
  obtain fs where fs: "h1 = hg_with_finalizers fs h" using dl(4) by blast
  obtain r3 e3 w3 where c: "createSliceGwCerts K ns n h1 w2 = ((r3, e3), w3)"
    by (cases "createSliceGwCerts K ns n h1 w2") auto
  obtain e4 w4 where o: "createSliceGwOnSpoke K h1 w3 = (e4, w4)" by fastforce
  have e: "e3 = None" "e4 = None" and u: "updateSliceGwOnSpoke K h1 w4 = ((res, None), w')"
    using assms(1) g rg cl d stop c o
    by (cases e3; cases e4; simp add: HubGatewayReconcile_def)+
  have c': "createSliceGwCerts K ns n h1 w2 = ((r3, None), w3)" using c e by simp
  have o': "createSliceGwOnSpoke K h1 w3 = (None, w4)" using o e by simp
  note certs = createSliceGwCerts_ok [OF c'] and spoke = createSliceGwOnSpoke_ok [OF o']
  have hn: "hg_SliceName h1 = hg_SliceName h" "om_Name (hg_meta h1) = om_Name (hg_meta h)"
    by (simp_all add: fs)
  from spoke(2) [unfolded hn] obtain g1 where g1: "find ?k (w_slicegws w4) = Some g1"
      "case find ?k (w_slicegws w) of Some g0 \<Rightarrow> g1 = g0
        | None \<Rightarrow> gw_SliceName g1 = hg_SliceName h \<and> gw_Config g1 = empty_gateway_config
              \<and> om_Owner (gw_meta g1) = Some (hg_SliceName h)"
    using certs(2) dl(1) w1 by auto
  have up: "find ?k (w_slicegws w') = Some (g1\<lparr>gw_Config := passConfig h (gw_Config g1)\<rparr>)"
      "w_secrets w' = w_secrets w4" "\<not> gatewayChanged h (gw_Config g1) \<longrightarrow> w_slicegws w' = w_slicegws w4"
    using updateSliceGwOnSpoke_ok [OF u, of g1] g1(1) fs by auto
  show "\<exists>v. find (keyed vk_meta ns (hg_SliceName h)) (h_rotations w) = Some v
      \<and> find (keyed sec_meta ControlPlaneNamespace (meshSecretName h (RotationCount v))) (w_secrets w') \<noteq> None"
    using certs(1) up(2) spoke(1) dl(3) w1 fs by auto
  have same: "w_slicegws w4 = w_slicegws w" if "find ?k (w_slicegws w) = Some g0" for g0
  proof -
    obtain x v where x: "r_get (k_slicegws K) ControlPlaneNamespace (om_Name (hg_meta h)) w3 = (x, v)" by fastforce
    have w3: "w_slicegws w3 = w_slicegws w" using certs(2) dl(1) w1 by simp
    have "x \<noteq> Inl NotFound"
      using gw.get_err [of ControlPlaneNamespace "om_Name (hg_meta h)" w3 NotFound v] x that w3 by auto
    with o' x fs have "w4 = v" by (auto simp: createSliceGwOnSpoke_def split: sum.split_asm go_error.split_asm)
    with gw.get_world [OF x] w3 show ?thesis by simp
  qed
  show "\<exists>g. find ?k (w_slicegws w') = Some g
       \<and> (case find ?k (w_slicegws w) of
            Some g0 \<Rightarrow> g = g0\<lparr>gw_Config := passConfig h (gw_Config g0)\<rparr>
                \<and> (\<not> gatewayChanged h (gw_Config g0) \<longrightarrow> w_slicegws w' = w_slicegws w)
          | None \<Rightarrow> gw_SliceName g = hg_SliceName h \<and> gw_Config g = passConfig h empty_gateway_config
              \<and> om_Owner (gw_meta g) = Some (hg_SliceName h))"
    using up(1,3) g1 same by (cases "find ?k (w_slicegws w)") auto
qed

lemma gateway_gone:
  assumes "HubGatewayReconcile K cl ns n w = ((res, None), w')"
    and h: "find (keyed hg_meta ns n) (h_slicegws w) = Some h" and cl: "hg_ClusterName h = cl"
    and del: "om_DeletionTimestamp (hg_meta h) = Some t" "hubSliceGwFinalizer \<in> set (om_Finalizers (hg_meta h))"
  shows "find (keyed gw_meta ControlPlaneNamespace (om_Name (hg_meta h))) (w_slicegws w') = None
    \<and> (\<exists>x. find (keyed hg_meta ns n) (h_slicegws w') = Some x
         \<and> hubSliceGwFinalizer \<notin> set (om_Finalizers (hg_meta x)))"
proof -
  obtain rg w1 where g: "r_get (k_hubgws K) ns n w = (rg, w1)" by fastforce
  have rg: "rg = Inr h"
  proof (cases rg)
    case (Inl e)
    with hgw.get_err [of ns n w e w1] g h have "e \<noteq> NotFound" by simp
    with Inl assms(1) g show ?thesis by (cases e) (auto simp: HubGatewayReconcile_def)
  next
    case (Inr x)
    with hgw.get_ok [of ns n w x w1] g h show ?thesis by simp
  qed
  let ?del = "r_delete (k_slicegws K) ControlPlaneNamespace (om_Name (hg_meta h)) w1"
  obtain d w2 where dd: "?del = (d, w2)" by fastforce
  obtain e3 w3 where e3: "deleteSliceGwResourceOnSpoke K h w1 = (e3, w3)" by fastforce
  obtain r h4 w4 where rt: "RetryOnConflict DefaultRetry (dropSliceGwFinalizer K ns n) (h, w3) = (r, h4, w4)"
    by (cases "RetryOnConflict DefaultRetry (dropSliceGwFinalizer K ns n) (h, w3)") auto
  have e: "e3 = None"
    using assms(1) g rg cl del e3 unfolding HubGatewayReconcile_def handleSliceGWDeletion_def
    by (cases e3) simp_all
  have fin: "r = None" "w4 = w'"
    using assms(1) g rg cl del e3 e rt unfolding HubGatewayReconcile_def handleSliceGWDeletion_def
    by simp_all
  have "d = None \<or> d = Some NotFound" "w3 = w2"
    using dd e3 e unfolding deleteSliceGwResourceOnSpoke_def
    by (auto split: option.split_asm go_error.split_asm)
  with gw.delete_gone [OF dd] have "find (keyed gw_meta ControlPlaneNamespace (om_Name (hg_meta h))) (w_slicegws w3) = None"
    by simp
  moreover note hgf.take_finalizer [OF rt [unfolded dropSliceGwFinalizer_def]]
  ultimately show ?thesis using fin by (simp add: hgf.finalizer_gone_def)
qed

end


text \<open>
  When the gateway does not settle. The configuration that a pass has just written counts as
  changed in the next pass exactly when the gateway is a client that has node ports of its
  remote side: they are compared with the field for the own node ports, which is never set. So
  the status of such a client is written in every pass. In all other cases the next pass
  writes nothing, whatever the addresses of load balancers and the VPN addresses on the hub are.
\<close>

theorem client_with_ports_never_settles:
  "(gatewayChanged h (gatewayConfigFromHub h c)
     \<longleftrightarrow> hg_GatewayHostType h = ''Client'' \<and> hr_NodePorts (hg_Remote h) \<noteq> [])
   \<and> gatewayChanged (h\<lparr>hg_VpnIp := v, hg_Remote := (hg_Remote h)\<lparr>hr_VpnIp := rv, hr_LoadBalancerIps := lb\<rparr>\<rparr>) c
     = gatewayChanged h c"
proof
  show "gatewayChanged h (gatewayConfigFromHub h c)
     \<longleftrightarrow> hg_GatewayHostType h = ''Client'' \<and> hr_NodePorts (hg_Remote h) \<noteq> []"
    by (simp add: gatewayChanged_def dynamicFieldsChanged_def)
qed (simp add: gatewayChanged_def dynamicFieldsChanged_def staticFieldsChanged_def)

text \<open>
  A gateway that is deleted on the hub. When the pass ends without an error, the gateway is gone
  from the worker cluster, and the object on the hub has lost the finalizer of the worker.
\<close>

theorem hub_gateway_deleted:
  assumes "lawful K" and "HubGatewayReconcile K cl ns n w = ((res, None), w')"
    and "find (keyed hg_meta ns n) (h_slicegws w) = Some h" and "hg_ClusterName h = cl"
    and "om_DeletionTimestamp (hg_meta h) = Some t"
    and "hubSliceGwFinalizer \<in> set (om_Finalizers (hg_meta h))"
  shows "find (keyed gw_meta ControlPlaneNamespace (om_Name (hg_meta h))) (w_slicegws w') = None
    \<and> (\<exists>x. find (keyed hg_meta ns n) (h_slicegws w') = Some x
         \<and> hubSliceGwFinalizer \<notin> set (om_Finalizers (hg_meta x)))"
  by (rule lawful.gateway_gone [OF assms])

section \<open>Examples\<close>

definition ex_hub_gateway :: hub_slice_gateway where
  "ex_hub_gateway =
     (new_hub_slice_gateway (new_meta ''kubeslice-project'' ''red-w1-w2'' []))\<lparr>
        hg_ClusterName := ''w1'', hg_GatewayName := ''gw-a'', hg_SliceName := ''red'',
        hg_GatewayHostType := ''Client'', hg_GatewayNumber := 1,
        hg_Remote := \<lparr>hr_GatewayName = ''gw-b'', hr_ClusterName = ''w2'', hr_VpnIp = ''10.2.0.1'',
          hr_GatewaySubnet = ''10.1.3.0/24'', hr_NodeIps = [''192.168.0.4''], hr_NodePorts = [],
          hr_LoadBalancerIps = []\<rparr>\<rparr>"

definition ex_hub_gateway_world :: "hub_slice_gateway \<Rightarrow> world" where
  "ex_hub_gateway_world h = empty_world\<lparr>
     h_slicegws := [h],
     h_rotations := [\<lparr>vk_meta = new_meta ''kubeslice-project'' ''red'' [], RotationCount = 3,
       CertificateCreationTime = None, ClusterGatewayMapping = [], CurrentRotationState = [],
       StatusHistory = []\<rparr>],
     h_secrets := [\<lparr>sec_meta = new_meta ''kubeslice-project'' ''red-w1-w2'' [], sec_Data = [(''ca.crt'', ''x'')]\<rparr>],
     w_slices := [new_slice (new_meta ''kubeslice-system'' ''red'' [])]\<rparr>"

definition ex_hub_gateway_pass :: "hub_slice_gateway \<Rightarrow> (ctrl_result \<times> go_error option) \<times> world" where
  "ex_hub_gateway_pass h =
     HubGatewayReconcile ex_kube ''w1'' ''kubeslice-project'' ''red-w1-w2'' (ex_hub_gateway_world h)"

definition ex_gone_hub_gateway :: hub_slice_gateway where
  "ex_gone_hub_gateway = ex_hub_gateway\<lparr>hg_meta := (hg_meta ex_hub_gateway)\<lparr>om_DeletionTimestamp := Some 9,
     om_Finalizers := [''controller.kubeslice.io/sliceGw-finalizer'']\<rparr>\<rparr>"

lemma ex_hub_gateway_shape:
  "fst (ex_hub_gateway_pass ex_hub_gateway) = (result_none, None)"
  "find (keyed hg_meta ''kubeslice-project'' ''red-w1-w2'') (h_slicegws (ex_hub_gateway_world ex_hub_gateway))
     = Some ex_hub_gateway"
  "hg_ClusterName ex_hub_gateway = ''w1''" "om_DeletionTimestamp (hg_meta ex_hub_gateway) = None"
  by (code_simp+)

lemma ex_gone_hub_gateway_shape:
  "fst (ex_hub_gateway_pass ex_gone_hub_gateway) = (result_none, None)"
  "find (keyed hg_meta ''kubeslice-project'' ''red-w1-w2'') (h_slicegws (ex_hub_gateway_world ex_gone_hub_gateway))
     = Some ex_gone_hub_gateway"
  "hg_ClusterName ex_gone_hub_gateway = ''w1''" "om_DeletionTimestamp (hg_meta ex_gone_hub_gateway) = Some 9"
  "hubSliceGwFinalizer \<in> set (om_Finalizers (hg_meta ex_gone_hub_gateway))"
  by (code_simp+)


theorem hub_gateway_deleted_witness:
  "find (keyed gw_meta ControlPlaneNamespace ''red-w1-w2'')
     (w_slicegws (snd (ex_hub_gateway_pass ex_gone_hub_gateway))) = None"
proof -
  have "HubGatewayReconcile ex_kube ''w1'' ''kubeslice-project'' ''red-w1-w2'' (ex_hub_gateway_world ex_gone_hub_gateway)
      = ((result_none, None), snd (ex_hub_gateway_pass ex_gone_hub_gateway))"
    using ex_gone_hub_gateway_shape(1) by (metis ex_hub_gateway_pass_def prod.collapse)
  from hub_gateway_deleted [OF ex_kube_lawful this ex_gone_hub_gateway_shape(2-5)]
  show ?thesis by (simp add: ex_gone_hub_gateway_def ex_hub_gateway_def new_hub_slice_gateway_def)
qed

end
