(* ===== verification/HubImport.thy ===== *)
theory HubImport
  imports SliceReconcile HubObjects
begin

text \<open>
  The controller that brings the imported services of the hub to the worker cluster:
  \<open>pkg/hub/controllers/serviceimport_controller.go\<close>, with what it promises.
\<close>

section \<open>The service import\<close>

definition getProtocol :: "string \<Rightarrow> string" where
  "getProtocol protocol = (if protocol \<in> {''TCP'', ''UDP'', ''SCTP''} then protocol else '''')"

definition getMeshServiceImportPortList :: "worker_service_import \<Rightarrow> export_port list" where
  "getMeshServiceImportPortList m = map (\<lambda>port.
     \<lparr>xp_Name = dp_Name port, xp_ContainerPort = dp_Port port, xp_Protocol = getProtocol (dp_Protocol port),
      xp_ServiceProtocol = dp_ServiceProtocol port, xp_ServicePort = dp_ServicePort port\<rparr>) (wi_Ports m)"

definition getMeshServiceImportEpList :: "worker_service_import \<Rightarrow> service_endpoint list" where
  "getMeshServiceImportEpList m = map (\<lambda>ep.
     \<lparr>en_Name = de_PodName ep, en_IP = de_NsmIp ep, en_Port = de_Port ep, en_ClusterID = de_Cluster ep,
      en_DNSName = de_DnsName ep\<rparr>) (wi_Endpoints m)"

definition getMeshServiceImportObj :: "worker_service_import \<Rightarrow> service_import" where
  "getMeshServiceImportObj m =
     \<lparr>si_meta = new_meta (wi_ServiceNamespace m) (wi_ServiceName m)
        [(ApplicationNamespaceSelectorLabelKey, wi_SliceName m)],
      si_Slice = wi_SliceName m,
      si_DNSName = wi_ServiceName m @ ''.'' @ wi_ServiceNamespace m @ ''.svc.slice.local'',
      si_Ports = getMeshServiceImportPortList m, si_Aliases = wi_Aliases m, si_ImportStatus = '''',
      si_ExposedPorts = '''', si_AvailableEndpoints = 0, si_Endpoints = []\<rparr>"

text \<open>
  The service import of the cluster, when it was there; a missing one is created with its
  endpoints, and ends the pass.
\<close>

definition getMeshServiceImport :: "kube \<Rightarrow> worker_service_import \<Rightarrow> world
    \<Rightarrow> (service_import option \<times> go_error option) \<times> world" where
  "getMeshServiceImport K m w =
     (case r_get (k_serviceimports K) (wi_ServiceNamespace m) (wi_ServiceName m) w of
        (Inr i, w) \<Rightarrow> ((Some i, None), w)
      | (Inl NotFound, w) \<Rightarrow>
          (let i = getMeshServiceImportObj m
           in case r_create (k_serviceimports K) i w of
                (Some e, w) \<Rightarrow> ((None, Some e), w)
              | (None, w) \<Rightarrow>
                  (case r_update_status (k_serviceimports K) (i\<lparr>si_Endpoints := getMeshServiceImportEpList m\<rparr>) w of
                     (r, w) \<Rightarrow> ((None, r), w)))
      | (Inl e, w) \<Rightarrow> ((None, Some e), w))"

section \<open>Deletion\<close>

definition svcimFinalizer :: string where
  "svcimFinalizer = ''controller.kubeslice.io/hubWorkerServiceImport-finalizer''"

definition wi_with_finalizers :: "string list \<Rightarrow> worker_service_import \<Rightarrow> worker_service_import" where
  "wi_with_finalizers fs m = m\<lparr>wi_meta := (wi_meta m)\<lparr>om_Finalizers := fs\<rparr>\<rparr>"

definition DeleteServiceImportOnSpoke :: "kube \<Rightarrow> worker_service_import \<Rightarrow> world
    \<Rightarrow> go_error option \<times> world" where
  "DeleteServiceImportOnSpoke K m w =
     (case r_delete (k_serviceimports K) (wi_ServiceNamespace m) (wi_ServiceName m) w of
        (Some NotFound, w) \<Rightarrow> (None, w)
      | (r, w) \<Rightarrow> (r, w))"

definition handleSvcimDeletion :: "kube \<Rightarrow> worker_service_import \<Rightarrow> world
    \<Rightarrow> (bool \<times> go_error option) \<times> worker_service_import \<times> world" where
  "handleSvcimDeletion K m w =
     (let fs = om_Finalizers (wi_meta m)
      in if om_DeletionTimestamp (wi_meta m) = None
         then
           (if svcimFinalizer \<notin> set fs
            then (let m = wi_with_finalizers (fs @ [svcimFinalizer]) m
                  in case r_update (k_hubimports K) m w of
                       (Some e, w) \<Rightarrow> ((True, Some e), m, w)
                     | (None, w) \<Rightarrow> ((False, None), m, w))
            else ((False, None), m, w))
         else
           (if svcimFinalizer \<in> set fs
            then
              (case DeleteServiceImportOnSpoke K m w of
                 (Some e, w) \<Rightarrow> ((True, Some e), m, w)
               | (None, w) \<Rightarrow>
                   (let m = wi_with_finalizers (filter (\<lambda>f. f \<noteq> svcimFinalizer) fs) m
                    in case r_update (k_hubimports K) m w of (r, w) \<Rightarrow> ((True, r), m, w)))
            else ((True, None), m, w)))"

section \<open>The pass\<close>

text \<open>An error of reading the namespace other than \<open>NotFound\<close> is only logged.\<close>

definition ensureVpcNamespace :: "kube \<Rightarrow> worker_service_import \<Rightarrow> world \<Rightarrow> go_error option \<times> world" where
  "ensureVpcNamespace K m w =
     (if wi_ServiceNamespace m = VPC_NS (wi_SliceName m)
      then (case r_get (k_namespaces K) '''' (wi_ServiceNamespace m) w of
              (Inl NotFound, w) \<Rightarrow>
                r_create (k_namespaces K) \<lparr>ns_meta = new_meta '''' (VPC_NS (wi_SliceName m)) []\<rparr> w
            | (_, w) \<Rightarrow> (None, w))
      else (None, w))"

definition updateMeshServiceImport :: "kube \<Rightarrow> worker_service_import \<Rightarrow> service_import \<Rightarrow> world
    \<Rightarrow> go_error option \<times> world" where
  "updateMeshServiceImport K m i w =
     (let i = i\<lparr>si_Ports := getMeshServiceImportPortList m, si_Aliases := wi_Aliases m\<rparr>
      in case r_update (k_serviceimports K) i w of
           (Some e, w) \<Rightarrow> (Some e, w)
         | (None, w) \<Rightarrow>
             r_update_status (k_serviceimports K) (i\<lparr>si_Endpoints := getMeshServiceImportEpList m\<rparr>) w)"

definition HubImportReconcile :: "kube \<Rightarrow> string \<Rightarrow> string \<Rightarrow> world
    \<Rightarrow> (ctrl_result \<times> go_error option) \<times> world" where
  "HubImportReconcile K reqNamespace reqName w =
     (case r_get (k_hubimports K) reqNamespace reqName w of
        (Inl NotFound, w) \<Rightarrow> ((result_none, None), w)
      | (Inl e, w) \<Rightarrow> ((result_none, Some e), w)
      | (Inr m, w) \<Rightarrow>
     (case handleSvcimDeletion K m w of
        ((True, err), m, w) \<Rightarrow> ((result_none, err), w)
      | ((False, _), m, w) \<Rightarrow>
     (case r_get (k_slices K) ControlPlaneNamespace (wi_SliceName m) w of
        (Inl e, w) \<Rightarrow> ((result_after 30, None), w)
      | (Inr _, w) \<Rightarrow>
     (case ensureVpcNamespace K m w of
        (Some e, w) \<Rightarrow> ((result_none, Some e), w)
      | (None, w) \<Rightarrow>
     (case getMeshServiceImport K m w of
        ((None, err), w) \<Rightarrow> ((result_none, err), w)
      | ((Some i, _), w) \<Rightarrow>
          (case updateMeshServiceImport K m i w of (r, w) \<Rightarrow> ((result_none, r), w)))))))"

section \<open>What the pass does\<close>

text \<open>The service import that a pass leaves, from the one before.\<close>

definition importFromHub :: "worker_service_import \<Rightarrow> service_import option \<Rightarrow> service_import" where
  "importFromHub m old = (case old of None \<Rightarrow> getMeshServiceImportObj m | Some i \<Rightarrow> i)
     \<lparr>si_Ports := getMeshServiceImportPortList m, si_Aliases := wi_Aliases m,
      si_Endpoints := getMeshServiceImportEpList m\<rparr>"

lemma importFromHub_meta: "old = Some i \<Longrightarrow> si_meta (importFromHub m old) = si_meta i"
  by (simp add: importFromHub_def)

sublocale lawful \<subseteq> wif: hub_object "k_hubimports K" wi_meta no_phase h_serviceimports h_serviceimports_update
    wi_with_finalizers svcimFinalizer w_serviceimports
  by unfold_locales (simp_all add: wi_with_finalizers_def)

lemma with_finalizers_wi [simp]:
  "wi_ServiceName (wi_with_finalizers fs m) = wi_ServiceName m"
  "wi_ServiceNamespace (wi_with_finalizers fs m) = wi_ServiceNamespace m"
  "wi_SliceName (wi_with_finalizers fs m) = wi_SliceName m"
  "importFromHub (wi_with_finalizers fs m) old = importFromHub m old"
  by (simp_all add: wi_with_finalizers_def importFromHub_def getMeshServiceImportObj_def
      getMeshServiceImportPortList_def getMeshServiceImportEpList_def split: option.split)

context lawful
begin

lemma ensureVpcNamespace_frame:
  "ensureVpcNamespace K m w = (r, w') \<Longrightarrow> w_serviceimports w' = w_serviceimports w"
  unfolding ensureVpcNamespace_def
  by (cases r)
    (auto split: if_split_asm prod.split_asm sum.split_asm go_error.split_asm
      dest!: nsp.get_world nsp.create_ok nsp.create_err)

lemma import_written:
  assumes "updateMeshServiceImport K m i w = (None, w')"
    and i: "find (keyed si_meta ns n) (w_serviceimports w) = Some i"
  shows "find (keyed si_meta ns' n') (w_serviceimports w')
    = (if (ns', n') = (ns, n) then Some (importFromHub m (Some i))
       else find (keyed si_meta ns' n') (w_serviceimports w))"
proof -
  let ?i = "i\<lparr>si_Ports := getMeshServiceImportPortList m, si_Aliases := wi_Aliases m\<rparr>"
  let ?j = "?i\<lparr>si_Endpoints := getMeshServiceImportEpList m\<rparr>"
  have j: "?j = importFromHub m (Some i)" by (simp add: importFromHub_def)
  have key: "om_Namespace (si_meta i) = ns" "om_Name (si_meta i) = n"
    using find_Some_iff' [OF i] by (auto simp: keyed_def)
  obtain r w1 where u: "r_update (k_serviceimports K) ?i w = (r, w1)" by fastforce
  have r: "r = None" and s: "r_update_status (k_serviceimports K) ?j w1 = (None, w')"
    using assms(1) u by (cases r; simp add: updateMeshServiceImport_def Let_def)+
  have w1: "w1 = tick (w_serviceimports_update (replace_object si_meta ?i) w)"
    using svi.update_ok u r by blast
  have w': "w' = tick (w_serviceimports_update (replace_object si_meta ?j) w1)"
    using svi.update_status_ok [OF s] by blast
  show ?thesis
  proof (cases "(ns', n') = (ns, n)")
    case True
    have "find (keyed si_meta ns n) (replace_object si_meta ?i (w_serviceimports w)) = Some ?i"
      by (rule find_replace [OF i]) simp
    then have "find (keyed si_meta ns n) (w_serviceimports w') = Some ?j"
      unfolding w1 w' by (auto intro: find_replace)
    with True j show ?thesis by simp
  next
    case False
    then have "\<not> keyed si_meta ns' n' ?i" "\<not> keyed si_meta ns' n' ?j" using key by (auto simp: keyed_def)
    with False w1 w' show ?thesis by (auto simp: find_replace_other)
  qed
qed

lemma import_created:
  assumes "r_get (k_serviceimports K) (wi_ServiceNamespace m) (wi_ServiceName m) w = (Inl NotFound, w1)"
    and "getMeshServiceImport K m w = ((None, None), w')"
  shows "find (keyed si_meta ns' n') (w_serviceimports w')
    = (if (ns', n') = (wi_ServiceNamespace m, wi_ServiceName m) then Some (importFromHub m None)
       else find (keyed si_meta ns' n') (w_serviceimports w))"
proof -
  let ?i = "getMeshServiceImportObj m"
  let ?j = "?i\<lparr>si_Endpoints := getMeshServiceImportEpList m\<rparr>"
  have j: "?j = importFromHub m None" by (simp add: importFromHub_def getMeshServiceImportObj_def)
  have key: "om_Namespace (si_meta ?i) = wi_ServiceNamespace m" "om_Name (si_meta ?i) = wi_ServiceName m"
    by (simp_all add: getMeshServiceImportObj_def)
  have w1: "w1 = tick w" by (rule svi.get_world [OF assms(1)])
  obtain r w2 where c: "r_create (k_serviceimports K) ?i w1 = (r, w2)" by fastforce
  have r: "r = None" and s: "r_update_status (k_serviceimports K) ?j w2 = (None, w')"
    using assms c by (cases r; auto simp: getMeshServiceImport_def Let_def split: prod.split_asm)+
  have w2: "\<not> list_ex (same_key si_meta ?i) (w_serviceimports w1)"
      "w2 = tick (w_serviceimports_update (\<lambda>xs. xs @ [?i]) w1)"
    using svi.create_ok c r by blast+
  have w': "w' = tick (w_serviceimports_update (replace_object si_meta ?j) w2)"
    using svi.update_status_ok [OF s] by blast
  have new: "find (keyed si_meta ns' n') (w_serviceimports w2)
      = (if keyed si_meta ns' n' ?i then Some ?i else find (keyed si_meta ns' n') (w_serviceimports w))" for ns' n'
    using w2 w1 by (simp add: find_append_new)
  show ?thesis
  proof (cases "(ns', n') = (wi_ServiceNamespace m, wi_ServiceName m)")
    case True
    then have "find (keyed si_meta ns' n') (w_serviceimports w2) = Some ?i"
      using new key by (simp add: keyed_def)
    then have "find (keyed si_meta ns' n') (w_serviceimports w') = Some ?j"
      unfolding w' by (auto intro: find_replace)
    with True j show ?thesis by simp
  next
    case False
    then have k: "\<not> keyed si_meta ns' n' ?i" "\<not> keyed si_meta ns' n' ?j" using key by (auto simp: keyed_def)
    have "find (keyed si_meta ns' n') (replace_object si_meta ?j (w_serviceimports w2))
        = find (keyed si_meta ns' n') (w_serviceimports w)"
      using find_replace_other [OF k(2)] new k(1) by simp
    then show ?thesis using False w' by auto
  qed
qed

lemma import_deletion_goes_on:
  assumes "handleSvcimDeletion K m w = ((False, err), m', w')"
  shows "w_serviceimports w' = w_serviceimports w" "w_slices w' = w_slices w"
    and "\<exists>fs. m' = wi_with_finalizers fs m"
proof -
  have del: "om_DeletionTimestamp (wi_meta m) = None"
    using assms unfolding handleSvcimDeletion_def Let_def
    by (auto split: if_split_asm option.split_asm prod.split_asm)
  let ?m = "wi_with_finalizers (om_Finalizers (wi_meta m) @ [svcimFinalizer]) m"
  have self: "m = wi_with_finalizers (om_Finalizers (wi_meta m)) m" by (simp add: wi_with_finalizers_def)
  have "w_serviceimports w' = w_serviceimports w \<and> w_slices w' = w_slices w
    \<and> (\<exists>fs. m' = wi_with_finalizers fs m)"
  proof (cases "svcimFinalizer \<in> set (om_Finalizers (wi_meta m))")
    case True
    with assms del self show ?thesis by (auto simp: handleSvcimDeletion_def)
  next
    case False
    then have "r_update (k_hubimports K) ?m w = (None, w')" "m' = ?m"
      using assms del by (auto simp: handleSvcimDeletion_def Let_def split: prod.split_asm option.split_asm)
    with hsm.update_ok [of ?m w w'] show ?thesis by auto
  qed
  then show "w_serviceimports w' = w_serviceimports w" "w_slices w' = w_slices w"
    "\<exists>fs. m' = wi_with_finalizers fs m" by blast+
qed

lemma hub_import_found:
  assumes "HubImportReconcile K ns n w = ((res, None), w')"
    and m: "find (keyed wi_meta ns n) (h_serviceimports w) = Some m"
  shows "r_get (k_hubimports K) ns n w = (Inr m, tick w)"
proof -
  obtain q w1 where g: "r_get (k_hubimports K) ns n w = (q, w1)" by fastforce
  have "q = Inr m"
    by (rule hsm.get_tolerant [OF g m]) (use assms(1) g in \<open>simp add: HubImportReconcile_def split: go_error.split_asm\<close>)
  with g hsm.get_world [OF g] show ?thesis by simp
qed

lemma import_pass:
  assumes pass: "HubImportReconcile K ns n w = ((result_none, None), w')"
    and m: "find (keyed wi_meta ns n) (h_serviceimports w) = Some m"
    and del: "om_DeletionTimestamp (wi_meta m) = None"
  shows "find (keyed sl_meta ControlPlaneNamespace (wi_SliceName m)) (w_slices w) \<noteq> None"
    and "find (keyed si_meta ns' n') (w_serviceimports w')
      = (if (ns', n') = (wi_ServiceNamespace m, wi_ServiceName m)
         then Some (importFromHub m (find (keyed si_meta ns' n') (w_serviceimports w)))
         else find (keyed si_meta ns' n') (w_serviceimports w))"
proof -
  note g = hub_import_found [OF pass m]
  obtain stop err m1 w1 where d: "handleSvcimDeletion K m (tick w) = ((stop, err), m1, w1)"
    by (cases "handleSvcimDeletion K m (tick w)") auto
  have stop: "\<not> stop"
  proof
    assume "stop"
    then have "err \<noteq> None"
      using d del unfolding handleSvcimDeletion_def Let_def
      by (auto split: if_split_asm option.split_asm prod.split_asm)
    with \<open>stop\<close> pass g d show False by (simp add: HubImportReconcile_def)
  qed
  with d have d': "handleSvcimDeletion K m (tick w) = ((False, err), m1, w1)" by simp
  note dl = import_deletion_goes_on [OF d']
  obtain fs where m1: "m1 = wi_with_finalizers fs m" using dl(3) by blast
  obtain sl w2 where s: "r_get (k_slices K) ControlPlaneNamespace (wi_SliceName m) w1 = (sl, w2)" by fastforce
  have w2: "w2 = tick w1" by (rule slice.get_world [OF s])
  obtain x where x: "sl = Inr x"
    using pass g d stop s m1 by (cases sl) (simp_all add: HubImportReconcile_def result_after_def result_none_def)
  show "find (keyed sl_meta ControlPlaneNamespace (wi_SliceName m)) (w_slices w) \<noteq> None"
    using slice.get_ok [of ControlPlaneNamespace "wi_SliceName m" w1 x w2] s x dl(2) by simp
  obtain e3 w3 where v: "ensureVpcNamespace K m1 w2 = (e3, w3)" by fastforce
  have e3: "e3 = None" using pass g d stop s m1 x v by (cases e3) (simp_all add: HubImportReconcile_def)
  have w3: "w_serviceimports w3 = w_serviceimports w"
    using ensureVpcNamespace_frame [OF v] w2 dl(1) by simp
  let ?ns = "wi_ServiceNamespace m" and ?n = "wi_ServiceName m"
  obtain q w4 where q: "r_get (k_serviceimports K) ?ns ?n w3 = (q, w4)" by fastforce
  have w4: "w4 = tick w3" by (rule svi.get_world [OF q])
  note pre = pass g d stop s m1 x v e3
  show "find (keyed si_meta ns' n') (w_serviceimports w')
      = (if (ns', n') = (?ns, ?n) then Some (importFromHub m (find (keyed si_meta ns' n') (w_serviceimports w)))
         else find (keyed si_meta ns' n') (w_serviceimports w))"
  proof (cases q)
    case (Inr i)
    have f: "find (keyed si_meta ?ns ?n) (w_serviceimports w4) = Some i"
      using svi.get_ok [of ?ns ?n w3 i w4] q Inr by simp
    have "updateMeshServiceImport K m1 i w4 = (None, w')"
      using pre q Inr by (auto simp: HubImportReconcile_def getMeshServiceImport_def split: prod.split_asm)
    from import_written [OF this f, of ns' n'] f w3 w4 m1 show ?thesis by auto
  next
    case (Inl e)
    have e: "e = NotFound"
      using pre q Inl by (cases e) (auto simp: HubImportReconcile_def getMeshServiceImport_def)
    have none: "find (keyed si_meta ?ns ?n) (w_serviceimports w) = None"
      using svi.get_err [of ?ns ?n w3 e w4] q Inl e w3 by simp
    obtain a b v4 where gm: "getMeshServiceImport K m1 w3 = ((a, b), v4)"
      by (cases "getMeshServiceImport K m1 w3") auto
    have "a = None"
      using gm q Inl e m1 by (auto simp: getMeshServiceImport_def Let_def split: prod.split_asm option.split_asm)
    then have gm: "getMeshServiceImport K m1 w3 = ((None, None), w')"
      using pre gm by (simp add: HubImportReconcile_def)
    have q': "r_get (k_serviceimports K) (wi_ServiceNamespace m1) (wi_ServiceName m1) w3 = (Inl NotFound, w4)"
      using q Inl e m1 by simp
    from import_created [OF q' gm, of ns' n'] none w3 m1 show ?thesis by auto
  qed
qed

lemma import_gone:
  assumes pass: "HubImportReconcile K ns n w = ((res, None), w')"
    and m: "find (keyed wi_meta ns n) (h_serviceimports w) = Some m"
    and del: "om_DeletionTimestamp (wi_meta m) = Some t" "svcimFinalizer \<in> set (om_Finalizers (wi_meta m))"
  shows "find (keyed si_meta (wi_ServiceNamespace m) (wi_ServiceName m)) (w_serviceimports w') = None
    \<and> (\<exists>x. find (keyed wi_meta ns n) (h_serviceimports w') = Some x
         \<and> svcimFinalizer \<notin> set (om_Finalizers (wi_meta x)))"
proof -
  note g = hub_import_found [OF pass m]
  let ?ns = "wi_ServiceNamespace m" and ?n = "wi_ServiceName m"
  let ?m = "wi_with_finalizers (filter (\<lambda>f. f \<noteq> svcimFinalizer) (om_Finalizers (wi_meta m))) m"
  obtain d w1 where dd: "r_delete (k_serviceimports K) ?ns ?n (tick w) = (d, w1)" by fastforce
  obtain e2 w2 where e2: "DeleteServiceImportOnSpoke K m (tick w) = (e2, w2)" by fastforce
  have e: "e2 = None" and u: "r_update (k_hubimports K) ?m w2 = (None, w')"
    using pass g del e2 unfolding HubImportReconcile_def handleSvcimDeletion_def
    by (cases e2; auto simp: Let_def split: prod.split_asm)+
  have "d = None \<or> d = Some NotFound" and w2: "w2 = w1"
    using dd e2 e unfolding DeleteServiceImportOnSpoke_def by (auto split: option.split_asm go_error.split_asm)
  then have gone: "find (keyed si_meta ?ns ?n) (w_serviceimports w2) = None"
    using svi.delete_gone [OF dd] by simp
  have hub: "h_serviceimports w2 = h_serviceimports w"
    using dd w2 by (cases d) (auto dest: svi.delete_ok svi.delete_err)
  have "find (keyed wi_meta ns n) (replace_object wi_meta ?m (h_serviceimports w)) = Some ?m"
    by (rule find_replace_key [OF m])
      (use find_Some_iff' [OF m] in \<open>simp add: keyed_def wi_with_finalizers_def\<close>)
  moreover have "w' = tick (h_serviceimports_update (replace_object wi_meta ?m) w2)"
    using hsm.update_ok [OF u] by blast
  ultimately show ?thesis using gone hub by (simp add: wi_with_finalizers_def)
qed

end

text \<open>
  A service import in the worker cluster follows the hub. When a pass over an import that is not
  being deleted ends with nothing left to do, its slice is in the cluster, and so is the
  service import, with the ports, the aliases and the endpoints of the hub. Nothing else
  of an import that was there has changed, in particular not the slice that it names; other
  imports are untouched.
\<close>

theorem import_follows_hub:
  assumes "lawful K" and "HubImportReconcile K ns n w = ((result_none, None), w')"
    and "find (keyed wi_meta ns n) (h_serviceimports w) = Some m"
    and "om_DeletionTimestamp (wi_meta m) = None"
  shows "find (keyed sl_meta ControlPlaneNamespace (wi_SliceName m)) (w_slices w) \<noteq> None
    \<and> find (keyed si_meta ns' n') (w_serviceimports w')
      = (if (ns', n') = (wi_ServiceNamespace m, wi_ServiceName m)
         then Some (importFromHub m (find (keyed si_meta ns' n') (w_serviceimports w)))
         else find (keyed si_meta ns' n') (w_serviceimports w))"
  by (intro conjI lawful.import_pass [OF assms])

text \<open>
  A service import that is deleted on the hub. When the pass ends without an error, the import
  is gone from the worker cluster, and the object on the hub has lost the finalizer.
\<close>

theorem hub_import_deleted:
  assumes "lawful K" and "HubImportReconcile K ns n w = ((res, None), w')"
    and "find (keyed wi_meta ns n) (h_serviceimports w) = Some m"
    and "om_DeletionTimestamp (wi_meta m) = Some t" and "svcimFinalizer \<in> set (om_Finalizers (wi_meta m))"
  shows "find (keyed si_meta (wi_ServiceNamespace m) (wi_ServiceName m)) (w_serviceimports w') = None
    \<and> (\<exists>x. find (keyed wi_meta ns n) (h_serviceimports w') = Some x
         \<and> svcimFinalizer \<notin> set (om_Finalizers (wi_meta x)))"
  by (rule lawful.import_gone [OF assms])

section \<open>Examples\<close>

definition ex_hub_import :: worker_service_import where
  "ex_hub_import =
     \<lparr>wi_meta = new_meta ''kubeslice-project'' ''web-w1'' [], wi_ServiceName = ''web'',
      wi_ServiceNamespace = ''apps'', wi_SliceName = ''red'',
      wi_Endpoints = [\<lparr>de_PodName = ''web-0'', de_Cluster = ''w2'', de_NsmIp = ''10.1.2.3'',
        de_DnsName = ''web-0.w2.web.apps.svc.slice.local'', de_Port = 80\<rparr>],
      wi_Ports = [\<lparr>dp_Name = ''http'', dp_Port = 80, dp_Protocol = ''TCP'', dp_ServicePort = 80,
        dp_ServiceProtocol = ''''\<rparr>],
      wi_Aliases = []\<rparr>"

definition ex_gone_hub_import :: worker_service_import where
  "ex_gone_hub_import = ex_hub_import\<lparr>wi_meta := (wi_meta ex_hub_import)\<lparr>om_DeletionTimestamp := Some 9,
     om_Finalizers := [''controller.kubeslice.io/hubWorkerServiceImport-finalizer'']\<rparr>\<rparr>"

definition ex_hub_import_world :: "worker_service_import \<Rightarrow> world" where
  "ex_hub_import_world m = empty_world\<lparr>h_serviceimports := [m],
     w_slices := [new_slice (new_meta ''kubeslice-system'' ''red'' [])]\<rparr>"

definition ex_hub_import_pass :: "worker_service_import \<Rightarrow> (ctrl_result \<times> go_error option) \<times> world" where
  "ex_hub_import_pass m = HubImportReconcile ex_kube ''kubeslice-project'' ''web-w1'' (ex_hub_import_world m)"

lemma ex_hub_import_shape:
  "fst (ex_hub_import_pass ex_hub_import) = (result_none, None)"
  "find (keyed wi_meta ''kubeslice-project'' ''web-w1'') (h_serviceimports (ex_hub_import_world ex_hub_import))
     = Some ex_hub_import"
  "om_DeletionTimestamp (wi_meta ex_hub_import) = None"
  "fst (ex_hub_import_pass ex_gone_hub_import) = (result_none, None)"
  "find (keyed wi_meta ''kubeslice-project'' ''web-w1'') (h_serviceimports (ex_hub_import_world ex_gone_hub_import))
     = Some ex_gone_hub_import"
  "om_DeletionTimestamp (wi_meta ex_gone_hub_import) = Some 9"
  "svcimFinalizer \<in> set (om_Finalizers (wi_meta ex_gone_hub_import))"
  by (code_simp+)

theorem import_follows_hub_witness:
  "map_option (map en_IP \<circ> si_Endpoints) (find (keyed si_meta ''apps'' ''web'')
      (w_serviceimports (snd (ex_hub_import_pass ex_hub_import)))) = Some [''10.1.2.3'']"
proof -
  have "HubImportReconcile ex_kube ''kubeslice-project'' ''web-w1'' (ex_hub_import_world ex_hub_import)
      = ((result_none, None), snd (ex_hub_import_pass ex_hub_import))"
    using ex_hub_import_shape(1) by (metis ex_hub_import_pass_def prod.collapse)
  from import_follows_hub [OF ex_kube_lawful this ex_hub_import_shape(2,3), of "''apps''" "''web''"]
  show ?thesis
    by (simp add: ex_hub_import_def importFromHub_def getMeshServiceImportEpList_def)
qed

theorem hub_import_deleted_witness:
  "find (keyed si_meta ''apps'' ''web'') (w_serviceimports (snd (ex_hub_import_pass ex_gone_hub_import))) = None"
proof -
  have "HubImportReconcile ex_kube ''kubeslice-project'' ''web-w1'' (ex_hub_import_world ex_gone_hub_import)
      = ((result_none, None), snd (ex_hub_import_pass ex_gone_hub_import))"
    using ex_hub_import_shape(4) by (metis ex_hub_import_pass_def prod.collapse)
  from hub_import_deleted [OF ex_kube_lawful this ex_hub_import_shape(5-7)]
  show ?thesis by (simp add: ex_gone_hub_import_def ex_hub_import_def)
qed

end
