(* ===== verification/IstioObjects.thy ===== *)
theory IstioObjects
  imports SliceReconcile HubObjects
begin

text \<open>
  What the reconcilers of service exports and of service imports have in common: the display of
  ports, the routes of virtual services with their weights, and the service entries, one for each
  endpoint, named by its host. The Go packages have a copy each; \<open>hosts\<close> are the DNS names of
  the pods of an export or of the endpoints of an import, in their order.
\<close>

section \<open>Ports\<close>

definition portListToDisplayString :: "export_port list \<Rightarrow> string" where
  "portListToDisplayString servicePorts = join_with (CHR '','') (map (\<lambda>port.
     itoa (xp_ContainerPort port) @ ''/'' @ (if xp_Protocol port = '''' then ''TCP'' else xp_Protocol port))
     servicePorts)"

definition serviceProtocol :: "export_port list \<Rightarrow> string" where
  "serviceProtocol ports =
     (if length ports \<noteq> 1 then ''tcp''
      else if has_prefix (xp_Name (hd ports)) ''http'' then ''http'' else ''tcp'')"

section \<open>Routes\<close>

text \<open>The weight of route \<open>i\<close> out of \<open>l\<close>.\<close>

definition calculateInitialWeight :: "nat \<Rightarrow> nat \<Rightarrow> int" where
  "calculateInitialWeight i l =
     (let weight = 100 div l; offset = 100 - weight * l
      in int (if i < offset then weight + 1 else weight))"

definition routesTo :: "32 word \<Rightarrow> string list \<Rightarrow> route_destination list" where
  "routesTo port hosts = map (\<lambda>(i, host).
     \<lparr>rt_Host = host, rt_Port = port, rt_Weight = calculateInitialWeight i (length hosts)\<rparr>)
     (enumerate 0 hosts)"

definition routesChanged :: "route_destination list list \<Rightarrow> string list \<Rightarrow> bool" where
  "routesChanged routes hosts =
     (case routes of
        [rs] \<Rightarrow> length rs \<noteq> length hosts \<or> list_ex (\<lambda>(r, host). rt_Host r \<noteq> host) (zip rs hosts)
      | _ \<Rightarrow> True)"

lemma sum_first_larger:
  "(\<Sum>i<m. int (if i < k then d + 1 else d)) = int (m * d + min m k)" for m k d :: nat
  by (induction m) auto

lemma sum_weights:
  "(\<Sum>i<l. calculateInitialWeight i l) = int (l * (100 div l) + min l (100 - 100 div l * l))"
  unfolding calculateInitialWeight_def Let_def by (rule sum_first_larger)

lemma routesTo_hosts: "map rt_Host (routesTo port hosts) = hosts"
  by (simp add: routesTo_def comp_def case_prod_beta map_snd_enumerate [unfolded comp_def])

lemma routes_unchanged_iff:
  "routesChanged routes hosts \<longleftrightarrow> (\<nexists>rs. routes = [rs] \<and> map rt_Host rs = hosts)"
proof -
  have "(length rs = length hosts \<and> \<not> list_ex (\<lambda>(r, host). rt_Host r \<noteq> host) (zip rs hosts))
      \<longleftrightarrow> map rt_Host rs = hosts" for rs
  proof
    assume "length rs = length hosts \<and> \<not> list_ex (\<lambda>(r, host). rt_Host r \<noteq> host) (zip rs hosts)"
    then have "length rs = length hosts" "list_all (\<lambda>(r, host). rt_Host r = host) (zip rs hosts)"
      by (auto simp: list_ex_iff list_all_iff)
    then show "map rt_Host rs = hosts" by (induction rs hosts rule: list_induct2) auto
  next
    assume h: "map rt_Host rs = hosts"
    have "list_all (\<lambda>(r, host). rt_Host r = host) (zip rs (map rt_Host rs))" by (induction rs) auto
    with h show "length rs = length hosts \<and> \<not> list_ex (\<lambda>(r, host). rt_Host r \<noteq> host) (zip rs hosts)"
      by (auto simp: list_ex_iff list_all_iff)
  qed
  then show ?thesis by (auto simp: routesChanged_def split: list.split)
qed

section \<open>Service entries\<close>

definition entryHost :: "service_entry \<Rightarrow> string \<Rightarrow> bool" where
  "entryHost n host \<longleftrightarrow> sn_Hosts n \<noteq> [] \<and> hd (sn_Hosts n) = host"

text \<open>An entry without hosts panics.\<close>

definition staleEntries :: "service_entry list \<Rightarrow> string list \<Rightarrow> service_entry list go" where
  "staleEntries seList hosts =
     (if list_ex (\<lambda>n. sn_Hosts n = []) seList then Panic
      else Ret (filter (\<lambda>n. \<not> exists hosts (hd (sn_Hosts n))) seList))"

definition serviceLabels :: "object_meta \<Rightarrow> string \<Rightarrow> labels" where
  "serviceLabels om sliceName =
     [(''kubeslice-service'', om_Name om), (''kubeslice-service-ns'', om_Namespace om),
      (''kubeslice-slice'', sliceName)]"

text \<open>The entries in a namespace with given labels.\<close>

definition entries_at :: "string \<Rightarrow> labels \<Rightarrow> world \<Rightarrow> service_entry list" where
  "entries_at ns ls w = filter (selects sn_meta no_phase (in_namespace ns ls)) (w_serviceentries w)"

text \<open>No two entries of the cluster have the same namespace and name.\<close>

definition unique_keys :: "world \<Rightarrow> bool" where
  "unique_keys w \<longleftrightarrow> inj_on (\<lambda>n. (om_Namespace (sn_meta n), om_Name (sn_meta n))) (set (w_serviceentries w))"

text \<open>As many entries as hosts, and one for each host: no other entries.\<close>

lemma entries_exact:
  assumes "length entries = length hosts" and "distinct hosts"
    and "\<And>h. h \<in> set hosts \<Longrightarrow> \<exists>n \<in> set entries. entryHost n h" and "n \<in> set entries"
  shows "\<exists>h \<in> set hosts. entryHost n h"
proof -
  let ?host = "\<lambda>n. if sn_Hosts n = [] then None else Some (hd (sn_Hosts n))"
  let ?D = "Some ` set hosts"
  have sub: "?D \<subseteq> ?host ` set entries"
  proof
    fix d assume "d \<in> ?D"
    then obtain h where "h \<in> set hosts" "d = Some h" by auto
    with assms(3) [of h] show "d \<in> ?host ` set entries" by (force simp: entryHost_def)
  qed
  have "card ?D = length hosts"
    using assms(2) distinct_card [of hosts] by (simp add: card_image)
  then have "card (?host ` set entries) \<le> card ?D"
    using assms(1) card_image_le [of "set entries" ?host] card_length [of entries] by simp
  with sub have "?D = ?host ` set entries" by (intro card_seteq) auto
  moreover have "?host n \<in> ?host ` set entries" using assms(4) by blast
  ultimately have "?host n \<in> ?D" by simp
  then show ?thesis by (auto simp: entryHost_def split: if_split_asm)
qed

context lawful
begin

lemma stale_deleted:
  assumes "staleEntries (entries_at ns ls w) hosts = Ret ds"
    and "deleteAll (k_serviceentries K) sn_meta ds v = (None, v')"
    and "w_serviceentries v = w_serviceentries w" and "unique_keys w"
  shows "n \<in> set (entries_at ns ls v') \<longleftrightarrow> n \<in> set (entries_at ns ls w) \<and> (\<exists>h \<in> set hosts. entryHost n h)"
proof -
  let ?es = "entries_at ns ls w"
  have hosts: "\<forall>n \<in> set ?es. sn_Hosts n \<noteq> []"
    and ds: "ds = filter (\<lambda>n. hd (sn_Hosts n) \<notin> set hosts) ?es"
    using assms(1) by (auto simp: staleEntries_def list_ex_iff exists_iff split: if_split_asm)
  have v': "w_serviceentries v' = filter (\<lambda>y. \<forall>ob \<in> set ds. \<not> same_key sn_meta ob y) (w_serviceentries w)"
    using sen.deleteAll_ok [OF assms(2)] assms(3) by simp
  have key: "n = m" if "n \<in> set ?es" "m \<in> set ?es" "same_key sn_meta m n" for n m
    using that assms(4) unfolding unique_keys_def inj_on_def entries_at_def
    by (auto simp: same_key_def keyed_def)
  show ?thesis
  proof
    assume "n \<in> set (entries_at ns ls v')"
    then have n: "n \<in> set ?es" and "\<forall>ob \<in> set ds. \<not> same_key sn_meta ob n"
      using v' by (auto simp: entries_at_def)
    then have "hd (sn_Hosts n) \<in> set hosts" unfolding ds by (auto simp: same_key_def)
    with n hosts show "n \<in> set ?es \<and> (\<exists>h \<in> set hosts. entryHost n h)" by (auto simp: entryHost_def)
  next
    assume n: "n \<in> set ?es \<and> (\<exists>h \<in> set hosts. entryHost n h)"
    then have "\<forall>ob \<in> set ds. \<not> same_key sn_meta ob n" unfolding ds using key by (fastforce simp: entryHost_def)
    with n show "n \<in> set (entries_at ns ls v')" using v' by (auto simp: entries_at_def)
  qed
qed

end

text \<open>
  Traffic to an exported or imported service is spread evenly: the routes go to its hosts in
  their order, their weights add up to 100, and any two differ by at most one.
\<close>

theorem routes_share_traffic:
  assumes "hosts \<noteq> []"
  shows "map rt_Host (routesTo port hosts) = hosts
    \<and> sum_list (map rt_Weight (routesTo port hosts)) = 100
    \<and> list_all (\<lambda>r. rt_Weight r \<in> {int (100 div length hosts), int (100 div length hosts) + 1})
        (routesTo port hosts)"
proof (intro conjI)
  let ?l = "length hosts"
  have l: "0 < ?l" using assms by simp
  show "map rt_Host (routesTo port hosts) = hosts" by (rule routesTo_hosts)
  have "map rt_Weight (routesTo port hosts) = map (\<lambda>i. calculateInitialWeight i ?l) [0..<?l]"
    by (simp add: routesTo_def comp_def case_prod_beta
        flip: map_map [of "\<lambda>i. calculateInitialWeight i ?l" fst, unfolded comp_def])
  then have "sum_list (map rt_Weight (routesTo port hosts)) = (\<Sum>i<?l. calculateInitialWeight i ?l)"
    by (simp add: interv_sum_list_conv_sum_set_nat lessThan_atLeast0)
  also have "... = int (?l * (100 div ?l) + min ?l (100 - 100 div ?l * ?l))"
    by (rule sum_weights)
  also have "min ?l (100 - 100 div ?l * ?l) = 100 mod ?l"
    using mod_less_divisor [OF l, of 100] by (simp add: minus_div_mult_eq_mod min_absorb2)
  finally show "sum_list (map rt_Weight (routesTo port hosts)) = 100" by simp
  show "list_all (\<lambda>r. rt_Weight r \<in> {int (100 div ?l), int (100 div ?l) + 1}) (routesTo port hosts)"
    by (auto simp: list_all_iff routesTo_def calculateInitialWeight_def Let_def)
qed

theorem routes_share_traffic_witness:
  "map rt_Weight (routesTo 80 [''a'', ''b'', ''c'']) = [34, 33, 33]
   \<and> sum_list (map rt_Weight (routesTo 80 [''a'', ''b'', ''c''])) = 100"
  using routes_share_traffic [of "[''a'', ''b'', ''c'']" 80]
  by (simp add: routesTo_def calculateInitialWeight_def enumerate_eq_zip upt_rec)

end
