(* ===== verification/ServiceExport.thy ===== *)
theory ServiceExport
  imports IstioObjects
begin

text \<open>
  The service export reconciler: \<open>controllers/serviceexport\<close> (\<open>reconciler.go\<close>,
  \<open>serviceexport.go\<close>, \<open>utils.go\<close>, \<open>istio*.go\<close>), with the calls of the hub client that it makes.
  \<open>E\<close> is the environment of the process, \<open>now\<close> the time in seconds.
\<close>

section \<open>Utilities\<close>

abbreviation se_Name :: "service_export \<Rightarrow> string" where
  "se_Name s \<equiv> om_Name (se_meta s)"

abbreviation se_Namespace :: "service_export \<Rightarrow> string" where
  "se_Namespace s \<equiv> om_Namespace (se_meta s)"

definition getClusterName :: "environ \<Rightarrow> string" where
  "getClusterName E = getenv E ''CLUSTER_NAME''"

definition getNsmIP :: "pod \<Rightarrow> app_pod list \<Rightarrow> string" where
  "getNsmIP p appPods =
     (case find (\<lambda>a. p_Name p = ap_PodName a \<and> om_Namespace (p_meta p) = ap_PodNamespace a) appPods of
        None \<Rightarrow> '''' | Some a \<Rightarrow> ap_NsmIP a)"

text \<open>
  The pods of the status in a map by name, the last one of a name; a name that is not in the map
  has the zero value.
\<close>

definition servicePodByName :: "service_pod list \<Rightarrow> string \<Rightarrow> service_pod" where
  "servicePodByName old n =
     (case find (\<lambda>c. spd_Name c = n) (rev old) of
        None \<Rightarrow> \<lparr>spd_Name = '''', spd_NsmIP = '''', spd_PodIp = '''', spd_DNSName = ''''\<rparr>
      | Some c \<Rightarrow> c)"

definition isServiceAppPodChanged :: "service_pod list \<Rightarrow> service_pod list \<Rightarrow> bool" where
  "isServiceAppPodChanged current old \<longleftrightarrow>
     length current \<noteq> length old \<or>
     list_ex (\<lambda>c. spd_NsmIP (servicePodByName old (spd_Name c)) \<noteq> spd_NsmIP c
               \<or> spd_PodIp (servicePodByName old (spd_Name c)) \<noteq> spd_PodIp c) current"

definition getServiceProtocol :: "service_export \<Rightarrow> string" where
  "getServiceProtocol s = serviceProtocol (se_Ports s)"

definition isAliasStatusInSync :: "string list \<Rightarrow> string list \<Rightarrow> bool" where
  "isAliasStatusInSync inStatus inSpec \<longleftrightarrow>
     length inStatus = length inSpec \<and> list_all (\<lambda>a. exists inStatus a) inSpec"

definition isValidNameSpace :: "string \<Rightarrow> slice \<Rightarrow> bool" where
  "isValidNameSpace ns s \<longleftrightarrow> ns = VPC_NS (sl_Name s) \<or> exists (sl_ApplicationNamespaces s) ns"

section \<open>The export on the hub\<close>

text \<open>The endpoints read the first port: an export without ports panics.\<close>

definition getHubServiceDiscoveryEps :: "environ \<Rightarrow> service_export \<Rightarrow> discovery_endpoint list go" where
  "getHubServiceDiscoveryEps E s =
     (case se_Ports s of
        [] \<Rightarrow> Panic
      | p # _ \<Rightarrow> Ret (map (\<lambda>pd.
          \<lparr>de_PodName = spd_Name pd, de_Cluster = getClusterName E, de_NsmIp = spd_NsmIP pd,
           de_DnsName = spd_DNSName pd, de_Port = xp_ContainerPort p\<rparr>) (se_Pods s)))"

definition getHubServiceDiscoveryPorts :: "service_export \<Rightarrow> discovery_port list" where
  "getHubServiceDiscoveryPorts s = map (\<lambda>p.
     \<lparr>dp_Name = xp_Name p, dp_Port = xp_ContainerPort p, dp_Protocol = xp_Protocol p,
      dp_ServicePort = xp_ServicePort p, dp_ServiceProtocol = xp_ServiceProtocol p\<rparr>) (se_Ports s)"

definition getHubServiceExportObjName :: "environ \<Rightarrow> service_export \<Rightarrow> string" where
  "getHubServiceExportObjName E s = se_Name s @ ''-'' @ se_Namespace s @ ''-'' @ getClusterName E"

text \<open>The object on the hub with endpoints \<open>eps\<close>.\<close>

definition hubExportWith :: "environ \<Rightarrow> service_export \<Rightarrow> discovery_endpoint list \<Rightarrow> service_export_config" where
  "hubExportWith E s eps =
     \<lparr>sx_meta = new_meta (ProjectNamespace E) (getHubServiceExportObjName E s) [],
      sx_ServiceName = se_Name s, sx_ServiceNamespace = se_Namespace s,
      sx_SourceCluster = getClusterName E, sx_SliceName = se_Slice s, sx_Endpoints = eps,
      sx_Ports = getHubServiceDiscoveryPorts s, sx_Aliases = se_Aliases s\<rparr>"

definition getHubServiceDiscoveryEpForIngressGw :: "environ \<Rightarrow> service_pod \<Rightarrow> discovery_endpoint" where
  "getHubServiceDiscoveryEpForIngressGw E ep =
     \<lparr>de_PodName = spd_Name ep, de_Cluster = getClusterName E, de_NsmIp = spd_NsmIP ep,
      de_DnsName = spd_DNSName ep, de_Port = 8080\<rparr>"

definition UpdateServiceExportEndpointForIngressGw :: "kube \<Rightarrow> environ \<Rightarrow> service_export \<Rightarrow> service_pod
    \<Rightarrow> world \<Rightarrow> go_error option \<times> world" where
  "UpdateServiceExportEndpointForIngressGw K E s ep w =
     (case r_get (k_hubexports K) (ProjectNamespace E) (getHubServiceExportObjName E s) w of
        (Inl NotFound, w) \<Rightarrow>
          r_create (k_hubexports K) (hubExportWith E s [getHubServiceDiscoveryEpForIngressGw E ep]) w
      | (Inl e, w) \<Rightarrow> (Some e, w)
      | (Inr h, w) \<Rightarrow>
          r_update (k_hubexports K)
            (h\<lparr>sx_Endpoints := [getHubServiceDiscoveryEpForIngressGw E ep],
               sx_Ports := getHubServiceDiscoveryPorts s, sx_Aliases := se_Aliases s\<rparr>) w)"

text \<open>The whole spec is replaced; only the metadata of the object on the hub stays.\<close>

definition UpdateServiceExport :: "kube \<Rightarrow> environ \<Rightarrow> service_export \<Rightarrow> world
    \<Rightarrow> go_error option go \<times> world" where
  "UpdateServiceExport K E s w =
     (case r_get (k_hubexports K) (ProjectNamespace E) (getHubServiceExportObjName E s) w of
        (Inl NotFound, w) \<Rightarrow>
          (case getHubServiceDiscoveryEps E s of
             Panic \<Rightarrow> (Panic, w)
           | Ret eps \<Rightarrow>
               (case r_create (k_hubexports K) (hubExportWith E s eps) w of (r, w) \<Rightarrow> (Ret r, w)))
      | (Inl e, w) \<Rightarrow> (Ret (Some e), w)
      | (Inr h, w) \<Rightarrow>
          (case getHubServiceDiscoveryEps E s of
             Panic \<Rightarrow> (Panic, w)
           | Ret eps \<Rightarrow>
               (case r_update (k_hubexports K) ((hubExportWith E s eps)\<lparr>sx_meta := sx_meta h\<rparr>) w of
                  (r, w) \<Rightarrow> (Ret r, w))))"

definition DeleteServiceExport :: "kube \<Rightarrow> environ \<Rightarrow> service_export \<Rightarrow> world
    \<Rightarrow> go_error option \<times> world" where
  "DeleteServiceExport K E s w =
     (case r_get (k_hubexports K) (ProjectNamespace E) (getHubServiceExportObjName E s) w of
        (Inl NotFound, w) \<Rightarrow> (None, w)
      | (Inl e, w) \<Rightarrow> (Some e, w)
      | (Inr h, w) \<Rightarrow> r_delete (k_hubexports K) (om_Namespace (sx_meta h)) (om_Name (sx_meta h)) w)"

section \<open>Application pods\<close>

definition exportPodOf :: "environ \<Rightarrow> service_export \<Rightarrow> app_pod list \<Rightarrow> pod \<Rightarrow> service_pod option" where
  "exportPodOf E s appPodsInSlice p =
     (if p_Phase p = ''Running'' \<and> getNsmIP p appPodsInSlice \<noteq> ''''
      then Some \<lparr>spd_Name = p_Name p, spd_NsmIP = getNsmIP p appPodsInSlice, spd_PodIp = p_PodIP p,
        spd_DNSName = p_Name p @ ''.'' @ getClusterName E @ ''.'' @ se_Name s @ ''.'' @ se_Namespace s
          @ ''.svc.slice.local''\<rparr>
      else None)"

text \<open>An export without a selector panics.\<close>

definition getExportPods :: "kube \<Rightarrow> environ \<Rightarrow> service_export \<Rightarrow> world
    \<Rightarrow> (go_error + service_pod list) go \<times> world" where
  "getExportPods K E s w =
     (case se_Selector s of
        None \<Rightarrow> (Panic, w)
      | Some ls \<Rightarrow>
     (case r_list (k_pods K) (in_namespace (se_Namespace s) ls) w of
        (Inl e, w) \<Rightarrow> (Ret (Inl e), w)
      | (Inr pods, w) \<Rightarrow>
     (case GetSlice K (se_Slice s) w of
        (Inl e, w) \<Rightarrow> (Ret (Inl e), w)
      | (Inr sl, w) \<Rightarrow> (Ret (Inr (List.map_filter (exportPodOf E s (sl_AppPods sl)) pods)), w))))"

type_synonym export_step = "(step_result \<times> service_export) go \<times> world"

definition ReconcileExportPods :: "kube \<Rightarrow> environ \<Rightarrow> service_export \<Rightarrow> world \<Rightarrow> export_step" where
  "ReconcileExportPods K E s w =
     (case getExportPods K E s w of
        (Panic, w) \<Rightarrow> (Panic, w)
      | (Ret (Inl e), w) \<Rightarrow> (Ret ((result_none, Some e, True), s), w)
      | (Ret (Inr appPods), w) \<Rightarrow>
          (if \<not> isServiceAppPodChanged appPods (se_Pods s)
           then (Ret ((result_none, None, False), s), w)
           else
             (let s = s\<lparr>se_Pods := appPods, se_LastSync := 0, se_ExportStatus := ''PENDING'',
                     se_AvailableEndpoints := int (length appPods)\<rparr>
              in case r_update_status (k_serviceexports K) s w of
                   (Some e, w) \<Rightarrow> (Ret ((result_none, Some e, True), s), w)
                 | (None, w) \<Rightarrow> (Ret ((result_requeue, None, True), s), w))))"

section \<open>The ingress gateway\<close>

definition ingressEnabled :: "slice_config \<Rightarrow> bool" where
  "ingressEnabled c \<longleftrightarrow>
     (case sc_ExternalGatewayConfig c of None \<Rightarrow> False
      | Some g \<Rightarrow> (case eg_Ingress g of None \<Rightarrow> False | Some b \<Rightarrow> b))"

definition isIngressGwPod :: "app_pod \<Rightarrow> bool" where
  "isIngressGwPod a \<longleftrightarrow> sublist ''ingressgateway'' (ap_PodName a)
     \<and> ap_PodNamespace a = ControlPlaneNamespace \<and> ap_NsmIP a \<noteq> ''''"

definition GetSliceIngressGwPod :: "kube \<Rightarrow> string \<Rightarrow> world
    \<Rightarrow> (go_error + bool \<times> app_pod option) \<times> world" where
  "GetSliceIngressGwPod K sliceName w =
     (case GetSlice K sliceName w of
        (Inl e, w) \<Rightarrow> (Inl e, w)
      | (Inr sl, w) \<Rightarrow>
          (case sl_Config sl of
             None \<Rightarrow> (Inl (Failure ''sliceconfig is not reconciled from hub''), w)
           | Some c \<Rightarrow>
               (if ingressEnabled c then (Inr (True, find isIngressGwPod (sl_AppPods sl)), w)
                else (Inr (False, None), w))))"

definition ReconcileIngressGwPod :: "kube \<Rightarrow> service_export \<Rightarrow> world
    \<Rightarrow> (step_result \<times> service_export) \<times> world" where
  "ReconcileIngressGwPod K s w =
     (case GetSliceIngressGwPod K (se_Slice s) w of
        (Inl e, w) \<Rightarrow> (((result_none, Some e, True), s), w)
      | (Inr (False, _), w) \<Rightarrow> (((result_none, None, False), s), w)
      | (Inr (True, None), w) \<Rightarrow> (((result_after 30, None, True), s), w)
      | (Inr (True, Some a), w) \<Rightarrow>
          (if ap_PodName a \<noteq> se_IngressGwPodName s \<or> ap_NsmIP a \<noteq> se_IngressGwPodNsmIP s
           then
             (let s = s\<lparr>se_LastSync := 0, se_ExportStatus := ''PENDING'', se_IngressGwEnabled := True,
                     se_IngressGwPodName := ap_PodName a, se_IngressGwPodNsmIP := ap_NsmIP a\<rparr>
              in case r_update_status (k_serviceexports K) s w of
                   (Some e, w) \<Rightarrow> (((result_none, Some e, True), s), w)
                 | (None, w) \<Rightarrow> (((result_requeue, None, True), s), w))
           else (((result_none, None, False), s), w)))"

section \<open>Aliases and synchronisation\<close>

definition ReconcileAliases :: "kube \<Rightarrow> service_export \<Rightarrow> world
    \<Rightarrow> (step_result \<times> service_export) \<times> world" where
  "ReconcileAliases K s w =
     (if se_Aliases s = [] \<and> se_StatusAliases s = [] then (((result_none, None, False), s), w)
      else if \<not> isAliasStatusInSync (se_StatusAliases s) (se_Aliases s)
      then
        (let s = s\<lparr>se_StatusAliases := se_Aliases s, se_LastSync := 0\<rparr>
         in case r_update_status (k_serviceexports K) s w of
              (Some e, w) \<Rightarrow> (((result_none, Some e, True), s), w)
            | (None, w) \<Rightarrow> (((result_requeue, None, True), s), w))
      else (((result_none, None, False), s), w))"

definition ingressEndpoint :: "environ \<Rightarrow> service_export \<Rightarrow> service_pod" where
  "ingressEndpoint E s =
     \<lparr>spd_Name = se_Name s @ ''-'' @ se_Namespace s @ ''-ingress'', spd_NsmIP = se_IngressGwPodNsmIP s,
      spd_PodIp = '''',
      spd_DNSName = se_Name s @ ''-ingress.'' @ getClusterName E @ ''.'' @ se_Namespace s @ ''.svc.slice.local''\<rparr>"

definition SyncSvcExportStatus :: "kube \<Rightarrow> environ \<Rightarrow> int \<Rightarrow> service_export \<Rightarrow> world \<Rightarrow> export_step" where
  "SyncSvcExportStatus K E now s w =
     (if se_LastSync s \<noteq> 0 then (Ret ((result_none, None, False), s), w)
      else
        (case (if se_IngressGwEnabled s
               then (case UpdateServiceExportEndpointForIngressGw K E s (ingressEndpoint E s) w of
                       (r, w) \<Rightarrow> (Ret r, w))
               else UpdateServiceExport K E s w) of
           (Panic, w) \<Rightarrow> (Panic, w)
         | (Ret (Some err), w) \<Rightarrow>
             (let s = s\<lparr>se_ExportStatus := ''ERROR''\<rparr>
              in case r_update_status (k_serviceexports K) s w of
                   (Some errN, w) \<Rightarrow> (Ret ((result_none, Some errN, True), s), w)
                 | (None, w) \<Rightarrow> (Ret ((result_none, Some err, True), s), w))
         | (Ret None, w) \<Rightarrow>
             (let s = s\<lparr>se_LastSync := now\<rparr>
              in case r_update_status (k_serviceexports K) s w of
                   (Some e, w) \<Rightarrow> (Ret ((result_none, Some e, True), s), w)
                 | (None, w) \<Rightarrow> (Ret ((result_requeue, None, True), s), w))))"

section \<open>Service entries\<close>

definition labelsForServiceEntry :: "service_export \<Rightarrow> labels" where
  "labelsForServiceEntry s = serviceLabels (se_meta s) (se_Slice s)"

definition serviceEntryName :: "service_pod \<Rightarrow> string \<Rightarrow> string" where
  "serviceEntryName endpoint ns = spd_Name endpoint @ ''-'' @ ns @ ''-ingress''"

definition createServiceEntryForEndpoint :: "service_export \<Rightarrow> service_pod \<Rightarrow> service_entry" where
  "createServiceEntryForEndpoint s endpoint =
     \<lparr>sn_meta = new_meta ControlPlaneNamespace (serviceEntryName endpoint (se_Namespace s))
        (labelsForServiceEntry s),
      sn_ExportTo = [''.''], sn_Hosts = [spd_DNSName endpoint], sn_Location = ''MESH_INTERNAL'',
      sn_Ports = map (\<lambda>p. \<lparr>po_Name = xp_Name p, po_Protocol = xp_Protocol p,
        po_Number = word_of_int (xp_ContainerPort p), po_TargetPort = word_of_int (xp_ContainerPort p)\<rparr>)
        (se_Ports s),
      sn_Resolution = ''STATIC'', sn_Addresses = [],
      sn_Endpoints = [if spd_NsmIP endpoint = '''' then spd_PodIp endpoint else spd_NsmIP endpoint]\<rparr>"

definition getServiceEntries :: "kube \<Rightarrow> service_export \<Rightarrow> world
    \<Rightarrow> (go_error + service_entry list) \<times> world" where
  "getServiceEntries K s w =
     r_list (k_serviceentries K) (in_namespace ControlPlaneNamespace (labelsForServiceEntry s)) w"

definition serviceEntryExists :: "service_entry list \<Rightarrow> service_pod \<Rightarrow> service_entry option" where
  "serviceEntryExists seList e = find (\<lambda>n. entryHost n (spd_DNSName e)) seList"

text \<open>An entry without endpoints panics, when the pod has an address.\<close>

definition checkEndpoint :: "service_pod \<Rightarrow> service_entry \<Rightarrow> bool go" where
  "checkEndpoint endpoint seFound =
     (if spd_NsmIP endpoint = '''' then Ret False
      else (case sn_Endpoints seFound of [] \<Rightarrow> Panic | a # _ \<Rightarrow> Ret (a \<noteq> spd_NsmIP endpoint)))"

definition servicesEntriesToDelete :: "service_entry list \<Rightarrow> service_export \<Rightarrow> service_entry list go" where
  "servicesEntriesToDelete seList s = staleEntries seList (map spd_DNSName (se_Pods s))"

text \<open>The loop over the endpoints; \<open>None\<close> when it comes to its end.\<close>

fun entriesLoop :: "kube \<Rightarrow> service_export \<Rightarrow> service_entry list \<Rightarrow> service_pod list \<Rightarrow> world
    \<Rightarrow> step_result option go \<times> world" where
  "entriesLoop K s entries [] w = (Ret None, w)"
| "entriesLoop K s entries (endpoint # rest) w =
     (case serviceEntryExists entries endpoint of
        None \<Rightarrow>
          (case r_create (k_serviceentries K) (createServiceEntryForEndpoint s endpoint) w of
             (Some e, w) \<Rightarrow> (Ret (Some (result_none, Some e, True)), w)
           | (None, w) \<Rightarrow> (Ret (Some (result_requeue, None, True)), w))
      | Some found \<Rightarrow>
          (case checkEndpoint endpoint found of
             Panic \<Rightarrow> (Panic, w)
           | Ret True \<Rightarrow>
               (case r_update (k_serviceentries K)
                   (found\<lparr>sn_Endpoints := (sn_Endpoints found)[0 := spd_NsmIP endpoint]\<rparr>) w of
                  (Some e, w) \<Rightarrow> (Ret (Some (result_none, Some e, True)), w)
                | (None, w) \<Rightarrow> (Ret (Some (result_requeue, None, True)), w))
           | Ret False \<Rightarrow> entriesLoop K s entries rest w))"

definition ReconcileServiceEntries :: "kube \<Rightarrow> service_export \<Rightarrow> world \<Rightarrow> step_result go \<times> world" where
  "ReconcileServiceEntries K s w =
     (case getServiceEntries K s w of
        (Inl e, w) \<Rightarrow> (Ret (result_none, Some e, True), w)
      | (Inr entries, w) \<Rightarrow>
     (case entriesLoop K s entries (se_Pods s) w of
        (Panic, w) \<Rightarrow> (Panic, w)
      | (Ret (Some r), w) \<Rightarrow> (Ret r, w)
      | (Ret None, w) \<Rightarrow>
          (if length (se_Pods s) = length entries then (Ret (result_none, None, False), w)
           else
             (case servicesEntriesToDelete entries s of
                Panic \<Rightarrow> (Panic, w)
              | Ret toDelete \<Rightarrow>
                  (case deleteAll (k_serviceentries K) sn_meta toDelete w of
                     (Some e, w) \<Rightarrow> (Ret (result_none, Some e, True), w)
                   | (None, w) \<Rightarrow> (Ret (result_none, None, False), w))))))"

definition DeleteIstioServiceEntries :: "kube \<Rightarrow> service_export \<Rightarrow> world \<Rightarrow> go_error option \<times> world" where
  "DeleteIstioServiceEntries K s w =
     (case getServiceEntries K s w of
        (Inl NotFound, w) \<Rightarrow> (None, w)
      | (Inl e, w) \<Rightarrow> (Some e, w)
      | (Inr entries, w) \<Rightarrow> deleteAll (k_serviceentries K) sn_meta entries w)"

section \<open>The virtual service\<close>

definition virtualServiceName :: "service_export \<Rightarrow> string" where
  "virtualServiceName s = se_Name s @ ''-'' @ se_Namespace s"

definition getVirtualServiceHTTPRoutes :: "service_export \<Rightarrow> route_destination list go" where
  "getVirtualServiceHTTPRoutes s =
     (case se_Ports s of [] \<Rightarrow> Panic
      | p # _ \<Rightarrow> Ret (routesTo (word_of_int (xp_ContainerPort p)) (map spd_DNSName (se_Pods s))))"

text \<open>The last port counts; without ports it is 0.\<close>

definition getVirtualServiceTCPRoutes :: "service_export \<Rightarrow> route_destination list" where
  "getVirtualServiceTCPRoutes s =
     routesTo (foldl (\<lambda>_ p. word_of_int (xp_ContainerPort p)) 0 (se_Ports s)) (map spd_DNSName (se_Pods s))"

definition withRoutes :: "service_export \<Rightarrow> virtual_service \<Rightarrow> virtual_service go" where
  "withRoutes s v =
     (if getServiceProtocol s = ''http''
      then (case getVirtualServiceHTTPRoutes s of
              Panic \<Rightarrow> Panic | Ret rs \<Rightarrow> Ret (v\<lparr>vs_Http := [rs]\<rparr>))
      else Ret (v\<lparr>vs_Tcp := [getVirtualServiceTCPRoutes s]\<rparr>))"

definition virtualService :: "environ \<Rightarrow> service_export \<Rightarrow> virtual_service go" where
  "virtualService E s = withRoutes s
     \<lparr>vs_meta = new_meta ControlPlaneNamespace (virtualServiceName s) [],
      vs_Hosts = [spd_DNSName (ingressEndpoint E s), se_DNSName s],
      vs_Gateways = [ControlPlaneNamespace @ ''/'' @ se_Slice s @ ''-istio-ingressgateway''],
      vs_ExportTo = [''.''], vs_Http = [], vs_Tcp = []\<rparr>"

definition hasVirtualServiceRoutesChanged :: "virtual_service \<Rightarrow> service_export \<Rightarrow> bool" where
  "hasVirtualServiceRoutesChanged v s =
     routesChanged (if getServiceProtocol s = ''http'' then vs_Http v else vs_Tcp v)
       (map spd_DNSName (se_Pods s))"

definition getVirtualService :: "kube \<Rightarrow> service_export \<Rightarrow> world \<Rightarrow> (go_error + virtual_service) \<times> world" where
  "getVirtualService K s w = r_get (k_virtualservices K) ControlPlaneNamespace (virtualServiceName s) w"

definition ReconcileVirtualService :: "kube \<Rightarrow> environ \<Rightarrow> service_export \<Rightarrow> world \<Rightarrow> step_result go \<times> world" where
  "ReconcileVirtualService K E s w =
     (case getVirtualService K s w of
        (Inl NotFound, w) \<Rightarrow>
          (if se_Pods s = [] then (Ret (result_none, None, False), w)
           else (case virtualService E s of
                   Panic \<Rightarrow> (Panic, w)
                 | Ret v \<Rightarrow>
                     (case r_create (k_virtualservices K) v w of
                        (Some e, w) \<Rightarrow> (Ret (result_none, Some e, True), w)
                      | (None, w) \<Rightarrow> (Ret (result_requeue, None, True), w))))
      | (Inl e, w) \<Rightarrow> (Ret (result_none, Some e, True), w)
      | (Inr v, w) \<Rightarrow>
          (if se_Pods s = []
           then (case r_delete (k_virtualservices K) (om_Namespace (vs_meta v)) (om_Name (vs_meta v)) w of
                   (Some e, w) \<Rightarrow> (Ret (result_none, Some e, True), w)
                 | (None, w) \<Rightarrow> (Ret (result_none, None, False), w))
           else if hasVirtualServiceRoutesChanged v s
           then (case withRoutes s v of
                   Panic \<Rightarrow> (Panic, w)
                 | Ret v \<Rightarrow>
                     (case r_update (k_virtualservices K) v w of
                        (Some e, w) \<Rightarrow> (Ret (result_none, Some e, True), w)
                      | (None, w) \<Rightarrow> (Ret (result_requeue, None, True), w)))
           else (Ret (result_none, None, False), w)))"

definition DeleteIstioVirtualServices :: "kube \<Rightarrow> service_export \<Rightarrow> world \<Rightarrow> go_error option \<times> world" where
  "DeleteIstioVirtualServices K s w =
     (case getVirtualService K s w of
        (Inl NotFound, w) \<Rightarrow> (None, w)
      | (Inl e, w) \<Rightarrow> (Some e, w)
      | (Inr v, w) \<Rightarrow> r_delete (k_virtualservices K) (om_Namespace (vs_meta v)) (om_Name (vs_meta v)) w)"

definition ReconcileIstio :: "kube \<Rightarrow> environ \<Rightarrow> service_export \<Rightarrow> world \<Rightarrow> step_result go \<times> world" where
  "ReconcileIstio K E s w =
     (case GetSlice K (se_Slice s) w of
        (Inl e, w) \<Rightarrow> (Ret (result_none, Some e, True), w)
      | (Inr sl, w) \<Rightarrow>
     (case sl_Config sl of
        None \<Rightarrow> (Ret (result_none, Some (Failure ''sliceconfig not reconciled from hub''), True), w)
      | Some c \<Rightarrow>
          (if \<not> ingressEnabled c then (Ret (result_none, None, False), w)
           else
             (case ReconcileServiceEntries K s w of
                (Ret (res, err, False), w) \<Rightarrow>
                  (case ReconcileVirtualService K E s w of
                     (Ret (res, err, False), w) \<Rightarrow> (Ret (result_none, None, False), w)
                   | (r, w) \<Rightarrow> (r, w))
              | (r, w) \<Rightarrow> (r, w)))))"

definition DeleteIstioResources :: "kube \<Rightarrow> service_export \<Rightarrow> slice_config \<Rightarrow> world
    \<Rightarrow> go_error option \<times> world" where
  "DeleteIstioResources K s c w =
     (if \<not> ingressEnabled c then (None, w)
      else (case DeleteIstioServiceEntries K s w of
              (Some e, w) \<Rightarrow> (Some e, w)
            | (None, w) \<Rightarrow> DeleteIstioVirtualServices K s w))"

definition DeleteServiceExportResources :: "kube \<Rightarrow> service_export \<Rightarrow> world
    \<Rightarrow> go_error option \<times> world" where
  "DeleteServiceExportResources K s w =
     (case GetSlice K (se_Slice s) w of
        (Inl NotFound, w) \<Rightarrow> (None, w)
      | (Inl e, w) \<Rightarrow> (Some e, w)
      | (Inr sl, w) \<Rightarrow>
          (case sl_Config sl of None \<Rightarrow> (None, w) | Some c \<Rightarrow> DeleteIstioResources K s c w))"

section \<open>The pass\<close>

definition exportFinalizer :: string where
  "exportFinalizer = ''networking.kubeslice.io/serviceexport-finalizer''"

definition se_with_finalizers :: "string list \<Rightarrow> service_export \<Rightarrow> service_export" where
  "se_with_finalizers fs s = s\<lparr>se_meta := (se_meta s)\<lparr>om_Finalizers := fs\<rparr>\<rparr>"

definition handleServiceExportDeletion :: "kube \<Rightarrow> environ \<Rightarrow> service_export \<Rightarrow> world
    \<Rightarrow> (bool \<times> go_error option) \<times> service_export \<times> world" where
  "handleServiceExportDeletion K E s w =
     (let fs = om_Finalizers (se_meta s)
      in if om_DeletionTimestamp (se_meta s) = None
         then
           (if \<not> exists fs exportFinalizer
            then (let s = se_with_finalizers (fs @ [exportFinalizer]) s
                  in case r_update (k_serviceexports K) s w of
                       (Some e, w) \<Rightarrow> ((True, Some e), s, w)
                     | (None, w) \<Rightarrow> ((False, None), s, w))
            else ((False, None), s, w))
         else
           (if exists fs exportFinalizer
            then
              (case DeleteServiceExport K E s w of
                 (Some e, w) \<Rightarrow> ((True, Some e), s, w)
               | (None, w) \<Rightarrow>
              (case DeleteServiceExportResources K s w of
                 (Some e, w) \<Rightarrow> ((True, Some e), s, w)
               | (None, w) \<Rightarrow>
                   (let s = se_with_finalizers (filter (\<lambda>f. f \<noteq> exportFinalizer) fs) s
                    in case r_update (k_serviceexports K) s w of (r, w) \<Rightarrow> ((True, r), s, w))))
            else ((True, None), s, w)))"

definition labelServiceExportWithSlice :: "kube \<Rightarrow> service_export \<Rightarrow> world
    \<Rightarrow> step_result \<times> service_export \<times> world" where
  "labelServiceExportWithSlice K s w =
     (if map_of (om_Labels (se_meta s)) ApplicationNamespaceSelectorLabelKey \<noteq> Some (se_Slice s)
      then
        (let s = s\<lparr>se_meta := (se_meta s)\<lparr>om_Labels :=
               AList.update ApplicationNamespaceSelectorLabelKey (se_Slice s) (om_Labels (se_meta s))\<rparr>\<rparr>
         in case r_update (k_serviceexports K) s w of
              (Some e, w) \<Rightarrow> ((result_none, Some e, True), s, w)
            | (None, w) \<Rightarrow> ((result_requeue, None, True), s, w))
      else ((result_none, None, False), s, w))"

text \<open>What follows when the checks of the slice and the namespace are through.\<close>

definition exportReady :: "kube \<Rightarrow> service_export \<Rightarrow> world \<Rightarrow> (ctrl_result \<times> go_error option) \<times> world" where
  "exportReady K s w =
     (if se_ExportStatus s \<noteq> ''READY''
      then (case r_update_status (k_serviceexports K) (s\<lparr>se_ExportStatus := ''READY''\<rparr>) w of
              (Some e, w) \<Rightarrow> ((result_none, Some e), w)
            | (None, w) \<Rightarrow> ((result_after 30, None), w))
      else ((result_after 30, None), w))"

text \<open>The last steps: aliases, the hub, istio.\<close>

definition exportPublish :: "kube \<Rightarrow> environ \<Rightarrow> int \<Rightarrow> service_export \<Rightarrow> world
    \<Rightarrow> (ctrl_result \<times> go_error option) go \<times> world" where
  "exportPublish K E now s w =
     (case ReconcileAliases K s w of
        (((res, Some e, _), s), w) \<Rightarrow> (Ret (result_none, Some e), w)
      | (((res, None, True), s), w) \<Rightarrow> (Ret (res, None), w)
      | (((_, None, False), s), w) \<Rightarrow>
     (case SyncSvcExportStatus K E now s w of
        (Panic, w) \<Rightarrow> (Panic, w)
      | (Ret ((res, Some e, _), s), w) \<Rightarrow> (Ret (result_none, Some e), w)
      | (Ret ((res, None, True), s), w) \<Rightarrow> (Ret (res, None), w)
      | (Ret ((_, None, False), s), w) \<Rightarrow>
     (case ReconcileIstio K E s w of
        (Panic, w) \<Rightarrow> (Panic, w)
      | (Ret (res, err, True), w) \<Rightarrow> (Ret (res, err), w)
      | (Ret (_, _, False), w) \<Rightarrow> (case exportReady K s w of (r, w) \<Rightarrow> (Ret r, w)))))"

definition exportSteps :: "kube \<Rightarrow> environ \<Rightarrow> int \<Rightarrow> service_export \<Rightarrow> world
    \<Rightarrow> (ctrl_result \<times> go_error option) go \<times> world" where
  "exportSteps K E now s w =
     (case ReconcileExportPods K E s w of
        (Panic, w) \<Rightarrow> (Panic, w)
      | (Ret ((res, err, True), s), w) \<Rightarrow> (Ret (res, err), w)
      | (Ret ((_, _, False), s), w) \<Rightarrow>
     (case ReconcileIngressGwPod K s w of
        (((res, Some e, _), s), w) \<Rightarrow> (Ret (result_none, Some e), w)
      | (((res, None, True), s), w) \<Rightarrow> (Ret (res, None), w)
      | (((_, None, False), s), w) \<Rightarrow> exportPublish K E now s w))"

text \<open>The part of the pass after the first status.\<close>

definition onboardExport :: "kube \<Rightarrow> environ \<Rightarrow> int \<Rightarrow> service_export \<Rightarrow> world
    \<Rightarrow> (ctrl_result \<times> go_error option) go \<times> world" where
  "onboardExport K E now s w =
     (case GetSlice K (se_Slice s) w of
        (Inl e, w) \<Rightarrow> (Ret (result_after 10, None), w)
      | (Inr sl, w) \<Rightarrow>
     (if \<not> isValidNameSpace (se_Namespace s) sl
      then
        (if se_ExportStatus s \<noteq> ''PENDING''
         then (case r_update_status (k_serviceexports K) (s\<lparr>se_ExportStatus := ''PENDING''\<rparr>) w of
                 (_, w) \<Rightarrow> (Ret (result_after 10, None), w))
         else (Ret (result_after 10, None), w))
      else if se_ExposedPorts s \<noteq> portListToDisplayString (se_Ports s)
      then
        (case r_update_status (k_serviceexports K)
            (s\<lparr>se_ExposedPorts := portListToDisplayString (se_Ports s), se_LastSync := 0\<rparr>) w of
           (Some e, w) \<Rightarrow> (Ret (result_none, Some e), w)
         | (None, w) \<Rightarrow> (Ret (result_requeue, None), w))
      else exportSteps K E now s w))"

definition ExportReconcile :: "kube \<Rightarrow> environ \<Rightarrow> int \<Rightarrow> string \<Rightarrow> string \<Rightarrow> world
    \<Rightarrow> (ctrl_result \<times> go_error option) go \<times> world" where
  "ExportReconcile K E now reqNamespace reqName w =
     (case r_get (k_serviceexports K) reqNamespace reqName w of
        (Inl NotFound, w) \<Rightarrow> (Ret (result_none, None), w)
      | (Inl e, w) \<Rightarrow> (Ret (result_none, Some e), w)
      | (Inr s, w) \<Rightarrow>
     (case handleServiceExportDeletion K E s w of
        ((True, err), s, w) \<Rightarrow> (Ret (result_none, err), w)
      | ((False, _), s, w) \<Rightarrow>
     (case labelServiceExportWithSlice K s w of
        ((res, err, True), s, w) \<Rightarrow> (Ret (res, err), w)
      | ((_, _, False), s, w) \<Rightarrow>
     (if se_ExportStatus s = ''''
      then
        (case r_update_status (k_serviceexports K)
            (s\<lparr>se_DNSName := se_Name s @ ''.'' @ se_Namespace s @ ''.svc.slice.local'',
               se_ExportStatus := ''PENDING'', se_ExposedPorts := portListToDisplayString (se_Ports s)\<rparr>) w of
           (Some e, w) \<Rightarrow> (Ret (result_none, Some e), w)
         | (None, w) \<Rightarrow> (Ret (result_requeue, None), w))
      else onboardExport K E now s w))))"

end
