(* ===== verification/ExportSync.thy ===== *)
theory ExportSync
  imports ServiceExport
begin

text \<open>
  The export on the hub. A time of the last synchronisation in the status of a service export
  means that the hub has its current endpoints; every pass keeps this, whatever fails in it.
\<close>

section \<open>The invariant\<close>

text \<open>The hub has the endpoints of the status: the pods', or the ingress gateway's.\<close>

definition publishes :: "environ \<Rightarrow> service_export \<Rightarrow> service_export_config \<Rightarrow> bool" where
  "publishes E s x \<longleftrightarrow>
     (if se_IngressGwEnabled s
      then sx_Endpoints x = [getHubServiceDiscoveryEpForIngressGw E (ingressEndpoint E s)]
      else getHubServiceDiscoveryEps E s = Ret (sx_Endpoints x))"

definition published :: "environ \<Rightarrow> service_export \<Rightarrow> world \<Rightarrow> bool" where
  "published E s w \<longleftrightarrow>
     (case find (keyed sx_meta (ProjectNamespace E) (getHubServiceExportObjName E s)) (h_serviceexports w) of
        None \<Rightarrow> False | Some x \<Rightarrow> publishes E s x)"

text \<open>An export that is being deleted is exempt: the hub's copy goes first.\<close>

definition synced :: "environ \<Rightarrow> service_export \<Rightarrow> world \<Rightarrow> bool" where
  "synced E s w \<longleftrightarrow>
     om_DeletionTimestamp (se_meta s) = None \<longrightarrow> se_LastSync s \<noteq> 0 \<longrightarrow> published E s w"

definition export_inv :: "environ \<Rightarrow> string \<Rightarrow> string \<Rightarrow> world \<Rightarrow> bool" where
  "export_inv E ns n w \<longleftrightarrow>
     (case find (keyed se_meta ns n) (w_serviceexports w) of None \<Rightarrow> True | Some s \<Rightarrow> synced E s w)"

text \<open>The object in memory is the stored one.\<close>

definition export_at :: "environ \<Rightarrow> string \<Rightarrow> string \<Rightarrow> service_export \<Rightarrow> world \<Rightarrow> bool" where
  "export_at E ns n s w \<longleftrightarrow>
     find (keyed se_meta ns n) (w_serviceexports w) = Some s \<and> synced E s w"

definition same_exports :: "world \<Rightarrow> world \<Rightarrow> bool" where
  "same_exports w w' \<longleftrightarrow>
     w_serviceexports w' = w_serviceexports w \<and> h_serviceexports w' = h_serviceexports w"

lemma same_exports_refl [simp, intro]: "same_exports w w"
  by (simp add: same_exports_def)

lemma same_exports_trans [trans]: "same_exports w v \<Longrightarrow> same_exports v u \<Longrightarrow> same_exports w u"
  by (simp add: same_exports_def)

lemma same_exports_tick [simp, intro]: "same_exports w (tick w)"
  by (simp add: same_exports_def)

lemma same_exports_inv:
  assumes "same_exports w w'"
  shows "export_inv E ns n w' = export_inv E ns n w" "export_at E ns n s w' = export_at E ns n s w"
    "published E s w' = published E s w"
  using assms by (simp_all add: same_exports_def export_inv_def export_at_def synced_def published_def
      split: option.split)

lemma export_at_inv: "export_at E ns n s w \<Longrightarrow> export_inv E ns n w"
  by (simp add: export_at_def export_inv_def)

lemma export_at_key:
  "export_at E ns n s w \<Longrightarrow> se_Namespace s = ns \<and> se_Name s = n"
  unfolding export_at_def using find_Some_iff' by (fastforce simp: keyed_def)

text \<open>What a write of the object may change without touching what is published.\<close>

definition same_publication :: "service_export \<Rightarrow> service_export \<Rightarrow> bool" where
  "same_publication s s' \<longleftrightarrow> se_Namespace s' = se_Namespace s \<and> se_Name s' = se_Name s
     \<and> om_DeletionTimestamp (se_meta s') = om_DeletionTimestamp (se_meta s)
     \<and> se_LastSync s' = se_LastSync s \<and> se_Pods s' = se_Pods s \<and> se_Ports s' = se_Ports s
     \<and> se_IngressGwEnabled s' = se_IngressGwEnabled s \<and> se_IngressGwPodNsmIP s' = se_IngressGwPodNsmIP s"

lemma same_publication_published:
  assumes "se_Namespace s' = se_Namespace s" "se_Name s' = se_Name s"
    "se_Pods s' = se_Pods s" "se_Ports s' = se_Ports s"
    "se_IngressGwEnabled s' = se_IngressGwEnabled s" "se_IngressGwPodNsmIP s' = se_IngressGwPodNsmIP s"
  shows "published E s' w = published E s w"
proof -
  have "ingressEndpoint E s' = ingressEndpoint E s" "getHubServiceDiscoveryEps E s' = getHubServiceDiscoveryEps E s"
    "getHubServiceExportObjName E s' = getHubServiceExportObjName E s"
    using assms by (simp_all add: ingressEndpoint_def getHubServiceDiscoveryEps_def getHubServiceExportObjName_def
        split: list.split)
  moreover from this have "publishes E s' = publishes E s"
    using assms(5) by (simp add: fun_eq_iff publishes_def)
  ultimately show ?thesis by (simp add: published_def split: option.split)
qed

lemma same_publication_synced:
  "same_publication s s' \<Longrightarrow> synced E s' w = synced E s w"
  using same_publication_published [of s' s E w] by (simp add: same_publication_def synced_def)

lemma synced_unsynced [simp]: "se_LastSync s = 0 \<Longrightarrow> synced E s w"
  by (simp add: synced_def)

context lawful
begin

lemma export_written:
  assumes at: "export_at E ns n s w"
    and key: "se_Namespace s' = se_Namespace s" "se_Name s' = se_Name s" and sy: "synced E s' w"
  shows "r_update (k_serviceexports K) s' w = (r, w') \<Longrightarrow>
      export_inv E ns n w' \<and> (r = None \<longrightarrow> export_at E ns n s' w')"
    and "r_update_status (k_serviceexports K) s' w = (r, w') \<Longrightarrow>
      export_inv E ns n w' \<and> (r = None \<longrightarrow> export_at E ns n s' w')"
proof -
  let ?v = "tick (w_serviceexports_update (replace_object se_meta s') w)"
  have "keyed se_meta ns n s'" using export_at_key [OF at] key by (simp add: keyed_def)
  then have "export_at E ns n s' ?v"
    using at sy find_replace_key [of se_meta ns n "w_serviceexports w" s s']
    by (simp add: export_at_def synced_def published_def)
  then have ok: "export_inv E ns n ?v \<and> export_at E ns n s' ?v" using export_at_inv by blast
  have err: "export_inv E ns n (tick w)"
    using export_at_inv [OF at] same_exports_inv(1) [OF same_exports_tick] by blast
  show "r_update (k_serviceexports K) s' w = (r, w') \<Longrightarrow>
      export_inv E ns n w' \<and> (r = None \<longrightarrow> export_at E ns n s' w')"
    using ok err by (cases r) (auto dest: sve.update_ok sve.update_err)
  show "r_update_status (k_serviceexports K) s' w = (r, w') \<Longrightarrow>
      export_inv E ns n w' \<and> (r = None \<longrightarrow> export_at E ns n s' w')"
    using ok err by (cases r) (auto dest: sve.update_status_ok sve.update_status_err)
qed

lemma export_kept:
  assumes "export_at E ns n s w" and "same_publication s s'"
  shows "r_update (k_serviceexports K) s' w = (r, w') \<Longrightarrow>
      export_inv E ns n w' \<and> (r = None \<longrightarrow> export_at E ns n s' w')"
    and "r_update_status (k_serviceexports K) s' w = (r, w') \<Longrightarrow>
      export_inv E ns n w' \<and> (r = None \<longrightarrow> export_at E ns n s' w')"
  using export_written [OF assms(1), of s'] assms same_publication_synced [OF assms(2)]
  by (simp_all add: same_publication_def export_at_def)

section \<open>Publishing\<close>

lemma hub_written:
  assumes "find (keyed sx_meta pn x) (h_serviceexports w) = Some h"
    and "sx_meta y = sx_meta h" and "r_update (k_hubexports K) y w = (r, w')"
  shows "w_serviceexports w' = w_serviceexports w"
    and "r = None \<Longrightarrow> find (keyed sx_meta pn x) (h_serviceexports w') = Some y"
    and "r \<noteq> None \<Longrightarrow> same_exports w w'"
  using assms(3) find_replace [OF assms(1,2)]
  by (cases r; auto simp: same_exports_def dest: hsx.update_ok hsx.update_err)+

lemma hub_created:
  assumes "r_create (k_hubexports K) y w = (r, w')"
  shows "w_serviceexports w' = w_serviceexports w"
    and "r = None \<Longrightarrow>
      find (keyed sx_meta (om_Namespace (sx_meta y)) (om_Name (sx_meta y))) (h_serviceexports w') = Some y"
    and "r \<noteq> None \<Longrightarrow> same_exports w w'"
proof -
  show "w_serviceexports w' = w_serviceexports w"
    using assms by (cases r) (auto dest: hsx.create_ok hsx.create_err)
  show "r \<noteq> None \<Longrightarrow> same_exports w w'"
    using assms by (auto simp: same_exports_def dest: hsx.create_err)
  show "find (keyed sx_meta (om_Namespace (sx_meta y)) (om_Name (sx_meta y))) (h_serviceexports w') = Some y"
    if "r = None"
    using assms hsx.create_ok [of y w w'] that by (simp add: find_append_new)
qed

lemma hubExportWith_simps [simp]:
  "om_Namespace (sx_meta (hubExportWith E s eps)) = ProjectNamespace E"
  "om_Name (sx_meta (hubExportWith E s eps)) = getHubServiceExportObjName E s"
  "sx_Endpoints (hubExportWith E s eps) = eps"
  by (simp_all add: hubExportWith_def)

lemma UpdateServiceExport_pub:
  assumes "UpdateServiceExport K E s w = (Ret r, w')" and "\<not> se_IngressGwEnabled s"
  shows "w_serviceexports w' = w_serviceexports w" and "r = None \<Longrightarrow> published E s w'"
    and "r \<noteq> None \<Longrightarrow> same_exports w w'"
proof -
  let ?pn = "ProjectNamespace E" and ?x = "getHubServiceExportObjName E s"
  obtain q w1 where q: "r_get (k_hubexports K) ?pn ?x w = (q, w1)" by fastforce
  have w1: "w1 = tick w" by (rule hsx.get_world [OF q])
  have "w_serviceexports w' = w_serviceexports w \<and> (r = None \<longrightarrow> published E s w')
    \<and> (r \<noteq> None \<longrightarrow> same_exports w w')"
  proof (cases "\<exists>e. q = Inl e \<and> e \<noteq> NotFound")
    case True
    then show ?thesis using assms(1) q w1
      by (auto simp: UpdateServiceExport_def split: go_error.split_asm)
  next
    case False
    then obtain eps where eps: "getHubServiceDiscoveryEps E s = Ret eps"
      using assms(1) q by (cases q; cases "getHubServiceDiscoveryEps E s") (auto simp: UpdateServiceExport_def)
    show ?thesis
    proof (cases q)
      case (Inl e)
      with False assms(1) q eps have "r_create (k_hubexports K) (hubExportWith E s eps) w1 = (r, w')"
        by (auto simp: UpdateServiceExport_def split: prod.split_asm)
      from hub_created [OF this] eps w1 assms(2) show ?thesis
        by (auto simp: published_def publishes_def same_exports_def)
    next
      case (Inr h)
      have h: "find (keyed sx_meta ?pn ?x) (h_serviceexports w1) = Some h"
        using hsx.get_ok [of ?pn ?x w h w1] q Inr by simp
      have "r_update (k_hubexports K) ((hubExportWith E s eps)\<lparr>sx_meta := sx_meta h\<rparr>) w1 = (r, w')"
        using assms(1) q eps Inr by (auto simp: UpdateServiceExport_def split: prod.split_asm)
      from hub_written [OF h _ this] eps w1 assms(2) show ?thesis
        by (auto simp: published_def publishes_def same_exports_def)
    qed
  qed
  then show "w_serviceexports w' = w_serviceexports w" "r = None \<Longrightarrow> published E s w'"
    "r \<noteq> None \<Longrightarrow> same_exports w w'" by blast+
qed

lemma UpdateServiceExportIngress_pub:
  assumes "UpdateServiceExportEndpointForIngressGw K E s (ingressEndpoint E s) w = (r, w')"
    and "se_IngressGwEnabled s"
  shows "w_serviceexports w' = w_serviceexports w" and "r = None \<Longrightarrow> published E s w'"
    and "r \<noteq> None \<Longrightarrow> same_exports w w'"
proof -
  let ?pn = "ProjectNamespace E" and ?x = "getHubServiceExportObjName E s"
  let ?eps = "[getHubServiceDiscoveryEpForIngressGw E (ingressEndpoint E s)]"
  obtain q w1 where q: "r_get (k_hubexports K) ?pn ?x w = (q, w1)" by fastforce
  have w1: "w1 = tick w" by (rule hsx.get_world [OF q])
  have "w_serviceexports w' = w_serviceexports w \<and> (r = None \<longrightarrow> published E s w')
    \<and> (r \<noteq> None \<longrightarrow> same_exports w w')"
  proof (cases q)
    case (Inl e)
    show ?thesis
    proof (cases "e = NotFound")
      case True
      with Inl assms(1) q have "r_create (k_hubexports K) (hubExportWith E s ?eps) w1 = (r, w')"
        by (simp add: UpdateServiceExportEndpointForIngressGw_def)
      from hub_created [OF this] w1 assms(2) show ?thesis
        by (auto simp: published_def publishes_def same_exports_def)
    next
      case False
      with Inl assms(1) q w1 show ?thesis
        by (auto simp: UpdateServiceExportEndpointForIngressGw_def split: go_error.split_asm)
    qed
  next
    case (Inr h)
    have h: "find (keyed sx_meta ?pn ?x) (h_serviceexports w1) = Some h"
      using hsx.get_ok [of ?pn ?x w h w1] q Inr by simp
    have "r_update (k_hubexports K) (h\<lparr>sx_Endpoints := ?eps, sx_Ports := getHubServiceDiscoveryPorts s,
        sx_Aliases := se_Aliases s\<rparr>) w1 = (r, w')"
      using assms(1) q Inr by (simp add: UpdateServiceExportEndpointForIngressGw_def)
    from hub_written [OF h _ this] w1 assms(2) show ?thesis
      by (auto simp: published_def publishes_def same_exports_def)
  qed
  then show "w_serviceexports w' = w_serviceexports w" "r = None \<Longrightarrow> published E s w'"
    "r \<noteq> None \<Longrightarrow> same_exports w w'" by blast+
qed

section \<open>The steps\<close>

lemma GetSlice_same: "GetSlice K n w = (r, w') \<Longrightarrow> same_exports w w'"
  by (auto simp: GetSlice_def dest!: slice.get_world)

lemma pods_step:
  assumes at: "export_at E ns n s w" and r: "ReconcileExportPods K E s w = (Ret ((res, err, rq), s'), w')"
  shows "export_inv E ns n w'" and "\<not> rq \<Longrightarrow> s' = s \<and> same_exports w w'"
proof -
  obtain g w1 where g: "getExportPods K E s w = (g, w1)" by fastforce
  have w1: "same_exports w w1"
    using g unfolding getExportPods_def
    by (auto split: option.split_asm prod.split_asm sum.split_asm
        dest!: pod.list_world GetSlice_same intro: same_exports_trans [OF same_exports_tick])
  have at1: "export_at E ns n s w1" using at same_exports_inv(2) [OF w1] by simp
  obtain ps where "g = Ret ps" using r g by (cases g) (auto simp: ReconcileExportPods_def)
  have "export_inv E ns n w' \<and> (\<not> rq \<longrightarrow> s' = s \<and> same_exports w w')"
  proof (cases "\<exists>pods. ps = Inr pods \<and> isServiceAppPodChanged pods (se_Pods s)")
    case False
    with r g \<open>g = Ret ps\<close> have "s' = s" "w' = w1"
      by (cases ps; auto simp: ReconcileExportPods_def)+
    with w1 at1 export_at_inv show ?thesis by blast
  next
    case True
    then obtain pods where pods: "ps = Inr pods" "isServiceAppPodChanged pods (se_Pods s)" by blast
    let ?s = "s\<lparr>se_Pods := pods, se_LastSync := 0, se_ExportStatus := ''PENDING'',
                     se_AvailableEndpoints := int (length pods)\<rparr>"
    obtain u v where u: "r_update_status (k_serviceexports K) ?s w1 = (u, v)" by fastforce
    have "w' = v" "rq"
      using r g \<open>g = Ret ps\<close> pods u by (cases u; simp add: ReconcileExportPods_def Let_def)+
    with export_written(2) [OF at1 _ _ _ u] show ?thesis by simp
  qed
  then show "export_inv E ns n w'" and "\<not> rq \<Longrightarrow> s' = s \<and> same_exports w w'" by blast+
qed

lemma ingress_step:
  assumes at: "export_at E ns n s w" and r: "ReconcileIngressGwPod K s w = (((res, err, rq), s'), w')"
  shows "export_inv E ns n w'" and "err = None \<Longrightarrow> \<not> rq \<Longrightarrow> s' = s \<and> same_exports w w'"
proof -
  obtain g w1 where g: "GetSliceIngressGwPod K (se_Slice s) w = (g, w1)" by fastforce
  have w1: "same_exports w w1"
    using g unfolding GetSliceIngressGwPod_def
    by (auto split: option.split_asm prod.split_asm sum.split_asm if_split_asm dest!: GetSlice_same)
  have at1: "export_at E ns n s w1" using at same_exports_inv(2) [OF w1] by simp
  have "export_inv E ns n w' \<and> (err = None \<longrightarrow> \<not> rq \<longrightarrow> s' = s \<and> same_exports w w')"
  proof (cases "\<exists>a. g = Inr (True, Some a) \<and> (ap_PodName a \<noteq> se_IngressGwPodName s \<or> ap_NsmIP a \<noteq> se_IngressGwPodNsmIP s)")
    case False
    with r g have "s' = s" "w' = w1"
      by (auto simp: ReconcileIngressGwPod_def split: sum.split_asm prod.split_asm bool.split_asm option.split_asm if_split_asm)
    with w1 at1 export_at_inv show ?thesis by blast
  next
    case True
    then obtain a where a: "g = Inr (True, Some a)"
      "ap_PodName a \<noteq> se_IngressGwPodName s \<or> ap_NsmIP a \<noteq> se_IngressGwPodNsmIP s" by blast
    let ?s = "s\<lparr>se_LastSync := 0, se_ExportStatus := ''PENDING'', se_IngressGwEnabled := True,
                     se_IngressGwPodName := ap_PodName a, se_IngressGwPodNsmIP := ap_NsmIP a\<rparr>"
    obtain u v where u: "r_update_status (k_serviceexports K) ?s w1 = (u, v)" by fastforce
    have "w' = v" "rq"
      using r g a u by (cases u; simp add: ReconcileIngressGwPod_def Let_def)+
    with export_written(2) [OF at1 _ _ _ u] show ?thesis by simp
  qed
  then show "export_inv E ns n w'" and "err = None \<Longrightarrow> \<not> rq \<Longrightarrow> s' = s \<and> same_exports w w'" by blast+
qed

lemma alias_step:
  assumes at: "export_at E ns n s w" and r: "ReconcileAliases K s w = (((res, err, rq), s'), w')"
  shows "export_inv E ns n w'" and "err = None \<Longrightarrow> \<not> rq \<Longrightarrow> s' = s \<and> w' = w"
proof -
  let ?s = "s\<lparr>se_StatusAliases := se_Aliases s, se_LastSync := 0\<rparr>"
  obtain u v where u: "r_update_status (k_serviceexports K) ?s w = (u, v)" by fastforce
  have "(s' = s \<and> w' = w) \<or> (w' = v \<and> rq)"
    using r u unfolding ReconcileAliases_def Let_def
    by (cases u; auto split: if_split_asm prod.split_asm)
  with export_written(2) [OF at _ _ _ u] export_at_inv [OF at]
  show "export_inv E ns n w'" and "err = None \<Longrightarrow> \<not> rq \<Longrightarrow> s' = s \<and> w' = w" by auto
qed

lemma sync_step:
  assumes at: "export_at E ns n s w" and r: "SyncSvcExportStatus K E now s w = (Ret ((res, err, rq), s'), w')"
  shows "export_inv E ns n w'" and "err = None \<Longrightarrow> \<not> rq \<Longrightarrow> s' = s \<and> w' = w \<and> se_LastSync s \<noteq> 0"
proof -
  have "export_inv E ns n w' \<and> (err = None \<longrightarrow> \<not> rq \<longrightarrow> s' = s \<and> w' = w \<and> se_LastSync s \<noteq> 0)"
  proof (cases "se_LastSync s = 0")
    case False
    with r at export_at_inv show ?thesis by (auto simp: SyncSvcExportStatus_def)
  next
    case True
    let ?hub = "if se_IngressGwEnabled s
               then (case UpdateServiceExportEndpointForIngressGw K E s (ingressEndpoint E s) w of
                       (r, w) \<Rightarrow> (Ret r, w))
               else UpdateServiceExport K E s w"
    obtain q w1 where q: "?hub = (q, w1)" by fastforce
    obtain x where x: "q = Ret x" using r True q by (cases q) (auto simp: SyncSvcExportStatus_def)
    have h: "w_serviceexports w1 = w_serviceexports w" "x = None \<longrightarrow> published E s w1"
      using q x UpdateServiceExport_pub UpdateServiceExportIngress_pub
      by (cases "se_IngressGwEnabled s"; auto split: prod.split_asm)+
    have at1: "export_at E ns n s w1" using at True h(1) by (simp add: export_at_def)
    let ?s = "if x = None then s\<lparr>se_LastSync := now\<rparr> else s\<lparr>se_ExportStatus := ''ERROR''\<rparr>"
    have sy: "synced E ?s w1"
      using True h(2) same_publication_published [of "s\<lparr>se_LastSync := now\<rparr>" s E w1]
      by (cases x) (auto simp: synced_def)
    obtain u v where u: "r_update_status (k_serviceexports K) ?s w1 = (u, v)" by fastforce
    have "w' = v" "rq \<or> err \<noteq> None"
      using r True q x u unfolding SyncSvcExportStatus_def
      by (cases x; cases u; simp add: Let_def)+
    with export_written(2) [OF at1 _ _ sy u] show ?thesis by (auto split: if_split_asm)
  qed
  then show "export_inv E ns n w'" and "err = None \<Longrightarrow> \<not> rq \<Longrightarrow> s' = s \<and> w' = w \<and> se_LastSync s \<noteq> 0"
    by blast+
qed

lemma same_exports_list:
  assumes "deleteAll (k_serviceentries K) sn_meta ds w = (r, w')"
  shows "same_exports w w'"
  by (rule sen.deleteAll_keeps [OF assms]) (auto intro: same_exports_trans simp: same_exports_def)

lemma entriesLoop_same:
  "entriesLoop K s es ps w = (r, w') \<Longrightarrow> same_exports w w'"
proof (induction ps)
  case Nil
  then show ?case by simp
next
  case (Cons p ps)
  have c: "same_exports w v" if "r_create (k_serviceentries K) y w = (x, v)" for x y v
    using that by (cases x) (auto simp: same_exports_def dest: sen.create_ok sen.create_err)
  have u: "same_exports w v" if "r_update (k_serviceentries K) y w = (x, v)" for x y v
    using that by (cases x) (auto simp: same_exports_def dest: sen.update_ok sen.update_err)
  from Cons.prems Cons.IH show ?case
    by (auto split: option.split_asm prod.split_asm go.split_asm bool.split_asm dest: c u)
qed

lemma ReconcileServiceEntries_same:
  assumes "ReconcileServiceEntries K s w = (r, w')"
  shows "same_exports w w'"
proof -
  obtain l w1 where l: "getServiceEntries K s w = (l, w1)" by fastforce
  have w1: "same_exports w w1" using l by (auto simp: getServiceEntries_def dest!: sen.list_world)
  show ?thesis
  proof (cases l)
    case (Inl e)
    with assms l w1 show ?thesis by (simp add: ReconcileServiceEntries_def)
  next
    case (Inr es)
    obtain q w2 where q: "entriesLoop K s es (se_Pods s) w1 = (q, w2)" by fastforce
    have w2: "same_exports w w2" using same_exports_trans [OF w1 entriesLoop_same [OF q]] .
    have "w' = w2 \<or> (\<exists>ds x. deleteAll (k_serviceentries K) sn_meta ds w2 = (x, w'))"
      using assms l Inr q unfolding ReconcileServiceEntries_def
      by (auto split: option.split_asm prod.split_asm go.split_asm if_split_asm)
    with w2 same_exports_list same_exports_trans show ?thesis by blast
  qed
qed

lemma ReconcileVirtualService_same:
  assumes "ReconcileVirtualService K E s w = (r, w')"
  shows "same_exports w w'"
proof -
  have c: "same_exports u v" if "r_create (k_virtualservices K) y u = (x, v)" for x y u v
    using that by (cases x) (auto simp: same_exports_def dest: vsv.create_ok vsv.create_err)
  have u: "same_exports u v" if "r_update (k_virtualservices K) y u = (x, v)" for x y u v
    using that by (cases x) (auto simp: same_exports_def dest: vsv.update_ok vsv.update_err)
  have d: "same_exports u v" if "r_delete (k_virtualservices K) a b u = (x, v)" for x a b u v
    using that by (cases x) (auto simp: same_exports_def dest: vsv.delete_ok vsv.delete_err)
  obtain q w1 where q: "getVirtualService K s w = (q, w1)" by fastforce
  have w1: "same_exports w w1" using q by (auto simp: getVirtualService_def dest!: vsv.get_world)
  have "same_exports w1 w'"
    using assms q unfolding ReconcileVirtualService_def
    by (auto split: sum.split_asm go_error.split_asm if_split_asm go.split_asm prod.split_asm option.split_asm
        dest: c u d)
  with w1 show ?thesis by (rule same_exports_trans)
qed

lemma ReconcileIstio_same:
  assumes "ReconcileIstio K E s w = (r, w')"
  shows "same_exports w w'"
proof -
  obtain q w1 where q: "GetSlice K (se_Slice s) w = (q, w1)" by fastforce
  have w1: "same_exports w w1" by (rule GetSlice_same [OF q])
  obtain a w2 where a: "ReconcileServiceEntries K s w1 = (a, w2)" by fastforce
  have w2: "same_exports w w2" using same_exports_trans [OF w1 ReconcileServiceEntries_same [OF a]] .
  obtain b w3 where b: "ReconcileVirtualService K E s w2 = (b, w3)" by fastforce
  have w3: "same_exports w w3" using same_exports_trans [OF w2 ReconcileVirtualService_same [OF b]] .
  have "w' = w1 \<or> w' = w2 \<or> w' = w3"
    using assms q a b unfolding ReconcileIstio_def
    by (auto split: sum.split_asm option.split_asm if_split_asm go.split_asm bool.split_asm prod.split_asm)
  with w1 w2 w3 show ?thesis by blast
qed

end

section \<open>What the steps return\<close>

lemma result_after_30 [simp]:
  "result_none \<noteq> result_after 30" "result_requeue \<noteq> result_after 30" "result_after 10 \<noteq> result_after 30"
  by (simp_all add: result_none_def result_requeue_def result_after_def)

lemma entriesLoop_result:
  "entriesLoop K s es ps w = (Ret (Some (res, err, rq)), w') \<Longrightarrow> res \<noteq> result_after 30 \<and> rq"
  by (induction ps) (auto split: option.split_asm prod.split_asm go.split_asm bool.split_asm)

lemma istio_result:
  assumes "ReconcileIstio K E s w = (Ret (res, err, rq), w')"
  shows "res \<noteq> result_after 30"
proof -
  have e: "x \<noteq> result_after 30" if "ReconcileServiceEntries K s v = (Ret (x, y, z), v')" for v x y z v'
    using that unfolding ReconcileServiceEntries_def
    by (auto split: sum.split_asm prod.split_asm go.split_asm option.split_asm if_split_asm
        dest!: entriesLoop_result)
  have v: "x \<noteq> result_after 30" if "ReconcileVirtualService K E s v = (Ret (x, y, z), v')" for v x y z v'
    using that unfolding ReconcileVirtualService_def
    by (auto split: sum.split_asm prod.split_asm go.split_asm option.split_asm if_split_asm go_error.split_asm)
  show ?thesis
    using assms unfolding ReconcileIstio_def
    by (auto split: sum.split_asm prod.split_asm go.split_asm option.split_asm if_split_asm bool.split_asm
        dest: e v)
qed

lemma step_results:
  "ReconcileAliases K s w = (((res, err, rq), s'), w') \<Longrightarrow> res \<noteq> result_after 30"
  "SyncSvcExportStatus K E now s w = (Ret ((res, err, rq), s'), w') \<Longrightarrow> res \<noteq> result_after 30"
  "ReconcileIstio K E s w = (Ret (res, err, rq), w') \<Longrightarrow> res \<noteq> result_after 30"
  "ReconcileExportPods K E s w = (Ret ((res, err, rq), s'), w') \<Longrightarrow> res \<noteq> result_after 30"
proof -
  show "ReconcileAliases K s w = (((res, err, rq), s'), w') \<Longrightarrow> res \<noteq> result_after 30"
    unfolding ReconcileAliases_def Let_def by (auto split: if_split_asm prod.split_asm option.split_asm)
  show "SyncSvcExportStatus K E now s w = (Ret ((res, err, rq), s'), w') \<Longrightarrow> res \<noteq> result_after 30"
    unfolding SyncSvcExportStatus_def Let_def
    by (auto split: if_split_asm prod.split_asm option.split_asm go.split_asm)
  show "ReconcileExportPods K E s w = (Ret ((res, err, rq), s'), w') \<Longrightarrow> res \<noteq> result_after 30"
    unfolding ReconcileExportPods_def Let_def
    by (auto split: if_split_asm prod.split_asm option.split_asm go.split_asm sum.split_asm)
qed (rule istio_result)

text \<open>The slice wants an ingress gateway and has none in the slice yet.\<close>

definition ingress_missing :: "service_export \<Rightarrow> world \<Rightarrow> bool" where
  "ingress_missing s w \<longleftrightarrow>
     (case find (keyed sl_meta ControlPlaneNamespace (se_Slice s)) (w_slices w) of None \<Rightarrow> False
      | Some sl \<Rightarrow> (case sl_Config sl of None \<Rightarrow> False | Some c \<Rightarrow> ingressEnabled c)
          \<and> find isIngressGwPod (sl_AppPods sl) = None)"

text \<open>What a pass that ends with \<open>READY\<close> and nothing to do leaves behind.\<close>

definition export_ready_at :: "environ \<Rightarrow> string \<Rightarrow> string \<Rightarrow> world \<Rightarrow> bool" where
  "export_ready_at E ns n w \<longleftrightarrow>
     (case find (keyed se_meta ns n) (w_serviceexports w) of None \<Rightarrow> False
      | Some s \<Rightarrow> se_ExportStatus s = ''READY'' \<and> published E s w)"

context lawful
begin

lemma pods_step_slices:
  assumes "ReconcileExportPods K E s w = (Ret r, w')"
  shows "w_slices w' = w_slices w"
proof -
  obtain g w1 where g: "getExportPods K E s w = (g, w1)" by fastforce
  have w1: "w_slices w1 = w_slices w"
    using g unfolding getExportPods_def GetSlice_def
    by (auto split: option.split_asm prod.split_asm sum.split_asm
        dest!: pod.list_world slice.get_world)
  have "w_slices v' = w_slices v" if "r_update_status (k_serviceexports K) y v = (x, v')" for x y v v'
    using that by (cases x) (auto dest: sve.update_status_ok sve.update_status_err)
  with assms g w1 show ?thesis
    unfolding ReconcileExportPods_def Let_def
    by (auto split: go.split_asm sum.split_asm if_split_asm prod.split_asm option.split_asm)
qed

lemma ingress_result:
  assumes a: "ReconcileIngressGwPod K s w = (((res, err, rq), s'), w')" and "res = result_after 30" "err = None"
  shows "ingress_missing s w"
proof -
  have assms: "ReconcileIngressGwPod K s w = (((result_after 30, None, rq), s'), w')"
    using assms by simp
  obtain q w1 where q: "r_get (k_slices K) ControlPlaneNamespace (se_Slice s) w = (q, w1)" by fastforce
  show ?thesis
  proof (cases q)
    case (Inl e)
    with assms q show ?thesis
      by (simp add: ReconcileIngressGwPod_def GetSliceIngressGwPod_def GetSlice_def)
  next
    case (Inr sl)
    with slice.get_ok [of ControlPlaneNamespace "se_Slice s" w sl w1] q
    have f: "find (keyed sl_meta ControlPlaneNamespace (se_Slice s)) (w_slices w) = Some sl" by simp
    from assms q Inr show ?thesis
      unfolding ReconcileIngressGwPod_def GetSliceIngressGwPod_def GetSlice_def ingress_missing_def f
      by (auto split: option.split_asm if_split_asm prod.split_asm simp: Let_def)
  qed
qed

lemma DeleteServiceExport_local:
  assumes "DeleteServiceExport K E s w = (r, w')"
  shows "w_serviceexports w' = w_serviceexports w"
proof -
  have "w_serviceexports v' = w_serviceexports v" if "r_delete (k_hubexports K) a b v = (x, v')" for a b v x v'
    using that by (cases x) (auto dest: hsx.delete_ok hsx.delete_err)
  with assms show ?thesis unfolding DeleteServiceExport_def
    by (fastforce split: prod.split_asm sum.split_asm go_error.split_asm dest!: hsx.get_world)
qed

lemma DeleteServiceExportResources_same:
  assumes "DeleteServiceExportResources K s w = (r, w')"
  shows "same_exports w w'"
proof -
  have d: "same_exports u v" if "r_delete (k_virtualservices K) a b u = (x, v)" for x a b u v
    using that by (cases x) (auto simp: same_exports_def dest: vsv.delete_ok vsv.delete_err)
  have vs: "same_exports u v" if "DeleteIstioVirtualServices K s u = (x, v)" for x u v
    using that unfolding DeleteIstioVirtualServices_def getVirtualService_def
    by (auto split: prod.split_asm sum.split_asm go_error.split_asm dest!: vsv.get_world d
        intro: same_exports_trans [OF same_exports_tick])
  have en: "same_exports u v" if "DeleteIstioServiceEntries K s u = (x, v)" for x u v
    using that unfolding DeleteIstioServiceEntries_def getServiceEntries_def
    by (auto split: prod.split_asm sum.split_asm go_error.split_asm dest!: sen.list_world same_exports_list
        intro: same_exports_trans [OF same_exports_tick])
  have ist: "same_exports u v" if "DeleteIstioResources K s c u = (x, v)" for x c u v
    using that unfolding DeleteIstioResources_def
    by (auto split: prod.split_asm option.split_asm if_split_asm dest!: en vs intro: same_exports_trans)
  from assms show ?thesis unfolding DeleteServiceExportResources_def
    by (auto split: prod.split_asm sum.split_asm go_error.split_asm option.split_asm
        dest!: GetSlice_same ist intro: same_exports_trans)
qed

section \<open>The pass\<close>

lemma ready_step:
  assumes at: "export_at E ns n s w" and live: "om_DeletionTimestamp (se_meta s) = None"
    and sync: "se_LastSync s \<noteq> 0" and r: "exportReady K s w = ((res, err), w')"
  shows "export_inv E ns n w'" and "err = None \<Longrightarrow> export_ready_at E ns n w'"
proof -
  let ?s = "s\<lparr>se_ExportStatus := ''READY''\<rparr>"
  obtain u v where u: "r_update_status (k_serviceexports K) ?s w = (u, v)" by fastforce
  have "same_publication s ?s" by (simp add: same_publication_def)
  from export_kept(2) [OF at this u] have k: "export_inv E ns n v" "u = None \<longrightarrow> export_at E ns n ?s v" by blast+
  have "(se_ExportStatus s = ''READY'' \<and> w' = w) \<or> (w' = v \<and> (err = None \<longrightarrow> u = None))"
    using r u unfolding exportReady_def by (cases u) (auto split: if_split_asm)
  moreover have "export_at E ns n x w \<Longrightarrow> om_DeletionTimestamp (se_meta x) = None \<Longrightarrow> se_LastSync x \<noteq> 0
      \<Longrightarrow> se_ExportStatus x = ''READY'' \<Longrightarrow> export_ready_at E ns n w" for x w
    by (simp add: export_ready_at_def export_at_def synced_def)
  ultimately show "export_inv E ns n w'" and "err = None \<Longrightarrow> export_ready_at E ns n w'"
    using k export_at_inv [OF at] at sync live by auto
qed

lemma publish_inv:
  assumes at: "export_at E ns n s w" and live: "om_DeletionTimestamp (se_meta s) = None"
    and r: "exportPublish K E now s w = (Ret (res, err), w')"
  shows "export_inv E ns n w'"
    and "res = result_after 30 \<Longrightarrow> err = None \<Longrightarrow> export_ready_at E ns n w'"
proof -
  let ?P = "export_inv E ns n w' \<and> (res = result_after 30 \<longrightarrow> err = None \<longrightarrow> export_ready_at E ns n w')"
  obtain res3 e3 rq3 s3 v3 where c: "ReconcileAliases K s w = (((res3, e3, rq3), s3), v3)"
    by (cases "ReconcileAliases K s w") auto
  note l = alias_step [OF at c]
  have ?P
  proof (cases "e3 = None \<and> \<not> rq3")
    case False
    with r c have "w' = v3" "err = None \<longrightarrow> res = res3" by (cases e3; auto simp: exportPublish_def)+
    with l(1) step_results(1) [OF c] show ?thesis by auto
  next
    case True3: True
    with l at have at3: "export_at E ns n s v3" "s3 = s" by blast+
    obtain d v4 where d: "SyncSvcExportStatus K E now s v3 = (d, v4)" by fastforce
    obtain res4 e4 rq4 s4 where d': "d = Ret ((res4, e4, rq4), s4)"
      using r c d True3 at3 by (cases d) (auto simp: exportPublish_def)
    note y = sync_step [OF at3(1) d [unfolded d']]
    show ?thesis
    proof (cases "e4 = None \<and> \<not> rq4")
      case False
      with r c d d' True3 at3 have "w' = v4" "err = None \<longrightarrow> res = res4"
        by (cases e4; auto simp: exportPublish_def)+
      with y(1) step_results(2) [OF d [unfolded d']] show ?thesis by auto
    next
      case True4: True
      with y have y': "s4 = s" "v4 = v3" "se_LastSync s \<noteq> 0" by blast+
      obtain f v5 where f: "ReconcileIstio K E s v4 = (f, v5)" by fastforce
      have at5: "export_at E ns n s v5"
        using at3(1) same_exports_inv(2) [OF ReconcileIstio_same [OF f]] y' by blast
      obtain x e5 rq5 where f': "f = Ret (x, e5, rq5)"
        using r c d d' True3 at3 True4 y' f by (cases f) (auto simp: exportPublish_def)
      note pre = r c d d' True3 at3(2) True4 y'(1,2) f f'
      show ?thesis
      proof (cases rq5)
        case True
        with pre have "w' = v5" "res = x" by (simp_all add: exportPublish_def)
        with at5 export_at_inv step_results(3) [OF f [unfolded f']] show ?thesis by auto
      next
        case False
        with pre have "exportReady K s v5 = ((res, err), w')"
          by (auto simp: exportPublish_def split: prod.split_asm)
        from ready_step [OF at5 live y'(3) this] show ?thesis by blast
      qed
    qed
  qed
  then show "export_inv E ns n w'"
    and "res = result_after 30 \<Longrightarrow> err = None \<Longrightarrow> export_ready_at E ns n w'" by blast+
qed

lemma export_steps_inv:
  assumes at: "export_at E ns n s w" and live: "om_DeletionTimestamp (se_meta s) = None"
    and r: "exportSteps K E now s w = (Ret (res, err), w')"
  shows "export_inv E ns n w'"
    and "res = result_after 30 \<Longrightarrow> err = None \<Longrightarrow> export_ready_at E ns n w' \<or> ingress_missing s w"
proof -
  let ?P = "export_inv E ns n w' \<and> (res = result_after 30 \<longrightarrow> err = None
      \<longrightarrow> export_ready_at E ns n w' \<or> ingress_missing s w)"
  obtain a v1 where a: "ReconcileExportPods K E s w = (a, v1)" by fastforce
  obtain res1 e1 rq1 s1 where a': "a = Ret ((res1, e1, rq1), s1)"
    using r a by (cases a) (auto simp: exportSteps_def)
  note p = pods_step [OF at a [unfolded a']]
  have ?P
  proof (cases rq1)
    case True
    with r a a' have "w' = v1" "res = res1" by (simp_all add: exportSteps_def)
    with p(1) step_results(4) [OF a [unfolded a']] show ?thesis by simp
  next
    case False
    with p have at1: "export_at E ns n s v1" "s1 = s" using at same_exports_inv(2) by blast+
    have sl: "w_slices v1 = w_slices w" using pods_step_slices [OF a [unfolded a']] .
    obtain res2 e2 rq2 s2 v2 where b: "ReconcileIngressGwPod K s v1 = (((res2, e2, rq2), s2), v2)"
      by (cases "ReconcileIngressGwPod K s v1") auto
    note i = ingress_step [OF at1(1) b]
    show ?thesis
    proof (cases "e2 = None \<and> \<not> rq2")
      case False
      with r a a' b at1 \<open>\<not> rq1\<close> have "w' = v2" "err = None \<longrightarrow> res = res2 \<and> e2 = None"
        by (cases e2; auto simp: exportSteps_def)+
      with i(1) ingress_result [OF b] sl show ?thesis by (auto simp: ingress_missing_def)
    next
      case True
      with i at1 have at2: "export_at E ns n s v2" "s2 = s" using same_exports_inv(2) by blast+
      have "exportPublish K E now s v2 = (Ret (res, err), w')"
        using r a a' b at1 at2 \<open>\<not> rq1\<close> True by (simp add: exportSteps_def)
      from publish_inv [OF at2(1) live this] show ?thesis by blast
    qed
  qed
  then show "export_inv E ns n w'"
    and "res = result_after 30 \<Longrightarrow> err = None \<Longrightarrow> export_ready_at E ns n w' \<or> ingress_missing s w" by blast+
qed

lemma handle_deletion_inv:
  assumes at: "export_at E ns n s w" and r: "handleServiceExportDeletion K E s w = ((stop, err), s', w')"
  shows "export_inv E ns n w'" and "\<not> stop \<Longrightarrow> export_at E ns n s' w' \<and> se_Slice s' = se_Slice s"
    and "\<not> stop \<Longrightarrow> w_slices w' = w_slices w \<and> om_DeletionTimestamp (se_meta s') = None"
proof -
  let ?P = "export_inv E ns n w' \<and> (\<not> stop \<longrightarrow> export_at E ns n s' w' \<and> se_Slice s' = se_Slice s
    \<and> w_slices w' = w_slices w \<and> om_DeletionTimestamp (se_meta s') = None)"
  let ?fs = "om_Finalizers (se_meta s)"
  have ?P
  proof (cases "om_DeletionTimestamp (se_meta s) = None")
    case True
    let ?s = "se_with_finalizers (?fs @ [exportFinalizer]) s"
    obtain u v where u: "r_update (k_serviceexports K) ?s w = (u, v)" by fastforce
    have "same_publication s ?s" by (simp add: same_publication_def se_with_finalizers_def)
    from export_kept(1) [OF at this u] have k: "export_inv E ns n v" "u = None \<longrightarrow> export_at E ns n ?s v" by blast+
    have sl: "w_slices v = w_slices w"
      using u by (cases u) (auto dest: sve.update_ok sve.update_err)
    have "(w' = w \<and> s' = s) \<or> (w' = v \<and> s' = ?s \<and> (\<not> stop \<longrightarrow> u = None))"
      using r True u unfolding handleServiceExportDeletion_def Let_def
      by (cases u) (auto split: if_split_asm)
    with k sl at True export_at_inv [OF at] show ?thesis by (auto simp: se_with_finalizers_def)
  next
    case False
    have kept: "find (keyed se_meta ns n) (w_serviceexports v) = Some s \<Longrightarrow> export_inv E ns n v" for v
      using False by (auto simp: export_inv_def synced_def)
    have at0: "find (keyed se_meta ns n) (w_serviceexports w) = Some s" using at by (simp add: export_at_def)
    obtain a v1 where a: "DeleteServiceExport K E s w = (a, v1)" by fastforce
    have v1: "w_serviceexports v1 = w_serviceexports w" by (rule DeleteServiceExport_local [OF a])
    obtain b v2 where b: "DeleteServiceExportResources K s v1 = (b, v2)" by fastforce
    have v2: "w_serviceexports v2 = w_serviceexports w"
      using DeleteServiceExportResources_same [OF b] v1 by (simp add: same_exports_def)
    let ?s = "se_with_finalizers (filter (\<lambda>f. f \<noteq> exportFinalizer) ?fs) s"
    obtain u v where u: "r_update (k_serviceexports K) ?s v2 = (u, v)" by fastforce
    have at2: "export_at E ns n s v2" using at0 v2 False by (auto simp: export_at_def synced_def)
    have "same_publication s ?s" by (simp add: same_publication_def se_with_finalizers_def)
    from export_kept(1) [OF at2 this u] have "export_inv E ns n v" by blast
    moreover have "stop" "w' \<in> {w, v1, v2, v}"
      using r False a b u unfolding handleServiceExportDeletion_def Let_def
      by (auto split: if_split_asm option.split_asm prod.split_asm)
    ultimately show ?thesis using kept at0 v1 v2 by auto
  qed
  then show "export_inv E ns n w'" and "\<not> stop \<Longrightarrow> export_at E ns n s' w' \<and> se_Slice s' = se_Slice s"
    and "\<not> stop \<Longrightarrow> w_slices w' = w_slices w \<and> om_DeletionTimestamp (se_meta s') = None" by blast+
qed

lemma label_step:
  assumes at: "export_at E ns n s w" and r: "labelServiceExportWithSlice K s w = ((res, err, stop), s', w')"
  shows "export_inv E ns n w'" and "\<not> stop \<Longrightarrow> s' = s \<and> w' = w" and "res \<noteq> result_after 30"
proof -
  let ?s = "s\<lparr>se_meta := (se_meta s)\<lparr>om_Labels :=
               AList.update ApplicationNamespaceSelectorLabelKey (se_Slice s) (om_Labels (se_meta s))\<rparr>\<rparr>"
  obtain u v where u: "r_update (k_serviceexports K) ?s w = (u, v)" by fastforce
  have "same_publication s ?s" by (simp add: same_publication_def)
  from export_kept(1) [OF at this u] have k: "export_inv E ns n v" by blast
  have "(w' = w \<and> s' = s \<and> res = result_none) \<or> (w' = v \<and> stop \<and> res \<in> {result_none, result_requeue})"
    using r u unfolding labelServiceExportWithSlice_def Let_def by (cases u) (auto split: if_split_asm)
  with k export_at_inv [OF at]
  show "export_inv E ns n w'" and "\<not> stop \<Longrightarrow> s' = s \<and> w' = w" and "res \<noteq> result_after 30" by auto
qed

lemma initial_step:
  assumes at: "export_at E ns n s w"
    and r: "r_update_status (k_serviceexports K)
       (s\<lparr>se_DNSName := dns, se_ExportStatus := st, se_ExposedPorts := ports\<rparr>) w = (u, v)"
  shows "export_inv E ns n v"
  using export_kept(2) [OF at _ r] by (simp add: same_publication_def)

lemma onboard_inv:
  assumes at: "export_at E ns n s w" and live: "om_DeletionTimestamp (se_meta s) = None"
    and r: "onboardExport K E now s w = (Ret (res, err), w')"
  shows "export_inv E ns n w'"
    and "res = result_after 30 \<Longrightarrow> err = None \<Longrightarrow> export_ready_at E ns n w' \<or> ingress_missing s w"
proof -
  let ?P = "export_inv E ns n w' \<and> (res = result_after 30 \<longrightarrow> err = None
      \<longrightarrow> export_ready_at E ns n w' \<or> ingress_missing s w)"
  obtain g v where g: "GetSlice K (se_Slice s) w = (g, v)" by fastforce
  have v: "same_exports w v" "w_slices v = w_slices w"
    using GetSlice_same [OF g] g by (auto simp: GetSlice_def dest!: slice.get_world)
  have at1: "export_at E ns n s v" using at same_exports_inv(2) [OF v(1)] by simp
  have ?P
  proof (cases g)
    case (Inl e)
    with r g have "w' = v" "res = result_after 10" by (simp_all add: onboardExport_def)
    with at1 export_at_inv show ?thesis by auto
  next
    case (Inr sl)
    let ?pend = "s\<lparr>se_ExportStatus := ''PENDING''\<rparr>"
      and ?ports = "s\<lparr>se_ExposedPorts := portListToDisplayString (se_Ports s), se_LastSync := 0\<rparr>"
    obtain u1 v1 where u1: "r_update_status (k_serviceexports K) ?pend v = (u1, v1)" by fastforce
    obtain u2 v2 where u2: "r_update_status (k_serviceexports K) ?ports v = (u2, v2)" by fastforce
    have k: "export_inv E ns n v1" "export_inv E ns n v2" "export_inv E ns n v"
      using export_kept(2) [OF at1 _ u1] export_written(2) [OF at1 _ _ _ u2] export_at_inv [OF at1]
      by (simp_all add: same_publication_def)
    have "(res \<in> {result_after 10, result_none, result_requeue} \<and> w' \<in> {v, v1, v2})
        \<or> exportSteps K E now s v = (Ret (res, err), w')"
      using r g Inr u1 u2 unfolding onboardExport_def
      by (cases u2) (auto split: if_split_asm)
    with k export_steps_inv [OF at1 live, of now res err w'] v(2) show ?thesis
      by (auto simp: ingress_missing_def)
  qed
  then show "export_inv E ns n w'"
    and "res = result_after 30 \<Longrightarrow> err = None \<Longrightarrow> export_ready_at E ns n w' \<or> ingress_missing s w" by blast+
qed

lemma pass_inv:
  assumes inv: "export_inv E ns n w" and r: "ExportReconcile K E now ns n w = (Ret (res, err), w')"
  shows "export_inv E ns n w'"
    and "res = result_after 30 \<Longrightarrow> err = None \<Longrightarrow> export_ready_at E ns n w' \<or>
      (\<exists>s. find (keyed se_meta ns n) (w_serviceexports w) = Some s \<and> ingress_missing s w)"
proof -
  let ?P = "export_inv E ns n w' \<and> (res = result_after 30 \<longrightarrow> err = None \<longrightarrow> export_ready_at E ns n w' \<or>
      (\<exists>s. find (keyed se_meta ns n) (w_serviceexports w) = Some s \<and> ingress_missing s w))"
  obtain q v where q: "r_get (k_serviceexports K) ns n w = (q, v)" by fastforce
  have v: "v = tick w" by (rule sve.get_world [OF q])
  have ?P
  proof (cases q)
    case (Inl e)
    with r q have "w' = v" "res = result_none"
      by (auto simp: ExportReconcile_def split: go_error.split_asm)
    with inv v same_exports_inv(1) [OF same_exports_tick] show ?thesis by auto
  next
    case (Inr s0)
    have f: "find (keyed se_meta ns n) (w_serviceexports w) = Some s0"
      using sve.get_ok [of ns n w s0 v] q Inr by simp
    have at0: "export_at E ns n s0 v"
      using f inv v by (simp add: export_at_def export_inv_def synced_def published_def)
    obtain stop e1 s1 v1 where h: "handleServiceExportDeletion K E s0 v = ((stop, e1), s1, v1)"
      by (cases "handleServiceExportDeletion K E s0 v") auto
    note d = handle_deletion_inv [OF at0 h]
    show ?thesis
    proof (cases stop)
      case True
      with r q Inr h have "w' = v1" "res = result_none" by (simp_all add: ExportReconcile_def)
      with d(1) show ?thesis by simp
    next
      case False
      with d have d': "export_at E ns n s1 v1" "se_Slice s1 = se_Slice s0" "w_slices v1 = w_slices w"
        "om_DeletionTimestamp (se_meta s1) = None" using v by simp_all
      then have im: "ingress_missing s1 v1 = ingress_missing s0 w" by (simp add: ingress_missing_def)
      obtain res2 e2 st2 s2 v2 where l: "labelServiceExportWithSlice K s1 v1 = ((res2, e2, st2), s2, v2)"
        by (cases "labelServiceExportWithSlice K s1 v1") auto
      note b = label_step [OF d'(1) l]
      let ?s = "s1\<lparr>se_DNSName := se_Name s1 @ ''.'' @ se_Namespace s1 @ ''.svc.slice.local'',
               se_ExportStatus := ''PENDING'', se_ExposedPorts := portListToDisplayString (se_Ports s1)\<rparr>"
      obtain u v3 where u: "r_update_status (k_serviceexports K) ?s v1 = (u, v3)" by fastforce
      have "(w' = v2 \<and> res = res2) \<or> (w' = v3 \<and> res \<in> {result_none, result_requeue})
          \<or> onboardExport K E now s1 v1 = (Ret (res, err), w')"
        using r q Inr h False l b(2) u unfolding ExportReconcile_def
        by (cases st2; cases u) (auto split: if_split_asm)
      with b initial_step [OF d'(1) u] onboard_inv [OF d'(1,4), of now res err w'] im f
      show ?thesis by auto
    qed
  qed
  then show "export_inv E ns n w'"
    and "res = result_after 30 \<Longrightarrow> err = None \<Longrightarrow> export_ready_at E ns n w' \<or>
      (\<exists>s. find (keyed se_meta ns n) (w_serviceexports w) = Some s \<and> ingress_missing s w)" by blast+
qed

end

section \<open>Properties\<close>



section \<open>Examples\<close>

definition ex_export :: service_export where
  "ex_export =
     \<lparr>se_meta = (new_meta ''apps'' ''web'' [(''kubeslice.io/slice'', ''red'')])\<lparr>om_Finalizers := [exportFinalizer]\<rparr>,
      se_Slice = ''red'', se_Selector = Some [(''app'', ''web'')],
      se_Ports = [\<lparr>xp_Name = ''http'', xp_ContainerPort = 8, xp_Protocol = '''', xp_ServiceProtocol = '''',
        xp_ServicePort = 80\<rparr>],
      se_Aliases = [''web.example''], se_DNSName = ''web.apps.svc.slice.local'', se_ExportStatus = ''PENDING'',
      se_Pods = [\<lparr>spd_Name = ''web-1'', spd_NsmIP = ''10.1.1.5'', spd_PodIp = ''10.0.0.5'',
        spd_DNSName = ''web-1.a.web.apps.svc.slice.local''\<rparr>],
      se_LastSync = 0, se_ExposedPorts = ''8/TCP'', se_AvailableEndpoints = 1,
      se_IngressGwEnabled = False, se_IngressGwPodName = '''', se_IngressGwPodNsmIP = '''',
      se_StatusAliases = [''web.example'']\<rparr>"

definition ex_export_env :: environ where
  "ex_export_env = [''CLUSTER_NAME'' \<mapsto> ''a'', ''HUB_PROJECT_NAMESPACE'' \<mapsto> ''kubeslice-demo'']"

definition ex_export_world :: world where
  "ex_export_world = empty_world\<lparr>w_serviceexports := [ex_export],
     w_slices := [ex_slice\<lparr>sl_ApplicationNamespaces := [''apps''],
        sl_AppPods := [\<lparr>ap_PodName = ''web-1'', ap_PodNamespace = ''apps'', ap_PodIP = ''10.0.0.5'',
          ap_NsmIP = ''10.1.1.5'', ap_NsmInterface = ''nsm0'', ap_NsmPeerIP = ''''\<rparr>]\<rparr>],
     w_pods := [\<lparr>p_meta = new_meta ''apps'' ''web-1'' [(''app'', ''web'')], p_Phase = ''Running'',
        p_PodIP = ''10.0.0.5'', p_NodeName = ''n1'', p_TerminatedExitCodes = []\<rparr>]\<rparr>"

definition ex_export_pass :: "world \<Rightarrow> (ctrl_result \<times> go_error option) go \<times> world" where
  "ex_export_pass = ExportReconcile ex_kube ex_export_env 500 ''apps'' ''web''"

lemma ex_export_first:
  "fst (ex_export_pass ex_export_world) = Ret (result_requeue, None)"
  "map se_LastSync (w_serviceexports (snd (ex_export_pass ex_export_world))) = [500]"
  "length (h_serviceexports (snd (ex_export_pass ex_export_world))) = 1"
  by code_simp+

lemma ex_export_world_inv: "export_inv ex_export_env ''apps'' ''web'' ex_export_world"
  by (simp add: export_inv_def ex_export_world_def ex_export_def keyed_def new_meta_def)


text \<open>The second pass, from the synchronised export.\<close>

definition ex_synced_world :: world where
  "ex_synced_world = ex_export_world\<lparr>w_serviceexports := [ex_export\<lparr>se_LastSync := 500\<rparr>],
     h_serviceexports := [hubExportWith ex_export_env ex_export
       [\<lparr>de_PodName = ''web-1'', de_Cluster = ''a'', de_NsmIp = ''10.1.1.5'',
         de_DnsName = ''web-1.a.web.apps.svc.slice.local'', de_Port = 8\<rparr>]]\<rparr>"

lemma ex_synced_export:
  "export_inv ex_export_env ''apps'' ''web'' ex_synced_world"
  "find (keyed se_meta ''apps'' ''web'') (w_serviceexports ex_synced_world) = Some (ex_export\<lparr>se_LastSync := 500\<rparr>)"
  "\<not> ingress_missing (ex_export\<lparr>se_LastSync := 500\<rparr>) ex_synced_world"
  by code_simp+

lemma ex_synced_pass: "fst (ex_export_pass ex_synced_world) = Ret (result_after 30, None)"
  by code_simp


end
