(* ===== verification/ExportIstio.thy ===== *)
theory ExportIstio
  imports ExportSync
begin

text \<open>
  What the istio part of the service export reconciler keeps: the entries and routes that a
  settled export has.
\<close>

section \<open>Service entries\<close>

definition entries_of :: "service_export \<Rightarrow> world \<Rightarrow> service_entry list" where
  "entries_of s w = entries_at ControlPlaneNamespace (labelsForServiceEntry s) w"

text \<open>An entry serves a pod: its first host is the pod's name, its first address the pod's.\<close>

definition serves :: "service_entry \<Rightarrow> service_pod \<Rightarrow> bool" where
  "serves n p \<longleftrightarrow> entryHost n (spd_DNSName p)
     \<and> (spd_NsmIP p \<noteq> '''' \<longrightarrow> sn_Endpoints n \<noteq> [] \<and> hd (sn_Endpoints n) = spd_NsmIP p)"

lemma entriesLoop_end:
  "entriesLoop K s entries ps w = (Ret None, w') \<Longrightarrow>
     w' = w \<and> (\<forall>p \<in> set ps. \<exists>n \<in> set entries. serves n p)"
proof (induction ps)
  case Nil
  then show ?case by simp
next
  case (Cons p ps)
  from Cons.prems obtain n where n: "serviceEntryExists entries p = Some n"
    by (cases "serviceEntryExists entries p") (auto split: prod.split_asm option.split_asm)
  then have "n \<in> set entries" "entryHost n (spd_DNSName p)"
    unfolding serviceEntryExists_def using find_Some_iff' by fastforce+
  moreover from Cons.prems n have c: "checkEndpoint p n = Ret False" "entriesLoop K s entries ps w = (Ret None, w')"
    by (auto split: go.split_asm bool.split_asm prod.split_asm option.split_asm)
  from c(1) have "spd_NsmIP p \<noteq> '''' \<longrightarrow> sn_Endpoints n \<noteq> [] \<and> hd (sn_Endpoints n) = spd_NsmIP p"
    by (auto simp: checkEndpoint_def split: if_split_asm list.split_asm)
  ultimately have "serves n p" by (simp add: serves_def)
  with \<open>n \<in> set entries\<close> Cons.IH [OF c(2)] show ?case by auto
qed

context lawful
begin

lemma entries_settled:
  assumes r: "ReconcileServiceEntries K s w = (Ret (res, err, False), w')"
    and dns: "distinct (map spd_DNSName (se_Pods s))" and keys: "unique_keys w"
  shows "(\<forall>p \<in> set (se_Pods s). \<exists>n \<in> set (entries_of s w'). serves n p)
    \<and> (\<forall>n \<in> set (entries_of s w'). \<exists>h \<in> set (map spd_DNSName (se_Pods s)). entryHost n h)"
proof -
  let ?lo = "in_namespace ControlPlaneNamespace (labelsForServiceEntry s)"
  obtain l w1 where l: "getServiceEntries K s w = (l, w1)" by fastforce
  obtain es where es: "l = Inr es" using r l by (cases l) (auto simp: ReconcileServiceEntries_def)
  have w1: "w1 = tick w" "es = entries_of s w"
    using l es sen.list_ok [of ?lo w es w1] by (simp_all add: getServiceEntries_def entries_of_def entries_at_def)
  obtain q w2 where q: "entriesLoop K s es (se_Pods s) w1 = (q, w2)" by fastforce
  have qn: "q = Ret None"
  proof (cases q)
    case Panic
    with r l es q show ?thesis by (simp add: ReconcileServiceEntries_def)
  next
    case (Ret x)
    have "\<not> (\<exists>a b. x = Some (a, b, False))" using q Ret
    proof (induction "se_Pods s" arbitrary: rule: list.induct)
      case Nil
      then show ?case by simp
    next
      case (Cons p ps)
      have "entriesLoop K s es ps' v = (Ret (Some (a, b, f)), v') \<Longrightarrow> f" for ps' v a b f v'
        by (induction ps')
          (auto split: option.split_asm prod.split_asm go.split_asm bool.split_asm)
      with Cons.prems show ?case by blast
    qed
    with r l es q Ret show ?thesis by (cases x) (auto simp: ReconcileServiceEntries_def)
  qed
  note served = entriesLoop_end [OF q [unfolded qn]]
  show ?thesis
  proof (cases "length (se_Pods s) = length es")
    case True
    then have "w' = w2" using r l es q qn by (simp add: ReconcileServiceEntries_def)
    then have es': "entries_of s w' = es" using served w1 by (simp add: entries_of_def entries_at_def)
    have "\<exists>n \<in> set es. entryHost n h" if "h \<in> set (map spd_DNSName (se_Pods s))" for h
      using served that by (fastforce simp: serves_def)
    with entries_exact [of es "map spd_DNSName (se_Pods s)"] True dns served es' show ?thesis by auto
  next
    case False
    obtain ds where ds: "servicesEntriesToDelete es s = Ret ds"
      using r l es q qn False by (cases "servicesEntriesToDelete es s") (auto simp: ReconcileServiceEntries_def)
    have "deleteAll (k_serviceentries K) sn_meta ds w2 = (None, w')"
      using r l es q qn False ds by (auto simp: ReconcileServiceEntries_def split: prod.split_asm option.split_asm)
    from stale_deleted [OF ds [unfolded servicesEntriesToDelete_def w1(2) entries_of_def] this _ keys] served w1
    have mem: "n \<in> set (entries_of s w') \<longleftrightarrow>
        n \<in> set es \<and> (\<exists>h \<in> set (map spd_DNSName (se_Pods s)). entryHost n h)" for n
      by (simp add: entries_of_def)
    have "\<exists>n \<in> set (entries_of s w'). serves n p" if "p \<in> set (se_Pods s)" for p
    proof -
      obtain n where "n \<in> set es" "serves n p" using served \<open>p \<in> set (se_Pods s)\<close> by blast
      with mem [of n] that show ?thesis by (auto simp: serves_def)
    qed
    with mem show ?thesis by blast
  qed
qed

end

lemma withRoutes_meta: "withRoutes s v = Ret v' \<Longrightarrow> vs_meta v' = vs_meta v"
  by (auto simp: withRoutes_def split: if_split_asm go.split_asm)

definition active_routes :: "service_export \<Rightarrow> virtual_service \<Rightarrow> route_destination list list" where
  "active_routes s v = (if getServiceProtocol s = ''http'' then vs_Http v else vs_Tcp v)"

context lawful
begin

lemma virtual_service_settled:
  assumes r: "ReconcileVirtualService K E s w = (Ret (res, err, False), w')"
  shows "w_serviceentries w' = w_serviceentries w"
    and "case find (keyed vs_meta ControlPlaneNamespace (virtualServiceName s)) (w_virtualservices w') of
        None \<Rightarrow> se_Pods s = []
      | Some v \<Rightarrow> se_Pods s \<noteq> []
          \<and> (\<exists>rs. active_routes s v = [rs] \<and> map rt_Host rs = map spd_DNSName (se_Pods s))"
proof -
  let ?n = "virtualServiceName s"
  let ?find = "\<lambda>w. find (keyed vs_meta ControlPlaneNamespace ?n) (w_virtualservices w)"
  obtain q w1 where q: "r_get (k_virtualservices K) ControlPlaneNamespace ?n w = (q, w1)" by fastforce
  have w1: "w1 = tick w" by (rule vsv.get_world [OF q])
  have "w_serviceentries w' = w_serviceentries w \<and> (case ?find w' of None \<Rightarrow> se_Pods s = []
      | Some v \<Rightarrow> se_Pods s \<noteq> []
          \<and> (\<exists>rs. active_routes s v = [rs] \<and> map rt_Host rs = map spd_DNSName (se_Pods s)))"
  proof (cases q)
    case (Inl e)
    have e: "e = NotFound" and pods: "se_Pods s = []" "w' = w1"
      using r q Inl by (cases e; auto simp: ReconcileVirtualService_def getVirtualService_def
          split: if_split_asm go.split_asm prod.split_asm option.split_asm)+
    with vsv.get_err [of ControlPlaneNamespace ?n w e w1] q Inl w1 show ?thesis by simp
  next
    case (Inr v)
    have v: "?find w = Some v" using vsv.get_ok [of ControlPlaneNamespace ?n w v w1] q Inr by simp
    then have key: "om_Namespace (vs_meta v) = ControlPlaneNamespace" "om_Name (vs_meta v) = ?n"
      using find_Some_iff' by (fastforce simp: keyed_def)+
    show ?thesis
    proof (cases "se_Pods s = []")
      case True
      then have "r_delete (k_virtualservices K) ControlPlaneNamespace ?n w1 = (None, w')"
        using r q Inr key by (auto simp: ReconcileVirtualService_def getVirtualService_def
            split: prod.split_asm option.split_asm)
      with vsv.delete_gone [of ControlPlaneNamespace ?n w1 None w'] vsv.delete_ok [of ControlPlaneNamespace ?n w1 w']
        True w1 show ?thesis by simp
    next
      case False
      then have "\<not> hasVirtualServiceRoutesChanged v s" "w' = w1"
        using r q Inr by (auto simp: ReconcileVirtualService_def getVirtualService_def
            split: if_split_asm go.split_asm prod.split_asm option.split_asm)
      with routes_unchanged_iff [of "active_routes s v" "map spd_DNSName (se_Pods s)"] False v w1 show ?thesis
        by (simp add: hasVirtualServiceRoutesChanged_def active_routes_def)
    qed
  qed
  then show "w_serviceentries w' = w_serviceentries w"
    and "case ?find w' of None \<Rightarrow> se_Pods s = []
      | Some v \<Rightarrow> se_Pods s \<noteq> []
          \<and> (\<exists>rs. active_routes s v = [rs] \<and> map rt_Host rs = map spd_DNSName (se_Pods s))" by blast+
qed

lemma istio_settled:
  assumes r: "ReconcileIstio K E s w = (Ret (res, err, False), w')"
    and sl: "find (keyed sl_meta ControlPlaneNamespace (se_Slice s)) (w_slices w) = Some sl"
    and c: "sl_Config sl = Some c" "ingressEnabled c"
    and dns: "distinct (map spd_DNSName (se_Pods s))" and keys: "unique_keys w"
  shows "(\<forall>p \<in> set (se_Pods s). \<exists>n \<in> set (entries_of s w'). serves n p)
    \<and> (\<forall>n \<in> set (entries_of s w'). \<exists>h \<in> set (map spd_DNSName (se_Pods s)). entryHost n h)"
    and "case find (keyed vs_meta ControlPlaneNamespace (virtualServiceName s)) (w_virtualservices w') of
        None \<Rightarrow> se_Pods s = []
      | Some v \<Rightarrow> se_Pods s \<noteq> []
          \<and> (\<exists>rs. active_routes s v = [rs] \<and> map rt_Host rs = map spd_DNSName (se_Pods s))"
proof -
  obtain q w1 where q: "r_get (k_slices K) ControlPlaneNamespace (se_Slice s) w = (q, w1)" by fastforce
  have w1: "w1 = tick w" by (rule slice.get_world [OF q])
  have q': "q = Inr sl"
    using r q sl slice.get_ok [of ControlPlaneNamespace "se_Slice s" w _ w1]
    by (cases q) (auto simp: ReconcileIstio_def GetSlice_def)
  obtain a v where a: "ReconcileServiceEntries K s w1 = (a, v)" by fastforce
  obtain r1 e1 where a': "a = Ret (r1, e1, False)"
    using r q q' c a by (cases a) (auto simp: ReconcileIstio_def GetSlice_def split: bool.split_asm)
  obtain b v2 where b: "ReconcileVirtualService K E s v = (b, v2)" by fastforce
  obtain r2 e2 where b': "b = Ret (r2, e2, False)" "v2 = w'"
    using r q q' c a a' b by (cases b) (auto simp: ReconcileIstio_def GetSlice_def split: bool.split_asm)
  have k1: "unique_keys w1" using keys w1 by (simp add: unique_keys_def)
  note e = entries_settled [OF a [unfolded a'] dns k1]
  note vs = virtual_service_settled [OF b [unfolded b']]
  show "(\<forall>p \<in> set (se_Pods s). \<exists>n \<in> set (entries_of s w'). serves n p)
    \<and> (\<forall>n \<in> set (entries_of s w'). \<exists>h \<in> set (map spd_DNSName (se_Pods s)). entryHost n h)"
    using e vs(1) by (simp add: entries_of_def entries_at_def)
  show "case find (keyed vs_meta ControlPlaneNamespace (virtualServiceName s)) (w_virtualservices w') of
        None \<Rightarrow> se_Pods s = []
      | Some v \<Rightarrow> se_Pods s \<noteq> []
          \<and> (\<exists>rs. active_routes s v = [rs] \<and> map rt_Host rs = map spd_DNSName (se_Pods s))" by (rule vs(2))
qed

end

text \<open>
  C31: The istio objects follow the pods of an export. When the istio step of a slice with ingress has
  nothing left to do, every pod of the export has a service entry with its name and, if it is
  in the slice, its address there; no entry of the export names anything else; and the
  virtual service routes to the pods in their order, or is gone when there are none.
\<close>

theorem istio_follows_pods:
  assumes "lawful K" and "ReconcileIstio K E s w = (Ret (res, err, False), w')"
    and "find (keyed sl_meta ControlPlaneNamespace (se_Slice s)) (w_slices w) = Some sl"
    and "sl_Config sl = Some c" and "ingressEnabled c"
    and "distinct (map spd_DNSName (se_Pods s))" and "unique_keys w"
  shows "(\<forall>p \<in> set (se_Pods s). \<exists>n \<in> set (entries_of s w'). serves n p)
    \<and> (\<forall>n \<in> set (entries_of s w'). \<exists>h \<in> set (map spd_DNSName (se_Pods s)). entryHost n h)
    \<and> (case find (keyed vs_meta ControlPlaneNamespace (virtualServiceName s)) (w_virtualservices w') of
         None \<Rightarrow> se_Pods s = []
       | Some v \<Rightarrow> se_Pods s \<noteq> []
           \<and> (\<exists>rs. active_routes s v = [rs] \<and> map rt_Host rs = map spd_DNSName (se_Pods s)))"
  using lawful.istio_settled [OF assms] by blast

text \<open>
  A pod in two exports. The name of a service entry has the pod and the namespace in it, but not
  the export, while the entries of an export are found by labels with its name. So when
  another export has an entry for the first pod, the step fails with \<open>AlreadyExists\<close> in every
  pass, on a server that never fails otherwise, and changes nothing.
\<close>

theorem shared_pod_blocks_export:
  assumes "se_Pods s = p # ps"
    and "serviceEntryExists (entries_of s w) p = None"
    and "find (keyed sn_meta ControlPlaneNamespace (serviceEntryName p (se_Namespace s))) (w_serviceentries w) \<noteq> None"
  shows "ReconcileServiceEntries (ref_kube no_faults R) s w
     = (Ret (result_none, Some AlreadyExists, True), w\<lparr>w_calls := w_calls w + 2\<rparr>)"
proof -
  let ?K = "ref_kube no_faults R" and ?e = "createServiceEntryForEndpoint s p"
  have l: "getServiceEntries ?K s w = (Inr (entries_of s w), tick w)"
    unfolding getServiceEntries_def entries_of_def entries_at_def by (rule up.senr.list_all_ok)
  have k: "same_key sn_meta ?e
      = keyed sn_meta ControlPlaneNamespace (serviceEntryName p (se_Namespace s))"
    by (simp add: fun_eq_iff same_key_def createServiceEntryForEndpoint_def)
  have "list_ex (same_key sn_meta ?e) (w_serviceentries w)"
    using assms(3) unfolding k find_keyed_list_ex by simp
  then have "r_create (k_serviceentries ?K) ?e (tick w) = (Some AlreadyExists, tick (tick w))"
    by (simp add: ref_kube_def ref_ops_def no_faults_def)
  with l assms(1,2) show ?thesis by (simp add: ReconcileServiceEntries_def tick_def)
qed

text \<open>
  A change of the port is not noticed. Whether the routes of a virtual service have to be
  written depends on the ports of the export only through the protocol: with another port number,
  the old routes stay.
\<close>

theorem port_change_unnoticed:
  assumes "getServiceProtocol (s\<lparr>se_Ports := ports\<rparr>) = getServiceProtocol s"
    and "virtualService E s = Ret v"
  shows "\<not> hasVirtualServiceRoutesChanged v (s\<lparr>se_Ports := ports\<rparr>)"
proof -
  have "\<exists>port. (if getServiceProtocol s = ''http'' then vs_Http v else vs_Tcp v)
      = [routesTo port (map spd_DNSName (se_Pods s))]"
    using assms(2) by (auto simp: virtualService_def withRoutes_def getVirtualServiceHTTPRoutes_def
        getVirtualServiceTCPRoutes_def split: if_split_asm go.split_asm list.split_asm)
  then show ?thesis using routesTo_hosts assms(1)
    by (auto simp: hasVirtualServiceRoutesChanged_def routes_unchanged_iff)
qed

section \<open>Examples\<close>

definition ex_export_pod :: "string \<Rightarrow> service_pod" where
  "ex_export_pod n = \<lparr>spd_Name = n, spd_NsmIP = ''10.1.1.5'', spd_PodIp = ''10.0.0.5'', spd_DNSName = n @ ''.svc''\<rparr>"

definition ex_ingress_world :: world where
  "ex_ingress_world = empty_world\<lparr>
     w_slices := [ex_slice\<lparr>sl_Config := Some (ex_slice_config\<lparr>
       sc_ExternalGatewayConfig := Some \<lparr>eg_Ingress = Some True, eg_Egress = Some False,
         eg_NsIngress = None, eg_GatewayType = ''istio'', eg_VPCServiceAccess = (False, False)\<rparr>\<rparr>)\<rparr>],
     w_serviceentries := [createServiceEntryForEndpoint ex_export (hd (se_Pods ex_export)),
       createServiceEntryForEndpoint ex_export (ex_export_pod ''gone'')],
     w_virtualservices := [\<lparr>vs_meta = new_meta ControlPlaneNamespace (virtualServiceName ex_export) [],
       vs_Hosts = [], vs_Gateways = [], vs_ExportTo = [], vs_Http = [routesTo 8 (map spd_DNSName (se_Pods ex_export))], vs_Tcp = []\<rparr>]\<rparr>"

definition ex_istio :: "step_result go \<times> world" where
  "ex_istio = ReconcileIstio ex_kube ex_export_env ex_export ex_ingress_world"

lemma ex_istio_pass: "fst ex_istio = Ret (result_none, None, False)"
  by code_simp

lemma ex_istio_shape:
  "find (keyed sl_meta ControlPlaneNamespace (se_Slice ex_export)) (w_slices ex_ingress_world)
     = Some (hd (w_slices ex_ingress_world))"
  "distinct (map spd_DNSName (se_Pods ex_export))" "se_Pods ex_export = [hd (se_Pods ex_export)]"
  "sl_Config (hd (w_slices ex_ingress_world)) = Some (the (sl_Config (hd (w_slices ex_ingress_world))))"
  "ingressEnabled (the (sl_Config (hd (w_slices ex_ingress_world))))"
  by code_simp+

lemma ex_istio_keys: "unique_keys ex_ingress_world"
  unfolding unique_keys_def ex_ingress_world_def
  by (simp add: createServiceEntryForEndpoint_def serviceEntryName_def ex_export_def ex_export_pod_def)

theorem istio_follows_pods_witness:
  "(\<exists>n \<in> set (entries_of ex_export (snd ex_istio)). serves n (hd (se_Pods ex_export)))
   \<and> length (w_serviceentries ex_ingress_world) = 2"
proof
  have "ReconcileIstio ex_kube ex_export_env ex_export ex_ingress_world
      = (Ret (result_none, None, False), snd ex_istio)"
    using ex_istio_pass by (metis ex_istio_def prod.collapse)
  from istio_follows_pods [OF ex_kube_lawful this ex_istio_shape(1,4,5,2) ex_istio_keys]
  show "\<exists>n \<in> set (entries_of ex_export (snd ex_istio)). serves n (hd (se_Pods ex_export))"
    using ex_istio_shape(3) list.set_intros(1) by metis
qed (simp add: ex_ingress_world_def)

text \<open>Another export, \<open>api\<close>, of the same pod.\<close>

definition ex_other_export :: service_export where
  "ex_other_export = ex_export\<lparr>se_meta := (se_meta ex_export)\<lparr>om_Name := ''api''\<rparr>\<rparr>"

theorem shared_pod_blocks_export_witness:
  "fst (ReconcileServiceEntries (ref_kube no_faults ex_replies) ex_other_export ex_ingress_world)
     = Ret (result_none, Some AlreadyExists, True)"
proof -
  have "se_Pods ex_other_export = hd (se_Pods ex_export) # []"
    "serviceEntryExists (entries_of ex_other_export ex_ingress_world) (hd (se_Pods ex_export)) = None"
    "find (keyed sn_meta ControlPlaneNamespace
       (serviceEntryName (hd (se_Pods ex_export)) (se_Namespace ex_other_export))) (w_serviceentries ex_ingress_world) \<noteq> None"
    by code_simp+
  from shared_pod_blocks_export [OF this, of ex_replies] show ?thesis by simp
qed

lemma virtual_service_returns: "se_Ports s \<noteq> [] \<Longrightarrow> virtualService E s \<noteq> Panic"
  by (cases "se_Ports s") (simp_all add: virtualService_def withRoutes_def getVirtualServiceHTTPRoutes_def)

theorem port_change_unnoticed_witness:
  "\<exists>v. virtualService ex_export_env ex_export = Ret v \<and> \<not> hasVirtualServiceRoutesChanged v
      (ex_export\<lparr>se_Ports := map (\<lambda>p. p\<lparr>xp_ContainerPort := 9\<rparr>) (se_Ports ex_export)\<rparr>)"
proof -
  have "se_Ports ex_export \<noteq> []" by code_simp
  then obtain v where v: "virtualService ex_export_env ex_export = Ret v"
    using virtual_service_returns [of ex_export ex_export_env] by (cases "virtualService ex_export_env ex_export") auto
  have "getServiceProtocol (ex_export\<lparr>se_Ports := map (\<lambda>p. p\<lparr>xp_ContainerPort := 9\<rparr>) (se_Ports ex_export)\<rparr>)
      = getServiceProtocol ex_export"
    by (simp add: getServiceProtocol_def serviceProtocol_def ex_export_def)
  from port_change_unnoticed [OF this v] v show ?thesis by simp
qed

end
