(* ===== verification/ServiceImport.thy ===== *)
theory ServiceImport
  imports IstioObjects
begin

text \<open>
  The service import reconciler: \<open>controllers/serviceimport\<close> (\<open>reconciler.go\<close>,
  \<open>serviceimport.go\<close>, \<open>istio*.go\<close>). An import with istio has a service and a service entry
  for each endpoint; its traffic goes straight to the endpoints, or, when the slice has an egress
  gateway, through the gateway: then the entries and the routes from the gateway to the
  endpoints are in the control plane namespace.
\<close>

abbreviation si_Name :: "service_import \<Rightarrow> string" where
  "si_Name s \<equiv> om_Name (si_meta s)"

abbreviation si_Namespace :: "service_import \<Rightarrow> string" where
  "si_Namespace s \<equiv> om_Namespace (si_meta s)"

abbreviation si_Hosts :: "service_import \<Rightarrow> string list" where
  "si_Hosts s \<equiv> map en_DNSName (si_Endpoints s)"

section \<open>The service\<close>

definition serviceForServiceImport :: "service_import \<Rightarrow> service" where
  "serviceForServiceImport s =
     \<lparr>s_meta = new_meta (si_Namespace s) (si_Name s) [], s_Type = '''', s_Selector = [], s_ClusterIP = '''',
      s_Ports = map (\<lambda>p.
        \<lparr>sp_Name = (if xp_Name p = '''' then xp_Protocol p @ itoa (xp_ContainerPort p) else xp_Name p),
         sp_Port = xp_ContainerPort p, sp_Protocol = xp_Protocol p, sp_TargetPort = xp_ContainerPort p,
         sp_NodePort = 0\<rparr>) (si_Ports s),
      s_Ingress = []\<rparr>"

definition ReconcileImportService :: "kube \<Rightarrow> service_import \<Rightarrow> world \<Rightarrow> step_result \<times> world" where
  "ReconcileImportService K s w =
     (case r_get (k_services K) (si_Namespace s) (si_Name s) w of
        (Inl NotFound, w) \<Rightarrow>
          (case r_create (k_services K) (serviceForServiceImport s) w of
             (Some e, w) \<Rightarrow> ((result_none, Some e, True), w)
           | (None, w) \<Rightarrow> ((result_requeue, None, True), w))
      | (Inl e, w) \<Rightarrow> ((result_none, Some e, True), w)
      | (Inr _, w) \<Rightarrow> ((result_none, None, False), w))"

section \<open>Service entries\<close>

definition importProtocol :: "service_import \<Rightarrow> string" where
  "importProtocol s = serviceProtocol (si_Ports s)"

definition labelsForImportEntry :: "service_import \<Rightarrow> labels" where
  "labelsForImportEntry s = serviceLabels (si_meta s) (si_Slice s)"

definition importEntryName :: "service_endpoint \<Rightarrow> string" where
  "importEntryName endpoint = en_Name endpoint @ ''-'' @ en_ClusterID endpoint"

text \<open>An import without ports panics.\<close>

definition serviceEntryForEndpoint :: "service_import \<Rightarrow> service_endpoint \<Rightarrow> string \<Rightarrow> service_entry go" where
  "serviceEntryForEndpoint s endpoint ns =
     (case si_Ports s of
        [] \<Rightarrow> Panic
      | p # _ \<Rightarrow> Ret
          \<lparr>sn_meta = new_meta ns (importEntryName endpoint) (labelsForImportEntry s),
           sn_ExportTo = [''.''], sn_Hosts = [en_DNSName endpoint], sn_Location = ''MESH_EXTERNAL'',
           sn_Ports = [\<lparr>po_Name = xp_Name p, po_Protocol = xp_Protocol p,
             po_Number = word_of_int (xp_ContainerPort p), po_TargetPort = word_of_int (en_Port endpoint)\<rparr>],
           sn_Resolution = ''DNS'',
           sn_Addresses = (if importProtocol s = ''tcp'' then [en_IP endpoint] else []),
           sn_Endpoints = []\<rparr>)"

definition getServiceEntriesForSI :: "kube \<Rightarrow> service_import \<Rightarrow> string \<Rightarrow> world
    \<Rightarrow> (go_error + service_entry list) \<times> world" where
  "getServiceEntriesForSI K s ns w =
     r_list (k_serviceentries K) (in_namespace ns (labelsForImportEntry s)) w"

definition importEntryExists :: "service_entry list \<Rightarrow> service_endpoint \<Rightarrow> bool" where
  "importEntryExists seList e \<longleftrightarrow> list_ex (\<lambda>n. entryHost n (en_DNSName e)) seList"

definition importEntriesToDelete :: "service_entry list \<Rightarrow> service_import \<Rightarrow> service_entry list go" where
  "importEntriesToDelete seList s = staleEntries seList (si_Hosts s)"

text \<open>The loop over the endpoints: the first one without an entry ends it.\<close>

definition createMissingEntry :: "kube \<Rightarrow> service_import \<Rightarrow> string \<Rightarrow> service_entry list \<Rightarrow> world
    \<Rightarrow> step_result option go \<times> world" where
  "createMissingEntry K s ns entries w =
     (case find (\<lambda>e. \<not> importEntryExists entries e) (si_Endpoints s) of
        None \<Rightarrow> (Ret None, w)
      | Some endpoint \<Rightarrow>
          (case serviceEntryForEndpoint s endpoint ns of
             Panic \<Rightarrow> (Panic, w)
           | Ret n \<Rightarrow>
               (case r_create (k_serviceentries K) n w of
                  (Some e, w) \<Rightarrow> (Ret (Some (result_none, Some e, True)), w)
                | (None, w) \<Rightarrow> (Ret (Some (result_requeue, None, True)), w))))"

definition ReconcileImportEntries :: "kube \<Rightarrow> service_import \<Rightarrow> string \<Rightarrow> world \<Rightarrow> step_result go \<times> world" where
  "ReconcileImportEntries K s ns w =
     (case getServiceEntriesForSI K s ns w of
        (Inl e, w) \<Rightarrow> (Ret (result_none, Some e, True), w)
      | (Inr entries, w) \<Rightarrow>
     (case createMissingEntry K s ns entries w of
        (Panic, w) \<Rightarrow> (Panic, w)
      | (Ret (Some r), w) \<Rightarrow> (Ret r, w)
      | (Ret None, w) \<Rightarrow>
          (if length (si_Endpoints s) = length entries then (Ret (result_none, None, False), w)
           else
             (case importEntriesToDelete entries s of
                Panic \<Rightarrow> (Panic, w)
              | Ret toDelete \<Rightarrow>
                  (case deleteAll (k_serviceentries K) sn_meta toDelete w of
                     (Some e, w) \<Rightarrow> (Ret (result_none, Some e, True), w)
                   | (None, w) \<Rightarrow> (Ret (result_none, None, False), w))))))"

text \<open>An error of a deletion ends the loop and is not returned.\<close>

definition DeleteImportEntries :: "kube \<Rightarrow> service_import \<Rightarrow> world \<Rightarrow> go_error option \<times> world" where
  "DeleteImportEntries K s w =
     (case getServiceEntriesForSI K s ControlPlaneNamespace w of
        (Inl NotFound, w) \<Rightarrow> (None, w)
      | (Inl e, w) \<Rightarrow> (Some e, w)
      | (Inr entries, w) \<Rightarrow>
          (case deleteAll (k_serviceentries K) sn_meta entries w of (_, w) \<Rightarrow> (None, w)))"

section \<open>Virtual services\<close>

definition virtualServiceFromAppPodName :: "service_import \<Rightarrow> string" where
  "virtualServiceFromAppPodName s = si_Name s"

definition virtualServiceFromEgressName :: "service_import \<Rightarrow> string" where
  "virtualServiceFromEgressName s = si_Name s @ ''-'' @ si_Namespace s"

definition getVirtualServiceFromAppPod :: "kube \<Rightarrow> service_import \<Rightarrow> world
    \<Rightarrow> (go_error + virtual_service) \<times> world" where
  "getVirtualServiceFromAppPod K s w =
     r_get (k_virtualservices K) (si_Namespace s) (virtualServiceFromAppPodName s) w"

definition getVirtualServiceFromEgress :: "kube \<Rightarrow> service_import \<Rightarrow> world
    \<Rightarrow> (go_error + virtual_service) \<times> world" where
  "getVirtualServiceFromEgress K s w =
     r_get (k_virtualservices K) ControlPlaneNamespace (virtualServiceFromEgressName s) w"

text \<open>The routes of both protocols; an import without ports panics.\<close>

definition importRoutes :: "service_import \<Rightarrow> route_destination list go" where
  "importRoutes s =
     (case si_Ports s of [] \<Rightarrow> Panic
      | p # _ \<Rightarrow> Ret (routesTo (word_of_int (xp_ContainerPort p)) (si_Hosts s)))"

definition with_routes :: "service_import \<Rightarrow> route_destination list \<Rightarrow> virtual_service \<Rightarrow> virtual_service" where
  "with_routes s rs v = (if importProtocol s = ''http'' then v\<lparr>vs_Http := [rs]\<rparr> else v\<lparr>vs_Tcp := [rs]\<rparr>)"

definition importRoutesChanged :: "virtual_service \<Rightarrow> service_import \<Rightarrow> bool" where
  "importRoutesChanged v s =
     routesChanged (if importProtocol s = ''http'' then vs_Http v else vs_Tcp v) (si_Hosts s)"

definition egressHost :: "service_import \<Rightarrow> string" where
  "egressHost s = si_Slice s @ ''-istio-egressgateway.'' @ ControlPlaneNamespace @ ''.svc.cluster.local''"

definition virtualServiceToEgress :: "service_import \<Rightarrow> virtual_service go" where
  "virtualServiceToEgress s =
     (let v = \<lparr>vs_meta = new_meta (si_Namespace s) (virtualServiceFromAppPodName s) [],
               vs_Hosts = [si_DNSName s, si_Name s @ ''.'' @ si_Namespace s @ ''.svc.cluster.local''],
               vs_Gateways = [], vs_ExportTo = [''.''], vs_Http = [], vs_Tcp = []\<rparr>
      in if importProtocol s = ''http''
         then Ret (v\<lparr>vs_Http := [[\<lparr>rt_Host = egressHost s, rt_Port = 80, rt_Weight = 0\<rparr>]]\<rparr>)
         else (case si_Ports s of [] \<Rightarrow> Panic
               | p # _ \<Rightarrow> Ret (v\<lparr>vs_Tcp :=
                   [[\<lparr>rt_Host = egressHost s, rt_Port = word_of_int (xp_ContainerPort p), rt_Weight = 0\<rparr>]]\<rparr>)))"

definition virtualServiceFromEgress :: "service_import \<Rightarrow> virtual_service go" where
  "virtualServiceFromEgress s =
     (case importRoutes s of
        Panic \<Rightarrow> Panic
      | Ret rs \<Rightarrow> Ret (with_routes s rs
          \<lparr>vs_meta = new_meta ControlPlaneNamespace (virtualServiceFromEgressName s) [],
           vs_Hosts = [si_DNSName s, si_Name s @ ''.'' @ si_Namespace s @ ''.svc.cluster.local''],
           vs_Gateways = [ControlPlaneNamespace @ ''/'' @ si_Slice s @ ''-istio-egressgateway''],
           vs_ExportTo = [''.''], vs_Http = [], vs_Tcp = []\<rparr>))"

definition virtualServiceNonEgress :: "service_import \<Rightarrow> virtual_service go" where
  "virtualServiceNonEgress s =
     (case importRoutes s of
        Panic \<Rightarrow> Panic
      | Ret rs \<Rightarrow> Ret (with_routes s rs
          \<lparr>vs_meta = new_meta (si_Namespace s) (virtualServiceFromAppPodName s) [],
           vs_Hosts = [si_DNSName s, si_Name s], vs_Gateways = [], vs_ExportTo = [''.''],
           vs_Http = [], vs_Tcp = []\<rparr>))"

text \<open>Creation of a virtual service, and what both modes do with the one that has the routes.\<close>

definition createVirtualService :: "kube \<Rightarrow> virtual_service go \<Rightarrow> world \<Rightarrow> step_result go \<times> world" where
  "createVirtualService K vs w =
     (case vs of
        Panic \<Rightarrow> (Panic, w)
      | Ret v \<Rightarrow>
          (case r_create (k_virtualservices K) v w of
             (Some e, w) \<Rightarrow> (Ret (result_none, Some e, True), w)
           | (None, w) \<Rightarrow> (Ret (result_requeue, None, True), w)))"

definition reconcileRoutes :: "kube \<Rightarrow> service_import \<Rightarrow> virtual_service go
    \<Rightarrow> (go_error + virtual_service) \<Rightarrow> world \<Rightarrow> step_result go \<times> world" where
  "reconcileRoutes K s new found w =
     (case found of
        Inl NotFound \<Rightarrow>
          (if si_Endpoints s = [] then (Ret (result_none, None, False), w)
           else createVirtualService K new w)
      | Inl e \<Rightarrow> (Ret (result_none, Some e, True), w)
      | Inr v \<Rightarrow>
          (if si_Endpoints s = []
           then (case r_delete (k_virtualservices K) (om_Namespace (vs_meta v)) (om_Name (vs_meta v)) w of
                   (Some e, w) \<Rightarrow> (Ret (result_none, Some e, True), w)
                 | (None, w) \<Rightarrow> (Ret (result_none, None, False), w))
           else if importRoutesChanged v s
           then (case importRoutes s of
                   Panic \<Rightarrow> (Panic, w)
                 | Ret rs \<Rightarrow>
                     (case r_update (k_virtualservices K) (with_routes s rs v) w of
                        (Some e, w) \<Rightarrow> (Ret (result_none, Some e, True), w)
                      | (None, w) \<Rightarrow> (Ret (result_requeue, None, True), w)))
           else (Ret (result_none, None, False), w)))"

definition ReconcileVirtualServiceEgress :: "kube \<Rightarrow> service_import \<Rightarrow> world \<Rightarrow> step_result go \<times> world" where
  "ReconcileVirtualServiceEgress K s w =
     (case getVirtualServiceFromAppPod K s w of
        (Inl NotFound, w) \<Rightarrow> createVirtualService K (virtualServiceToEgress s) w
      | (Inl e, w) \<Rightarrow> (Ret (result_none, Some e, True), w)
      | (Inr _, w) \<Rightarrow>
          (case getVirtualServiceFromEgress K s w of
             (found, w) \<Rightarrow> reconcileRoutes K s (virtualServiceFromEgress s) found w))"

definition ReconcileVirtualServiceNonEgress :: "kube \<Rightarrow> service_import \<Rightarrow> world \<Rightarrow> step_result go \<times> world" where
  "ReconcileVirtualServiceNonEgress K s w =
     (case getVirtualServiceFromAppPod K s w of
        (found, w) \<Rightarrow> reconcileRoutes K s (virtualServiceNonEgress s) found w)"

definition DeleteIstioVirtualServicesEgress :: "kube \<Rightarrow> service_import \<Rightarrow> world
    \<Rightarrow> go_error option \<times> world" where
  "DeleteIstioVirtualServicesEgress K s w =
     (case getVirtualServiceFromEgress K s w of
        (Inl NotFound, w) \<Rightarrow> (None, w)
      | (Inl e, w) \<Rightarrow> (Some e, w)
      | (Inr v, w) \<Rightarrow> r_delete (k_virtualservices K) (om_Namespace (vs_meta v)) (om_Name (vs_meta v)) w)"

section \<open>Istio\<close>

definition egressEnabled :: "external_gateway_config \<Rightarrow> bool" where
  "egressEnabled g \<longleftrightarrow> eg_Egress g = Some True"

definition serviceReconcilationNamespace :: "external_gateway_config \<Rightarrow> service_import \<Rightarrow> string" where
  "serviceReconcilationNamespace g s = (if egressEnabled g then ControlPlaneNamespace else si_Namespace s)"

definition reconcileVirtualServices :: "kube \<Rightarrow> service_import \<Rightarrow> string \<Rightarrow> world \<Rightarrow> step_result go \<times> world" where
  "reconcileVirtualServices K s ns w =
     (if ns = ControlPlaneNamespace then ReconcileVirtualServiceEgress K s w
      else ReconcileVirtualServiceNonEgress K s w)"

definition reconcileImportObjects :: "kube \<Rightarrow> service_import \<Rightarrow> string \<Rightarrow> world \<Rightarrow> step_result go \<times> world" where
  "reconcileImportObjects K s ns w =
     (case ReconcileImportService K s w of
        ((res, err, True), w) \<Rightarrow> (Ret (res, err, True), w)
      | ((_, _, False), w) \<Rightarrow>
     (case ReconcileImportEntries K s ns w of
        (Panic, w) \<Rightarrow> (Panic, w)
      | (Ret (res, err, True), w) \<Rightarrow> (Ret (res, err, True), w)
      | (Ret (_, _, False), w) \<Rightarrow>
     (case reconcileVirtualServices K s ns w of
        (Panic, w) \<Rightarrow> (Panic, w)
      | (Ret (res, err, True), w) \<Rightarrow> (Ret (res, err, True), w)
      | (Ret (_, _, False), w) \<Rightarrow> (Ret (result_none, None, False), w))))"

definition reconcileImportIstio :: "kube \<Rightarrow> service_import \<Rightarrow> world \<Rightarrow> step_result go \<times> world" where
  "reconcileImportIstio K s w =
     (case GetSlice K (si_Slice s) w of
        (Inl e, w) \<Rightarrow> (Ret (result_none, Some e, True), w)
      | (Inr sl, w) \<Rightarrow>
     (case sl_Config sl of
        None \<Rightarrow> (Ret (result_none, Some (Failure ''sliceconfig is not reconciled from hub''), True), w)
      | Some c \<Rightarrow>
     (case sc_ExternalGatewayConfig c of
        None \<Rightarrow> (Ret (result_none, None, False), w)
      | Some g \<Rightarrow>
          (if eg_GatewayType g \<noteq> ''istio'' then (Ret (result_none, None, False), w)
           else reconcileImportObjects K s (serviceReconcilationNamespace g s) w))))"

definition DeleteImportIstioResources :: "kube \<Rightarrow> service_import \<Rightarrow> slice_config \<Rightarrow> world
    \<Rightarrow> go_error option \<times> world" where
  "DeleteImportIstioResources K s c w =
     (case sc_ExternalGatewayConfig c of
        None \<Rightarrow> (None, w)
      | Some g \<Rightarrow>
          (if \<not> egressEnabled g then (None, w)
           else (case DeleteImportEntries K s w of
                   (Some e, w) \<Rightarrow> (Some e, w)
                 | (None, w) \<Rightarrow> DeleteIstioVirtualServicesEgress K s w)))"

definition DeleteServiceImportResources :: "kube \<Rightarrow> service_import \<Rightarrow> world \<Rightarrow> go_error option \<times> world" where
  "DeleteServiceImportResources K s w =
     (case GetSlice K (si_Slice s) w of
        (Inl NotFound, w) \<Rightarrow> (None, w)
      | (Inl e, w) \<Rightarrow> (Some e, w)
      | (Inr sl, w) \<Rightarrow>
          (case sl_Config sl of None \<Rightarrow> (None, w) | Some c \<Rightarrow> DeleteImportIstioResources K s c w))"

section \<open>The pass\<close>

definition importFinalizer :: string where
  "importFinalizer = ''networking.kubeslice.io/serviceimport-finalizer''"

definition si_with_finalizers :: "string list \<Rightarrow> service_import \<Rightarrow> service_import" where
  "si_with_finalizers fs s = s\<lparr>si_meta := (si_meta s)\<lparr>om_Finalizers := fs\<rparr>\<rparr>"

definition handleServiceImportDeletion :: "kube \<Rightarrow> service_import \<Rightarrow> world
    \<Rightarrow> (bool \<times> go_error option) \<times> service_import \<times> world" where
  "handleServiceImportDeletion K s w =
     (let fs = om_Finalizers (si_meta s)
      in if om_DeletionTimestamp (si_meta s) = None
         then
           (if \<not> exists fs importFinalizer
            then (let s = si_with_finalizers (fs @ [importFinalizer]) s
                  in case r_update (k_serviceimports K) s w of
                       (Some e, w) \<Rightarrow> ((True, Some e), s, w)
                     | (None, w) \<Rightarrow> ((False, None), s, w))
            else ((False, None), s, w))
         else
           (if exists fs importFinalizer
            then
              (case DeleteServiceImportResources K s w of
                 (Some e, w) \<Rightarrow> ((True, Some e), s, w)
               | (None, w) \<Rightarrow>
                   (let s = si_with_finalizers (filter (\<lambda>f. f \<noteq> importFinalizer) fs) s
                    in case r_update (k_serviceimports K) s w of (r, w) \<Rightarrow> ((True, r), s, w)))
            else ((True, None), s, w)))"

definition updateServiceImportPorts :: "kube \<Rightarrow> service_import \<Rightarrow> world
    \<Rightarrow> (ctrl_result \<times> go_error option) \<times> world" where
  "updateServiceImportPorts K s w =
     (let s = s\<lparr>si_ExposedPorts := portListToDisplayString (si_Ports s),
               si_ImportStatus := (if si_ImportStatus s = '''' then ''PENDING'' else si_ImportStatus s)\<rparr>
      in case r_update_status (k_serviceimports K) s w of
           (Some e, w) \<Rightarrow> ((result_none, Some e), w)
         | (None, w) \<Rightarrow> ((result_requeue, None), w))"

definition importReady :: "kube \<Rightarrow> service_import \<Rightarrow> world \<Rightarrow> (ctrl_result \<times> go_error option) \<times> world" where
  "importReady K s w =
     (if si_ImportStatus s \<noteq> ''READY''
      then (case r_update_status (k_serviceimports K) (s\<lparr>si_ImportStatus := ''READY''\<rparr>) w of
              (Some e, w) \<Rightarrow> ((result_none, Some e), w)
            | (None, w) \<Rightarrow> ((result_after 10, None), w))
      else ((result_after 10, None), w))"

definition importSteps :: "kube \<Rightarrow> service_import \<Rightarrow> world
    \<Rightarrow> (ctrl_result \<times> go_error option) go \<times> world" where
  "importSteps K s w =
     (case reconcileImportIstio K s w of
        (Panic, w) \<Rightarrow> (Panic, w)
      | (Ret (res, err, True), w) \<Rightarrow> (Ret (res, err), w)
      | (Ret (_, _, False), w) \<Rightarrow> (case importReady K s w of (r, w) \<Rightarrow> (Ret r, w)))"

text \<open>The number of endpoints in the status is brought up to date before the istio step.\<close>

definition countEndpoints :: "kube \<Rightarrow> service_import \<Rightarrow> world
    \<Rightarrow> (ctrl_result \<times> go_error option) go \<times> world" where
  "countEndpoints K s w =
     (if si_AvailableEndpoints s \<noteq> int (length (si_Endpoints s))
      then
        (let s = s\<lparr>si_AvailableEndpoints := int (length (si_Endpoints s))\<rparr>
         in case r_update_status (k_serviceimports K) s w of
              (Some e, w) \<Rightarrow> (Ret (result_none, Some e), w)
            | (None, w) \<Rightarrow> importSteps K s w)
      else importSteps K s w)"

definition ImportReconcile :: "kube \<Rightarrow> string \<Rightarrow> string \<Rightarrow> world
    \<Rightarrow> (ctrl_result \<times> go_error option) go \<times> world" where
  "ImportReconcile K reqNamespace reqName w =
     (case r_get (k_serviceimports K) reqNamespace reqName w of
        (Inl NotFound, w) \<Rightarrow> (Ret (result_none, None), w)
      | (Inl e, w) \<Rightarrow> (Ret (result_none, Some e), w)
      | (Inr s, w) \<Rightarrow>
     (case handleServiceImportDeletion K s w of
        ((True, err), s, w) \<Rightarrow> (Ret (result_none, err), w)
      | ((False, _), s, w) \<Rightarrow>
          (if si_ExposedPorts s \<noteq> portListToDisplayString (si_Ports s)
           then (case updateServiceImportPorts K s w of (r, w) \<Rightarrow> (Ret r, w))
           else countEndpoints K s w)))"

end
