(* ===== verification/ImportIstio.thy ===== *)
theory ImportIstio
  imports ServiceImport
begin

text \<open>
  What the service import reconciler keeps: an import at rest is ready, and its service, service
  entries and routes are those of its endpoints.
\<close>

section \<open>What a settled import has\<close>

definition entries_match :: "string \<Rightarrow> labels \<Rightarrow> string list \<Rightarrow> world \<Rightarrow> bool" where
  "entries_match ns ls hosts w \<longleftrightarrow>
     (\<forall>h \<in> set hosts. \<exists>n \<in> set (entries_at ns ls w). entryHost n h)
     \<and> (\<forall>n \<in> set (entries_at ns ls w). \<exists>h \<in> set hosts. entryHost n h)"

definition import_routes :: "service_import \<Rightarrow> virtual_service \<Rightarrow> route_destination list list" where
  "import_routes s v = (if importProtocol s = ''http'' then vs_Http v else vs_Tcp v)"

text \<open>The virtual service under this key routes to the endpoints, and is there only if there are any.\<close>

definition routes_match :: "service_import \<Rightarrow> string \<times> string \<Rightarrow> world \<Rightarrow> bool" where
  "routes_match s k w \<longleftrightarrow>
     (case find (keyed vs_meta (fst k) (snd k)) (w_virtualservices w) of
        None \<Rightarrow> si_Endpoints s = []
      | Some v \<Rightarrow> si_Endpoints s \<noteq> [] \<and> (\<exists>rs. import_routes s v = [rs] \<and> map rt_Host rs = si_Hosts s))"

definition routing_key :: "service_import \<Rightarrow> string \<Rightarrow> string \<times> string" where
  "routing_key s ns =
     (if ns = ControlPlaneNamespace then (ControlPlaneNamespace, virtualServiceFromEgressName s)
      else (si_Namespace s, virtualServiceFromAppPodName s))"

definition import_settled :: "service_import \<Rightarrow> string \<Rightarrow> world \<Rightarrow> bool" where
  "import_settled s ns w \<longleftrightarrow>
     find (keyed s_meta (si_Namespace s) (si_Name s)) (w_services w) \<noteq> None
     \<and> entries_match ns (labelsForImportEntry s) (si_Hosts s) w
     \<and> routes_match s (routing_key s ns) w"

text \<open>The istio objects of two worlds are the same.\<close>

definition same_istio :: "world \<Rightarrow> world \<Rightarrow> bool" where
  "same_istio w w' \<longleftrightarrow> w_services w' = w_services w \<and> w_serviceentries w' = w_serviceentries w
     \<and> w_virtualservices w' = w_virtualservices w"

lemma same_istio_refl [simp, intro]: "same_istio w w"
  by (simp add: same_istio_def)

lemma same_istio_trans [trans]: "same_istio w v \<Longrightarrow> same_istio v u \<Longrightarrow> same_istio w u"
  by (simp add: same_istio_def)

lemma same_istio_tick [simp, intro]: "same_istio w (tick w)"
  by (simp add: same_istio_def)

lemma same_istio_settled: "same_istio w w' \<Longrightarrow> import_settled s ns w' = import_settled s ns w"
  by (simp add: same_istio_def import_settled_def entries_match_def entries_at_def routes_match_def)

lemma import_settled_spec:
  assumes "si_meta s' = si_meta s" "si_Slice s' = si_Slice s" "si_Ports s' = si_Ports s"
    "si_Endpoints s' = si_Endpoints s"
  shows "import_settled s' ns w = import_settled s ns w"
proof -
  have "labelsForImportEntry s' = labelsForImportEntry s" "routing_key s' ns = routing_key s ns"
    "import_routes s' = import_routes s"
    using assms by (simp_all add: labelsForImportEntry_def routing_key_def virtualServiceFromEgressName_def
        virtualServiceFromAppPodName_def import_routes_def importProtocol_def fun_eq_iff)
  with assms show ?thesis by (simp add: import_settled_def routes_match_def split: option.split)
qed

section \<open>The istio step\<close>

context lawful
begin

lemma import_service:
  assumes "ReconcileImportService K s w = ((res, err, False), w')"
  shows "w' = tick w" and "find (keyed s_meta (si_Namespace s) (si_Name s)) (w_services w) \<noteq> None"
proof -
  obtain q v where q: "r_get (k_services K) (si_Namespace s) (si_Name s) w = (q, v)" by fastforce
  have v: "v = tick w" by (rule svc.get_world [OF q])
  have "w' = v \<and> (\<exists>x. q = Inr x)"
    using assms q unfolding ReconcileImportService_def
    by (cases q) (auto split: go_error.split_asm prod.split_asm option.split_asm)
  with v q svc.get_ok [of "si_Namespace s" "si_Name s" w _ v]
  show "w' = tick w" and "find (keyed s_meta (si_Namespace s) (si_Name s)) (w_services w) \<noteq> None" by auto
qed

lemma created_entry_requeues:
  "createMissingEntry K s ns es w = (Ret (Some (res, err, f)), w') \<Longrightarrow> f"
  by (auto simp: createMissingEntry_def split: option.split_asm go.split_asm prod.split_asm)

lemma no_missing_entry:
  assumes "createMissingEntry K s ns es w = (Ret None, w')"
  shows "w' = w \<and> (\<forall>h \<in> set (si_Hosts s). \<exists>n \<in> set es. entryHost n h)"
proof -
  have "find (\<lambda>e. \<not> importEntryExists es e) (si_Endpoints s) = None" "w' = w"
    using assms by (auto simp: createMissingEntry_def split: option.split_asm go.split_asm prod.split_asm)
  then show ?thesis by (auto simp: find_None_iff importEntryExists_def list_ex_iff)
qed

lemma import_entries:
  assumes r: "ReconcileImportEntries K s ns w = (Ret (res, err, False), w')"
    and dns: "distinct (si_Hosts s)" and keys: "unique_keys w"
  shows "entries_match ns (labelsForImportEntry s) (si_Hosts s) w'"
    and "w_services w' = w_services w" and "w_virtualservices w' = w_virtualservices w"
proof -
  let ?ls = "labelsForImportEntry s" and ?hs = "si_Hosts s"
  let ?P = "entries_match ns ?ls ?hs w' \<and> w_services w' = w_services w \<and> w_virtualservices w' = w_virtualservices w"
  obtain l w1 where l: "getServiceEntriesForSI K s ns w = (l, w1)" by fastforce
  obtain es where es: "l = Inr es" using r l by (cases l) (auto simp: ReconcileImportEntries_def)
  have w1: "w1 = tick w" "es = entries_at ns ?ls w"
    using l es sen.list_ok [of "in_namespace ns ?ls" w es w1]
    by (simp_all add: getServiceEntriesForSI_def entries_at_def)
  obtain q w2 where q: "createMissingEntry K s ns es w1 = (q, w2)" by fastforce
  have qn: "q = Ret None"
    using r l es q created_entry_requeues [of s ns es w1] unfolding ReconcileImportEntries_def
    by (auto split: go.split_asm option.split_asm)
  note served = no_missing_entry [OF q [unfolded qn]]
  have ?P
  proof (cases "length (si_Endpoints s) = length es")
    case True
    then have "w' = w2" using r l es q qn by (simp add: ReconcileImportEntries_def)
    moreover have "entries_match ns ?ls ?hs w"
      using served entries_exact [of es ?hs] True dns w1(2) by (auto simp: entries_match_def)
    ultimately show ?thesis using served w1 by (simp add: entries_match_def entries_at_def)
  next
    case False
    obtain ds where ds: "importEntriesToDelete es s = Ret ds"
      using r l es q qn False by (cases "importEntriesToDelete es s") (auto simp: ReconcileImportEntries_def)
    have d: "deleteAll (k_serviceentries K) sn_meta ds w2 = (None, w')"
      using r l es q qn False ds by (auto simp: ReconcileImportEntries_def split: prod.split_asm option.split_asm)
    from stale_deleted [OF ds [unfolded importEntriesToDelete_def w1(2)] d _ keys] served w1
    have mem: "n \<in> set (entries_at ns ?ls w') \<longleftrightarrow> n \<in> set es \<and> (\<exists>h \<in> set ?hs. entryHost n h)" for n
      by simp
    have "w_services w' = w_services w2 \<and> w_virtualservices w' = w_virtualservices w2"
      by (rule sen.deleteAll_keeps [OF d]) (auto simp: same_istio_def)
    then show ?thesis using mem served w1 unfolding entries_match_def by fastforce
  qed
  then show "entries_match ns (labelsForImportEntry s) (si_Hosts s) w'"
    and "w_services w' = w_services w" and "w_virtualservices w' = w_virtualservices w" by blast+
qed

lemma settled_routes:
  assumes r: "reconcileRoutes K s new found w1 = (Ret (res, err, False), w')"
    and q: "r_get (k_virtualservices K) (fst k) (snd k) w = (found, w1)"
  shows "w_services w' = w_services w \<and> w_serviceentries w' = w_serviceentries w \<and> routes_match s k w'"
proof -
  have w1: "w1 = tick w" by (rule vsv.get_world [OF q])
  have c: "createVirtualService K new w1 \<noteq> (Ret (a, b, False), u)" for a b u
    by (auto simp: createVirtualService_def split: go.split prod.split option.split)
  show ?thesis
  proof (cases found)
    case (Inl e)
    with r c have "e = NotFound" "si_Endpoints s = []" "w' = w1"
      by (auto simp: reconcileRoutes_def split: go_error.split_asm if_split_asm)
    with vsv.get_err [of "fst k" "snd k" w e w1] q Inl w1 show ?thesis by (simp add: routes_match_def)
  next
    case (Inr v)
    have v: "find (keyed vs_meta (fst k) (snd k)) (w_virtualservices w) = Some v"
      using vsv.get_ok [of "fst k" "snd k" w v w1] q Inr by simp
    then have key: "om_Namespace (vs_meta v) = fst k" "om_Name (vs_meta v) = snd k"
      using find_Some_iff' by (fastforce simp: keyed_def)+
    show ?thesis
    proof (cases "si_Endpoints s = []")
      case True
      then have "r_delete (k_virtualservices K) (fst k) (snd k) w1 = (None, w')"
        using r Inr key by (auto simp: reconcileRoutes_def split: prod.split_asm option.split_asm)
      with vsv.delete_gone [of "fst k" "snd k" w1 None w'] vsv.delete_ok [of "fst k" "snd k" w1 w']
        True w1 show ?thesis by (simp add: routes_match_def)
    next
      case False
      then have "\<not> importRoutesChanged v s" "w' = w1"
        using r Inr by (auto simp: reconcileRoutes_def split: if_split_asm go.split_asm prod.split_asm option.split_asm)
      with routes_unchanged_iff [of "import_routes s v" "si_Hosts s"] False v w1 show ?thesis
        by (simp add: importRoutesChanged_def import_routes_def routes_match_def)
    qed
  qed
qed

lemma import_virtual_services:
  assumes "reconcileVirtualServices K s ns w = (Ret (res, err, False), w')"
  shows "w_services w' = w_services w \<and> w_serviceentries w' = w_serviceentries w
    \<and> routes_match s (routing_key s ns) w'"
proof (cases "ns = ControlPlaneNamespace")
  case True
  obtain a v where a: "getVirtualServiceFromAppPod K s w = (a, v)" by fastforce
  have v: "v = tick w" using vsv.get_world a by (simp add: getVirtualServiceFromAppPod_def)
  have c: "createVirtualService K new u \<noteq> (Ret (x, y, False), u')" for new u x y u'
    by (auto simp: createVirtualService_def split: go.split prod.split option.split)
  obtain f w1 where f: "getVirtualServiceFromEgress K s v = (f, w1)" by fastforce
  have "reconcileRoutes K s (virtualServiceFromEgress s) f w1 = (Ret (res, err, False), w')"
    using assms True a f c unfolding reconcileVirtualServices_def ReconcileVirtualServiceEgress_def
    by (auto split: sum.split_asm go_error.split_asm)
  from settled_routes [OF this, of "routing_key s ns" v] f True v show ?thesis
    by (simp add: getVirtualServiceFromEgress_def routing_key_def)
next
  case False
  obtain f w1 where f: "getVirtualServiceFromAppPod K s w = (f, w1)" by fastforce
  have "reconcileRoutes K s (virtualServiceNonEgress s) f w1 = (Ret (res, err, False), w')"
    using assms False f by (simp add: reconcileVirtualServices_def ReconcileVirtualServiceNonEgress_def)
  from settled_routes [OF this, of "routing_key s ns" w] f False show ?thesis
    by (simp add: getVirtualServiceFromAppPod_def routing_key_def)
qed

lemma import_objects:
  assumes r: "reconcileImportObjects K s ns w = (Ret (res, err, False), w')"
    and dns: "distinct (si_Hosts s)" and keys: "unique_keys w"
  shows "import_settled s ns w'"
proof -
  obtain r1 e1 f1 v1 where a: "ReconcileImportService K s w = ((r1, e1, f1), v1)"
    by (cases "ReconcileImportService K s w") auto
  have f1: "\<not> f1" using r a by (auto simp: reconcileImportObjects_def)
  note s1 = import_service [OF a [simplified f1]]
  obtain q v2 where b: "ReconcileImportEntries K s ns v1 = (q, v2)" by fastforce
  obtain r2 e2 where q: "q = Ret (r2, e2, False)"
    using r a f1 b unfolding reconcileImportObjects_def
    by (cases q) (auto split: prod.split_asm bool.split_asm)
  have k1: "unique_keys v1" using keys s1(1) by (simp add: unique_keys_def)
  note s2 = import_entries [OF b [unfolded q] dns k1]
  obtain x v3 where c: "reconcileVirtualServices K s ns v2 = (x, v3)" by fastforce
  obtain r3 e3 where x: "x = Ret (r3, e3, False)" "v3 = w'"
    using r a f1 b q c unfolding reconcileImportObjects_def
    by (cases x) (auto split: prod.split_asm bool.split_asm)
  from import_virtual_services [OF c [unfolded x]] s1 s2 show ?thesis
    by (simp add: import_settled_def entries_match_def entries_at_def)
qed


text \<open>The step does not touch the imports.\<close>

lemma import_objects_keep:
  assumes "reconcileImportObjects K s ns w = (r, w')"
  shows "w_serviceimports w' = w_serviceimports w"
proof -
  let ?k = w_serviceimports
  have vc: "?k v = ?k u" if "r_create (k_virtualservices K) y u = (x, v)" for x y u v
    using that by (cases x) (auto dest: vsv.create_ok vsv.create_err)
  have vu: "?k v = ?k u" if "r_update (k_virtualservices K) y u = (x, v)" for x y u v
    using that by (cases x) (auto dest: vsv.update_ok vsv.update_err)
  have vd: "?k v = ?k u" if "r_delete (k_virtualservices K) a b u = (x, v)" for x a b u v
    using that by (cases x) (auto dest: vsv.delete_ok vsv.delete_err)
  have sc: "?k v = ?k u" if "r_create (k_services K) y u = (x, v)" for x y u v
    using that by (cases x) (auto dest: svc.create_ok svc.create_err)
  have ec: "?k v = ?k u" if "r_create (k_serviceentries K) y u = (x, v)" for x y u v
    using that by (cases x) (auto dest: sen.create_ok sen.create_err)
  have ed: "?k v = ?k u" if "deleteAll (k_serviceentries K) sn_meta ds u = (x, v)" for ds x u v
    by (rule sen.deleteAll_keeps [OF that]) auto
  have cv: "?k v = ?k u" if "createVirtualService K new u = (x, v)" for new x u v
    using that by (auto simp: createVirtualService_def split: go.split_asm prod.split_asm option.split_asm dest: vc)
  have rr: "?k v = ?k u" if "reconcileRoutes K s new f u = (x, v)" for new f x u v
    using that unfolding reconcileRoutes_def
    by (auto split: sum.split_asm go_error.split_asm if_split_asm go.split_asm prod.split_asm option.split_asm
        dest: cv vu vd)
  have vs: "?k v = ?k u" if "reconcileVirtualServices K s ns u = (x, v)" for x u v
    using that unfolding reconcileVirtualServices_def ReconcileVirtualServiceEgress_def
      ReconcileVirtualServiceNonEgress_def getVirtualServiceFromAppPod_def getVirtualServiceFromEgress_def
    by (auto split: sum.split_asm go_error.split_asm if_split_asm prod.split_asm dest!: vsv.get_world rr cv)
  have en: "?k v = ?k u" if "ReconcileImportEntries K s ns u = (x, v)" for x u v
    using that unfolding ReconcileImportEntries_def getServiceEntriesForSI_def createMissingEntry_def
    by (auto split: sum.split_asm if_split_asm go.split_asm prod.split_asm option.split_asm
        dest!: sen.list_world ec ed)
  have se: "?k v = ?k u" if "ReconcileImportService K s u = (x, v)" for x u v
    using that unfolding ReconcileImportService_def
    by (auto split: sum.split_asm go_error.split_asm prod.split_asm option.split_asm dest!: svc.get_world sc)
  from assms show ?thesis unfolding reconcileImportObjects_def
    by (auto split: go.split_asm prod.split_asm bool.split_asm dest!: vs en se)
qed

end

section \<open>What the steps return\<close>

lemma result_after_10 [simp]: "result_none \<noteq> result_after 10" "result_requeue \<noteq> result_after 10"
  by (simp_all add: result_none_def result_requeue_def result_after_def)

lemma import_objects_result:
  assumes "reconcileImportObjects K s ns w = (Ret (res, err, True), w')"
  shows "res \<noteq> result_after 10"
proof -
  have c: "x \<noteq> result_after 10" if "createVirtualService K new v = (Ret (x, y, z), v')" for new v x y z v'
    using that by (auto simp: createVirtualService_def split: go.split_asm prod.split_asm option.split_asm)
  have r: "x \<noteq> result_after 10" if "reconcileRoutes K s new f v = (Ret (x, y, z), v')" for new f v x y z v'
    using that unfolding reconcileRoutes_def
    by (auto split: sum.split_asm go_error.split_asm if_split_asm go.split_asm prod.split_asm option.split_asm
        dest: c)
  have v: "x \<noteq> result_after 10" if "reconcileVirtualServices K s ns v = (Ret (x, y, z), v')" for v x y z v'
    using that unfolding reconcileVirtualServices_def ReconcileVirtualServiceEgress_def
      ReconcileVirtualServiceNonEgress_def
    by (auto split: sum.split_asm go_error.split_asm if_split_asm prod.split_asm dest: r c)
  have e: "x \<noteq> result_after 10" if "ReconcileImportEntries K s ns v = (Ret (x, y, z), v')" for v x y z v'
    using that unfolding ReconcileImportEntries_def createMissingEntry_def
    by (auto split: sum.split_asm if_split_asm go.split_asm prod.split_asm option.split_asm)
  have s: "x \<noteq> result_after 10" if "ReconcileImportService K s v = ((x, y, z), v')" for v x y z v'
    using that unfolding ReconcileImportService_def
    by (auto split: sum.split_asm go_error.split_asm prod.split_asm option.split_asm)
  from assms show ?thesis unfolding reconcileImportObjects_def
    by (auto split: go.split_asm prod.split_asm bool.split_asm dest: v e s)
qed

section \<open>The pass\<close>

text \<open>The external gateway configuration of an import's slice, if its gateways are istio's.\<close>

definition istio_of :: "service_import \<Rightarrow> world \<Rightarrow> external_gateway_config option" where
  "istio_of s w =
     (case find (keyed sl_meta ControlPlaneNamespace (si_Slice s)) (w_slices w) of
        None \<Rightarrow> None
      | Some sl \<Rightarrow> (case sl_Config sl of None \<Rightarrow> None
          | Some c \<Rightarrow> (case sc_ExternalGatewayConfig c of None \<Rightarrow> None
              | Some g \<Rightarrow> if eg_GatewayType g = ''istio'' then Some g else None)))"

definition stored_import :: "string \<Rightarrow> string \<Rightarrow> service_import \<Rightarrow> world \<Rightarrow> bool" where
  "stored_import ns n s w \<longleftrightarrow> find (keyed si_meta ns n) (w_serviceimports w) = Some s"

text \<open>What a pass may change of an import before the istio step.\<close>

definition same_import :: "service_import \<Rightarrow> service_import \<Rightarrow> bool" where
  "same_import s s' \<longleftrightarrow> si_Namespace s' = si_Namespace s \<and> si_Name s' = si_Name s
     \<and> si_Slice s' = si_Slice s \<and> si_Ports s' = si_Ports s \<and> si_Endpoints s' = si_Endpoints s
     \<and> si_ExposedPorts s' = si_ExposedPorts s"

lemma same_import_istio: "same_import s s' \<Longrightarrow> w_slices v = w_slices w \<Longrightarrow> istio_of s' v = istio_of s w"
  by (simp add: same_import_def istio_of_def)

context lawful
begin

lemma import_stored:
  assumes "stored_import ns n s w" and "si_Namespace s' = si_Namespace s" "si_Name s' = si_Name s"
    and "r_update (k_serviceimports K) s' w = (None, w') \<or> r_update_status (k_serviceimports K) s' w = (None, w')"
  shows "stored_import ns n s' w'" and "same_istio w w'" and "w_slices w' = w_slices w"
proof -
  have w': "w' = tick (w_serviceimports_update (replace_object si_meta s') w)"
    using assms(4) svi.update_ok svi.update_status_ok by blast
  have "keyed si_meta ns n s'"
    using find_Some_iff' [of "keyed si_meta ns n" "w_serviceimports w" s] assms(1-3)
    by (auto simp: keyed_def stored_import_def)
  with assms(1) show "stored_import ns n s' w'"
    using w' find_replace_key [of si_meta ns n "w_serviceimports w" s s'] by (simp add: stored_import_def)
  show "same_istio w w'" "w_slices w' = w_slices w" using w' by (simp_all add: same_istio_def)
qed

lemma import_not_deleted:
  assumes st: "stored_import ns n s w" and r: "handleServiceImportDeletion K s w = ((False, err), s', w')"
  shows "stored_import ns n s' w' \<and> same_istio w w' \<and> w_slices w' = w_slices w \<and> same_import s s'"
proof -
  let ?s = "si_with_finalizers (om_Finalizers (si_meta s) @ [importFinalizer]) s"
  obtain u v where u: "r_update (k_serviceimports K) ?s w = (u, v)" by fastforce
  have "(w' = w \<and> s' = s) \<or> (w' = v \<and> s' = ?s \<and> u = None)"
    using r u unfolding handleServiceImportDeletion_def Let_def
    by (cases u) (auto split: if_split_asm option.split_asm prod.split_asm)
  then show ?thesis
  proof
    assume "w' = v \<and> s' = ?s \<and> u = None"
    with import_stored [of ns n s w ?s v] st u show ?thesis
      by (simp add: si_with_finalizers_def same_import_def)
  qed (use st in \<open>simp add: same_import_def\<close>)
qed

lemma import_ready:
  assumes st: "stored_import ns n s w" and r: "importReady K s w = ((result_after 10, err), w')"
  shows "stored_import ns n (s\<lparr>si_ImportStatus := ''READY''\<rparr>) w' \<and> same_istio w w'"
proof -
  let ?s = "s\<lparr>si_ImportStatus := ''READY''\<rparr>"
  obtain u v where u: "r_update_status (k_serviceimports K) ?s w = (u, v)" by fastforce
  have "(w' = w \<and> si_ImportStatus s = ''READY'') \<or> (w' = v \<and> u = None)"
    using r u unfolding importReady_def by (cases u) (auto split: if_split_asm)
  then show ?thesis
  proof
    assume "w' = v \<and> u = None"
    with import_stored [of ns n s w ?s v] st u show ?thesis by simp
  next
    assume w: "w' = w \<and> si_ImportStatus s = ''READY''"
    then have "?s = s" by (cases s) simp
    then show ?thesis unfolding \<open>?s = s\<close> using st w by simp
  qed
qed

lemma import_steps:
  assumes st: "stored_import ns n s w" and r: "importSteps K s w = (Ret (result_after 10, None), w')"
    and dns: "distinct (si_Hosts s)" and keys: "unique_keys w"
  shows "stored_import ns n (s\<lparr>si_ImportStatus := ''READY''\<rparr>) w'
    \<and> (case istio_of s w of None \<Rightarrow> True | Some g \<Rightarrow> import_settled s (serviceReconcilationNamespace g s) w')"
proof -
  let ?settled = "\<lambda>v. case istio_of s w of None \<Rightarrow> True
    | Some g \<Rightarrow> import_settled s (serviceReconcilationNamespace g s) v"
  obtain q w1 where q: "r_get (k_slices K) ControlPlaneNamespace (si_Slice s) w = (q, w1)" by fastforce
  have w1: "w1 = tick w" by (rule slice.get_world [OF q])
  have k1: "unique_keys w1" using keys w1 by (simp add: unique_keys_def)
  obtain x v where i: "reconcileImportIstio K s w = (x, v)" by fastforce
  have v: "w_serviceimports v = w_serviceimports w"
    using i q w1 import_objects_keep unfolding reconcileImportIstio_def GetSlice_def
    by (fastforce split: sum.split_asm option.split_asm if_split_asm)
  obtain res err f where x: "x = Ret (res, err, f)" using r i by (cases x) (auto simp: importSteps_def)
  have f: "\<not> f"
  proof
    assume f
    with i x q have "res \<noteq> result_after 10" unfolding reconcileImportIstio_def GetSlice_def
      by (auto split: sum.split_asm option.split_asm if_split_asm dest: import_objects_result)
    with r i x \<open>f\<close> show False by (simp add: importSteps_def)
  qed
  have "?settled v"
  proof (cases "istio_of s w")
    case (Some g)
    then obtain sl c where sl: "find (keyed sl_meta ControlPlaneNamespace (si_Slice s)) (w_slices w) = Some sl"
        "sl_Config sl = Some c" "sc_ExternalGatewayConfig c = Some g" "eg_GatewayType g = ''istio''"
      by (auto simp: istio_of_def split: option.split_asm if_split_asm)
    have "q = Inr sl"
      using i x f q sl(1) slice.get_ok [of ControlPlaneNamespace "si_Slice s" w _ w1]
      by (cases q) (auto simp: reconcileImportIstio_def GetSlice_def)
    then have "reconcileImportObjects K s (serviceReconcilationNamespace g s) w1 = (Ret (res, err, False), v)"
      using i x f q sl by (simp add: reconcileImportIstio_def GetSlice_def)
    from import_objects [OF this dns k1] Some show ?thesis by simp
  qed simp
  moreover have "importReady K s v = ((result_after 10, None), w')"
    using r i x f by (auto simp: importSteps_def split: prod.split_asm)
  ultimately show ?thesis
    using import_ready [of ns n s v None w'] st v same_istio_settled [of v w']
    by (auto simp: stored_import_def split: option.splits)
qed

lemma import_at_rest:
  assumes r: "ImportReconcile K ns n w = (Ret (result_after 10, None), w')"
    and st: "stored_import ns n s w" and dns: "distinct (si_Hosts s)" and keys: "unique_keys w"
  shows "\<exists>s'. stored_import ns n s' w' \<and> same_import s s' \<and> si_ImportStatus s' = ''READY''
    \<and> si_AvailableEndpoints s' = int (length (si_Endpoints s))
    \<and> si_ExposedPorts s' = portListToDisplayString (si_Ports s)
    \<and> (case istio_of s w of None \<Rightarrow> True | Some g \<Rightarrow> import_settled s' (serviceReconcilationNamespace g s') w')"
proof -
  obtain q v where q: "r_get (k_serviceimports K) ns n w = (q, v)" by fastforce
  have v: "v = tick w" by (rule svi.get_world [OF q])
  have q': "q = Inr s"
  proof (rule svi.get_tolerant [OF q])
    show "find (keyed si_meta ns n) (w_serviceimports w) = Some s" using st by (simp add: stored_import_def)
    show "e = NotFound" if "q = Inl e" for e
      using r q that by (cases e) (simp_all add: ImportReconcile_def)
  qed
  have st1: "stored_import ns n s v" using st v by (simp add: stored_import_def)
  obtain stop e1 s1 v1 where h: "handleServiceImportDeletion K s v = ((stop, e1), s1, v1)"
    by (cases "handleServiceImportDeletion K s v") auto
  have stop: "\<not> stop" using r q q' h by (auto simp: ImportReconcile_def)
  note d = import_not_deleted [OF st1 h [simplified stop]]
  have ports: "si_ExposedPorts s1 = portListToDisplayString (si_Ports s1)"
    using r q q' h stop by (auto simp: ImportReconcile_def updateServiceImportPorts_def Let_def
        split: if_split_asm prod.split_asm option.split_asm)
  have c: "countEndpoints K s1 v1 = (Ret (result_after 10, None), w')"
    using r q q' h stop ports by (simp add: ImportReconcile_def)
  let ?s = "s1\<lparr>si_AvailableEndpoints := int (length (si_Endpoints s1))\<rparr>"
  obtain u v2 where u: "r_update_status (k_serviceimports K) ?s v1 = (u, v2)" by fastforce
  obtain s2 v3 where s2: "importSteps K s2 v3 = (Ret (result_after 10, None), w')" "stored_import ns n s2 v3"
    "same_istio v1 v3" "w_slices v3 = w_slices v1" "s2 = ?s"
  proof (cases "si_AvailableEndpoints s1 = int (length (si_Endpoints s1))")
    case True
    then have "?s = s1" by simp
    with that [of s1 v1] c d True show ?thesis by (simp add: countEndpoints_def)
  next
    case False
    with c u have "importSteps K ?s v2 = (Ret (result_after 10, None), w')" "u = None"
      by (auto simp: countEndpoints_def Let_def split: option.split_asm)
    with import_stored [of ns n s1 v1 ?s v2] d u that [of ?s v2] show ?thesis by simp
  qed
  have same: "same_import s s2" using d s2(5) by (simp add: same_import_def)
  have k: "unique_keys v3" "distinct (si_Hosts s2)" "istio_of s2 v3 = istio_of s w"
    using keys v d s2(3,4) dns same same_import_istio [OF same, of v3 w]
    by (simp_all add: unique_keys_def same_istio_def same_import_def)
  let ?r = "s2\<lparr>si_ImportStatus := ''READY''\<rparr>"
  have "serviceReconcilationNamespace g ?r = serviceReconcilationNamespace g s2" for g
    by (simp add: serviceReconcilationNamespace_def)
  then have "stored_import ns n ?r w'
      \<and> (case istio_of s w of None \<Rightarrow> True | Some g \<Rightarrow> import_settled ?r (serviceReconcilationNamespace g ?r) w')"
    using import_steps [OF s2(2,1) k(2,1)] k(3) import_settled_spec [of ?r s2] by (cases "istio_of s w") simp_all
  then show ?thesis using same ports s2(5) d by (intro exI [of _ ?r]) (auto simp: same_import_def)
qed

end

section \<open>Egress and deletion\<close>

context lawful
begin

text \<open>The routes under a key touch no other virtual service.\<close>

lemma other_virtual_service:
  assumes q: "r_get (k_virtualservices K) (fst k) (snd k) w = (found, w1)"
    and r: "reconcileRoutes K s new found w1 = (r, w')"
    and new: "\<And>v. new = Ret v \<Longrightarrow> (om_Namespace (vs_meta v), om_Name (vs_meta v)) = k"
    and other: "(ns, n) \<noteq> k"
  shows "find (keyed vs_meta ns n) (w_virtualservices w') = find (keyed vs_meta ns n) (w_virtualservices w)"
proof -
  let ?f = "\<lambda>w. find (keyed vs_meta ns n) (w_virtualservices w)"
  have w1: "w1 = tick w" by (rule vsv.get_world [OF q])
  have c: "?f u' = ?f u" if "r_create (k_virtualservices K) v u = (x, u')" "new = Ret v" for v u x u'
  proof -
    have "\<not> keyed vs_meta ns n v" using new [OF that(2)] other by (auto simp: keyed_def)
    then show ?thesis
      using that(1) by (cases x) (auto simp: find_append_new dest!: vsv.create_ok vsv.create_err)
  qed
  have cv: "?f u' = ?f u" if "createVirtualService K new u = (x, u')" for u x u'
    using that by (auto simp: createVirtualService_def split: go.split_asm prod.split_asm option.split_asm dest: c)
  have up: "?f u' = ?f u" if "r_update (k_virtualservices K) v u = (x, u')"
      "(om_Namespace (vs_meta v), om_Name (vs_meta v)) = k" for v u x u'
  proof -
    have "\<not> keyed vs_meta ns n v" using that(2) other by (auto simp: keyed_def)
    then show ?thesis
      using that(1) by (cases x) (auto simp: find_replace_other dest!: vsv.update_ok vsv.update_err)
  qed
  have d: "?f u' = ?f u" if "r_delete (k_virtualservices K) (fst k) (snd k) u = (x, u')" for u x u'
    using that other by (cases x; cases k) (auto simp: find_remove_other dest: vsv.delete_ok vsv.delete_err)
  show ?thesis
  proof (cases found)
    case (Inl e)
    with r w1 cv show ?thesis
      by (auto simp: reconcileRoutes_def split: go_error.split_asm if_split_asm)
  next
    case (Inr v)
    then have key: "(om_Namespace (vs_meta v), om_Name (vs_meta v)) = k"
      using find_Some_iff' [of _ _ v] vsv.get_ok [of "fst k" "snd k" w v w1] q by (force simp: keyed_def)
    then have "vs_meta (with_routes s rs v) = vs_meta v" "fst k = om_Namespace (vs_meta v)"
      "snd k = om_Name (vs_meta v)" for rs by (auto simp: with_routes_def)
    with r Inr w1 d up [of "with_routes s _ v"] key show ?thesis
      by (auto simp: reconcileRoutes_def split: if_split_asm go.split_asm prod.split_asm option.split_asm)
  qed
qed

lemma egress_keeps:
  assumes r: "ReconcileVirtualServiceEgress K s w = (r, w')"
    and v: "find (keyed vs_meta (si_Namespace s) (si_Name s)) (w_virtualservices w) = Some v"
    and ns: "si_Namespace s \<noteq> ControlPlaneNamespace"
  shows "find (keyed vs_meta (si_Namespace s) (si_Name s)) (w_virtualservices w') = Some v"
proof -
  obtain a u where a: "getVirtualServiceFromAppPod K s w = (a, u)" by fastforce
  then have g: "r_get (k_virtualservices K) (si_Namespace s) (si_Name s) w = (a, u)"
    by (simp add: getVirtualServiceFromAppPod_def virtualServiceFromAppPodName_def)
  have u: "u = tick w" by (rule vsv.get_world [OF g])
  show ?thesis
  proof (cases a)
    case (Inl e)
    with vsv.get_err [of "si_Namespace s" "si_Name s" w e u] g v have "e \<noteq> NotFound" by auto
    with r a Inl u v show ?thesis
      by (auto simp: ReconcileVirtualServiceEgress_def split: go_error.split_asm)
  next
    case (Inr y)
    obtain f u1 where f: "getVirtualServiceFromEgress K s u = (f, u1)" by fastforce
    let ?k = "(ControlPlaneNamespace, virtualServiceFromEgressName s)"
    have rr: "reconcileRoutes K s (virtualServiceFromEgress s) f u1 = (r, w')"
      using r a Inr f by (simp add: ReconcileVirtualServiceEgress_def)
    have "(om_Namespace (vs_meta x), om_Name (vs_meta x)) = ?k" if "virtualServiceFromEgress s = Ret x" for x
      using that by (auto simp: virtualServiceFromEgress_def with_routes_def split: go.split_asm if_split_asm)
    from other_virtual_service [of ?k u f u1, OF _ rr this] f ns u v show ?thesis
      by (simp add: getVirtualServiceFromEgress_def)
  qed
qed

text \<open>With every deletion of an entry refused, no entry is deleted.\<close>

lemma refused_deletions:
  assumes "\<And>ns n w. fst (r_delete (k_serviceentries K) ns n w) \<noteq> None"
    and "deleteAll (k_serviceentries K) sn_meta ds w = (r, w')"
  shows "w_serviceentries w' = w_serviceentries w"
proof (cases ds)
  case (Cons d ds')
  obtain x v where x: "r_delete (k_serviceentries K) (om_Namespace (sn_meta d)) (om_Name (sn_meta d)) w = (x, v)"
    by fastforce
  then obtain e where "x = Some e"
    using assms(1) [of "om_Namespace (sn_meta d)" "om_Name (sn_meta d)" w] by (cases x) auto
  with assms(2) Cons x sen.delete_err [of "om_Namespace (sn_meta d)" "om_Name (sn_meta d)" w e v]
  show ?thesis by auto
qed (use assms(2) in simp)

lemma leaked_entries:
  assumes no: "\<And>ns n w. fst (r_delete (k_serviceentries K) ns n w) \<noteq> None"
    and r: "DeleteServiceImportResources K s w = (x, w')"
  shows "w_serviceentries w' = w_serviceentries w"
proof -
  have e: "w_serviceentries v = w_serviceentries u" if "DeleteImportEntries K s u = (y, v)" for y u v
    using that unfolding DeleteImportEntries_def getServiceEntriesForSI_def
    by (auto split: prod.split_asm sum.split_asm go_error.split_asm dest!: sen.list_world refused_deletions [OF no])
  have d: "w_serviceentries v = w_serviceentries u" if "r_delete (k_virtualservices K) a b u = (y, v)" for a b y u v
    using that by (cases y) (auto dest: vsv.delete_ok vsv.delete_err)
  have vs: "w_serviceentries v = w_serviceentries u" if "DeleteIstioVirtualServicesEgress K s u = (y, v)" for y u v
    using that unfolding DeleteIstioVirtualServicesEgress_def getVirtualServiceFromEgress_def
    by (auto split: prod.split_asm sum.split_asm go_error.split_asm dest!: vsv.get_world d)
  from r show ?thesis unfolding DeleteServiceImportResources_def GetSlice_def DeleteImportIstioResources_def
    by (auto split: prod.split_asm sum.split_asm go_error.split_asm option.split_asm if_split_asm
        dest!: slice.get_world e vs)
qed

lemma deletion_leaks:
  assumes no: "\<And>ns n w. fst (r_delete (k_serviceentries K) ns n w) \<noteq> None"
    and t: "om_DeletionTimestamp (si_meta s) \<noteq> None" and f: "importFinalizer \<in> set (om_Finalizers (si_meta s))"
    and r: "handleServiceImportDeletion K s w = ((stop, None), s', w')"
  shows "importFinalizer \<notin> set (om_Finalizers (si_meta s')) \<and> w_serviceentries w' = w_serviceentries w"
proof -
  let ?s = "si_with_finalizers (filter (\<lambda>f. f \<noteq> importFinalizer) (om_Finalizers (si_meta s))) s"
  obtain x v where x: "DeleteServiceImportResources K s w = (x, v)" by fastforce
  obtain u v' where u: "r_update (k_serviceimports K) ?s v = (u, v')" by fastforce
  have "x = None" "w' = v'" "s' = ?s"
    using r t f x u unfolding handleServiceImportDeletion_def Let_def
    by (cases x; auto simp: exists_iff split: option.split_asm)+
  moreover have "w_serviceentries v' = w_serviceentries v"
    using u by (cases u) (auto dest: svi.update_ok svi.update_err)
  ultimately show ?thesis using leaked_entries [OF no x] by (simp add: si_with_finalizers_def)
qed

end

section \<open>Properties\<close>


text \<open>
  Switching on the egress gateway of a slice does not redirect the imports that are there. The
  virtual service of an import in its own namespace, which sends the traffic of its pods to
  the endpoints, is only created when it is missing: one from before the switch stays as it
  is in every pass, with its routes past the gateway.
\<close>

theorem egress_switch_unnoticed:
  assumes "lawful K" and "ReconcileVirtualServiceEgress K s w = (r, w')"
    and "find (keyed vs_meta (si_Namespace s) (si_Name s)) (w_virtualservices w) = Some v"
    and "si_Namespace s \<noteq> ControlPlaneNamespace"
  shows "find (keyed vs_meta (si_Namespace s) (si_Name s)) (w_virtualservices w') = Some v"
  using lawful.egress_keeps [OF assms] .


section \<open>Examples\<close>

definition ex_import :: service_import where
  "ex_import =
     \<lparr>si_meta = (new_meta ''apps'' ''web'' [])\<lparr>om_Finalizers := [importFinalizer]\<rparr>, si_Slice = ''red'',
      si_DNSName = ''web.apps.svc.slice.local'',
      si_Ports = [\<lparr>xp_Name = ''http'', xp_ContainerPort = 8, xp_Protocol = ''TCP'', xp_ServiceProtocol = '''',
        xp_ServicePort = 80\<rparr>],
      si_Aliases = [], si_ImportStatus = ''PENDING'', si_ExposedPorts = ''8/TCP'', si_AvailableEndpoints = 0,
      si_Endpoints = [\<lparr>en_Name = ''web-1'', en_IP = ''10.1.1.5'', en_Port = 8, en_ClusterID = ''b'',
        en_DNSName = ''web-1.b.web.apps.svc.slice.local''\<rparr>]\<rparr>"

definition ex_istio_slice :: "bool \<Rightarrow> slice" where
  "ex_istio_slice egress = ex_slice\<lparr>sl_Config := Some (ex_slice_config\<lparr>
     sc_ExternalGatewayConfig := Some \<lparr>eg_Ingress = Some False, eg_Egress = Some egress, eg_NsIngress = None,
       eg_GatewayType = ''istio'', eg_VPCServiceAccess = (False, False)\<rparr>\<rparr>)\<rparr>"

text \<open>The world of an import without an egress gateway of which one entry is stale.\<close>

definition ex_import_vs :: virtual_service where
  "ex_import_vs = \<lparr>vs_meta = new_meta ''apps'' ''web'' [], vs_Hosts = [], vs_Gateways = [], vs_ExportTo = [],
     vs_Http = [routesTo 8 (si_Hosts ex_import)], vs_Tcp = []\<rparr>"

definition ex_entry :: "string \<Rightarrow> string \<Rightarrow> string \<Rightarrow> service_entry" where
  "ex_entry ns n host = \<lparr>sn_meta = new_meta ns n (labelsForImportEntry ex_import), sn_ExportTo = [],
     sn_Hosts = [host], sn_Location = '''', sn_Ports = [], sn_Resolution = '''', sn_Addresses = [],
     sn_Endpoints = []\<rparr>"

definition ex_import_world :: "bool \<Rightarrow> world" where
  "ex_import_world egress = empty_world\<lparr>w_slices := [ex_istio_slice egress], w_serviceimports := [ex_import],
     w_services := [serviceForServiceImport ex_import],
     w_serviceentries := [ex_entry ''apps'' ''web-1-b'' ''web-1.b.web.apps.svc.slice.local'',
       ex_entry ''apps'' ''web-0-b'' ''web-0.b.web.apps.svc.slice.local''],
     w_virtualservices := [ex_import_vs]\<rparr>"

definition ex_import_pass :: "(ctrl_result \<times> go_error option) go \<times> world" where
  "ex_import_pass = ImportReconcile ex_kube ''apps'' ''web'' (ex_import_world False)"

lemma ex_import_rests: "fst ex_import_pass = Ret (result_after 10, None)"
  by code_simp

lemma ex_import_shape:
  "find (keyed si_meta ''apps'' ''web'') (w_serviceimports (ex_import_world False)) = Some ex_import"
  "distinct (si_Hosts ex_import)"
  by code_simp+

lemma ex_import_istio:
  "istio_of ex_import (ex_import_world False) = sc_ExternalGatewayConfig (the (sl_Config (ex_istio_slice False)))"
  "map_option egressEnabled (istio_of ex_import (ex_import_world False)) = Some False"
  by code_simp+

lemma ex_import_keys: "unique_keys (ex_import_world b)"
  unfolding unique_keys_def ex_import_world_def by (simp add: ex_entry_def)


definition ex_egress_pass :: "step_result go \<times> world" where
  "ex_egress_pass = ReconcileVirtualServiceEgress ex_kube ex_import (ex_import_world True)"

theorem egress_switch_unnoticed_witness:
  "find (keyed vs_meta ''apps'' ''web'') (w_virtualservices (snd ex_egress_pass)) = Some ex_import_vs"
proof -
  have n: "si_Namespace ex_import = ''apps''" "si_Name ex_import = ''web''"
    by (simp_all add: ex_import_def)
  have "ReconcileVirtualServiceEgress ex_kube ex_import (ex_import_world True) = (fst ex_egress_pass, snd ex_egress_pass)"
    by (simp add: ex_egress_pass_def)
  from egress_switch_unnoticed [OF ex_kube_lawful this, of ex_import_vs] show ?thesis
    unfolding n by (simp add: ex_import_world_def ex_import_vs_def keyed_def ControlPlaneNamespace_def)
qed

text \<open>A server that refuses every deletion of a service entry.\<close>

definition ex_stubborn_kube :: kube where
  "ex_stubborn_kube = ex_kube\<lparr>k_serviceentries :=
     (k_serviceentries ex_kube)\<lparr>r_delete := \<lambda>ns n w. (Some Conflict, tick w)\<rparr>\<rparr>"

lemma ex_stubborn_kube_lawful: "lawful ex_stubborn_kube"
proof -
  have "resource (k_serviceentries ex_stubborn_kube) sn_meta no_phase w_serviceentries w_serviceentries_update"
    unfolding ex_stubborn_kube_def ex_kube_def ref_kube_def
    by unfold_locales (auto simp: ref_ops_def refusal_def no_faults_def split: option.splits if_splits)
  then show ?thesis
    using ex_kube_lawful unfolding lawful_def by (simp add: ex_stubborn_kube_def)
qed

definition ex_gone_import :: service_import where
  "ex_gone_import = ex_import\<lparr>si_meta := (si_meta ex_import)\<lparr>om_DeletionTimestamp := Some 5\<rparr>\<rparr>"

definition ex_leak_world :: world where
  "ex_leak_world = (ex_import_world True)\<lparr>w_serviceimports := [ex_gone_import],
     w_serviceentries := [ex_entry ''kubeslice-system'' ''web-1-b'' ''web-1.b.web.apps.svc.slice.local'']\<rparr>"

definition ex_leak :: "(bool \<times> go_error option) \<times> service_import \<times> world" where
  "ex_leak = handleServiceImportDeletion ex_stubborn_kube ex_gone_import ex_leak_world"

lemma ex_leak_ends: "fst ex_leak = (True, None)"
  by code_simp


end
