(* ===== verification/ClusterInfo.thy ===== *)
theory ClusterInfo
  imports SliceReconcile "HOL-Library.Multiset"
begin

text \<open>
  What the operator finds out about its cluster: \<open>pkg/cluster\<close> (\<open>node.go\<close> and
  \<open>node_reconciler.go\<close>, the addresses of the gateway nodes, kept in a list of the process;
  \<open>cluster.go\<close>, the prefixes that NSM excludes) and the reports of namespaces to the hub
  (\<open>pkg/namespace/controllers\<close> with the calls of the hub client).
\<close>

section \<open>Addresses of nodes\<close>

definition addressesOf :: "string \<Rightarrow> node list \<Rightarrow> string list" where
  "addressesOf ty nodes = map snd (filter (\<lambda>a. fst a = ty) (concat (map n_Addresses nodes)))"

text \<open>The external addresses, or the internal ones if there are none.\<close>

definition nodeAddresses :: "node list \<Rightarrow> string list" where
  "nodeAddresses nodes =
     (let external = addressesOf ''ExternalIP'' nodes
      in if external = [] then addressesOf ''InternalIP'' nodes else external)"

definition gatewayNodeLabels :: labels where
  "gatewayNodeLabels = [(''kubeslice.io/node-type'', ''gateway'')]"

definition populateNodeIpList :: "kube \<Rightarrow> bool \<Rightarrow> world \<Rightarrow> go_error option \<times> world" where
  "populateNodeIpList K isNetworkPresent w =
     (case r_list (k_nodes K) (all_namespaces (if isNetworkPresent then gatewayNodeLabels else [])) w of
        (Inl e, w) \<Rightarrow> (Some (Failure ''can't fetch node list''), w)
      | (Inr nodes, w) \<Rightarrow>
          (if nodes = [] then (Some (Failure ''can't fetch node list''), w)
           else (None, w\<lparr>o_NodeIPList := nodeAddresses nodes\<rparr>)))"

text \<open>Without any address, the answer is a list with an empty address and no error.\<close>

definition GetNodeIP :: "kube \<Rightarrow> bool \<Rightarrow> world \<Rightarrow> (go_error + string list) \<times> world" where
  "GetNodeIP K isNetworkPresent w =
     (case populateNodeIpList K isNetworkPresent w of
        (Some e, w) \<Rightarrow> (Inl e, w)
      | (None, w) \<Rightarrow> (Inr (if o_NodeIPList w = [] then [''''] else o_NodeIPList w), w))"

definition filterAvailableNodes :: "node list \<Rightarrow> node list" where
  "filterAvailableNodes nodes = filter (\<lambda>n. list_ex (\<lambda>c. c = (''Ready'', ''True'')) (n_Conditions n)) nodes"

text \<open>
  Comparison of two lists of strings up to order: the first one is counted, the second one is
  drained from the counts.
\<close>

fun countStrings :: "string list \<Rightarrow> (string \<times> int) list \<Rightarrow> (string \<times> int) list" where
  "countStrings [] diff = diff"
| "countStrings (x # xs) diff =
     countStrings xs (AList.update x (case map_of diff x of None \<Rightarrow> 1 | Some c \<Rightarrow> c + 1) diff)"

fun drainStrings :: "string list \<Rightarrow> (string \<times> int) list \<Rightarrow> bool" where
  "drainStrings [] diff = (length diff = 0)"
| "drainStrings (y # ys) diff =
     (case map_of diff y of
        None \<Rightarrow> False
      | Some c \<Rightarrow>
          drainStrings ys (if c - 1 = 0 then AList.delete y diff else AList.update y (c - 1) diff))"

definition sameStringSlice :: "string list \<Rightarrow> string list \<Rightarrow> bool" where
  "sameStringSlice x y \<longleftrightarrow> (if length x \<noteq> length y then False else drainStrings y (countStrings x []))"

definition NodeReconcile :: "kube \<Rightarrow> world \<Rightarrow> (ctrl_result \<times> go_error option) \<times> world" where
  "NodeReconcile K w =
     (case r_list (k_nodes K) (all_namespaces gatewayNodeLabels) w of
        (Inl e, w) \<Rightarrow> ((result_none, Some e), w)
      | (Inr nodes, w) \<Rightarrow>
          (if nodes = [] then ((result_none, Some (Failure ''no gateway nodes available'')), w)
           else
             (let nodeIPs = nodeAddresses (filterAvailableNodes nodes)
              in if nodeIPs = []
                 then ((result_none, Some (Failure ''number of nodeIPs is zero, reconciling'')), w)
                 else if \<not> sameStringSlice (o_NodeIPList w) nodeIPs
                 then ((result_none, None), w\<lparr>o_NodeIPList := nodeIPs\<rparr>)
                 else ((result_none, None), w))))"

section \<open>The excluded prefixes of NSM\<close>

text \<open>
  The YAML parser is the parameter \<open>Y\<close>: the top-level entries of a document, where a list has its
  elements printed. A \<open>Prefixes\<close> entry that is not a list panics.
\<close>

datatype yaml = YamlList "string list" | YamlOther

type_synonym yaml_parser = "string \<Rightarrow> go_error + (string \<times> yaml) list"

definition getPrefixes :: "yaml_parser \<Rightarrow> configmap \<Rightarrow> (go_error + string list) go" where
  "getPrefixes Y nsmconfig =
     (case Y (label_or_empty (cm_Data nsmconfig) ''excluded_prefixes_output.yaml'') of
        Inl e \<Rightarrow> Ret (Inl (Failure ''yaml unmarshalling error''))
      | Inr cmData \<Rightarrow>
          (case map_of cmData ''Prefixes'' of
             Some (YamlList ps) \<Rightarrow> Ret (Inr ps)
           | Some YamlOther \<Rightarrow> Panic
           | None \<Rightarrow> Ret (Inl (Failure ''failed to read prefixes from configmap''))))"

definition GetNsmExcludedPrefix :: "kube \<Rightarrow> yaml_parser \<Rightarrow> string \<Rightarrow> string \<Rightarrow> world
    \<Rightarrow> (go_error + string list) go \<times> world" where
  "GetNsmExcludedPrefix K Y name namespace w =
     (case r_get (k_configmaps K) namespace name w of
        (Inl e, w) \<Rightarrow> (Ret (Inl e), w)
      | (Inr nsmconfig, w) \<Rightarrow>
          (if cm_Data nsmconfig = []
           then (Ret (Inl (Failure ''prefix data not present in nsm configmap'')), w)
           else if map_of (cm_Data nsmconfig) ''excluded_prefixes_output.yaml'' = None
           then (Ret (Inl (Failure ''cni subnet info not present in nsm configmap'')), w)
           else
             (case getPrefixes Y nsmconfig of
                Panic \<Rightarrow> (Panic, w)
              | Ret (Inl e) \<Rightarrow> (Ret (Inl (Failure ''failed to get prefixes from nsm configmap'')), w)
              | Ret (Inr []) \<Rightarrow> (Ret (Inl (Failure ''error occured while getting excluded prefixes'')), w)
              | Ret (Inr ps) \<Rightarrow> (Ret (Inr ps), w))))"

section \<open>Namespaces on the hub\<close>

text \<open>The entry of a namespace with its index.\<close>

fun getNamespaceInfo :: "string \<Rightarrow> (string \<times> string) list \<Rightarrow> (nat \<times> string) option" where
  "getNamespaceInfo n [] = None"
| "getNamespaceInfo n (e # es) =
     (if n = fst e then Some (0, snd e) else map_option (\<lambda>(i, s). (Suc i, s)) (getNamespaceInfo n es))"

definition putNamespace :: "string \<Rightarrow> string \<Rightarrow> (string \<times> string) list \<Rightarrow> (string \<times> string) list" where
  "putNamespace n sliceName es =
     (case getNamespaceInfo n es of
        Some (i, s) \<Rightarrow> if s \<noteq> sliceName then es[i := (n, sliceName)] else es
      | None \<Rightarrow> es @ [(n, sliceName)])"

text \<open>One attempt of \<open>UpdateNamespaceInfoToHub\<close>: the status is written in any case.\<close>

definition putNamespaceOnHub :: "kube \<Rightarrow> environ \<Rightarrow> string \<Rightarrow> string \<Rightarrow> world \<Rightarrow> go_error option \<times> world" where
  "putNamespaceOnHub K E n sliceName w =
     (case r_get (k_clusters K) (getenv E ''HUB_PROJECT_NAMESPACE'') (getenv E ''CLUSTER_NAME'') w of
        (Inl e, w) \<Rightarrow> (Some e, w)
      | (Inr c, w) \<Rightarrow>
          r_update_status (k_clusters K) (c\<lparr>hc_Namespaces := putNamespace n sliceName (hc_Namespaces c)\<rparr>) w)"

definition UpdateNamespaceInfoToHub :: "kube \<Rightarrow> environ \<Rightarrow> string \<Rightarrow> string \<Rightarrow> world
    \<Rightarrow> go_error option \<times> world" where
  "UpdateNamespaceInfoToHub K E n sliceName w =
     RetryOnConflict DefaultRetry (putNamespaceOnHub K E n sliceName) w"

fun namespaceIndex :: "string \<Rightarrow> (string \<times> string) list \<Rightarrow> nat option" where
  "namespaceIndex n [] = None"
| "namespaceIndex n (e # es) = (if n = fst e then Some 0 else map_option Suc (namespaceIndex n es))"

definition dropNamespace :: "string \<Rightarrow> (string \<times> string) list \<Rightarrow> (string \<times> string) list" where
  "dropNamespace n es = (case namespaceIndex n es of None \<Rightarrow> es | Some i \<Rightarrow> take i es @ drop (i + 1) es)"

definition dropNamespaceOnHub :: "kube \<Rightarrow> environ \<Rightarrow> string \<Rightarrow> world \<Rightarrow> go_error option \<times> world" where
  "dropNamespaceOnHub K E n w =
     (case r_get (k_clusters K) (getenv E ''HUB_PROJECT_NAMESPACE'') (getenv E ''CLUSTER_NAME'') w of
        (Inl e, w) \<Rightarrow> (Some e, w)
      | (Inr c, w) \<Rightarrow>
          (if namespaceIndex n (hc_Namespaces c) = None then (None, w)
           else r_update_status (k_clusters K) (c\<lparr>hc_Namespaces := dropNamespace n (hc_Namespaces c)\<rparr>) w))"

definition DeleteNamespaceInfoFromHub :: "kube \<Rightarrow> environ \<Rightarrow> string \<Rightarrow> world \<Rightarrow> go_error option \<times> world" where
  "DeleteNamespaceInfoFromHub K E n w = RetryOnConflict DefaultRetry (dropNamespaceOnHub K E n) w"

definition getSliceNameFromNs :: "kube \<Rightarrow> string \<Rightarrow> world \<Rightarrow> (go_error + string) \<times> world" where
  "getSliceNameFromNs K n w =
     (case r_get (k_namespaces K) '''' n w of
        (Inl e, w) \<Rightarrow> (Inl e, w)
      | (Inr ns, w) \<Rightarrow> (Inr (label_or_empty (ns_Labels ns) ApplicationNamespaceSelectorLabelKey), w))"

definition DefaultExcludedNS :: string where
  "DefaultExcludedNS = ''kube-system,default,kubeslice-system,kube-node-lease,kube-public,istio-system''"

definition excludedNs :: "environ \<Rightarrow> string list" where
  "excludedNs E =
     split_on CHR '','' (case E ''EXCLUDED_NS'' of None \<Rightarrow> DefaultExcludedNS | Some v \<Rightarrow> v)"

definition NamespaceReconcile :: "kube \<Rightarrow> environ \<Rightarrow> string \<Rightarrow> world
    \<Rightarrow> (ctrl_result \<times> go_error option) \<times> world" where
  "NamespaceReconcile K E reqName w =
     (if exists (excludedNs E) reqName then ((result_none, None), w)
      else
        (case r_get (k_namespaces K) '''' reqName w of
           (Inl NotFound, w) \<Rightarrow>
             (case DeleteNamespaceInfoFromHub K E reqName w of (r, w) \<Rightarrow> ((result_none, r), w))
         | (Inl e, w) \<Rightarrow> ((result_none, Some e), w)
         | (Inr ns, w) \<Rightarrow>
             (case getSliceNameFromNs K (ns_Name ns) w of
                (Inl e, w) \<Rightarrow> ((result_none, Some e), w)
              | (Inr sliceName, w) \<Rightarrow>
                  (case UpdateNamespaceInfoToHub K E (ns_Name ns) sliceName w of
                     (r, w) \<Rightarrow> ((result_none, r), w)))))"

section \<open>Comparing lists of addresses\<close>

text \<open>The counts stand for a multiset: each key has its number of occurrences, which is not 0.\<close>

definition counts :: "(string \<times> int) list \<Rightarrow> string multiset \<Rightarrow> bool" where
  "counts d M \<longleftrightarrow> distinct (map fst d)
     \<and> (\<forall>s. map_of d s = (if s \<in># M then Some (int (count M s)) else None))"

lemma counts_empty: "counts [] {#}"
  by (simp add: counts_def)

lemma counts_add:
  assumes "counts d M"
  shows "counts (AList.update x (case map_of d x of None \<Rightarrow> 1 | Some c \<Rightarrow> c + 1) d) (add_mset x M)"
  using assms by (auto simp: counts_def distinct_update update_conv' not_in_iff)

lemma countStrings_counts: "counts d M \<Longrightarrow> counts (countStrings xs d) (mset xs + M)"
proof (induction xs arbitrary: d M)
  case (Cons x xs)
  from Cons.IH [OF counts_add [OF Cons.prems]] show ?case by simp
qed simp

lemma counts_remove:
  assumes "counts d M" and "map_of d y = Some c"
  shows "counts (if c - 1 = 0 then AList.delete y d else AList.update y (c - 1) d) (M - {#y#})"
proof -
  have y: "y \<in># M" "c = int (count M y)"
    using assms by (auto simp: counts_def split: if_split_asm)
  then have pos: "0 < count M y" by simp
  have "s \<in># M - {#y#} \<longleftrightarrow> (if s = y then 1 < count M y else s \<in># M)" for s
    by (auto simp: in_diff_count)
  note left = this
  show ?thesis
  proof (cases "c = 1")
    case True
    then have "count M y = 1" using y(2) by linarith
    with True left assms(1) show ?thesis by (auto simp: counts_def distinct_delete delete_conv')
  next
    case False
    then have "1 < count M y" using y(2) pos by linarith
    with False left assms(1) y show ?thesis
      by (auto simp: counts_def distinct_update update_conv' of_nat_diff)
  qed
qed

lemma drainStrings_iff: "counts d M \<Longrightarrow> drainStrings ys d \<longleftrightarrow> mset ys = M"
proof (induction ys arbitrary: d M)
  case Nil
  have "d = [] \<longleftrightarrow> M = {#}"
  proof
    assume "d = []"
    with Nil show "M = {#}" by (auto simp: counts_def multiset_eq_iff split: if_split_asm)
  next
    assume "M = {#}"
    with Nil show "d = []" by (cases d) (auto simp: counts_def split: if_split_asm)
  qed
  then show ?case by auto
next
  case (Cons y ys)
  show ?case
  proof (cases "map_of d y")
    case None
    with Cons.prems have "y \<notin># M" by (auto simp: counts_def split: if_split_asm)
    with None show ?thesis by auto
  next
    case (Some c)
    with Cons.prems have "y \<in># M" by (auto simp: counts_def split: if_split_asm)
    then have "mset (y # ys) = M \<longleftrightarrow> mset ys = M - {#y#}" by auto
    with Some Cons.IH [OF counts_remove [OF Cons.prems Some]] show ?thesis by simp
  qed
qed

text \<open>
  C36: Whether the addresses of the gateway nodes have changed is decided up to their order: counting
  the strings of one list and draining the other from the counts compares the multisets.
\<close>

theorem same_string_slice_mset: "sameStringSlice x y \<longleftrightarrow> mset x = mset y"
  using drainStrings_iff [OF countStrings_counts [OF counts_empty], of y x] mset_eq_length [of x y]
  by (auto simp: sameStringSlice_def)

section \<open>Reports of namespaces\<close>

lemma getNamespaceInfo_None: "getNamespaceInfo n es = None \<longleftrightarrow> n \<notin> set (map fst es)"
  by (induction es) auto

lemma namespaceIndex_info: "namespaceIndex n es = map_option fst (getNamespaceInfo n es)"
  by (induction es) (auto simp: option.map_comp comp_def split_def intro!: option.map_cong)

lemma getNamespaceInfo_Some:
  "getNamespaceInfo n es = Some (i, s) \<Longrightarrow> \<exists>xs ys. es = xs @ (n, s) # ys \<and> length xs = i \<and> n \<notin> set (map fst xs)"
proof (induction es arbitrary: i)
  case (Cons e es)
  show ?case
  proof (cases "n = fst e")
    case True
    with Cons.prems show ?thesis by (intro exI [of _ "[]"] exI [of _ es]) (cases e, auto)
  next
    case False
    with Cons.prems obtain j where "getNamespaceInfo n es = Some (j, s)" "i = Suc j"
      by (auto split: option.split_asm)
    with Cons.IH [of j] obtain xs ys where "es = xs @ (n, s) # ys" "length xs = j" "n \<notin> set (map fst xs)" by blast
    with False \<open>i = Suc j\<close> show ?thesis by (intro exI [of _ "e # xs"] exI [of _ ys]) auto
  qed
qed simp

lemma putNamespace_spec:
  shows "map_of (putNamespace n s es) = (map_of es)(n \<mapsto> s)"
    and "distinct (map fst es) \<Longrightarrow> distinct (map fst (putNamespace n s es))"
proof -
  have "map_of (putNamespace n s es) = (map_of es)(n \<mapsto> s)
      \<and> (distinct (map fst es) \<longrightarrow> distinct (map fst (putNamespace n s es)))"
  proof (cases "getNamespaceInfo n es")
    case None
    then have "n \<notin> fst ` set es" by (simp add: getNamespaceInfo_None)
    then have "map_of es n = None" by (simp add: map_of_eq_None_iff)
    with None \<open>n \<notin> fst ` set es\<close> show ?thesis
      by (auto simp: putNamespace_def map_add_def fun_eq_iff split: option.split)
  next
    case (Some p)
    obtain i t where p: "p = (i, t)" by (cases p)
    from getNamespaceInfo_Some [of n es i t] Some p obtain xs ys
      where es: "es = xs @ (n, t) # ys" "length xs = i" "n \<notin> set (map fst xs)" by blast
    then have x: "map_of xs n = None" by (simp add: map_of_eq_None_iff)
    show ?thesis using Some p es x
      by (auto simp: putNamespace_def list_update_append map_add_def fun_eq_iff split: option.split)
  qed
  then show "map_of (putNamespace n s es) = (map_of es)(n \<mapsto> s)"
    and "distinct (map fst es) \<Longrightarrow> distinct (map fst (putNamespace n s es))" by blast+
qed

lemma dropNamespace_spec:
  assumes "distinct (map fst es)"
  shows "map_of (dropNamespace n es) = (map_of es)(n := None)" and "distinct (map fst (dropNamespace n es))"
proof -
  have "map_of (dropNamespace n es) = (map_of es)(n := None) \<and> distinct (map fst (dropNamespace n es))"
  proof (cases "getNamespaceInfo n es")
    case None
    then have "map_of es n = None" by (simp add: getNamespaceInfo_None map_of_eq_None_iff)
    with None assms show ?thesis by (simp add: dropNamespace_def namespaceIndex_info fun_upd_idem)
  next
    case (Some p)
    obtain i t where p: "p = (i, t)" by (cases p)
    from getNamespaceInfo_Some [of n es i t] Some p obtain xs ys
      where es: "es = xs @ (n, t) # ys" "length xs = i" "n \<notin> set (map fst xs)" by blast
    have y: "map_of ys n = None" "map_of xs n = None"
      using es assms by (auto simp: map_of_eq_None_iff)
    show ?thesis using Some p es y assms
      by (auto simp: dropNamespace_def namespaceIndex_info map_add_def fun_eq_iff split: option.split)
  qed
  then show "map_of (dropNamespace n es) = (map_of es)(n := None)" "distinct (map fst (dropNamespace n es))"
    by blast+
qed

text \<open>The cluster object on the hub.\<close>

definition hub_cluster_at :: "environ \<Rightarrow> world \<Rightarrow> hub_cluster option" where
  "hub_cluster_at E w =
     find (keyed hc_meta (getenv E ''HUB_PROJECT_NAMESPACE'') (getenv E ''CLUSTER_NAME'')) (h_clusters w)"

context lawful
begin

lemma cluster_status_written:
  assumes "hub_cluster_at E w = Some c" and "hc_meta c' = hc_meta c"
    and "r_update_status (k_clusters K) c' w = (r, w')"
  shows "r = None \<Longrightarrow> hub_cluster_at E w' = Some c'" and "r \<noteq> None \<Longrightarrow> h_clusters w' = h_clusters w"
    and "w_namespaces w' = w_namespaces w"
proof -
  show "r = None \<Longrightarrow> hub_cluster_at E w' = Some c'"
    using assms hcl.update_status_ok [of c' w w'] find_replace [of hc_meta _ _ "h_clusters w" c c']
    by (simp add: hub_cluster_at_def)
  show "r \<noteq> None \<Longrightarrow> h_clusters w' = h_clusters w"
    using assms(3) by (auto dest: hcl.update_status_err)
  show "w_namespaces w' = w_namespaces w"
    using assms(3) by (cases r) (auto dest: hcl.update_status_ok hcl.update_status_err)
qed

lemma cluster_fetched:
  assumes "r_get (k_clusters K) (getenv E ''HUB_PROJECT_NAMESPACE'') (getenv E ''CLUSTER_NAME'') w = (Inr c, w')"
  shows "hub_cluster_at E w = Some c" and "w' = tick w"
  using hcl.get_ok [OF assms] by (simp_all add: hub_cluster_at_def)

lemma namespace_put:
  assumes r: "UpdateNamespaceInfoToHub K E n s w = (None, w')" and c: "hub_cluster_at E w = Some c"
  shows "hub_cluster_at E w' = Some (c\<lparr>hc_Namespaces := putNamespace n s (hc_Namespaces c)\<rparr>)"
proof -
  have "\<exists>w1. hub_cluster_at E w1 = Some c \<and> putNamespaceOnHub K E n s w1 = (None, w')"
  proof (rule RetryOnConflict_success [OF r [unfolded UpdateNamespaceInfoToHub_def]])
    show "hub_cluster_at E w = Some c" by (rule c)
    fix w1 w2
    assume p: "hub_cluster_at E w1 = Some c" and f: "putNamespaceOnHub K E n s w1 = (Some Conflict, w2)"
    then have "h_clusters w2 = h_clusters w1"
      by (auto simp: putNamespaceOnHub_def split: prod.split_asm sum.split_asm
          dest!: hcl.update_status_err hcl.get_world)
    with p show "hub_cluster_at E w2 = Some c" by (simp add: hub_cluster_at_def)
  qed
  then obtain w1 where w1: "hub_cluster_at E w1 = Some c" "putNamespaceOnHub K E n s w1 = (None, w')" by blast
  let ?c = "c\<lparr>hc_Namespaces := putNamespace n s (hc_Namespaces c)\<rparr>"
  have "r_update_status (k_clusters K) ?c (tick w1) = (None, w')"
    using w1 cluster_fetched [of E w1] by (auto simp: putNamespaceOnHub_def split: prod.split_asm sum.split_asm)
  with cluster_status_written(1) [of E "tick w1" c ?c None w'] w1(1) show ?thesis by (simp add: hub_cluster_at_def)
qed

lemma namespace_dropped:
  assumes r: "DeleteNamespaceInfoFromHub K E n w = (None, w')" and c: "hub_cluster_at E w = Some c"
  shows "hub_cluster_at E w' = Some (c\<lparr>hc_Namespaces := dropNamespace n (hc_Namespaces c)\<rparr>)"
proof -
  have "\<exists>w1. hub_cluster_at E w1 = Some c \<and> dropNamespaceOnHub K E n w1 = (None, w')"
  proof (rule RetryOnConflict_success [OF r [unfolded DeleteNamespaceInfoFromHub_def]])
    show "hub_cluster_at E w = Some c" by (rule c)
    fix w1 w2
    assume p: "hub_cluster_at E w1 = Some c" and f: "dropNamespaceOnHub K E n w1 = (Some Conflict, w2)"
    then have "h_clusters w2 = h_clusters w1"
      by (auto simp: dropNamespaceOnHub_def split: prod.split_asm sum.split_asm if_split_asm
          dest!: hcl.update_status_err hcl.get_world)
    with p show "hub_cluster_at E w2 = Some c" by (simp add: hub_cluster_at_def)
  qed
  then obtain w1 where w1: "hub_cluster_at E w1 = Some c" "dropNamespaceOnHub K E n w1 = (None, w')" by blast
  let ?c = "c\<lparr>hc_Namespaces := dropNamespace n (hc_Namespaces c)\<rparr>"
  obtain q where q: "r_get (k_clusters K) (getenv E ''HUB_PROJECT_NAMESPACE'') (getenv E ''CLUSTER_NAME'') w1
      = (Inr q, tick w1)"
    using w1 cluster_fetched(2) [of E w1] by (auto simp: dropNamespaceOnHub_def split: prod.split_asm sum.split_asm)
  with w1(1) cluster_fetched(1) [of E w1 q] have "q = c" by simp
  have "(w' = tick w1 \<and> ?c = c) \<or> r_update_status (k_clusters K) ?c (tick w1) = (None, w')"
  proof (cases "getNamespaceInfo n (hc_Namespaces c) = None")
    case True
    then show ?thesis using w1(2) q \<open>q = c\<close> by (simp add: dropNamespaceOnHub_def dropNamespace_def namespaceIndex_info)
  next
    case False
    then show ?thesis using w1(2) q \<open>q = c\<close> by (simp add: dropNamespaceOnHub_def namespaceIndex_info del: not_None_eq)
  qed
  with cluster_status_written(1) [of E "tick w1" c ?c None w'] w1(1) show ?thesis
    by (auto simp: hub_cluster_at_def)
qed

lemma namespace_pass:
  assumes r: "NamespaceReconcile K E n w = ((res, None), w')" and ex: "n \<notin> set (excludedNs E)"
    and c: "hub_cluster_at E w = Some c" and d: "distinct (map fst (hc_Namespaces c))"
  shows "\<exists>c'. hub_cluster_at E w' = Some c' \<and> distinct (map fst (hc_Namespaces c'))
    \<and> map_of (hc_Namespaces c') = (map_of (hc_Namespaces c))(n :=
        map_option (\<lambda>ns. label_or_empty (ns_Labels ns) ApplicationNamespaceSelectorLabelKey)
          (find (keyed ns_meta '''' n) (w_namespaces w)))"
proof -
  obtain q w1 where q: "r_get (k_namespaces K) '''' n w = (q, w1)" by fastforce
  have w1: "w1 = tick w" by (rule nsp.get_world [OF q])
  have c1: "hub_cluster_at E w1 = Some c" using c w1 by (simp add: hub_cluster_at_def)
  have ex': "\<not> exists (excludedNs E) n" using ex by (simp add: exists_iff)
  show ?thesis
  proof (cases q)
    case (Inl e)
    have e: "e = NotFound" and del: "DeleteNamespaceInfoFromHub K E n w1 = (None, w')"
      using r q Inl ex' unfolding NamespaceReconcile_def
      by (auto split: go_error.split_asm prod.split_asm)
    have "find (keyed ns_meta '''' n) (w_namespaces w) = None"
      using nsp.get_err [of "''''" n w e w1] q Inl e by simp
    with namespace_dropped [OF del c1] dropNamespace_spec [OF d, of n] show ?thesis by simp
  next
    case (Inr ns)
    have ns: "find (keyed ns_meta '''' n) (w_namespaces w) = Some ns"
      using nsp.get_ok [of "''''" n w ns w1] q Inr by simp
    then have n: "ns_Name ns = n" using find_Some_iff' by (fastforce simp: keyed_def)
    obtain g w2 where g: "r_get (k_namespaces K) '''' n w1 = (g, w2)" by fastforce
    have w2: "w2 = tick w1" by (rule nsp.get_world [OF g])
    obtain ns2 where g': "g = Inr ns2"
      using r q Inr ex' n g unfolding NamespaceReconcile_def getSliceNameFromNs_def by (cases g) auto
    have "ns2 = ns" using nsp.get_ok [of "''''" n w1 ns2 w2] g g' ns w1 by simp
    then have up: "UpdateNamespaceInfoToHub K E n
        (label_or_empty (ns_Labels ns) ApplicationNamespaceSelectorLabelKey) w2 = (None, w')"
      using r q Inr ex' n g g' unfolding NamespaceReconcile_def getSliceNameFromNs_def
      by (auto split: prod.split_asm)
    have "hub_cluster_at E w2 = Some c" using c1 w2 by (simp add: hub_cluster_at_def)
    from namespace_put [OF up this] putNamespace_spec d ns show ?thesis by simp
  qed
qed

end

text \<open>
  C37: The hub knows the namespaces of the cluster. After a pass without an error over a namespace that
  is not excluded, the cluster object has the slice that its label names (the empty name if it
  has none), or no entry for it if the namespace is gone; the entries of all other namespaces
  are as they were, and no namespace has two entries.
\<close>

theorem namespace_reported:
  assumes "lawful K" and "NamespaceReconcile K E n w = ((res, None), w')"
    and "n \<notin> set (excludedNs E)"
    and "hub_cluster_at E w = Some c" and "distinct (map fst (hc_Namespaces c))"
  shows "\<exists>c'. hub_cluster_at E w' = Some c' \<and> distinct (map fst (hc_Namespaces c'))
    \<and> map_of (hc_Namespaces c') = (map_of (hc_Namespaces c))(n :=
        map_option (\<lambda>ns. label_or_empty (ns_Labels ns) ApplicationNamespaceSelectorLabelKey)
          (find (keyed ns_meta '''' n) (w_namespaces w)))"
  using lawful.namespace_pass [OF assms] .

text \<open>A namespace of the slice \<open>red\<close> that the hub lists without a slice.\<close>

definition ex_cluster :: hub_cluster where
  "ex_cluster = (new_hub_cluster (new_meta ''kubeslice-p'' ''worker-1'' []))
     \<lparr>hc_Namespaces := [(''iperf'', ''''), (''prod'', ''blue'')]\<rparr>"

definition ex_cluster_env :: environ where
  "ex_cluster_env = [''HUB_PROJECT_NAMESPACE'' \<mapsto> ''kubeslice-p'', ''CLUSTER_NAME'' \<mapsto> ''worker-1'']"

definition ex_cluster_world :: world where
  "ex_cluster_world = empty_world\<lparr>h_clusters := [ex_cluster],
     w_namespaces := [\<lparr>ns_meta = new_meta '''' ''iperf'' [(''kubeslice.io/slice'', ''red'')]\<rparr>]\<rparr>"

lemma ex_namespace_shape:
  "fst (NamespaceReconcile ex_kube ex_cluster_env ''iperf'' ex_cluster_world) = (result_none, None)"
  "''iperf'' \<notin> set (excludedNs ex_cluster_env)"
  "hub_cluster_at ex_cluster_env ex_cluster_world = Some ex_cluster"
  "distinct (map fst (hc_Namespaces ex_cluster))"
  by code_simp+

theorem namespace_reported_witness:
  "\<exists>c. hub_cluster_at ex_cluster_env (snd (NamespaceReconcile ex_kube ex_cluster_env ''iperf'' ex_cluster_world)) = Some c
     \<and> map_of (hc_Namespaces c) ''iperf'' = Some ''red'' \<and> map_of (hc_Namespaces c) ''prod'' = Some ''blue''"
proof -
  let ?w' = "snd (NamespaceReconcile ex_kube ex_cluster_env ''iperf'' ex_cluster_world)"
  have "NamespaceReconcile ex_kube ex_cluster_env ''iperf'' ex_cluster_world = ((result_none, None), ?w')"
    using ex_namespace_shape(1) by (metis prod.collapse)
  from namespace_reported [OF ex_kube_lawful this ex_namespace_shape(2-4)] show ?thesis
    by (auto simp: ex_cluster_def ex_cluster_world_def keyed_def label_or_empty_def
        ApplicationNamespaceSelectorLabelKey_def)
qed

end
