(* ===== verification/ClusterReconcile.thy ===== *)
theory ClusterReconcile
  imports ClusterInfo HubSlice
begin

text \<open>
  The reconciler of the cluster object (\<open>pkg/hub/controllers/cluster\<close>): it keeps the spec and the
  status of the cluster on the hub current, and starts the job that uninstalls the operator when the
  cluster object is deleted. The Go code passes a pointer to the cluster object around, which
  each step fetches again and changes: the steps here take the object and return it.
  A script directory is read through the parameter \<open>F\<close>, a time is in seconds.
\<close>

section \<open>Fetching and writing the cluster object\<close>

definition getAgain :: "kube \<Rightarrow> hub_cluster \<Rightarrow> world \<Rightarrow> (go_error + hub_cluster) \<times> world" where
  "getAgain K cr w = r_get (k_clusters K) (om_Namespace (hc_meta cr)) (om_Name (hc_meta cr)) w"

fun registrationAttempt :: "kube \<Rightarrow> string \<Rightarrow> hub_cluster \<times> world
    \<Rightarrow> go_error option \<times> hub_cluster \<times> world" where
  "registrationAttempt K status (cr, w) =
     (case getAgain K cr w of
        (Inl e, w) \<Rightarrow> (Some e, cr, w)
      | (Inr cr, w) \<Rightarrow>
          (let cr = cr\<lparr>hc_RegistrationStatus := status\<rparr>
           in case r_update_status (k_clusters K) cr w of (r, w) \<Rightarrow> (r, cr, w)))"

definition updateRegistrationStatus :: "kube \<Rightarrow> string \<Rightarrow> hub_cluster \<Rightarrow> world
    \<Rightarrow> go_error option \<times> hub_cluster \<times> world" where
  "updateRegistrationStatus K status cr w =
     RetryOnConflict DefaultRetry (registrationAttempt K status) (cr, w)"

section \<open>The deregistration job\<close>

definition clusterDeregisterFinalizer :: string where
  "clusterDeregisterFinalizer = ''worker.kubeslice.io/cluster-deregister-finalizer''"

definition constructServiceAccount :: any_object where
  "constructServiceAccount =
     \<lparr>ao_meta = new_meta ControlPlaneNamespace ''cluster-deregister-sa'' [], ao_Secrets = []\<rparr>"

definition constructClusterRole :: "cluster_role \<Rightarrow> cluster_role" where
  "constructClusterRole clusterRole =
     \<lparr>cro_meta = (new_meta ControlPlaneNamespace ''cluster-deregister-role'' [])
        \<lparr>om_Owner := Some ControlPlaneNamespace\<rparr>,
      cro_Rules = cro_Rules clusterRole\<rparr>"

definition constructClusterRoleBinding :: cluster_role_binding where
  "constructClusterRoleBinding =
     \<lparr>crb_meta = (new_meta ControlPlaneNamespace ''cluster-deregister-rb'' [])
        \<lparr>om_Owner := Some ControlPlaneNamespace\<rparr>,
      crb_RoleName = ''cluster-deregister-role'', crb_SubjectName = ''cluster-deregister-sa'',
      crb_SubjectNamespace = ControlPlaneNamespace\<rparr>"

definition getCleanupScript :: "environ \<Rightarrow> (string \<Rightarrow> go_error + string) \<Rightarrow> go_error + string" where
  "getCleanupScript E F =
     (let dir = getenv E ''SCRIPT_PATH''
      in F (if dir \<noteq> '''' then dir @ ''/cleanup.sh'' else ''../../../../scripts/cleanup.sh''))"

definition constructConfigMap :: "string \<Rightarrow> configmap" where
  "constructConfigMap data =
     \<lparr>cm_meta = new_meta ControlPlaneNamespace ''cluster-deregister-cm'' [],
      cm_Data = [(''kubeslice-cleanup.sh'', data)]\<rparr>"

definition constructJobForClusterDeregister :: "environ \<Rightarrow> job" where
  "constructJobForClusterDeregister E =
     (let image = getenv E ''WORKER_INSTALLER_IMAGE'';
          image = (if image = '''' then ''aveshasystems/worker-installer:1.1.8'' else image);
          ls = [(''kubeslice-manager/api-gateway'', ''cluster-deregister-job'')]
      in \<lparr>job_meta = new_meta ControlPlaneNamespace ''cluster-deregisteration-job'' ls,
          job_BackoffLimit = 0, job_TTLSecondsAfterFinished = 600,
          job_TemplateMeta = new_meta '''' ''cluster-deregisteration-job'' ls,
          job_ServiceAccountName = ''cluster-deregister-sa'',
          job_Containers =
            [empty_container\<lparr>c_Name := ''cluster-cleanup'', c_Image := image,
               c_Command := [''/bin/bash'', ''/tmp/kubeslice-cleanup.sh''],
               c_Env := [\<lparr>ev_Name = ''PROJECT_NAMESPACE'', ev_Value = getenv E ''HUB_PROJECT_NAMESPACE''\<rparr>,
                         \<lparr>ev_Name = ''HUB_ENDPOINT'', ev_Value = getenv E ''HUB_HOST_ENDPOINT''\<rparr>,
                         \<lparr>ev_Name = ''CLUSTER_NAME'', ev_Value = getenv E ''CLUSTER_NAME''\<rparr>],
               c_VolumeMounts := [\<lparr>vm_Name = ''script-data'', MountPath = ''/tmp'', SubPath = '''',
                                   ReadOnly = False\<rparr>]\<rparr>],
          job_Volumes = [\<lparr>v_Name = ''script-data'', v_Source = ConfigMapVolume ''cluster-deregister-cm''\<rparr>],
          job_RestartPolicy = ''Never''\<rparr>)"

text \<open>
  The slices, and the slice gateways, of all namespaces are listed until there are none, at most
  \<open>Suc left\<close> times; the sleeps between the attempts are left out.
\<close>

fun retryListSlice :: "kube \<Rightarrow> nat \<Rightarrow> world \<Rightarrow> bool \<times> world" where
  "retryListSlice K left w =
     (case r_list (k_slices K) (all_namespaces []) w of
        (Inr [], w) \<Rightarrow> (True, w)
      | (_, w) \<Rightarrow> (case left of 0 \<Rightarrow> (False, w) | Suc left \<Rightarrow> retryListSlice K left w))"

declare retryListSlice.simps [simp del]

fun retryListSliceGW :: "kube \<Rightarrow> nat \<Rightarrow> world \<Rightarrow> bool \<times> world" where
  "retryListSliceGW K left w =
     (case r_list (k_slicegws K) (all_namespaces []) w of
        (Inr [], w) \<Rightarrow> (True, w)
      | (_, w) \<Rightarrow> (case left of 0 \<Rightarrow> (False, w) | Suc left \<Rightarrow> retryListSliceGW K left w))"

declare retryListSliceGW.simps [simp del]

text \<open>Creating an object that may exist.\<close>

definition ensureCreated :: "'o resource_ops \<Rightarrow> 'o \<Rightarrow> world \<Rightarrow> go_error option \<times> world" where
  "ensureCreated ops ob w =
     (case r_create ops ob w of (Some AlreadyExists, w) \<Rightarrow> (None, w) | (r, w) \<Rightarrow> (r, w))"

text \<open>
  Replacing the config map or the job: the object is fetched into the new one, which is thereby
  overwritten; what is deleted and created again is the object that was found.
\<close>

definition recreate :: "'o resource_ops \<Rightarrow> ('o \<Rightarrow> object_meta) \<Rightarrow> 'o \<Rightarrow> world
    \<Rightarrow> go_error option \<times> world" where
  "recreate ops meta ob w =
     (case r_get ops (om_Namespace (meta ob)) (om_Name (meta ob)) w of
        (Inl e, w) \<Rightarrow> ensureCreated ops ob w
      | (Inr ob, w) \<Rightarrow>
          (case r_delete ops (om_Namespace (meta ob)) (om_Name (meta ob)) w of
             (Some e, w) \<Rightarrow> (Some e, w)
           | (None, w) \<Rightarrow> ensureCreated ops ob w))"

definition createDeregisterRoles :: "kube \<Rightarrow> world \<Rightarrow> go_error option \<times> world" where
  "createDeregisterRoles K w =
     (case ensureCreated (k_serviceaccounts K) constructServiceAccount w of
        (Some e, w) \<Rightarrow> (Some e, w)
      | (None, w) \<Rightarrow>
          (case r_get (k_clusterroles K) '''' ''kubeslice-manager-role'' w of
             (Inl e, w) \<Rightarrow> (Some e, w)
           | (Inr operatorClusterRole, w) \<Rightarrow>
               (case r_get (k_namespaces K) '''' ControlPlaneNamespace w of
                  (Inl e, w) \<Rightarrow> (Some e, w)
                | (Inr ns, w) \<Rightarrow>
                    (case ensureCreated (k_clusterroles K) (constructClusterRole operatorClusterRole) w of
                       (Some e, w) \<Rightarrow> (Some e, w)
                     | (None, w) \<Rightarrow>
                         ensureCreated (k_clusterrolebindings K) constructClusterRoleBinding w))))"

definition createDeregisterJob :: "kube \<Rightarrow> environ \<Rightarrow> (string \<Rightarrow> go_error + string) \<Rightarrow> hub_cluster
    \<Rightarrow> world \<Rightarrow> go_error option \<times> hub_cluster \<times> world" where
  "createDeregisterJob K E F cr w =
     (case updateRegistrationStatus K ''DeregisterInProgress'' cr w of
        (Some e, cr, w) \<Rightarrow> (Some e, cr, w)
      | (None, cr, w) \<Rightarrow>
          (case retryListSlice K 3 w of
             (False, w) \<Rightarrow>
               (Some (Failure ''slice present in cluster, should delete it before deregistering cluster''), cr, w)
           | (True, w) \<Rightarrow>
               (case retryListSliceGW K 3 w of
                  (False, w) \<Rightarrow>
                    (Some (Failure ''slice gateway present in cluster, should delete it before deregistering cluster''),
                     cr, w)
                | (True, w) \<Rightarrow>
                    (case createDeregisterRoles K w of
                       (Some e, w) \<Rightarrow> (Some e, cr, w)
                     | (None, w) \<Rightarrow>
                         (case getCleanupScript E F of
                            Inl e \<Rightarrow> (Some e, cr, w)
                          | Inr data \<Rightarrow>
                              (case recreate (k_configmaps K) cm_meta (constructConfigMap data) w of
                                 (Some e, w) \<Rightarrow> (Some e, cr, w)
                               | (None, w) \<Rightarrow>
                                   (case recreate (k_jobs K) job_meta (constructJobForClusterDeregister E) w of
                                      (r, w) \<Rightarrow> (r, cr, w))))))))"

definition MAX_CLUSTER_DEREGISTRATION_ATTEMPTS :: nat where
  "MAX_CLUSTER_DEREGISTRATION_ATTEMPTS = 3"

text \<open>The first component says whether the pass ends here.\<close>

definition handleClusterDeletion :: "kube \<Rightarrow> environ \<Rightarrow> (string \<Rightarrow> go_error + string) \<Rightarrow> hub_cluster
    \<Rightarrow> world \<Rightarrow> (bool \<times> ctrl_result \<times> go_error option) \<times> hub_cluster \<times> world" where
  "handleClusterDeletion K E F cr w =
     (if om_DeletionTimestamp (hc_meta cr) = None
      then (if \<not> exists (om_Finalizers (hc_meta cr)) clusterDeregisterFinalizer
            then (let cr = cr\<lparr>hc_meta := (hc_meta cr)\<lparr>om_Finalizers :=
                        om_Finalizers (hc_meta cr) @ [clusterDeregisterFinalizer]\<rparr>\<rparr>
                  in case r_update (k_clusters K) cr w of
                       (Some e, w) \<Rightarrow> ((True, result_none, Some e), cr, w)
                     | (None, w) \<Rightarrow> ((False, result_none, None), cr, w))
            else ((False, result_none, None), cr, w))
      else if exists (om_Finalizers (hc_meta cr)) clusterDeregisterFinalizer
           \<and> hc_RegistrationStatus cr \<noteq> ''DeregisterInProgress''
           \<and> o_retryAttempts w < MAX_CLUSTER_DEREGISTRATION_ATTEMPTS
      then (case createDeregisterJob K E F cr w of
              (Some e, cr, w) \<Rightarrow>
                (case updateRegistrationStatus K ''DeregisterFailed'' cr
                        (w\<lparr>o_retryAttempts := o_retryAttempts w + 1\<rparr>) of
                   (_, cr, w) \<Rightarrow> ((True, result_none, Some e), cr, w))
            | (None, cr, w) \<Rightarrow> ((True, result_after 60, None), cr, w))
      else ((True, result_after 60, None), cr, w))"

section \<open>The spec and the status of the cluster\<close>

fun cloudAttempt :: "kube \<Rightarrow> geo_location \<Rightarrow> hub_cluster \<times> bool \<times> world
    \<Rightarrow> go_error option \<times> hub_cluster \<times> bool \<times> world" where
  "cloudAttempt K g (cr, toUpdate, w) =
     (case getAgain K cr w of
        (Inl e, w) \<Rightarrow> (Some e, cr, toUpdate, w)
      | (Inr cr, w) \<Rightarrow>
          (if exists [''gcp'', ''aws'', ''azure'', ''linode'', ''akamai''] (CloudProvider g)
              \<and> (CloudRegion g \<noteq> hc_CloudRegion cr \<or> CloudProvider g \<noteq> hc_CloudProvider cr)
           then (let cr = cr\<lparr>hc_CloudProvider := CloudProvider g, hc_CloudRegion := CloudRegion g\<rparr>
                 in case r_update (k_clusters K) cr w of (r, w) \<Rightarrow> (r, cr, True, w))
           else (None, cr, toUpdate, w)))"

definition updateClusterCloudProviderInfo :: "kube \<Rightarrow> hub_cluster \<Rightarrow> world
    \<Rightarrow> (ctrl_result \<times> go_error option \<times> bool) \<times> hub_cluster \<times> world" where
  "updateClusterCloudProviderInfo K cr w =
     (case GetClusterInfo K (om_Name (hc_meta cr)) w of
        (Inl e, w) \<Rightarrow> ((result_none, Some e, True), cr, w)
      | (Inr info, w) \<Rightarrow>
          (case RetryOnConflict DefaultRetry (cloudAttempt K (ci_GeoLocation info)) (cr, False, w) of
             (Some e, cr, toUpdate, w) \<Rightarrow> ((result_none, Some e, True), cr, w)
           | (None, cr, toUpdate, w) \<Rightarrow>
               ((if toUpdate then result_requeue else result_none, None, toUpdate), cr, w)))"

definition isNsmInstalled :: "kube \<Rightarrow> world \<Rightarrow> bool \<times> world" where
  "isNsmInstalled K w =
     (case r_list (k_daemonsets K) (in_namespace ControlPlaneNamespace [(''app'', ''nsmgr'')]) w of
        (Inl e, w) \<Rightarrow> (False, w)
      | (Inr dsList, w) \<Rightarrow> (dsList \<noteq> [], w))"

fun networkAttempt :: "kube \<Rightarrow> hub_cluster \<times> world \<Rightarrow> go_error option \<times> hub_cluster \<times> world" where
  "networkAttempt K (cr, w) =
     (case getAgain K cr w of
        (Inl e, w) \<Rightarrow> (Some e, cr, w)
      | (Inr cr, w) \<Rightarrow>
          (case isNsmInstalled K w of
             (installed, w) \<Rightarrow>
               (let cr = cr\<lparr>hc_NetworkPresent := installed\<rparr>
                in case r_update_status (k_clusters K) cr w of (r, w) \<Rightarrow> (r, cr, w))))"

definition updateNetworkStatus :: "kube \<Rightarrow> hub_cluster \<Rightarrow> world \<Rightarrow> go_error option \<times> hub_cluster \<times> world" where
  "updateNetworkStatus K cr w = RetryOnConflict DefaultRetry (networkAttempt K) (cr, w)"

fun cniAttempt :: "kube \<Rightarrow> yaml_parser \<Rightarrow> hub_cluster \<times> bool \<times> world
    \<Rightarrow> go_error option go \<times> hub_cluster \<times> bool \<times> world" where
  "cniAttempt K Y (cr, toUpdate, w) =
     (case getAgain K cr w of
        (Inl e, w) \<Rightarrow> (Ret (Some e), cr, toUpdate, w)
      | (Inr cr, w) \<Rightarrow>
          (if hc_NetworkPresent cr
           then (case GetNsmExcludedPrefix K Y ''nsm-config'' ''kubeslice-system'' w of
                   (Panic, w) \<Rightarrow> (Panic, cr, toUpdate, w)
                 | (Ret (Inl e), w) \<Rightarrow> (Ret (Some e), cr, toUpdate, w)
                 | (Ret (Inr cniSubnet), w) \<Rightarrow>
                     (if hc_CniSubnet cr \<noteq> cniSubnet
                      then (let cr = cr\<lparr>hc_CniSubnet := cniSubnet\<rparr>
                            in case r_update_status (k_clusters K) cr w of (r, w) \<Rightarrow> (Ret r, cr, True, w))
                      else (Ret None, cr, toUpdate, w)))
           else if hc_CniSubnet cr \<noteq> []
           then (let cr = cr\<lparr>hc_CniSubnet := []\<rparr>
                 in case r_update_status (k_clusters K) cr w of (r, w) \<Rightarrow> (Ret r, cr, toUpdate, w))
           else (Ret None, cr, toUpdate, w)))"

definition updateCNISubnetConfig :: "kube \<Rightarrow> yaml_parser \<Rightarrow> hub_cluster \<Rightarrow> world
    \<Rightarrow> (ctrl_result \<times> go_error option \<times> bool) go \<times> hub_cluster \<times> world" where
  "updateCNISubnetConfig K Y cr w =
     (case RetryOnConflict_go DefaultRetry (cniAttempt K Y) (cr, False, w) of
        (Panic, cr, toUpdate, w) \<Rightarrow> (Panic, cr, w)
      | (Ret (Some e), cr, toUpdate, w) \<Rightarrow> (Ret (result_none, Some e, True), cr, w)
      | (Ret None, cr, toUpdate, w) \<Rightarrow>
          (Ret (if toUpdate then result_requeue else result_none, None, toUpdate), cr, w))"

fun sameAddresses :: "string list \<Rightarrow> string list \<Rightarrow> bool" where
  "sameAddresses (t # ts) (c # cs) = (if t \<noteq> c then False else sameAddresses ts cs)"
| "sameAddresses _ _ = True"

definition validatenodeips :: "string list \<Rightarrow> string list \<Rightarrow> bool" where
  "validatenodeips all current =
     (if length all \<noteq> length current then False else sameAddresses all current)"

fun nodeIpAttempt :: "kube \<Rightarrow> hub_cluster \<times> bool \<times> world
    \<Rightarrow> go_error option \<times> hub_cluster \<times> bool \<times> world" where
  "nodeIpAttempt K (cr, toUpdate, w) =
     (case getAgain K cr w of
        (Inl e, w) \<Rightarrow> (Some e, cr, toUpdate, w)
      | (Inr cr, w) \<Rightarrow>
          (case GetNodeIP K (hc_NetworkPresent cr) w of
             (Inl e, w) \<Rightarrow> (Some e, cr, toUpdate, w)
           | (Inr nodeIPs, w) \<Rightarrow>
               (if hc_NodeIPs cr = [] \<or> \<not> validatenodeips nodeIPs (hc_NodeIPs cr)
                then (let cr = cr\<lparr>hc_NodeIPs := nodeIPs\<rparr>
                      in case r_update_status (k_clusters K) cr w of (r, w) \<Rightarrow> (r, cr, True, w))
                else (None, cr, toUpdate, w))))"

definition updateNodeIps :: "kube \<Rightarrow> hub_cluster \<Rightarrow> world
    \<Rightarrow> (ctrl_result \<times> go_error option \<times> bool) \<times> hub_cluster \<times> world" where
  "updateNodeIps K cr w =
     (case RetryOnConflict DefaultRetry (nodeIpAttempt K) (cr, False, w) of
        (Some e, cr, toUpdate, w) \<Rightarrow> ((result_none, Some e, True), cr, w)
      | (None, cr, toUpdate, w) \<Rightarrow>
          ((if toUpdate then result_requeue else result_none, None, toUpdate), cr, w))"

section \<open>Dashboard credentials\<close>

definition isDashboardCredsUpdated :: "hub_cluster \<Rightarrow> bool" where
  "isDashboardCredsUpdated cr = hc_DashboardEnabled cr"

definition hubDashboardSecret :: "environ \<Rightarrow> string \<Rightarrow> string \<Rightarrow> secret" where
  "hubDashboardSecret E token cacrt =
     \<lparr>sec_meta = new_meta (getenv E ''HUB_PROJECT_NAMESPACE'')
        (getenv E ''CLUSTER_NAME'' @ ''-kubernetes-dashboard'') [],
      sec_Data = [(''token'', token), (''ca.crt'', cacrt)]\<rparr>"

text \<open>
  The data of a secret is an association list: a secret without data has the empty list, which
  lacks the token too, with another message.
\<close>

definition readDashboardSecret :: "kube \<Rightarrow> world \<Rightarrow> (go_error + string \<times> string) \<times> world" where
  "readDashboardSecret K w =
     (case r_get (k_serviceaccounts K) ControlPlaneNamespace ''kubeslice-kubernetes-dashboard'' w of
        (Inl e, w) \<Rightarrow> (Inl e, w)
      | (Inr sa, w) \<Rightarrow>
          (case ao_Secrets sa of
             [] \<Rightarrow> (Inl (Failure ''ServiceAccount has no secret''), w)
           | s # _ \<Rightarrow>
               (case r_get (k_secrets K) ControlPlaneNamespace s w of
                  (Inl e, w) \<Rightarrow> (Inl e, w)
                | (Inr secret, w) \<Rightarrow>
                    (if sec_Data secret = [] then (Inl (Failure ''dashboard secret data is nil''), w)
                     else
                       (case map_of (sec_Data secret) ''token'' of
                          None \<Rightarrow> (Inl (Failure ''token not present in dashboard secret''), w)
                        | Some token \<Rightarrow>
                            (case map_of (sec_Data secret) ''ca.crt'' of
                               None \<Rightarrow> (Inl (Failure ''ca.crt not present in dashboard secret''), w)
                             | Some cacrt \<Rightarrow> (Inr (token, cacrt), w)))))))"

definition putHubSecret :: "kube \<Rightarrow> secret \<Rightarrow> world \<Rightarrow> go_error option \<times> world" where
  "putHubSecret K hubSecret w =
     (case r_create (k_hubsecrets K) hubSecret w of
        (Some AlreadyExists, w) \<Rightarrow> r_update (k_hubsecrets K) hubSecret w
      | (r, w) \<Rightarrow> (r, w))"

definition updateDashboardCreds :: "kube \<Rightarrow> environ \<Rightarrow> hub_cluster \<Rightarrow> world
    \<Rightarrow> go_error option \<times> hub_cluster \<times> world" where
  "updateDashboardCreds K E cr w =
     (case readDashboardSecret K w of
        (Inl e, w) \<Rightarrow> (Some e, cr, w)
      | (Inr (token, cacrt), w) \<Rightarrow>
          (case putHubSecret K (hubDashboardSecret E token cacrt) w of
             (Some e, w) \<Rightarrow> (Some e, cr, w)
           | (None, w) \<Rightarrow>
               (let cr = cr\<lparr>hc_DashboardEndpoint := getenv E ''CLUSTER_ENDPOINT'',
                      hc_DashboardToken := getenv E ''CLUSTER_NAME'' @ ''-kubernetes-dashboard'',
                      hc_DashboardEnabled := True\<rparr>
                in case r_update (k_clusters K) cr w of (r, w) \<Rightarrow> (r, cr, w))))"

section \<open>The health of the cluster\<close>

definition cluster_components :: "component list" where
  "cluster_components =
     [\<lparr>cp_name = ''nsmgr'', cp_labels = [(''app'', ''nsmgr'')], cp_ns = ControlPlaneNamespace,
       cp_ignoreMissing = False\<rparr>,
      \<lparr>cp_name = ''forwarder'', cp_labels = [(''app'', ''forwarder-kernel'')], cp_ns = ControlPlaneNamespace,
       cp_ignoreMissing = False\<rparr>,
      \<lparr>cp_name = ''admission-webhook'', cp_labels = [(''app'', ''kubeslice-nsm-webhook'')],
       cp_ns = ''kubeslice-nsm-webhook-system'', cp_ignoreMissing = False\<rparr>,
      \<lparr>cp_name = ''netop'', cp_labels = [(''app'', ''app_net_op''), (''kubeslice.io/pod-type'', ''netop'')],
       cp_ns = ControlPlaneNamespace, cp_ignoreMissing = False\<rparr>,
      \<lparr>cp_name = ''spire-agent'', cp_labels = [(''app'', ''spire-agent'')], cp_ns = ''spire'',
       cp_ignoreMissing = False\<rparr>,
      \<lparr>cp_name = ''spire-server'', cp_labels = [(''app'', ''spire-server'')], cp_ns = ''spire'',
       cp_ignoreMissing = False\<rparr>,
      \<lparr>cp_name = ''istiod'', cp_labels = [(''app'', ''istiod''), (''istio'', ''pilot'')],
       cp_ns = ''istio-system'', cp_ignoreMissing = True\<rparr>,
      \<lparr>cp_name = ''node-ips'', cp_labels = [], cp_ns = '''', cp_ignoreMissing = False\<rparr>,
      \<lparr>cp_name = ''cni-subnets'', cp_labels = [], cp_ns = '''', cp_ignoreMissing = False\<rparr>]"

definition clusterComponentStatus :: "kube \<Rightarrow> component \<Rightarrow> hub_cluster \<Rightarrow> world
    \<Rightarrow> ((string \<times> string) option \<times> go_error option) \<times> world" where
  "clusterComponentStatus K c cr w =
     (if cp_name c = ''node-ips''
      then ((Some (cp_name c, if hc_SpecNodeIPs cr \<noteq> [] \<or> hc_NodeIPs cr \<noteq> [] then ''Normal'' else ''Error''),
             None), w)
      else if cp_name c = ''cni-subnets''
      then ((Some (cp_name c, if hc_CniSubnet cr \<noteq> [] then ''Normal'' else ''Error''), None), w)
      else (case r_list (k_pods K) (in_namespace (cp_ns c) (cp_labels c)) w of
              (Inl e, w) \<Rightarrow> ((None, Some e), w)
            | (Inr pods, w) \<Rightarrow> ((podsHealth c pods, None), w)))"

text \<open>An error is logged.\<close>

fun clusterComponentStatuses :: "kube \<Rightarrow> hub_cluster \<Rightarrow> component list \<Rightarrow> world
    \<Rightarrow> (string \<times> string) list \<times> world" where
  "clusterComponentStatuses K cr [] w = ([], w)"
| "clusterComponentStatuses K cr (c # cs) w =
     (case clusterComponentStatus K c cr w of
        ((None, _), w) \<Rightarrow> clusterComponentStatuses K cr cs w
      | ((Some st, _), w) \<Rightarrow>
          (case clusterComponentStatuses K cr cs w of (sts, w) \<Rightarrow> (st # sts, w)))"

definition updateClusterHealthStatus :: "kube \<Rightarrow> hub_cluster \<Rightarrow> cluster_health \<Rightarrow> world
    \<Rightarrow> cluster_health \<times> world" where
  "updateClusterHealthStatus K cr h w =
     (case (if hc_NetworkPresent cr then clusterComponentStatuses K cr cluster_components w else ([], w)) of
        (csList, w) \<Rightarrow>
          (h\<lparr>ch_ComponentStatuses := csList,
             ch_ClusterHealthStatus :=
               (if list_ex (\<lambda>(_, st). st \<noteq> ''Normal'') csList then ''Warning'' else ''Normal'')\<rparr>, w))"

definition reportClusterHealth :: "kube \<Rightarrow> int \<Rightarrow> nat \<Rightarrow> hub_cluster \<Rightarrow> world
    \<Rightarrow> (ctrl_result \<times> go_error option) \<times> world" where
  "reportClusterHealth K now interval cr w =
     (let h = (case hc_ClusterHealth cr of
                 None \<Rightarrow> \<lparr>ch_ClusterHealthStatus = '''', ch_ComponentStatuses = [], ch_LastUpdated = None\<rparr>
               | Some h \<Rightarrow> h)
      in case updateClusterHealthStatus K cr h w of
           (h, w) \<Rightarrow>
             (if (case ch_LastUpdated h of None \<Rightarrow> True | Some t \<Rightarrow> now - t > int interval)
              then (case r_update_status (k_clusters K)
                            (cr\<lparr>hc_ClusterHealth := Some (h\<lparr>ch_LastUpdated := Some now\<rparr>)\<rparr>) w of
                      (Some e, w) \<Rightarrow> ((result_none, Some e), w)
                    | (None, w) \<Rightarrow> ((result_after interval, None), w))
              else ((result_after interval, None), w)))"

section \<open>The pass\<close>

definition getCluster :: "kube \<Rightarrow> string \<Rightarrow> string \<Rightarrow> world
    \<Rightarrow> (hub_cluster option \<times> go_error option) \<times> world" where
  "getCluster K ns name w =
     (case r_get (k_clusters K) ns name w of
        (Inl NotFound, w) \<Rightarrow> ((None, None), w)
      | (Inl e, w) \<Rightarrow> ((None, Some e), w)
      | (Inr hubCluster, w) \<Rightarrow> ((Some hubCluster, None), w))"

text \<open>The part of the pass after the network status and the CNI subnets.\<close>

definition reportCluster :: "kube \<Rightarrow> environ \<Rightarrow> int \<Rightarrow> nat \<Rightarrow> hub_cluster \<Rightarrow> world
    \<Rightarrow> (ctrl_result \<times> go_error option) \<times> world" where
  "reportCluster K E now interval cr w =
     (if hc_NetworkPresent cr \<and> hc_CniSubnet cr = []
      then (case updateRegistrationStatus K ''Pending'' cr w of
              (_, cr, w) \<Rightarrow> ((result_requeue, None), w))
      else
        (case updateRegistrationStatus K ''Registered'' cr w of
           (_, cr, w) \<Rightarrow>
             (case updateNodeIps K cr w of
                ((res, err, requeue), cr, w) \<Rightarrow>
                  (if requeue then ((res, err), w)
                   else if \<not> isDashboardCredsUpdated cr
                   then (case updateDashboardCreds K E cr w of
                           (Some e, cr, w) \<Rightarrow> ((result_none, Some e), w)
                         | (None, cr, w) \<Rightarrow> ((result_requeue, None), w))
                   else reportClusterHealth K now interval cr w))))"

definition ClusterReconcile :: "kube \<Rightarrow> environ \<Rightarrow> yaml_parser \<Rightarrow> (string \<Rightarrow> go_error + string) \<Rightarrow> int
    \<Rightarrow> nat \<Rightarrow> string \<Rightarrow> string \<Rightarrow> world \<Rightarrow> (ctrl_result \<times> go_error option) go \<times> world" where
  "ClusterReconcile K E Y F now interval ns name w =
     (case getCluster K ns name w of
        ((None, err), w) \<Rightarrow> (Ret (result_none, err), w)
      | ((Some cr, _), w) \<Rightarrow>
          (case handleClusterDeletion K E F cr w of
             ((True, result, err), cr, w) \<Rightarrow> (Ret (result, err), w)
           | ((False, _), cr, w) \<Rightarrow>
               (case updateClusterCloudProviderInfo K cr w of
                  ((res, err, True), cr, w) \<Rightarrow> (Ret (res, err), w)
                | ((_, _, False), cr, w) \<Rightarrow>
                    (case updateNetworkStatus K cr w of
                       (Some e, cr, w) \<Rightarrow> (Ret (result_none, Some e), w)
                     | (None, cr, w) \<Rightarrow>
                         (case updateCNISubnetConfig K Y cr w of
                            (Panic, cr, w) \<Rightarrow> (Panic, w)
                          | (Ret (res, err, True), cr, w) \<Rightarrow> (Ret (res, err), w)
                          | (Ret (_, _, False), cr, w) \<Rightarrow>
                              (case reportCluster K E now interval cr w of (r, w) \<Rightarrow> (Ret r, w)))))))"

end
