(* ===== verification/ClusterSafety.thy ===== *)
theory ClusterSafety
  imports ClusterReconcile
begin

text \<open>
  What a pass over the cluster object keeps, what it does when the object is deleted, and examples
  for the theory \<open>ClusterReconcile\<close>.
\<close>

section \<open>Values of the status\<close>

text \<open>
  The fields of the status that the API declares as enumerations; Go does not check that a string
  is one of the declared constants.
\<close>

definition well_typed_health :: "cluster_health \<Rightarrow> bool" where
  "well_typed_health h \<longleftrightarrow> ch_ClusterHealthStatus h \<in> {''Normal'', ''Warning''}
     \<and> list_all (\<lambda>(n, st). n \<in> cp_name ` set cluster_components \<and> st \<in> {''Normal'', ''Error''})
         (ch_ComponentStatuses h)
     \<and> (ch_ClusterHealthStatus h = ''Normal'' \<longleftrightarrow> list_all (\<lambda>(n, st). st = ''Normal'') (ch_ComponentStatuses h))"

definition well_typed_cluster :: "hub_cluster \<Rightarrow> bool" where
  "well_typed_cluster c \<longleftrightarrow>
     hc_RegistrationStatus c \<in> {'''', ''Pending'', ''Registered'', ''DeregisterInProgress'', ''DeregisterFailed''}
     \<and> (case hc_ClusterHealth c of None \<Rightarrow> True | Some h \<Rightarrow> well_typed_health h)"

lemma well_typed_fields [simp]:
  "well_typed_cluster (c\<lparr>hc_NetworkPresent := b\<rparr>) = well_typed_cluster c"
  "well_typed_cluster (c\<lparr>hc_CniSubnet := xs\<rparr>) = well_typed_cluster c"
  "well_typed_cluster (c\<lparr>hc_NodeIPs := xs\<rparr>) = well_typed_cluster c"
  "well_typed_cluster (c\<lparr>hc_CloudProvider := s, hc_CloudRegion := t\<rparr>) = well_typed_cluster c"
  "well_typed_cluster (c\<lparr>hc_DashboardEndpoint := s, hc_DashboardToken := t, hc_DashboardEnabled := b\<rparr>)
     = well_typed_cluster c"
  "well_typed_cluster (c\<lparr>hc_meta := m\<rparr>) = well_typed_cluster c"
  by (simp_all add: well_typed_cluster_def)

lemma well_typed_health_time [simp]: "well_typed_health (h\<lparr>ch_LastUpdated := x\<rparr>) = well_typed_health h"
  by (simp add: well_typed_health_def)

section \<open>What a pass may change\<close>

text \<open>Only objects on the hub and the memory of the operator.\<close>

definition workerside :: "world \<Rightarrow> world" where
  "workerside w = w\<lparr>h_secrets := [], h_clusters := [], o_NodeIPList := [], o_retryAttempts := 0, w_calls := 0\<rparr>"

definition hubside :: "world \<Rightarrow> world \<Rightarrow> bool" where
  "hubside w w' \<longleftrightarrow> workerside w' = workerside w"

lemma workerside_upds [simp]:
  "workerside (tick w) = workerside w" "workerside (h_clusters_update f w) = workerside w"
  "workerside (h_secrets_update g w) = workerside w" "workerside (o_NodeIPList_update h w) = workerside w"
  "workerside (o_retryAttempts_update k w) = workerside w"
  by (simp_all add: workerside_def tick_def)

lemma hubside_sel:
  assumes "hubside w w'"
  shows "w_jobs w' = w_jobs w" "w_slices w' = w_slices w" "w_slicegws w' = w_slicegws w"
    "w_daemonsets w' = w_daemonsets w" "w_configmaps w' = w_configmaps w" "w_nodes w' = w_nodes w"
    "w_pods w' = w_pods w"
proof -
  note sel = arg_cong [OF assms [unfolded hubside_def]]
  show "w_jobs w' = w_jobs w" "w_slices w' = w_slices w" "w_slicegws w' = w_slicegws w"
    "w_daemonsets w' = w_daemonsets w" "w_configmaps w' = w_configmaps w" "w_nodes w' = w_nodes w"
    "w_pods w' = w_pods w"
    using sel [of w_jobs] sel [of w_slices] sel [of w_slicegws] sel [of w_daemonsets] sel [of w_configmaps]
      sel [of w_nodes] sel [of w_pods]
    by (simp_all add: workerside_def)
qed

text \<open>
  The invariant of the steps of a pass that began in the world \<open>w0\<close> and holds the object \<open>cr\<close>:
  nothing else has changed, and if the clusters were well typed, they and \<open>cr\<close> are.
\<close>

definition sound :: "world \<Rightarrow> hub_cluster \<Rightarrow> world \<Rightarrow> bool" where
  "sound w0 cr w \<longleftrightarrow> hubside w0 w
     \<and> (list_all well_typed_cluster (h_clusters w0) \<longrightarrow>
         well_typed_cluster cr \<and> list_all well_typed_cluster (h_clusters w))"

lemma sound_mod: "sound w0 cr w \<Longrightarrow> (well_typed_cluster cr \<Longrightarrow> well_typed_cluster cr') \<Longrightarrow> sound w0 cr' w"
  by (auto simp: sound_def hubside_def)

lemma sound_frame: "sound w0 cr w \<Longrightarrow> hubside w0 w' \<Longrightarrow> h_clusters w' = h_clusters w \<Longrightarrow> sound w0 cr w'"
  by (auto simp: sound_def hubside_def)

lemma replace_object_all: "list_all P xs \<Longrightarrow> P y \<Longrightarrow> list_all P (replace_object meta y xs)"
  by (auto simp: replace_object_def list_all_iff)

text \<open>Calls that leave the clusters alone.\<close>

definition aside :: "world \<Rightarrow> world \<Rightarrow> bool" where
  "aside w w' \<longleftrightarrow> hubside w w' \<and> h_clusters w' = h_clusters w"

lemma aside_tick [simp]: "aside w (tick w)"
  by (simp add: aside_def hubside_def)

lemma aside_refl [simp]: "aside w w"
  by (simp add: aside_def hubside_def)

lemma aside_trans: "aside w w1 \<Longrightarrow> aside w1 w2 \<Longrightarrow> aside w w2"
  by (simp add: aside_def hubside_def)

lemma sound_aside: "sound w0 cr w \<Longrightarrow> aside w w' \<Longrightarrow> sound w0 cr w'"
  by (auto simp: sound_def aside_def hubside_def)

context resource
begin

lemma ensureCreated_frame:
  assumes "ensureCreated ops ob w = (r, w')" and "\<And>f w. g (upd f w) = g w" and "\<And>w. g (tick w) = g w"
  shows "g w' = g w"
proof -
  obtain x w1 where c: "r_create ops ob w = (x, w1)" by fastforce
  then have "g w1 = g w" using assms(2,3) by (cases x) (auto dest!: create_ok create_err)
  with assms(1) c show ?thesis by (auto simp: ensureCreated_def split: option.split_asm go_error.split_asm)
qed

lemma recreate_frame:
  assumes "recreate ops m ob w = (r, w')" and "\<And>f w. g (upd f w) = g w" and "\<And>w. g (tick w) = g w"
  shows "g w' = g w"
proof -
  obtain q w1 where q: "r_get ops (om_Namespace (m ob)) (om_Name (m ob)) w = (q, w1)" by fastforce
  then have g1: "g w1 = g w" using get_world [OF q] assms(3) by simp
  show ?thesis
  proof (cases q)
    case (Inl e)
    with assms(1) q g1 ensureCreated_frame [of ob w1 r w' g] assms(2,3) show ?thesis by (simp add: recreate_def)
  next
    case (Inr old)
    obtain x w2 where d: "r_delete ops (om_Namespace (m old)) (om_Name (m old)) w1 = (x, w2)" by fastforce
    then have g2: "g w2 = g w" using g1 assms(2,3) by (cases x) (auto dest!: delete_ok delete_err)
    from assms(1) q Inr d g2 ensureCreated_frame [of old w2 r w' g] assms(2,3) show ?thesis
      by (cases x) (simp_all add: recreate_def)
  qed
qed

text \<open>What recreating an object leaves in its place is the old one, if there was one.\<close>

lemma recreate_old:
  assumes r: "recreate ops meta ob w = (None, w')"
    and f: "find (keyed meta (om_Namespace (meta ob)) (om_Name (meta ob))) (sel w) = Some old"
    and f': "find (keyed meta (om_Namespace (meta ob)) (om_Name (meta ob))) (sel w') = Some new"
  shows "new = old"
proof -
  let ?k = "keyed meta (om_Namespace (meta ob)) (om_Name (meta ob))"
  have key: "om_Namespace (meta old) = om_Namespace (meta ob)" "om_Name (meta old) = om_Name (meta ob)"
    using find_Some_iff' [OF f] by (simp_all add: keyed_def)
  have created: "sel v' = sel v \<or> sel v' = sel v @ [y] \<and> \<not> list_ex (same_key meta y) (sel v)"
    if "ensureCreated ops y v = (None, v')" for y v v'
  proof -
    obtain x v1 where c: "r_create ops y v = (x, v1)" by fastforce
    with that have "v' = v1" by (auto simp: ensureCreated_def split: option.split_asm go_error.split_asm)
    with c show ?thesis
      by (cases x) (auto simp: sel_upd sel_tick dest!: create_ok create_err)
  qed
  have kk: "same_key meta ob = ?k" "same_key meta old = ?k" using key by (simp_all add: same_key_def [abs_def])
  obtain q w1 where q: "r_get ops (om_Namespace (meta ob)) (om_Name (meta ob)) w = (q, w1)" by fastforce
  have s1: "sel w1 = sel w" using get_world [OF q] by (simp add: sel_tick)
  show ?thesis
  proof (cases q)
    case (Inl e)
    with r q have "ensureCreated ops ob w1 = (None, w')" by (simp add: recreate_def)
    moreover have "list_ex ?k (sel w)" using f by (auto simp: find_Some_iff list_ex_length)
    ultimately show ?thesis using created [of ob w1 w'] f f' s1 by (auto simp: kk)
  next
    case (Inr y)
    with get_ok q f have y: "y = old" by fastforce
    obtain x w2 where d: "r_delete ops (om_Namespace (meta ob)) (om_Name (meta ob)) w1 = (x, w2)" by fastforce
    with r q Inr y key have "x = None" "ensureCreated ops old w2 = (None, w')"
      by (auto simp: recreate_def split: option.split_asm)
    moreover from this d have "sel w2 = remove_object meta (om_Namespace (meta ob)) (om_Name (meta ob)) (sel w)"
      using s1 by (auto simp: sel_upd sel_tick dest!: delete_ok)
    then have "find ?k (sel w2) = None" by (auto simp: remove_object_def find_None_iff)
    ultimately show ?thesis using created [of old w2 w'] f'
      by (auto simp: find_append split: if_split_asm)
  qed
qed

end

definition deregistering :: "hub_cluster \<Rightarrow> world \<Rightarrow> bool" where
  "deregistering c w \<longleftrightarrow> om_DeletionTimestamp (hc_meta c) \<noteq> None
     \<and> clusterDeregisterFinalizer \<in> set (om_Finalizers (hc_meta c))
     \<and> hc_RegistrationStatus c \<noteq> ''DeregisterInProgress''
     \<and> o_retryAttempts w < MAX_CLUSTER_DEREGISTRATION_ATTEMPTS"

lemma handleClusterDeletion_deregistering:
  assumes "om_DeletionTimestamp (hc_meta cr) \<noteq> None"
  shows "handleClusterDeletion K E F cr w =
    (if deregistering cr w
     then (case createDeregisterJob K E F cr w of
             (Some e, cr, w) \<Rightarrow>
               (case updateRegistrationStatus K ''DeregisterFailed'' cr
                       (w\<lparr>o_retryAttempts := o_retryAttempts w + 1\<rparr>) of
                  (_, cr, w) \<Rightarrow> ((True, result_none, Some e), cr, w))
           | (None, cr, w) \<Rightarrow> ((True, result_after 60, None), cr, w))
     else ((True, result_after 60, None), cr, w))"
  using assms by (auto simp: handleClusterDeletion_def deregistering_def exists_iff)

text \<open>The cluster object on the hub.\<close>

definition hub_at :: "string \<Rightarrow> string \<Rightarrow> world \<Rightarrow> hub_cluster option" where
  "hub_at ns n w = find (keyed hc_meta ns n) (h_clusters w)"

context lawful
begin

lemma sound_get:
  assumes "sound w0 cr w" and "getAgain K cr w = (q, w')"
  shows "q = Inl e \<Longrightarrow> sound w0 cr w'" and "q = Inr c \<Longrightarrow> sound w0 c w'" and "w' = tick w"
proof -
  show w': "w' = tick w" using hcl.get_world assms(2) unfolding getAgain_def by blast
  show "q = Inl e \<Longrightarrow> sound w0 cr w'" using assms(1) w' by (auto simp: sound_def hubside_def)
  assume "q = Inr c"
  then have "find (keyed hc_meta (om_Namespace (hc_meta cr)) (om_Name (hc_meta cr))) (h_clusters w) = Some c"
    using hcl.get_ok assms(2) unfolding getAgain_def by blast
  then have "c \<in> set (h_clusters w)" by (auto simp: find_Some_iff)
  with assms(1) w' show "sound w0 c w'" by (auto simp: sound_def hubside_def list_all_iff)
qed

lemma sound_status: "sound w0 cr w \<Longrightarrow> r_update_status (k_clusters K) cr w = (r, w') \<Longrightarrow> sound w0 cr w'"
  by (cases r) (auto simp: sound_def hubside_def replace_object_all dest!: hcl.update_status_ok hcl.update_status_err)

lemma sound_update: "sound w0 cr w \<Longrightarrow> r_update (k_clusters K) cr w = (r, w') \<Longrightarrow> sound w0 cr w'"
  by (cases r) (auto simp: sound_def hubside_def replace_object_all dest!: hcl.update_ok hcl.update_err)

lemma sound_tick: "sound w0 cr w \<Longrightarrow> sound w0 cr (tick w)"
  by (auto simp: sound_def hubside_def)

lemma registration_sound:
  assumes "updateRegistrationStatus K status cr w = (r, cr', w')" and "sound w0 cr w"
    and "status \<in> {''Pending'', ''Registered'', ''DeregisterInProgress'', ''DeregisterFailed''}"
  shows "sound w0 cr' w'"
proof -
  have "(\<lambda>(cr, w). sound w0 cr w) (cr', w')"
  proof (rule RetryOnConflict_keeps [OF assms(1) [unfolded updateRegistrationStatus_def]])
    show "(\<lambda>(cr, w). sound w0 cr w) (cr, w)" using assms(2) by simp
    fix s1 s2 r
    assume p: "(\<lambda>(cr, w). sound w0 cr w) s1" and f: "registrationAttempt K status s1 = (r, s2)"
    obtain cr1 w1 where s1: "s1 = (cr1, w1)" by fastforce
    obtain q w2 where g: "getAgain K cr1 w1 = (q, w2)" by fastforce
    note get = sound_get [OF _ g, of w0]
    show "(\<lambda>(cr, w). sound w0 cr w) s2"
    proof (cases q)
      case (Inl e)
      with f g s1 p get(1) show ?thesis by auto
    next
      case (Inr c)
      then have "sound w0 (c\<lparr>hc_RegistrationStatus := status\<rparr>) w2"
        using get(2) p s1 assms(3) by (auto intro!: sound_mod [of w0 c] simp: well_typed_cluster_def)
      with f g s1 Inr show ?thesis by (auto simp: Let_def split: prod.split_asm dest: sound_status)
    qed
  qed
  then show ?thesis by simp
qed

lemma registration_hubside:
  assumes "updateRegistrationStatus K status cr w = (r, cr', w')"
  shows "hubside w w'"
proof -
  have "(\<lambda>(cr, w1). hubside w w1) (cr', w')"
  proof (rule RetryOnConflict_keeps [OF assms [unfolded updateRegistrationStatus_def]])
    fix s1 s2 r
    assume p: "(\<lambda>(cr, w1). hubside w w1) s1" and f: "registrationAttempt K status s1 = (r, s2)"
    have up: "hubside v v'" if "r_update_status (k_clusters K) c v = (x, v')" for c v x v'
      using that by (cases x) (auto simp: hubside_def dest!: hcl.update_status_ok hcl.update_status_err)
    show "(\<lambda>(cr, w1). hubside w w1) s2" using p f
      by (cases s1) (auto simp: Let_def getAgain_def hubside_def split: prod.split_asm sum.split_asm
          dest!: hcl.get_world up)
  qed (simp add: hubside_def)
  then show ?thesis by simp
qed

lemma GetClusterInfo_aside: "GetClusterInfo K n w = (q, w') \<Longrightarrow> aside w w'"
  by (auto simp: GetClusterInfo_def getClusterLocation_def Let_def split: prod.split_asm sum.split_asm list.split_asm
      dest!: node.list_world)

lemma isNsmInstalled_aside: "isNsmInstalled K w = (b, w') \<Longrightarrow> aside w w'"
  by (auto simp: isNsmInstalled_def split: prod.split_asm sum.split_asm dest!: dms.list_world)

lemma GetNsmExcludedPrefix_aside: "GetNsmExcludedPrefix K Y n ns w = (q, w') \<Longrightarrow> aside w w'"
  by (auto simp: GetNsmExcludedPrefix_def
      split: prod.split_asm sum.split_asm if_split_asm go.split_asm list.split_asm dest!: cfm.get_world)

lemma GetNodeIP_aside: "GetNodeIP K b w = (q, w') \<Longrightarrow> aside w w'"
  by (auto simp: GetNodeIP_def populateNodeIpList_def aside_def hubside_def
      split: prod.split_asm sum.split_asm if_split_asm option.split_asm dest!: node.list_world)

lemma cloud_sound:
  assumes "updateClusterCloudProviderInfo K cr w = (r, cr', w')" and "sound w0 cr w"
  shows "sound w0 cr' w'"
proof -
  obtain q w1 where i: "GetClusterInfo K (om_Name (hc_meta cr)) w = (q, w1)" by fastforce
  have s1: "sound w0 cr w1" by (rule sound_aside [OF assms(2) GetClusterInfo_aside [OF i]])
  show ?thesis
  proof (cases q)
    case (Inl e)
    with assms(1) i s1 show ?thesis by (simp add: updateClusterCloudProviderInfo_def)
  next
    case (Inr info)
    obtain x cr2 u w2 where
      R: "RetryOnConflict DefaultRetry (cloudAttempt K (ci_GeoLocation info)) (cr, False, w1) = (x, cr2, u, w2)"
      by (metis prod_cases4)
    have "(\<lambda>(cr, u, w). sound w0 cr w) (cr2, u, w2)"
    proof (rule RetryOnConflict_keeps [OF R])
      show "(\<lambda>(cr, u, w). sound w0 cr w) (cr, False, w1)" using s1 by simp
      fix t1 t2 r
      assume p: "(\<lambda>(cr, u, w). sound w0 cr w) t1" and f: "cloudAttempt K (ci_GeoLocation info) t1 = (r, t2)"
      obtain cr1 u1 w1 where t1: "t1 = (cr1, u1, w1)" by (metis prod_cases3)
      obtain q w2 where g: "getAgain K cr1 w1 = (q, w2)" by fastforce
      note get = sound_get [OF _ g, of w0]
      show "(\<lambda>(cr, u, w). sound w0 cr w) t2"
      proof (cases q)
        case (Inl e)
        with f g t1 p get(1) show ?thesis by auto
      next
        case (Inr c)
        with get(2) p t1 have c: "sound w0 c w2" by simp
        from sound_mod [OF this]
        have "sound w0 (c\<lparr>hc_CloudProvider := s, hc_CloudRegion := t\<rparr>) w2" for s t by simp
        from sound_update [OF this] c f g t1 Inr show ?thesis
          by (auto simp: Let_def split: prod.split_asm if_split_asm)
      qed
    qed
    with assms(1) i Inr R show ?thesis
      by (auto simp: updateClusterCloudProviderInfo_def split: option.split_asm)
  qed
qed

lemma network_sound:
  assumes "updateNetworkStatus K cr w = (r, cr', w')" and "sound w0 cr w"
  shows "sound w0 cr' w'"
proof -
  have "(\<lambda>(cr, w). sound w0 cr w) (cr', w')"
  proof (rule RetryOnConflict_keeps [OF assms(1) [unfolded updateNetworkStatus_def]])
    show "(\<lambda>(cr, w). sound w0 cr w) (cr, w)" using assms(2) by simp
    fix t1 t2 r
    assume p: "(\<lambda>(cr, w). sound w0 cr w) t1" and f: "networkAttempt K t1 = (r, t2)"
    obtain cr1 w1 where t1: "t1 = (cr1, w1)" by fastforce
    obtain q w2 where g: "getAgain K cr1 w1 = (q, w2)" by fastforce
    note get = sound_get [OF _ g, of w0]
    show "(\<lambda>(cr, w). sound w0 cr w) t2"
    proof (cases q)
      case (Inl e)
      with f g t1 p get(1) show ?thesis by auto
    next
      case (Inr c)
      obtain b w3 where b: "isNsmInstalled K w2 = (b, w3)" by fastforce
      from Inr get(2) p t1 have "sound w0 c w2" by simp
      from sound_mod [OF sound_aside [OF this isNsmInstalled_aside [OF b]]]
      have "sound w0 (c\<lparr>hc_NetworkPresent := b\<rparr>) w3" by simp
      from sound_status [OF this] f g t1 Inr b show ?thesis
        by (auto simp: Let_def split: prod.split_asm)
    qed
  qed
  then show ?thesis by simp
qed

lemma cni_sound:
  assumes "updateCNISubnetConfig K Y cr w = (r, cr', w')" and "sound w0 cr w"
  shows "sound w0 cr' w'"
proof -
  obtain x cr2 u w2 where R: "RetryOnConflict_go DefaultRetry (cniAttempt K Y) (cr, False, w) = (x, cr2, u, w2)"
    by (metis prod_cases4)
  have "(\<lambda>(cr, u, w). sound w0 cr w) (cr2, u, w2)"
  proof (rule RetryOnConflict_go_keeps [OF R])
    show "(\<lambda>(cr, u, w). sound w0 cr w) (cr, False, w)" using assms(2) by simp
    fix t1 t2 r
    assume p: "(\<lambda>(cr, u, w). sound w0 cr w) t1" and f: "cniAttempt K Y t1 = (r, t2)"
    obtain cr1 u1 w1 where t1: "t1 = (cr1, u1, w1)" by (metis prod_cases3)
    obtain q w2 where g: "getAgain K cr1 w1 = (q, w2)" by fastforce
    note get = sound_get [OF _ g, of w0]
    show "(\<lambda>(cr, u, w). sound w0 cr w) t2"
    proof (cases q)
      case (Inl e)
      with f g t1 p get(1) show ?thesis by auto
    next
      case (Inr c)
      with get(2) p t1 have c: "sound w0 c w2" by simp
      obtain y w3 where y: "GetNsmExcludedPrefix K Y ''nsm-config'' ''kubeslice-system'' w2 = (y, w3)" by fastforce
      have c3: "sound w0 c w3" by (rule sound_aside [OF c GetNsmExcludedPrefix_aside [OF y]])
      from sound_mod [OF this] sound_mod [OF c]
      have "sound w0 (c\<lparr>hc_CniSubnet := xs\<rparr>) w3" "sound w0 (c\<lparr>hc_CniSubnet := xs\<rparr>) w2" for xs by simp_all
      note wr = sound_status [OF this(1)] sound_status [OF this(2)]
      show ?thesis
      proof (cases "hc_NetworkPresent c")
        case True
        with c3 wr(1) f g t1 Inr y show ?thesis
          by (auto simp: Let_def split: prod.split_asm if_split_asm go.split_asm sum.split_asm)
      next
        case False
        with c wr(2) f g t1 Inr show ?thesis
          by (auto simp: Let_def split: prod.split_asm if_split_asm)
      qed
    qed
  qed
  with assms(1) R show ?thesis
    by (auto simp: updateCNISubnetConfig_def split: go.split_asm option.split_asm)
qed

lemma nodeip_sound:
  assumes "updateNodeIps K cr w = (r, cr', w')" and "sound w0 cr w"
  shows "sound w0 cr' w'"
proof -
  obtain x cr2 u w2 where R: "RetryOnConflict DefaultRetry (nodeIpAttempt K) (cr, False, w) = (x, cr2, u, w2)"
    by (metis prod_cases4)
  have "(\<lambda>(cr, u, w). sound w0 cr w) (cr2, u, w2)"
  proof (rule RetryOnConflict_keeps [OF R])
    show "(\<lambda>(cr, u, w). sound w0 cr w) (cr, False, w)" using assms(2) by simp
    fix t1 t2 r
    assume p: "(\<lambda>(cr, u, w). sound w0 cr w) t1" and f: "nodeIpAttempt K t1 = (r, t2)"
    obtain cr1 u1 w1 where t1: "t1 = (cr1, u1, w1)" by (metis prod_cases3)
    obtain q w2 where g: "getAgain K cr1 w1 = (q, w2)" by fastforce
    note get = sound_get [OF _ g, of w0]
    show "(\<lambda>(cr, u, w). sound w0 cr w) t2"
    proof (cases q)
      case (Inl e)
      with f g t1 p get(1) show ?thesis by auto
    next
      case (Inr c)
      with get(2) p t1 have c: "sound w0 c w2" by simp
      obtain y w3 where y: "GetNodeIP K (hc_NetworkPresent c) w2 = (y, w3)" by fastforce
      have c3: "sound w0 c w3" by (rule sound_aside [OF c GetNodeIP_aside [OF y]])
      from sound_mod [OF this] have "sound w0 (c\<lparr>hc_NodeIPs := xs\<rparr>) w3" for xs by simp
      from sound_status [OF this] c3 f g t1 Inr y show ?thesis
        by (auto simp: Let_def split: prod.split_asm if_split_asm sum.split_asm)
    qed
  qed
  with assms(1) R show ?thesis by (auto simp: updateNodeIps_def split: option.split_asm)
qed

lemma readDashboardSecret_aside: "readDashboardSecret K w = (q, w') \<Longrightarrow> aside w w'"
  unfolding readDashboardSecret_def
  by (auto split: prod.split_asm sum.split_asm list.split_asm if_split_asm option.split_asm
      dest!: sac.get_world sec.get_world intro: aside_trans [OF aside_tick])

lemma putHubSecret_aside: "putHubSecret K sc w = (x, w') \<Longrightarrow> aside w w'"
proof -
  assume p: "putHubSecret K sc w = (x, w')"
  obtain r w1 where c: "r_create (k_hubsecrets K) sc w = (r, w1)" by fastforce
  have 1: "aside w w1" using c
    by (cases r) (auto simp: aside_def hubside_def dest!: hsec.create_ok hsec.create_err)
  show ?thesis
  proof (cases "r = Some AlreadyExists")
    case True
    with p c have u: "r_update (k_hubsecrets K) sc w1 = (x, w')" by (simp add: putHubSecret_def)
    then have "aside w1 w'"
      by (cases x) (auto simp: aside_def hubside_def dest!: hsec.update_ok hsec.update_err)
    with 1 show ?thesis by (rule aside_trans)
  next
    case False
    with p c 1 show ?thesis by (auto simp: putHubSecret_def split: option.split_asm go_error.split_asm)
  qed
qed

lemma dashboard_sound:
  assumes "updateDashboardCreds K E cr w = (r, cr', w')" and "sound w0 cr w"
  shows "sound w0 cr' w'"
proof -
  have mod: "sound w0 (cr\<lparr>hc_DashboardEndpoint := s, hc_DashboardToken := t, hc_DashboardEnabled := b\<rparr>) v"
    if "sound w0 cr v" for s t b v
    using that by (rule sound_mod) simp
  obtain q w1 where q: "readDashboardSecret K w = (q, w1)" by fastforce
  have s1: "sound w0 cr w1" by (rule sound_aside [OF assms(2) readDashboardSecret_aside [OF q]])
  show ?thesis
  proof (cases q)
    case (Inl e)
    with assms(1) q s1 show ?thesis by (simp add: updateDashboardCreds_def)
  next
    case (Inr d)
    obtain token cacrt where d: "d = (token, cacrt)" by (cases d)
    obtain x w2 where x: "putHubSecret K (hubDashboardSecret E token cacrt) w1 = (x, w2)" by fastforce
    have s2: "sound w0 cr w2" by (rule sound_aside [OF s1 putHubSecret_aside [OF x]])
    show ?thesis
    proof (cases x)
      case None
      with assms(1) q Inr d x sound_update [OF mod [OF s2]] show ?thesis
        by (auto simp: updateDashboardCreds_def Let_def split: prod.split_asm)
    next
      case (Some e)
      with assms(1) q Inr d x s2 show ?thesis by (simp add: updateDashboardCreds_def)
    qed
  qed
qed

lemma component_status_typed:
  assumes "clusterComponentStatus K c cr w = ((st, e), w')"
  shows "aside w w'" and "st = Some (n, s) \<Longrightarrow> n = cp_name c \<and> s \<in> {''Normal'', ''Error''}"
  using assms
  by (auto simp: clusterComponentStatus_def podsHealth_def
      split: if_split_asm prod.split_asm sum.split_asm dest!: pod.list_world)

lemma component_statuses_typed:
  assumes "clusterComponentStatuses K cr cs w = (sts, w')"
  shows "aside w w' \<and> list_all (\<lambda>(n, st). n \<in> cp_name ` set cs \<and> st \<in> {''Normal'', ''Error''}) sts"
  using assms
proof (induction cs arbitrary: w sts w')
  case Nil
  then show ?case by (simp add: aside_def hubside_def)
next
  case (Cons c cs)
  obtain st e w1 where c: "clusterComponentStatus K c cr w = ((st, e), w1)" by (metis surj_pair)
  obtain sts2 w2 where r: "clusterComponentStatuses K cr cs w1 = (sts2, w2)" by fastforce
  note ty = component_status_typed [OF c]
  from Cons.IH [OF r] have "aside w w2" using ty(1) by (blast intro: aside_trans)
  moreover have "list_all (\<lambda>(n, st). n \<in> cp_name ` set (c # cs) \<and> st \<in> {''Normal'', ''Error''}) sts2"
    using Cons.IH [OF r] by (auto simp: list_all_iff)
  ultimately show ?case
  proof (cases st)
    case (Some p)
    then obtain n s where p: "st = Some (n, s)" by (cases p) simp
    with Cons.prems c r have "sts = (n, s) # sts2" "w' = w2" by auto
    with \<open>aside w w2\<close> \<open>list_all _ sts2\<close> ty(2) [OF p] show ?thesis by simp
  qed (use Cons.prems c r in simp)
qed

lemma health_typed:
  assumes "updateClusterHealthStatus K cr h w = (h', w')"
  shows "aside w w'" "well_typed_health h'" "ch_LastUpdated h' = ch_LastUpdated h"
proof -
  obtain sts v where s: "(if hc_NetworkPresent cr then clusterComponentStatuses K cr cluster_components w else ([], w))
      = (sts, v)" by fastforce
  have t: "aside w v" "list_all (\<lambda>(n, st). n \<in> cp_name ` set cluster_components \<and> st \<in> {''Normal'', ''Error''}) sts"
    using s component_statuses_typed [of cr cluster_components w sts v]
    by (auto simp: aside_def hubside_def split: if_split_asm)
  have h: "h' = h\<lparr>ch_ComponentStatuses := sts, ch_ClusterHealthStatus :=
      (if list_ex (\<lambda>(_, st). st \<noteq> ''Normal'') sts then ''Warning'' else ''Normal'')\<rparr>" "w' = v"
    using assms s by (auto simp: updateClusterHealthStatus_def)
  show "aside w w'" using t h by simp
  show "ch_LastUpdated h' = ch_LastUpdated h" using h by simp
  show "well_typed_health h'" using t(2) h
    by (auto simp: well_typed_health_def list_all_iff list_ex_iff)
qed

lemma report_health_sound:
  assumes "reportClusterHealth K now interval cr w = (r, w')" and "sound w0 cr w"
  shows "\<exists>cr'. sound w0 cr' w'"
proof -
  let ?h = "case hc_ClusterHealth cr of
      None \<Rightarrow> \<lparr>ch_ClusterHealthStatus = '''', ch_ComponentStatuses = [], ch_LastUpdated = None\<rparr> | Some h \<Rightarrow> h"
  obtain h w1 where h: "updateClusterHealthStatus K cr ?h w = (h, w1)" by fastforce
  note t = health_typed [OF h]
  have s: "sound w0 cr w1" by (rule sound_aside [OF assms(2) t(1)])
  have "sound w0 (cr\<lparr>hc_ClusterHealth := Some (h\<lparr>ch_LastUpdated := Some now\<rparr>)\<rparr>) w1"
    using t(2) by (intro sound_mod [OF s]) (simp add: well_typed_cluster_def)
  from sound_status [OF this] s assms(1) h show ?thesis
    unfolding reportClusterHealth_def Let_def
    by (auto split: prod.split_asm if_split_asm option.split_asm)
qed

lemma report_sound:
  assumes "reportCluster K E now interval cr w = (r, w')" and "sound w0 cr w"
  shows "\<exists>cr'. sound w0 cr' w'"
proof -
  have reg: "sound w0 cr2 w2" if "updateRegistrationStatus K st cr w = (x, cr2, w2)"
      "st = ''Pending'' \<or> st = ''Registered''" for st x cr2 w2
    using registration_sound [OF that(1) assms(2)] that(2) by blast
  show ?thesis
  proof (cases "hc_NetworkPresent cr \<and> hc_CniSubnet cr = []")
    case True
    with assms(1) show ?thesis
      by (auto simp: reportCluster_def split: prod.split_asm dest!: reg)
  next
    case False
    obtain x cr1 w1 where 1: "updateRegistrationStatus K ''Registered'' cr w = (x, cr1, w1)" by (metis prod_cases3)
    obtain res err q cr2 w2 where 2: "updateNodeIps K cr1 w1 = ((res, err, q), cr2, w2)" by (metis prod_cases3)
    have s2: "sound w0 cr2 w2" using nodeip_sound [OF 2 reg [OF 1]] by simp
    obtain y cr3 w3 where 3: "updateDashboardCreds K E cr2 w2 = (y, cr3, w3)" by (metis prod_cases3)
    have r: "(r, w') = (if q then ((res, err), w2) else if \<not> isDashboardCredsUpdated cr2
        then (case y of Some e \<Rightarrow> ((result_none, Some e), w3) | None \<Rightarrow> ((result_requeue, None), w3))
        else reportClusterHealth K now interval cr2 w2)"
      using assms(1) False 1 2 3 by (auto simp: reportCluster_def split: option.split_asm if_split_asm)
    show ?thesis
    proof (cases "\<not> q \<and> isDashboardCredsUpdated cr2")
      case True
      with r have "reportClusterHealth K now interval cr2 w2 = (r, w')" by simp
      then show ?thesis by (rule report_health_sound [OF _ s2])
    next
      case False
      with r have "w' = w2 \<or> w' = w3" by (auto split: if_split_asm option.split_asm)
      with s2 dashboard_sound [OF 3 s2] show ?thesis by blast
    qed
  qed
qed

section \<open>Deregistration\<close>

lemma retryListSlice_step:
  assumes "r_list (k_slices K) (all_namespaces []) w = (q, w1)"
  shows "retryListSlice K n w = (if q = Inr [] then (True, w1)
    else case n of 0 \<Rightarrow> (False, w1) | Suc m \<Rightarrow> retryListSlice K m w1)"
  by (subst retryListSlice.simps) (use assms in \<open>auto split: sum.split list.split nat.split\<close>)

lemma retryListSliceGW_step:
  assumes "r_list (k_slicegws K) (all_namespaces []) w = (q, w1)"
  shows "retryListSliceGW K n w = (if q = Inr [] then (True, w1)
    else case n of 0 \<Rightarrow> (False, w1) | Suc m \<Rightarrow> retryListSliceGW K m w1)"
  by (subst retryListSliceGW.simps) (use assms in \<open>auto split: sum.split list.split nat.split\<close>)

lemma selects_all [simp]: "selects meta phase (all_namespaces []) ob"
  by (simp add: selects_def matches_labels_def all_namespaces_def)

lemma retryListSlice_result:
  "retryListSlice K n w = (b, w') \<Longrightarrow> aside w w' \<and> o_retryAttempts w' = o_retryAttempts w \<and> (b \<longrightarrow> w_slices w = [])"
proof (induction n arbitrary: w)
  case (0 w)
  obtain q w1 where q: "r_list (k_slices K) (all_namespaces []) w = (q, w1)" by fastforce
  with 0 slice.list_world [OF q] slice.list_ok [of "all_namespaces []" w "[]" w1] show ?case
    by (auto simp: retryListSlice_step [OF q] split: if_split_asm)
next
  case (Suc n w)
  obtain q w1 where q: "r_list (k_slices K) (all_namespaces []) w = (q, w1)" by fastforce
  have w1: "w1 = tick w" by (rule slice.list_world [OF q])
  show ?case
  proof (cases "q = Inr []")
    case True
    then have "w_slices w = []" using slice.list_ok [of "all_namespaces []" w "[]" w1] q by simp
    moreover have "w' = w1" using Suc.prems True unfolding retryListSlice_step [OF q] by simp
    ultimately show ?thesis using w1 by simp
  next
    case False
    with Suc.prems q have "retryListSlice K n w1 = (b, w')" unfolding retryListSlice_step [OF q] by simp
    from Suc.IH [OF this] w1 aside_trans [OF aside_tick, of w w'] show ?thesis by simp
  qed
qed

lemma retryListSliceGW_result:
  "retryListSliceGW K n w = (b, w') \<Longrightarrow> aside w w' \<and> o_retryAttempts w' = o_retryAttempts w \<and> (b \<longrightarrow> w_slicegws w = [])"
proof (induction n arbitrary: w)
  case (0 w)
  obtain q w1 where q: "r_list (k_slicegws K) (all_namespaces []) w = (q, w1)" by fastforce
  with 0 gw.list_world [OF q] gw.list_ok [of "all_namespaces []" w "[]" w1] show ?case
    by (auto simp: retryListSliceGW_step [OF q] split: if_split_asm)
next
  case (Suc n w)
  obtain q w1 where q: "r_list (k_slicegws K) (all_namespaces []) w = (q, w1)" by fastforce
  have w1: "w1 = tick w" by (rule gw.list_world [OF q])
  show ?case
  proof (cases "q = Inr []")
    case True
    then have "w_slicegws w = []" using gw.list_ok [of "all_namespaces []" w "[]" w1] q by simp
    moreover have "w' = w1" using Suc.prems True unfolding retryListSliceGW_step [OF q] by simp
    ultimately show ?thesis using w1 by simp
  next
    case False
    with Suc.prems q have "retryListSliceGW K n w1 = (b, w')" unfolding retryListSliceGW_step [OF q] by simp
    from Suc.IH [OF this] w1 aside_trans [OF aside_tick, of w w'] show ?thesis by simp
  qed
qed

lemma roles_frame:
  assumes "createDeregisterRoles K w = (r, w')" and "\<And>w. g (tick w) = g w"
    and "\<And>f w. g (w_serviceaccounts_update f w) = g w" and "\<And>f w. g (w_clusterroles_update f w) = g w"
    and "\<And>f w. g (w_clusterrolebindings_update f w) = g w"
  shows "g w' = g w"
proof -
  obtain x1 w1 where 1: "ensureCreated (k_serviceaccounts K) constructServiceAccount w = (x1, w1)" by fastforce
  obtain x2 w2 where 2: "r_get (k_clusterroles K) '''' ''kubeslice-manager-role'' w1 = (x2, w2)" by fastforce
  obtain x3 w3 where 3: "r_get (k_namespaces K) '''' ControlPlaneNamespace w2 = (x3, w3)" by fastforce
  have g: "g w1 = g w" "g w2 = g w" "g w3 = g w"
    using sac.ensureCreated_frame [OF 1, of g] cro.get_world [OF 2] nsp.get_world [OF 3] assms by simp_all
  have e1: "g v' = g v" if "ensureCreated (k_clusterroles K) c v = (y, v')" for c v y v'
    using that by (rule cro.ensureCreated_frame) (use assms in auto)
  have e2: "g v' = g v" if "ensureCreated (k_clusterrolebindings K) c v = (y, v')" for c v y v'
    using that by (rule crb.ensureCreated_frame) (use assms in auto)
  show ?thesis
  proof (cases "x1 = None \<and> isl x2 = False \<and> isl x3 = False")
    case True
    then obtain ro ns where ro: "x1 = None" "x2 = Inr ro" "x3 = Inr ns" by (cases x2; cases x3) auto
    obtain x4 w4 where 4: "ensureCreated (k_clusterroles K) (constructClusterRole ro) w3 = (x4, w4)" by fastforce
    from assms(1) 1 2 3 4 ro e1 [OF 4] e2 g show ?thesis
      by (cases x4) (auto simp: createDeregisterRoles_def)
  next
    case False
    with assms(1) 1 2 3 g show ?thesis
      by (cases x1; cases x2; cases x3) (auto simp: createDeregisterRoles_def)
  qed
qed

text \<open>
  What starting the job does after the status is written: the clusters are left alone, and so are
  the jobs, unless there are no slices and no slice gateways.
\<close>

lemma deregister_stages:
  assumes "createDeregisterJob K E F cr w = (r, cr', w')"
  obtains x w1 where "updateRegistrationStatus K ''DeregisterInProgress'' cr w = (x, cr', w1)"
    and "h_clusters w' = h_clusters w1" and "o_retryAttempts w' = o_retryAttempts w1"
    and "w_jobs w' \<noteq> w_jobs w1 \<longrightarrow> w_slices w1 = [] \<and> w_slicegws w1 = []"
proof -
  obtain x cr1 w1 where 1: "updateRegistrationStatus K ''DeregisterInProgress'' cr w = (x, cr1, w1)"
    by (metis prod_cases3)
  obtain b2 w2 where 2: "retryListSlice K 3 w1 = (b2, w2)" by fastforce
  obtain b3 w3 where 3: "retryListSliceGW K 3 w2 = (b3, w3)" by fastforce
  obtain x4 w4 where 4: "createDeregisterRoles K w3 = (x4, w4)" by fastforce
  note l = retryListSlice_result [OF 2] retryListSliceGW_result [OF 3]
  have w: "h_clusters w2 = h_clusters w1" "h_clusters w3 = h_clusters w1" "w_jobs w2 = w_jobs w1"
      "w_jobs w3 = w_jobs w1" "w_slicegws w2 = w_slicegws w1"
    using l hubside_sel [of w1 w2] hubside_sel [of w2 w3] by (auto simp: aside_def)
  have fr: "h_clusters w4 = h_clusters w1" "o_retryAttempts w4 = o_retryAttempts w1" "w_jobs w4 = w_jobs w1"
    using roles_frame [OF 4, of h_clusters] roles_frame [OF 4, of o_retryAttempts] roles_frame [OF 4, of w_jobs] w l
    by simp_all
  let ?P = "\<lambda>v. h_clusters v = h_clusters w1 \<and> o_retryAttempts v = o_retryAttempts w1
      \<and> (w_jobs v \<noteq> w_jobs w1 \<longrightarrow> w_slices w1 = [] \<and> w_slicegws w1 = [])"
  have rec: "recreate (k_configmaps K) cm_meta c w4 = (y, v) \<Longrightarrow> h_clusters v = h_clusters w4
      \<and> o_retryAttempts v = o_retryAttempts w4 \<and> w_jobs v = w_jobs w4" for c y v
    using cfm.recreate_frame [where g = h_clusters] cfm.recreate_frame [where g = o_retryAttempts]
      cfm.recreate_frame [where g = w_jobs] by simp
  have job: "recreate (k_jobs K) job_meta j v = (y, v') \<Longrightarrow> h_clusters v' = h_clusters v
      \<and> o_retryAttempts v' = o_retryAttempts v" for j v y v'
    using jobr.recreate_frame [where g = h_clusters] jobr.recreate_frame [where g = o_retryAttempts] by simp
  have "cr' = cr1 \<and> ?P w'"
  proof (cases "x = None \<and> b2 \<and> b3 \<and> x4 = None")
    case True
    then have s: "w_slices w1 = []" "w_slicegws w1 = []" using l w by auto
    from True assms 1 2 3 4 have "cr' = cr1 \<and> h_clusters w' = h_clusters w4 \<and> o_retryAttempts w' = o_retryAttempts w4"
      by (auto simp: createDeregisterJob_def split: sum.split_asm option.split_asm prod.split_asm
          dest!: rec job)
    with fr s show ?thesis by simp
  next
    case False
    with assms 1 2 3 4 have "cr' = cr1 \<and> w' \<in> {w1, w2, w3, w4}"
      by (auto simp: createDeregisterJob_def split: option.split_asm if_split_asm bool.split_asm)
    with fr w l show ?thesis by auto
  qed
  with 1 that show thesis by blast
qed

lemma deletion_continue:
  assumes "handleClusterDeletion K E F cr w = ((stop, res, err), cr', w')"
    and "om_DeletionTimestamp (hc_meta cr) = None" and "sound w0 cr w"
  shows "sound w0 cr' w'"
proof -
  let ?cr = "cr\<lparr>hc_meta := (hc_meta cr)\<lparr>om_Finalizers := om_Finalizers (hc_meta cr) @ [clusterDeregisterFinalizer]\<rparr>\<rparr>"
  have "sound w0 ?cr w" by (rule sound_mod [OF assms(3)]) simp
  from sound_update [OF this] assms show ?thesis
    by (auto simp: handleClusterDeletion_def Let_def split: if_split_asm prod.split_asm option.split_asm)
qed

lemma typed_sound: "sound w cr w \<longleftrightarrow> (list_all well_typed_cluster (h_clusters w) \<longrightarrow> well_typed_cluster cr)"
  by (auto simp: sound_def hubside_def)

lemma deletion_stops:
  assumes h: "handleClusterDeletion K E F cr w = (r, cr', w')"
    and d: "om_DeletionTimestamp (hc_meta cr) \<noteq> None"
  shows "list_all well_typed_cluster (h_clusters w) \<Longrightarrow> well_typed_cluster cr
      \<Longrightarrow> list_all well_typed_cluster (h_clusters w')"
    and "w_jobs w' \<noteq> w_jobs w \<Longrightarrow> deregistering cr w \<and> w_slices w = [] \<and> w_slicegws w = []"
proof -
  let ?T = "\<lambda>w. list_all well_typed_cluster (h_clusters w)"
  have "(?T w \<and> well_typed_cluster cr \<longrightarrow> ?T w')
      \<and> (w_jobs w' \<noteq> w_jobs w \<longrightarrow> deregistering cr w \<and> w_slices w = [] \<and> w_slicegws w = [])"
  proof (cases "deregistering cr w")
    case False
    with h show ?thesis by (simp add: handleClusterDeletion_deregistering [OF d])
  next
    case True
    obtain x cr1 w1 where job: "createDeregisterJob K E F cr w = (x, cr1, w1)" by (metis prod_cases3)
    then obtain y v where up: "updateRegistrationStatus K ''DeregisterInProgress'' cr w = (y, cr1, v)"
      and fr: "h_clusters w1 = h_clusters v" "w_jobs w1 \<noteq> w_jobs v \<longrightarrow> w_slices v = [] \<and> w_slicegws v = []"
      by (rule deregister_stages) blast
    have s: "sound w cr1 v" if "well_typed_cluster cr"
      using registration_sound [OF up, of w] that by (simp add: typed_sound)
    have "hubside w v" by (rule registration_hubside [OF up])
    note v = hubside_sel [OF this]
    show ?thesis
    proof (cases x)
      case None
      with h job True have "w' = w1" by (simp add: handleClusterDeletion_deregistering [OF d])
      with fr s v True show ?thesis by (auto simp: sound_def)
    next
      case (Some e)
      let ?w = "w1\<lparr>o_retryAttempts := o_retryAttempts w1 + 1\<rparr>"
      obtain z cr2 w2 where f: "updateRegistrationStatus K ''DeregisterFailed'' cr1 ?w = (z, cr2, w2)"
        by (metis prod_cases3)
      with h job True Some have w': "w' = w2" by (simp add: handleClusterDeletion_deregistering [OF d])
      have "?T w' \<and> w_jobs w' = w_jobs w1" if "?T w" "well_typed_cluster cr"
      proof -
        have "well_typed_cluster cr1" "?T ?w" using s that fr(1) by (auto simp: sound_def)
        then have "sound ?w cr2 w2" by (intro registration_sound [OF f]) (simp_all add: typed_sound)
        with \<open>?T ?w\<close> w' show ?thesis using hubside_sel(1) [of ?w w2] by (auto simp: sound_def)
      qed
      moreover have "hubside ?w w2" by (rule registration_hubside [OF f])
      ultimately show ?thesis using fr v True w' hubside_sel(1) [of ?w w2] by auto
    qed
  qed
  then show "?T w \<Longrightarrow> well_typed_cluster cr \<Longrightarrow> ?T w'"
    and "w_jobs w' \<noteq> w_jobs w \<Longrightarrow> deregistering cr w \<and> w_slices w = [] \<and> w_slicegws w = []" by blast+
qed

text \<open>A pass that does not stop at the deletion.\<close>

lemma pass_sound:
  assumes "ClusterReconcile K E Y F now interval ns n w = (r, w')"
    and "find (keyed hc_meta ns n) (h_clusters w) = Some c" and "om_DeletionTimestamp (hc_meta c) = None"
  shows "\<exists>cr. sound w cr w'"
proof -
  obtain q w1 where q: "r_get (k_clusters K) ns n w = (q, w1)" by fastforce
  have w1: "w1 = tick w" by (rule hcl.get_world [OF q])
  have cin: "c \<in> set (h_clusters w)" using assms(2) by (auto simp: find_Some_iff)
  have s1: "sound w c w1" using w1 cin by (auto simp: sound_def hubside_def list_all_iff)
  show ?thesis
  proof (cases q)
    case (Inl e)
    with assms(1) q s1 show ?thesis
      by (auto simp: ClusterReconcile_def getCluster_def split: go_error.split_asm)
  next
    case (Inr c')
    with hcl.get_ok [of ns n w c' w1] q assms(2) have c': "q = Inr c" by simp
    obtain stop res err cr2 w2 where d: "handleClusterDeletion K E F c w1 = ((stop, res, err), cr2, w2)"
      by (metis prod_cases3)
    have s2: "sound w cr2 w2" by (rule deletion_continue [OF d assms(3) s1])
    obtain res3 err3 q3 cr3 w3 where 3: "updateClusterCloudProviderInfo K cr2 w2 = ((res3, err3, q3), cr3, w3)"
      by (metis prod_cases3)
    have s3: "sound w cr3 w3" by (rule cloud_sound [OF 3 s2])
    obtain x4 cr4 w4 where 4: "updateNetworkStatus K cr3 w3 = (x4, cr4, w4)" by (metis prod_cases3)
    have s4: "sound w cr4 w4" by (rule network_sound [OF 4 s3])
    obtain x5 cr5 w5 where 5: "updateCNISubnetConfig K Y cr4 w4 = (x5, cr5, w5)" by (metis prod_cases3)
    have s5: "sound w cr5 w5" by (rule cni_sound [OF 5 s4])
    obtain r6 w6 where 6: "reportCluster K E now interval cr5 w5 = (r6, w6)" by fastforce
    have s6: "\<exists>cr. sound w cr w6" by (rule report_sound [OF 6 s5])
    have "w' \<in> {w2, w3, w4, w5, w6}"
      using assms(1) q c' d 3 4 5 6
      by (auto simp: ClusterReconcile_def getCluster_def split: bool.split_asm option.split_asm go.split_asm)
    with s2 s3 s4 s5 s6 show ?thesis by auto
  qed
qed

lemma pass_of_absent:
  assumes "ClusterReconcile K E Y F now interval ns n w = (r, w')"
    and "find (keyed hc_meta ns n) (h_clusters w) = None"
  shows "w' = tick w"
proof -
  obtain q w1 where q: "r_get (k_clusters K) ns n w = (q, w1)" by fastforce
  then obtain e where "q = Inl e" using hcl.get_ok [of ns n w _ w1] assms(2) by (cases q) auto
  with assms(1) q hcl.get_world [OF q] show ?thesis
    by (cases e) (auto simp: ClusterReconcile_def getCluster_def)
qed

lemma pass_of_deleted:
  assumes "ClusterReconcile K E Y F now interval ns n w = (r, w')"
    and "find (keyed hc_meta ns n) (h_clusters w) = Some c" and "om_DeletionTimestamp (hc_meta c) \<noteq> None"
  shows "w' = tick w \<or> (\<exists>x cr. handleClusterDeletion K E F c (tick w) = (x, cr, w'))"
proof -
  obtain q w1 where q: "r_get (k_clusters K) ns n w = (q, w1)" by fastforce
  have w1: "w1 = tick w" by (rule hcl.get_world [OF q])
  show ?thesis
  proof (cases q)
    case (Inl e)
    with assms(1) q w1 show ?thesis by (cases e) (auto simp: ClusterReconcile_def getCluster_def)
  next
    case (Inr c')
    with hcl.get_ok [of ns n w c' w1] q assms(2) have c': "q = Inr c" by simp
    obtain stop res err cr2 w2 where d: "handleClusterDeletion K E F c w1 = ((stop, res, err), cr2, w2)"
      by (metis prod_cases3)
    then have "stop" by (auto simp: handleClusterDeletion_deregistering [OF assms(3)] split: if_split_asm
          prod.split_asm option.split_asm)
    with assms(1) q c' d w1 show ?thesis by (auto simp: ClusterReconcile_def getCluster_def)
  qed
qed

lemma pass_typed:
  assumes "ClusterReconcile K E Y F now interval ns n w = (r, w')"
    and "list_all well_typed_cluster (h_clusters w)"
  shows "list_all well_typed_cluster (h_clusters w')"
proof (cases "find (keyed hc_meta ns n) (h_clusters w)")
  case None
  with pass_of_absent [OF assms(1)] assms(2) show ?thesis by simp
next
  case (Some c)
  then have c: "well_typed_cluster c" using assms(2) by (auto simp: find_Some_iff list_all_length)
  show ?thesis
  proof (cases "om_DeletionTimestamp (hc_meta c) = None")
    case True
    with pass_sound [OF assms(1) Some] assms(2) show ?thesis by (auto simp: sound_def)
  next
    case False
    from pass_of_deleted [OF assms(1) Some False] show ?thesis
      using deletion_stops(1) [OF _ False, of E F "tick w" _ _ w'] assms(2) c by auto
  qed
qed

lemma job_guarded:
  assumes "ClusterReconcile K E Y F now interval ns n w = (r, w')" and "w_jobs w' \<noteq> w_jobs w"
  shows "w_slices w = [] \<and> w_slicegws w = []
    \<and> (\<exists>c. find (keyed hc_meta ns n) (h_clusters w) = Some c \<and> deregistering c w)"
proof (cases "find (keyed hc_meta ns n) (h_clusters w)")
  case None
  with pass_of_absent [OF assms(1)] assms(2) show ?thesis by simp
next
  case (Some c)
  show ?thesis
  proof (cases "om_DeletionTimestamp (hc_meta c) = None")
    case True
    with pass_sound [OF assms(1) Some] assms(2) show ?thesis by (auto simp: sound_def dest: hubside_sel)
  next
    case False
    from pass_of_deleted [OF assms(1) Some False] assms(2)
    obtain x cr where "handleClusterDeletion K E F c (tick w) = (x, cr, w')" by auto
    from deletion_stops(2) [OF this False] assms(2) Some show ?thesis
      by (simp add: deregistering_def)
  qed
qed

lemma createDeregisterJob_ok:
  assumes "createDeregisterJob K E F cr w = (None, cr', w')"
  obtains data w4 w5 where "w_configmaps w4 = w_configmaps w" and "w_jobs w4 = w_jobs w"
    and "recreate (k_configmaps K) cm_meta (constructConfigMap data) w4 = (None, w5)"
    and "recreate (k_jobs K) job_meta (constructJobForClusterDeregister E) w5 = (None, w')"
proof -
  obtain x cr1 w1 where 1: "updateRegistrationStatus K ''DeregisterInProgress'' cr w = (x, cr1, w1)"
    by (metis prod_cases3)
  obtain b2 w2 where 2: "retryListSlice K 3 w1 = (b2, w2)" by fastforce
  obtain b3 w3 where 3: "retryListSliceGW K 3 w2 = (b3, w3)" by fastforce
  obtain x4 w4 where 4: "createDeregisterRoles K w3 = (x4, w4)" by fastforce
  have x: "x = None" "b2" "b3" "x4 = None" using assms 1 2 3 4
    by (auto simp: createDeregisterJob_def split: option.split_asm bool.split_asm)
  obtain data where d: "getCleanupScript E F = Inr data" using assms 1 2 3 4 x
    by (cases "getCleanupScript E F") (auto simp: createDeregisterJob_def)
  obtain x5 w5 where 5: "recreate (k_configmaps K) cm_meta (constructConfigMap data) w4 = (x5, w5)" by fastforce
  have x5: "x5 = None" using assms 1 2 3 4 x d 5 by (cases x5) (auto simp: createDeregisterJob_def)
  have "recreate (k_jobs K) job_meta (constructJobForClusterDeregister E) w5 = (None, w')"
    using assms 1 2 3 4 x d 5 x5 by (simp add: createDeregisterJob_def split: prod.split_asm)
  moreover have "hubside w w3"
    using registration_hubside [OF 1] retryListSlice_result [OF 2] retryListSliceGW_result [OF 3]
    by (simp add: aside_def hubside_def)
  ultimately show thesis
    using that 5 x5 hubside_sel(1,5) [of w w3] roles_frame [OF 4, of w_jobs] roles_frame [OF 4, of w_configmaps] by simp
qed

lemma stale_recreated:
  assumes "createDeregisterJob K E F cr w = (None, cr', w')"
  shows "(\<forall>cm cm'. find (keyed cm_meta ControlPlaneNamespace ''cluster-deregister-cm'') (w_configmaps w) = Some cm
      \<and> find (keyed cm_meta ControlPlaneNamespace ''cluster-deregister-cm'') (w_configmaps w') = Some cm' \<longrightarrow> cm' = cm)
    \<and> (\<forall>j j'. find (keyed job_meta ControlPlaneNamespace ''cluster-deregisteration-job'') (w_jobs w) = Some j
      \<and> find (keyed job_meta ControlPlaneNamespace ''cluster-deregisteration-job'') (w_jobs w') = Some j' \<longrightarrow> j' = j)"
proof -
  obtain data w4 w5 where w4: "w_configmaps w4 = w_configmaps w" "w_jobs w4 = w_jobs w"
    and c: "recreate (k_configmaps K) cm_meta (constructConfigMap data) w4 = (None, w5)"
    and j: "recreate (k_jobs K) job_meta (constructJobForClusterDeregister E) w5 = (None, w')"
    by (rule createDeregisterJob_ok [OF assms])
  have "w_configmaps w' = w_configmaps w5" "w_jobs w5 = w_jobs w4"
    using jobr.recreate_frame [OF j, of w_configmaps] cfm.recreate_frame [OF c, of w_jobs] by simp_all
  with w4 cfm.recreate_old [OF c] jobr.recreate_old [OF j] show ?thesis
    by (auto simp: constructConfigMap_def constructJobForClusterDeregister_def Let_def)
qed

end

section \<open>Deregistration that does not go on\<close>

text \<open>
  Runs as one cluster object sees them: passes over it, by any lawful clients, and anything else
  that leaves the object as it is, a restart of the operator included.
\<close>

inductive cluster_runs :: "string \<Rightarrow> string \<Rightarrow> world \<Rightarrow> world \<Rightarrow> bool" for ns n w0 where
  start: "cluster_runs ns n w0 w0"
| pass: "cluster_runs ns n w0 w \<Longrightarrow> lawful K \<Longrightarrow> ClusterReconcile K E Y F now interval ns n w = (r, w')
    \<Longrightarrow> cluster_runs ns n w0 w'"
| elsewhere: "cluster_runs ns n w0 w \<Longrightarrow> hub_at ns n w' = hub_at ns n w \<Longrightarrow> cluster_runs ns n w0 w'"

lemma in_progress_pass:
  assumes "lawful K" and "ClusterReconcile K E Y F now interval ns n w = (r, w')"
    and "hub_at ns n w = Some c" and "om_DeletionTimestamp (hc_meta c) \<noteq> None"
    and "hc_RegistrationStatus c = ''DeregisterInProgress''"
  shows "w' = tick w"
  using lawful.pass_of_deleted [OF assms(1,2) assms(3) [unfolded hub_at_def] assms(4)] assms(4,5)
  by (auto simp: handleClusterDeletion_deregistering deregistering_def)

lemma in_progress_stays:
  assumes "cluster_runs ns n w0 w" and "hub_at ns n w0 = Some c" and "om_DeletionTimestamp (hc_meta c) \<noteq> None"
    and "hc_RegistrationStatus c = ''DeregisterInProgress''"
  shows "hub_at ns n w = Some c"
  using assms
proof (induction rule: cluster_runs.induct)
  case (pass w K E Y F now interval r w')
  from in_progress_pass [OF pass.hyps(2,3) pass.IH [OF pass.prems] pass.prems(2,3)] pass.IH [OF pass.prems]
  show ?case by (simp add: hub_at_def)
qed simp_all


text \<open>
  Starting the deregistration job never brings in a new cleanup script or a new job. If an object
  with the name of the config map, or of the job, was there before a successful attempt, the one that
  is there after it is the old one, not the one that was constructed.
\<close>

theorem stale_objects_recreated:
  assumes "lawful K" and "createDeregisterJob K E F cr w = (None, cr', w')"
  shows "(\<forall>cm cm'. find (keyed cm_meta ControlPlaneNamespace ''cluster-deregister-cm'') (w_configmaps w) = Some cm
      \<and> find (keyed cm_meta ControlPlaneNamespace ''cluster-deregister-cm'') (w_configmaps w') = Some cm' \<longrightarrow> cm' = cm)
    \<and> (\<forall>j j'. find (keyed job_meta ControlPlaneNamespace ''cluster-deregisteration-job'') (w_jobs w) = Some j
      \<and> find (keyed job_meta ControlPlaneNamespace ''cluster-deregisteration-job'') (w_jobs w') = Some j' \<longrightarrow> j' = j)"
  using lawful.stale_recreated [OF assms] .

text \<open>
  C26: The operator is not uninstalled from a cluster that has slices. If a pass touches the jobs of the
  cluster, then there are no slices and no slice gateways in it, the cluster object is being
  deleted and has the finalizer, no deregistration is in progress, and fewer than three attempts
  have failed.
\<close>

theorem deregister_job_guarded:
  assumes "lawful K" and "ClusterReconcile K E Y F now interval ns n w = (r, w')"
    and "w_jobs w' \<noteq> w_jobs w"
  shows "w_slices w = [] \<and> w_slicegws w = []
    \<and> (\<exists>c. find (keyed hc_meta ns n) (h_clusters w) = Some c \<and> deregistering c w)"
  using lawful.job_guarded [OF assms] .


section \<open>Examples\<close>

definition ex_dying_cluster :: hub_cluster where
  "ex_dying_cluster = ex_cluster\<lparr>hc_meta := (hc_meta ex_cluster)\<lparr>om_DeletionTimestamp := Some 9,
     om_Finalizers := [''worker.kubeslice.io/cluster-deregister-finalizer'']\<rparr>,
     hc_RegistrationStatus := ''Registered''\<rparr>"

text \<open>A cluster with a slice, whose deregistration fails; the ninth call, which reports that, fails too.\<close>

definition ex_dying_world :: world where
  "ex_dying_world = empty_world\<lparr>h_clusters := [ex_dying_cluster],
     w_slices := [new_slice (new_meta ''kubeslice-system'' ''red'' [])]\<rparr>"

definition ex_faults :: "nat \<Rightarrow> go_error option" where
  "ex_faults i = (if i = 8 then Some (Failure ''unavailable'') else None)"

definition ex_failed_pass :: "(ctrl_result \<times> go_error option) go \<times> world" where
  "ex_failed_pass = ClusterReconcile (ref_kube ex_faults ex_replies) ex_cluster_env (\<lambda>_. Inr []) (\<lambda>_. Inr ''script'')
     500 120 ''kubeslice-p'' ''worker-1'' ex_dying_world"

lemma ex_failed_shape:
  "fst ex_failed_pass = Ret (result_none,
     Some (Failure ''slice present in cluster, should delete it before deregistering cluster''))"
  "hub_at ''kubeslice-p'' ''worker-1'' (snd ex_failed_pass)
     = Some (ex_dying_cluster\<lparr>hc_RegistrationStatus := ''DeregisterInProgress''\<rparr>)"
  by code_simp+


definition ex_free_world :: world where
  "ex_free_world = ex_dying_world\<lparr>w_slices := [],
     w_namespaces := [\<lparr>ns_meta = new_meta '''' ''kubeslice-system'' []\<rparr>],
     w_clusterroles := [\<lparr>cro_meta = new_meta '''' ''kubeslice-manager-role'' [], cro_Rules = []\<rparr>],
     w_configmaps := [constructConfigMap ''old'']\<rparr>"

definition ex_job_start :: "go_error option \<times> hub_cluster \<times> world" where
  "ex_job_start = createDeregisterJob ex_kube ex_cluster_env (\<lambda>_. Inr ''new'') ex_dying_cluster ex_free_world"

lemma ex_job_shape:
  "fst ex_job_start = None"
  "map_option cm_Data (find (keyed cm_meta ''kubeslice-system'' ''cluster-deregister-cm'')
     (w_configmaps (snd (snd ex_job_start)))) \<noteq> None"
  by code_simp+

theorem stale_objects_recreated_witness:
  "find (keyed cm_meta ControlPlaneNamespace ''cluster-deregister-cm'') (w_configmaps (snd (snd ex_job_start)))
     = Some (constructConfigMap ''old'')"
proof -
  have "createDeregisterJob ex_kube ex_cluster_env (\<lambda>_. Inr ''new'') ex_dying_cluster ex_free_world
      = (None, fst (snd ex_job_start), snd (snd ex_job_start))"
    using ex_job_shape(1) by (metis ex_job_start_def prod.collapse)
  from conjunct1 [OF stale_objects_recreated [OF ex_kube_lawful this]]
  have "cm' = constructConfigMap ''old''"
    if "find (keyed cm_meta ControlPlaneNamespace ''cluster-deregister-cm'') (w_configmaps (snd (snd ex_job_start))) = Some cm'"
    for cm'
    using that by (auto simp: ex_free_world_def keyed_def constructConfigMap_def)
  with ex_job_shape(2) show ?thesis by (auto simp: ControlPlaneNamespace_def)
qed

definition ex_job_pass :: "(ctrl_result \<times> go_error option) go \<times> world" where
  "ex_job_pass = ClusterReconcile ex_kube ex_cluster_env (\<lambda>_. Inr []) (\<lambda>_. Inr ''script'')
     500 120 ''kubeslice-p'' ''worker-1'' ex_free_world"

lemma ex_job_pass_created: "map job_meta (w_jobs (snd ex_job_pass)) \<noteq> []"
  by code_simp

theorem deregister_job_guarded_witness: "w_slices ex_free_world = []"
proof -
  have "ClusterReconcile ex_kube ex_cluster_env (\<lambda>_. Inr []) (\<lambda>_. Inr ''script'') 500 120 ''kubeslice-p'' ''worker-1''
      ex_free_world = (fst ex_job_pass, snd ex_job_pass)" by (simp add: ex_job_pass_def)
  from conjunct1 [OF deregister_job_guarded [OF ex_kube_lawful this]] ex_job_pass_created show ?thesis
    by (simp add: ex_free_world_def ex_dying_world_def empty_world_def)
qed

text \<open>A cluster without NSM whose report is due.\<close>

definition ex_resting_cluster :: hub_cluster where
  "ex_resting_cluster = ex_cluster\<lparr>hc_meta := (hc_meta ex_cluster)\<lparr>
     om_Finalizers := [''worker.kubeslice.io/cluster-deregister-finalizer'']\<rparr>,
     hc_RegistrationStatus := ''Registered'', hc_NodeIPs := [''10.0.0.1''], hc_DashboardEnabled := True\<rparr>"

definition ex_resting_world :: world where
  "ex_resting_world = empty_world\<lparr>h_clusters := [ex_resting_cluster],
     w_nodes := [\<lparr>n_meta = new_meta '''' ''n1'' [], n_ProviderID = '''',
       n_Addresses = [(''InternalIP'', ''10.0.0.1'')], n_Conditions = []\<rparr>]\<rparr>"

definition ex_resting_pass :: "(ctrl_result \<times> go_error option) go \<times> world" where
  "ex_resting_pass = ClusterReconcile ex_kube ex_cluster_env (\<lambda>_. Inr []) (\<lambda>_. Inr ''script'')
     500 120 ''kubeslice-p'' ''worker-1'' ex_resting_world"

lemma ex_resting_shape:
  "fst ex_resting_pass = Ret (result_after 120, None)"
  "hub_at ''kubeslice-p'' ''worker-1'' ex_resting_world = Some ex_resting_cluster"
  "om_DeletionTimestamp (hc_meta ex_resting_cluster) = None"
  "list_all well_typed_cluster (h_clusters ex_resting_world)"
  by code_simp+

lemma ex_resting_run:
  "ClusterReconcile ex_kube ex_cluster_env (\<lambda>_. Inr []) (\<lambda>_. Inr ''script'') 500 120 ''kubeslice-p'' ''worker-1''
     ex_resting_world = (Ret (result_after 120, None), snd ex_resting_pass)"
  using ex_resting_shape(1) by (metis ex_resting_pass_def prod.collapse)


end
