(* ===== verification/ClusterPass.thy ===== *)
theory ClusterPass
  imports ClusterSafety
begin

text \<open>
  What a pass over the cluster object reaches: the facts that hold of the object on the hub, carried
  through the steps of the pass.
\<close>

section \<open>What the hub says of the cluster\<close>

definition holds :: "string \<Rightarrow> string \<Rightarrow> (hub_cluster \<Rightarrow> bool) \<Rightarrow> hub_cluster \<Rightarrow> world \<Rightarrow> bool" where
  "holds ns n P cr w \<longleftrightarrow> keyed hc_meta ns n cr \<and> (\<exists>c. hub_at ns n w = Some c \<and> P c)"

lemma holds_aside: "holds ns n P cr w \<Longrightarrow> aside w w' \<Longrightarrow> holds ns n P cr w'"
  by (simp add: holds_def hub_at_def aside_def)

lemma holds_mono: "holds ns n P cr w \<Longrightarrow> (\<And>c. P c \<Longrightarrow> Q c) \<Longrightarrow> holds ns n Q cr w"
  by (auto simp: holds_def)

definition nsm_running :: "world \<Rightarrow> bool" where
  "nsm_running w \<longleftrightarrow>
     list_ex (selects wl_meta no_phase (in_namespace ControlPlaneNamespace [(''app'', ''nsmgr'')])) (w_daemonsets w)"

definition excluded_prefixes :: "yaml_parser \<Rightarrow> world \<Rightarrow> string list \<Rightarrow> bool" where
  "excluded_prefixes Y w ps \<longleftrightarrow> ps \<noteq> [] \<and>
     (\<exists>cm. find (keyed cm_meta ''kubeslice-system'' ''nsm-config'') (w_configmaps w) = Some cm
        \<and> getPrefixes Y cm = Ret (Inr ps))"

definition cni_current :: "yaml_parser \<Rightarrow> world \<Rightarrow> hub_cluster \<Rightarrow> bool" where
  "cni_current Y w c \<longleftrightarrow>
     (if hc_NetworkPresent c then nsm_running w \<and> excluded_prefixes Y w (hc_CniSubnet c) else hc_CniSubnet c = [])"

definition published_addresses :: "bool \<Rightarrow> world \<Rightarrow> string list" where
  "published_addresses isNetworkPresent w =
     (let ips = nodeAddresses (filter (\<lambda>n. \<not> isNetworkPresent
                  \<or> matches_labels gatewayNodeLabels (om_Labels (n_meta n))) (w_nodes w))
      in if ips = [] then [''''] else ips)"

definition health_fresh :: "int \<Rightarrow> nat \<Rightarrow> hub_cluster \<Rightarrow> bool" where
  "health_fresh now interval c \<longleftrightarrow>
     (\<exists>h t. hc_ClusterHealth c = Some h \<and> ch_LastUpdated h = Some t \<and> now - t \<le> int interval)"

context lawful
begin

lemma getAgain_hub:
  assumes "getAgain K cr w = (Inr c, w')" and "keyed hc_meta ns n cr"
  shows "hub_at ns n w = Some c" "keyed hc_meta ns n c"
proof -
  from assms have "r_get (k_clusters K) ns n w = (Inr c, w')" by (simp add: getAgain_def keyed_def)
  then show "hub_at ns n w = Some c" using hcl.get_ok by (simp add: hub_at_def)
  then show "keyed hc_meta ns n c" using find_Some_iff' by (fastforce simp: hub_at_def)
qed

lemma hub_status_written:
  assumes "r_update_status (k_clusters K) c w = (r, w')" and "keyed hc_meta ns n c" and "hub_at ns n w = Some c0"
  shows "r = None \<Longrightarrow> hub_at ns n w' = Some c" and "r \<noteq> None \<Longrightarrow> hub_at ns n w' = Some c0"
  using hcl.update_status_ok [of c w w'] hcl.update_status_err [of c w _ w'] assms
    find_replace_key [of hc_meta ns n "h_clusters w" c0 c]
  by (auto simp: hub_at_def)

lemma hub_updated:
  assumes "r_update (k_clusters K) c w = (r, w')" and "keyed hc_meta ns n c" and "hub_at ns n w = Some c0"
  shows "r = None \<Longrightarrow> hub_at ns n w' = Some c" and "r \<noteq> None \<Longrightarrow> hub_at ns n w' = Some c0"
  using hcl.update_ok [of c w w'] hcl.update_err [of c w _ w'] assms
    find_replace_key [of hc_meta ns n "h_clusters w" c0 c]
  by (auto simp: hub_at_def)

lemma holds_status:
  assumes "r_update_status (k_clusters K) c w = (r, w')" and "holds ns n P cr w"
    and "keyed hc_meta ns n c" and "P c"
  shows "holds ns n P c w'"
  using hub_status_written [OF assms(1,3)] assms(2-4) by (cases "r = None") (auto simp: holds_def)

lemma holds_update:
  assumes "r_update (k_clusters K) c w = (r, w')" and "holds ns n P cr w"
    and "keyed hc_meta ns n c" and "P c"
  shows "holds ns n P c w'"
  using hub_updated [OF assms(1,3)] assms(2-4) by (cases "r = None") (auto simp: holds_def)

lemma holds_get:
  assumes "holds ns n P cr w" and "getAgain K cr w = (q, w')"
  shows "q = Inl e \<Longrightarrow> holds ns n P cr w'" and "q = Inr c \<Longrightarrow> holds ns n P c w' \<and> P c"
proof -
  have w': "w' = tick w" using hcl.get_world assms(2) unfolding getAgain_def by blast
  show "q = Inl e \<Longrightarrow> holds ns n P cr w'" using assms(1) w' by (simp add: holds_def hub_at_def)
  assume "q = Inr c"
  with assms(2) getAgain_hub [of cr w c w' ns n] assms(1) w'
  show "holds ns n P c w' \<and> P c" by (auto simp: holds_def hub_at_def)
qed

lemma keyed_fields [simp]:
  "keyed hc_meta ns n (c\<lparr>hc_RegistrationStatus := s\<rparr>) = keyed hc_meta ns n c"
  "keyed hc_meta ns n (c\<lparr>hc_NetworkPresent := b\<rparr>) = keyed hc_meta ns n c"
  "keyed hc_meta ns n (c\<lparr>hc_CniSubnet := xs\<rparr>) = keyed hc_meta ns n c"
  "keyed hc_meta ns n (c\<lparr>hc_NodeIPs := xs\<rparr>) = keyed hc_meta ns n c"
  "keyed hc_meta ns n (c\<lparr>hc_CloudProvider := s, hc_CloudRegion := t\<rparr>) = keyed hc_meta ns n c"
  "keyed hc_meta ns n (c\<lparr>hc_ClusterHealth := h\<rparr>) = keyed hc_meta ns n c"
  by (simp_all add: keyed_def)

lemma registration_holds:
  assumes "updateRegistrationStatus K status cr w = (r, cr', w')" and "holds ns n P cr w"
    and ins: "\<And>c s. P c \<Longrightarrow> P (c\<lparr>hc_RegistrationStatus := s\<rparr>)"
  shows "holds ns n P cr' w'"
proof -
  have "(\<lambda>(cr, w). holds ns n P cr w) (cr', w')"
  proof (rule RetryOnConflict_keeps [OF assms(1) [unfolded updateRegistrationStatus_def]])
    show "(\<lambda>(cr, w). holds ns n P cr w) (cr, w)" using assms(2) by simp
    fix s1 s2 r
    assume p: "(\<lambda>(cr, w). holds ns n P cr w) s1" and f: "registrationAttempt K status s1 = (r, s2)"
    obtain cr1 w1 where s1: "s1 = (cr1, w1)" by fastforce
    obtain q w2 where g: "getAgain K cr1 w1 = (q, w2)" by fastforce
    note get = holds_get [OF _ g, of ns n P]
    show "(\<lambda>(cr, w). holds ns n P cr w) s2"
    proof (cases q)
      case (Inl e)
      with f g s1 p get(1) show ?thesis by auto
    next
      case (Inr c)
      with get(2) p s1 have c: "holds ns n P c w2" "P c" by auto
      then have "holds ns n P (c\<lparr>hc_RegistrationStatus := status\<rparr>) v"
        if "r_update_status (k_clusters K) (c\<lparr>hc_RegistrationStatus := status\<rparr>) w2 = (y, v)" for y v
        using that by (intro holds_status [OF that c(1)]) (auto simp: holds_def ins)
      with f g s1 Inr show ?thesis by (auto simp: Let_def split: prod.split_asm)
    qed
  qed
  then show ?thesis by simp
qed

lemma cloud_holds:
  assumes "updateClusterCloudProviderInfo K cr w = ((res, err, False), cr', w')" and "holds ns n P cr w"
    and ins: "\<And>c s t. P c \<Longrightarrow> P (c\<lparr>hc_CloudProvider := s, hc_CloudRegion := t\<rparr>)"
  shows "holds ns n P cr' w'"
proof -
  obtain q w1 where i: "GetClusterInfo K (om_Name (hc_meta cr)) w = (q, w1)" by fastforce
  obtain info where q: "q = Inr info"
    using assms(1) i by (cases q) (auto simp: updateClusterCloudProviderInfo_def)
  have s1: "holds ns n P cr w1" by (rule holds_aside [OF assms(2) GetClusterInfo_aside [OF i]])
  obtain x cr2 u w2 where
    R: "RetryOnConflict DefaultRetry (cloudAttempt K (ci_GeoLocation info)) (cr, False, w1) = (x, cr2, u, w2)"
    by (metis prod_cases4)
  have "(\<lambda>(cr, u, w). holds ns n P cr w) (cr2, u, w2)"
  proof (rule RetryOnConflict_keeps [OF R])
    show "(\<lambda>(cr, u, w). holds ns n P cr w) (cr, False, w1)" using s1 by simp
    fix t1 t2 r
    assume p: "(\<lambda>(cr, u, w). holds ns n P cr w) t1" and f: "cloudAttempt K (ci_GeoLocation info) t1 = (r, t2)"
    obtain cr1 u1 w1 where t1: "t1 = (cr1, u1, w1)" by (metis prod_cases3)
    obtain q w2 where g: "getAgain K cr1 w1 = (q, w2)" by fastforce
    note get = holds_get [OF _ g, of ns n P]
    show "(\<lambda>(cr, u, w). holds ns n P cr w) t2"
    proof (cases q)
      case (Inl e)
      with f g t1 p get(1) show ?thesis by auto
    next
      case (Inr c)
      with get(2) p t1 have c: "holds ns n P c w2" "P c" by auto
      let ?c = "c\<lparr>hc_CloudProvider := CloudProvider (ci_GeoLocation info), hc_CloudRegion := CloudRegion (ci_GeoLocation info)\<rparr>"
      have "holds ns n P ?c v" if "r_update (k_clusters K) ?c w2 = (y, v)" for y v
        by (rule holds_update [OF that c(1)]) (use c in \<open>auto simp: holds_def ins\<close>)
      with c f g t1 Inr show ?thesis by (auto simp: Let_def split: prod.split_asm if_split_asm)
    qed
  qed
  with assms(1) i q R show ?thesis
    by (auto simp: updateClusterCloudProviderInfo_def split: option.split_asm)
qed

lemma network_holds:
  assumes "updateNetworkStatus K cr w = (None, cr', w')" and "holds ns n P cr w"
    and ins: "\<And>c b. P c \<Longrightarrow> P (c\<lparr>hc_NetworkPresent := b\<rparr>)"
  shows "holds ns n (\<lambda>c. P c \<and> (hc_NetworkPresent c \<longrightarrow> nsm_running w)) cr' w'"
proof -
  let ?S = "\<lambda>(cr, v). holds ns n P cr v \<and> w_daemonsets v = w_daemonsets w"
  have "\<exists>s. ?S s \<and> networkAttempt K s = (None, cr', w')"
  proof (rule RetryOnConflict_success [OF assms(1) [unfolded updateNetworkStatus_def]])
    show "?S (cr, w)" using assms(2) by simp
    fix s1 s2
    assume p: "?S s1" and f: "networkAttempt K s1 = (Some Conflict, s2)"
    obtain cr1 w1 where s1: "s1 = (cr1, w1)" by fastforce
    obtain q w2 where g: "getAgain K cr1 w1 = (q, w2)" by fastforce
    have w2: "w2 = tick w1" using g hcl.get_world unfolding getAgain_def by blast
    note get = holds_get [OF _ g, of ns n P]
    show "?S s2"
    proof (cases q)
      case (Inl e)
      with f g s1 p w2 get(1) show ?thesis by auto
    next
      case (Inr c)
      obtain b w3 where b: "isNsmInstalled K w2 = (b, w3)" by fastforce
      note a = isNsmInstalled_aside [OF b]
      from Inr get(2) p s1 have c: "holds ns n P c w2" "P c" by auto
      let ?c = "c\<lparr>hc_NetworkPresent := b\<rparr>"
      obtain y v where u: "r_update_status (k_clusters K) ?c w3 = (y, v)" by fastforce
      have "holds ns n P ?c v"
        by (rule holds_status [OF u holds_aside [OF c(1) a]]) (use c in \<open>auto simp: holds_def ins\<close>)
      moreover have "w_daemonsets v = w_daemonsets w3"
        using u by (cases y) (auto dest!: hcl.update_status_ok hcl.update_status_err)
      moreover have "w_daemonsets w3 = w_daemonsets w1" using a w2 by (auto simp: aside_def dest: hubside_sel)
      ultimately show ?thesis using p f g s1 Inr b u by (simp add: Let_def) blast
    qed
  qed
  then obtain cr1 w1 where s: "?S (cr1, w1)" "networkAttempt K (cr1, w1) = (None, cr', w')" by auto
  obtain q w2 where g: "getAgain K cr1 w1 = (q, w2)" by fastforce
  have w2: "w2 = tick w1" using g hcl.get_world unfolding getAgain_def by blast
  obtain c where q: "q = Inr c" using s(2) g by (cases q) auto
  obtain b w3 where b: "isNsmInstalled K w2 = (b, w3)" by fastforce
  note a = isNsmInstalled_aside [OF b]
  have c: "holds ns n P c w2" "P c" using holds_get(2) [OF _ g q, of ns n P] s(1) by auto
  have u: "r_update_status (k_clusters K) (c\<lparr>hc_NetworkPresent := b\<rparr>) w3 = (None, w')" "cr' = c\<lparr>hc_NetworkPresent := b\<rparr>"
    using s(2) g q b by (auto simp: Let_def split: prod.split_asm)
  have hc: "hub_at ns n w' = Some cr'"
    using hub_status_written(1) [OF u(1), of ns n] holds_aside [OF c(1) a] u(2) by (auto simp: holds_def)
  have "b \<longrightarrow> nsm_running w"
  proof
    assume b
    with b obtain ds where "r_list (k_daemonsets K) (in_namespace ControlPlaneNamespace [(''app'', ''nsmgr'')]) w2
        = (Inr ds, w3)" "ds \<noteq> []"
      by (auto simp: isNsmInstalled_def split: prod.split_asm sum.split_asm)
    with dms.list_ok [OF this(1)] s(1) w2 show "nsm_running w"
      by (auto simp: nsm_running_def filter_empty_conv list_ex_iff)
  qed
  with hc u(2) c show ?thesis by (auto simp: holds_def ins)
qed

lemma cni_holds:
  assumes "updateCNISubnetConfig K Y cr w = (Ret (res, err, False), cr', w')"
    and "holds ns n (\<lambda>c. P c \<and> (hc_NetworkPresent c \<longrightarrow> nsm_running w)) cr w"
    and ins: "\<And>c xs. P c \<Longrightarrow> P (c\<lparr>hc_CniSubnet := xs\<rparr>)"
  shows "holds ns n (\<lambda>c. P c \<and> cni_current Y w c) cr' w'"
proof -
  let ?P = "\<lambda>c. P c \<and> (hc_NetworkPresent c \<longrightarrow> nsm_running w)"
  let ?S = "\<lambda>(cr, u, v). holds ns n ?P cr v \<and> w_configmaps v = w_configmaps w"
  obtain x cr2 u w2 where R: "RetryOnConflict_go DefaultRetry (cniAttempt K Y) (cr, False, w) = (x, cr2, u, w2)"
    by (metis prod_cases4)
  with assms(1) have x: "x = Ret None" "cr' = cr2" "w' = w2" "\<not> u"
    by (auto simp: updateCNISubnetConfig_def split: go.split_asm option.split_asm if_split_asm)
  have wr: "holds ns n ?P (c\<lparr>hc_CniSubnet := xs\<rparr>) v \<and> w_configmaps v = w_configmaps v0"
    if "r_update_status (k_clusters K) (c\<lparr>hc_CniSubnet := xs\<rparr>) v0 = (y, v)" "holds ns n ?P c v0" "?P c" for c xs v0 y v
    using holds_status [OF that(1,2)] that(1,2,3)
    by (cases y) (auto simp: holds_def ins dest!: hcl.update_status_ok hcl.update_status_err)
  have "\<exists>s. ?S s \<and> cniAttempt K Y s = (Ret None, cr2, u, w2)"
  proof (rule RetryOnConflict_go_success [OF R [unfolded x(1)]])
    show "?S (cr, False, w)" using assms(2) by simp
    fix s1 s2
    assume p: "?S s1" and f: "cniAttempt K Y s1 = (Ret (Some Conflict), s2)"
    obtain cr1 u1 w1 where s1: "s1 = (cr1, u1, w1)" by (metis prod_cases3)
    obtain q w2 where g: "getAgain K cr1 w1 = (q, w2)" by fastforce
    have w2: "w2 = tick w1" using g hcl.get_world unfolding getAgain_def by blast
    note get = holds_get [OF _ g, of ns n ?P]
    show "?S s2"
    proof (cases q)
      case (Inl e)
      with f g s1 p w2 get(1) show ?thesis by auto
    next
      case (Inr c)
      with get(2) p s1 have c: "holds ns n ?P c w2" "?P c" by auto
      obtain y w3 where y: "GetNsmExcludedPrefix K Y ''nsm-config'' ''kubeslice-system'' w2 = (y, w3)" by fastforce
      note a = GetNsmExcludedPrefix_aside [OF y]
      have c3: "holds ns n ?P c w3" "w_configmaps w3 = w_configmaps w1"
        using holds_aside [OF c(1) a] a w2 by (auto simp: aside_def dest: hubside_sel)
      have c2: "w_configmaps w2 = w_configmaps w1" using w2 by simp
      show ?thesis
      proof (cases "hc_NetworkPresent c")
        case True
        with p c3 c wr [OF _ c3(1)] f g s1 Inr y show ?thesis
          by (auto simp: Let_def split: prod.split_asm if_split_asm go.split_asm sum.split_asm)
      next
        case False
        with p c2 c wr [OF _ c(1)] f g s1 Inr show ?thesis
          by (auto simp: Let_def split: prod.split_asm if_split_asm)
      qed
    qed
  qed
  then obtain s0 where s0: "?S s0" "cniAttempt K Y s0 = (Ret None, cr2, u, w2)" by blast
  obtain cr1 u1 w1 where t: "s0 = (cr1, u1, w1)" by (metis prod_cases3)
  note s = s0 [unfolded t]
  obtain q v where g: "getAgain K cr1 w1 = (q, v)" by fastforce
  have v: "v = tick w1" using g hcl.get_world unfolding getAgain_def by blast
  obtain c where q: "q = Inr c" using s(2) g by (cases q) auto
  have c: "holds ns n ?P c v" "?P c" using holds_get(2) [OF _ g q, of ns n ?P] s(1) by auto
  have hv: "hub_at ns n v = Some c" using getAgain_hub(1) [OF g [unfolded q]] s(1) v
    by (auto simp: holds_def hub_at_def)
  have key: "keyed hc_meta ns n c" using c(1) by (simp add: holds_def)
  show ?thesis
  proof (cases "hc_NetworkPresent c")
    case True
    obtain y w3 where y: "GetNsmExcludedPrefix K Y ''nsm-config'' ''kubeslice-system'' v = (y, w3)" by fastforce
    obtain ps where ps: "y = Ret (Inr ps)" "hc_CniSubnet c = ps" "cr2 = c" "w2 = w3"
      using s(2) g q True y x(4) by (auto simp: Let_def split: go.split_asm sum.split_asm if_split_asm prod.split_asm)
    have "excluded_prefixes Y w ps"
      using y [unfolded ps(1)] s(1) v unfolding GetNsmExcludedPrefix_def
      by (auto simp: excluded_prefixes_def split: prod.split_asm sum.split_asm if_split_asm go.split_asm list.split_asm
          dest!: cfm.get_ok)
    moreover have "hub_at ns n w3 = Some c"
      using GetNsmExcludedPrefix_aside [OF y] hv by (simp add: aside_def hub_at_def)
    ultimately show ?thesis using ps x c True key by (auto simp: holds_def cni_current_def)
  next
    case False
    have "hub_at ns n w2 = Some cr2 \<and> hc_CniSubnet cr2 = [] \<and> (\<exists>xs. cr2 = c\<lparr>hc_CniSubnet := xs\<rparr>)"
    proof (cases "hc_CniSubnet c = []")
      case True
      then have "c = c\<lparr>hc_CniSubnet := []\<rparr>" by simp
      moreover from True False s(2) g q have "cr2 = c" "w2 = v" by auto
      ultimately show ?thesis using True hv by (intro conjI exI [of _ "[]"]) auto
    next
      case ne: False
      with s(2) g q False have u: "r_update_status (k_clusters K) (c\<lparr>hc_CniSubnet := []\<rparr>) v = (None, w2)"
          "cr2 = c\<lparr>hc_CniSubnet := []\<rparr>"
        by (auto simp: Let_def split: prod.split_asm)
      with hub_status_written(1) [OF u(1) _ hv] key show ?thesis by auto
    qed
    with False x c key show ?thesis by (auto simp: holds_def cni_current_def ins)
  qed
qed

lemma validatenodeips_eq: "validatenodeips xs ys \<longleftrightarrow> xs = ys"
proof -
  have "sameAddresses xs ys \<longleftrightarrow> xs = ys" if "length xs = length ys"
    using that by (induction xs ys rule: list_induct2) auto
  then show ?thesis by (auto simp: validatenodeips_def)
qed

lemma GetNodeIP_result:
  assumes "GetNodeIP K b w = (Inr ips, w')"
  shows "ips = published_addresses b w"
proof -
  let ?lo = "all_namespaces (if b then gatewayNodeLabels else [])"
  obtain nodes w1 where l: "r_list (k_nodes K) ?lo w = (Inr nodes, w1)"
    and ips: "ips = (if nodeAddresses nodes = [] then [''''] else nodeAddresses nodes)"
    using assms by (auto simp: GetNodeIP_def populateNodeIpList_def split: prod.split_asm sum.split_asm option.split_asm if_split_asm)
  have sel: "selects n_meta no_phase ?lo = (\<lambda>n. \<not> b \<or> matches_labels gatewayNodeLabels (om_Labels (n_meta n)))"
    by (auto simp: selects_def all_namespaces_def matches_labels_def fun_eq_iff)
  with node.list_ok [OF l] ips show ?thesis unfolding published_addresses_def Let_def sel by simp
qed

lemma nodeip_holds:
  assumes "updateNodeIps K cr w = ((res, err, False), cr', w')" and "holds ns n P cr w"
    and ins: "\<And>c xs. P c \<Longrightarrow> P (c\<lparr>hc_NodeIPs := xs\<rparr>)"
  shows "hub_at ns n w' = Some cr' \<and> keyed hc_meta ns n cr' \<and> P cr'
    \<and> hc_NodeIPs cr' = published_addresses (hc_NetworkPresent cr') w"
proof -
  let ?S = "\<lambda>(cr, u, v). holds ns n P cr v \<and> w_nodes v = w_nodes w"
  obtain x cr2 u w2 where R: "RetryOnConflict DefaultRetry (nodeIpAttempt K) (cr, False, w) = (x, cr2, u, w2)"
    by (metis prod_cases4)
  with assms(1) have x: "x = None" "cr' = cr2" "w' = w2" "\<not> u"
    by (auto simp: updateNodeIps_def split: option.split_asm if_split_asm)
  have wr: "holds ns n P (c\<lparr>hc_NodeIPs := xs\<rparr>) v \<and> w_nodes v = w_nodes v0"
    if "r_update_status (k_clusters K) (c\<lparr>hc_NodeIPs := xs\<rparr>) v0 = (y, v)" "holds ns n P c v0" "P c" for c xs v0 y v
    using holds_status [OF that(1,2)] that(1,2,3)
    by (cases y) (auto simp: holds_def ins dest!: hcl.update_status_ok hcl.update_status_err)
  have "\<exists>s. ?S s \<and> nodeIpAttempt K s = (None, cr2, u, w2)"
  proof (rule RetryOnConflict_success [OF R [unfolded x(1)]])
    show "?S (cr, False, w)" using assms(2) by simp
    fix s1 s2
    assume p: "?S s1" and f: "nodeIpAttempt K s1 = (Some Conflict, s2)"
    obtain cr1 u1 w1 where s1: "s1 = (cr1, u1, w1)" by (metis prod_cases3)
    obtain q w2 where g: "getAgain K cr1 w1 = (q, w2)" by fastforce
    have w2: "w2 = tick w1" using g hcl.get_world unfolding getAgain_def by blast
    note get = holds_get [OF _ g, of ns n P]
    show "?S s2"
    proof (cases q)
      case (Inl e)
      with f g s1 p w2 get(1) show ?thesis by auto
    next
      case (Inr c)
      with get(2) p s1 have c: "holds ns n P c w2" "P c" by auto
      obtain y w3 where y: "GetNodeIP K (hc_NetworkPresent c) w2 = (y, w3)" by fastforce
      note a = GetNodeIP_aside [OF y]
      have c3: "holds ns n P c w3" "w_nodes w3 = w_nodes w1"
        using holds_aside [OF c(1) a] a w2 by (auto simp: aside_def dest: hubside_sel)
      with p c wr [OF _ c3(1)] f g s1 Inr y show ?thesis
        by (auto simp: Let_def split: prod.split_asm if_split_asm sum.split_asm)
    qed
  qed
  then obtain s0 where s0: "?S s0" "nodeIpAttempt K s0 = (None, cr2, u, w2)" by blast
  obtain cr1 u1 w1 where t: "s0 = (cr1, u1, w1)" by (metis prod_cases3)
  note s = s0 [unfolded t]
  obtain q v where g: "getAgain K cr1 w1 = (q, v)" by fastforce
  have v: "v = tick w1" using g hcl.get_world unfolding getAgain_def by blast
  obtain c where q: "q = Inr c" using s(2) g by (cases q) auto
  have c: "holds ns n P c v" "P c" using holds_get(2) [OF _ g q, of ns n P] s(1) by auto
  have hv: "hub_at ns n v = Some c" using getAgain_hub(1) [OF g [unfolded q]] s(1) v
    by (auto simp: holds_def hub_at_def)
  obtain y w3 where y: "GetNodeIP K (hc_NetworkPresent c) v = (y, w3)" by fastforce
  obtain ips where yi: "y = Inr ips" using s(2) g q y by (cases y) auto
  have "cr2 = c \<and> w2 = w3 \<and> hc_NodeIPs c = ips"
  proof (cases "hc_NodeIPs c = [] \<or> \<not> validatenodeips ips (hc_NodeIPs c)")
    case True
    with s(2) g q y yi x(4) show ?thesis by (auto simp: Let_def split: prod.split_asm)
  next
    case False
    with s(2) g q y yi show ?thesis by (simp add: validatenodeips_eq)
  qed
  with yi have ips: "y = Inr ips" "hc_NodeIPs c = ips" "cr2 = c" "w2 = w3" by simp_all
  have "ips = published_addresses (hc_NetworkPresent c) w"
    using GetNodeIP_result [OF y [unfolded ips(1)]] v s(1) by (simp add: published_addresses_def)
  moreover have "hub_at ns n w3 = Some c"
    using GetNodeIP_aside [OF y] hv by (simp add: aside_def hub_at_def)
  ultimately show ?thesis using ips x c by (simp add: holds_def)
qed

lemma report_health_holds:
  assumes "reportClusterHealth K now interval cr w = ((res, None), w')"
    and h: "hub_at ns n w = Some cr" and k: "keyed hc_meta ns n cr" and "P cr"
    and ins: "\<And>c h. P c \<Longrightarrow> P (c\<lparr>hc_ClusterHealth := h\<rparr>)"
  shows "\<exists>c. hub_at ns n w' = Some c \<and> P c \<and> health_fresh now interval c"
proof -
  let ?h = "case hc_ClusterHealth cr of
      None \<Rightarrow> \<lparr>ch_ClusterHealthStatus = '''', ch_ComponentStatuses = [], ch_LastUpdated = None\<rparr> | Some h \<Rightarrow> h"
  obtain h' w1 where u: "updateClusterHealthStatus K cr ?h w = (h', w1)" by fastforce
  note t = health_typed [OF u]
  have h1: "hub_at ns n w1 = Some cr" using t(1) h by (simp add: aside_def hub_at_def)
  let ?c = "cr\<lparr>hc_ClusterHealth := Some (h'\<lparr>ch_LastUpdated := Some now\<rparr>)\<rparr>"
  show ?thesis
  proof (cases "case ch_LastUpdated h' of None \<Rightarrow> True | Some t \<Rightarrow> now - t > int interval")
    case True
    with assms(1) u have "r_update_status (k_clusters K) ?c w1 = (None, w')"
      by (auto simp: reportClusterHealth_def Let_def split: prod.split_asm option.split_asm)
    from hub_status_written(1) [OF this _ h1] k have "hub_at ns n w' = Some ?c" by simp
    with ins [OF assms(4)] show ?thesis by (auto simp: health_fresh_def)
  next
    case False
    with assms(1) u have "w' = w1" by (auto simp: reportClusterHealth_def Let_def)
    moreover from False obtain t where "ch_LastUpdated h' = Some t" "now - t \<le> int interval"
      by (auto split: option.split_asm)
    moreover from this t(3) obtain h0 where "hc_ClusterHealth cr = Some h0" "ch_LastUpdated h0 = Some t"
      by (cases "hc_ClusterHealth cr") auto
    ultimately show ?thesis using h1 assms(4) by (auto simp: health_fresh_def)
  qed
qed

lemma found_sound: "hub_at ns n w = Some c \<Longrightarrow> sound w c (tick w) \<and> holds ns n (\<lambda>d. d = c) c (tick w)"
  using find_Some_iff' [of "keyed hc_meta ns n" "h_clusters w" c]
  by (auto simp: sound_def hubside_def list_all_iff holds_def hub_at_def find_Some_iff)

lemma finalizer_present:
  assumes "handleClusterDeletion K E F c w = ((False, res, err), cr', w')"
    and "hub_at ns n w = Some c" and "keyed hc_meta ns n c"
  shows "holds ns n (\<lambda>c. clusterDeregisterFinalizer \<in> set (om_Finalizers (hc_meta c))) cr' w'"
proof -
  have d: "om_DeletionTimestamp (hc_meta c) = None"
    using assms(1) by (auto simp: handleClusterDeletion_def split: if_split_asm prod.split_asm option.split_asm)
  show ?thesis
  proof (cases "exists (om_Finalizers (hc_meta c)) clusterDeregisterFinalizer")
    case True
    with assms d show ?thesis by (auto simp: handleClusterDeletion_def holds_def hub_at_def exists_iff)
  next
    case False
    let ?c = "c\<lparr>hc_meta := (hc_meta c)\<lparr>om_Finalizers := om_Finalizers (hc_meta c) @ [clusterDeregisterFinalizer]\<rparr>\<rparr>"
    have u: "r_update (k_clusters K) ?c w = (None, w')" "cr' = ?c" using assms(1) d False
      by (auto simp: handleClusterDeletion_def Let_def split: prod.split_asm option.split_asm)
    have "keyed hc_meta ns n ?c" using assms(3) by (simp add: keyed_def)
    with hub_updated(1) [OF u(1) this assms(2)] u(2) show ?thesis by (simp add: holds_def)
  qed
qed

text \<open>A pass that reaches the interval went through all its steps.\<close>

lemma pass_stages:
  assumes r: "ClusterReconcile K E Y F now interval ns n w = (Ret (result_after interval, None), w')"
    and c: "hub_at ns n w = Some c" and d: "om_DeletionTimestamp (hc_meta c) = None" and i: "interval \<noteq> 0"
  obtains res2 err2 cr2 w2 res3 err3 cr3 w3 cr4 w4 res5 err5 cr5 w5
  where "handleClusterDeletion K E F c (tick w) = ((False, res2, err2), cr2, w2)"
    and "updateClusterCloudProviderInfo K cr2 w2 = ((res3, err3, False), cr3, w3)"
    and "updateNetworkStatus K cr3 w3 = (None, cr4, w4)"
    and "updateCNISubnetConfig K Y cr4 w4 = (Ret (res5, err5, False), cr5, w5)"
    and "reportCluster K E now interval cr5 w5 = ((result_after interval, None), w')"
proof -
  have ne: "result_after interval \<noteq> result_none" using i by (simp add: result_defs)
  obtain q w1 where q: "r_get (k_clusters K) ns n w = (q, w1)" by fastforce
  have w1: "w1 = tick w" by (rule hcl.get_world [OF q])
  have qc: "q = Inr c"
  proof (cases q)
    case (Inl e)
    with r q ne show ?thesis by (cases e) (auto simp: ClusterReconcile_def getCluster_def)
  next
    case (Inr c')
    with hcl.get_ok [of ns n w c' w1] q c show ?thesis by (simp add: hub_at_def)
  qed
  obtain stop res2 err2 cr2 w2 where 2: "handleClusterDeletion K E F c w1 = ((stop, res2, err2), cr2, w2)"
    by (metis prod_cases3)
  have "stop \<Longrightarrow> res2 = result_none" using 2 d
    by (auto simp: handleClusterDeletion_def Let_def split: if_split_asm prod.split_asm option.split_asm)
  with r q qc 2 ne have ns: "\<not> stop" by (auto simp: ClusterReconcile_def getCluster_def)
  obtain res3 err3 q3 cr3 w3 where 3: "updateClusterCloudProviderInfo K cr2 w2 = ((res3, err3, q3), cr3, w3)"
    by (metis prod_cases3)
  have "q3 \<Longrightarrow> res3 = result_none \<or> res3 = result_requeue" using 3
    by (auto simp: updateClusterCloudProviderInfo_def split: prod.split_asm sum.split_asm option.split_asm)
  with r q qc 2 ns 3 ne have "\<not> q3" by (auto simp: ClusterReconcile_def getCluster_def)
  with 3 have 3: "updateClusterCloudProviderInfo K cr2 w2 = ((res3, err3, False), cr3, w3)" by simp
  obtain x4 cr4 w4 where 4: "updateNetworkStatus K cr3 w3 = (x4, cr4, w4)" by (metis prod_cases3)
  have "x4 = None" using r q qc 2 ns 3 4 ne by (auto simp: ClusterReconcile_def getCluster_def split: option.split_asm)
  with 4 have 4: "updateNetworkStatus K cr3 w3 = (None, cr4, w4)" by simp
  obtain x5 cr5 w5 where 5: "updateCNISubnetConfig K Y cr4 w4 = (x5, cr5, w5)" by (metis prod_cases3)
  have rest: "(case x5 of Panic \<Rightarrow> (Panic, w5) | Ret (res, err, True) \<Rightarrow> (Ret (res, err), w5)
      | Ret (_, _, False) \<Rightarrow> (case reportCluster K E now interval cr5 w5 of (r, w) \<Rightarrow> (Ret r, w)))
      = (Ret (result_after interval, None), w')"
    using r q qc 2 ns 3 4 5
    by (cases x5) (auto simp: ClusterReconcile_def getCluster_def split: prod.split_asm bool.split_asm split del: if_split)
  have req5: "res = result_none \<or> res = result_requeue" if "x5 = Ret (res, err, True)" for res err using 5 that
    by (auto simp: updateCNISubnetConfig_def split: prod.split_asm go.split_asm option.split_asm)
  obtain res5 err5 where x5: "x5 = Ret (res5, err5, False)"
  proof (cases x5)
    case (Ret p)
    obtain a b f where p: "p = (a, b, f)" by (metis prod_cases3)
    with rest Ret ne req5 have "\<not> f" by (cases f) auto
    with p Ret that show thesis by simp
  qed (use rest in simp)
  with rest have "reportCluster K E now interval cr5 w5 = ((result_after interval, None), w')"
    by (auto split: prod.split_asm)
  with 2 3 4 5 ns w1 x5 that show thesis by simp
qed

lemma report_holds:
  assumes r: "reportCluster K E now interval cr w = ((result_after interval, None), w')"
    and h: "holds ns n P cr w" and i: "interval \<noteq> 0"
    and ins: "\<And>c s. P c \<Longrightarrow> P (c\<lparr>hc_RegistrationStatus := s\<rparr>)" "\<And>c xs. P c \<Longrightarrow> P (c\<lparr>hc_NodeIPs := xs\<rparr>)"
      "\<And>c h. P c \<Longrightarrow> P (c\<lparr>hc_ClusterHealth := h\<rparr>)"
  shows "\<exists>c. hub_at ns n w' = Some c \<and> P c \<and> hc_DashboardEnabled c
    \<and> hc_NodeIPs c = published_addresses (hc_NetworkPresent c) w \<and> health_fresh now interval c"
proof -
  have ne: "result_after interval \<noteq> result_none" using i by (simp add: result_defs)
  have "\<not> (hc_NetworkPresent cr \<and> hc_CniSubnet cr = [])"
    using r by (auto simp: reportCluster_def split: prod.split_asm)
  note r' = r [unfolded reportCluster_def, simplified this if_False]
  obtain x cr1 w1 where 1: "updateRegistrationStatus K ''Registered'' cr w = (x, cr1, w1)" by (metis prod_cases3)
  have h1: "holds ns n P cr1 w1" by (rule registration_holds [OF 1 h ins(1)])
  have nodes: "w_nodes w1 = w_nodes w" by (rule hubside_sel [OF registration_hubside [OF 1]])
  obtain res err q cr2 w2 where 2: "updateNodeIps K cr1 w1 = ((res, err, q), cr2, w2)" by (metis prod_cases3)
  have "q \<Longrightarrow> res = result_none \<or> res = result_requeue" using 2
    by (auto simp: updateNodeIps_def split: prod.split_asm option.split_asm)
  with r' 1 2 ne have q: "\<not> q" by auto
  with 2 have 2: "updateNodeIps K cr1 w1 = ((res, err, False), cr2, w2)" by simp
  note n = nodeip_holds [OF 2 h1 ins(2)]
  have d: "isDashboardCredsUpdated cr2"
    using r' 1 2 ne by (auto split: if_split_asm prod.split_asm option.split_asm)
  with r' 1 2 have f: "reportClusterHealth K now interval cr2 w2 = ((result_after interval, None), w')" by simp
  let ?Q = "\<lambda>c. P c \<and> hc_DashboardEnabled c \<and> hc_NodeIPs c = published_addresses (hc_NetworkPresent c) w"
  have "?Q cr2" using n d nodes by (simp add: isDashboardCredsUpdated_def published_addresses_def)
  with n have "\<exists>c. hub_at ns n w' = Some c \<and> ?Q c \<and> health_fresh now interval c"
    by (intro report_health_holds [where P = ?Q, OF f]) (auto simp: ins(3))
  then show ?thesis by auto
qed

lemma cluster_pass_rests:
  assumes r: "ClusterReconcile K E Y F now interval ns n w = (Ret (result_after interval, None), w')"
    and c: "hub_at ns n w = Some c" and d: "om_DeletionTimestamp (hc_meta c) = None" and i: "interval \<noteq> 0"
  shows "\<exists>c'. hub_at ns n w' = Some c' \<and> clusterDeregisterFinalizer \<in> set (om_Finalizers (hc_meta c'))
    \<and> cni_current Y w c' \<and> hc_NodeIPs c' = published_addresses (hc_NetworkPresent c') w
    \<and> hc_DashboardEnabled c' \<and> health_fresh now interval c'"
proof -
  let ?P1 = "\<lambda>c::hub_cluster. clusterDeregisterFinalizer \<in> set (om_Finalizers (hc_meta c))"
  obtain res2 err2 cr2 w2 res3 err3 cr3 w3 cr4 w4 res5 err5 cr5 w5
    where 2: "handleClusterDeletion K E F c (tick w) = ((False, res2, err2), cr2, w2)"
      and 3: "updateClusterCloudProviderInfo K cr2 w2 = ((res3, err3, False), cr3, w3)"
      and 4: "updateNetworkStatus K cr3 w3 = (None, cr4, w4)"
      and 5: "updateCNISubnetConfig K Y cr4 w4 = (Ret (res5, err5, False), cr5, w5)"
      and 6: "reportCluster K E now interval cr5 w5 = ((result_after interval, None), w')"
    by (rule pass_stages [OF assms])
  note s1 = found_sound [OF c]
  have s2: "sound w cr2 w2" by (rule deletion_continue [OF 2 d]) (use s1 in simp)
  note s3 = cloud_sound [OF 3 s2]
  note s4 = network_sound [OF 4 s3]
  note s5 = cni_sound [OF 5 s4]
  have side: "hubside w w3" "hubside w w4" "hubside w w5" using s3 s4 s5 by (simp_all add: sound_def)
  note side = hubside_sel [OF side(1)] hubside_sel [OF side(2)] hubside_sel [OF side(3)]
  have "holds ns n ?P1 cr2 w2" by (rule finalizer_present [OF 2]) (use s1 in \<open>auto simp: holds_def\<close>)
  then have "holds ns n ?P1 cr3 w3" by (rule cloud_holds [OF 3]) simp
  then have "holds ns n (\<lambda>c. ?P1 c \<and> (hc_NetworkPresent c \<longrightarrow> nsm_running w3)) cr4 w4"
    by (rule network_holds [OF 4]) simp
  then have "holds ns n (\<lambda>c. ?P1 c \<and> (hc_NetworkPresent c \<longrightarrow> nsm_running w4)) cr4 w4"
    by (rule holds_mono) (simp add: nsm_running_def side)
  then have "holds ns n (\<lambda>c. ?P1 c \<and> cni_current Y w4 c) cr5 w5" by (rule cni_holds [OF 5]) simp
  then have "\<exists>c. hub_at ns n w' = Some c \<and> (?P1 c \<and> cni_current Y w4 c) \<and> hc_DashboardEnabled c
      \<and> hc_NodeIPs c = published_addresses (hc_NetworkPresent c) w5 \<and> health_fresh now interval c"
    by (rule report_holds [OF 6 _ i]) (simp_all add: cni_current_def)
  then show ?thesis
    by (auto simp: cni_current_def nsm_running_def excluded_prefixes_def published_addresses_def side)
qed

end



end
