(* ===== verification/Webhook.thy ===== *)
theory Webhook
  imports SliceReconcile
begin

text \<open>
  The admission webhook, \<open>pkg/webhook/pod\<close>: pods and pod templates of application namespaces are
  given the labels and annotations that connect them to the slice, and service exports are
  refused whose aliases another export of the slice has. An admission request holds the decoded
  object, or the error of decoding it; a patch is the object as it is after the patch. Letters
  are compared as \<open>strings.EqualFold\<close> does on ASCII.
\<close>

section \<open>Injection\<close>

definition nsmService :: "string \<Rightarrow> string" where
  "nsmService sliceName = ''vl3-service-'' @ sliceName"

text \<open>What is put on a pod, or on a pod template.\<close>

definition injectAnnotations :: "string \<Rightarrow> labels \<Rightarrow> labels" where
  "injectAnnotations sliceName an =
     (let an = AList.update ''kubeslice.io/status'' ''injected'' an;
          an = AList.update ''ns.networkservicemesh.io'' (nsmService sliceName) an
      in AList.update ''networkservicemesh.io'' (''kernel://'' @ nsmService sliceName @ ''/nsm0'') an)"

definition injectLabels :: "string \<Rightarrow> labels \<Rightarrow> labels" where
  "injectLabels sliceName ls =
     AList.update ApplicationNamespaceSelectorLabelKey sliceName (AList.update PodInjectLabelKey ''app'' ls)"

definition MutatePod :: "string \<Rightarrow> pod \<Rightarrow> pod" where
  "MutatePod sliceName p =
     p\<lparr>p_meta := (p_meta p)\<lparr>om_Annotations := injectAnnotations sliceName (om_Annotations (p_meta p)),
                            om_Labels := injectLabels sliceName (om_Labels (p_meta p))\<rparr>\<rparr>"

definition labelOwner :: "string \<Rightarrow> object_meta \<Rightarrow> object_meta" where
  "labelOwner sliceName m =
     m\<lparr>om_Labels := AList.update ApplicationNamespaceSelectorLabelKey sliceName (om_Labels m)\<rparr>"

definition MutateDeployment :: "string \<Rightarrow> deployment \<Rightarrow> deployment" where
  "MutateDeployment sliceName d =
     d\<lparr>d_TemplateAnnotations := injectAnnotations sliceName (d_TemplateAnnotations d),
       d_TemplateLabels := injectLabels sliceName (d_TemplateLabels d),
       d_meta := labelOwner sliceName (d_meta d)\<rparr>"

definition MutateStatefulset :: "string \<Rightarrow> workload \<Rightarrow> workload" where
  "MutateStatefulset sliceName ss =
     ss\<lparr>wl_TemplateAnnotations := injectAnnotations sliceName (wl_TemplateAnnotations ss),
        wl_TemplateLabels := injectLabels sliceName (wl_TemplateLabels ss),
        wl_meta := labelOwner sliceName (wl_meta ss)\<rparr>"

definition MutateDaemonSet :: "string \<Rightarrow> workload \<Rightarrow> workload" where
  "MutateDaemonSet sliceName ds =
     ds\<lparr>wl_TemplateAnnotations := injectAnnotations sliceName (wl_TemplateAnnotations ds),
        wl_TemplateLabels := injectLabels sliceName (wl_TemplateLabels ds),
        wl_meta := labelOwner sliceName (wl_meta ds)\<rparr>"

text \<open>A slice without a configuration is a nil dereference in both queries.\<close>

definition GetSliceOverlayNetworkType :: "kube \<Rightarrow> string \<Rightarrow> world \<Rightarrow> (go_error + string) go \<times> world" where
  "GetSliceOverlayNetworkType K sliceName w =
     (case GetSlice K sliceName w of
        (Inl e, w) \<Rightarrow> (Ret (Inl e), w)
      | (Inr s, w) \<Rightarrow>
          (case sl_Config s of None \<Rightarrow> (Panic, w) | Some c \<Rightarrow> (Ret (Inr (sc_NetworkMode c)), w)))"

definition SliceAppNamespaceConfigured :: "kube \<Rightarrow> string \<Rightarrow> string \<Rightarrow> world
    \<Rightarrow> (go_error + bool) go \<times> world" where
  "SliceAppNamespaceConfigured K sliceName namespace w =
     (case GetSlice K sliceName w of
        (Inl e, w) \<Rightarrow> (Ret (Inl e), w)
      | (Inr s, w) \<Rightarrow>
          (case sl_Config s of
             None \<Rightarrow> (Panic, w)
           | Some c \<Rightarrow>
               (case sc_NamespaceIsolationProfile c of
                  None \<Rightarrow> (Panic, w)
                | Some p \<Rightarrow> (Ret (Inr (exists (iso_ApplicationNamespaces p) namespace)), w))))"

definition GetNamespaceLabels :: "kube \<Rightarrow> string \<Rightarrow> world \<Rightarrow> (go_error + labels) \<times> world" where
  "GetNamespaceLabels K namespace w =
     (case r_get (k_namespaces K) '''' namespace w of
        (Inl e, w) \<Rightarrow> (Inl e, w)
      | (Inr ns, w) \<Rightarrow> (Inr (ns_Labels ns), w))"

text \<open>The slice whose labels an object gets, or none; every error means none.\<close>

definition MutationRequired :: "kube \<Rightarrow> object_meta \<Rightarrow> world \<Rightarrow> (bool \<times> string) go \<times> world" where
  "MutationRequired K m w =
     (if map_of (om_Labels m) ''kubeslice.io/exclude'' = Some ''true'' then (Ret (False, ''''), w)
      else if om_Namespace m = '''' then (Ret (False, ''''), w)
      else if map_of (om_Annotations m) ''kubeslice.io/status'' = Some ''injected'' then (Ret (False, ''''), w)
      else if om_Namespace m = ControlPlaneNamespace then (Ret (False, ''''), w)
      else
        (case GetNamespaceLabels K (om_Namespace m) w of
           (Inl e, w) \<Rightarrow> (Ret (False, ''''), w)
         | (Inr nsLabels, w) \<Rightarrow>
             (case map_of nsLabels ApplicationNamespaceSelectorLabelKey of
                None \<Rightarrow> (Ret (False, ''''), w)
              | Some sliceNameInNs \<Rightarrow>
                  (case GetSliceOverlayNetworkType K sliceNameInNs w of
                     (Panic, w) \<Rightarrow> (Panic, w)
                   | (Ret (Inl e), w) \<Rightarrow> (Ret (False, ''''), w)
                   | (Ret (Inr sliceNetworkType), w) \<Rightarrow>
                       (if sliceNetworkType \<noteq> '''' \<and> sliceNetworkType \<noteq> ''single-network''
                        then (Ret (False, ''''), w)
                        else
                          (case SliceAppNamespaceConfigured K sliceNameInNs (om_Namespace m) w of
                             (Panic, w) \<Rightarrow> (Panic, w)
                           | (Ret (Inl e), w) \<Rightarrow> (Ret (False, ''''), w)
                           | (Ret (Inr False), w) \<Rightarrow> (Ret (False, ''''), w)
                           | (Ret (Inr True), w) \<Rightarrow> (Ret (True, sliceNameInNs), w)))))))"

section \<open>Aliases\<close>

definition foldCase :: "char \<Rightarrow> char" where
  "foldCase c = (let n = of_char c :: nat in if 65 \<le> n \<and> n \<le> 90 then char_of (n + 32) else c)"

definition EqualFold :: "string \<Rightarrow> string \<Rightarrow> bool" where
  "EqualFold s t \<longleftrightarrow> map foldCase s = map foldCase t"

fun aliasExist :: "string list \<Rightarrow> string \<Rightarrow> bool" where
  "aliasExist [] newAlias = False"
| "aliasExist (a # existingAliases) newAlias = (if EqualFold a newAlias then True else aliasExist existingAliases newAlias)"

definition GetAllServiceExports :: "kube \<Rightarrow> string \<Rightarrow> world \<Rightarrow> (go_error + service_export list) \<times> world" where
  "GetAllServiceExports K sliceName w =
     r_list (k_serviceexports K) (all_namespaces [(ApplicationNamespaceSelectorLabelKey, sliceName)]) w"

text \<open>The first alias that another export has.\<close>

fun conflictingAlias :: "service_export \<Rightarrow> service_export list \<Rightarrow> string option" where
  "conflictingAlias svcex [] = None"
| "conflictingAlias svcex (x # xs) =
     (if om_Name (se_meta svcex) = om_Name (se_meta x) \<and> om_Namespace (se_meta svcex) = om_Namespace (se_meta x)
      then conflictingAlias svcex xs
      else
        (case find (aliasExist (se_Aliases x)) (se_Aliases svcex) of
           Some newAlias \<Rightarrow> Some newAlias
         | None \<Rightarrow> conflictingAlias svcex xs))"

definition ValidateServiceExport :: "kube \<Rightarrow> service_export \<Rightarrow> world
    \<Rightarrow> (bool \<times> string \<times> go_error option) \<times> world" where
  "ValidateServiceExport K svcex w =
     (case GetAllServiceExports K (se_Slice svcex) w of
        (Inl e, w) \<Rightarrow> ((False, '''', Some e), w)
      | (Inr xs, w) \<Rightarrow>
          (case conflictingAlias svcex xs of
             Some newAlias \<Rightarrow> ((False, newAlias, None), w)
           | None \<Rightarrow> ((True, '''', None), w)))"

section \<open>The handler\<close>

datatype admission_object =
    PodObject pod
  | DeploymentObject deployment
  | StatefulSetObject workload
  | DaemonSetObject workload
  | ServiceExportObject service_export
  | OtherKind

datatype admission_response =
    Errored nat go_error
  | Patched admission_object
  | Denied string
  | Allowed
  | InvalidKind

definition mutateIf :: "kube \<Rightarrow> object_meta \<Rightarrow> (string \<Rightarrow> 'o \<Rightarrow> 'o) \<Rightarrow> 'o \<Rightarrow> world \<Rightarrow> 'o go \<times> world" where
  "mutateIf K m change ob w =
     (case MutationRequired K m w of
        (Panic, w) \<Rightarrow> (Panic, w)
      | (Ret (mutate, sliceName), w) \<Rightarrow> (Ret (if mutate then change sliceName ob else ob), w))"

definition patched :: "('o \<Rightarrow> admission_object) \<Rightarrow> 'o go \<times> world \<Rightarrow> admission_response go \<times> world" where
  "patched f r = (case r of (Panic, w) \<Rightarrow> (Panic, w) | (Ret ob, w) \<Rightarrow> (Ret (Patched (f ob)), w))"

text \<open>A pod that a deployment creates has no namespace yet: it is that of the request.\<close>

definition withNamespace :: "string \<Rightarrow> pod \<Rightarrow> pod" where
  "withNamespace namespace p =
     (if om_Namespace (p_meta p) = '''' then p\<lparr>p_meta := (p_meta p)\<lparr>om_Namespace := namespace\<rparr>\<rparr> else p)"

definition Handle :: "kube \<Rightarrow> string \<Rightarrow> go_error + admission_object \<Rightarrow> world
    \<Rightarrow> admission_response go \<times> world" where
  "Handle K namespace req w =
     (case req of
        Inl e \<Rightarrow> (Ret (Errored 400 e), w)
      | Inr (PodObject p) \<Rightarrow>
          (let p = withNamespace namespace p in patched PodObject (mutateIf K (p_meta p) MutatePod p w))
      | Inr (DeploymentObject d) \<Rightarrow> patched DeploymentObject (mutateIf K (d_meta d) MutateDeployment d w)
      | Inr (StatefulSetObject ss) \<Rightarrow> patched StatefulSetObject (mutateIf K (wl_meta ss) MutateStatefulset ss w)
      | Inr (DaemonSetObject ds) \<Rightarrow> patched DaemonSetObject (mutateIf K (wl_meta ds) MutateDaemonSet ds w)
      | Inr (ServiceExportObject x) \<Rightarrow>
          (case ValidateServiceExport K x w of
             ((_, _, Some e), w) \<Rightarrow> (Ret (Errored 500 e), w)
           | ((False, alias, None), w) \<Rightarrow> (Ret (Denied (''Alias '' @ alias @ '' already exist'')), w)
           | ((True, _, None), w) \<Rightarrow> (Ret Allowed, w))
      | Inr OtherKind \<Rightarrow> (Ret InvalidKind, w))"

section \<open>Injection and removal\<close>

text \<open>An object that carries nothing of what the webhook adds.\<close>

definition untouched :: "labels \<Rightarrow> labels \<Rightarrow> bool" where
  "untouched ls an \<longleftrightarrow> PodInjectLabelKey \<notin> set (map fst ls)
     \<and> ApplicationNamespaceSelectorLabelKey \<notin> set (map fst ls)
     \<and> ''kubeslice.io/status'' \<notin> set (map fst an) \<and> ''ns.networkservicemesh.io'' \<notin> set (map fst an)
     \<and> ''networkservicemesh.io'' \<notin> set (map fst an)"

lemma update_new: "k \<notin> fst ` set xs \<Longrightarrow> AList.update k v xs = xs @ [(k, v)]"
  by (induction xs) auto

lemma delete_absent: "k \<notin> fst ` set xs \<Longrightarrow> AList.delete k xs = xs"
  by (induction xs) (auto simp: AList.delete_eq)

lemma delete_appended: "k \<notin> fst ` set xs \<Longrightarrow> AList.delete k (xs @ (k', v) # ys) =
    (if k = k' then xs @ AList.delete k ys else xs @ (k', v) # AList.delete k ys)"
  by (auto simp: AList.delete_eq filter_id_conv image_iff)

lemma map_of_appended: "k \<notin> fst ` set xs \<Longrightarrow> (m ++ map_of xs) k = m k"
  by (simp add: map_add_def map_of_eq_None_iff [THEN iffD2])

lemma strip_inject:
  assumes "untouched ls an"
  shows "stripLabels s (injectLabels s ls) = ls" and "stripAnnotations s (injectAnnotations s an) = an"
proof -
  have ne: "ApplicationNamespaceSelectorLabelKey \<noteq> PodInjectLabelKey"
    by (simp add: ApplicationNamespaceSelectorLabelKey_def PodInjectLabelKey_def)
  show "stripLabels s (injectLabels s ls) = ls"
    using assms ne by (simp add: untouched_def stripLabels_def injectLabels_def update_new delete_appended
        map_of_appended Let_def)
  show "stripAnnotations s (injectAnnotations s an) = an"
    using assms by (simp add: untouched_def stripAnnotations_def injectAnnotations_def update_new delete_appended
        delete_absent map_of_appended nsmService_def Let_def)
qed


section \<open>Who is injected\<close>

lemma injection_idempotent:
  "MutateDeployment s (MutateDeployment s d) = MutateDeployment s d"
  "MutateStatefulset s (MutateStatefulset s w) = MutateStatefulset s w"
  "MutateDaemonSet s (MutateDaemonSet s w) = MutateDaemonSet s w"
  "MutatePod s (MutatePod s p) = MutatePod s p"
proof -
  have u: "map_of xs k = Some v \<Longrightarrow> AList.update k v xs = xs" for k v and xs :: labels
    by (induction xs) (auto split: if_split_asm)
  have l: "injectLabels s (injectLabels s ls) = injectLabels s ls" for ls
    by (simp add: injectLabels_def u update_conv' ApplicationNamespaceSelectorLabelKey_def PodInjectLabelKey_def)
  have a: "injectAnnotations s (injectAnnotations s an) = injectAnnotations s an" for an
    by (simp add: injectAnnotations_def u update_conv')
  have o: "labelOwner s (labelOwner s m) = labelOwner s m" for m
    by (simp add: labelOwner_def u update_conv')
  show "MutateDeployment s (MutateDeployment s d) = MutateDeployment s d"
    "MutateStatefulset s (MutateStatefulset s w) = MutateStatefulset s w"
    "MutateDaemonSet s (MutateDaemonSet s w) = MutateDaemonSet s w"
    "MutatePod s (MutatePod s p) = MutatePod s p"
    by (simp_all add: MutateDeployment_def MutateStatefulset_def MutateDaemonSet_def MutatePod_def l a o)
qed

text \<open>The object may be connected to the slice.\<close>

definition belongs :: "object_meta \<Rightarrow> string \<Rightarrow> world \<Rightarrow> bool" where
  "belongs m sliceName w \<longleftrightarrow>
     map_of (om_Labels m) ''kubeslice.io/exclude'' \<noteq> Some ''true''
     \<and> om_Namespace m \<noteq> ControlPlaneNamespace
     \<and> (\<exists>n. find (keyed ns_meta '''' (om_Namespace m)) (w_namespaces w) = Some n
          \<and> map_of (ns_Labels n) ApplicationNamespaceSelectorLabelKey = Some sliceName)
     \<and> (\<exists>sl c p. find (keyed sl_meta ControlPlaneNamespace sliceName) (w_slices w) = Some sl
          \<and> sl_Config sl = Some c \<and> sc_NamespaceIsolationProfile c = Some p
          \<and> sc_NetworkMode c \<in> {'''', ''single-network''}
          \<and> om_Namespace m \<in> set (iso_ApplicationNamespaces p))"

definition disjoint_aliases :: "service_export list \<Rightarrow> bool" where
  "disjoint_aliases xs \<longleftrightarrow>
     (\<forall>x \<in> set xs. \<forall>y \<in> set xs. \<forall>a \<in> set (se_Aliases x). \<forall>b \<in> set (se_Aliases y).
        map_of (om_Labels (se_meta x)) ApplicationNamespaceSelectorLabelKey \<noteq> None
        \<and> map_of (om_Labels (se_meta x)) ApplicationNamespaceSelectorLabelKey
            = map_of (om_Labels (se_meta y)) ApplicationNamespaceSelectorLabelKey
        \<and> EqualFold a b \<longrightarrow> same_key se_meta x y)"

lemma aliasExist_iff: "aliasExist as a \<longleftrightarrow> (\<exists>b \<in> set as. EqualFold b a)"
  by (induction as) auto

lemma EqualFold_sym: "EqualFold a b \<longleftrightarrow> EqualFold b a"
  by (auto simp: EqualFold_def)

lemma conflictingAlias_None:
  "conflictingAlias x ys = None \<Longrightarrow> y \<in> set ys \<Longrightarrow> \<not> same_key se_meta x y
    \<Longrightarrow> a \<in> set (se_Aliases x) \<Longrightarrow> b \<in> set (se_Aliases y) \<Longrightarrow> \<not> EqualFold a b"
proof (induction ys)
  case (Cons z zs)
  show ?case
  proof (cases "y \<in> set zs")
    case True
    with Cons show ?thesis by (auto split: if_split_asm option.split_asm)
  next
    case False
    with Cons.prems have "z = y" by simp
    with Cons.prems have "find (aliasExist (se_Aliases y)) (se_Aliases x) = None"
      by (auto simp: same_key_def keyed_def split: if_split_asm option.split_asm)
    with Cons.prems(4,5) show ?thesis by (auto simp: find_None_iff aliasExist_iff EqualFold_sym)
  qed
qed simp

context lawful
begin

lemma mutation_belongs:
  assumes "MutationRequired K m w = (Ret (True, s), w')"
  shows "belongs m s w"
proof -
  have u: "map_of (om_Labels m) ''kubeslice.io/exclude'' \<noteq> Some ''true''"
      "om_Namespace m \<noteq> ControlPlaneNamespace" "om_Namespace m \<noteq> ''''"
      "map_of (om_Annotations m) ''kubeslice.io/status'' \<noteq> Some ''injected''"
    using assms by (auto simp: MutationRequired_def split: if_split_asm)
  obtain q w1 where q: "r_get (k_namespaces K) '''' (om_Namespace m) w = (q, w1)" by fastforce
  obtain n where n: "q = Inr n" using assms u q
    by (cases q) (auto simp: MutationRequired_def GetNamespaceLabels_def)
  note ns = nsp.get_ok [OF q [unfolded n]]
  obtain t where t: "map_of (ns_Labels n) ApplicationNamespaceSelectorLabelKey = Some t" using assms u q n
    by (auto simp: MutationRequired_def GetNamespaceLabels_def split: option.split_asm)
  obtain y w2 where y: "GetSlice K t w1 = (y, w2)" by fastforce
  obtain sl where sl: "y = Inr sl" using assms u q n t y
    by (cases y) (auto simp: MutationRequired_def GetNamespaceLabels_def GetSliceOverlayNetworkType_def)
  note s1 = slice.get_ok [OF y [unfolded GetSlice_def sl]]
  obtain c where c: "sl_Config sl = Some c" using assms u q n t y sl
    by (auto simp: MutationRequired_def GetNamespaceLabels_def GetSliceOverlayNetworkType_def split: option.split_asm)
  have mode: "sc_NetworkMode c = '''' \<or> sc_NetworkMode c = ''single-network''" using assms u q n t y sl c
    by (auto simp: MutationRequired_def GetNamespaceLabels_def GetSliceOverlayNetworkType_def split: if_split_asm)
  obtain z w3 where z: "GetSlice K t w2 = (z, w3)" by fastforce
  obtain sl2 where sl2: "z = Inr sl2" using assms u q n t y sl c mode z
    by (cases z) (auto simp: MutationRequired_def GetNamespaceLabels_def GetSliceOverlayNetworkType_def
        SliceAppNamespaceConfigured_def)
  have "sl2 = sl" using slice.get_ok [OF z [unfolded GetSlice_def sl2]] s1 ns by simp
  with assms u q n t y sl c mode z sl2 obtain p where "sc_NamespaceIsolationProfile c = Some p"
      "om_Namespace m \<in> set (iso_ApplicationNamespaces p)" "s = t"
    by (auto simp: MutationRequired_def GetNamespaceLabels_def GetSliceOverlayNetworkType_def
        SliceAppNamespaceConfigured_def exists_iff split: option.split_asm bool.split_asm)
  with u ns t s1 c mode show ?thesis by (auto simp: belongs_def)
qed

lemma admitted_export:
  assumes v: "ValidateServiceExport K x w = ((True, '''', None), w1)"
    and wr: "r_create (k_serviceexports K) x w2 = (None, w') \<or> r_update (k_serviceexports K) x w2 = (None, w')"
    and same: "w_serviceexports w2 = w_serviceexports w"
    and l: "map_of (om_Labels (se_meta x)) ApplicationNamespaceSelectorLabelKey \<in> {None, Some (se_Slice x)}"
    and d: "disjoint_aliases (w_serviceexports w)"
  shows "disjoint_aliases (w_serviceexports w')"
proof -
  let ?L = "\<lambda>y. map_of (om_Labels (se_meta y)) ApplicationNamespaceSelectorLabelKey"
  obtain xs where xs: "r_list (k_serviceexports K) (all_namespaces [(ApplicationNamespaceSelectorLabelKey, se_Slice x)]) w
      = (Inr xs, w1)" and c: "conflictingAlias x xs = None"
    using v by (auto simp: ValidateServiceExport_def GetAllServiceExports_def
        split: prod.split_asm sum.split_asm option.split_asm)
  have listed: "y \<in> set xs" if "y \<in> set (w_serviceexports w)" "?L y = Some (se_Slice x)" for y
    using sve.list_ok [OF xs] that by (auto simp: selects_def all_namespaces_def matches_labels_def)
  have new: "same_key se_meta x y" if "y \<in> set (w_serviceexports w)" "?L x \<noteq> None" "?L x = ?L y"
      "a \<in> set (se_Aliases x)" "b \<in> set (se_Aliases y)" "EqualFold a b" for y a b
    using conflictingAlias_None [OF c listed [OF that(1)] _ that(4,5)] that l by auto
  have sub: "set (w_serviceexports w') \<subseteq> insert x (set (w_serviceexports w))"
    using wr same by (auto simp: replace_object_def dest!: sve.create_ok sve.update_ok)
  have sk: "same_key se_meta x y \<longleftrightarrow> same_key se_meta y x" for y
    by (auto simp: same_key_def keyed_def)
  show ?thesis unfolding disjoint_aliases_def
  proof (intro ballI impI, elim conjE)
    fix y z a b
    assume y: "y \<in> set (w_serviceexports w')" and z: "z \<in> set (w_serviceexports w')"
      and a: "a \<in> set (se_Aliases y)" "b \<in> set (se_Aliases z)" "EqualFold a b" and L: "?L y \<noteq> None" "?L y = ?L z"
    consider "y = x" "z = x" | "y = x" "z \<in> set (w_serviceexports w)" | "z = x" "y \<in> set (w_serviceexports w)"
      | "y \<in> set (w_serviceexports w)" "z \<in> set (w_serviceexports w)" using y z sub by blast
    then show "same_key se_meta y z"
    proof cases
      case 1
      then show ?thesis by (simp add: same_key_def keyed_def)
    next
      case 2
      from new [OF 2(2), of a b] a L 2(1) show ?thesis by simp
    next
      case 3
      have "b \<in> set (se_Aliases x)" "?L x \<noteq> None" "?L x = ?L y" "EqualFold b a"
        using a(2,3) L 3(1) by (simp_all add: EqualFold_def)
      from new [OF 3(2) this(2,3,1) a(1) this(4)] sk [of y] 3(1) show ?thesis by blast
    next
      case 4
      from d [unfolded disjoint_aliases_def, rule_format, OF 4 a(1,2)] a(3) L show ?thesis by simp
    qed
  qed
qed

end

text \<open>
  C16: Only workloads of a slice are connected to it. If the webhook changes a pod beyond giving it the
  namespace of the request, then it injects one slice, whose name is the label of the pod's
  namespace; the namespace is configured for that slice, the slice has a single network, and the pod
  is neither excluded nor in the control plane.
\<close>

theorem injection_only_into_slice:
  assumes "lawful K"
    and "Handle K namespace (Inr (PodObject p)) w = (Ret (Patched (PodObject p')), w')"
    and "p' \<noteq> withNamespace namespace p"
  shows "\<exists>s. p' = MutatePod s (withNamespace namespace p) \<and> belongs (p_meta (withNamespace namespace p)) s w"
  using lawful.mutation_belongs [OF assms(1), of "p_meta (withNamespace namespace p)" w] assms(2,3)
  by (auto simp: Handle_def patched_def mutateIf_def Let_def split: prod.split_asm go.split_asm if_split_asm)

text \<open>
  C17: Aliases stay unique within a slice. If no two labelled exports of one slice have an alias in common,
  letters compared without case, and an export is admitted and then written, whose label names its
  own slice if it has one, then this still holds; other calls may come between the admission and
  the write, but no other write of exports.
\<close>

theorem admitted_aliases_disjoint:
  assumes "lawful K"
    and "Handle K namespace (Inr (ServiceExportObject x)) w = (Ret Allowed, w1)"
    and "r_create (k_serviceexports K) x w2 = (None, w') \<or> r_update (k_serviceexports K) x w2 = (None, w')"
    and "w_serviceexports w2 = w_serviceexports w"
    and "map_of (om_Labels (se_meta x)) ApplicationNamespaceSelectorLabelKey \<in> {None, Some (se_Slice x)}"
    and "disjoint_aliases (w_serviceexports w)"
  shows "disjoint_aliases (w_serviceexports w')"
proof -
  have "ValidateServiceExport K x w = ((True, '''', None), w1)"
    using assms(2) by (auto simp: Handle_def ValidateServiceExport_def
        split: prod.split_asm sum.split_asm option.split_asm bool.split_asm)
  from lawful.admitted_export [OF assms(1) this assms(3-6)] show ?thesis .
qed

text \<open>
  A pod of a namespace whose slice has no configuration yet makes the webhook panic.
\<close>

lemma webhook_panics_without_config:
  assumes "GetNamespaceLabels K (om_Namespace m) w = (Inr ls, w1)"
    and "map_of ls ApplicationNamespaceSelectorLabelKey = Some s" and "GetSlice K s w1 = (Inr sl, w2)"
    and "sl_Config sl = None" and "om_Namespace m \<notin> {'''', ControlPlaneNamespace}"
    and "map_of (om_Labels m) ''kubeslice.io/exclude'' \<noteq> Some ''true''"
    and "map_of (om_Annotations m) ''kubeslice.io/status'' \<noteq> Some ''injected''"
  shows "fst (MutationRequired K m w) = Panic"
  using assms by (simp add: MutationRequired_def GetSliceOverlayNetworkType_def)

section \<open>Examples\<close>

definition ex_app_pod :: pod where
  "ex_app_pod = \<lparr>p_meta = new_meta '''' ''web-1'' [(''app'', ''web'')], p_Phase = '''', p_PodIP = '''',
     p_NodeName = '''', p_TerminatedExitCodes = []\<rparr>"

definition ex_app_workload :: workload where
  "ex_app_workload = \<lparr>wl_meta = new_meta ''shop'' ''web'' [], wl_TemplateLabels = [(''app'', ''web'')],
     wl_TemplateAnnotations = []\<rparr>"

definition ex_app_deployment :: deployment where
  "ex_app_deployment = \<lparr>d_meta = new_meta ''shop'' ''web'' [], d_Replicas = 1, d_Selector = [(''app'', ''web'')],
     d_TemplateLabels = [(''app'', ''web'')], d_TemplateAnnotations = [],
     d_PodSpec = \<lparr>ps_ServiceAccountName = '''', ps_NodeAffinity = [],
       ps_PodAntiAffinity = \<lparr>paa_Weight = 0, paa_TopologyKey = '''', paa_Expressions = []\<rparr>,
       ps_Containers = [], ps_Volumes = [], ps_Tolerations = [], ps_ImagePullSecrets = []\<rparr>\<rparr>"


definition ex_shop_config :: slice_config where
  "ex_shop_config =
     \<lparr>sc_SliceID = '''', sc_SliceDisplayName = ''red'', sc_SliceSubnet = '''', sc_SliceType = '''',
      sc_QosProfileDetails = \<lparr>qos_QueueType = '''', qos_BandwidthCeilingKbps = 0, qos_BandwidthGuaranteedKbps = 0,
        qos_Priority = 0, qos_DscpClass = '''', qos_TcType = ''''\<rparr>,
      sc_SliceIpamType = '''', sc_IpamClusterOctet = 0, sc_ExternalGatewayConfig = None,
      sc_NamespaceIsolationProfile = Some \<lparr>IsolationEnabled = False, iso_ApplicationNamespaces = [''shop''],
        iso_AllowedNamespaces = []\<rparr>,
      sc_ClusterSubnetCIDR = '''', sc_SliceGatewayServiceType = '''', sc_SliceGatewayProtocol = '''',
      sc_NetworkMode = ''single-network''\<rparr>"

definition ex_alias_export :: "string \<Rightarrow> string list \<Rightarrow> labels \<Rightarrow> service_export" where
  "ex_alias_export n as ls =
     \<lparr>se_meta = new_meta ''shop'' n ls, se_Slice = ''red'', se_Selector = None, se_Ports = [], se_Aliases = as,
      se_DNSName = '''', se_ExportStatus = '''', se_Pods = [], se_LastSync = 0, se_ExposedPorts = '''',
      se_AvailableEndpoints = 0, se_IngressGwEnabled = False, se_IngressGwPodName = '''',
      se_IngressGwPodNsmIP = '''', se_StatusAliases = []\<rparr>"

definition ex_shop_world :: world where
  "ex_shop_world = empty_world\<lparr>
     w_namespaces := [\<lparr>ns_meta = new_meta '''' ''shop'' [(''kubeslice.io/slice'', ''red'')]\<rparr>],
     w_slices := [(new_slice (new_meta ''kubeslice-system'' ''red'' []))\<lparr>sl_Config := Some ex_shop_config\<rparr>],
     w_serviceexports := [ex_alias_export ''web'' [''Shop.example.com''] [(''kubeslice.io/slice'', ''red'')]]\<rparr>"

definition ex_admission :: "admission_response go \<times> world" where
  "ex_admission = Handle ex_kube ''shop'' (Inr (PodObject ex_app_pod)) ex_shop_world"

lemma ex_admission_shape:
  "fst ex_admission = Ret (Patched (PodObject (MutatePod ''red'' (withNamespace ''shop'' ex_app_pod))))"
  "MutatePod ''red'' (withNamespace ''shop'' ex_app_pod) \<noteq> withNamespace ''shop'' ex_app_pod"
  by code_simp+

theorem injection_only_into_slice_witness:
  "\<exists>s. belongs (p_meta (withNamespace ''shop'' ex_app_pod)) s ex_shop_world"
proof -
  have "Handle ex_kube ''shop'' (Inr (PodObject ex_app_pod)) ex_shop_world
      = (Ret (Patched (PodObject (MutatePod ''red'' (withNamespace ''shop'' ex_app_pod)))), snd ex_admission)"
    using ex_admission_shape(1) by (metis ex_admission_def prod.collapse)
  from injection_only_into_slice [OF ex_kube_lawful this ex_admission_shape(2)] show ?thesis by blast
qed

text \<open>An alias of another export, written in other letters, is refused; a free one is admitted.\<close>

lemma ex_alias_refused:
  "fst (Handle ex_kube ''shop'' (Inr (ServiceExportObject (ex_alias_export ''api'' [''shop.EXAMPLE.com''] []))) ex_shop_world)
     = Ret (Denied ''Alias shop.EXAMPLE.com already exist'')"
  by code_simp

definition ex_new_export :: service_export where
  "ex_new_export = ex_alias_export ''api'' [''api.example.com''] [(''kubeslice.io/slice'', ''red'')]"

lemma ex_alias_admitted:
  "fst (Handle ex_kube ''shop'' (Inr (ServiceExportObject ex_new_export)) ex_shop_world) = Ret Allowed"
  "fst (r_create (k_serviceexports ex_kube) ex_new_export ex_shop_world) = None"
  "map_of (om_Labels (se_meta ex_new_export)) ApplicationNamespaceSelectorLabelKey \<in> {None, Some (se_Slice ex_new_export)}"
  "disjoint_aliases (w_serviceexports ex_shop_world)"
  by code_simp+

theorem admitted_aliases_disjoint_witness:
  "disjoint_aliases (w_serviceexports (snd (r_create (k_serviceexports ex_kube) ex_new_export ex_shop_world)))"
proof -
  obtain w1 where h: "Handle ex_kube ''shop'' (Inr (ServiceExportObject ex_new_export)) ex_shop_world = (Ret Allowed, w1)"
    using ex_alias_admitted(1) by (metis prod.collapse)
  have "r_create (k_serviceexports ex_kube) ex_new_export ex_shop_world
      = (None, snd (r_create (k_serviceexports ex_kube) ex_new_export ex_shop_world))"
    using ex_alias_admitted(2) by (metis prod.collapse)
  from admitted_aliases_disjoint [OF ex_kube_lawful h disjI1 [OF this] refl ex_alias_admitted(3,4)] show ?thesis .
qed

end
