(* ===== verification/NetworkPolicy.thy ===== *)
theory NetworkPolicy
  imports Webhook
begin

text \<open>
  The network policy reconciler, \<open>pkg/networkpolicy/reconciler.go\<close>. The policy that the slice
  reconciler installs in a namespace is put back when it was changed; any other policy of a namespace
  of the slice is compared with the slice, and events tell what it admits too much. The events are
  part of the result of the functions here. Blocks of IPv4 addresses are parsed as
  \<open>net.ParseCIDR\<close> does; whether an IPv6 block is private is the parameter \<open>V6\<close>, which gives no
  answer for a block that does not parse.
\<close>

unbundle bit_operations_syntax

section \<open>Address blocks\<close>

definition digit :: "char \<Rightarrow> nat option" where
  "digit c = (let n = of_char c :: nat in if 48 \<le> n \<and> n \<le> 57 then Some (n - 48) else None)"

fun decimal_from :: "nat \<Rightarrow> string \<Rightarrow> nat option" where
  "decimal_from n [] = Some n"
| "decimal_from n (c # cs) = (case digit c of None \<Rightarrow> None | Some d \<Rightarrow> decimal_from (n * 10 + d) cs)"

definition decimal :: "string \<Rightarrow> nat option" where
  "decimal s = (if s = '''' then None else decimal_from 0 s)"

text \<open>A field of a dotted address has no leading zero.\<close>

definition octet :: "string \<Rightarrow> nat option" where
  "octet s = (if length s > 1 \<and> hd s = CHR ''0'' then None
     else case decimal s of None \<Rightarrow> None | Some n \<Rightarrow> if n > 255 then None else Some n)"

definition address :: "nat \<Rightarrow> nat \<Rightarrow> nat \<Rightarrow> nat \<Rightarrow> 32 word" where
  "address a b c d =
     ((word_of_nat a * 256 + word_of_nat b) * 256 + word_of_nat c) * 256 + word_of_nat d"

definition parseIPv4 :: "string \<Rightarrow> 32 word option" where
  "parseIPv4 s =
     (case map octet (split_on CHR ''.'' s) of
        [Some a, Some b, Some c, Some d] \<Rightarrow> Some (address a b c d)
      | _ \<Rightarrow> None)"

definition CIDRMask :: "nat \<Rightarrow> 32 word" where
  "CIDRMask ones = push_bit (32 - ones) (- 1)"

text \<open>The base address and the mask of a block.\<close>

definition ParseCIDR :: "string \<Rightarrow> (32 word \<times> 32 word) option" where
  "ParseCIDR s =
     (let addr = takeWhile (\<lambda>c. c \<noteq> CHR ''/'') s; rest = dropWhile (\<lambda>c. c \<noteq> CHR ''/'') s
      in case (rest, parseIPv4 addr, decimal (tl rest)) of
           (_ # _, Some ip, Some n) \<Rightarrow>
             if n > 32 then None else Some (ip AND CIDRMask n, CIDRMask n)
         | _ \<Rightarrow> None)"

text \<open>Whether an address is parsed as one of IPv6: a colon comes before any dot.\<close>

definition isIPv6 :: "string \<Rightarrow> bool" where
  "isIPv6 s = (case filter (\<lambda>c. c = CHR ''.'' \<or> c = CHR '':'') s of [] \<Rightarrow> False | c # _ \<Rightarrow> c = CHR '':'')"

text \<open>
  The blocks of IPv4; those of IPv6 contain no address of IPv4. The code appends them to its list in
  every pass, so that each occurs many times, which changes no answer.
\<close>

definition privateIPBlocks :: "(32 word \<times> 32 word) list" where
  "privateIPBlocks = List.map_filter ParseCIDR
     [''127.0.0.0/8'', ''10.0.0.0/8'', ''172.16.0.0/12'', ''192.168.0.0/16'', ''169.254.0.0/16'']"

definition isPrivateIP :: "32 word \<Rightarrow> bool" where
  "isPrivateIP ip \<longleftrightarrow>
     (if drop_bit 24 ip = 127 \<or> drop_bit 16 ip = 0xA9FE \<or> drop_bit 8 ip = 0xE00000 then True
      else list_ex (\<lambda>(base, mask). ip AND mask = base) privateIPBlocks)"

section \<open>Comparison of a policy with the slice\<close>

fun Contains :: "string list \<Rightarrow> string \<Rightarrow> bool" where
  "Contains [] e = False"
| "Contains (a # s) e = (if EqualFold a e then True else Contains s e)"

definition GetAppNamespacesBySliceNameAndLabel :: "kube \<Rightarrow> string \<Rightarrow> world
    \<Rightarrow> (go_error + string list) \<times> world" where
  "GetAppNamespacesBySliceNameAndLabel K sliceName w =
     (case r_list (k_namespaces K) (all_namespaces [(ApplicationNamespaceSelectorLabelKey, sliceName)]) w of
        (Inl e, w) \<Rightarrow> (Inl e, w)
      | (Inr namespaces, w) \<Rightarrow> (Inr (map ns_Name namespaces), w))"

text \<open>A peer that gives a block: the event if it is private; a block that does not parse panics.\<close>

definition compareBlock :: "(string \<Rightarrow> bool option) \<Rightarrow> string option \<Rightarrow> string list go" where
  "compareBlock V6 ipBlock =
     (case ipBlock of
        None \<Rightarrow> Ret []
      | Some cidr \<Rightarrow>
          (case (if isIPv6 cidr then V6 cidr else map_option (\<lambda>(base, _). isPrivateIP base) (ParseCIDR cidr)) of
             None \<Rightarrow> Panic
           | Some priv \<Rightarrow> Ret (if priv then [''EventNetPolScopeWidenedIPBlock''] else [])))"

definition compareSelector :: "kube \<Rightarrow> string list \<Rightarrow> string list \<Rightarrow> labels option \<Rightarrow> world
    \<Rightarrow> (go_error + string list) \<times> world" where
  "compareSelector K apps allowed sel w =
     (case sel of
        None \<Rightarrow> (Inr [], w)
      | Some ls \<Rightarrow>
          (case r_list (k_namespaces K) (all_namespaces ls) w of
             (Inl e, w) \<Rightarrow> (Inl e, w)
           | (Inr items, w) \<Rightarrow>
               (Inr (map (\<lambda>_. ''EventNetPolScopeWidenedNamespace'')
                  (filter (\<lambda>n. \<not> Contains apps (ns_Name n) \<and> \<not> Contains allowed (ns_Name n)) items)), w)))"

fun comparePeers :: "kube \<Rightarrow> (string \<Rightarrow> bool option) \<Rightarrow> string list \<Rightarrow> string list \<Rightarrow> netpol_peer list
    \<Rightarrow> world \<Rightarrow> (go_error option \<times> string list) go \<times> world" where
  "comparePeers K V6 apps allowed [] w = (Ret (None, []), w)"
| "comparePeers K V6 apps allowed (peer # peers) w =
     (case compareSelector K apps allowed (peer_NamespaceSelector peer) w of
        (Inl e, w) \<Rightarrow> (Ret (Some e, []), w)
      | (Inr evs, w) \<Rightarrow>
          (case compareBlock V6 (peer_IPBlock peer) of
             Panic \<Rightarrow> (Panic, w)
           | Ret evs' \<Rightarrow>
               (case comparePeers K V6 apps allowed peers w of
                  (Panic, w) \<Rightarrow> (Panic, w)
                | (Ret (r, evs''), w) \<Rightarrow> (Ret (r, evs @ evs' @ evs''), w))))"

text \<open>Only the rules for incoming traffic are looked at.\<close>

definition Compare :: "kube \<Rightarrow> (string \<Rightarrow> bool option) \<Rightarrow> network_policy \<Rightarrow> slice \<Rightarrow> world
    \<Rightarrow> (go_error option \<times> string list) go \<times> world" where
  "Compare K V6 np s w =
     (case GetAppNamespacesBySliceNameAndLabel K (sl_Name s) w of
        (Inl e, w) \<Rightarrow> (Ret (Some e, []), w)
      | (Inr apps, w) \<Rightarrow>
          (case Option.bind (sl_Config s) sc_NamespaceIsolationProfile of
             None \<Rightarrow> (Panic, w)
           | Some p \<Rightarrow> comparePeers K V6 apps (iso_AllowedNamespaces p) (concat (np_Ingress np)) w))"

section \<open>The pass\<close>

definition getSliceNameFromNsOfNetPol :: "kube \<Rightarrow> string \<Rightarrow> world \<Rightarrow> (go_error + string) \<times> world" where
  "getSliceNameFromNsOfNetPol K ns w =
     (case r_get (k_namespaces K) '''' ns w of
        (Inl e, w) \<Rightarrow> (Inl e, w)
      | (Inr n, w) \<Rightarrow> (Inr (label_or_empty (ns_Labels n) ApplicationNamespaceSelectorLabelKey), w))"

definition sameSpec :: "network_policy \<Rightarrow> network_policy \<Rightarrow> bool" where
  "sameSpec a b \<longleftrightarrow> np_PodSelector a = np_PodSelector b \<and> np_PolicyTypes a = np_PolicyTypes b
     \<and> np_Ingress a = np_Ingress b \<and> np_Egress a = np_Egress b"

definition setSpec :: "network_policy \<Rightarrow> network_policy \<Rightarrow> network_policy" where
  "setSpec spec np = spec\<lparr>np_meta := np_meta np\<rparr>"

definition restorePolicy :: "kube \<Rightarrow> slice \<Rightarrow> network_policy \<Rightarrow> world \<Rightarrow> go_error option go \<times> world" where
  "restorePolicy K s np w =
     (case Option.bind (sl_Config s) sc_NamespaceIsolationProfile of
        None \<Rightarrow> (Panic, w)
      | Some p \<Rightarrow>
          (let sliceNetpol = ContructNetworkPolicyObject (sl_Name s) p (om_Namespace (np_meta np))
           in if \<not> sameSpec sliceNetpol np
              then (case r_update (k_netpols K) (setSpec sliceNetpol np) w of (r, w) \<Rightarrow> (Ret r, w))
              else (Ret None, w)))"

definition NetpolReconcile :: "kube \<Rightarrow> (string \<Rightarrow> bool option) \<Rightarrow> string \<Rightarrow> string \<Rightarrow> world
    \<Rightarrow> (ctrl_result \<times> go_error option \<times> string list) go \<times> world" where
  "NetpolReconcile K V6 ns name w =
     (case r_get (k_netpols K) ns name w of
        (Inl NotFound, w) \<Rightarrow> (Ret (result_none, None, []), w)
      | (Inl e, w) \<Rightarrow> (Ret (result_none, Some e, []), w)
      | (Inr netpol, w) \<Rightarrow>
          (case getSliceNameFromNsOfNetPol K ns w of
             (Inl e, w) \<Rightarrow> (Ret (result_none, Some e, []), w)
           | (Inr sliceName, w) \<Rightarrow>
               (if sliceName = '''' then (Ret (result_none, None, []), w)
                else
                  (case r_get (k_slices K) ControlPlaneNamespace sliceName w of
                     (Inl e, w) \<Rightarrow> (Ret (result_none, Some e, []), w)
                   | (Inr s, w) \<Rightarrow>
                       (if EqualFold (sliceName @ ''-'' @ om_Namespace (np_meta netpol)) (om_Name (np_meta netpol))
                        then (case restorePolicy K s netpol w of
                                (Panic, w) \<Rightarrow> (Panic, w)
                              | (Ret r, w) \<Rightarrow> (Ret (result_none, r, []), w))
                        else
                          (case Compare K V6 netpol s w of
                             (Panic, w) \<Rightarrow> (Panic, w)
                           | (Ret (r, evs), w) \<Rightarrow> (Ret (result_none, r, ''EventNetPolAdded'' # evs), w)))))))"

section \<open>Private addresses\<close>

lemma masked_eq:
  assumes "take_bit k b = 0"
  shows "(ip AND push_bit k (- 1) = b) \<longleftrightarrow> drop_bit k ip = drop_bit k (b :: 32 word)"
proof
  assume e: "ip AND push_bit k (- 1) = b"
  show "drop_bit k ip = drop_bit k b"
    unfolding e [symmetric] by (rule bit_eqI) (auto simp: bit_simps dest: bit_imp_le_length)
next
  assume e: "drop_bit k ip = drop_bit k b"
  have "ip AND push_bit k (- 1) = push_bit k (drop_bit k ip)"
    by (rule bit_eqI) (auto simp: bit_simps)
  also have "\<dots> = push_bit k (drop_bit k b)" by (simp only: e)
  also have "\<dots> = b" using bits_ident [of k b] assms by simp
  finally show "ip AND push_bit k (- 1) = b" .
qed

lemma drop_bit_range:
  "drop_bit k (ip :: 32 word) = b \<longleftrightarrow> unat b * 2 ^ k \<le> unat ip \<and> unat ip < unat b * 2 ^ k + 2 ^ k"
proof -
  have "drop_bit k ip = b \<longleftrightarrow> unat ip div 2 ^ k = unat b"
    by (metis unat_drop_bit_eq drop_bit_eq_div word_unat_eq_iff)
  also have "\<dots> \<longleftrightarrow> unat b * 2 ^ k \<le> unat ip \<and> unat ip < unat b * 2 ^ k + 2 ^ k"
  proof
    assume e: "unat ip div 2 ^ k = unat b"
    have "unat ip = unat b * 2 ^ k + unat ip mod 2 ^ k"
      using div_mult_mod_eq [of "unat ip" "2 ^ k"] by (simp add: e)
    moreover have "unat ip mod 2 ^ k < 2 ^ k" by simp
    ultimately show "unat b * 2 ^ k \<le> unat ip \<and> unat ip < unat b * 2 ^ k + 2 ^ k" by linarith
  next
    assume "unat b * 2 ^ k \<le> unat ip \<and> unat ip < unat b * 2 ^ k + 2 ^ k"
    then show "unat ip div 2 ^ k = unat b" by (intro div_nat_eqI) (simp_all add: mult.commute)
  qed
  finally show ?thesis .
qed

lemma privateIPBlocks_eval:
  "privateIPBlocks = [(0x7F000000, CIDRMask 8), (0x0A000000, CIDRMask 8), (0xAC100000, CIDRMask 12),
     (0xC0A80000, CIDRMask 16), (0xA9FE0000, CIDRMask 16)]"
  by code_simp


section \<open>The policy of the slice\<close>

lemma EqualFold_refl [simp]: "EqualFold s s"
  by (simp add: EqualFold_def)

definition slice_policy :: "string \<Rightarrow> isolation_profile \<Rightarrow> network_policy \<Rightarrow> bool" where
  "slice_policy s p pol \<longleftrightarrow> np_PodSelector pol = [] \<and> np_PolicyTypes pol = [''Ingress'', ''Egress'']
     \<and> np_Egress pol = np_Ingress pol
     \<and> (\<forall>n. admits (np_Ingress pol) n \<longleftrightarrow>
         bound_to s n
         \<or> (\<exists>v \<in> set (iso_AllowedNamespaces p) \<union> set allowedNamespacesByDefault.
              map_of (ns_Labels n) AllowedNamespaceSelectorLabelKey = Some v))"

lemma slice_policy_spec:
  "sameSpec (ContructNetworkPolicyObject s p a) pol \<Longrightarrow> slice_policy s p pol"
  "slice_policy s p (setSpec (ContructNetworkPolicyObject s p a) np)"
proof -
  have c: "slice_policy s p (ContructNetworkPolicyObject s p a)"
    unfolding slice_policy_def
    by (intro conjI allI, simp_all add: policy_symmetric admits_policy set_allowedNamespaces)
      (simp_all add: ContructNetworkPolicyObject_def Let_def)
  then show "sameSpec (ContructNetworkPolicyObject s p a) pol \<Longrightarrow> slice_policy s p pol"
    by (simp add: slice_policy_def sameSpec_def)
  from c show "slice_policy s p (setSpec (ContructNetworkPolicyObject s p a) np)"
    by (simp add: slice_policy_def setSpec_def)
qed

context lawful
begin

lemma restore_policy:
  assumes "restorePolicy K s np w = (Ret None, w')"
    and "Option.bind (sl_Config s) sc_NamespaceIsolationProfile = Some p"
    and "find (keyed np_meta ns name) (w_netpols w) = Some np"
  shows "(\<exists>pol. find (keyed np_meta ns name) (w_netpols w') = Some pol \<and> slice_policy (sl_Name s) p pol)
    \<and> (\<forall>b m. (b, m) \<noteq> (ns, name) \<longrightarrow>
         find (keyed np_meta b m) (w_netpols w') = find (keyed np_meta b m) (w_netpols w))"
proof (cases "sameSpec (ContructNetworkPolicyObject (sl_Name s) p (om_Namespace (np_meta np))) np")
  case True
  with assms(1,2) have "w' = w" by (simp add: restorePolicy_def Let_def)
  with assms(3) slice_policy_spec(1) [OF True] show ?thesis by blast
next
  case False
  let ?np = "setSpec (ContructNetworkPolicyObject (sl_Name s) p (om_Namespace (np_meta np))) np"
  have meta: "np_meta (setSpec a np) = np_meta np" for a by (simp add: setSpec_def)
  have key: "om_Namespace (np_meta np) = ns" "om_Name (np_meta np) = name"
    using assms(3) by (auto simp: find_Some_iff keyed_def)
  have "r_update (k_netpols K) ?np w = (None, w')"
    using assms(1,2) False by (auto simp: restorePolicy_def Let_def split: prod.splits)
  then have u: "list_ex (same_key np_meta ?np) (w_netpols w)"
      "w' = tick (w_netpols_update (replace_object np_meta ?np) w)"
    using npl.update_ok by blast+
  have "find (keyed np_meta ns name) (replace_object np_meta ?np (w_netpols w)) = Some ?np"
    using find_replace_same [OF u(1)] unfolding meta key .
  moreover have "find (keyed np_meta b m) (replace_object np_meta ?np (w_netpols w))
      = find (keyed np_meta b m) (w_netpols w)" if "(b, m) \<noteq> (ns, name)" for b m
    using that by (intro find_replace_other) (auto simp: keyed_def meta key)
  ultimately show ?thesis using u(2) slice_policy_spec(2) by auto
qed

lemma own_pass:
  assumes "NetpolReconcile K V6 ns (netpolName s ns) w = (Ret (r, None, evs), w')"
    and "find (keyed ns_meta '''' ns) (w_namespaces w) = Some n" "bound_to s n" "s \<noteq> ''''"
    and "find (keyed sl_meta ControlPlaneNamespace s) (w_slices w) = Some t"
    and "Option.bind (sl_Config t) sc_NamespaceIsolationProfile = Some p"
    and "policy_at w s ns \<noteq> None"
  shows "evs = [] \<and> (\<exists>pol. policy_at w' s ns = Some pol \<and> slice_policy s p pol)
    \<and> (\<forall>b m. (b, m) \<noteq> (ns, netpolName s ns) \<longrightarrow>
         find (keyed np_meta b m) (w_netpols w') = find (keyed np_meta b m) (w_netpols w))"
proof -
  obtain np0 where np0: "find (keyed np_meta ns (netpolName s ns)) (w_netpols w) = Some np0"
    using assms(7) by (auto simp: policy_at_def)
  obtain g w1 where g: "r_get (k_netpols K) ns (netpolName s ns) w = (g, w1)" by fastforce
  have "g \<noteq> Inl NotFound" using npl.get_err [of ns "netpolName s ns" w NotFound w1] g np0 by auto
  then obtain np where np: "g = Inr np"
    using assms(1) g by (cases g) (auto simp: NetpolReconcile_def split: go_error.splits)
  with npl.get_ok g np0 have "w1 = tick w" "np0 = np" by fastforce+
  note npw = this
  obtain g2 w2 where g2: "r_get (k_namespaces K) '''' ns w1 = (g2, w2)" by fastforce
  then obtain m where m: "g2 = Inr m"
    using assms(1) g np by (cases g2) (auto simp: NetpolReconcile_def getSliceNameFromNsOfNetPol_def)
  with nsp.get_ok g2 npw assms(2) have "w2 = tick w1" "m = n" by fastforce+
  note nw = this
  have name: "label_or_empty (ns_Labels m) ApplicationNamespaceSelectorLabelKey = s"
    using assms(3) nw by (simp add: bound_to_def label_or_empty_def)
  obtain g3 w3 where g3: "r_get (k_slices K) ControlPlaneNamespace s w2 = (g3, w3)" by fastforce
  then obtain u where u: "g3 = Inr u"
    using assms(1,4) g np g2 m name
    by (cases g3) (auto simp: NetpolReconcile_def getSliceNameFromNsOfNetPol_def)
  with slice.get_ok g3 npw nw assms(5) have "w3 = tick w2" "u = t" by fastforce+
  note uw = this
  have key: "om_Namespace (np_meta np) = ns" "om_Name (np_meta np) = netpolName s ns" "sl_Name t = s"
    using np0 npw assms(5) by (auto simp: find_Some_iff keyed_def)
  have "restorePolicy K t np w3 = (Ret None, w')" and evs: "evs = []"
    using assms(1,4) g np g2 m name g3 u uw key
    by (auto simp: NetpolReconcile_def getSliceNameFromNsOfNetPol_def netpolName_def
        split: prod.splits go.splits)
  from restore_policy [OF this(1) assms(6), of ns "netpolName s ns"] np0 npw nw uw evs show ?thesis
    by (simp add: policy_at_def key)
qed

end

text \<open>
  C14: The policy of the slice is put back. When the pass over the policy of a slice in a namespace
  that is bound to it ends without an error, that policy admits again, in both directions, exactly
  the namespaces bound to the slice and those whose label names an allowed namespace, whatever had
  been written into it; no other policy is touched and no event is recorded.
\<close>

theorem own_policy_restored:
  assumes "lawful K"
    and "NetpolReconcile K V6 ns (netpolName s ns) w = (Ret (r, None, evs), w')"
    and "find (keyed ns_meta '''' ns) (w_namespaces w) = Some n" "bound_to s n" "s \<noteq> ''''"
    and "find (keyed sl_meta ControlPlaneNamespace s) (w_slices w) = Some t"
    and "Option.bind (sl_Config t) sc_NamespaceIsolationProfile = Some p"
    and "policy_at w s ns \<noteq> None"
  shows "evs = [] \<and> (\<exists>pol. policy_at w' s ns = Some pol \<and> slice_policy s p pol)
    \<and> (\<forall>b m. (b, m) \<noteq> (ns, netpolName s ns) \<longrightarrow>
         find (keyed np_meta b m) (w_netpols w') = find (keyed np_meta b m) (w_netpols w))"
  using lawful.own_pass [OF assms] .

section \<open>The policies of others\<close>

lemma Contains_iff: "Contains xs e \<longleftrightarrow> (\<exists>a \<in> set xs. EqualFold a e)"
  by (induction xs) auto

lemma compareBlock_events: "compareBlock V6 b = Ret evs \<Longrightarrow> ''EventNetPolScopeWidenedNamespace'' \<notin> set evs"
  by (auto simp: compareBlock_def split: option.splits if_splits)

text \<open>A namespace of the cluster that a rule admits although it is neither bound nor allowed.\<close>

definition widened :: "string list \<Rightarrow> string list \<Rightarrow> world \<Rightarrow> netpol_peer list list \<Rightarrow> bool" where
  "widened apps allowed w rules \<longleftrightarrow> (\<exists>n \<in> set (w_namespaces w). admits rules n
     \<and> \<not> Contains apps (ns_Name n) \<and> \<not> Contains allowed (ns_Name n))"

lemma admits_simps [simp]:
  "\<not> admits [[]] n"
  "admits [peer # peers] n \<longleftrightarrow>
     (case peer_NamespaceSelector peer of None \<Rightarrow> False | Some sel \<Rightarrow> matches_labels sel (ns_Labels n))
     \<or> admits [peers] n"
  by (simp_all add: admits_def)

lemma admits_concat: "admits rules n \<longleftrightarrow> admits [concat rules] n"
  by (auto simp: admits_def list_ex_iff)

context lawful
begin

lemma selector_events:
  assumes "compareSelector K apps allowed sel w = (Inr evs, w')"
  shows "reads w w' \<and> (''EventNetPolScopeWidenedNamespace'' \<in> set evs \<longleftrightarrow>
    (\<exists>ls. sel = Some ls \<and> (\<exists>n \<in> set (w_namespaces w). matches_labels ls (ns_Labels n)
       \<and> \<not> Contains apps (ns_Name n) \<and> \<not> Contains allowed (ns_Name n))))"
proof (cases sel)
  case None
  with assms show ?thesis by (simp add: compareSelector_def)
next
  case (Some ls)
  obtain l w1 where l: "r_list (k_namespaces K) (all_namespaces ls) w = (l, w1)" by fastforce
  with assms Some obtain items where items: "l = Inr items"
    by (cases l) (auto simp: compareSelector_def)
  with nsp.list_ok l have "w1 = tick w"
      "items = filter (selects ns_meta no_phase (all_namespaces ls)) (w_namespaces w)" by blast+
  with assms Some l items show ?thesis
    by (auto simp: compareSelector_def selects_def all_namespaces_def)
qed

lemma peers_events:
  "comparePeers K V6 apps allowed peers w = (Ret (None, evs), w') \<Longrightarrow>
     reads w w' \<and> (''EventNetPolScopeWidenedNamespace'' \<in> set evs \<longleftrightarrow> widened apps allowed w [peers])"
proof (induction peers arbitrary: w evs)
  case Nil
  then show ?case by (simp add: widened_def)
next
  case (Cons peer peers)
  obtain s w1 where s: "compareSelector K apps allowed (peer_NamespaceSelector peer) w = (s, w1)" by fastforce
  with Cons.prems obtain e1 where e1: "s = Inr e1" by (cases s) auto
  obtain e2 where e2: "compareBlock V6 (peer_IPBlock peer) = Ret e2"
    using Cons.prems s e1 by (cases "compareBlock V6 (peer_IPBlock peer)") auto
  obtain e3 where e3: "comparePeers K V6 apps allowed peers w1 = (Ret (None, e3), w')" "evs = e1 @ e2 @ e3"
    using Cons.prems s e1 e2 by (auto split: prod.splits go.splits)
  have ih: "reads w1 w'" "''EventNetPolScopeWidenedNamespace'' \<in> set e3 \<longleftrightarrow> widened apps allowed w1 [peers]"
    using Cons.IH [OF e3(1)] by blast+
  have sel: "reads w w1" "''EventNetPolScopeWidenedNamespace'' \<in> set e1 \<longleftrightarrow>
      (\<exists>ls. peer_NamespaceSelector peer = Some ls \<and> (\<exists>n \<in> set (w_namespaces w). matches_labels ls (ns_Labels n)
       \<and> \<not> Contains apps (ns_Name n) \<and> \<not> Contains allowed (ns_Name n)))"
    using selector_events [OF s [unfolded e1]] by blast+
  have "widened apps allowed w1 [peers] = widened apps allowed w [peers]"
    using reads_sel [OF sel(1)] by (simp add: widened_def)
  then have "''EventNetPolScopeWidenedNamespace'' \<in> set evs \<longleftrightarrow> widened apps allowed w [peer # peers]"
    using ih(2) sel(2) compareBlock_events [OF e2] unfolding e3(2) set_append Un_iff
    by (cases "peer_NamespaceSelector peer") (auto simp: widened_def)
  with reads_trans [OF sel(1) ih(1)] show ?case by blast
qed

lemma compare_events:
  assumes "Compare K V6 np s w = (Ret (None, evs), w')"
    and "Option.bind (sl_Config s) sc_NamespaceIsolationProfile = Some p"
  shows "reads w w' \<and> (''EventNetPolScopeWidenedNamespace'' \<in> set evs \<longleftrightarrow>
    widened (map ns_Name (filter (bound_to (sl_Name s)) (w_namespaces w))) (iso_AllowedNamespaces p) w (np_Ingress np))"
proof -
  obtain g w1 where g: "GetAppNamespacesBySliceNameAndLabel K (sl_Name s) w = (g, w1)" by fastforce
  with assms obtain apps where apps: "g = Inr apps" by (cases g) (auto simp: Compare_def)
  obtain l w2 where l: "r_list (k_namespaces K) (all_namespaces [(ApplicationNamespaceSelectorLabelKey, sl_Name s)]) w = (l, w2)"
    by fastforce
  with g apps obtain items where items: "l = Inr items" "apps = map ns_Name items" "w2 = w1"
    by (cases l) (auto simp: GetAppNamespacesBySliceNameAndLabel_def)
  have lo: "w1 = tick w" "items = filter (bound_to (sl_Name s)) (w_namespaces w)"
    using nsp.list_ok [OF l [unfolded items]]
    by (simp_all add: selects_def [abs_def] all_namespaces_def bound_to_def [abs_def])
  have "comparePeers K V6 apps (iso_AllowedNamespaces p) (concat (np_Ingress np)) w1 = (Ret (None, evs), w')"
    using assms g apps by (simp add: Compare_def)
  from peers_events [OF this] have "reads w1 w'" "''EventNetPolScopeWidenedNamespace'' \<in> set evs \<longleftrightarrow>
    widened apps (iso_AllowedNamespaces p) w1 [concat (np_Ingress np)]" by blast+
  moreover have "reads w w'" using lo(1) calculation(1) by (blast intro: reads_trans)
  ultimately show ?thesis
    by (simp add: items(2) lo widened_def admits_concat [of "np_Ingress np"])
qed

lemma foreign_pass:
  assumes "NetpolReconcile K V6 ns name w = (Ret (r, None, evs), w')"
    and "find (keyed ns_meta '''' ns) (w_namespaces w) = Some n" "bound_to s n" "s \<noteq> ''''"
    and "find (keyed sl_meta ControlPlaneNamespace s) (w_slices w) = Some t"
    and "Option.bind (sl_Config t) sc_NamespaceIsolationProfile = Some p"
    and "find (keyed np_meta ns name) (w_netpols w) = Some pol"
    and "\<not> EqualFold (netpolName s ns) name"
  shows "reads w w' \<and> ''EventNetPolAdded'' \<in> set evs
    \<and> (''EventNetPolScopeWidenedNamespace'' \<in> set evs \<longleftrightarrow>
         widened (map ns_Name (filter (bound_to s) (w_namespaces w))) (iso_AllowedNamespaces p) w (np_Ingress pol))"
proof -
  obtain g w1 where g: "r_get (k_netpols K) ns name w = (g, w1)" by fastforce
  have "g \<noteq> Inl NotFound" using npl.get_err [of ns name w NotFound w1] g assms(7) by auto
  then obtain np where np: "g = Inr np"
    using assms(1) g by (cases g) (auto simp: NetpolReconcile_def split: go_error.splits)
  with npl.get_ok g assms(7) have npw: "w1 = tick w" "np = pol" by fastforce+
  obtain g2 w2 where g2: "r_get (k_namespaces K) '''' ns w1 = (g2, w2)" by fastforce
  then obtain m where m: "g2 = Inr m"
    using assms(1) g np by (cases g2) (auto simp: NetpolReconcile_def getSliceNameFromNsOfNetPol_def)
  with nsp.get_ok g2 npw assms(2) have nw: "w2 = tick w1" "m = n" by fastforce+
  have name: "label_or_empty (ns_Labels m) ApplicationNamespaceSelectorLabelKey = s"
    using assms(3) nw by (simp add: bound_to_def label_or_empty_def)
  obtain g3 w3 where g3: "r_get (k_slices K) ControlPlaneNamespace s w2 = (g3, w3)" by fastforce
  then obtain u where u: "g3 = Inr u"
    using assms(1,4) g np g2 m name
    by (cases g3) (auto simp: NetpolReconcile_def getSliceNameFromNsOfNetPol_def)
  with slice.get_ok g3 npw nw assms(5) have uw: "w3 = tick w2" "u = t" by fastforce+
  have key: "om_Namespace (np_meta pol) = ns" "om_Name (np_meta pol) = name" "sl_Name t = s"
    using assms(5,7) by (auto simp: find_Some_iff keyed_def)
  obtain evs1 where c: "Compare K V6 pol t w3 = (Ret (None, evs1), w')" "evs = ''EventNetPolAdded'' # evs1"
    using assms(1,4,8) g np g2 m name g3 u uw npw key
    by (auto simp: NetpolReconcile_def getSliceNameFromNsOfNetPol_def netpolName_def
        split: prod.splits go.splits)
  have w3: "reads w w3" "w_namespaces w3 = w_namespaces w" using npw nw uw by auto
  note ce = compare_events [OF c(1) assms(6)]
  have "''EventNetPolScopeWidenedNamespace'' \<in> set evs \<longleftrightarrow> ''EventNetPolScopeWidenedNamespace'' \<in> set evs1"
    unfolding c(2) by simp
  then show ?thesis using ce c(2) w3 by (auto simp: widened_def key intro: reads_trans)
qed

end


text \<open>A block that does not parse ends the pass in a panic; the widest block is not reported.\<close>

lemma block_boundaries:
  "compareBlock V6 (Some ''10.0.0.0/33'') = Panic"
  "compareBlock V6 (Some ''0.0.0.0/0'') = Ret []"
  "compareBlock V6 (Some ''172.31.255.255/32'') = Ret [''EventNetPolScopeWidenedIPBlock'']"
  "compareBlock V6 (Some ''172.32.0.0/12'') = Ret []"
  by code_simp+

section \<open>Examples\<close>

definition ex_open_policy :: "string \<Rightarrow> network_policy" where
  "ex_open_policy name = \<lparr>np_meta = new_meta ''shop'' name [], np_PodSelector = [], np_PolicyTypes = [''Ingress''],
     np_Ingress = [[namespacePeer []]], np_Egress = []\<rparr>"

definition ex_netpol_world :: world where
  "ex_netpol_world = ex_shop_world\<lparr>
     w_namespaces := [\<lparr>ns_meta = new_meta '''' ''shop'' [(''kubeslice.io/slice'', ''red'')]\<rparr>,
       \<lparr>ns_meta = new_meta '''' ''other'' []\<rparr>],
     w_netpols := [ex_open_policy ''red-shop'', ex_open_policy ''open'']\<rparr>"

definition ex_no_v6 :: "string \<Rightarrow> bool option" where
  "ex_no_v6 cidr = None"

definition ex_netpol_shop :: namespace where
  "ex_netpol_shop = \<lparr>ns_meta = new_meta '''' ''shop'' [(''kubeslice.io/slice'', ''red'')]\<rparr>"

definition ex_netpol_slice :: slice where
  "ex_netpol_slice = (new_slice (new_meta ''kubeslice-system'' ''red'' []))\<lparr>sl_Config := Some ex_shop_config\<rparr>"

lemma ex_netpol_facts:
  "find (keyed ns_meta '''' ''shop'') (w_namespaces ex_netpol_world) = Some ex_netpol_shop"
  "bound_to ''red'' ex_netpol_shop"
  "find (keyed sl_meta ControlPlaneNamespace ''red'') (w_slices ex_netpol_world) = Some ex_netpol_slice"
  "Option.bind (sl_Config ex_netpol_slice) sc_NamespaceIsolationProfile
     = Some \<lparr>IsolationEnabled = False, iso_ApplicationNamespaces = [''shop''], iso_AllowedNamespaces = []\<rparr>"
  "policy_at ex_netpol_world ''red'' ''shop'' \<noteq> None"
  "find (keyed np_meta ''shop'' ''open'') (w_netpols ex_netpol_world) = Some (ex_open_policy ''open'')"
  "\<not> EqualFold (netpolName ''red'' ''shop'') ''open''"
  "fst (NetpolReconcile ex_kube ex_no_v6 ''shop'' (netpolName ''red'' ''shop'') ex_netpol_world) = Ret (result_none, None, [])"
  "fst (NetpolReconcile ex_kube ex_no_v6 ''shop'' ''open'' ex_netpol_world)
     = Ret (result_none, None, [''EventNetPolAdded'', ''EventNetPolScopeWidenedNamespace''])"
  by code_simp+

theorem own_policy_restored_witness:
  "\<exists>pol. policy_at (snd (NetpolReconcile ex_kube ex_no_v6 ''shop'' (netpolName ''red'' ''shop'') ex_netpol_world)) ''red'' ''shop''
      = Some pol \<and> \<not> admits (np_Ingress pol) \<lparr>ns_meta = new_meta '''' ''other'' []\<rparr>"
proof -
  have "NetpolReconcile ex_kube ex_no_v6 ''shop'' (netpolName ''red'' ''shop'') ex_netpol_world = (Ret (result_none, None, []),
      snd (NetpolReconcile ex_kube ex_no_v6 ''shop'' (netpolName ''red'' ''shop'') ex_netpol_world))"
    using ex_netpol_facts(8) by (metis prod.collapse)
  from own_policy_restored [OF ex_kube_lawful this ex_netpol_facts(1,2) _ ex_netpol_facts(3-5)]
  show ?thesis by (auto simp: slice_policy_def bound_to_def new_meta_def)
qed


end
