(* ===== verification/Watches.thy ===== *)
theory Watches
  imports SliceReconcile
begin

text \<open>
  What starts a pass: the watches of \<open>SetupWithManager\<close> in \<open>controllers/slicegateway/reconciler.go\<close>,
  \<open>controllers/slice/reconciler.go\<close> and \<open>controllers/serviceexport/reconciler.go\<close>, and the filters of
  \<open>pkg/hub/manager\<close>. A watch sees the events of one kind of object, keeps those that its predicate
  accepts, and maps each to the objects that are reconciled. A request is namespace and name.
\<close>

section \<open>Events\<close>

datatype 'o watch_event =
    CreateEvent 'o
  | UpdateEvent 'o 'o
  | DeleteEvent 'o
  | GenericEvent 'o

type_synonym request = "string \<times> string"

text \<open>
  \<open>predicate.NewPredicateFuncs\<close>, which \<open>LabelSelectorPredicate\<close> uses too: an update is judged by the
  new object.
\<close>

fun NewPredicateFuncs :: "('o \<Rightarrow> bool) \<Rightarrow> 'o watch_event \<Rightarrow> bool" where
  "NewPredicateFuncs p (CreateEvent ob) = p ob"
| "NewPredicateFuncs p (UpdateEvent old new) = p new"
| "NewPredicateFuncs p (DeleteEvent ob) = p ob"
| "NewPredicateFuncs p (GenericEvent ob) = p ob"

text \<open>
  \<open>handler.EnqueueRequestsFromMapFunc\<close>: for an update, both objects are mapped. The queue keeps a
  request once, however often it is in the list.
\<close>

fun EnqueueRequestsFromMapFunc :: "('o \<Rightarrow> world \<Rightarrow> request list \<times> world) \<Rightarrow> 'o watch_event \<Rightarrow> world
    \<Rightarrow> request list \<times> world" where
  "EnqueueRequestsFromMapFunc f (CreateEvent ob) w = f ob w"
| "EnqueueRequestsFromMapFunc f (UpdateEvent old new) w =
     (case f old w of (rs, w) \<Rightarrow> (case f new w of (rs', w) \<Rightarrow> (rs @ rs', w)))"
| "EnqueueRequestsFromMapFunc f (DeleteEvent ob) w = f ob w"
| "EnqueueRequestsFromMapFunc f (GenericEvent ob) w = f ob w"

section \<open>Watches of the slice gateway reconciler\<close>

definition gatewayRequests :: "slice_gateway list \<Rightarrow> request list" where
  "gatewayRequests gws = map (\<lambda>g. (om_Namespace (gw_meta g), gw_Name g)) gws"

definition findObjectsForSliceGwUpdate :: "kube \<Rightarrow> string \<Rightarrow> world
    \<Rightarrow> (go_error + slice_gateway list) \<times> world" where
  "findObjectsForSliceGwUpdate K sliceGwName w =
     (case r_get (k_slicegws K) ControlPlaneNamespace sliceGwName w of
        (Inl e, w) \<Rightarrow> (Inl e, w)
      | (Inr g, w) \<Rightarrow> (Inr [g], w))"

definition findObjectsForSliceRouterUpdate :: "kube \<Rightarrow> string \<Rightarrow> world
    \<Rightarrow> (go_error + slice_gateway list) \<times> world" where
  "findObjectsForSliceRouterUpdate K sliceName w =
     r_list (k_slicegws K)
       (in_namespace ControlPlaneNamespace [(ApplicationNamespaceSelectorLabelKey, sliceName)]) w"

definition findAllSliceGwObjects :: "kube \<Rightarrow> world \<Rightarrow> (go_error + slice_gateway list) \<times> world" where
  "findAllSliceGwObjects K w = r_list (k_slicegws K) (in_namespace ControlPlaneNamespace []) w"

definition findObjectsForNetopUpdate :: "kube \<Rightarrow> world \<Rightarrow> (go_error + slice_gateway list) \<times> world" where
  "findObjectsForNetopUpdate = findAllSliceGwObjects"

definition findObjectsForNsmUpdate :: "kube \<Rightarrow> world \<Rightarrow> (go_error + slice_gateway list) \<times> world" where
  "findObjectsForNsmUpdate = findAllSliceGwObjects"

text \<open>An error means that the event is lost.\<close>

definition orNone :: "(go_error + slice_gateway list) \<times> world \<Rightarrow> request list \<times> world" where
  "orNone r = (case r of (Inl e, w) \<Rightarrow> ([], w) | (Inr gws, w) \<Rightarrow> (gatewayRequests gws, w))"

definition findSliceGwObjectsToReconcile :: "kube \<Rightarrow> labels \<Rightarrow> world \<Rightarrow> request list \<times> world" where
  "findSliceGwObjectsToReconcile K podLabels w =
     (if podLabels = [] then ([], w)
      else if getPodType podLabels = ''router'' then
        (case map_of podLabels ApplicationNamespaceSelectorLabelKey of
           None \<Rightarrow> ([], w)
         | Some sliceName \<Rightarrow> orNone (findObjectsForSliceRouterUpdate K sliceName w))
      else if getPodType podLabels = ''netop'' then orNone (findObjectsForNetopUpdate K w)
      else if getPodType podLabels = ''nsm'' then orNone (findObjectsForNsmUpdate K w)
      else if getPodType podLabels = ''slicegateway'' then
        (case map_of podLabels SliceGatewaySelectorLabelKey of
           None \<Rightarrow> ([], w)
         | Some sliceGwName \<Rightarrow> orNone (findObjectsForSliceGwUpdate K sliceGwName w))
      else ([], w))"

definition sliceGwObjectsToReconcileForNodeRestart :: "kube \<Rightarrow> labels \<Rightarrow> world \<Rightarrow> request list \<times> world" where
  "sliceGwObjectsToReconcileForNodeRestart K nodeLabels w = orNone (findAllSliceGwObjects K w)"

definition sliceGwUpdPredicate :: "labels watch_event \<Rightarrow> bool" where
  "sliceGwUpdPredicate ev \<longleftrightarrow>
     NewPredicateFuncs (matches_labels [(PodInjectLabelKey, ''router'')]) ev
     \<or> NewPredicateFuncs (matches_labels [(PodInjectLabelKey, ''netop'')]) ev
     \<or> NewPredicateFuncs (matches_labels [(''app'', ''nsmgr-daemonset'')]) ev
     \<or> NewPredicateFuncs (matches_labels [(''app'', ''nsm-kernel-plane'')]) ev
     \<or> NewPredicateFuncs (matches_labels [(PodInjectLabelKey, ''slicegateway'')]) ev"

text \<open>Nodes: both predicates have to accept.\<close>

fun nodeChange :: "labels watch_event \<Rightarrow> bool" where
  "nodeChange (CreateEvent ls) = True"
| "nodeChange (DeleteEvent ls) = True"
| "nodeChange (UpdateEvent old new) =
     (old \<noteq> [] \<and> map_of old NodeTypeSelectorLabelKey = None
        \<and> map_of new NodeTypeSelectorLabelKey = Some ''gateway'')"
| "nodeChange (GenericEvent ls) = False"

definition nodePredicate :: "labels watch_event \<Rightarrow> bool" where
  "nodePredicate ev \<longleftrightarrow>
     NewPredicateFuncs (matches_labels [(NodeTypeSelectorLabelKey, ''gateway'')]) ev \<and> nodeChange ev"

definition podWatch :: "kube \<Rightarrow> labels watch_event \<Rightarrow> world \<Rightarrow> request list \<times> world" where
  "podWatch K ev w =
     (if sliceGwUpdPredicate ev then EnqueueRequestsFromMapFunc (findSliceGwObjectsToReconcile K) ev w
      else ([], w))"

definition nodeWatch :: "kube \<Rightarrow> labels watch_event \<Rightarrow> world \<Rightarrow> request list \<times> world" where
  "nodeWatch K ev w =
     (if nodePredicate ev
      then EnqueueRequestsFromMapFunc (sliceGwObjectsToReconcileForNodeRestart K) ev w else ([], w))"

section \<open>Watches of the slice and service export reconcilers\<close>

text \<open>
  Deployments, daemon sets and stateful sets are watched in the same way: their labels, and how many
  of their pods are ready.
\<close>

record watched_workload =
  ww_Labels :: labels
  ww_Ready :: "32 word"

fun workloadPredicate :: "watched_workload watch_event \<Rightarrow> bool" where
  "workloadPredicate (CreateEvent ob) = False"
| "workloadPredicate (DeleteEvent ob) = (map_of (ww_Labels ob) ApplicationNamespaceSelectorLabelKey \<noteq> None)"
| "workloadPredicate (UpdateEvent old new) =
     (if map_of (ww_Labels old) ApplicationNamespaceSelectorLabelKey \<noteq> None
      then sint (ww_Ready new) < sint (ww_Ready old) else False)"
| "workloadPredicate (GenericEvent ob) = False"

definition sliceOfWorkload :: "watched_workload \<Rightarrow> world \<Rightarrow> request list \<times> world" where
  "sliceOfWorkload ob w =
     ([(ControlPlaneNamespace, label_or_empty (ww_Labels ob) ApplicationNamespaceSelectorLabelKey)], w)"

definition workloadWatch :: "watched_workload watch_event \<Rightarrow> world \<Rightarrow> request list \<times> world" where
  "workloadWatch ev w =
     (if workloadPredicate ev then EnqueueRequestsFromMapFunc sliceOfWorkload ev w else ([], w))"

definition mapServiceExportsToSlice :: "kube \<Rightarrow> slice \<Rightarrow> world \<Rightarrow> request list \<times> world" where
  "mapServiceExportsToSlice K s w =
     (case r_list (k_serviceexports K) (all_namespaces [(ApplicationNamespaceSelectorLabelKey, sl_Name s)]) w of
        (Inl e, w) \<Rightarrow> ([], w)
      | (Inr xs, w) \<Rightarrow> (map (\<lambda>x. (om_Namespace (se_meta x), om_Name (se_meta x))) xs, w))"

section \<open>Filters of the hub controllers\<close>

definition hubObjectPredicate :: "string \<Rightarrow> labels watch_event \<Rightarrow> bool" where
  "hubObjectPredicate clusterName = NewPredicateFuncs (\<lambda>ls. label_or_empty ls ''worker-cluster'' = clusterName)"

definition hubClusterPredicate :: "string \<Rightarrow> string watch_event \<Rightarrow> bool" where
  "hubClusterPredicate clusterName = NewPredicateFuncs (\<lambda>name. name = clusterName)"

fun shouldProcessVpnKeyRotation :: "string \<Rightarrow> string list \<Rightarrow> bool" where
  "shouldProcessVpnKeyRotation clusterName [] = False"
| "shouldProcessVpnKeyRotation clusterName (v # vs) =
     (if v = clusterName then True else shouldProcessVpnKeyRotation clusterName vs)"

section \<open>Which gateways an event concerns\<close>

definition concerns :: "labels \<Rightarrow> slice_gateway \<Rightarrow> bool" where
  "concerns podLabels g \<longleftrightarrow> om_Namespace (gw_meta g) = ControlPlaneNamespace \<and>
     (if getPodType podLabels = ''router''
      then (\<exists>s. map_of podLabels ApplicationNamespaceSelectorLabelKey = Some s
              \<and> map_of (om_Labels (gw_meta g)) ApplicationNamespaceSelectorLabelKey = Some s)
      else if getPodType podLabels = ''slicegateway''
      then map_of podLabels SliceGatewaySelectorLabelKey = Some (gw_Name g)
      else getPodType podLabels \<in> {''netop'', ''nsm''})"

lemma set_gatewayRequests:
  "set (gatewayRequests gws) = (\<lambda>g. (om_Namespace (gw_meta g), gw_Name g)) ` set gws"
  by (simp add: gatewayRequests_def)

lemma getPodType_Nil [simp]: "getPodType [] = ''''"
  by (simp add: getPodType_def)

context reliable
begin

lemma gateways_listed:
  "findAllSliceGwObjects K w
     = (Inr (filter (\<lambda>g. om_Namespace (gw_meta g) = ControlPlaneNamespace) (w_slicegws w)), tick w)"
  "findObjectsForSliceRouterUpdate K s w
     = (Inr (filter (\<lambda>g. om_Namespace (gw_meta g) = ControlPlaneNamespace
          \<and> map_of (om_Labels (gw_meta g)) ApplicationNamespaceSelectorLabelKey = Some s) (w_slicegws w)), tick w)"
  by (simp_all add: findAllSliceGwObjects_def findObjectsForSliceRouterUpdate_def gwr.list_all_ok
      in_namespace_def selects_def [abs_def])

lemma gateway_got:
  "findObjectsForSliceGwUpdate K n w
     = (case find (keyed gw_meta ControlPlaneNamespace n) (w_slicegws w) of
          None \<Rightarrow> (Inl NotFound, tick w) | Some g \<Rightarrow> (Inr [g], tick w))"
  by (simp add: findObjectsForSliceGwUpdate_def gwr.get_found gwr.get_absent split: option.split)

lemma requests_of_pod:
  assumes "findSliceGwObjectsToReconcile K ls w = (rs, w')"
  shows "reads w w' \<and> set rs = (\<lambda>g. (om_Namespace (gw_meta g), gw_Name g)) ` {g \<in> set (w_slicegws w). concerns ls g}"
proof (cases "getPodType ls = ''slicegateway''")
  case True
  then have ne: "ls \<noteq> []" by auto
  show ?thesis
  proof (cases "map_of ls SliceGatewaySelectorLabelKey")
    case None
    with True ne assms show ?thesis by (auto simp: findSliceGwObjectsToReconcile_def concerns_def)
  next
    case (Some n)
    have c: "concerns ls g \<longleftrightarrow> keyed gw_meta ControlPlaneNamespace n g" for g
      using True Some by (auto simp: concerns_def keyed_def)
    show ?thesis
    proof (cases "find (keyed gw_meta ControlPlaneNamespace n) (w_slicegws w)")
      case None
      with True Some ne assms show ?thesis
        by (auto simp: findSliceGwObjectsToReconcile_def gateway_got orNone_def c find_None_iff)
    next
      case (Some g)
      then have g: "g \<in> set (w_slicegws w)" "keyed gw_meta ControlPlaneNamespace n g"
        by (auto simp: find_Some_iff)
      have "rs = [(ControlPlaneNamespace, n)]" "w' = tick w"
        using True \<open>map_of ls SliceGatewaySelectorLabelKey = Some n\<close> ne assms Some g
        by (auto simp: findSliceGwObjectsToReconcile_def gateway_got orNone_def gatewayRequests_def keyed_def)
      moreover have "(\<lambda>g. (om_Namespace (gw_meta g), gw_Name g)) ` {g \<in> set (w_slicegws w). concerns ls g}
          = {(ControlPlaneNamespace, n)}"
        using g by (auto simp: c keyed_def image_iff)
      ultimately show ?thesis by simp
    qed
  qed
next
  case False
  with assms show ?thesis
    by (auto simp: findSliceGwObjectsToReconcile_def findObjectsForNetopUpdate_def findObjectsForNsmUpdate_def
        gateways_listed orNone_def set_gatewayRequests concerns_def split: if_split_asm option.split_asm)
qed

lemma requests_of_update:
  assumes "EnqueueRequestsFromMapFunc (findSliceGwObjectsToReconcile K) ev w = (rs, w')"
  shows "reads w w' \<and> set rs = (\<lambda>g. (om_Namespace (gw_meta g), gw_Name g)) `
     {g \<in> set (w_slicegws w). \<exists>ls \<in> set_watch_event ev. concerns ls g}"
proof (cases ev)
  case (UpdateEvent old new)
  obtain r1 w1 r2 w2 where r: "findSliceGwObjectsToReconcile K old w = (r1, w1)"
      "findSliceGwObjectsToReconcile K new w1 = (r2, w2)" by fastforce
  note r1 = requests_of_pod [OF r(1)]
  note r2 = requests_of_pod [OF r(2)]
  from r1 have s: "w_slicegws w1 = w_slicegws w" by (blast dest: reads_sel)
  from assms UpdateEvent r have "rs = r1 @ r2" "w' = w2" by auto
  with r1 r2 s UpdateEvent show ?thesis by (auto intro: reads_trans)
qed (use requests_of_pod assms in auto)

end

lemma podWatch_requests:
  assumes "reliable K" and "sliceGwUpdPredicate ev"
  shows "set (fst (podWatch K ev w)) = (\<lambda>g. (om_Namespace (gw_meta g), gw_Name g)) `
     {g \<in> set (w_slicegws w). \<exists>ls \<in> set_watch_event ev. concerns ls g}"
  using reliable.requests_of_update [OF assms(1), of ev w "fst (podWatch K ev w)" "snd (podWatch K ev w)"] assms(2)
  by (simp add: podWatch_def)

text \<open>
  The event of a pod wakes up the gateways that it concerns. On a server without failures, an event
  of a pod that the watch accepts is answered by requests for exactly the gateways in the control
  plane that the pod, before or after an update, concerns: those of its slice for a slice router, the
  gateway itself for one of its pods, and all of them for NetOp and NSM.
\<close>

theorem pod_event_reaches_gateways:
  assumes "reliable K" and "podWatch K ev w = (rs, w')" and "sliceGwUpdPredicate ev"
  shows "reads w w' \<and> set rs = (\<lambda>g. (om_Namespace (gw_meta g), gw_Name g)) `
     {g \<in> set (w_slicegws w). \<exists>ls \<in> set_watch_event ev. concerns ls g}"
  using reliable.requests_of_update [OF assms(1), of ev w rs w'] assms(2,3) by (simp add: podWatch_def)

lemma matches_labels_get: "matches_labels sel ls \<Longrightarrow> map_of sel k = Some v \<Longrightarrow> map_of ls k = Some v"
  by (auto simp: matches_labels_def list_all_iff dest: map_of_SomeD)

lemma template_labels:
  "deploymentForGateway E ips g depName key w = (Some d, w') \<Longrightarrow>
     d_TemplateLabels d = labelsForSliceGwDeployment (gw_Name g) (gw_SliceName g) depName"
  "d_TemplateLabels (deploymentForSliceRouter K E s c dp) = labelsForSliceRouterDeployment (sl_Name s)"
  by (auto simp: deploymentForGateway_def deploymentForGatewayClient_def clientDeployment_def
      deploymentForGatewayServer_def deploymentForSliceRouter_def Let_def split: if_splits prod.splits option.splits)

lemma gateway_pod_labels:
  assumes "matches_labels (labelsForSliceGwDeployment name sliceName depName) ls"
  shows "getPodType ls = ''slicegateway''" "map_of ls SliceGatewaySelectorLabelKey = Some name"
    "matches_labels [(PodInjectLabelKey, ''slicegateway'')] ls"
  using matches_labels_get [OF assms, of PodInjectLabelKey] matches_labels_get [OF assms, of SliceGatewaySelectorLabelKey]
  by (simp_all add: labelsForSliceGwDeployment_def label_key_defs getPodType_def)

lemma router_pod_labels:
  assumes "matches_labels (labelsForSliceRouterDeployment name) ls"
  shows "getPodType ls = ''router''" "map_of ls ApplicationNamespaceSelectorLabelKey = Some name"
    "matches_labels [(PodInjectLabelKey, ''router'')] ls"
  using matches_labels_get [OF assms, of PodInjectLabelKey] matches_labels_get [OF assms, of ApplicationNamespaceSelectorLabelKey]
  by (simp_all add: labelsForSliceRouterDeployment_def label_key_defs getPodType_def)

text \<open>An event that ends with an object of given labels, which an update does not take away.\<close>

definition about :: "(labels \<Rightarrow> bool) \<Rightarrow> labels watch_event \<Rightarrow> bool" where
  "about P ev \<longleftrightarrow> (\<forall>ls \<in> set_watch_event ev. P ls)"

lemma about_current: "about P ev \<Longrightarrow> (\<And>ls. P ls \<Longrightarrow> Q ls) \<Longrightarrow> NewPredicateFuncs Q ev"
  by (cases ev) (auto simp: about_def)

lemma about_bex: "about P ev \<Longrightarrow> (\<And>ls. P ls \<Longrightarrow> Q ls \<longleftrightarrow> c) \<Longrightarrow> (\<exists>ls \<in> set_watch_event ev. Q ls) \<longleftrightarrow> c"
  by (cases ev) (auto simp: about_def)

text \<open>
  C9: What the operator deploys wakes it up again. On a server without failures, every event of a pod
  with the template labels of a deployment that was rendered for a gateway requests a pass over that
  gateway and no other, whatever other labels the pod has; every event of a pod of a slice router
  requests a pass over each gateway of its slice, and over no gateway of another slice.
\<close>

theorem rendered_pods_wake_gateways:
  assumes "reliable K"
    and "deploymentForGateway E ips g depName key w0 = (Some d, w1)"
    and "g \<in> set (w_slicegws w)" "om_Namespace (gw_meta g) = ControlPlaneNamespace"
    and "about (matches_labels (d_TemplateLabels d)) ev"
    and "about (matches_labels (d_TemplateLabels (deploymentForSliceRouter K E s c dp))) ev'"
  shows "set (fst (podWatch K ev w)) = {(ControlPlaneNamespace, gw_Name g)}
    \<and> set (fst (podWatch K ev' w)) = (\<lambda>g. (ControlPlaneNamespace, gw_Name g)) `
        {g \<in> set (w_slicegws w). om_Namespace (gw_meta g) = ControlPlaneNamespace
           \<and> map_of (om_Labels (gw_meta g)) ApplicationNamespaceSelectorLabelKey = Some (sl_Name s)}"
proof
  let ?key = "\<lambda>g. (om_Namespace (gw_meta g), gw_Name g)"
  note gw = assms(5) [unfolded template_labels(1) [OF assms(2)]]
  note rt = assms(6) [unfolded template_labels(2)]
  have "sliceGwUpdPredicate ev"
    unfolding sliceGwUpdPredicate_def by (blast intro: about_current [OF gw] gateway_pod_labels(3))
  then have "set (fst (podWatch K ev w)) = ?key ` {h \<in> set (w_slicegws w). \<exists>ls \<in> set_watch_event ev. concerns ls h}"
    using podWatch_requests [OF assms(1)] by simp
  moreover have "(\<exists>ls \<in> set_watch_event ev. concerns ls h)
      \<longleftrightarrow> om_Namespace (gw_meta h) = ControlPlaneNamespace \<and> gw_Name h = gw_Name g" for h
    by (rule about_bex [OF gw]) (auto simp: concerns_def gateway_pod_labels)
  ultimately show "set (fst (podWatch K ev w)) = {(ControlPlaneNamespace, gw_Name g)}"
    using assms(3,4) by (auto simp: image_iff)
  have "sliceGwUpdPredicate ev'"
    unfolding sliceGwUpdPredicate_def by (blast intro: about_current [OF rt] router_pod_labels(3))
  then have "set (fst (podWatch K ev' w)) = ?key ` {h \<in> set (w_slicegws w). \<exists>ls \<in> set_watch_event ev'. concerns ls h}"
    using podWatch_requests [OF assms(1)] by simp
  moreover have "(\<exists>ls \<in> set_watch_event ev'. concerns ls h) \<longleftrightarrow> om_Namespace (gw_meta h) = ControlPlaneNamespace
      \<and> map_of (om_Labels (gw_meta h)) ApplicationNamespaceSelectorLabelKey = Some (sl_Name s)" for h
    by (rule about_bex [OF rt]) (auto simp: concerns_def router_pod_labels)
  ultimately show "set (fst (podWatch K ev' w)) = (\<lambda>g. (ControlPlaneNamespace, gw_Name g)) `
      {g \<in> set (w_slicegws w). om_Namespace (gw_meta g) = ControlPlaneNamespace
         \<and> map_of (om_Labels (gw_meta g)) ApplicationNamespaceSelectorLabelKey = Some (sl_Name s)}"
    by (auto simp: image_iff)
qed

text \<open>
  A node counts when it gets the label of the gateway nodes and had labels before. One that loses the
  label, or whose address changes, is not noticed.
\<close>

lemma node_update_accepted:
  "nodePredicate (UpdateEvent old new) \<longleftrightarrow> old \<noteq> [] \<and> map_of old NodeTypeSelectorLabelKey = None
     \<and> map_of new NodeTypeSelectorLabelKey = Some ''gateway''"
  by (auto simp: nodePredicate_def)

text \<open>A pod of NSM that also carries the label of the webhook is accepted, and then maps to nothing.\<close>

lemma injected_nsm_pod_ignored:
  "sliceGwUpdPredicate (DeleteEvent [(''app'', ''nsmgr-daemonset''), (PodInjectLabelKey, ''app'')])"
  "podWatch K (DeleteEvent [(''app'', ''nsmgr-daemonset''), (PodInjectLabelKey, ''app'')]) w = ([], w)"
  by (simp_all add: sliceGwUpdPredicate_def podWatch_def findSliceGwObjectsToReconcile_def getPodType_def label_key_defs)

text \<open>A workload of a slice that loses a ready pod, or is deleted, wakes up its slice.\<close>

lemma lost_pod_reaches_slice:
  "map_of (ww_Labels old) ApplicationNamespaceSelectorLabelKey = Some s \<Longrightarrow> sint (ww_Ready new) < sint (ww_Ready old) \<Longrightarrow>
     (ControlPlaneNamespace, s) \<in> set (fst (workloadWatch (UpdateEvent old new) w))"
  "map_of (ww_Labels old) ApplicationNamespaceSelectorLabelKey = Some s \<Longrightarrow>
     (ControlPlaneNamespace, s) \<in> set (fst (workloadWatch (DeleteEvent old) w))"
  by (simp_all add: workloadWatch_def sliceOfWorkload_def label_or_empty_def)

lemma shouldProcess_iff: "shouldProcessVpnKeyRotation c vs \<longleftrightarrow> c \<in> set vs"
  by (induction vs) auto

section \<open>Examples\<close>

definition ex_watch_world :: world where
  "ex_watch_world = empty_world\<lparr>w_slicegws :=
     [ex_gateway ''red-a-b'' ''Server'', (ex_gateway ''red-a-c'' ''Server'')
        \<lparr>gw_meta := new_meta ''kubeslice-system'' ''red-a-c'' [(''kubeslice.io/slice'', ''red'')]\<rparr>]\<rparr>"

definition ex_gateway_pod_labels :: labels where
  "ex_gateway_pod_labels = (''pod-template-hash'', ''7d4'') # labelsForSliceGwDeployment ''red-a-b'' ''red'' ''red-a-b-0-0''"

lemma ex_kube_reliable: "reliable ex_kube"
  unfolding ex_kube_def by (rule up.reliable_axioms)

theorem pod_event_reaches_gateways_witness:
  "(''kubeslice-system'', ''red-a-b'') \<in> set (fst (podWatch ex_kube (DeleteEvent ex_gateway_pod_labels) ex_watch_world))"
proof -
  have "sliceGwUpdPredicate (DeleteEvent ex_gateway_pod_labels)" by code_simp
  note e = conjunct2 [OF pod_event_reaches_gateways [OF ex_kube_reliable prod.collapse [symmetric] this, of ex_watch_world]]
  show ?thesis unfolding e
    by (rule image_eqI [of _ _ "ex_gateway ''red-a-b'' ''Server''"])
      (simp_all add: ex_watch_world_def ex_gateway_pod_labels_def ex_gateway_def concerns_def getPodType_def
        labelsForSliceGwDeployment_def label_key_defs new_meta_def ControlPlaneNamespace_def)
qed

theorem rendered_pods_wake_gateways_witness:
  "set (fst (podWatch ex_kube (DeleteEvent ex_gateway_pod_labels) ex_watch_world)) = {(''kubeslice-system'', ''red-a-b'')}"
proof -
  let ?g = "ex_gateway ''red-a-b'' ''Server''" and ?s = "new_slice (new_meta ''kubeslice-system'' ''red'' [])"
  have d: "deploymentForGateway Map.empty [] ?g ''red-a-b-0-0'' 1 empty_world
      = (Some (deploymentForGatewayServer Map.empty [] ?g ''red-a-b-0-0'' 1), empty_world)"
    by (simp add: deploymentForGateway_def ex_gateway_def ex_config_def)
  have g: "?g \<in> set (w_slicegws ex_watch_world)" by (simp add: ex_watch_world_def)
  have ns: "om_Namespace (gw_meta ?g) = ControlPlaneNamespace" "gw_Name ?g = ''red-a-b''"
    by (simp_all add: ex_gateway_def new_meta_def ControlPlaneNamespace_def)
  have a: "about (matches_labels (d_TemplateLabels (deploymentForGatewayServer Map.empty [] ?g ''red-a-b-0-0'' 1)))
      (DeleteEvent ex_gateway_pod_labels)"
    by (simp add: about_def template_labels(1) [OF d] ex_gateway_pod_labels_def)
      (simp add: labelsForSliceGwDeployment_def ex_gateway_def new_meta_def label_key_defs)
  have b: "about (matches_labels (d_TemplateLabels (deploymentForSliceRouter ex_kube Map.empty ?s c '''')))
      (DeleteEvent (labelsForSliceRouterDeployment (sl_Name ?s)))" for c
    by (simp add: about_def template_labels(2)) (simp add: labelsForSliceRouterDeployment_def label_key_defs)
  from rendered_pods_wake_gateways [OF ex_kube_reliable d g ns(1) a b] ns show ?thesis
    by (simp add: ControlPlaneNamespace_def)
qed

end
