(* ===== verification/Peers.thy ===== *)
theory Peers
  imports SliceReconcile
begin

text \<open>
  The clients of the gRPC peers: \<open>pkg/gwsidecar\<close>, \<open>pkg/router\<close>, \<open>pkg/netop\<close> and \<open>pkg/gatewayedge\<close>. Each
  dials, renders its arguments into a message of the peer, and reads the reply; the connection and
  the peer are the parameter \<open>rpc\<close>. The reconcilers call the functions of \<open>K\<close>, which hold what these
  clients return.
\<close>

section \<open>Gateway sidecar\<close>

text \<open>The reply of the sidecar (\<open>gw_sidecar.pb.go\<close>): either part may be missing.\<close>

record nsm_interface_status =
  NsmInterfaceName :: string
  NsmIP :: string

record tunnel_interface_status =
  NetInterface :: string
  tis_LocalIP :: string
  PeerIP :: string
  tis_Latency :: "64 word"
  tis_TxRate :: "64 word"
  tis_RxRate :: "64 word"
  tis_PacketLoss :: "64 word"
  tis_Status :: int

record sidecar_status =
  NsmIntfStatus :: "nsm_interface_status option"
  TunnelIntfStatus :: "tunnel_interface_status option"

definition GW_TUNNEL_STATE_DOWN :: int where
  "GW_TUNNEL_STATE_DOWN = 1"

definition getTunnelState :: "int \<Rightarrow> string" where
  "getTunnelState tunnelState =
     (if tunnelState = GW_TUNNEL_STATE_UP then ''UP''
      else if tunnelState = GW_TUNNEL_STATE_DOWN then ''DOWN'' else ''UNKNOWN'')"

definition no_tunnel :: tunnel_status where
  "no_tunnel = \<lparr>IntfName = '''', LocalIP = '''', RemoteIP = '''', Latency = 0, TxRate = 0, RxRate = 0,
     PacketLoss = 0, ts_Status = 0, TunnelState = ''''\<rparr>"

definition tunnelOfReply :: "tunnel_interface_status option \<Rightarrow> tunnel_status" where
  "tunnelOfReply r =
     (case r of
        Some t \<Rightarrow>
          \<lparr>IntfName = NetInterface t, LocalIP = tis_LocalIP t, RemoteIP = PeerIP t, Latency = tis_Latency t,
           TxRate = tis_TxRate t, RxRate = tis_RxRate t, PacketLoss = tis_PacketLoss t,
           ts_Status = tis_Status t, TunnelState = getTunnelState (tis_Status t)\<rparr>
      | None \<Rightarrow> no_tunnel\<lparr>ts_Status := GW_TUNNEL_STATE_DOWN, TunnelState := getTunnelState GW_TUNNEL_STATE_DOWN\<rparr>)"

definition GetStatus :: "(string \<Rightarrow> world \<Rightarrow> (go_error + sidecar_status) \<times> world) \<Rightarrow> string \<Rightarrow> world
    \<Rightarrow> (go_error + gw_status) \<times> world" where
  "GetStatus rpc serverAddr w =
     (case rpc serverAddr w of
        (Inl e, w) \<Rightarrow> (Inl e, w)
      | (Inr res, w) \<Rightarrow>
          (Inr \<lparr>st_LocalNsmIP = (case NsmIntfStatus res of None \<Rightarrow> '''' | Some i \<Rightarrow> NsmIP i),
                st_Tunnel = tunnelOfReply (TunnelIntfStatus res)\<rparr>, w))"

definition GetSliceGwRemotePodName :: "(string \<Rightarrow> string \<Rightarrow> world \<Rightarrow> (go_error + string) \<times> world)
    \<Rightarrow> string \<Rightarrow> string \<Rightarrow> world \<Rightarrow> (go_error + string) \<times> world" where
  "GetSliceGwRemotePodName rpc gwRemoteVpnIP serverAddr w =
     (case rpc serverAddr gwRemoteVpnIP w of
        (Inl e, w) \<Rightarrow> (Inl e, w)
      | (Inr GatewayPodName, w) \<Rightarrow> (Inr GatewayPodName, w))"

text \<open>The QoS profile of a slice; a slice without a configuration is a nil dereference.\<close>

definition UpdateSliceQosProfile :: "(string \<Rightarrow> slice_qos \<Rightarrow> world \<Rightarrow> go_error option \<times> world)
    \<Rightarrow> string \<Rightarrow> slice \<Rightarrow> world \<Rightarrow> go_error option go \<times> world" where
  "UpdateSliceQosProfile rpc serverAddr s w =
     (case sl_Config s of
        None \<Rightarrow> (Panic, w)
      | Some c \<Rightarrow> (case rpc serverAddr (sliceQosProfile s c) w of (r, w) \<Rightarrow> (Ret r, w)))"

section \<open>Slice router\<close>

record client_connection =
  cc_PodName :: string
  cc_NsmInterface :: string
  cc_NsmIP :: string
  cc_NsmPeerIP :: string

definition appPodOfConnection :: "client_connection \<Rightarrow> app_pod" where
  "appPodOfConnection c =
     \<lparr>ap_PodName = cc_PodName c, ap_PodNamespace = '''', ap_PodIP = '''', ap_NsmIP = cc_NsmIP c,
      ap_NsmInterface = cc_NsmInterface c, ap_NsmPeerIP = cc_NsmPeerIP c\<rparr>"

definition GetClientConnectionInfo :: "(string \<Rightarrow> world \<Rightarrow> (go_error + client_connection list) \<times> world)
    \<Rightarrow> string \<Rightarrow> world \<Rightarrow> (go_error + app_pod list) \<times> world" where
  "GetClientConnectionInfo rpc addr w =
     (case rpc addr w of
        (Inl e, w) \<Rightarrow> (Inl e, w)
      | (Inr connections, w) \<Rightarrow> (Inr (map appPodOfConnection connections), w))"

section \<open>NetOp\<close>

datatype gw_host_type = SLICE_GW_SERVER | SLICE_GW_CLIENT

record netop_context =
  nc_SliceId :: string
  LocalSliceGwId :: string
  LocalSliceGwVpnIP :: string
  LocalSliceGwHostType :: gw_host_type
  LocalSliceGwNsmSubnet :: string
  LocalSliceGwNodePorts :: "string list"
  RemoteSliceGwId :: string
  nc_RemoteSliceGwVpnIP :: string
  RemoteSliceGwHostType :: gw_host_type
  nc_RemoteSliceGwNsmSubnet :: string
  RemoteSliceGwNodeIP :: string
  RemoteSliceGwNodePorts :: "string list"

definition convertIntSliceToStringSlice :: "int list \<Rightarrow> string list" where
  "convertIntSliceToStringSlice intSlice = map itoa intSlice"

text \<open>
  The condition is \<open>nodeips != nil || len(nodeips) > 0\<close>, so nil, which is \<open>None\<close> here, differs from
  an empty slice.
\<close>

definition getRemoteSliceGwNodeIP :: "string list option \<Rightarrow> string go" where
  "getRemoteSliceGwNodeIP nodeips =
     (case nodeips of None \<Rightarrow> Ret '''' | Some [] \<Rightarrow> Panic | Some (ip # _) \<Rightarrow> Ret ip)"

definition netopContext :: "slice_gateway \<Rightarrow> string list option \<Rightarrow> int list \<Rightarrow> netop_context go" where
  "netopContext g remoteNodeIPs sliceGwNodePorts =
     (let c = gw_Config g; server = (SliceGatewayHostType c = ''Server'')
      in case getRemoteSliceGwNodeIP remoteNodeIPs of
           Panic \<Rightarrow> Panic
         | Ret ip \<Rightarrow> Ret
             \<lparr>nc_SliceId = cfg_SliceName c, LocalSliceGwId = SliceGatewayID c,
              LocalSliceGwVpnIP = SliceGatewayLocalVpnIP c,
              LocalSliceGwHostType = (if server then SLICE_GW_SERVER else SLICE_GW_CLIENT),
              LocalSliceGwNsmSubnet = SliceGatewaySubnet c,
              LocalSliceGwNodePorts = convertIntSliceToStringSlice sliceGwNodePorts,
              RemoteSliceGwId = SliceGatewayRemoteGatewayID c,
              nc_RemoteSliceGwVpnIP = SliceGatewayRemoteVpnIP c,
              RemoteSliceGwHostType = (if server then SLICE_GW_CLIENT else SLICE_GW_SERVER),
              nc_RemoteSliceGwNsmSubnet = SliceGatewayRemoteSubnet c,
              RemoteSliceGwNodeIP = ip,
              RemoteSliceGwNodePorts = convertIntSliceToStringSlice sliceGwNodePorts\<rparr>)"

definition SendConnectionContext :: "(string \<Rightarrow> netop_context \<Rightarrow> world \<Rightarrow> go_error option \<times> world)
    \<Rightarrow> string \<Rightarrow> slice_gateway \<Rightarrow> string list option \<Rightarrow> int list \<Rightarrow> world \<Rightarrow> go_error option go \<times> world" where
  "SendConnectionContext rpc serverAddr g remoteNodeIPs sliceGwNodePorts w =
     (case netopContext g remoteNodeIPs sliceGwNodePorts of
        Panic \<Rightarrow> (Panic, w)
      | Ret c \<Rightarrow> (case rpc serverAddr c w of (r, w) \<Rightarrow> (Ret r, w)))"

section \<open>Properties\<close>

lemma tunnel_of_reply:
  "ts_Status (tunnelOfReply r) = GW_TUNNEL_STATE_UP
     \<longleftrightarrow> (\<exists>t. r = Some t \<and> tis_Status t = GW_TUNNEL_STATE_UP)"
  "TunnelState (tunnelOfReply r) = getTunnelState (ts_Status (tunnelOfReply r))"
  by (cases r; simp add: tunnelOfReply_def GW_TUNNEL_STATE_UP_def GW_TUNNEL_STATE_DOWN_def)+

text \<open>
  A tunnel counts as up only when the sidecar says so. The status of a gateway pod that the client
  returns has an open tunnel exactly if the reply has the status of a tunnel and that is the state
  up; a reply without it is a closed tunnel. Number and text of the state agree.
\<close>

theorem tunnel_up_iff_reported:
  assumes "GetStatus rpc a w = (Inr st, w')"
  shows "\<exists>res. rpc a w = (Inr res, w')
    \<and> (ts_Status (st_Tunnel st) = GW_TUNNEL_STATE_UP
         \<longleftrightarrow> (\<exists>t. TunnelIntfStatus res = Some t \<and> tis_Status t = GW_TUNNEL_STATE_UP))
    \<and> TunnelState (st_Tunnel st) = getTunnelState (ts_Status (st_Tunnel st))"
  using assms by (auto simp: GetStatus_def tunnel_of_reply split: prod.split_asm sum.split_asm)

text \<open>
  A state that is left out of the message of the sidecar is 0, which is the state up.
\<close>

text \<open>
  The bandwidth that a peer is told is the configured one if and only if that fits into 32 bits;
  any other value, a negative one included, arrives reduced modulo \<open>2 ^ 32\<close>.
\<close>

theorem bandwidth_exact_iff:
  "(uint (BwCeiling (sliceQosProfile s c)) = qos_BandwidthCeilingKbps (sc_QosProfileDetails c)
      \<longleftrightarrow> 0 \<le> qos_BandwidthCeilingKbps (sc_QosProfileDetails c)
        \<and> qos_BandwidthCeilingKbps (sc_QosProfileDetails c) < 2 ^ 32)
   \<and> uint (BwCeiling (sliceQosProfile s c)) = qos_BandwidthCeilingKbps (sc_QosProfileDetails c) mod 2 ^ 32"
proof -
  let ?x = "qos_BandwidthCeilingKbps (sc_QosProfileDetails c)"
  have u: "uint (BwCeiling (sliceQosProfile s c)) = ?x mod 2 ^ 32"
    by (simp add: sliceQosProfile_def unsigned_of_int take_bit_eq_mod)
  have "?x mod 2 ^ 32 = ?x \<longleftrightarrow> 0 \<le> ?x \<and> ?x < 2 ^ 32" by (auto simp: zmod_trivial_iff)
  with u show ?thesis by simp
qed

text \<open>The two ends of a gateway have opposite roles, and the ports are readable numbers.\<close>

lemma netop_roles:
  "netopContext g ips ports = Ret c \<Longrightarrow> LocalSliceGwHostType c \<noteq> RemoteSliceGwHostType c"
  "list_all (\<lambda>p. - (2 ^ 63) \<le> p \<and> p < 2 ^ 63) ports \<Longrightarrow>
     map atoi (convertIntSliceToStringSlice ports) = map Some ports"
  by (auto simp: netopContext_def Let_def convertIntSliceToStringSlice_def list_all_iff atoi_itoa
      split: go.split_asm if_split_asm)

lemma empty_node_ips_panic: "netopContext g (Some []) ports = Panic"
  by (simp add: netopContext_def getRemoteSliceGwNodeIP_def Let_def)

definition ex_tunnel_reply :: sidecar_status where
  "ex_tunnel_reply = \<lparr>NsmIntfStatus = None, TunnelIntfStatus = Some \<lparr>NetInterface = ''tun0'', tis_LocalIP = ''10.1.1.1'',
     PeerIP = ''10.1.1.2'', tis_Latency = 3, tis_TxRate = 0, tis_RxRate = 0, tis_PacketLoss = 0, tis_Status = 0\<rparr>\<rparr>"

theorem tunnel_up_iff_reported_witness:
  "\<exists>st. GetStatus (\<lambda>a w. (Inr ex_tunnel_reply, w)) ''10.0.0.7:5000'' empty_world = (Inr st, empty_world)
     \<and> ts_Status (st_Tunnel st) = GW_TUNNEL_STATE_UP"
proof -
  obtain st where st: "GetStatus (\<lambda>a w. (Inr ex_tunnel_reply, w)) ''10.0.0.7:5000'' empty_world = (Inr st, empty_world)"
    by (simp add: GetStatus_def)
  from tunnel_up_iff_reported [OF st] show ?thesis
    using st by (intro exI [of _ st]) (simp add: ex_tunnel_reply_def GW_TUNNEL_STATE_UP_def)
qed

end
