(* ===== verification/Spec2Isabelle.thy ===== *)
theory Spec2Isabelle
  imports GatewayNaming NodePorts RecyclerProtocol VpnRotation EdgePorts AllowedNamespaces HubHealth HubGateway HubImport ExportIstio ImportIstio ClusterPass NetworkPolicy Watches Peers
begin

text \<open>
  A model of the reconcilers of the KubeSlice worker operator
  (\<open>github.com/kubeslice/worker-operator\<close>), and what they keep.

  The program. The worker operator runs in a cluster that takes part in slices (overlay networks
  across clusters). A slice is connected to other clusters by slice gateways: pairs of VPN pods,
  a server side and a client side, one deployment per instance. The operator is a set of
  reconcilers: each watches one kind of custom resource and, per pass, reads objects from the API
  server of its cluster and of the hub cluster, compares, and creates, updates or deletes objects
  until they agree. These are modelled here:

    \<^item> the slice gateway reconciler (\<open>controllers/slicegateway\<close>) keeps the deployments, services,
      endpoints, disruption budget and status of a gateway, and tells the slice router, the
      gateway sidecars and the NetOp pods how to send traffic;
    \<^item> the gateway recycler (\<open>pkg/hub/controllers/workerslicegwrecycler\<close>) replaces a pair of
      gateway deployments without interrupting traffic: a protocol between the reconcilers of
      the two clusters, who meet in the resource \<open>WorkerSliceGwRecycler\<close> on the hub;
    \<^item> the VPN key rotation reconciler (\<open>pkg/hub/controllers/vpnkeyrotation\<close>) renews the
      certificates of the gateways and starts the recyclers that put them into use;
    \<^item> the slice reconciler (\<open>controllers/slice\<close>) binds the application namespaces to their slice,
      isolates them with network policies, runs the slice router and the gateway edge, records
      the application pods, and cleans up when a slice is deleted;
    \<^item> the hub controllers (\<open>pkg/hub/controllers\<close>) bring slices, slice gateways with their
      certificates and imported services from the hub to the cluster, and report the health of
      a slice to the hub;
    \<^item> the service export and import reconcilers (\<open>controllers/serviceexport\<close>,
      \<open>controllers/serviceimport\<close>) publish the pods behind a service on the hub, and make the
      services of other clusters reachable, with service entries and virtual services of istio;
    \<^item> the cluster reconciler (\<open>pkg/hub/controllers/cluster\<close>) reports the addresses, the network
      and the health of the cluster to the hub and removes the operator when the cluster is
      deregistered; the node and namespace reconcilers (\<open>pkg/cluster\<close>, \<open>pkg/namespace\<close>) feed it;
    \<^item> the admission webhook (\<open>pkg/webhook/pod\<close>) connects the workloads of application namespaces
      to their slice and checks the aliases of service exports; the network policy reconciler
      (\<open>pkg/networkpolicy\<close>) guards the isolation of the slice.

  The hub controllers write the configuration that the slice and slice gateway reconcilers read.
  The slice gateway reconciler starts recyclers to rebalance pods over nodes, creates the
  intermediate deployments that a recycler asks for in the gateway's status, and deletes the
  deployments that a recycler has marked; the rotation reconciler starts recyclers and waits
  until they are gone.

  The state. \<open>ApiTypes\<close> has the objects as records (Go structs of \<open>api/v1beta1\<close> and of the
  Kubernetes API, with the fields the code uses) and the record \<open>world\<close>: the objects in both
  clusters, the process state of the operator (the port map \<open>gwClientToRemotePortMap\<close>, the list
  of NetOp pods, the state machines of the recycler) and the messages it has sent. Functions
  that touch the state take a world and return the world after them; a Go \<open>error\<close> is a
  \<open>go_error option\<close>, a pair of value and error a sum, a panic the value \<open>Panic\<close> of the type
  \<open>'a go\<close>. \<open>KubeApi\<close> has the calls of the API servers and of the gRPC peers as a record of functions
  (\<open>kube\<close>): this is code outside the repository, so it is a parameter \<open>K\<close> of every definition.
  The locale \<open>resource\<close> states what the client-go interface documents for one kind of object
  (a get answers with the object of that key, a list with the objects that match, a write that
  succeeds has its effect, a call that fails has none), and \<open>lawful\<close> puts thirty-five kinds and the
  gRPC calls together. Any call may fail at any time. \<open>ref_kube\<close> is an API server in memory with
  chosen failures and replies; it is proved lawful, and the witnesses run on it
  (\<open>Examples\<close>). The locale \<open>reliable\<close> (\<open>ReliableApi\<close>) extends \<open>lawful\<close> with a server that fails
  only for the documented reasons; convergence is proved under it.

  Theories and code:

    \<^item> \<open>Prelude\<close>: errors, results, \<open>strings.Split\<close>, \<open>strconv\<close>, labels, association lists for Go
      maps; locales for invariants and rankings of transition systems.
    \<^item> \<open>ApiTypes\<close>, \<open>KubeApi\<close>, \<open>Examples\<close>: as above.
    \<^item> \<open>GatewayUtils\<close>: \<open>controllers/slicegateway/utils.go\<close> and the comparison of endpoints and pod
      status in \<open>slicegateway.go\<close>.
    \<^item> \<open>GatewayNaming\<close>: the names of deployments and pods, \<open>getNewDeploymentName\<close> of the recycler;
      locale \<open>naming\<close>, which \<open>getNewDeploymentName\<close> interprets.
    \<^item> \<open>NodePorts\<close>: the map of client deployments to node ports (\<open>allocateNodePortToClient\<close>, the
      choice in \<open>deploymentForGatewayClient\<close>); locale \<open>port_allocator\<close> with both of them as
      interpretations.
    \<^item> \<open>GatewayDeployment\<close>: what is rendered: the deployments of both sides, their containers and
      volumes, services, endpoints, the disruption budget, and the change of the node port.
    \<^item> \<open>HubClient\<close>: \<open>pkg/hub/hubclient/hubclient.go\<close>, \<open>pkg/slicegwrecycler\<close>, \<open>retry.RetryOnConflict\<close>.
    \<^item> \<open>GatewayReconcile\<close>: the passes over services, deployments and intermediate deployments
      (\<open>ReconcileGatewayServices\<close>, \<open>ReconcileGatewayDeployments\<close>, \<open>ReconcileIntermediateGatewayDeployments\<close>).
    \<^item> \<open>GatewayTraffic\<close>: endpoints, status, connection contexts, placement, deletion, and the pass of
      the reconciler, \<open>Reconcile\<close>, with all early returns.
    \<^item> \<open>Recycler\<close>, \<open>RecyclerProtocol\<close>: the recycler, and the protocol.
    \<^item> \<open>VpnRotation\<close>: the rotation of the keys; locale \<open>rotation_predicate\<close> for what all passes keep.
    \<^item> \<open>SliceNamespaces\<close>, \<open>NamespaceBinding\<close>, \<open>AllowedNamespaces\<close>: \<open>controllers/slice/namespaces.go\<close>: the
      operations, what a pass does to the application namespaces, and to the allowed ones.
    \<^item> \<open>SliceRouter\<close>: \<open>slicerouter.go\<close>, \<open>slice_gw_edge.go\<close>, \<open>net_op.go\<close>; \<open>Manifests\<close>:
      \<open>pkg/manifest\<close>; \<open>SliceReconcile\<close>: application pods, deletion and the pass
      (\<open>app_pod.go\<close>, \<open>utils.go\<close>, \<open>reconciler.go\<close>); \<open>EdgePorts\<close>: the properties of router and edge.
    \<^item> \<open>HubObjects\<close>: what the hub controllers share, the finalizer on the hub object (locale
      \<open>hub_object\<close>, with one interpretation per controller); \<open>HubSlice\<close>, \<open>HubHealth\<close>:
      \<open>slice_controller.go\<close>; \<open>HubGateway\<close>: \<open>slicegateway_controller.go\<close>; \<open>HubImport\<close>:
      \<open>serviceimport_controller.go\<close>.
    \<^item> \<open>IstioObjects\<close>: the istio objects that exports and imports share; \<open>ServiceExport\<close>,
      \<open>ServiceImport\<close>: the two reconcilers; \<open>ExportSync\<close>: what is published on the hub (locale
      \<open>export_steps_inv\<close> for what every step keeps); \<open>ExportIstio\<close>, \<open>ImportIstio\<close>: the istio objects
      after a pass.
    \<^item> \<open>ClusterInfo\<close>: nodes, NSM prefixes and namespace reports; \<open>ClusterReconcile\<close>:
      \<open>reconciler.go\<close> and \<open>deregister.go\<close> of the cluster controller; \<open>ClusterSafety\<close>: when the operator
      is removed, and the types of the status; \<open>ClusterPass\<close>: what a pass leaves on the hub.
    \<^item> \<open>Watches\<close>: which events start a pass (\<open>SetupWithManager\<close> of the slice gateway, slice and service
      export reconcilers, filters of \<open>pkg/hub/manager\<close>); \<open>Peers\<close>: the gRPC clients (\<open>pkg/gwsidecar\<close>,
      \<open>pkg/router\<close>, \<open>pkg/netop\<close>), as far as they do more than copy.
    \<^item> \<open>Webhook\<close>: injection, admission, aliases; \<open>NetworkPolicy\<close>: the policies of the slice and of others,
      address blocks as 32-bit words.

  What the properties show. Deployments: a pass makes one kind of change (\<open>reconcile_deployments_step\<close>),
  loses nothing that is not marked, converges to all instances on a server without failures, and
  panics in one situation only. Services and ports: the services of a gateway are those of its
  deployments when the pass settles, no two client deployments share a port as long as the
  process lives, rendering and reading a port agree. Traffic: the status repeats what the
  sidecars said, the router gets exactly the pods with an open tunnel that the recycler
  has not excluded. Recycling: phases only go forward, the old deployments are marked only after
  both clusters have seen the new ones with their routes, and with stale reads and interleaved
  writes there is one writer at a time and always one who can move. Rotation: recyclers start only
  with the certificates in place, a rotation ends only after its recyclers. Slices: the
  namespaces bound to a slice become those that are configured, and stay so; isolation admits
  the namespaces of the slice, the control plane and the allowed ones; the finalizer goes only after
  the clean up; router and edge settle. Hub: what the cluster has after a pass is what the hub
  says, field by field, and the object on the hub loses its finalizer only after its copy is gone;
  the health of a slice is characterised by the pods and tunnels of the cluster. Services: an export
  that rests is published with the pods behind it, the istio objects follow the pods and the
  endpoints. Cluster: the status on the hub is that of the cluster and stays within the declared
  constants, the operator is removed from a cluster without slices only, and a deregistration that
  stopped half-way is not taken up again. Admission: only workloads of a configured namespace are
  injected, removal from the slice restores their templates, aliases stay unique. Policies: the one of
  the slice is put back whatever was written into it, and another one is reported exactly when it
  admits a namespace that does not belong. Watches: the pods that are deployed for a gateway or a
  slice router wake up the gateways that they concern, and no others.

  Bounds and fuel. \<open>RetryOnConflict\<close> and \<open>retry.Do\<close> are recursions over the number of attempts that
  the code sets (5 for \<open>retry.DefaultRetry\<close>, 10 in the recycler, 100 in the rotation); that number
  is the bound of the Go loop, not an approximation of it. All other loops run over lists.

  Abstractions. A pass is atomic, except in \<open>proto_step\<close>, where reads and writes of the two sides
  interleave. Log output, recorded events, metrics and owner references are left out. A status
  update replaces the whole object, as an update does. Go maps are association lists with distinct
  keys; where the code ranges over a map, the order is a parameter or the property holds of
  the contents only. An empty slice and a nil slice are both the empty list. Times are seconds since the epoch;
  the time zone of \<open>time.Now\<close> is a parameter of the rotation. \<open>math.Ceil\<close> of a quotient is
  \<open>ceil_div\<close>. The reference server does not remove an object with a deletion timestamp when its
  last finalizer goes.

  Not modelled: the registration of controllers and gauges and the start-up of the managers (\<open>main\<close>,
  \<open>pkg/hub/manager\<close>), which are wiring of controller-runtime; the connections of the gRPC clients,
  whose calls are functions of \<open>K\<close>; metrics, logs and the recording of events, which write only;
  generated code. \<open>PROJECT.json\<close> beside this directory has the list.
\<close>

end
